(* ===== verification/Rust_Text.thy ===== *)
theory Rust_Text
  imports Prelude
begin

text \<open>
  Rust strings. A \<open>text\<close> is the list of the Unicode scalar values of a \<open>str\<close>; \<open>lit\<close> embeds
  the ASCII literals of the sources. \<open>trim\<close>, \<open>is_whitespace\<close> and \<open>is_control\<close> follow the
  Unicode properties \<open>White_Space\<close> and \<open>Cc\<close> in full. \<open>to_lowercase\<close> maps ASCII letters and
  the only two other code points whose lower case contains an ASCII letter; every comparison
  the modelled code makes on a lowered string has an ASCII side (up to white space), so the
  remaining case pairs cannot change a result.
\<close>

type_synonym uchar = nat
type_synonym "text" = "uchar list"

definition lit :: "string \<Rightarrow> text" where
  "lit s = map of_char s"

lemma lit_inject [simp]: "lit a = lit b \<longleftrightarrow> a = b"
  by (auto simp: lit_def inj_on_def intro: map_injective)

lemma lit_Nil [simp]: "lit [] = []" "lit s = [] \<longleftrightarrow> s = []" "[] = lit s \<longleftrightarrow> s = []"
  by (simp_all add: lit_def)

definition is_whitespace :: "uchar \<Rightarrow> bool" where
  "is_whitespace c \<longleftrightarrow> 9 \<le> c \<and> c \<le> 13 \<or> c = 32 \<or> c = 133 \<or> c = 160 \<or> c = 5760
     \<or> 8192 \<le> c \<and> c \<le> 8202 \<or> c = 8232 \<or> c = 8233 \<or> c = 8239 \<or> c = 8287 \<or> c = 12288"

definition is_control :: "uchar \<Rightarrow> bool" where
  "is_control c \<longleftrightarrow> c < 32 \<or> 127 \<le> c \<and> c \<le> 159"

definition trim_start_matches :: "(uchar \<Rightarrow> bool) \<Rightarrow> text \<Rightarrow> text" where
  "trim_start_matches p t = dropWhile p t"

definition trim_end_matches :: "(uchar \<Rightarrow> bool) \<Rightarrow> text \<Rightarrow> text" where
  "trim_end_matches p t = rev (dropWhile p (rev t))"

definition trim_matches :: "(uchar \<Rightarrow> bool) \<Rightarrow> text \<Rightarrow> text" where
  "trim_matches p t = trim_end_matches p (trim_start_matches p t)"

definition trim :: "text \<Rightarrow> text" where
  "trim t = trim_matches is_whitespace t"

definition trim_start :: "text \<Rightarrow> text" where
  "trim_start t = trim_start_matches is_whitespace t"

definition lower_char :: "uchar \<Rightarrow> text" where
  "lower_char c = (if 65 \<le> c \<and> c \<le> 90 then [c + 32]
     else if c = 8490 then [107] else if c = 304 then [105, 775] else [c])"

definition to_lowercase :: "text \<Rightarrow> text" where
  "to_lowercase t = concat (map lower_char t)"

definition ascii_lower :: "uchar \<Rightarrow> uchar" where
  "ascii_lower c = (if 65 \<le> c \<and> c \<le> 90 then c + 32 else c)"

definition eq_ignore_ascii_case :: "text \<Rightarrow> text \<Rightarrow> bool" where
  "eq_ignore_ascii_case a b = (map ascii_lower a = map ascii_lower b)"

definition starts_with :: "text \<Rightarrow> text \<Rightarrow> bool" where
  "starts_with t p = (take (length p) t = p)"

definition ends_with :: "text \<Rightarrow> text \<Rightarrow> bool" where
  "ends_with t s = starts_with (rev t) (rev s)"

definition strip_prefix :: "text \<Rightarrow> text \<Rightarrow> text option" where
  "strip_prefix t p = (if starts_with t p then Some (drop (length p) t) else None)"

text \<open>The number of bytes of the UTF-8 encoding, which is what \<open>str::len\<close> counts.\<close>

definition len_utf8 :: "uchar \<Rightarrow> nat" where
  "len_utf8 c = (if c < 128 then 1 else if c < 2048 then 2 else if c < 65536 then 3 else 4)"

definition str_len :: "text \<Rightarrow> nat" where
  "str_len t = sum_list (map len_utf8 t)"

text \<open>\<open>str::split\<close> on a set of characters: always at least one piece.\<close>

fun split_on :: "(uchar \<Rightarrow> bool) \<Rightarrow> text \<Rightarrow> text list" where
  "split_on p [] = [[]]"
| "split_on p (c # cs) =
     (if p c then [] # split_on p cs
      else case split_on p cs of [] \<Rightarrow> [[c]] | w # ws \<Rightarrow> (c # w) # ws)"

definition split_whitespace :: "text \<Rightarrow> text list" where
  "split_whitespace t = filter (\<lambda>w. w \<noteq> []) (split_on is_whitespace t)"

lemma starts_with_iff: "starts_with t p \<longleftrightarrow> (\<exists>r. t = p @ r)"
  unfolding starts_with_def by (metis append_take_drop_id append_eq_conv_conj)

lemma ends_with_iff: "ends_with t s \<longleftrightarrow> (\<exists>r. t = r @ s)"
  unfolding ends_with_def starts_with_iff
  by (metis rev_append rev_rev_ident)

lemma split_on_nonempty [simp]: "split_on p t \<noteq> []"
  by (induction t) (auto split: list.splits)

lemma split_on_pieces: "w \<in> set (split_on p t) \<Longrightarrow> c \<in> set w \<Longrightarrow> \<not> p c"
  by (induction t arbitrary: w) (fastforce split: if_splits list.splits)+

lemma split_on_id: "\<forall>c \<in> set t. \<not> p c \<Longrightarrow> split_on p t = [t]"
  by (induction t) auto

text \<open>Trimming text that has no white space changes nothing.\<close>

lemma trim_id: "\<forall>c \<in> set t. \<not> is_whitespace c \<Longrightarrow> trim t = t"
proof -
  assume a: "\<forall>c \<in> set t. \<not> is_whitespace c"
  have d: "dropWhile is_whitespace u = u" if "\<forall>c \<in> set u. \<not> is_whitespace c" for u
    using that by (cases u) auto
  show ?thesis
    using d [OF a] d [of "rev t"] a
    by (simp add: trim_def trim_matches_def trim_start_matches_def trim_end_matches_def)
qed

lemma trim_ends:
  assumes "trim t \<noteq> []"
  shows "\<not> is_whitespace (hd (trim t))" "\<not> is_whitespace (last (trim t))"
proof -
  let ?s = "dropWhile is_whitespace t"
  let ?r = "dropWhile is_whitespace (rev ?s)"
  have t: "trim t = rev ?r"
    by (simp add: trim_def trim_matches_def trim_start_matches_def trim_end_matches_def)
  with assms have ne: "?r \<noteq> []" by simp
  have hd_r: "\<not> is_whitespace (hd ?r)"
    using ne by (rule hd_dropWhile)
  then show "\<not> is_whitespace (last (trim t))"
    using ne by (simp add: t last_rev)
  have suf: "rev ?s = takeWhile is_whitespace (rev ?s) @ ?r" by simp
  then have s: "?s = rev ?r @ rev (takeWhile is_whitespace (rev ?s))"
    by (metis rev_append rev_rev_ident)
  then have "hd ?s = hd (rev ?r)" using ne by (metis hd_append2 rev_is_Nil_conv)
  moreover have "?s \<noteq> []" using ne by (metis dropWhile.simps(1) rev.simps(1))
  then have "\<not> is_whitespace (hd ?s)" by (rule hd_dropWhile)
  ultimately show "\<not> is_whitespace (hd (trim t))" by (simp add: t)
qed

lemma trim_trim [simp]: "trim (trim t) = trim t"
proof (cases "trim t = []")
  case True
  then show ?thesis
    by (simp only:) (simp add: trim_def trim_matches_def trim_start_matches_def trim_end_matches_def)
next
  case False
  note e = trim_ends [OF False]
  have "dropWhile is_whitespace (trim t) = trim t"
    using False e(1) by (cases "trim t") auto
  moreover have "dropWhile is_whitespace (rev (trim t)) = rev (trim t)"
    using False e(2) by (cases "rev (trim t)") (auto simp: last_rev [symmetric] hd_rev)
  ultimately show ?thesis
    unfolding trim_def [of "trim t"]
    by (simp add: trim_matches_def trim_start_matches_def trim_end_matches_def)
qed

lemma trim_part: "\<exists>pre post. t = pre @ trim t @ post"
proof -
  let ?s = "dropWhile is_whitespace t"
  have "?s = rev (takeWhile is_whitespace (rev ?s) @ dropWhile is_whitespace (rev ?s))"
    by (simp only: takeWhile_dropWhile_id rev_rev_ident)
  then have "?s = trim t @ rev (takeWhile is_whitespace (rev ?s))"
    by (simp only: trim_def trim_matches_def trim_start_matches_def trim_end_matches_def rev_append)
  then show ?thesis by (metis takeWhile_dropWhile_id)
qed

text \<open>Evaluation of the text operations on ASCII literals.\<close>

lemma length_lit [simp]: "length (lit s) = length s"
  by (simp add: lit_def)

lemma take_lit [simp]: "take n (lit s) = lit (take n s)"
  by (simp add: lit_def take_map)

lemma drop_lit [simp]: "drop n (lit s) = lit (drop n s)"
  by (simp add: lit_def drop_map)

lemma rev_lit [simp]: "rev (lit s) = lit (rev s)"
  by (simp add: lit_def rev_map)

lemma append_lit [simp]: "lit a @ lit b = lit (a @ b)"
  by (simp add: lit_def)

lemma ends_with_lit [simp]:
  "ends_with (lit a) (lit b) \<longleftrightarrow> take (length b) (rev a) = rev b"
  by (simp add: ends_with_def starts_with_def)

lemma starts_with_lit [simp]: "starts_with (lit a) (lit b) \<longleftrightarrow> take (length b) a = b"
  by (simp add: starts_with_def)

text \<open>A literal without white space and capitals is its own trimmed, lowered form.\<close>

definition plain_char :: "char \<Rightarrow> bool" where
  "plain_char c \<longleftrightarrow> \<not> is_whitespace (of_char c) \<and> \<not> (65 \<le> (of_char c :: nat) \<and> (of_char c :: nat) \<le> 90)"

lemma of_char_neq: "256 \<le> n \<Longrightarrow> of_char c \<noteq> (n :: nat)"
  by (cases c) (auto simp: of_char_def)

lemma lower_char_plain: "plain_char c \<Longrightarrow> lower_char (of_char c) = [of_char c]"
  using of_char_neq [of 8490 c] of_char_neq [of 304 c]
  by (auto simp: lower_char_def plain_char_def)

lemma lower_plain: "list_all plain_char s \<Longrightarrow> to_lowercase (lit s) = lit s"
  by (induction s) (simp_all add: to_lowercase_def lit_def lower_char_plain)

lemma trim_lower_plain: "list_all plain_char s \<Longrightarrow> to_lowercase (trim (lit s)) = lit s"
proof -
  assume p: "list_all plain_char s"
  then have "trim (lit s) = lit s"
    by (intro trim_id) (auto simp: lit_def plain_char_def list_all_iff)
  with p show ?thesis by (simp add: lower_plain)
qed

section \<open>Numbers\<close>

text \<open>\<open>str::parse\<close> for an unsigned type: decimal digits after an optional plus sign.\<close>

fun parse_digits :: "nat \<Rightarrow> nat \<Rightarrow> text \<Rightarrow> nat option" where
  "parse_digits bound n [] = Some n"
| "parse_digits bound n (c # cs) =
     (if 48 \<le> c \<and> c \<le> 57 \<and> n * 10 + (c - 48) < bound then parse_digits bound (n * 10 + (c - 48)) cs
      else None)"

definition parse_unsigned :: "nat \<Rightarrow> text \<Rightarrow> nat option" where
  "parse_unsigned bound t =
     (let digits = (case t of c # cs \<Rightarrow> if c = 43 then cs else t | [] \<Rightarrow> t)
      in if digits = [] then None else parse_digits bound 0 digits)"

definition parse_usize :: "text \<Rightarrow> nat option" where
  "parse_usize t = parse_unsigned (2 ^ 64) t"

end
