(* ===== verification/Detect.thy ===== *)
theory Detect
  imports Rust_Text
begin

text \<open>
  Agent identification, \<open>src/detect/mod.rs\<close>: the agents and their labels, the tables that say
  which hook integrations own an agent's life cycle, and the identification of an agent from
  the processes of a pane's foreground job.

  Resolving a path through the file system (\<open>std::fs::canonicalize\<close>) is the parameter
  \<open>resolve\<close>: the file name of the canonical path, when there is one.
\<close>

section \<open>Agents and their labels\<close>

datatype agent_state = Idle | Working | Blocked | Unknown

record agent_detection =
  det_state :: agent_state
  det_skip_state_update :: bool
  det_visible_idle :: bool
  det_visible_blocker :: bool
  det_visible_working :: bool

datatype agent = Pi | Claude | Codex | Gemini | Cursor | Devin | Antigravity | Cline | Omp
  | Mastracode | OpenCode | GithubCopilot | Kimi | Kiro | Droid | Amp | Grok | Hermes | Kilo
  | Qodercli | Maki

definition all_agents :: "agent list" where
  "all_agents = [Pi, Claude, Codex, Gemini, Cursor, Devin, Antigravity, Cline, Omp, Mastracode,
     OpenCode, GithubCopilot, Kimi, Kiro, Droid, Amp, Grok, Hermes, Kilo, Qodercli, Maki]"

definition screen_manifest_agents :: "agent list" where
  "screen_manifest_agents = [Pi, Claude, Codex, Gemini, Cursor, Devin, Antigravity, Cline,
     OpenCode, GithubCopilot, Kimi, Kiro, Droid, Amp, Grok, Hermes, Kilo, Qodercli, Maki]"

fun agent_label :: "agent \<Rightarrow> text" where
  "agent_label Pi = lit ''pi''"
| "agent_label Claude = lit ''claude''"
| "agent_label Codex = lit ''codex''"
| "agent_label Gemini = lit ''gemini''"
| "agent_label Cursor = lit ''cursor''"
| "agent_label Devin = lit ''devin''"
| "agent_label Antigravity = lit ''agy''"
| "agent_label Cline = lit ''cline''"
| "agent_label Omp = lit ''omp''"
| "agent_label Mastracode = lit ''mastracode''"
| "agent_label OpenCode = lit ''opencode''"
| "agent_label GithubCopilot = lit ''copilot''"
| "agent_label Kimi = lit ''kimi''"
| "agent_label Kiro = lit ''kiro''"
| "agent_label Droid = lit ''droid''"
| "agent_label Amp = lit ''amp''"
| "agent_label Grok = lit ''grok''"
| "agent_label Hermes = lit ''hermes''"
| "agent_label Kilo = lit ''kilo''"
| "agent_label Qodercli = lit ''qodercli''"
| "agent_label Maki = lit ''maki''"

fun interactive_agent_executable :: "agent \<Rightarrow> text" where
  "interactive_agent_executable Cursor = lit ''cursor-agent''"
| "interactive_agent_executable Kiro = lit ''kiro-cli''"
| "interactive_agent_executable a = agent_label a"

text \<open>A \<open>match\<close> arm that lists string literals.\<close>

definition one_of :: "text \<Rightarrow> string list \<Rightarrow> bool" where
  "one_of t ss = list_ex (\<lambda>s. t = lit s) ss"

definition lookup_agent :: "text \<Rightarrow> agent option" where
  "lookup_agent name =
     (if name = lit ''pi'' then Some Pi
      else if one_of name [''claude'', ''claude-code''] then Some Claude
      else if name = lit ''codex'' then Some Codex
      else if name = lit ''gemini'' then Some Gemini
      else if one_of name [''cursor'', ''cursor-agent''] then Some Cursor
      else if one_of name [''devin'', ''devin-cli'', ''devin cli''] then Some Devin
      else if one_of name [''agy'', ''antigravity'', ''antigravity-cli''] then Some Antigravity
      else if name = lit ''cline'' then Some Cline
      else if name = lit ''omp'' then Some Omp
      else if one_of name [''mastracode'', ''mastra-code'', ''mastra code''] then Some Mastracode
      else if one_of name [''opencode'', ''opencode2'', ''open-code''] then Some OpenCode
      else if one_of name [''copilot'', ''github-copilot'', ''ghcs''] then Some GithubCopilot
      else if one_of name [''kimi'', ''kimi-code'', ''kimi code''] then Some Kimi
      else if one_of name [''kiro'', ''kiro-cli''] then Some Kiro
      else if name = lit ''droid'' then Some Droid
      else if one_of name [''amp'', ''amp-local''] then Some Amp
      else if one_of name [''grok'', ''grok-build''] then Some Grok
      else if one_of name [''hermes'', ''hermes-agent''] then Some Hermes
      else if one_of name [''kilo'', ''kilo-code'', ''kilo code''] then Some Kilo
      else if one_of name [''qodercli'', ''qoderclicn'', ''qoder'', ''qodercn''] then Some Qodercli
      else if name = lit ''maki'' then Some Maki
      else None)"

text \<open>The suffix loop stops at the first suffix that matches.\<close>

fun strip_first_suffix :: "string list \<Rightarrow> text \<Rightarrow> text" where
  "strip_first_suffix [] name = name"
| "strip_first_suffix (s # ss) name =
     (if ends_with name (lit s) then take (length name - length (lit s)) name
      else strip_first_suffix ss name)"

definition normalized_agent_lookup_name :: "text \<Rightarrow> text" where
  "normalized_agent_lookup_name name =
     strip_first_suffix [''.exe'', ''.cmd'', ''.bat'', ''.ps1'', ''.js''] (to_lowercase (trim name))"

definition parse_canonical_agent_label :: "text \<Rightarrow> agent option" where
  "parse_canonical_agent_label label =
     (case lookup_agent label of None \<Rightarrow> None
      | Some agent \<Rightarrow> then_some (agent_label agent = label) agent)"

definition parse_agent_label :: "text \<Rightarrow> agent option" where
  "parse_agent_label agent =
     (let name = normalized_agent_lookup_name agent
      in or_else (parse_canonical_agent_label name) (lookup_agent name))"

definition identify_agent :: "text \<Rightarrow> agent option" where
  "identify_agent process_name = parse_agent_label process_name"

section \<open>Hook integration tables\<close>

definition pair_in :: "text \<Rightarrow> text \<Rightarrow> (string \<times> string) list \<Rightarrow> bool" where
  "pair_in s a ps = list_ex (\<lambda>(x, y). s = lit x \<and> a = lit y) ps"

definition full_lifecycle_hook_authority :: "text \<Rightarrow> text \<Rightarrow> bool" where
  "full_lifecycle_hook_authority source label = pair_in source label
     [(''herdr:pi'', ''pi''), (''herdr:omp'', ''omp''), (''herdr:mastracode'', ''mastracode''),
      (''herdr:opencode'', ''opencode''), (''herdr:kilo'', ''kilo''), (''herdr:kimi'', ''kimi'')]"

definition session_identity_only_integration :: "text \<Rightarrow> text \<Rightarrow> bool" where
  "session_identity_only_integration source label = pair_in source label
     [(''herdr:hermes'', ''hermes''), (''herdr:antigravity_cli'', ''agy'')]"

section \<open>Process identification\<close>

record foreground_process =
  pid :: u32
  proc_name :: "text"
  argv0 :: "text option"
  argv :: "text list option"
  cmdline :: "text option"

record foreground_job =
  process_group_id :: u32
  processes :: "foreground_process list"

definition is_path_sep :: "uchar \<Rightarrow> bool" where
  "is_path_sep c \<longleftrightarrow> c = of_char (CHR ''/'') \<or> c = 92"

definition path_basename :: "text \<Rightarrow> text" where
  "path_basename path =
     unwrap_or (find (\<lambda>component. component \<noteq> []) (rev (split_on is_path_sep path))) path"

definition is_generic_runtime_or_shell :: "text \<Rightarrow> bool" where
  "is_generic_runtime_or_shell name =
     one_of (normalized_agent_lookup_name (path_basename name))
       [''sh'', ''bash'', ''zsh'', ''fish'', ''tmux'', ''node'', ''bun'', ''python'', ''python3'',
        ''cmd'', ''powershell'', ''pwsh'']"

definition agent_name_from_basename :: "text \<Rightarrow> text option" where
  "agent_name_from_basename basename =
     (case parse_agent_label basename of None \<Rightarrow> None | Some agent \<Rightarrow> Some (agent_label agent))"

text \<open>\<open>windows(5)\<close>: every run of five consecutive components, in order.\<close>

fun has_window :: "text list \<Rightarrow> text list \<Rightarrow> bool" where
  "has_window pat [] = (pat = [])"
| "has_window pat (x # xs) = (take (length pat) (x # xs) = pat \<or> has_window pat xs)"

definition agent_name_from_known_package_path :: "text \<Rightarrow> text option" where
  "agent_name_from_known_package_path path =
     (let components = map normalized_agent_lookup_name
            (filter (\<lambda>component. component \<noteq> []) (split_on is_path_sep path))
      in if has_window [lit ''node_modules'', lit ''@earendil-works'', lit ''pi-coding-agent'',
              lit ''dist'', lit ''cli''] components
         then Some (agent_label Pi) else None)"

text \<open>\<open>Path::components().count()\<close> on Unix: the root, a leading \<open>.\<close>, and every part that is
  neither empty nor \<open>.\<close>.\<close>

definition path_components_count :: "text \<Rightarrow> nat" where
  "path_components_count t =
     (let parts = split_on (\<lambda>c. c = of_char (CHR ''/'')) t
      in (if hd parts = [] \<and> t \<noteq> [] \<or> hd parts = lit ''.'' then 1 else 0)
         + length (filter (\<lambda>p. p \<noteq> [] \<and> p \<noteq> lit ''.'') parts))"

definition resolved_agent_name_from_path_token :: "(text \<Rightarrow> text option) \<Rightarrow> text \<Rightarrow> text option" where
  "resolved_agent_name_from_path_token resolve token =
     (if path_components_count token < 2 then None
      else case resolve token of None \<Rightarrow> None
           | Some basename \<Rightarrow> agent_name_from_basename basename)"

definition is_quote :: "uchar \<Rightarrow> bool" where
  "is_quote c \<longleftrightarrow> c = 34 \<or> c = 39"

definition dash :: "text" where
  "dash = lit ''-''"

definition agent_name_from_path_token :: "(text \<Rightarrow> text option) \<Rightarrow> text \<Rightarrow> text option" where
  "agent_name_from_path_token resolve token =
     (let trimmed = trim_matches is_quote token
      in if trimmed = [] \<or> starts_with trimmed dash then None
         else or_else (agent_name_from_basename (path_basename trimmed))
                (or_else (agent_name_from_known_package_path trimmed)
                  (resolved_agent_name_from_path_token resolve trimmed)))"

definition short_flag_payload :: "text \<Rightarrow> text \<Rightarrow> bool" where
  "short_flag_payload arg flag =
     (starts_with flag dash \<and> \<not> starts_with flag (lit ''--'')
      \<and> starts_with arg flag \<and> str_len flag < str_len arg)"

definition long_flag_value :: "text \<Rightarrow> text \<Rightarrow> bool" where
  "long_flag_value arg flag =
     (starts_with flag (lit ''--'')
      \<and> is_some_and (\<lambda>rest. starts_with rest (lit ''='')) (strip_prefix arg flag))"

definition flag_matches :: "text \<Rightarrow> string list \<Rightarrow> bool" where
  "flag_matches arg flags = list_ex (\<lambda>flag. arg = lit flag \<or> short_flag_payload arg (lit flag)
     \<or> long_flag_value arg (lit flag)) flags"

definition option_takes_value :: "text \<Rightarrow> bool" where
  "option_takes_value arg = one_of arg [''-r'', ''--require'', ''--loader'', ''--import'',
     ''--experimental-loader'', ''--inspect-port'', ''-W'', ''-X'', ''-S'', ''-L'', ''-o'']"

text \<open>\<open>args.next().and_then(f)\<close>\<close>

fun next_and_then :: "('a \<Rightarrow> 'b option) \<Rightarrow> 'a list \<Rightarrow> 'b option" where
  "next_and_then f [] = None"
| "next_and_then f (x # _) = f x"

fun script_args_loop :: "(text \<Rightarrow> text option) \<Rightarrow> string list \<Rightarrow> string list \<Rightarrow> text list \<Rightarrow> text option" where
  "script_args_loop resolve eval_flags module_flags [] = None"
| "script_args_loop resolve eval_flags module_flags (arg # args) =
     (if arg = lit ''--'' then next_and_then (agent_name_from_path_token resolve) args
      else if flag_matches arg eval_flags \<or> flag_matches arg module_flags then None
      else if starts_with arg dash then
        (if option_takes_value arg then script_args_loop resolve eval_flags module_flags (drop 1 args)
         else script_args_loop resolve eval_flags module_flags args)
      else agent_name_from_path_token resolve arg)"

definition script_arg_agent_name ::
    "(text \<Rightarrow> text option) \<Rightarrow> text list \<Rightarrow> string list \<Rightarrow> string list \<Rightarrow> text option" where
  "script_arg_agent_name resolve av eval_flags module_flags =
     script_args_loop resolve eval_flags module_flags (drop 1 av)"

definition command_text_token :: "text \<Rightarrow> (text \<times> text) option" where
  "command_text_token input =
     (case trim_start input of [] \<Rightarrow> None
      | first # body \<Rightarrow>
          if is_quote first then
            (if first \<in> set body
             then Some (takeWhile (\<lambda>c. c \<noteq> first) body, drop 1 (dropWhile (\<lambda>c. c \<noteq> first) body))
             else Some (body, []))
          else Some (takeWhile (\<lambda>c. \<not> is_whitespace c) (first # body),
                     dropWhile (\<lambda>c. \<not> is_whitespace c) (first # body)))"

lemma command_text_token_shorter:
  assumes "command_text_token input = Some (token, rest)"
  shows "length rest < length input"
proof -
  obtain first body where i: "trim_start input = first # body"
    using assms by (cases "trim_start input") (auto simp: command_text_token_def)
  have le: "length (first # body) \<le> length input"
    unfolding i [symmetric] trim_start_def trim_start_matches_def by (rule length_dropWhile_le)
  have nw: "\<not> is_whitespace first"
    using i hd_dropWhile [of is_whitespace input]
    by (auto simp: trim_start_def trim_start_matches_def)
  show ?thesis
  proof (cases "is_quote first")
    case True
    then have "length rest \<le> length body"
      using assms i length_dropWhile_le [of "\<lambda>c. c \<noteq> first" body]
      by (auto simp: command_text_token_def split: if_splits)
    with le show ?thesis by simp
  next
    case False
    then have "rest = dropWhile (\<lambda>c. \<not> is_whitespace c) body"
      using assms i nw by (simp add: command_text_token_def)
    then have "length rest \<le> length body" by (simp add: length_dropWhile_le)
    with le show ?thesis by simp
  qed
qed

function command_text_agent_name :: "(text \<Rightarrow> text option) \<Rightarrow> text \<Rightarrow> text option" where
  "command_text_agent_name resolve rest =
     (case command_text_token rest of None \<Rightarrow> None
      | Some (raw, nxt) \<Rightarrow>
          let token = trim raw
          in if eq_ignore_ascii_case token (lit ''&'') \<or> eq_ignore_ascii_case token (lit ''.'')
                \<or> eq_ignore_ascii_case token (lit ''call'')
             then command_text_agent_name resolve nxt
             else agent_name_from_path_token resolve token)"
  by pat_completeness auto
termination
  by (relation "measure (length \<circ> snd)") (auto dest: command_text_token_shorter)

declare command_text_agent_name.simps [simp del]

fun windows_cmd_args_loop :: "(text \<Rightarrow> text option) \<Rightarrow> text list \<Rightarrow> text option" where
  "windows_cmd_args_loop resolve [] = None"
| "windows_cmd_args_loop resolve (arg # args) =
     (let flag = to_lowercase (trim_matches (\<lambda>c. c = 34) arg)
      in if one_of flag [''/c'', ''/k''] then next_and_then (command_text_agent_name resolve) args
         else windows_cmd_args_loop resolve args)"

definition windows_cmd_arg_agent_name :: "(text \<Rightarrow> text option) \<Rightarrow> text list \<Rightarrow> text option" where
  "windows_cmd_arg_agent_name resolve av = windows_cmd_args_loop resolve (drop 1 av)"

fun powershell_args_loop :: "(text \<Rightarrow> text option) \<Rightarrow> text list \<Rightarrow> text option" where
  "powershell_args_loop resolve [] = None"
| "powershell_args_loop resolve (arg # args) =
     (let flag = to_lowercase (trim_matches (\<lambda>c. c = 34) arg)
      in if one_of flag [''-file'', ''-f'', ''/file'']
         then next_and_then (agent_name_from_path_token resolve) args
         else if one_of flag [''-command'', ''-c'', ''/command'', ''/c'']
         then next_and_then (command_text_agent_name resolve) args
         else if one_of flag [''-encodedcommand'', ''-enc'', ''/encodedcommand'', ''/enc''] then None
         else if one_of flag [''-configurationname'', ''-executionpolicy'', ''-outputformat'',
                ''-psconsolefile'', ''-version'', ''-windowstyle'', ''-workingdirectory'']
         then powershell_args_loop resolve (drop 1 args)
         else if starts_with flag dash \<or> starts_with flag (lit ''/'')
         then powershell_args_loop resolve args
         else agent_name_from_path_token resolve arg)"

definition powershell_arg_agent_name :: "(text \<Rightarrow> text option) \<Rightarrow> text list \<Rightarrow> text option" where
  "powershell_arg_agent_name resolve av = powershell_args_loop resolve (drop 1 av)"

definition wrapped_agent_name_from_runtime_argv ::
    "(text \<Rightarrow> text option) \<Rightarrow> text \<Rightarrow> text list option \<Rightarrow> text option" where
  "wrapped_agent_name_from_runtime_argv resolve runtime av_opt =
     (case av_opt of None \<Rightarrow> None
      | Some av \<Rightarrow>
          let rt = normalized_agent_lookup_name (path_basename runtime)
          in if one_of rt [''node'', ''bun'']
             then script_arg_agent_name resolve av [''-e'', ''--eval'', ''-p'', ''--print''] []
             else if one_of rt [''python'', ''python3'']
             then script_arg_agent_name resolve av [''-c''] [''-m'']
             else if one_of rt [''sh'', ''bash'', ''zsh'', ''fish'']
             then script_arg_agent_name resolve av [''-c''] []
             else if rt = lit ''cmd'' then windows_cmd_arg_agent_name resolve av
             else if one_of rt [''powershell'', ''pwsh''] then powershell_arg_agent_name resolve av
             else None)"

definition argv0_agent_name :: "(text \<Rightarrow> text option) \<Rightarrow> text list option \<Rightarrow> text option" where
  "argv0_agent_name resolve av_opt =
     (case av_opt of None \<Rightarrow> None
      | Some av \<Rightarrow> next_and_then (agent_name_from_path_token resolve) av)"

definition cmdline_argv0_agent_name :: "(text \<Rightarrow> text option) \<Rightarrow> text \<Rightarrow> text option" where
  "cmdline_argv0_agent_name resolve cl =
     next_and_then (agent_name_from_path_token resolve) (split_whitespace cl)"

definition normalized_process_name :: "(text \<Rightarrow> text option) \<Rightarrow> foreground_process \<Rightarrow> text" where
  "normalized_process_name resolve p =
     (let effective = unwrap_or (argv0 p) (proc_name p);
          lower_effective = to_lowercase effective;
          wrapped = (if is_generic_runtime_or_shell lower_effective
                     then wrapped_agent_name_from_runtime_argv resolve lower_effective (argv p)
                     else None)
      in case wrapped of Some wrapped_agent \<Rightarrow> wrapped_agent
         | None \<Rightarrow>
             if identify_agent effective \<noteq> None then effective
             else unwrap_or (or_else (argv0_agent_name resolve (argv p))
                    (cmdline_argv0_agent_name resolve (unwrap_or (cmdline p) []))) effective)"

definition process_priority :: "foreground_process \<Rightarrow> text \<Rightarrow> nat" where
  "process_priority p normalized_name =
     (let lower_name = to_lowercase normalized_name
      in if lower_name \<noteq> to_lowercase (proc_name p) then 3
         else if \<not> is_generic_runtime_or_shell lower_name then 2
         else 1)"

text \<open>The body of the scan over the job's processes.\<close>

definition best_process_step :: "(text \<Rightarrow> text option) \<Rightarrow> foreground_process \<Rightarrow>
    (nat \<times> agent \<times> text) option \<Rightarrow> (nat \<times> agent \<times> text) option" where
  "best_process_step resolve p best =
     (let candidate = normalized_process_name resolve p
      in case identify_agent candidate of
           None \<Rightarrow> best
         | Some agent \<Rightarrow>
             let score = process_priority p candidate
             in case best of
                  Some (best_score, b) \<Rightarrow>
                    if score \<le> best_score then best else Some (score, agent, candidate)
                | None \<Rightarrow> Some (score, agent, candidate))"

definition identify_agent_in_job ::
    "(text \<Rightarrow> text option) \<Rightarrow> foreground_job \<Rightarrow> (agent \<times> text) option" where
  "identify_agent_in_job resolve job =
     (let leader = (case find (\<lambda>p. pid p = process_group_id job) (processes job) of
            None \<Rightarrow> None
          | Some p \<Rightarrow>
              let candidate = normalized_process_name resolve p
              in map_option (\<lambda>agent. (agent, candidate)) (identify_agent candidate))
      in case leader of Some r \<Rightarrow> Some r
         | None \<Rightarrow> map_option (\<lambda>(_, agent, name). (agent, name))
                     (fold (best_process_step resolve) (processes job) None))"

section \<open>Properties\<close>

named_theorems table_simps "evaluation of the literal tables"

declare one_of_def [table_simps] pair_in_def [table_simps] lookup_agent_def [table_simps]

lemma all_agents_complete: "set all_agents = UNIV" "distinct all_agents"
  by (auto simp: all_agents_def) (metis agent.exhaust)

lemma lookup_agent_label: "lookup_agent (agent_label a) = Some a"
  by (cases a) (simp_all add: table_simps)

lemma lookup_agent_executable: "lookup_agent (interactive_agent_executable a) = Some a"
  by (cases a) (simp_all add: table_simps)

lemma agent_label_inject [simp]: "agent_label a = agent_label b \<longleftrightarrow> a = b"
  by (metis lookup_agent_label option.inject)

lemma agent_forall: "list_all P all_agents \<Longrightarrow> P a"
  by (simp add: list_all_iff all_agents_complete)

lemma normalized_plain:
  "list_all plain_char s \<Longrightarrow> normalized_agent_lookup_name (lit s) =
     strip_first_suffix [''.exe'', ''.cmd'', ''.bat'', ''.ps1'', ''.js''] (lit s)"
  by (simp add: normalized_agent_lookup_name_def trim_lower_plain)

lemma normalized_label: "normalized_agent_lookup_name (agent_label a) = agent_label a"
  by (cases a) (simp_all add: normalized_plain plain_char_def is_whitespace_def)

lemma normalized_executable:
  "normalized_agent_lookup_name (interactive_agent_executable a) = interactive_agent_executable a"
  by (cases a) (simp_all add: normalized_plain plain_char_def is_whitespace_def)

lemma parse_canonical_label: "parse_canonical_agent_label (agent_label a) = Some a"
  by (simp add: parse_canonical_agent_label_def lookup_agent_label)

lemma parse_canonical_eq_Some:
  "parse_canonical_agent_label l = Some a \<longleftrightarrow> l = agent_label a"
  by (auto simp: parse_canonical_agent_label_def lookup_agent_label opt_simps split: option.splits)

lemma parse_canonical_is_lookup:
  "parse_canonical_agent_label l = Some a \<Longrightarrow> lookup_agent l = Some a"
  by (simp add: parse_canonical_eq_Some lookup_agent_label)

text \<open>The canonical pass of \<open>parse_agent_label\<close> is subsumed by the lookup.\<close>

lemma parse_agent_label_alt:
  "parse_agent_label l = lookup_agent (normalized_agent_lookup_name l)"
  unfolding parse_agent_label_def Let_def
  by (cases "parse_canonical_agent_label (normalized_agent_lookup_name l)")
    (auto dest: parse_canonical_is_lookup)

lemma parse_agent_label_label [simp]: "parse_agent_label (agent_label a) = Some a"
  by (simp add: parse_agent_label_alt normalized_label lookup_agent_label)

lemma full_lifecycle_cases:
  assumes "full_lifecycle_hook_authority s l"
  obtains "s = lit ''herdr:pi''" "l = agent_label Pi" | "s = lit ''herdr:omp''" "l = agent_label Omp"
    | "s = lit ''herdr:mastracode''" "l = agent_label Mastracode"
    | "s = lit ''herdr:opencode''" "l = agent_label OpenCode"
    | "s = lit ''herdr:kilo''" "l = agent_label Kilo"
    | "s = lit ''herdr:kimi''" "l = agent_label Kimi"
  using assms by (auto simp: full_lifecycle_hook_authority_def pair_in_def)

lemma full_lifecycle_label_known:
  "full_lifecycle_hook_authority s l \<Longrightarrow> \<exists>a. l = agent_label a \<and> parse_agent_label l = Some a"
  by (erule full_lifecycle_cases) (auto simp del: agent_label.simps)

lemma full_lifecycle_functional:
  "full_lifecycle_hook_authority s l \<Longrightarrow> full_lifecycle_hook_authority s l' \<Longrightarrow> l = l'"
  by (auto simp: full_lifecycle_hook_authority_def pair_in_def)

lemma full_lifecycle_injective:
  "full_lifecycle_hook_authority s l \<Longrightarrow> full_lifecycle_hook_authority s' l \<Longrightarrow> s = s'"
  by (auto simp: full_lifecycle_hook_authority_def pair_in_def)

lemma full_lifecycle_not_identity_only:
  "full_lifecycle_hook_authority s l \<Longrightarrow> \<not> session_identity_only_integration s l"
  by (auto simp: full_lifecycle_hook_authority_def session_identity_only_integration_def pair_in_def)

text \<open>The scan over the job keeps the first candidate of the highest priority.\<close>

definition process_candidate :: "(text \<Rightarrow> text option) \<Rightarrow> foreground_process \<Rightarrow>
    (nat \<times> agent \<times> text) option" where
  "process_candidate r p = (let c = normalized_process_name r p
     in map_option (\<lambda>g. (process_priority p c, g, c)) (identify_agent c))"

lemma best_process_step_alt:
  "best_process_step r p best = (case process_candidate r p of None \<Rightarrow> best
     | Some c \<Rightarrow> if is_some_and (\<lambda>b. fst c \<le> fst b) best then best else Some c)"
  by (auto simp: best_process_step_def process_candidate_def Let_def split: option.splits)

lemma best_process_sound:
  "fold (best_process_step r) ps best = Some b \<Longrightarrow>
     best = Some b \<and> (\<forall>p \<in> set ps. is_none_or (\<lambda>c. fst c \<le> fst b) (process_candidate r p))
     \<or> is_none_or (\<lambda>b0. fst b0 < fst b) best
       \<and> (\<exists>pre p post. ps = pre @ p # post \<and> process_candidate r p = Some b
           \<and> (\<forall>q \<in> set pre. is_none_or (\<lambda>c. fst c < fst b) (process_candidate r q))
           \<and> (\<forall>q \<in> set post. is_none_or (\<lambda>c. fst c \<le> fst b) (process_candidate r q)))"
proof (induction ps arbitrary: best)
  case (Cons p ps)
  let ?best = "best_process_step r p best"
  have f: "fold (best_process_step r) ps ?best = Some b" using Cons.prems by simp
  from Cons.IH [OF f] show ?case
  proof (elim disjE conjE exE)
    assume here: "?best = Some b"
      and rest: "\<forall>q \<in> set ps. is_none_or (\<lambda>c. fst c \<le> fst b) (process_candidate r q)"
    show ?thesis
    proof (cases "best = Some b \<and> is_none_or (\<lambda>c. fst c \<le> fst b) (process_candidate r p)")
      case True then show ?thesis using rest by simp
    next
      case False
      then have "process_candidate r p = Some b" "is_none_or (\<lambda>b0. fst b0 < fst b) best"
        using here by (cases best; auto simp: best_process_step_alt split: option.splits if_splits)+
      then show ?thesis using rest by (intro disjI2 conjI exI [of _ "[]"] exI [of _ p] exI [of _ ps]) auto
    qed
  next
    fix pre q post
    assume later: "is_none_or (\<lambda>b0. fst b0 < fst b) ?best" and ps: "ps = pre @ q # post"
      and q: "process_candidate r q = Some b"
        "\<forall>x \<in> set pre. is_none_or (\<lambda>c. fst c < fst b) (process_candidate r x)"
        "\<forall>x \<in> set post. is_none_or (\<lambda>c. fst c \<le> fst b) (process_candidate r x)"
    have "is_none_or (\<lambda>b0. fst b0 < fst b) best" "is_none_or (\<lambda>c. fst c < fst b) (process_candidate r p)"
      using later by (cases best; auto simp: best_process_step_alt split: option.splits if_splits)+
    then show ?thesis using ps q
      by (intro disjI2 conjI exI [of _ "p # pre"] exI [of _ q] exI [of _ post]) auto
  qed
qed simp

lemma best_process_None:
  "fold (best_process_step r) ps best = None \<longleftrightarrow>
     best = None \<and> (\<forall>p \<in> set ps. process_candidate r p = None)"
  by (induction ps arbitrary: best)
    (auto simp: best_process_step_alt is_some_and_def split: option.splits if_splits)

end
