(* ===== verification/Agent_Resume.thy ===== *)
theory Agent_Resume
  imports Detect
begin

text \<open>
  Session references and resume plans, \<open>src/agent_resume.rs\<close>: how a hook report or a saved
  snapshot becomes a validated session reference, and the command line that resumes it.
  \<open>Path::is_absolute\<close> is the Unix rule (a leading slash).
\<close>

section \<open>Session references\<close>

datatype session_ref_kind = Id | Path

record agent_session_ref =
  kind :: session_ref_kind
  ref_value :: "text"

record agent_resume_plan =
  plan_agent :: "text"
  plan_argv :: "text list"
  plan_dedupe_key :: "text"

record persisted_agent_session =
  ps_source :: "text"
  ps_agent :: "text"
  ps_session_ref :: agent_session_ref

definition MAX_SESSION_ID_LEN :: nat where
  "MAX_SESSION_ID_LEN = 512"

definition MAX_SESSION_PATH_LEN :: nat where
  "MAX_SESSION_PATH_LEN = 4096"

definition valid_session_id :: "text \<Rightarrow> bool" where
  "valid_session_id v \<longleftrightarrow> v \<noteq> [] \<and> str_len v \<le> MAX_SESSION_ID_LEN \<and> \<not> list_ex is_control v"

definition valid_session_path :: "text \<Rightarrow> bool" where
  "valid_session_path v \<longleftrightarrow> v \<noteq> [] \<and> str_len v \<le> MAX_SESSION_PATH_LEN
     \<and> \<not> list_ex is_control v \<and> starts_with v (lit ''/'')"

definition session_ref_id :: "text \<Rightarrow> agent_session_ref option" where
  "session_ref_id v = then_some (valid_session_id v) \<lparr>kind = Id, ref_value = v\<rparr>"

definition session_ref_path :: "text \<Rightarrow> agent_session_ref option" where
  "session_ref_path v = then_some (valid_session_path v) \<lparr>kind = Path, ref_value = v\<rparr>"

definition is_official_agent_source :: "text \<Rightarrow> text \<Rightarrow> bool" where
  "is_official_agent_source source agent = pair_in source agent
     [(''herdr:claude'', ''claude''), (''herdr:codex'', ''codex''), (''herdr:copilot'', ''copilot''),
      (''herdr:devin'', ''devin''), (''herdr:droid'', ''droid''), (''herdr:kimi'', ''kimi''),
      (''herdr:omp'', ''omp''), (''herdr:mastracode'', ''mastracode''), (''herdr:pi'', ''pi''),
      (''herdr:hermes'', ''hermes''), (''herdr:opencode'', ''opencode''),
      (''herdr:qodercli'', ''qodercli''), (''herdr:kilo'', ''kilo''), (''herdr:cursor'', ''cursor''),
      (''herdr:antigravity_cli'', ''agy''), (''herdr:grok'', ''grok'')]"

definition is_reserved_native_state_source :: "text \<Rightarrow> text \<Rightarrow> bool" where
  "is_reserved_native_state_source source agent = pair_in source agent
     [(''herdr:claude'', ''claude''), (''herdr:codex'', ''codex''), (''herdr:copilot'', ''copilot''),
      (''herdr:devin'', ''devin''), (''herdr:droid'', ''droid''), (''herdr:qodercli'', ''qodercli''),
      (''herdr:cursor'', ''cursor''), (''herdr:grok'', ''grok'')]"

definition session_ref_from_report ::
    "text \<Rightarrow> text \<Rightarrow> text option \<Rightarrow> text option \<Rightarrow> agent_session_ref option" where
  "session_ref_from_report source agent agent_session_id agent_session_path =
     (if \<not> is_official_agent_source source agent then None
      else if agent = lit ''pi'' \<or> agent = lit ''omp'' then
        or_else (Option.bind agent_session_path session_ref_path)
                (Option.bind agent_session_id session_ref_id)
      else Option.bind agent_session_id session_ref_id)"

definition normalize_session_start_source :: "text option \<Rightarrow> text option" where
  "normalize_session_start_source v =
     (case v of None \<Rightarrow> None
      | Some raw \<Rightarrow>
          let source = trim raw
          in then_some (one_of source
               [''startup'', ''resume'', ''clear'', ''compact'', ''new'', ''fork'']) source)"

definition session_ref_from_snapshot ::
    "text \<Rightarrow> text \<Rightarrow> session_ref_kind \<Rightarrow> text \<Rightarrow> persisted_agent_session option" where
  "session_ref_from_snapshot source agent k v =
     (if \<not> is_official_agent_source source agent then None
      else map_option (\<lambda>r. \<lparr>ps_source = source, ps_agent = agent, ps_session_ref = r\<rparr>)
        (if one_of agent [''pi'', ''omp''] \<and> k = Path then session_ref_path v
         else if k = Id then session_ref_id v
         else None))"

section \<open>Resume plans\<close>

definition nul :: "text" where
  "nul = [0]"

fun kind_debug :: "session_ref_kind \<Rightarrow> text" where
  "kind_debug Id = lit ''Id''"
| "kind_debug Path = lit ''Path''"

definition dedupe_key :: "text \<Rightarrow> text \<Rightarrow> agent_session_ref \<Rightarrow> text" where
  "dedupe_key source agent r =
     source @ nul @ agent @ nul @ kind_debug (kind r) @ nul @ ref_value r"

definition is_pair :: "text \<Rightarrow> text \<Rightarrow> string \<Rightarrow> string \<Rightarrow> bool" where
  "is_pair source agent s a \<longleftrightarrow> source = lit s \<and> agent = lit a"

definition plan_command :: "text \<Rightarrow> text \<Rightarrow> agent_session_ref \<Rightarrow> text list option" where
  "plan_command source agent r =
     (let v = ref_value r; by_id = (kind r = Id)
      in if is_pair source agent ''herdr:claude'' ''claude'' \<and> by_id
         then Some [lit ''claude'', lit ''--resume'', v]
         else if is_pair source agent ''herdr:codex'' ''codex'' \<and> by_id
         then Some [lit ''codex'', lit ''resume'', v]
         else if is_pair source agent ''herdr:copilot'' ''copilot'' \<and> by_id
         then Some [lit ''copilot'', lit ''--resume='' @ v]
         else if is_pair source agent ''herdr:devin'' ''devin'' \<and> by_id
         then Some [lit ''devin'', lit ''--resume'', v]
         else if is_pair source agent ''herdr:droid'' ''droid'' \<and> by_id
         then Some [lit ''droid'', lit ''--resume'', v]
         else if is_pair source agent ''herdr:kimi'' ''kimi'' \<and> by_id
         then Some [lit ''kimi'', lit ''--session'', v]
         else if is_pair source agent ''herdr:mastracode'' ''mastracode'' \<and> by_id
         then Some [lit ''mastracode'', lit ''--thread'', v]
         else if is_pair source agent ''herdr:pi'' ''pi''
         then Some [lit ''pi'', lit ''--session'', v]
         else if is_pair source agent ''herdr:omp'' ''omp''
         then Some [lit ''omp'', lit ''--resume='' @ v]
         else if is_pair source agent ''herdr:hermes'' ''hermes'' \<and> by_id
         then Some [lit ''hermes'', lit ''--resume'', v]
         else if is_pair source agent ''herdr:opencode'' ''opencode'' \<and> by_id
         then Some [lit ''opencode'', lit ''--session'', v]
         else if is_pair source agent ''herdr:qodercli'' ''qodercli'' \<and> by_id
         then Some [lit ''qodercli'', lit ''--resume'', v]
         else if is_pair source agent ''herdr:kilo'' ''kilo'' \<and> by_id
         then Some [lit ''kilo'', lit ''--session'', v]
         else if is_pair source agent ''herdr:cursor'' ''cursor'' \<and> by_id
         then Some [lit ''cursor-agent'', lit ''--resume'', v]
         else if is_pair source agent ''herdr:antigravity_cli'' ''agy'' \<and> by_id
         then Some [lit ''agy'', lit ''--conversation'', v]
         else if is_pair source agent ''herdr:grok'' ''grok'' \<and> by_id
         then Some [lit ''grok'', lit ''--resume'', v]
         else None)"

definition plan :: "text \<Rightarrow> text \<Rightarrow> agent_session_ref \<Rightarrow> agent_resume_plan option" where
  "plan source agent r =
     (if \<not> is_official_agent_source source agent then None
      else case plan_command source agent r of None \<Rightarrow> None
           | Some av \<Rightarrow> Some \<lparr>plan_agent = agent, plan_argv = av,
                             plan_dedupe_key = dedupe_key source agent r\<rparr>)"

section \<open>Properties\<close>

lemma official_label_known:
  "is_official_agent_source s l \<Longrightarrow> \<exists>a. l = agent_label a"
proof -
  assume "is_official_agent_source s l"
  then consider "l = agent_label Claude" | "l = agent_label Codex" | "l = agent_label GithubCopilot"
    | "l = agent_label Devin" | "l = agent_label Droid" | "l = agent_label Kimi"
    | "l = agent_label Omp" | "l = agent_label Mastracode" | "l = agent_label Pi"
    | "l = agent_label Hermes" | "l = agent_label OpenCode" | "l = agent_label Qodercli"
    | "l = agent_label Kilo" | "l = agent_label Cursor" | "l = agent_label Antigravity"
    | "l = agent_label Grok"
    by (auto simp: is_official_agent_source_def pair_in_def)
  then show ?thesis by cases blast+
qed

lemma official_parse: "is_official_agent_source s l \<Longrightarrow> \<exists>a. l = agent_label a \<and> parse_agent_label l = Some a"
  by (metis official_label_known parse_agent_label_label)

lemma full_lifecycle_official:
  "full_lifecycle_hook_authority s l \<Longrightarrow> is_official_agent_source s l"
  by (auto simp: full_lifecycle_hook_authority_def is_official_agent_source_def pair_in_def)

lemma identity_only_official:
  "session_identity_only_integration s l \<Longrightarrow> is_official_agent_source s l"
  by (auto simp: session_identity_only_integration_def is_official_agent_source_def pair_in_def)

lemma full_lifecycle_not_reserved:
  "full_lifecycle_hook_authority s l \<Longrightarrow> \<not> is_reserved_native_state_source s l"
  by (auto simp: full_lifecycle_hook_authority_def is_reserved_native_state_source_def pair_in_def)

lemma official_partition:
  "is_official_agent_source s l \<longleftrightarrow>
     full_lifecycle_hook_authority s l \<or> session_identity_only_integration s l
     \<or> is_reserved_native_state_source s l"
  by (auto simp: is_official_agent_source_def full_lifecycle_hook_authority_def
      session_identity_only_integration_def is_reserved_native_state_source_def pair_in_def)

text \<open>Which references a plan exists for: a path only for the two agents that store one.\<close>

lemma plan_command_defined:
  "is_official_agent_source s l \<Longrightarrow>
     plan_command s l r \<noteq> None \<longleftrightarrow> kind r = Id \<or> one_of l [''pi'', ''omp'']"
  by (cases "kind r")
    (auto simp: is_official_agent_source_def pair_in_def plan_command_def is_pair_def one_of_def)

lemma plan_defined:
  "plan s l r \<noteq> None \<longleftrightarrow>
     is_official_agent_source s l \<and> (kind r = Id \<or> one_of l [''pi'', ''omp''])"
  using plan_command_defined [of s l r] by (auto simp: plan_def split: option.splits)

lemma session_ref_ctor_value:
  "session_ref_id v = Some r \<longleftrightarrow> valid_session_id v \<and> r = \<lparr>kind = Id, ref_value = v\<rparr>"
  "session_ref_path v = Some r \<longleftrightarrow> valid_session_path v \<and> r = \<lparr>kind = Path, ref_value = v\<rparr>"
  by (auto simp: session_ref_id_def session_ref_path_def opt_simps)

lemma valid_session_no_nul:
  "valid_session_id v \<or> valid_session_path v \<Longrightarrow> 0 \<notin> set v"
  by (auto simp: valid_session_id_def valid_session_path_def list_ex_iff is_control_def)

lemma official_no_nul: "is_official_agent_source s l \<Longrightarrow> 0 \<notin> set s \<and> 0 \<notin> set l"
  by (auto simp: is_official_agent_source_def pair_in_def lit_def)

lemma append_nul_inject:
  assumes "0 \<notin> set a" "0 \<notin> set b" "a @ nul @ x = b @ nul @ y"
  shows "a = b \<and> x = y"
proof -
  have "takeWhile (\<lambda>c. c \<noteq> 0) (a @ nul @ x) = a" "takeWhile (\<lambda>c. c \<noteq> 0) (b @ nul @ y) = b"
    using assms(1,2) by (auto simp: takeWhile_append nul_def)
  with assms(3) have "a = b" by metis
  with assms(3) show ?thesis by (simp add: nul_def)
qed

lemma kind_debug_simps: "0 \<notin> set (kind_debug k)" "kind_debug k = kind_debug k' \<longleftrightarrow> k = k'"
  by (cases k; cases k'; simp add: lit_def)+

end
