(* ===== verification/Sequence_Gate.thy ===== *)
theory Sequence_Gate
  imports Prelude
begin

text \<open>
  The contract of the report gates. Hook reports, metadata reports and workspace token reports
  all carry an optional sequence number per source; each gate remembers the last number it
  accepted for a source and lets a numbered report through only when its number is larger.
  The laws a gate promises are the assumptions of \<open>sequence_gate\<close>; what a client may rely on
  (no replay, no reordering, rejected reports leave no trace) is proved once here. The
  components that own a gate interpret the locale on their own operation.
\<close>

text \<open>A run of offers, with the log of the numbered reports that were accepted.\<close>

fun gate_run :: "('k \<Rightarrow> u64 option \<Rightarrow> 's \<Rightarrow> bool \<times> 's) \<Rightarrow> ('k \<times> u64 option) list \<Rightarrow> 's \<Rightarrow>
    ('k \<times> u64) list \<times> 's" where
  "gate_run offer [] s = ([], s)"
| "gate_run offer ((k, q) # rs) s =
     (let (ok, s1) = offer k q s; (log, s2) = gate_run offer rs s1
      in (case q of None \<Rightarrow> log | Some n \<Rightarrow> if ok then (k, n) # log else log, s2))"

definition accepted_of :: "'k \<Rightarrow> ('k \<times> u64) list \<Rightarrow> u64 list" where
  "accepted_of k log = map snd (filter (\<lambda>e. fst e = k) log)"

lemma accepted_of_simps [simp]:
  "accepted_of k [] = []"
  "accepted_of k (e # log) = (if fst e = k then snd e # accepted_of k log else accepted_of k log)"
  by (simp_all add: accepted_of_def)

locale sequence_gate =
  fixes seen :: "'s \<Rightarrow> 'k \<Rightarrow> u64 option"
    and offer :: "'k \<Rightarrow> u64 option \<Rightarrow> 's \<Rightarrow> bool \<times> 's"
  assumes offer_records: "offer k (Some n) s = (True, s') \<Longrightarrow> seen s' = (seen s)(k \<mapsto> n)"
    and offer_fresh: "offer k (Some n) s = (True, s') \<Longrightarrow> seen s k = Some l \<Longrightarrow> l < n"
    and offer_rejected: "offer k q s = (False, s') \<Longrightarrow> s' = s"
    and offer_unnumbered: "offer k None s = (b, s') \<Longrightarrow> s' = s"
begin

lemma stale_rejected: "seen s k = Some l \<Longrightarrow> n \<le> l \<Longrightarrow> offer k (Some n) s = (False, s)"
  using offer_fresh [of k n s] offer_rejected [of k "Some n" s]
  by (cases "offer k (Some n) s") (metis (full_types) leD)

lemma seen_mono: "offer j q s = (b, s') \<Longrightarrow> seen s k = Some l \<Longrightarrow> \<exists>l'. seen s' k = Some l' \<and> l \<le> l'"
proof (cases b; cases q)
  fix n assume o: "offer j q s = (b, s')" and k: "seen s k = Some l" and b: b and q: "q = Some n"
  then have s': "seen s' = (seen s)(j \<mapsto> n)" by (auto intro: offer_records)
  show ?thesis
  proof (cases "k = j")
    case True
    with o b q k have "l < n" by (auto dest: offer_fresh)
    with True s' show ?thesis by auto
  next
    case False
    with s' k show ?thesis by auto
  qed
qed (auto dest: offer_rejected offer_unnumbered)

text \<open>In every run, the numbers accepted for one source are strictly increasing and above the
  number the gate had seen before the run; the last of them is the number it has seen after.\<close>

lemma run_accepted:
  "gate_run offer rs s = (log, s') \<Longrightarrow>
     sorted_wrt (<) (accepted_of k log)
     \<and> (\<forall>n \<in> set (accepted_of k log). is_none_or (\<lambda>l. l < n) (seen s k))
     \<and> seen s' k = (if accepted_of k log = [] then seen s k else Some (last (accepted_of k log)))"
proof (induction rs arbitrary: s log)
  case (Cons r rs)
  obtain j q where r: "r = (j, q)" by (cases r)
  obtain ok s1 where o: "offer j q s = (ok, s1)" by (cases "offer j q s")
  obtain log1 where g: "gate_run offer rs s1 = (log1, s')"
    using Cons.prems by (auto simp: r o split: prod.splits)
  note IH = Cons.IH [OF g]
  show ?case
  proof (cases "ok \<and> q \<noteq> None")
    case False
    then have "s1 = s" using o by (cases q) (auto dest: offer_rejected offer_unnumbered)
    moreover have "log = log1" using Cons.prems False by (auto simp: r o g split: option.splits)
    ultimately show ?thesis using IH by simp
  next
    case True
    then obtain n where q: "q = Some n" by auto
    have s1: "seen s1 = (seen s)(j \<mapsto> n)" using o True q by (auto intro: offer_records)
    have fresh: "is_none_or (\<lambda>l. l < n) (seen s j)"
      using o True q by (auto simp: opt_simps dest: offer_fresh)
    have log: "log = (j, n) # log1" using Cons.prems True o g by (simp add: r q)
    show ?thesis
    proof (cases "j = k")
      case False
      with IH s1 log show ?thesis by simp
    next
      case True
      have gt: "n < m" if "m \<in> set (accepted_of k log1)" for m
        using IH s1 True that by auto
      moreover have "is_none_or (\<lambda>l. l < m) (seen s k)" if "n < m" for m
        using fresh True that by (cases "seen s k") auto
      ultimately show ?thesis
        using IH s1 True log fresh by (auto simp: last_ConsL)
    qed
  qed
qed simp

lemma run_no_replay:
  assumes "gate_run offer rs s = (log, s')"
  shows "distinct (accepted_of k log)"
  using run_accepted [OF assms, of k] strict_sorted_iff by blast

end

text \<open>A gate that also bounds the number of sources it tracks.\<close>

locale bounded_gate = sequence_gate seen offer
  for seen :: "'s \<Rightarrow> 'k \<Rightarrow> u64 option" and offer :: "'k \<Rightarrow> u64 option \<Rightarrow> 's \<Rightarrow> bool \<times> 's" +
  fixes tracked :: "'s \<Rightarrow> nat" and bound :: nat
  assumes offer_bounded: "offer k q s = (b, s') \<Longrightarrow> tracked s \<le> bound \<Longrightarrow> tracked s' \<le> bound"
begin

lemma run_bounded:
  "gate_run offer rs s = (log, s') \<Longrightarrow> tracked s \<le> bound \<Longrightarrow> tracked s' \<le> bound"
proof (induction rs arbitrary: s log)
  case (Cons r rs)
  obtain j q where r: "r = (j, q)" by (cases r)
  obtain ok s1 where o: "offer j q s = (ok, s1)" by (cases "offer j q s")
  obtain log1 where g: "gate_run offer rs s1 = (log1, s')"
    using Cons.prems(1) by (auto simp: r o split: prod.splits)
  from Cons.IH [OF g] offer_bounded [OF o] Cons.prems(2) show ?case by blast
qed simp

end

end
