(* ===== verification/Metadata_Tokens.thy ===== *)
theory Metadata_Tokens
  imports Sequence_Gate Rust_Text
begin

text \<open>
  Metadata tokens, \<open>src/metadata_tokens.rs\<close>: named values with an optional deadline, patched
  and expired by key, and the bounded sequence gate in front of them.
\<close>

record metadata_token =
  tok_value :: "text"
  expires_at :: "instant option"

record metadata_tokens =
  entries :: "(text, metadata_token) hashmap"

definition MAX_SEQUENCE_SOURCES :: nat where
  "MAX_SEQUENCE_SOURCES = 32"

definition sequence_is_fresh :: "(text, u64) hashmap \<Rightarrow> text \<Rightarrow> u64 option \<Rightarrow> bool" where
  "sequence_is_fresh sequences source seq =
     is_none_or (\<lambda>n. is_none_or (\<lambda>last. n > last) (hm_get sequences source)) seq"

text \<open>\<open>Result<bool, ()>\<close>: the error is the refused new source.\<close>

definition accept_sequence ::
    "(text, u64) hashmap \<Rightarrow> text \<Rightarrow> u64 option \<Rightarrow> (unit + bool) \<times> (text, u64) hashmap" where
  "accept_sequence sequences source seq =
     (case seq of None \<Rightarrow> (Inr True, sequences)
      | Some n \<Rightarrow>
          if \<not> sequence_is_fresh sequences source (Some n) then (Inr False, sequences)
          else if \<not> hm_contains sequences source \<and> length sequences \<ge> MAX_SEQUENCE_SOURCES
          then (Inl (), sequences)
          else (Inr True, hm_insert source n sequences))"

fun patch_loop :: "instant option \<Rightarrow> (text \<times> text option) list \<Rightarrow>
    (text, metadata_token) hashmap \<times> bool \<Rightarrow> (text, metadata_token) hashmap \<times> bool" where
  "patch_loop ex [] (es, changed) = (es, changed)"
| "patch_loop ex ((key, Some v) # ps) (es, changed) =
     (let token = \<lparr>tok_value = v, expires_at = ex\<rparr>
      in if hm_get es key \<noteq> Some token
         then patch_loop ex ps (hm_insert key token es, True)
         else patch_loop ex ps (es, changed))"
| "patch_loop ex ((key, None) # ps) (es, changed) =
     patch_loop ex ps (hm_remove key es, changed \<or> is_some (hm_get es key))"

definition patch_tokens :: "(text, text option) hashmap \<Rightarrow> duration option \<Rightarrow> instant \<Rightarrow>
    metadata_tokens \<Rightarrow> bool \<times> metadata_tokens" where
  "patch_tokens p ttl now t =
     (let ex = Option.bind ttl (\<lambda>d. checked_add now d);
          (es, changed) = patch_loop ex p (entries t, False)
      in (changed, t\<lparr>entries := es\<rparr>))"

definition token_values :: "metadata_tokens \<Rightarrow> (text, text) hashmap" where
  "token_values t = hm_map_values (\<lambda>_ token. tok_value token) (entries t)"

text \<open>A \<open>HashSet\<close> of keys is a list without duplicates.\<close>

fun patch_keys :: "(text \<times> text option) list \<Rightarrow> text list \<Rightarrow> text list" where
  "patch_keys [] keys = keys"
| "patch_keys ((key, Some _) # ps) keys = patch_keys ps (List.insert key keys)"
| "patch_keys ((key, None) # ps) keys = patch_keys ps (removeAll key keys)"

definition key_count_after_patch :: "(text, text option) hashmap \<Rightarrow> metadata_tokens \<Rightarrow> nat" where
  "key_count_after_patch p t = length (patch_keys p (remdups (map fst (token_values t))))"

definition next_expiry :: "metadata_tokens \<Rightarrow> instant option" where
  "next_expiry t =
     (let ds = List.map_filter expires_at (hm_values (entries t))
      in if ds = [] then None else Some (Min (set ds)))"

definition expire_at :: "instant \<Rightarrow> metadata_tokens \<Rightarrow> bool \<times> metadata_tokens" where
  "expire_at now t =
     (let es = hm_retain (\<lambda>_ token. is_none_or (\<lambda>deadline. deadline > now) (expires_at token))
                 (entries t)
      in (length es \<noteq> length (entries t), t\<lparr>entries := es\<rparr>))"

definition tokens_wf :: "metadata_tokens \<Rightarrow> bool" where
  "tokens_wf t = hm_wf (entries t)"

section \<open>Properties\<close>

lemma length_hm_insert:
  "length (hm_insert k v m) = (if hm_contains m k then length m else Suc (length m))"
proof (induction m)
  case (Cons e m)
  then show ?case by (cases e) (auto simp: hm_insert_def hm_contains_def)
qed (simp add: hm_insert_def hm_contains_def)

text \<open>The gate of a token map, as the clients use it: only \<open>Ok(true)\<close> lets a report through.\<close>

definition token_gate :: "text \<Rightarrow> u64 option \<Rightarrow> (text, u64) hashmap \<Rightarrow> bool \<times> (text, u64) hashmap" where
  "token_gate source seq sequences =
     (let (r, s') = accept_sequence sequences source seq in (r = Inr True, s'))"

interpretation token_seq: bounded_gate hm_get token_gate length MAX_SEQUENCE_SOURCES
proof unfold_locales
  show "hm_get s' = (hm_get s)(k \<mapsto> n)" if "token_gate k (Some n) s = (True, s')" for k n s s'
    using that by (auto simp: token_gate_def accept_sequence_def hm_simps split: if_splits)
  show "l < n" if "token_gate k (Some n) s = (True, s')" "hm_get s k = Some l" for k n s s' l
    using that by (auto simp: token_gate_def accept_sequence_def sequence_is_fresh_def split: if_splits)
  show "s' = s" if "token_gate k q s = (False, s')" for k q s s'
    using that by (auto simp: token_gate_def accept_sequence_def split: if_splits option.splits)
  show "s' = s" if "token_gate k None s = (b, s')" for k s b s'
    using that by (auto simp: token_gate_def accept_sequence_def)
  show "length s' \<le> MAX_SEQUENCE_SOURCES"
    if "token_gate k q s = (b, s')" "length s \<le> MAX_SEQUENCE_SOURCES" for k q s b s'
    using that by (auto simp: token_gate_def accept_sequence_def length_hm_insert split: if_splits option.splits)
qed

text \<open>What a patch does to one key.\<close>

lemma patch_loop_wf: "hm_wf es \<Longrightarrow> hm_wf (fst (patch_loop ex p (es, c)))"
  by (induction ex p "(es, c)" arbitrary: es c rule: patch_loop.induct) (auto simp: Let_def)

lemma patch_loop_get:
  assumes "hm_wf p"
  shows "hm_get (fst (patch_loop ex p (es, c))) k =
    (case hm_get p k of None \<Rightarrow> hm_get es k
     | Some None \<Rightarrow> None
     | Some (Some v) \<Rightarrow> Some \<lparr>tok_value = v, expires_at = ex\<rparr>)"
  using assms
proof (induction ex p "(es, c)" arbitrary: es c rule: patch_loop.induct)
  case (2 ex key v ps es changed)
  have wf: "hm_wf ps" and no: "hm_get ps key = None"
    using "2.prems" by simp_all
  show ?case using "2.hyps" wf no by (auto simp: Let_def hm_simps split: option.splits)
next
  case (3 ex key ps es changed)
  have wf: "hm_wf ps" and no: "hm_get ps key = None"
    using "3.prems" by simp_all
  show ?case using "3.hyps" wf no by (auto simp: hm_simps split: option.splits)
qed simp

lemma patch_keys_distinct: "distinct ks \<Longrightarrow> distinct (patch_keys p ks)"
  by (induction p ks rule: patch_keys.induct) (auto simp: distinct_removeAll)

lemma patch_keys_set: "set ks = dom (hm_get es) \<Longrightarrow>
    set (patch_keys p ks) = dom (hm_get (fst (patch_loop ex p (es, c))))"
proof (induction p ks arbitrary: es c rule: patch_keys.induct)
  case (2 key v ps keys)
  show ?case
  proof (cases "hm_get es key = Some \<lparr>tok_value = v, expires_at = ex\<rparr>")
    case True
    then have "set (List.insert key keys) = dom (hm_get es)" using "2.prems" by auto
    with "2.IH" True show ?thesis by (simp add: Let_def)
  next
    case False
    have "set (List.insert key keys) = dom (hm_get (hm_insert key \<lparr>tok_value = v, expires_at = ex\<rparr> es))"
      using "2.prems" by (auto simp: hm_simps split: if_splits)
    with "2.IH" False show ?thesis by (simp add: Let_def)
  qed
next
  case (3 key ps keys)
  have "set (removeAll key keys) = dom (hm_get (hm_remove key es))"
    using "3.prems" by (auto simp: hm_simps split: if_splits)
  with "3.IH" show ?case by simp
qed simp

lemma key_count_matches:
  assumes "tokens_wf t"
  shows "key_count_after_patch p t = length (entries (snd (patch_tokens p ttl now t)))"
proof -
  let ?ex = "Option.bind ttl (\<lambda>d. checked_add now d)"
  let ?es = "fst (patch_loop ?ex p (entries t, False))"
  let ?ks = "remdups (map fst (token_values t))"
  have es: "entries (snd (patch_tokens p ttl now t)) = ?es"
    by (simp add: patch_tokens_def Let_def split: prod.splits)
  have "set ?ks = dom (hm_get (entries t))"
    by (simp add: dom_hm_get token_values_def hm_map_values_def image_image case_prod_beta')
  then have "set (patch_keys p ?ks) = fst ` set ?es"
    using patch_keys_set dom_hm_get by metis
  then have "card (set (patch_keys p ?ks)) = card (set (map fst ?es))" by simp
  moreover have "hm_wf ?es" using assms by (simp add: tokens_wf_def patch_loop_wf)
  then have "card (set (map fst ?es)) = length ?es"
    using distinct_card [of "map fst ?es"] by (simp add: hm_wf_def)
  ultimately show ?thesis
    using distinct_card [OF patch_keys_distinct [of ?ks p]]
    by (simp add: key_count_after_patch_def es)
qed

end
