(* ===== verification/Terminal_State.thy ===== *)
theory Terminal_State
  imports Agent_Resume Metadata_Tokens "HOL-Library.Option_ord"
begin

text \<open>
  The state of a server-owned terminal, \<open>src/terminal/state.rs\<close>, its records and the part of
  \<open>src/terminal/metadata.rs\<close> the arbitration reads: the agent a terminal shows
  (\<open>effective_agent_label\<close>), the presentation its metadata gives, and the recomputation of the
  effective state (\<open>recompute_effective_state\<close>) that every mutation ends with.

  Operations take the state and return it updated. \<open>Instant::now()\<close> is an argument.
\<close>

section \<open>Data\<close>

record hook_authority =
  ha_source :: "text"
  ha_agent_label :: "text"
  ha_state :: agent_state
  ha_message :: "text option"
  ha_reported_at :: instant
  ha_session_ref :: "agent_session_ref option"

record pending_full_lifecycle_hook_report =
  pr_authority :: hook_authority
  pr_seq :: u64

datatype suppression_reason = HookClear | ProcessExit

record suppressed_full_lifecycle_hook_report =
  sup_agent_label :: "text"
  sup_session_ref :: "agent_session_ref option"
  sup_observed_at :: instant
  sup_reason :: suppression_reason
  replacement_session_ref :: "agent_session_ref option"
  pending_replacement_report :: "pending_full_lifecycle_hook_report option"

datatype hook_report_route = Accept bool | Ignore

record stale_full_lifecycle_hook_session =
  stale_agent_label :: "text"
  stale_session_ref :: agent_session_ref

datatype managed_agent_phase = Pending "instant option" instant bool | Active

record managed_agent =
  managed_kind :: agent
  managed_phase :: managed_agent_phase

record agent_name_owner =
  owner_agent_label :: "text"
  owner_session_ref :: "agent_session_ref option"

record recent_agent_process_exit =
  exit_agent :: agent
  exit_observed_at :: instant

record agent_metadata =
  am_source :: "text"
  am_agent_label :: "text option"
  applies_to_source :: "text option"
  am_title :: "text option"
  am_display_agent :: "text option"
  am_state_labels :: "(text, text) hashmap"
  am_reported_at :: instant
  title_reported_at :: "instant option"
  display_agent_reported_at :: "instant option"
  state_label_reported_at :: "(text, instant) hashmap"
  am_ttl :: "duration option"
  expiry_event_pending :: bool

record effective_presentation =
  pres_title :: "text option"
  pres_display_agent :: "text option"
  pres_state_labels :: "(text, text) hashmap"

record effective_state_change =
  previous_agent_label :: "text option"
  previous_known_agent :: "agent option"
  previous_state :: agent_state
  previous_presentation :: effective_presentation
  esc_agent_label :: "text option"
  known_agent :: "agent option"
  esc_state :: agent_state
  presentation :: effective_presentation

record terminal_state_mutation =
  state_change :: "effective_state_change option"
  session_ref_changed :: bool
  agent_released :: bool

record terminal_title_change =
  raw_changed :: bool
  stripped_changed :: bool

record terminal_state =
  ts_id :: "text"
  cwd :: "text"
  detected_agent :: "agent option"
  fallback_state :: agent_state
  fallback_visible_blocker :: bool
  fallback_observed_at :: "instant option"
  hook_auth :: "hook_authority option"
  agent_metadata_map :: "(text, agent_metadata) hashmap"
  ts_metadata_tokens :: metadata_tokens
  persisted_session :: "persisted_agent_session option"
  terminal_title :: "text option"
  manual_label :: "text option"
  agent_name :: "text option"
  name_owner :: "agent_name_owner option"
  managed :: "managed_agent option"
  hook_report_sequences :: "(text, u64) hashmap"
  suppressed_reports :: "(text, suppressed_full_lifecycle_hook_report) hashmap"
  stale_sessions :: "(text, stale_full_lifecycle_hook_session list) hashmap"
  metadata_report_sequences :: "(text, u64) hashmap"
  metadata_report_agents :: "(text, agent) hashmap"
  metadata_token_sequence_sources :: "text list"
  ts_state :: agent_state
  last_agent_state_change_seq :: "u64 option"
  revision :: u64
  launch_argv :: "text list option"
  respawn_shell_on_exit :: bool
  recent_exit :: "recent_agent_process_exit option"
  pending_agent_resume_plan :: "agent_resume_plan option"

definition new_terminal :: "text \<Rightarrow> text \<Rightarrow> terminal_state" where
  "new_terminal i c = \<lparr>ts_id = i, cwd = c, detected_agent = None, fallback_state = Unknown,
     fallback_visible_blocker = False, fallback_observed_at = None, hook_auth = None,
     agent_metadata_map = [], ts_metadata_tokens = \<lparr>entries = []\<rparr>, persisted_session = None,
     terminal_title = None, manual_label = None, agent_name = None, name_owner = None,
     managed = None, hook_report_sequences = [], suppressed_reports = [], stale_sessions = [],
     metadata_report_sequences = [], metadata_report_agents = [],
     metadata_token_sequence_sources = [], ts_state = Unknown,
     last_agent_state_change_seq = None, revision = 0, launch_argv = None,
     respawn_shell_on_exit = False, recent_exit = None, pending_agent_resume_plan = None\<rparr>"

section \<open>The agent a terminal shows\<close>

definition owns_life_cycle :: "hook_authority \<Rightarrow> bool" where
  "owns_life_cycle a = full_lifecycle_hook_authority (ha_source a) (ha_agent_label a)"

definition hook_authority_is_effective :: "terminal_state \<Rightarrow> hook_authority \<Rightarrow> bool" where
  "hook_authority_is_effective t a \<longleftrightarrow>
     \<not> owns_life_cycle a
     \<or> is_none_or (\<lambda>agent. detected_agent t = Some agent \<and> recent_exit t = None)
         (parse_agent_label (ha_agent_label a))"

definition effective_agent_label :: "terminal_state \<Rightarrow> text option" where
  "effective_agent_label t =
     or_else (map_option ha_agent_label (opt_filter (hook_authority_is_effective t) (hook_auth t)))
       (if recent_exit t = None then map_option agent_label (detected_agent t) else None)"

definition effective_known_agent :: "terminal_state \<Rightarrow> agent option" where
  "effective_known_agent t = Option.bind (effective_agent_label t) parse_agent_label"

definition live_full_lifecycle_hook_authority :: "terminal_state \<Rightarrow> bool" where
  "live_full_lifecycle_hook_authority t =
     is_some_and (\<lambda>a. hook_authority_is_effective t a \<and> owns_life_cycle a) (hook_auth t)"

definition hook_authority_not_newer_than :: "terminal_state \<Rightarrow> instant \<Rightarrow> bool" where
  "hook_authority_not_newer_than t observed_at =
     is_none_or (\<lambda>a. ha_reported_at a \<le> observed_at) (hook_auth t)"

definition fallback_not_older_than_hook :: "terminal_state \<Rightarrow> bool" where
  "fallback_not_older_than_hook t =
     is_none_or (\<lambda>a. is_some_and (\<lambda>observed_at. ha_reported_at a \<le> observed_at)
       (fallback_observed_at t)) (hook_auth t)"

definition hook_authority_conflicts_with_detected_agent ::
    "terminal_state \<Rightarrow> agent option \<Rightarrow> bool" where
  "hook_authority_conflicts_with_detected_agent t detected =
     (case detected of None \<Rightarrow> False
      | Some d \<Rightarrow> is_some_and (\<lambda>a. is_some_and (\<lambda>hook_agent. hook_agent \<noteq> d)
                    (parse_agent_label (ha_agent_label a))) (hook_auth t))"

definition should_ignore_detected_state_under_full_lifecycle_hook ::
    "terminal_state \<Rightarrow> agent option \<Rightarrow> bool \<Rightarrow> bool" where
  "should_ignore_detected_state_under_full_lifecycle_hook t detected process_exited \<longleftrightarrow>
     live_full_lifecycle_hook_authority t \<and> \<not> process_exited
     \<and> \<not> hook_authority_conflicts_with_detected_agent t detected"

definition visible_blocker_overrides_hook :: "terminal_state \<Rightarrow> bool" where
  "visible_blocker_overrides_hook t \<longleftrightarrow>
     \<not> live_full_lifecycle_hook_authority t
     \<and> fallback_visible_blocker t \<and> fallback_not_older_than_hook t
     \<and> is_some_and (\<lambda>a. ha_state a \<noteq> Blocked
         \<and> parse_agent_label (ha_agent_label a) = detected_agent t) (hook_auth t)"

definition known_agent_label_conflicts_with_detected_agent :: "terminal_state \<Rightarrow> text \<Rightarrow> bool" where
  "known_agent_label_conflicts_with_detected_agent t label =
     (case detected_agent t of None \<Rightarrow> False
      | Some d \<Rightarrow> is_some_and (\<lambda>hook_agent. hook_agent \<noteq> d) (parse_agent_label label))"

definition is_agent_terminal :: "terminal_state \<Rightarrow> bool" where
  "is_agent_terminal t \<longleftrightarrow> agent_name t \<noteq> None \<or> effective_agent_label t \<noteq> None"

section \<open>Metadata visibility and presentation\<close>

definition agent_metadata_expiry :: "agent_metadata \<Rightarrow> instant option" where
  "agent_metadata_expiry m =
     map_option (\<lambda>ttl. unwrap_or (checked_add (am_reported_at m) ttl) (am_reported_at m)) (am_ttl m)"

definition agent_metadata_is_expired :: "agent_metadata \<Rightarrow> instant \<Rightarrow> bool" where
  "agent_metadata_is_expired m now = is_some_and (\<lambda>deadline. now \<ge> deadline) (agent_metadata_expiry m)"

definition metadata_guards_match :: "terminal_state \<Rightarrow> text option \<Rightarrow> text option \<Rightarrow> bool" where
  "metadata_guards_match t label applies =
     (if is_some_and (\<lambda>agent. effective_agent_label t \<noteq> Some agent) label then False
      else \<not> is_some_and (\<lambda>source. is_none_or (\<lambda>a. ha_source a \<noteq> source) (hook_auth t)) applies)"

definition agent_metadata_matches_guards :: "terminal_state \<Rightarrow> agent_metadata \<Rightarrow> bool" where
  "agent_metadata_matches_guards t m = metadata_guards_match t (am_agent_label m) (applies_to_source m)"

definition metadata_shows_something :: "agent_metadata \<Rightarrow> bool" where
  "metadata_shows_something m \<longleftrightarrow> am_title m \<noteq> None \<or> am_display_agent m \<noteq> None \<or> am_state_labels m \<noteq> []"

definition agent_metadata_is_valid :: "terminal_state \<Rightarrow> instant \<Rightarrow> bool \<Rightarrow> agent_metadata \<Rightarrow> bool" where
  "agent_metadata_is_valid t now enforce_ttl m =
     (if \<not> metadata_shows_something m then False
      else if enforce_ttl \<and> agent_metadata_is_expired m now then False
      else agent_metadata_matches_guards t m)"

definition agent_metadata_is_visible_ignoring_ttl :: "terminal_state \<Rightarrow> agent_metadata \<Rightarrow> bool" where
  "agent_metadata_is_visible_ignoring_ttl t m \<longleftrightarrow>
     metadata_shows_something m \<and> agent_metadata_matches_guards t m"

definition valid_agent_metadata :: "terminal_state \<Rightarrow> instant \<Rightarrow> bool \<Rightarrow> agent_metadata list" where
  "valid_agent_metadata t now enforce_ttl =
     filter (agent_metadata_is_valid t now enforce_ttl) (hm_values (agent_metadata_map t))"

text \<open>\<open>Iterator::max_by_key\<close>: the last of the elements with the largest key.\<close>

fun max_by_key :: "('a \<Rightarrow> 'k :: linorder) \<Rightarrow> 'a list \<Rightarrow> 'a option" where
  "max_by_key f [] = None"
| "max_by_key f (x # xs) =
     (case max_by_key f xs of None \<Rightarrow> Some x
      | Some y \<Rightarrow> if f x > f y then Some x else Some y)"

definition newest_metadata_title :: "terminal_state \<Rightarrow> instant \<Rightarrow> bool \<Rightarrow> text option" where
  "newest_metadata_title t now enforce_ttl =
     Option.bind (max_by_key title_reported_at
       (filter (\<lambda>m. am_title m \<noteq> None) (valid_agent_metadata t now enforce_ttl))) am_title"

definition newest_metadata_display_agent :: "terminal_state \<Rightarrow> instant \<Rightarrow> bool \<Rightarrow> text option" where
  "newest_metadata_display_agent t now enforce_ttl =
     Option.bind (max_by_key display_agent_reported_at
       (filter (\<lambda>m. am_display_agent m \<noteq> None) (valid_agent_metadata t now enforce_ttl)))
       am_display_agent"

definition dated_labels :: "agent_metadata \<Rightarrow> (instant \<times> text \<times> text) list" where
  "dated_labels m = List.map_filter (\<lambda>(st, label).
     map_option (\<lambda>at. (at, st, label)) (hm_get (state_label_reported_at m) st)) (am_state_labels m)"

definition hm_collect :: "('k \<times> 'v) list \<Rightarrow> ('k, 'v) hashmap" where
  "hm_collect es = fold (\<lambda>(k, v). hm_insert k v) es []"

definition effective_metadata_state_labels ::
    "terminal_state \<Rightarrow> instant \<Rightarrow> bool \<Rightarrow> (text, text) hashmap" where
  "effective_metadata_state_labels t now enforce_ttl =
     hm_collect (map snd (sort_key fst
       (concat (map dated_labels (valid_agent_metadata t now enforce_ttl)))))"

definition effective_presentation_with_ttl ::
    "terminal_state \<Rightarrow> instant \<Rightarrow> bool \<Rightarrow> effective_presentation" where
  "effective_presentation_with_ttl t now enforce_ttl =
     \<lparr>pres_title = newest_metadata_title t now enforce_ttl,
      pres_display_agent = newest_metadata_display_agent t now enforce_ttl,
      pres_state_labels = effective_metadata_state_labels t now enforce_ttl\<rparr>"

definition effective_presentation_at :: "terminal_state \<Rightarrow> instant \<Rightarrow> effective_presentation" where
  "effective_presentation_at t now = effective_presentation_with_ttl t now True"

definition presentation_eq :: "effective_presentation \<Rightarrow> effective_presentation \<Rightarrow> bool" where
  "presentation_eq p q \<longleftrightarrow> pres_title p = pres_title q \<and> pres_display_agent p = pres_display_agent q
     \<and> hm_eq (pres_state_labels p) (pres_state_labels q)"

definition clear_expiry_pending_for_hidden_metadata :: "terminal_state \<Rightarrow> terminal_state" where
  "clear_expiry_pending_for_hidden_metadata t =
     t\<lparr>agent_metadata_map := hm_map_values (\<lambda>_ m.
        if expiry_event_pending m \<and> \<not> agent_metadata_is_visible_ignoring_ttl t m
        then m\<lparr>expiry_event_pending := False\<rparr> else m) (agent_metadata_map t)\<rparr>"

section \<open>Arbitration\<close>

text \<open>The effective state: a fresh visible blocker, else the effective hook, else the screen.\<close>

definition arbitrated_state :: "terminal_state \<Rightarrow> agent_state" where
  "arbitrated_state t =
     (if visible_blocker_overrides_hook t then Blocked
      else unwrap_or (map_option ha_state
             (opt_filter (hook_authority_is_effective t) (hook_auth t))) (fallback_state t))"

text \<open>What a mutation records before it changes the terminal.\<close>

record effective_snapshot =
  snap_label :: "text option"
  snap_known :: "agent option"
  snap_state :: agent_state
  snap_presentation :: effective_presentation

definition snapshot_at :: "terminal_state \<Rightarrow> instant \<Rightarrow> effective_snapshot" where
  "snapshot_at t now = \<lparr>snap_label = effective_agent_label t, snap_known = effective_known_agent t,
     snap_state = ts_state t, snap_presentation = effective_presentation_at t now\<rparr>"

definition recompute_effective_state ::
    "effective_snapshot \<Rightarrow> instant \<Rightarrow> terminal_state \<Rightarrow>
     effective_state_change option \<times> terminal_state" where
  "recompute_effective_state prev now t =
     (let st = arbitrated_state t;
          label = effective_agent_label t;
          known = effective_known_agent t;
          pres = effective_presentation_at t now;
          t1 = clear_expiry_pending_for_hidden_metadata t
      in if snap_label prev = label \<and> snap_state prev = st
            \<and> presentation_eq (snap_presentation prev) pres
         then (None, t1)
         else (Some \<lparr>previous_agent_label = snap_label prev, previous_known_agent = snap_known prev,
                 previous_state = snap_state prev, previous_presentation = snap_presentation prev,
                 esc_agent_label = label, known_agent = known, esc_state = st, presentation = pres\<rparr>,
               t1\<lparr>ts_state := st\<rparr>))"

definition unchanged_effective_state_change_at :: "terminal_state \<Rightarrow> instant \<Rightarrow> effective_state_change" where
  "unchanged_effective_state_change_at t now =
     (let label = effective_agent_label t; known = effective_known_agent t;
          pres = effective_presentation_at t now
      in \<lparr>previous_agent_label = label, previous_known_agent = known, previous_state = ts_state t,
          previous_presentation = pres, esc_agent_label = label, known_agent = known,
          esc_state = ts_state t, presentation = pres\<rparr>)"

section \<open>Session identity\<close>

type_synonym session_identity = "text \<times> text \<times> session_ref_kind \<times> text"

definition current_session_identity :: "terminal_state \<Rightarrow> session_identity option" where
  "current_session_identity t =
     or_else (Option.bind (hook_auth t) (\<lambda>a. map_option
                (\<lambda>r. (ha_source a, ha_agent_label a, kind r, ref_value r)) (ha_session_ref a)))
       (map_option (\<lambda>s. (ps_source s, ps_agent s, kind (ps_session_ref s),
                         ref_value (ps_session_ref s))) (persisted_session t))"

definition current_session_owner_conflicts :: "terminal_state \<Rightarrow> text \<Rightarrow> text \<Rightarrow> bool" where
  "current_session_owner_conflicts t source label =
     is_some_and (\<lambda>(cur_source, cur_agent, _, _). cur_source \<noteq> source \<or> cur_agent \<noteq> label)
       (current_session_identity t)"

definition persisted_agent_session_matches :: "terminal_state \<Rightarrow> text \<Rightarrow> text \<Rightarrow> bool" where
  "persisted_agent_session_matches t source agent =
     is_some_and (\<lambda>s. ps_source s = source \<and> ps_agent s = agent) (persisted_session t)"

end
