(* ===== verification/Terminal_Hooks.thy ===== *)
theory Terminal_Hooks
  imports Terminal_State
begin

text \<open>
  Hook reports, \<open>src/terminal/state.rs\<close>: the routing of the reports of full life-cycle
  integrations (suppression after a release or a process exit, sessions known to be stale,
  replacement sessions waiting for their process), the sequence gate, and the operations that
  set, clear and release a hook's authority or report a session.
\<close>

section \<open>Agent names and their owners\<close>

definition clear_agent_name :: "terminal_state \<Rightarrow> terminal_state" where
  "clear_agent_name t = t\<lparr>agent_name := None, name_owner := None, managed := None\<rparr>"

definition reconcile_agent_name_owner ::
    "text \<Rightarrow> agent_session_ref option \<Rightarrow> terminal_state \<Rightarrow> terminal_state" where
  "reconcile_agent_name_owner label session_ref t =
     (if agent_name t = None then t
      else if is_some_and (\<lambda>m. parse_agent_label label = Some (managed_kind m)) (managed t) then t
      else case name_owner t of
        Some owner \<Rightarrow>
          if owner_agent_label owner \<noteq> label
             \<or> zip_is_some_and (\<lambda>current incoming. current \<noteq> incoming)
                 (owner_session_ref owner) session_ref
          then t\<lparr>agent_name := None, name_owner := None\<rparr>
          else if owner_session_ref owner = None \<and> session_ref \<noteq> None
          then t\<lparr>name_owner := Some (owner\<lparr>owner_session_ref := session_ref\<rparr>)\<rparr>
          else t
      | None \<Rightarrow> t\<lparr>name_owner := Some \<lparr>owner_agent_label = label, owner_session_ref = session_ref\<rparr>\<rparr>)"

section \<open>Suppression and stale sessions\<close>

definition suppress_with_session_ref :: "text \<Rightarrow> text \<Rightarrow> agent_session_ref option \<Rightarrow>
    suppression_reason \<Rightarrow> instant \<Rightarrow> terminal_state \<Rightarrow> terminal_state" where
  "suppress_with_session_ref source label session_ref reason observed_at t =
     t\<lparr>suppressed_reports := hm_insert source
        \<lparr>sup_agent_label = label, sup_session_ref = session_ref, sup_observed_at = observed_at,
         sup_reason = reason, replacement_session_ref = None, pending_replacement_report = None\<rparr>
        (suppressed_reports t)\<rparr>"

definition suppress_current_hook_authority ::
    "suppression_reason \<Rightarrow> instant \<Rightarrow> terminal_state \<Rightarrow> terminal_state" where
  "suppress_current_hook_authority reason clk t =
     (case opt_filter owns_life_cycle (hook_auth t) of None \<Rightarrow> t
      | Some a \<Rightarrow> suppress_with_session_ref (ha_source a) (ha_agent_label a) (ha_session_ref a)
                   reason clk t)"

definition suppress_hook_report ::
    "text \<Rightarrow> text \<Rightarrow> suppression_reason \<Rightarrow> instant \<Rightarrow> terminal_state \<Rightarrow> terminal_state" where
  "suppress_hook_report source label reason clk t =
     (if full_lifecycle_hook_authority source label
      then suppress_with_session_ref source label (Option.bind (hook_auth t) ha_session_ref)
             reason clk t
      else t)"

definition remember_stale_session ::
    "text \<Rightarrow> text \<Rightarrow> agent_session_ref \<Rightarrow> terminal_state \<Rightarrow> terminal_state" where
  "remember_stale_session source label session_ref t =
     (let stale = \<lparr>stale_agent_label = label, stale_session_ref = session_ref\<rparr>;
          known = unwrap_or (hm_get (stale_sessions t) source) []
      in t\<lparr>stale_sessions := hm_insert source
            (if stale \<in> set known then known else known @ [stale]) (stale_sessions t)\<rparr>)"

definition forget_stale_session ::
    "text \<Rightarrow> text \<Rightarrow> agent_session_ref \<Rightarrow> terminal_state \<Rightarrow> terminal_state" where
  "forget_stale_session source label session_ref t =
     (case hm_get (stale_sessions t) source of None \<Rightarrow> t
      | Some known \<Rightarrow>
          let kept = filter (\<lambda>stale. stale_agent_label stale \<noteq> label
                       \<or> stale_session_ref stale \<noteq> session_ref) known
          in if kept = [] then t\<lparr>stale_sessions := hm_remove source (stale_sessions t)\<rparr>
             else t\<lparr>stale_sessions := hm_insert source kept (stale_sessions t)\<rparr>)"

definition report_matches_stale_session ::
    "terminal_state \<Rightarrow> text \<Rightarrow> text \<Rightarrow> agent_session_ref option \<Rightarrow> bool" where
  "report_matches_stale_session t source label session_ref =
     (if \<not> full_lifecycle_hook_authority source label then False
      else is_some_and (\<lambda>known. is_some_and (\<lambda>incoming.
             list_ex (\<lambda>stale. stale_agent_label stale = label \<and> incoming = stale_session_ref stale)
               known) session_ref) (hm_get (stale_sessions t) source))"

definition report_has_fresh_session_after_stale_session ::
    "terminal_state \<Rightarrow> text \<Rightarrow> text \<Rightarrow> agent_session_ref option \<Rightarrow> bool" where
  "report_has_fresh_session_after_stale_session t source label session_ref =
     (if \<not> full_lifecycle_hook_authority source label then False
      else is_some_and (\<lambda>known.
             list_ex (\<lambda>stale. stale_agent_label stale = label) known
             \<and> is_some_and (\<lambda>incoming. list_all (\<lambda>stale. stale_agent_label stale \<noteq> label
                   \<or> incoming \<noteq> stale_session_ref stale) known) session_ref)
           (hm_get (stale_sessions t) source))"

definition live_hook_authority_conflicts_with_session ::
    "terminal_state \<Rightarrow> text \<Rightarrow> text \<Rightarrow> agent_session_ref option \<Rightarrow> bool" where
  "live_hook_authority_conflicts_with_session t source label session_ref =
     (case hook_auth t of None \<Rightarrow> False
      | Some a \<Rightarrow>
          if \<not> owns_life_cycle a then False
          else if ha_source a \<noteq> source \<or> ha_agent_label a \<noteq> label then False
          else zip_is_some_and (\<lambda>current incoming. current \<noteq> incoming) (ha_session_ref a) session_ref)"

definition same_owner_hook_authority_session_ref ::
    "terminal_state \<Rightarrow> text \<Rightarrow> text \<Rightarrow> agent_session_ref \<Rightarrow> agent_session_ref option" where
  "same_owner_hook_authority_session_ref t source label session_ref =
     (case hook_auth t of None \<Rightarrow> None
      | Some a \<Rightarrow>
          if \<not> owns_life_cycle a \<or> ha_source a \<noteq> source \<or> ha_agent_label a \<noteq> label then None
          else opt_filter (\<lambda>current. current \<noteq> session_ref) (ha_session_ref a))"

text \<open>The entries that the closure of \<open>retain\<close> drops, and what it collects from them.\<close>

definition cleared_for_agent :: "agent \<Rightarrow> suppressed_full_lifecycle_hook_report \<Rightarrow> bool" where
  "cleared_for_agent detected s \<longleftrightarrow>
     parse_agent_label (sup_agent_label s) = Some detected
     \<and> \<not> (sup_reason s = ProcessExit \<and> replacement_session_ref s = None)"

definition stale_of_cleared :: "suppressed_full_lifecycle_hook_report \<Rightarrow> agent_session_ref option" where
  "stale_of_cleared s =
     (if sup_reason s = ProcessExit
      then opt_filter (\<lambda>exited. Some exited \<noteq> replacement_session_ref s) (sup_session_ref s)
      else sup_session_ref s)"

definition validated_of_cleared :: "terminal_state \<Rightarrow> text \<Rightarrow> suppressed_full_lifecycle_hook_report \<Rightarrow>
    (text \<times> text \<times> agent_session_ref \<times> pending_full_lifecycle_hook_report option) option" where
  "validated_of_cleared t source s =
     (if sup_reason s = ProcessExit
      then map_option (\<lambda>session_ref. (source, sup_agent_label s, session_ref,
             opt_filter (\<lambda>pending. ha_session_ref (pr_authority pending) = Some session_ref
                 \<and> is_none_or (\<lambda>seq. pr_seq pending > seq) (hm_get (hook_report_sequences t) source))
               (pending_replacement_report s))) (replacement_session_ref s)
      else None)"

definition adopt_validated_session ::
    "text \<times> text \<times> agent_session_ref \<times> pending_full_lifecycle_hook_report option \<Rightarrow>
     terminal_state \<Rightarrow> terminal_state" where
  "adopt_validated_session v t =
     (case v of (source, label, session_ref, pending) \<Rightarrow>
        let t1 = forget_stale_session source label session_ref t;
            t2 = reconcile_agent_name_owner label (Some session_ref) t1;
            t3 = t2\<lparr>persisted_session := Some \<lparr>ps_source = source, ps_agent = label,
                      ps_session_ref = session_ref\<rparr>\<rparr>
        in case pending of None \<Rightarrow> t3
           | Some p \<Rightarrow> t3\<lparr>hook_report_sequences :=
                             hm_insert source (pr_seq p) (hook_report_sequences t3),
                           hook_auth := Some (pr_authority p)\<rparr>)"

definition clear_suppression_for_detected_agent ::
    "agent option \<Rightarrow> agent option \<Rightarrow> terminal_state \<Rightarrow> terminal_state" where
  "clear_suppression_for_detected_agent previous_detected detected_opt t =
     (case detected_opt of None \<Rightarrow> t
      | Some detected \<Rightarrow>
          if previous_detected = Some detected then t
          else
            let cleared = filter (\<lambda>(source, s). cleared_for_agent detected s) (suppressed_reports t);
                stale = List.map_filter (\<lambda>(source, s). map_option
                   (\<lambda>r. (source, sup_agent_label s, r)) (stale_of_cleared s)) cleared;
                validated = List.map_filter (\<lambda>(source, s). validated_of_cleared t source s) cleared;
                t1 = t\<lparr>suppressed_reports :=
                   hm_retain (\<lambda>source s. \<not> cleared_for_agent detected s) (suppressed_reports t)\<rparr>;
                t2 = fold (\<lambda>(source, label, r). remember_stale_session source label r) stale t1;
                t3 = t2\<lparr>hook_report_sequences := hm_retain (\<lambda>source _.
                       list_ex (\<lambda>v. fst v = source) validated
                       \<or> \<not> full_lifecycle_hook_authority source (agent_label detected))
                     (hook_report_sequences t2)\<rparr>
            in fold adopt_validated_session validated t3)"

definition detected_state_observed_before_release_suppression ::
    "terminal_state \<Rightarrow> agent option \<Rightarrow> instant \<Rightarrow> bool" where
  "detected_state_observed_before_release_suppression t detected_opt observed_at =
     (case detected_opt of None \<Rightarrow> False
      | Some detected \<Rightarrow> list_ex (\<lambda>s. parse_agent_label (sup_agent_label s) = Some detected
            \<and> observed_at \<le> sup_observed_at s) (hm_values (suppressed_reports t)))"

section \<open>Session replacement rules\<close>

definition start_source_in :: "text option \<Rightarrow> string list \<Rightarrow> bool" where
  "start_source_in start ss = is_some_and (\<lambda>s. one_of s ss) start"

definition session_report_allows_session_replacement :: "text \<Rightarrow> text \<Rightarrow> text option \<Rightarrow> bool" where
  "session_report_allows_session_replacement source label start \<longleftrightarrow>
     is_pair source label ''herdr:claude'' ''claude''
       \<and> start_source_in start [''clear'', ''resume'', ''compact'']
     \<or> is_pair source label ''herdr:codex'' ''codex''
       \<and> start_source_in start [''startup'', ''clear'', ''resume'', ''compact'']
     \<or> is_pair source label ''herdr:mastracode'' ''mastracode'' \<and> start_source_in start [''startup'']
     \<or> is_pair source label ''herdr:hermes'' ''hermes''
       \<and> start_source_in start [''startup'', ''new'', ''resume'']
     \<or> is_pair source label ''herdr:opencode'' ''opencode'' \<and> start_source_in start [''new'']
     \<or> is_pair source label ''herdr:pi'' ''pi'' \<and> start_source_in start [''new'', ''resume'', ''fork'']
     \<or> is_pair source label ''herdr:omp'' ''omp''
       \<and> start_source_in start [''startup'', ''new'', ''resume'', ''fork'']
     \<or> is_pair source label ''herdr:antigravity_cli'' ''agy'' \<and> start = None"

definition session_start_source_is_recognized :: "text option \<Rightarrow> bool" where
  "session_start_source_is_recognized start =
     start_source_in start [''startup'', ''clear'', ''resume'', ''compact'', ''new'', ''fork'']"

definition conflicting_same_owner_session_ref ::
    "terminal_state \<Rightarrow> text \<Rightarrow> text \<Rightarrow> agent_session_ref \<Rightarrow> text option \<Rightarrow> agent_session_ref option" where
  "conflicting_same_owner_session_ref t source label session_ref start =
     Option.bind (current_session_identity t) (\<lambda>(cur_source, cur_agent, cur_kind, cur_value).
       then_some (cur_source = source \<and> cur_agent = label \<and> cur_kind = Id
           \<and> kind session_ref = Id \<and> cur_value \<noteq> ref_value session_ref
           \<and> \<not> session_report_allows_session_replacement source label start)
         \<lparr>kind = cur_kind, ref_value = cur_value\<rparr>)"

definition lifecycle_hook_report_replaces_persisted_session ::
    "terminal_state \<Rightarrow> text \<Rightarrow> text \<Rightarrow> agent_session_ref \<Rightarrow> bool" where
  "lifecycle_hook_report_replaces_persisted_session t source label session_ref \<longleftrightarrow>
     hook_auth t = None \<and> is_pair source label ''herdr:mastracode'' ''mastracode''
     \<and> is_some_and (\<lambda>s. ps_source s = source \<and> ps_agent s = label
         \<and> kind (ps_session_ref s) = Id \<and> kind session_ref = Id
         \<and> ref_value (ps_session_ref s) \<noteq> ref_value session_ref) (persisted_session t)"

definition foreground_agent_confirms_session_owner ::
    "terminal_state \<Rightarrow> text \<Rightarrow> text \<Rightarrow> agent_session_ref \<Rightarrow> bool" where
  "foreground_agent_confirms_session_owner t source label session_ref =
     (case detected_agent t of None \<Rightarrow> False
      | Some detected \<Rightarrow> parse_agent_label label = Some detected
                         \<and> plan source label session_ref \<noteq> None)"

definition foreground_agent_confirms_hook_authority_takeover ::
    "terminal_state \<Rightarrow> text \<Rightarrow> text \<Rightarrow> agent_session_ref option \<Rightarrow> bool" where
  "foreground_agent_confirms_hook_authority_takeover t source label session_ref =
     is_some_and (foreground_agent_confirms_session_owner t source label) session_ref"

definition foreground_agent_confirms_different_owner_takeover ::
    "terminal_state \<Rightarrow> text \<Rightarrow> text \<Rightarrow> agent_session_ref \<Rightarrow> text option \<Rightarrow> bool" where
  "foreground_agent_confirms_different_owner_takeover t source label session_ref start \<longleftrightarrow>
     session_start_source_is_recognized start
     \<and> foreground_agent_confirms_session_owner t source label session_ref"

section \<open>The gate\<close>

definition accept_hook_report :: "text \<Rightarrow> u64 option \<Rightarrow> terminal_state \<Rightarrow> bool \<times> terminal_state" where
  "accept_hook_report source seq t =
     (case seq of None \<Rightarrow> (\<not> hm_contains (hook_report_sequences t) source, t)
      | Some n \<Rightarrow>
          if is_some_and (\<lambda>last_seq. n \<le> last_seq) (hm_get (hook_report_sequences t) source)
          then (False, t)
          else (True, t\<lparr>hook_report_sequences := hm_insert source n (hook_report_sequences t)\<rparr>))"

section \<open>Routing\<close>

definition process_present :: "terminal_state \<Rightarrow> text \<Rightarrow> bool" where
  "process_present t label \<longleftrightarrow>
     parse_agent_label label \<noteq> None \<and> detected_agent t = parse_agent_label label \<and> recent_exit t = None"

definition report_session_anchored ::
    "terminal_state \<Rightarrow> text \<Rightarrow> text \<Rightarrow> agent_session_ref option \<Rightarrow> bool" where
  "report_session_anchored t source label session_ref =
     is_some_and (\<lambda>anchored. is_none_or (\<lambda>incoming. incoming = anchored) session_ref)
       (or_else (Option.bind (opt_filter (\<lambda>a. ha_source a = source \<and> ha_agent_label a = label)
                   (hook_auth t)) ha_session_ref)
          (map_option ps_session_ref
            (opt_filter (\<lambda>s. ps_source s = source \<and> ps_agent s = label) (persisted_session t))))"

text \<open>The part that parks a report until its process is seen.\<close>

definition park_hook_report :: "text \<Rightarrow> text \<Rightarrow> agent_state \<Rightarrow> text option \<Rightarrow>
    agent_session_ref \<Rightarrow> u64 \<Rightarrow> instant \<Rightarrow> terminal_state \<Rightarrow> terminal_state" where
  "park_hook_report source label st msg session_ref seq reported_at t =
     (let previous = map_option ps_session_ref
            (opt_filter (\<lambda>s. ps_source s = source \<and> ps_agent s = label) (persisted_session t));
          suppressed = unwrap_or (hm_get (suppressed_reports t) source)
            \<lparr>sup_agent_label = label, sup_session_ref = previous, sup_observed_at = reported_at,
             sup_reason = ProcessExit, replacement_session_ref = None,
             pending_replacement_report = None\<rparr>;
          replace_pending = is_none_or (\<lambda>pending. seq > pr_seq pending)
            (pending_replacement_report suppressed);
          updated = (if replace_pending
            then suppressed\<lparr>pending_replacement_report := Some
                   \<lparr>pr_authority = \<lparr>ha_source = source, ha_agent_label = label, ha_state = st,
                      ha_message = msg, ha_reported_at = reported_at,
                      ha_session_ref = Some session_ref\<rparr>, pr_seq = seq\<rparr>\<rparr>
            else suppressed)
      in t\<lparr>suppressed_reports := hm_insert source updated (suppressed_reports t)\<rparr>)"

definition route_hook_report :: "text \<Rightarrow> text \<Rightarrow> agent_state \<Rightarrow> text option \<Rightarrow>
    agent_session_ref option \<Rightarrow> u64 option \<Rightarrow> instant \<Rightarrow> terminal_state \<Rightarrow>
    hook_report_route \<times> terminal_state" where
  "route_hook_report source label st msg session_ref seq reported_at t =
     (if \<not> full_lifecycle_hook_authority source label then (Accept False, t)
      else if report_matches_stale_session t source label session_ref then (Ignore, t)
      else
        let suppressed = hm_get (suppressed_reports t) source;
            rest =
              (if process_present t label \<and> report_session_anchored t source label session_ref
                  \<and> \<not> hm_contains (suppressed_reports t) source
               then (Accept (report_has_fresh_session_after_stale_session t source label session_ref), t)
               else case (session_ref, seq) of
                 (Some r, Some n) \<Rightarrow>
                   if is_some_and (\<lambda>previous. n \<le> previous) (hm_get (hook_report_sequences t) source)
                   then (Ignore, t)
                   else (Ignore, park_hook_report source label st msg r n reported_at t)
               | _ \<Rightarrow> (Ignore, t))
        in case suppressed of None \<Rightarrow> rest
           | Some s \<Rightarrow>
               if sup_agent_label s \<noteq> label then (Ignore, t)
               else if sup_reason s = HookClear
               then (if zip_is_some_and (\<lambda>previous incoming. previous \<noteq> incoming)
                          (sup_session_ref s) session_ref
                     then (Accept True, t) else (Ignore, t))
               else rest)"

end
