(* ===== verification/Terminal_Ops.thy ===== *)
theory Terminal_Ops
  imports Terminal_Hooks
begin

text \<open>
  The public operations of a terminal, \<open>src/terminal/state.rs\<close>: hook reports, session reports,
  clears and releases, detection updates, and the managed-agent life cycle. Each returns the
  mutation it reports to its caller (\<open>None\<close> where the code returns \<open>None\<close>) and the new state.
\<close>

definition mutation_result :: "effective_snapshot \<Rightarrow> instant \<Rightarrow> bool \<Rightarrow> bool \<Rightarrow> terminal_state \<Rightarrow>
    terminal_state_mutation option \<times> terminal_state" where
  "mutation_result prev now ref_changed released t =
     (let (change, t') = recompute_effective_state prev now t
      in (Some \<lparr>state_change = change, session_ref_changed = ref_changed,
                agent_released = released\<rparr>, t'))"

section \<open>Hook reports\<close>

text \<open>The body of \<open>set_hook_authority_at\<close> once every guard has passed.\<close>

definition install_hook_authority :: "text \<Rightarrow> text \<Rightarrow> agent_state \<Rightarrow> text option \<Rightarrow>
    agent_session_ref option \<Rightarrow> bool \<Rightarrow> bool \<Rightarrow> instant \<Rightarrow> instant \<Rightarrow> terminal_state \<Rightarrow>
    terminal_state_mutation option \<times> terminal_state" where
  "install_hook_authority source label st msg session_ref reanchor takeover clk now t =
     (let prev = snapshot_at t now;
          previous_session = current_session_identity t;
          t1 = reconcile_agent_name_owner label session_ref t;
          t2 = (if takeover then suppress_current_hook_authority HookClear clk t1 else t1);
          t3 = (if session_ref \<noteq> None \<or> reanchor
                then (case hm_get (suppressed_reports t2) source of None \<Rightarrow> t2
                     | Some s \<Rightarrow>
                         let t' = t2\<lparr>suppressed_reports := hm_remove source (suppressed_reports t2)\<rparr>
                         in (case sup_session_ref s of None \<Rightarrow> t'
                             | Some r \<Rightarrow> remember_stale_session source (sup_agent_label s) r t'))
                else t2);
          t4 = t3\<lparr>persisted_session := None,
                  hook_auth := Some \<lparr>ha_source = source, ha_agent_label = label, ha_state = st,
                    ha_message = msg, ha_reported_at = now, ha_session_ref = session_ref\<rparr>\<rparr>
      in mutation_result prev now (previous_session \<noteq> current_session_identity t4) False t4)"

text \<open>The session a report is recorded under: a conflicting identifier of the same owner keeps the
  current session unless the report replaces a persisted one.\<close>

definition reported_session_ref ::
    "terminal_state \<Rightarrow> text \<Rightarrow> text \<Rightarrow> agent_session_ref option \<Rightarrow> agent_session_ref option" where
  "reported_session_ref t source label session_ref = map_option (\<lambda>r.
     if lifecycle_hook_report_replaces_persisted_session t source label r then r
     else unwrap_or (conflicting_same_owner_session_ref t source label r None) r) session_ref"

definition reanchor_sequence :: "bool \<Rightarrow> text \<Rightarrow> terminal_state \<Rightarrow> terminal_state" where
  "reanchor_sequence reanchor source t =
     (if reanchor then t\<lparr>hook_report_sequences := hm_remove source (hook_report_sequences t)\<rparr> else t)"

definition set_hook_authority_at :: "text \<Rightarrow> text \<Rightarrow> agent_state \<Rightarrow> text option \<Rightarrow>
    agent_session_ref option \<Rightarrow> u64 option \<Rightarrow> instant \<Rightarrow> instant \<Rightarrow> terminal_state \<Rightarrow>
    terminal_state_mutation option \<times> terminal_state" where
  "set_hook_authority_at source label st msg session_ref0 seq clk now t =
     (if session_identity_only_integration source label then (None, t)
      else if \<not> full_lifecycle_hook_authority source label
         \<and> is_some_and (\<lambda>ex. parse_agent_label label = Some (exit_agent ex)) (recent_exit t)
      then (None, t)
      else case route_hook_report source label st msg session_ref0 seq now t of
        (Ignore, t1) \<Rightarrow> (None, t1)
      | (Accept reanchor, t1) \<Rightarrow>
          if known_agent_label_conflicts_with_detected_agent t1 label then (None, t1)
          else
            let owner_conflicts = current_session_owner_conflicts t1 source label;
                takeover = (owner_conflicts
                  \<and> foreground_agent_confirms_hook_authority_takeover t1 source label session_ref0)
            in if owner_conflicts \<and> \<not> takeover then (None, t1)
            else
              let session_ref = reported_session_ref t1 source label session_ref0
              in if live_hook_authority_conflicts_with_session t1 source label session_ref
                 then (None, t1)
              else
                (case accept_hook_report source seq (reanchor_sequence reanchor source t1) of
                     (False, t3) \<Rightarrow> (None, t3)
                   | (True, t3) \<Rightarrow>
                       install_hook_authority source label st msg session_ref reanchor takeover
                         clk now t3))"

definition set_hook_authority_with_session_ref :: "text \<Rightarrow> text \<Rightarrow> agent_state \<Rightarrow> text option \<Rightarrow>
    agent_session_ref option \<Rightarrow> u64 option \<Rightarrow> instant \<Rightarrow> instant \<Rightarrow> terminal_state \<Rightarrow>
    terminal_state_mutation option \<times> terminal_state" where
  "set_hook_authority_with_session_ref source label st msg session_ref seq clk now t =
     set_hook_authority_at source label st msg session_ref seq clk now t"

section \<open>Session reports\<close>

text \<open>A session start of a full life-cycle agent whose process is not confirmed yet.\<close>

definition park_session_start :: "text \<Rightarrow> text \<Rightarrow> agent_session_ref \<Rightarrow> u64 \<Rightarrow> instant \<Rightarrow>
    terminal_state \<Rightarrow> terminal_state" where
  "park_session_start source label session_ref seq now t =
     (let suppressed = unwrap_or (hm_get (suppressed_reports t) source)
            \<lparr>sup_agent_label = label, sup_session_ref = None, sup_observed_at = now,
             sup_reason = ProcessExit, replacement_session_ref = None,
             pending_replacement_report = None\<rparr>;
          updated = (if replacement_session_ref suppressed \<noteq> Some session_ref
            then (let s1 = (if is_some_and (\<lambda>pending.
                              ha_session_ref (pr_authority pending) \<noteq> Some session_ref)
                            (pending_replacement_report suppressed)
                      then suppressed\<lparr>pending_replacement_report := None\<rparr> else suppressed)
                  in s1\<lparr>replacement_session_ref := Some session_ref\<rparr>)
            else suppressed)
      in t\<lparr>suppressed_reports := hm_insert source updated (suppressed_reports t),
           hook_report_sequences := hm_insert source seq (hook_report_sequences t)\<rparr>)"

definition session_start_unconfirmed :: "terminal_state \<Rightarrow> text \<Rightarrow> text \<Rightarrow> bool" where
  "session_start_unconfirmed t source label \<longleftrightarrow>
     full_lifecycle_hook_authority source label
     \<and> (\<not> process_present t label
        \<or> is_some_and (\<lambda>s. sup_agent_label s = label \<and> sup_reason s \<noteq> HookClear)
            (hm_get (suppressed_reports t) source)
        \<or> \<not> (is_some_and (\<lambda>a. ha_source a = source \<and> ha_agent_label a = label
                 \<and> ha_session_ref a \<noteq> None) (hook_auth t)
              \<or> persisted_agent_session_matches t source label))"

definition replacing_identity_only_session ::
    "terminal_state \<Rightarrow> text \<Rightarrow> text \<Rightarrow> agent_session_ref \<Rightarrow> bool \<Rightarrow> bool" where
  "replacing_identity_only_session t source label session_ref replacement_allowed \<longleftrightarrow>
     session_identity_only_integration source label \<and> replacement_allowed
     \<and> is_some_and (\<lambda>(cur_source, cur_agent, cur_kind, cur_value).
          cur_source = source \<and> cur_agent = label \<and> cur_kind = Id \<and> kind session_ref = Id
          \<and> cur_value \<noteq> ref_value session_ref) (current_session_identity t)"

text \<open>The body of the session report once every guard has passed.\<close>

definition install_session_ref :: "text \<Rightarrow> text \<Rightarrow> agent_session_ref \<Rightarrow> bool \<Rightarrow> bool \<Rightarrow>
    agent_session_ref option \<Rightarrow> instant \<Rightarrow> instant \<Rightarrow> terminal_state \<Rightarrow>
    terminal_state_mutation option \<times> terminal_state" where
  "install_session_ref source label session_ref replacement_allowed takeover replaced clk now t =
     (let prev = snapshot_at t now;
          previous_session = current_session_identity t;
          t1 = (if replacement_allowed \<or> takeover
                then forget_stale_session source label session_ref t else t);
          t2 = (case replaced of
                  Some r \<Rightarrow> (remember_stale_session source label r t1)\<lparr>hook_auth := None\<rparr>
                | None \<Rightarrow> if takeover
                          then (suppress_current_hook_authority HookClear clk t1)\<lparr>hook_auth := None\<rparr>
                          else t1);
          t3 = reconcile_agent_name_owner label (Some session_ref) t2;
          t4 = t3\<lparr>persisted_session := Some \<lparr>ps_source = source, ps_agent = label,
                    ps_session_ref = session_ref\<rparr>\<rparr>
      in mutation_result prev now (previous_session \<noteq> current_session_identity t4) False t4)"

definition set_agent_session_ref_for_session_start :: "text \<Rightarrow> text \<Rightarrow>
    agent_session_ref option \<Rightarrow> u64 option \<Rightarrow> text option \<Rightarrow> instant \<Rightarrow> instant \<Rightarrow> terminal_state \<Rightarrow>
    terminal_state_mutation option \<times> terminal_state" where
  "set_agent_session_ref_for_session_start source label session_ref_opt seq_opt start clk now t =
     (case session_ref_opt of None \<Rightarrow> (None, t)
      | Some session_ref \<Rightarrow>
        if session_start_unconfirmed t source label then
          (if \<not> session_start_source_is_recognized start then (None, t)
           else (case seq_opt of None \<Rightarrow> (None, t)
           | Some seq \<Rightarrow>
             if is_some_and (\<lambda>previous. seq \<le> previous) (hm_get (hook_report_sequences t) source)
             then (None, t)
             else
               let prev = snapshot_at t now;
                   previous_session = current_session_identity t;
                   t1 = park_session_start source label session_ref seq now t
               in if process_present t label
                  then let t2 = clear_suppression_for_detected_agent None (parse_agent_label label) t1
                       in mutation_result prev now
                            (previous_session \<noteq> current_session_identity t2) False t2
                  else (None, t1)))
        else (case accept_hook_report source seq_opt t of
          (False, t1) \<Rightarrow> (None, t1)
        | (True, t1) \<Rightarrow>
          if known_agent_label_conflicts_with_detected_agent t1 label then (None, t1)
          else
            let replacement_allowed = session_report_allows_session_replacement source label start
            in if replacing_identity_only_session t1 source label session_ref replacement_allowed
                  \<and> \<not> process_present t label then (None, t1)
            else
              let owner_conflicts = current_session_owner_conflicts t1 source label;
                  takeover = (owner_conflicts
                    \<and> foreground_agent_confirms_different_owner_takeover t1 source label
                        session_ref start)
              in if owner_conflicts \<and> \<not> takeover then (None, t1)
              else if conflicting_same_owner_session_ref t1 source label session_ref start \<noteq> None
              then (None, t1)
              else
                let replaced = same_owner_hook_authority_session_ref t1 source label session_ref
                in if replaced \<noteq> None \<and> \<not> replacement_allowed then (None, t1)
                   else install_session_ref source label session_ref replacement_allowed takeover
                          replaced clk now t1))"

definition set_agent_session_ref :: "text \<Rightarrow> text \<Rightarrow> agent_session_ref option \<Rightarrow> u64 option \<Rightarrow>
    instant \<Rightarrow> instant \<Rightarrow> terminal_state \<Rightarrow> terminal_state_mutation option \<times> terminal_state" where
  "set_agent_session_ref source label session_ref seq clk now t =
     set_agent_session_ref_for_session_start source label session_ref seq None clk now t"

definition set_persisted_agent_session ::
    "persisted_agent_session \<Rightarrow> terminal_state \<Rightarrow> terminal_state" where
  "set_persisted_agent_session s t = t\<lparr>persisted_session := Some s\<rparr>"

section \<open>Clear and release\<close>

definition clear_hook_authority :: "text option \<Rightarrow> u64 option \<Rightarrow> instant \<Rightarrow> instant \<Rightarrow>
    terminal_state \<Rightarrow> terminal_state_mutation option \<times> terminal_state" where
  "clear_hook_authority source seq clk now t =
     (let sequence_source = or_else source (map_option ha_source (hook_auth t));
          should_clear = is_some_and (\<lambda>a. is_none_or (\<lambda>s. ha_source a = s) source) (hook_auth t)
      in if \<not> should_clear then (None, t)
         else case (case sequence_source of None \<Rightarrow> (True, t)
                    | Some s \<Rightarrow> accept_hook_report s seq t) of
           (False, t1) \<Rightarrow> (None, t1)
         | (True, t1) \<Rightarrow>
             let prev = snapshot_at t1 now;
                 previous_session = current_session_identity t1;
                 t2 = (suppress_current_hook_authority HookClear clk t1)
                        \<lparr>hook_auth := None, persisted_session := None\<rparr>
             in mutation_result prev now (previous_session \<noteq> None) False t2)"

text \<open>The body of a release once its guards have passed.\<close>

definition forget_released_agent :: "text \<Rightarrow> text \<Rightarrow> bool \<Rightarrow> instant \<Rightarrow> terminal_state \<Rightarrow> terminal_state" where
  "forget_released_agent source label process_owns_agent clk t =
     (let preserve = is_some_and (\<lambda>s. ps_source s \<noteq> source \<or> ps_agent s \<noteq> label)
            (persisted_session t);
          t1 = suppress_hook_report source label HookClear clk t;
          t2 = (if process_owns_agent then t1
                else clear_agent_name (t1\<lparr>detected_agent := None, fallback_state := Unknown,
                       fallback_visible_blocker := False, fallback_observed_at := None\<rparr>));
          t3 = t2\<lparr>hook_auth := None\<rparr>
      in if preserve then t3 else t3\<lparr>persisted_session := None\<rparr>)"

definition release_agent :: "text \<Rightarrow> text \<Rightarrow> u64 option \<Rightarrow> instant \<Rightarrow> instant \<Rightarrow> terminal_state \<Rightarrow>
    terminal_state_mutation option \<times> terminal_state" where
  "release_agent source label seq clk now t =
     (if is_some_and (\<lambda>a. ha_agent_label a \<noteq> label \<or> ha_source a \<noteq> source) (hook_auth t)
      then (None, t)
      else if effective_agent_label t \<noteq> Some label
         \<and> \<not> persisted_agent_session_matches t source label
      then (None, t)
      else case accept_hook_report source seq t of
        (False, t1) \<Rightarrow> (None, t1)
      | (True, t1) \<Rightarrow>
          let process_owns_agent = is_some_and (\<lambda>agent. detected_agent t1 = Some agent
                \<and> recent_exit t1 = None) (parse_agent_label label);
              t2 = forget_released_agent source label process_owns_agent clk t1
          in mutation_result (snapshot_at t1 now) now
               (current_session_identity t1 \<noteq> current_session_identity t2)
               (\<not> process_owns_agent) t2)"

section \<open>Detection updates\<close>

text \<open>The loop over the suppressed reports of the exited agent.\<close>

definition exit_touches :: "agent option \<Rightarrow> suppressed_full_lifecycle_hook_report \<Rightarrow> bool" where
  "exit_touches agent s \<longleftrightarrow>
     parse_agent_label (sup_agent_label s) = agent \<and> sup_reason s \<noteq> HookClear"

definition exited_session_ref ::
    "suppressed_full_lifecycle_hook_report \<Rightarrow> agent_session_ref option" where
  "exited_session_ref s =
     or_else (replacement_session_ref s)
       (or_else (Option.bind (pending_replacement_report s) (\<lambda>p. ha_session_ref (pr_authority p)))
          (sup_session_ref s))"

definition process_exit_reset_reports :: "agent option \<Rightarrow> instant \<Rightarrow> terminal_state \<Rightarrow> terminal_state" where
  "process_exit_reset_reports agent now t =
     (let touched = filter (\<lambda>(_, s). exit_touches agent s) (suppressed_reports t);
          stale = List.map_filter (\<lambda>(source, s).
              case (sup_session_ref s, exited_session_ref s) of
                (Some previous, Some exited) \<Rightarrow>
                  then_some (previous \<noteq> exited) (source, sup_agent_label s, previous)
              | _ \<Rightarrow> None) touched;
          t1 = t\<lparr>suppressed_reports := hm_map_values (\<lambda>_ s.
              if exit_touches agent s
              then s\<lparr>sup_session_ref := exited_session_ref s, replacement_session_ref := None,
                     pending_replacement_report := None, sup_observed_at := now\<rparr>
              else s) (suppressed_reports t)\<rparr>;
          t2 = fold (\<lambda>(source, label, r). remember_stale_session source label r) stale t1
      in t2\<lparr>hook_report_sequences :=
            fold hm_remove (map fst touched) (hook_report_sequences t2)\<rparr>)"

definition official_session_of_agent ::
    "agent option \<Rightarrow> terminal_state \<Rightarrow> (text \<times> text \<times> agent_session_ref option) option" where
  "official_session_of_agent agent t =
     or_else
       (map_option (\<lambda>a. (ha_source a, ha_agent_label a, ha_session_ref a))
          (opt_filter (\<lambda>a. is_official_agent_source (ha_source a) (ha_agent_label a)
             \<and> parse_agent_label (ha_agent_label a) = agent) (hook_auth t)))
       (map_option (\<lambda>s. (ps_source s, ps_agent s, Some (ps_session_ref s)))
          (opt_filter (\<lambda>s. is_official_agent_source (ps_source s) (ps_agent s)
             \<and> parse_agent_label (ps_agent s) = agent) (persisted_session t)))"

definition process_exit_suppress_official :: "agent option \<Rightarrow> instant \<Rightarrow> terminal_state \<Rightarrow> terminal_state" where
  "process_exit_suppress_official agent now t =
     (case official_session_of_agent agent t of None \<Rightarrow> t
      | Some (source, label, session_ref) \<Rightarrow>
          suppress_with_session_ref source label session_ref ProcessExit now
            (t\<lparr>hook_report_sequences := hm_remove source (hook_report_sequences t)\<rparr>))"

definition process_exit_clear_authority :: "agent option \<Rightarrow> bool \<Rightarrow> terminal_state \<Rightarrow> terminal_state" where
  "process_exit_clear_authority agent newer_custom_authority t =
     (let t1 = (case opt_filter (\<lambda>a. parse_agent_label (ha_agent_label a) = agent
                      \<and> \<not> newer_custom_authority) (hook_auth t) of
            None \<Rightarrow> t
          | Some a \<Rightarrow> t\<lparr>hook_report_sequences := hm_remove (ha_source a) (hook_report_sequences t),
                        hook_auth := None\<rparr>)
      in if \<not> newer_custom_authority
            \<and> is_some_and (\<lambda>s. parse_agent_label (ps_agent s) = agent) (persisted_session t1)
         then t1\<lparr>persisted_session := None\<rparr> else t1)"

definition exit_clears_metadata :: "agent \<Rightarrow> instant \<Rightarrow> agent_metadata \<Rightarrow> bool" where
  "exit_clears_metadata agent now m =
     (let label = agent_label agent;
          official_metadata = (is_official_agent_source (am_source m) label
            \<or> is_some_and (\<lambda>applies_to. is_official_agent_source applies_to label)
                (applies_to_source m));
          matches_agent = (am_agent_label m = Some label \<or> official_metadata)
      in matches_agent \<and> (official_metadata \<or> am_reported_at m \<le> now))"

definition process_exit_clear_metadata :: "agent \<Rightarrow> instant \<Rightarrow> terminal_state \<Rightarrow> terminal_state" where
  "process_exit_clear_metadata agent now t =
     (let cleared = map fst (filter (\<lambda>(_, m). exit_clears_metadata agent now m)
            (agent_metadata_map t));
          agents1 = fold hm_remove cleared (metadata_report_agents t);
          exited = map fst (filter (\<lambda>(_, owner). owner = agent) agents1);
          gone = cleared @ exited
      in t\<lparr>agent_metadata_map := hm_retain (\<lambda>_ m. \<not> exit_clears_metadata agent now m)
              (agent_metadata_map t),
           metadata_report_agents := hm_retain (\<lambda>_ owner. owner \<noteq> agent) agents1,
           metadata_report_sequences := fold hm_remove gone (metadata_report_sequences t),
           metadata_token_sequence_sources :=
             fold removeAll gone (metadata_token_sequence_sources t)\<rparr>)"

definition process_exit_effects :: "agent option \<Rightarrow> bool \<Rightarrow> instant \<Rightarrow> terminal_state \<Rightarrow> terminal_state" where
  "process_exit_effects agent newer_custom_authority now t =
     (let t1 = process_exit_reset_reports agent now t;
          t2 = process_exit_suppress_official agent now t1;
          t3 = process_exit_clear_authority agent newer_custom_authority t2
      in case agent of None \<Rightarrow> t3 | Some a \<Rightarrow> process_exit_clear_metadata a now t3)"

text \<open>The authority of an agent that is no longer the one in the foreground.\<close>

definition drop_conflicting_authority ::
    "agent option \<Rightarrow> agent option \<Rightarrow> instant \<Rightarrow> instant \<Rightarrow> terminal_state \<Rightarrow> terminal_state" where
  "drop_conflicting_authority agent previous_detected now clk t =
     (if hook_authority_not_newer_than t now
         \<and> (hook_authority_conflicts_with_detected_agent t agent
            \<or> previous_detected \<noteq> None \<and> agent \<noteq> previous_detected
               \<and> is_some_and (\<lambda>a. parse_agent_label (ha_agent_label a) = previous_detected)
                   (hook_auth t))
      then let durable = Option.bind (hook_auth t) (\<lambda>a. map_option (\<lambda>r.
                 \<lparr>ps_source = ha_source a, ps_agent = ha_agent_label a, ps_session_ref = r\<rparr>)
                 (ha_session_ref a))
           in (suppress_current_hook_authority HookClear clk t)
                \<lparr>hook_auth := None, persisted_session := durable\<rparr>
      else t)"

definition newer_custom_authority :: "terminal_state \<Rightarrow> agent option \<Rightarrow> bool \<Rightarrow> instant \<Rightarrow> bool" where
  "newer_custom_authority t agent process_exited now \<longleftrightarrow>
     process_exited
     \<and> is_some_and (\<lambda>a. parse_agent_label (ha_agent_label a) = agent
          \<and> \<not> is_official_agent_source (ha_source a) (ha_agent_label a)
          \<and> ha_reported_at a > now) (hook_auth t)"

text \<open>Observing the process: the agent, its screen state, and the exit marker.\<close>

definition observe_detection ::
    "agent option \<Rightarrow> agent_state \<Rightarrow> bool \<Rightarrow> bool \<Rightarrow> instant \<Rightarrow> terminal_state \<Rightarrow> terminal_state" where
  "observe_detection agent fallback visible_blocker process_exited now t =
     (let previous_detected = detected_agent t;
          replacement_process_detected = (\<not> process_exited \<and> agent \<noteq> None
            \<and> is_some_and (\<lambda>ex. Some (exit_agent ex) = agent \<and> exit_observed_at ex < now)
                (recent_exit t));
          t1 = t\<lparr>detected_agent := agent\<rparr>;
          t2 = (case agent of None \<Rightarrow> t1
                | Some a \<Rightarrow> reconcile_agent_name_owner (agent_label a) None t1);
          t3 = (if process_exited then t2
                else clear_suppression_for_detected_agent
                       (if replacement_process_detected then None else previous_detected) agent t2);
          t4 = t3\<lparr>fallback_state := fallback,
                  fallback_visible_blocker := visible_blocker \<and> fallback = Blocked,
                  fallback_observed_at := Some now\<rparr>
      in case agent of None \<Rightarrow> t4
         | Some a \<Rightarrow>
             if process_exited
             then t4\<lparr>recent_exit := Some \<lparr>exit_agent = a, exit_observed_at = now\<rparr>\<rparr>
             else t4\<lparr>recent_exit := None\<rparr>)"

definition set_detected_state :: "agent option \<Rightarrow> agent_state \<Rightarrow> bool \<Rightarrow> bool \<Rightarrow> instant \<Rightarrow>
    instant \<Rightarrow> terminal_state \<Rightarrow> terminal_state_mutation option \<times> terminal_state" where
  "set_detected_state agent fallback visible_blocker process_exited clk now t =
     (let prev = snapshot_at t now;
          previous_session = current_session_identity t;
          newer = newer_custom_authority t agent process_exited now;
          released = (process_exited \<and> \<not> newer
            \<and> (snap_label prev \<noteq> None \<or> agent_name t \<noteq> None))
      in if should_ignore_detected_state_under_full_lifecycle_hook t agent process_exited
         then let t1 = (if Option.bind (hook_auth t)
                             (\<lambda>a. parse_agent_label (ha_agent_label a)) = agent
                        then t\<lparr>detected_agent := agent\<rparr> else t)
              in mutation_result prev now (previous_session \<noteq> current_session_identity t1) False t1
         else if \<not> process_exited
                 \<and> detected_state_observed_before_release_suppression t agent now
         then mutation_result prev now False False t
         else
           let t1 = observe_detection agent fallback visible_blocker process_exited now t;
               t2 = (if process_exited then process_exit_effects agent newer now t1 else t1);
               t3 = drop_conflicting_authority agent (detected_agent t) now clk t2;
               t4 = (if released then clear_agent_name t3 else t3)
           in mutation_result prev now (previous_session \<noteq> current_session_identity t4) released t4)"

end
