(* ===== verification/Terminal_Metadata.thy ===== *)
theory Terminal_Metadata
  imports Terminal_Ops
begin

text \<open>
  Agent metadata, \<open>src/terminal/metadata.rs\<close>: the bounded gate in front of metadata reports,
  the report itself (replacing, or clearing and merging field by field), and the expiry of
  metadata that carries a time to live.
\<close>

record agent_metadata_report =
  amr_source :: "text"
  amr_agent_label :: "text option"
  amr_applies_to_source :: "text option"
  amr_title :: "text option"
  amr_display_agent :: "text option"
  amr_state_labels :: "(text, text) hashmap"
  clear_title :: bool
  clear_display_agent :: bool
  clear_state_labels :: bool
  amr_ttl :: "duration option"
  amr_seq :: "u64 option"

section \<open>The gate\<close>

definition metadata_report_sequence_is_fresh :: "terminal_state \<Rightarrow> text \<Rightarrow> u64 option \<Rightarrow> bool" where
  "metadata_report_sequence_is_fresh t source seq =
     sequence_is_fresh (metadata_report_sequences t) source seq"

definition metadata_report_agent :: "text \<Rightarrow> text option \<Rightarrow> text option \<Rightarrow> agent option" where
  "metadata_report_agent source label applies =
     or_else (Option.bind label parse_agent_label)
       (find (\<lambda>a. is_official_agent_source source (agent_label a)
          \<or> is_some_and (\<lambda>s. is_official_agent_source s (agent_label a)) applies) all_agents)"

definition metadata_report_blocked_by_process_exit ::
    "terminal_state \<Rightarrow> text \<Rightarrow> text option \<Rightarrow> text option \<Rightarrow> bool" where
  "metadata_report_blocked_by_process_exit t source label applies =
     (case recent_exit t of None \<Rightarrow> False
      | Some ex \<Rightarrow>
          let exited_label = agent_label (exit_agent ex)
          in Option.bind label parse_agent_label = Some (exit_agent ex)
             \<or> is_official_agent_source source exited_label
             \<or> is_some_and (\<lambda>s. is_official_agent_source s exited_label) applies)"

definition accept_metadata_report :: "text \<Rightarrow> u64 option \<Rightarrow> bool \<Rightarrow> agent option \<Rightarrow>
    terminal_state \<Rightarrow> (unit + bool) \<times> terminal_state" where
  "accept_metadata_report source seq includes_tokens agent t =
     (case seq of None \<Rightarrow> (Inr True, t)
      | Some n \<Rightarrow>
          if \<not> metadata_report_sequence_is_fresh t source (Some n) then (Inr False, t)
          else if includes_tokens \<and> source \<notin> set (metadata_token_sequence_sources t)
             \<and> length (metadata_token_sequence_sources t) \<ge> MAX_SEQUENCE_SOURCES
          then (Inl (), t)
          else (Inr True, t\<lparr>
            metadata_report_sequences := hm_insert source n (metadata_report_sequences t),
            metadata_report_agents := (case agent of None \<Rightarrow> metadata_report_agents t
               | Some a \<Rightarrow> hm_insert source a (metadata_report_agents t)),
            metadata_token_sequence_sources :=
               (if includes_tokens then List.insert source (metadata_token_sequence_sources t)
                else metadata_token_sequence_sources t)\<rparr>))"

section \<open>Reports\<close>

definition has_set_fields :: "agent_metadata_report \<Rightarrow> bool" where
  "has_set_fields r \<longleftrightarrow> amr_title r \<noteq> None \<or> amr_display_agent r \<noteq> None \<or> amr_state_labels r \<noteq> []"

definition fresh_metadata :: "agent_metadata_report \<Rightarrow> instant \<Rightarrow> agent_metadata" where
  "fresh_metadata r now =
     \<lparr>am_source = amr_source r, am_agent_label = amr_agent_label r,
      applies_to_source = amr_applies_to_source r, am_title = None, am_display_agent = None,
      am_state_labels = [], am_reported_at = now, title_reported_at = None,
      display_agent_reported_at = None, state_label_reported_at = [], am_ttl = amr_ttl r,
      expiry_event_pending = False\<rparr>"

definition merge_metadata :: "agent_metadata_report \<Rightarrow> instant \<Rightarrow> agent_metadata \<Rightarrow> agent_metadata" where
  "merge_metadata r now m0 =
     (let m1 = (if clear_title r then m0\<lparr>am_title := None, title_reported_at := None\<rparr> else m0);
          m2 = (if clear_display_agent r
                then m1\<lparr>am_display_agent := None, display_agent_reported_at := None\<rparr> else m1);
          m3 = (if clear_state_labels r
                then m2\<lparr>am_state_labels := [], state_label_reported_at := []\<rparr> else m2);
          m4 = (case amr_agent_label r of None \<Rightarrow> m3 | Some l \<Rightarrow> m3\<lparr>am_agent_label := Some l\<rparr>);
          m5 = (case amr_applies_to_source r of None \<Rightarrow> m4
                | Some s \<Rightarrow> m4\<lparr>applies_to_source := Some s\<rparr>);
          m6 = (case amr_title r of None \<Rightarrow> m5
                | Some x \<Rightarrow> m5\<lparr>am_title := Some x, title_reported_at := Some now\<rparr>);
          m7 = (case amr_display_agent r of None \<Rightarrow> m6
                | Some x \<Rightarrow> m6\<lparr>am_display_agent := Some x, display_agent_reported_at := Some now\<rparr>);
          m8 = fold (\<lambda>(st, label) m. m\<lparr>
                  am_state_labels := hm_insert st label (am_state_labels m),
                  state_label_reported_at := hm_insert st now (state_label_reported_at m)\<rparr>)
                (amr_state_labels r) m7
      in if has_set_fields r \<or> amr_ttl r \<noteq> None
         then m8\<lparr>am_reported_at := now, am_ttl := amr_ttl r, expiry_event_pending := False\<rparr>
         else m8)"

definition replace_metadata :: "agent_metadata_report \<Rightarrow> instant \<Rightarrow> agent_metadata" where
  "replace_metadata r now =
     \<lparr>am_source = amr_source r, am_agent_label = amr_agent_label r,
      applies_to_source = amr_applies_to_source r, am_title = amr_title r,
      am_display_agent = amr_display_agent r, am_state_labels = amr_state_labels r,
      am_reported_at = now, title_reported_at = map_option (\<lambda>_. now) (amr_title r),
      display_agent_reported_at = map_option (\<lambda>_. now) (amr_display_agent r),
      state_label_reported_at = hm_map_values (\<lambda>_ _. now) (amr_state_labels r),
      am_ttl = amr_ttl r, expiry_event_pending = False\<rparr>"

definition drop_expired_metadata :: "text \<Rightarrow> instant \<Rightarrow> terminal_state \<Rightarrow> terminal_state" where
  "drop_expired_metadata source now t =
     (if is_some_and (\<lambda>m. agent_metadata_is_expired m now) (hm_get (agent_metadata_map t) source)
      then t\<lparr>agent_metadata_map := hm_remove source (agent_metadata_map t)\<rparr> else t)"

definition store_metadata :: "agent_metadata_report \<Rightarrow> instant \<Rightarrow> terminal_state \<Rightarrow> terminal_state" where
  "store_metadata r now t =
     (let source = amr_source r;
          updated = (if clear_title r \<or> clear_display_agent r \<or> clear_state_labels r
            then merge_metadata r now
                   (unwrap_or (hm_get (agent_metadata_map t) source) (fresh_metadata r now))
            else replace_metadata r now);
          t1 = t\<lparr>agent_metadata_map := hm_insert source updated (agent_metadata_map t)\<rparr>
      in if amr_ttl r \<noteq> None \<and> agent_metadata_is_visible_ignoring_ttl t1 updated
         then t1\<lparr>agent_metadata_map := hm_insert source
                (updated\<lparr>expiry_event_pending := True\<rparr>) (agent_metadata_map t1)\<rparr>
         else t1)"

definition set_agent_metadata :: "agent_metadata_report \<Rightarrow> instant \<Rightarrow> terminal_state \<Rightarrow>
    terminal_state_mutation option \<times> terminal_state" where
  "set_agent_metadata r now t =
     (if metadata_report_blocked_by_process_exit t (amr_source r) (amr_agent_label r)
           (amr_applies_to_source r)
      then (None, t)
      else case accept_metadata_report (amr_source r) (amr_seq r) False
            (metadata_report_agent (amr_source r) (amr_agent_label r) (amr_applies_to_source r)) t of
        (accepted, t1) \<Rightarrow>
          if accepted \<noteq> Inr True then (None, t1)
          else
            let t2 = drop_expired_metadata (amr_source r) now t1;
                (change, t3) = recompute_effective_state (snapshot_at t2 now) now
                  (store_metadata r now t2);
                t4 = (if change \<noteq> None then clear_expiry_pending_for_hidden_metadata t3 else t3)
            in (Some \<lparr>state_change = change, session_ref_changed = False, agent_released = False\<rparr>, t4))"

section \<open>Expiry\<close>

definition next_agent_metadata_expiry :: "instant \<Rightarrow> terminal_state \<Rightarrow> instant option" where
  "next_agent_metadata_expiry now t =
     (let ms = hm_values (agent_metadata_map t);
          deadlines = filter (\<lambda>d. d > now \<or> list_ex (\<lambda>m. expiry_event_pending m
              \<and> agent_metadata_matches_guards t m \<and> agent_metadata_expiry m = Some d) ms)
            (List.map_filter agent_metadata_expiry (filter (agent_metadata_matches_guards t) ms))
      in if deadlines = [] then None else Some (Min (set deadlines)))"

definition expire_agent_metadata_at :: "instant \<Rightarrow> instant \<Rightarrow> terminal_state \<Rightarrow>
    terminal_state_mutation option \<times> terminal_state" where
  "expire_agent_metadata_at scheduled_deadline now t =
     (let due = List.map_filter (\<lambda>(source, m). Option.bind (agent_metadata_expiry m)
              (\<lambda>deadline. then_some (deadline \<le> now) (source, deadline))) (agent_metadata_map t);
          expired = map fst (filter (\<lambda>(_, deadline). deadline \<ge> scheduled_deadline) due);
          stale = map fst (filter (\<lambda>(_, deadline). \<not> deadline \<ge> scheduled_deadline) due);
          t1 = t\<lparr>agent_metadata_map := fold hm_remove stale (agent_metadata_map t)\<rparr>
      in if expired = [] then (None, t1)
         else
           let prev = \<lparr>snap_label = effective_agent_label t1, snap_known = effective_known_agent t1,
                 snap_state = ts_state t1,
                 snap_presentation = effective_presentation_with_ttl t1 now False\<rparr>;
               t2 = t1\<lparr>agent_metadata_map := fold hm_remove expired (agent_metadata_map t1)\<rparr>
           in mutation_result prev now False False t2)"

section \<open>Labels\<close>

definition effective_title :: "instant \<Rightarrow> terminal_state \<Rightarrow> text option" where
  "effective_title now t = pres_title (effective_presentation_at t now)"

definition effective_display_agent :: "instant \<Rightarrow> terminal_state \<Rightarrow> text option" where
  "effective_display_agent now t = pres_display_agent (effective_presentation_at t now)"

definition border_label :: "instant \<Rightarrow> bool \<Rightarrow> terminal_state \<Rightarrow> text option" where
  "border_label now show_agent_labels t =
     or_else (effective_title now t) (or_else (manual_label t)
       (if show_agent_labels
        then or_else (effective_display_agent now t) (effective_agent_label t) else None))"

end
