(* ===== verification/Terminal_Lifecycle.thy ===== *)
theory Terminal_Lifecycle
  imports Terminal_Metadata
begin

text \<open>
  The remaining operations of a terminal, \<open>src/terminal/state.rs\<close> and \<open>src/terminal/title.rs\<close>:
  titles and manual labels, agent names, the managed-agent phases, and the reset after the
  shell of a finished agent is respawned.
\<close>

section \<open>Titles and labels\<close>

definition is_activity_glyph :: "uchar \<Rightarrow> bool" where
  "is_activity_glyph c \<longleftrightarrow> 10240 \<le> c \<and> c \<le> 10495
     \<or> list_ex (\<lambda>g. c = g) [183, 10018, 10035, 10038, 10043, 10045]"

definition stripped_terminal_title :: "text \<Rightarrow> text option" where
  "stripped_terminal_title raw =
     (case trim raw of [] \<Rightarrow> None
      | first # after_first \<Rightarrow>
          let stripped = (if is_activity_glyph first
                \<and> (after_first = [] \<or> is_whitespace (hd after_first))
              then trim after_first else first # after_first)
          in then_some (stripped \<noteq> []) stripped)"

definition terminal_title_stripped :: "terminal_state \<Rightarrow> text option" where
  "terminal_title_stripped t = Option.bind (terminal_title t) stripped_terminal_title"

definition set_terminal_title :: "text option \<Rightarrow> terminal_state \<Rightarrow> terminal_title_change \<times> terminal_state" where
  "set_terminal_title title t =
     (if terminal_title t = title then (\<lparr>raw_changed = False, stripped_changed = False\<rparr>, t)
      else
        let t1 = t\<lparr>terminal_title := title\<rparr>;
            changed = (terminal_title_stripped t \<noteq> terminal_title_stripped t1);
            t2 = (if changed then t1\<lparr>revision := revision t1 + 1\<rparr> else t1)
        in (\<lparr>raw_changed = True, stripped_changed = changed\<rparr>, t2))"

definition with_launch_argv :: "text list \<Rightarrow> terminal_state \<Rightarrow> terminal_state" where
  "with_launch_argv av t = t\<lparr>launch_argv := Some av\<rparr>"

definition with_respawn_shell_on_exit :: "terminal_state \<Rightarrow> terminal_state" where
  "with_respawn_shell_on_exit t = t\<lparr>respawn_shell_on_exit := True\<rparr>"

definition with_pending_agent_resume_plan :: "agent_resume_plan \<Rightarrow> terminal_state \<Rightarrow> terminal_state" where
  "with_pending_agent_resume_plan p t = t\<lparr>pending_agent_resume_plan := Some p\<rparr>"

definition set_manual_label :: "text \<Rightarrow> terminal_state \<Rightarrow> terminal_state" where
  "set_manual_label label t =
     (let l = trim label in t\<lparr>manual_label := then_some (l \<noteq> []) l\<rparr>)"

definition clear_manual_label :: "terminal_state \<Rightarrow> terminal_state" where
  "clear_manual_label t = t\<lparr>manual_label := None\<rparr>"

section \<open>Agent names and managed agents\<close>

definition set_agent_name :: "text \<Rightarrow> terminal_state \<Rightarrow> terminal_state" where
  "set_agent_name name t =
     (let t1 = t\<lparr>agent_name := then_some (name \<noteq> []) name\<rparr>
      in t1\<lparr>name_owner := (if agent_name t1 = None then None
           else or_else (map_option (\<lambda>a. \<lparr>owner_agent_label = ha_agent_label a,
                           owner_session_ref = ha_session_ref a\<rparr>) (hook_auth t1))
             (or_else (map_option (\<lambda>s. \<lparr>owner_agent_label = ps_agent s,
                           owner_session_ref = Some (ps_session_ref s)\<rparr>) (persisted_session t1))
               (map_option (\<lambda>l. \<lparr>owner_agent_label = l, owner_session_ref = None\<rparr>)
                  (effective_agent_label t1))))\<rparr>)"

definition begin_managed_agent ::
    "text \<Rightarrow> agent \<Rightarrow> instant \<Rightarrow> duration \<Rightarrow> duration \<Rightarrow> terminal_state \<Rightarrow> terminal_state" where
  "begin_managed_agent name k now settle_delay timeout t =
     (set_agent_name name t)\<lparr>
        name_owner := Some \<lparr>owner_agent_label = agent_label k, owner_session_ref = None\<rparr>,
        managed := Some \<lparr>managed_kind = k, managed_phase =
          Pending (Some (unwrap_or (checked_add now settle_delay) now))
            (unwrap_or (checked_add now timeout) now) False\<rparr>\<rparr>"

definition managed_agent_launch_pending :: "terminal_state \<Rightarrow> bool" where
  "managed_agent_launch_pending t =
     is_some_and (\<lambda>m. case managed_phase m of Pending _ _ _ \<Rightarrow> True | Active \<Rightarrow> False) (managed t)"

definition managed_agent_interactive_ready :: "terminal_state \<Rightarrow> bool" where
  "managed_agent_interactive_ready t = is_some_and (\<lambda>m. managed_phase m = Active) (managed t)"

definition managed_agent_kind :: "terminal_state \<Rightarrow> agent option" where
  "managed_agent_kind t = map_option managed_kind (managed t)"

definition next_managed_agent_deadline :: "terminal_state \<Rightarrow> instant option" where
  "next_managed_agent_deadline t =
     Option.bind (managed t) (\<lambda>m. case managed_phase m of
        Pending ready_after deadline _ \<Rightarrow> Some (min (unwrap_or ready_after deadline) deadline)
      | Active \<Rightarrow> None)"

definition reconcile_managed_agent_at :: "instant \<Rightarrow> bool \<Rightarrow> terminal_state \<Rightarrow> bool \<times> terminal_state" where
  "reconcile_managed_agent_at now process_exited t =
     (case managed t of None \<Rightarrow> (False, t)
      | Some m \<Rightarrow>
        let known = effective_known_agent t;
            is_pending = (case managed_phase m of Pending _ _ _ \<Rightarrow> True | Active \<Rightarrow> False);
            observed = (case managed_phase m of
                Pending _ _ previously \<Rightarrow> previously \<or> known = Some (managed_kind m)
              | Active \<Rightarrow> False);
            clear = (process_exited \<or> is_some_and (\<lambda>a. a \<noteq> managed_kind m) known
              \<or> is_pending \<and> observed \<and> known = None)
        in if clear then (True, clear_agent_name t)
           else (case managed_phase m of Active \<Rightarrow> (False, t)
           | Pending ready_after deadline previously \<Rightarrow>
             if now \<ge> deadline then (True, clear_agent_name t)
             else
               let ready = is_none_or (\<lambda>r. now \<ge> r) ready_after
               in if ready \<and> known = Some (managed_kind m) \<and> (ts_state t = Idle \<or> ts_state t = Blocked)
                  then (True, t\<lparr>managed := Some \<lparr>managed_kind = managed_kind m, managed_phase = Active\<rparr>\<rparr>)
                  else if ready \<and> ready_after \<noteq> None
                  then (True, t\<lparr>managed := Some \<lparr>managed_kind = managed_kind m,
                          managed_phase = Pending None deadline observed\<rparr>\<rparr>)
                  else if observed \<noteq> previously
                  then (True, t\<lparr>managed := Some \<lparr>managed_kind = managed_kind m,
                          managed_phase = Pending ready_after deadline observed\<rparr>\<rparr>)
                  else (False, t)))"

definition restore_managed_agent :: "text \<Rightarrow> agent \<Rightarrow> terminal_state \<Rightarrow> terminal_state" where
  "restore_managed_agent name k t =
     (set_agent_name name t)\<lparr>
        name_owner := Some \<lparr>owner_agent_label = agent_label k, owner_session_ref = None\<rparr>,
        managed := Some \<lparr>managed_kind = k, managed_phase = Active\<rparr>\<rparr>"

definition clear_agent_runtime_identity_after_respawn :: "terminal_state \<Rightarrow> terminal_state" where
  "clear_agent_runtime_identity_after_respawn t =
     clear_agent_name (t\<lparr>detected_agent := None, fallback_state := Unknown,
        fallback_visible_blocker := False, fallback_observed_at := None, hook_auth := None,
        persisted_session := None, agent_metadata_map := [], metadata_report_agents := [],
        suppressed_reports := [], stale_sessions := [], ts_state := Unknown,
        last_agent_state_change_seq := None, launch_argv := None, respawn_shell_on_exit := False,
        recent_exit := None, pending_agent_resume_plan := None\<rparr>)"

end
