(* ===== verification/Terminal_Frame.thy ===== *)
theory Terminal_Frame
  imports Terminal_Lifecycle
begin

text \<open>
  Frame facts. What a terminal shows (its effective label, its arbitrated state, its session
  identity) depends on eight fields; the bookkeeping operations on names, suppressed reports,
  stale sessions and sequences leave all of them alone. The facts are collected in \<open>frame\<close>,
  and \<open>core_simps\<close> rewrites what a terminal shows to those fields, so that the proofs about
  whole operations are simplifications.
\<close>

named_theorems frame "fields an operation leaves alone"
named_theorems core_simps "what a terminal shows, as a function of its core fields"

section \<open>What a terminal shows\<close>

definition eff_ok :: "agent option \<Rightarrow> recent_agent_process_exit option \<Rightarrow> hook_authority \<Rightarrow> bool" where
  "eff_ok d r a \<longleftrightarrow> \<not> owns_life_cycle a \<or> d = parse_agent_label (ha_agent_label a) \<and> r = None"

definition eff_label :: "hook_authority option \<Rightarrow> agent option \<Rightarrow>
    recent_agent_process_exit option \<Rightarrow> text option" where
  "eff_label h d r = or_else (map_option ha_agent_label (opt_filter (eff_ok d r) h))
     (if r = None then map_option agent_label d else None)"

definition eff_live :: "hook_authority option \<Rightarrow> agent option \<Rightarrow>
    recent_agent_process_exit option \<Rightarrow> bool" where
  "eff_live h d r = is_some_and (\<lambda>a. eff_ok d r a \<and> owns_life_cycle a) h"

definition eff_state :: "hook_authority option \<Rightarrow> agent option \<Rightarrow>
    recent_agent_process_exit option \<Rightarrow> agent_state \<Rightarrow> bool \<Rightarrow> instant option \<Rightarrow> agent_state" where
  "eff_state h d r fs fb fo =
     (if \<not> eff_live h d r \<and> fb
         \<and> is_none_or (\<lambda>a. is_some_and (\<lambda>at. ha_reported_at a \<le> at) fo) h
         \<and> is_some_and (\<lambda>a. ha_state a \<noteq> Blocked \<and> parse_agent_label (ha_agent_label a) = d) h
      then Blocked
      else unwrap_or (map_option ha_state (opt_filter (eff_ok d r) h)) fs)"

definition session_of :: "hook_authority option \<Rightarrow> persisted_agent_session option \<Rightarrow>
    session_identity option" where
  "session_of h p = or_else (Option.bind h (\<lambda>a. map_option
       (\<lambda>r. (ha_source a, ha_agent_label a, kind r, ref_value r)) (ha_session_ref a)))
     (map_option (\<lambda>s. (ps_source s, ps_agent s, kind (ps_session_ref s),
                       ref_value (ps_session_ref s))) p)"

text \<open>The agent of a full life-cycle integration is always a known agent.\<close>

lemma owns_life_cycle_known: "owns_life_cycle a \<Longrightarrow> \<exists>g. parse_agent_label (ha_agent_label a) = Some g"
  using full_lifecycle_label_known by (auto simp: owns_life_cycle_def)

lemma hook_authority_is_effective_eq [core_simps]:
  "hook_authority_is_effective t = eff_ok (detected_agent t) (recent_exit t)"
proof
  fix a show "hook_authority_is_effective t a = eff_ok (detected_agent t) (recent_exit t) a"
    using owns_life_cycle_known [of a]
    by (auto simp: hook_authority_is_effective_def eff_ok_def)
qed

lemma effective_agent_label_eq [core_simps]:
  "effective_agent_label t = eff_label (hook_auth t) (detected_agent t) (recent_exit t)"
  by (simp add: effective_agent_label_def eff_label_def core_simps)

lemma effective_known_agent_eq [core_simps]:
  "effective_known_agent t =
     Option.bind (eff_label (hook_auth t) (detected_agent t) (recent_exit t)) parse_agent_label"
  by (simp add: effective_known_agent_def core_simps)

lemma live_full_lifecycle_eq [core_simps]:
  "live_full_lifecycle_hook_authority t = eff_live (hook_auth t) (detected_agent t) (recent_exit t)"
  by (simp add: live_full_lifecycle_hook_authority_def eff_live_def core_simps)

lemma arbitrated_state_eq [core_simps]:
  "arbitrated_state t = eff_state (hook_auth t) (detected_agent t) (recent_exit t)
     (fallback_state t) (fallback_visible_blocker t) (fallback_observed_at t)"
  by (simp add: arbitrated_state_def eff_state_def visible_blocker_overrides_hook_def
      fallback_not_older_than_hook_def core_simps)

lemma current_session_identity_eq [core_simps]:
  "current_session_identity t = session_of (hook_auth t) (persisted_session t)"
  by (simp add: current_session_identity_def session_of_def)

section \<open>Operations that leave the core alone\<close>

lemma clear_agent_name_frame [frame]:
  "hook_auth (clear_agent_name t) = hook_auth t"
  "detected_agent (clear_agent_name t) = detected_agent t"
  "recent_exit (clear_agent_name t) = recent_exit t"
  "fallback_state (clear_agent_name t) = fallback_state t"
  "fallback_visible_blocker (clear_agent_name t) = fallback_visible_blocker t"
  "fallback_observed_at (clear_agent_name t) = fallback_observed_at t"
  "persisted_session (clear_agent_name t) = persisted_session t"
  "ts_state (clear_agent_name t) = ts_state t"
  by (simp_all add: clear_agent_name_def)

lemma reconcile_frame [frame]:
  "hook_auth (reconcile_agent_name_owner l r t) = hook_auth t"
  "detected_agent (reconcile_agent_name_owner l r t) = detected_agent t"
  "recent_exit (reconcile_agent_name_owner l r t) = recent_exit t"
  "fallback_state (reconcile_agent_name_owner l r t) = fallback_state t"
  "fallback_visible_blocker (reconcile_agent_name_owner l r t) = fallback_visible_blocker t"
  "fallback_observed_at (reconcile_agent_name_owner l r t) = fallback_observed_at t"
  "persisted_session (reconcile_agent_name_owner l r t) = persisted_session t"
  "ts_state (reconcile_agent_name_owner l r t) = ts_state t"
  by (simp_all add: reconcile_agent_name_owner_def split: option.split)

lemma suppress_with_frame [frame]:
  "hook_auth (suppress_with_session_ref s l r x n t) = hook_auth t"
  "detected_agent (suppress_with_session_ref s l r x n t) = detected_agent t"
  "recent_exit (suppress_with_session_ref s l r x n t) = recent_exit t"
  "fallback_state (suppress_with_session_ref s l r x n t) = fallback_state t"
  "fallback_visible_blocker (suppress_with_session_ref s l r x n t) = fallback_visible_blocker t"
  "fallback_observed_at (suppress_with_session_ref s l r x n t) = fallback_observed_at t"
  "persisted_session (suppress_with_session_ref s l r x n t) = persisted_session t"
  "ts_state (suppress_with_session_ref s l r x n t) = ts_state t"
  by (simp_all add: suppress_with_session_ref_def)

lemma suppress_current_frame [frame]:
  "hook_auth (suppress_current_hook_authority x n t) = hook_auth t"
  "detected_agent (suppress_current_hook_authority x n t) = detected_agent t"
  "recent_exit (suppress_current_hook_authority x n t) = recent_exit t"
  "fallback_state (suppress_current_hook_authority x n t) = fallback_state t"
  "fallback_visible_blocker (suppress_current_hook_authority x n t) = fallback_visible_blocker t"
  "fallback_observed_at (suppress_current_hook_authority x n t) = fallback_observed_at t"
  "persisted_session (suppress_current_hook_authority x n t) = persisted_session t"
  "ts_state (suppress_current_hook_authority x n t) = ts_state t"
  by (simp_all add: suppress_current_hook_authority_def frame split: option.split)

lemma suppress_report_frame [frame]:
  "hook_auth (suppress_hook_report s l x n t) = hook_auth t"
  "detected_agent (suppress_hook_report s l x n t) = detected_agent t"
  "recent_exit (suppress_hook_report s l x n t) = recent_exit t"
  "fallback_state (suppress_hook_report s l x n t) = fallback_state t"
  "fallback_visible_blocker (suppress_hook_report s l x n t) = fallback_visible_blocker t"
  "fallback_observed_at (suppress_hook_report s l x n t) = fallback_observed_at t"
  "persisted_session (suppress_hook_report s l x n t) = persisted_session t"
  "ts_state (suppress_hook_report s l x n t) = ts_state t"
  by (simp_all add: suppress_hook_report_def frame)

lemma remember_frame [frame]:
  "hook_auth (remember_stale_session s l r t) = hook_auth t"
  "detected_agent (remember_stale_session s l r t) = detected_agent t"
  "recent_exit (remember_stale_session s l r t) = recent_exit t"
  "fallback_state (remember_stale_session s l r t) = fallback_state t"
  "fallback_visible_blocker (remember_stale_session s l r t) = fallback_visible_blocker t"
  "fallback_observed_at (remember_stale_session s l r t) = fallback_observed_at t"
  "persisted_session (remember_stale_session s l r t) = persisted_session t"
  "ts_state (remember_stale_session s l r t) = ts_state t"
  by (simp_all add: remember_stale_session_def Let_def)

lemma forget_frame [frame]:
  "hook_auth (forget_stale_session s l r t) = hook_auth t"
  "detected_agent (forget_stale_session s l r t) = detected_agent t"
  "recent_exit (forget_stale_session s l r t) = recent_exit t"
  "fallback_state (forget_stale_session s l r t) = fallback_state t"
  "fallback_visible_blocker (forget_stale_session s l r t) = fallback_visible_blocker t"
  "fallback_observed_at (forget_stale_session s l r t) = fallback_observed_at t"
  "persisted_session (forget_stale_session s l r t) = persisted_session t"
  "ts_state (forget_stale_session s l r t) = ts_state t"
  by (simp_all add: forget_stale_session_def Let_def split: option.split)

lemma accept_hook_frame [frame]:
  "hook_auth (snd (accept_hook_report s q t)) = hook_auth t"
  "detected_agent (snd (accept_hook_report s q t)) = detected_agent t"
  "recent_exit (snd (accept_hook_report s q t)) = recent_exit t"
  "fallback_state (snd (accept_hook_report s q t)) = fallback_state t"
  "fallback_visible_blocker (snd (accept_hook_report s q t)) = fallback_visible_blocker t"
  "fallback_observed_at (snd (accept_hook_report s q t)) = fallback_observed_at t"
  "persisted_session (snd (accept_hook_report s q t)) = persisted_session t"
  "ts_state (snd (accept_hook_report s q t)) = ts_state t"
  by (simp_all add: accept_hook_report_def split: option.split)

lemma park_report_frame [frame]:
  "hook_auth (park_hook_report s l st m r n at t) = hook_auth t"
  "detected_agent (park_hook_report s l st m r n at t) = detected_agent t"
  "recent_exit (park_hook_report s l st m r n at t) = recent_exit t"
  "fallback_state (park_hook_report s l st m r n at t) = fallback_state t"
  "fallback_visible_blocker (park_hook_report s l st m r n at t) = fallback_visible_blocker t"
  "fallback_observed_at (park_hook_report s l st m r n at t) = fallback_observed_at t"
  "persisted_session (park_hook_report s l st m r n at t) = persisted_session t"
  "ts_state (park_hook_report s l st m r n at t) = ts_state t"
  by (simp_all add: park_hook_report_def Let_def)

lemma route_frame [frame]:
  "hook_auth (snd (route_hook_report s l st m r q at t)) = hook_auth t"
  "detected_agent (snd (route_hook_report s l st m r q at t)) = detected_agent t"
  "recent_exit (snd (route_hook_report s l st m r q at t)) = recent_exit t"
  "fallback_state (snd (route_hook_report s l st m r q at t)) = fallback_state t"
  "fallback_visible_blocker (snd (route_hook_report s l st m r q at t)) = fallback_visible_blocker t"
  "fallback_observed_at (snd (route_hook_report s l st m r q at t)) = fallback_observed_at t"
  "persisted_session (snd (route_hook_report s l st m r q at t)) = persisted_session t"
  "ts_state (snd (route_hook_report s l st m r q at t)) = ts_state t"
  by (simp_all add: route_hook_report_def Let_def frame split: option.split)

lemma park_start_frame [frame]:
  "hook_auth (park_session_start s l r n at t) = hook_auth t"
  "detected_agent (park_session_start s l r n at t) = detected_agent t"
  "recent_exit (park_session_start s l r n at t) = recent_exit t"
  "fallback_state (park_session_start s l r n at t) = fallback_state t"
  "fallback_visible_blocker (park_session_start s l r n at t) = fallback_visible_blocker t"
  "fallback_observed_at (park_session_start s l r n at t) = fallback_observed_at t"
  "persisted_session (park_session_start s l r n at t) = persisted_session t"
  "ts_state (park_session_start s l r n at t) = ts_state t"
  by (simp_all add: park_session_start_def Let_def)

lemma clear_expiry_frame [frame]:
  "hook_auth (clear_expiry_pending_for_hidden_metadata t) = hook_auth t"
  "detected_agent (clear_expiry_pending_for_hidden_metadata t) = detected_agent t"
  "recent_exit (clear_expiry_pending_for_hidden_metadata t) = recent_exit t"
  "fallback_state (clear_expiry_pending_for_hidden_metadata t) = fallback_state t"
  "fallback_visible_blocker (clear_expiry_pending_for_hidden_metadata t) = fallback_visible_blocker t"
  "fallback_observed_at (clear_expiry_pending_for_hidden_metadata t) = fallback_observed_at t"
  "persisted_session (clear_expiry_pending_for_hidden_metadata t) = persisted_session t"
  "ts_state (clear_expiry_pending_for_hidden_metadata t) = ts_state t"
  by (simp_all add: clear_expiry_pending_for_hidden_metadata_def)

lemma fold_remember_frame [frame]:
  "hook_auth (fold (\<lambda>(s, l, r). remember_stale_session s l r) xs t) = hook_auth t"
  "detected_agent (fold (\<lambda>(s, l, r). remember_stale_session s l r) xs t) = detected_agent t"
  "recent_exit (fold (\<lambda>(s, l, r). remember_stale_session s l r) xs t) = recent_exit t"
  "fallback_state (fold (\<lambda>(s, l, r). remember_stale_session s l r) xs t) = fallback_state t"
  "fallback_visible_blocker (fold (\<lambda>(s, l, r). remember_stale_session s l r) xs t) = fallback_visible_blocker t"
  "fallback_observed_at (fold (\<lambda>(s, l, r). remember_stale_session s l r) xs t) = fallback_observed_at t"
  "persisted_session (fold (\<lambda>(s, l, r). remember_stale_session s l r) xs t) = persisted_session t"
  "ts_state (fold (\<lambda>(s, l, r). remember_stale_session s l r) xs t) = ts_state t"
  by (induction xs arbitrary: t) (auto simp: frame split: prod.split)

lemma exit_reset_frame [frame]:
  "hook_auth (process_exit_reset_reports ag n t) = hook_auth t"
  "detected_agent (process_exit_reset_reports ag n t) = detected_agent t"
  "recent_exit (process_exit_reset_reports ag n t) = recent_exit t"
  "fallback_state (process_exit_reset_reports ag n t) = fallback_state t"
  "fallback_visible_blocker (process_exit_reset_reports ag n t) = fallback_visible_blocker t"
  "fallback_observed_at (process_exit_reset_reports ag n t) = fallback_observed_at t"
  "persisted_session (process_exit_reset_reports ag n t) = persisted_session t"
  "ts_state (process_exit_reset_reports ag n t) = ts_state t"
  by (simp_all add: process_exit_reset_reports_def Let_def frame)

lemma exit_suppress_frame [frame]:
  "hook_auth (process_exit_suppress_official ag n t) = hook_auth t"
  "detected_agent (process_exit_suppress_official ag n t) = detected_agent t"
  "recent_exit (process_exit_suppress_official ag n t) = recent_exit t"
  "fallback_state (process_exit_suppress_official ag n t) = fallback_state t"
  "fallback_visible_blocker (process_exit_suppress_official ag n t) = fallback_visible_blocker t"
  "fallback_observed_at (process_exit_suppress_official ag n t) = fallback_observed_at t"
  "persisted_session (process_exit_suppress_official ag n t) = persisted_session t"
  "ts_state (process_exit_suppress_official ag n t) = ts_state t"
  by (simp_all add: process_exit_suppress_official_def frame split: option.split)

lemma exit_metadata_frame [frame]:
  "hook_auth (process_exit_clear_metadata ag n t) = hook_auth t"
  "detected_agent (process_exit_clear_metadata ag n t) = detected_agent t"
  "recent_exit (process_exit_clear_metadata ag n t) = recent_exit t"
  "fallback_state (process_exit_clear_metadata ag n t) = fallback_state t"
  "fallback_visible_blocker (process_exit_clear_metadata ag n t) = fallback_visible_blocker t"
  "fallback_observed_at (process_exit_clear_metadata ag n t) = fallback_observed_at t"
  "persisted_session (process_exit_clear_metadata ag n t) = persisted_session t"
  "ts_state (process_exit_clear_metadata ag n t) = ts_state t"
  by (simp_all add: process_exit_clear_metadata_def Let_def)

lemma accept_metadata_frame [frame]:
  "hook_auth (snd (accept_metadata_report s q i ag t)) = hook_auth t"
  "detected_agent (snd (accept_metadata_report s q i ag t)) = detected_agent t"
  "recent_exit (snd (accept_metadata_report s q i ag t)) = recent_exit t"
  "fallback_state (snd (accept_metadata_report s q i ag t)) = fallback_state t"
  "fallback_visible_blocker (snd (accept_metadata_report s q i ag t)) = fallback_visible_blocker t"
  "fallback_observed_at (snd (accept_metadata_report s q i ag t)) = fallback_observed_at t"
  "persisted_session (snd (accept_metadata_report s q i ag t)) = persisted_session t"
  "ts_state (snd (accept_metadata_report s q i ag t)) = ts_state t"
  by (simp_all add: accept_metadata_report_def split: option.split)

lemma reanchor_frame [frame]:
  "hook_auth (reanchor_sequence b s t) = hook_auth t"
  "detected_agent (reanchor_sequence b s t) = detected_agent t"
  "recent_exit (reanchor_sequence b s t) = recent_exit t"
  "fallback_state (reanchor_sequence b s t) = fallback_state t"
  "fallback_visible_blocker (reanchor_sequence b s t) = fallback_visible_blocker t"
  "fallback_observed_at (reanchor_sequence b s t) = fallback_observed_at t"
  "persisted_session (reanchor_sequence b s t) = persisted_session t"
  "ts_state (reanchor_sequence b s t) = ts_state t"
  by (simp_all add: reanchor_sequence_def)

end
