(* ===== verification/Terminal_Machine.thy ===== *)
theory Terminal_Machine
  imports Terminal_Frame
begin

text \<open>
  The terminal as a machine: the operations that report a mutation are events, and every report
  is accurate. A report says whether the session identity changed and, when the effective
  label, state or presentation changed, what they were before and are now; an operation that
  reports nothing changed none of them. Along the way every report re-establishes the
  arbitration: the stored state is the arbitrated one.
\<close>

datatype terminal_event =
    HookReport "text" "text" agent_state "text option" "agent_session_ref option" "u64 option"
  | SessionReport "text" "text" "agent_session_ref option" "u64 option" "text option"
  | ClearHook "text option" "u64 option"
  | Release "text" "text" "u64 option"
  | Detection "agent option" agent_state bool bool
  | MetadataReport agent_metadata_report
  | MetadataExpiry instant

fun apply_event :: "instant \<Rightarrow> instant \<Rightarrow> terminal_event \<Rightarrow> terminal_state \<Rightarrow>
    terminal_state_mutation option \<times> terminal_state" where
  "apply_event clk now (HookReport source label st msg r seq) t =
     set_hook_authority_at source label st msg r seq clk now t"
| "apply_event clk now (SessionReport source label r seq start) t =
     set_agent_session_ref_for_session_start source label r seq start clk now t"
| "apply_event clk now (ClearHook source seq) t = clear_hook_authority source seq clk now t"
| "apply_event clk now (Release source label seq) t = release_agent source label seq clk now t"
| "apply_event clk now (Detection agent fallback blocker exited) t =
     set_detected_state agent fallback blocker exited clk now t"
| "apply_event clk now (MetadataReport r) t = set_agent_metadata r now t"
| "apply_event clk now (MetadataExpiry deadline) t = expire_agent_metadata_at deadline now t"

definition same_core :: "terminal_state \<Rightarrow> terminal_state \<Rightarrow> bool" where
  "same_core t t' \<longleftrightarrow> hook_auth t' = hook_auth t \<and> detected_agent t' = detected_agent t
     \<and> recent_exit t' = recent_exit t \<and> fallback_state t' = fallback_state t
     \<and> fallback_visible_blocker t' = fallback_visible_blocker t
     \<and> fallback_observed_at t' = fallback_observed_at t
     \<and> persisted_session t' = persisted_session t \<and> ts_state t' = ts_state t"

definition change_accurate :: "terminal_state \<Rightarrow> effective_state_change option \<Rightarrow> terminal_state \<Rightarrow> bool" where
  "change_accurate t c t' = (case c of
       None \<Rightarrow> effective_agent_label t' = effective_agent_label t \<and> ts_state t' = ts_state t
     | Some ch \<Rightarrow> previous_agent_label ch = effective_agent_label t
         \<and> previous_known_agent ch = effective_known_agent t \<and> previous_state ch = ts_state t
         \<and> esc_agent_label ch = effective_agent_label t'
         \<and> known_agent ch = effective_known_agent t' \<and> esc_state ch = ts_state t')"

definition report_accurate ::
    "terminal_state \<Rightarrow> terminal_state_mutation option \<Rightarrow> terminal_state \<Rightarrow> bool" where
  "report_accurate t r t' = (case r of
       None \<Rightarrow> effective_agent_label t' = effective_agent_label t \<and> ts_state t' = ts_state t
               \<and> current_session_identity t' = current_session_identity t
     | Some m \<Rightarrow> change_accurate t (state_change m) t'
               \<and> (session_ref_changed m \<longleftrightarrow> current_session_identity t \<noteq> current_session_identity t'))"

definition arbitrated :: "terminal_state \<Rightarrow> bool" where
  "arbitrated t \<longleftrightarrow> ts_state t = arbitrated_state t"

section \<open>The core\<close>

lemma same_core_refl [simp]: "same_core t t"
  by (simp add: same_core_def)

lemma same_coreD:
  assumes "same_core t t'"
  shows "effective_agent_label t' = effective_agent_label t"
    "effective_known_agent t' = effective_known_agent t"
    "arbitrated_state t' = arbitrated_state t"
    "current_session_identity t' = current_session_identity t" "ts_state t' = ts_state t"
    "live_full_lifecycle_hook_authority t' = live_full_lifecycle_hook_authority t"
  using assms by (simp_all add: same_core_def core_simps)

lemma same_core_report: "same_core t t' \<Longrightarrow> report_accurate t None t'"
  by (simp add: report_accurate_def same_coreD)

lemma same_core_arbitrated: "same_core t t' \<Longrightarrow> arbitrated t' = arbitrated t"
  by (simp add: arbitrated_def same_coreD)

lemma same_core_accept [simp]: "accept_hook_report s q t = (b, t') \<Longrightarrow> same_core t t'"
  using accept_hook_frame [of s q t] by (simp add: same_core_def)

lemma same_core_route [simp]: "route_hook_report s l st m r q at t = (x, t') \<Longrightarrow> same_core t t'"
  using route_frame [of s l st m r q at t] by (simp add: same_core_def)

lemma same_core_trans [trans]: "same_core t u \<Longrightarrow> same_core u v \<Longrightarrow> same_core t v"
  by (simp add: same_core_def)

lemma snapshot_simps [simp]:
  "snap_label (snapshot_at t now) = effective_agent_label t"
  "snap_known (snapshot_at t now) = effective_known_agent t"
  "snap_state (snapshot_at t now) = ts_state t"
  by (simp_all add: snapshot_at_def)

section \<open>Every mutation ends in an accurate report\<close>

text \<open>The one fact about \<open>recompute_effective_state\<close> the operations need: from a snapshot of the
  state \<open>t\<close> before the operation, it reports on the state \<open>u\<close> the operation built.\<close>

lemma recompute_accurate:
  assumes "recompute_effective_state prev now u = (c, t')"
    and "snap_label prev = effective_agent_label t" "snap_known prev = effective_known_agent t"
    and "snap_state prev = ts_state t" "ts_state u = ts_state t"
  shows "change_accurate t c t'" "arbitrated t'"
    "current_session_identity t' = current_session_identity u"
  using assms
  by (auto simp: recompute_effective_state_def Let_def change_accurate_def arbitrated_def
      core_simps frame split: if_splits)

lemma mutation_result_accurate:
  assumes "mutation_result prev now rc rel u = (r, t')"
    and "snap_label prev = effective_agent_label t" "snap_known prev = effective_known_agent t"
    and "snap_state prev = ts_state t" "ts_state u = ts_state t"
    and "rc \<longleftrightarrow> current_session_identity t \<noteq> current_session_identity u"
  shows "report_accurate t r t' \<and> arbitrated t'"
proof -
  obtain c where c: "recompute_effective_state prev now u = (c, t')"
    and r: "r = Some \<lparr>state_change = c, session_ref_changed = rc, agent_released = rel\<rparr>"
    using assms(1) by (auto simp: mutation_result_def split: prod.splits)
  show ?thesis
    using recompute_accurate [OF c assms(2-5)] assms(6) by (simp add: report_accurate_def r)
qed

lemma snapshot_mutation_accurate:
  assumes "mutation_result (snapshot_at s now) now rc rel u = (r, t')"
    and "same_core t s" "ts_state u = ts_state s"
    and "rc \<longleftrightarrow> current_session_identity s \<noteq> current_session_identity u"
  shows "report_accurate t r t' \<and> arbitrated t'"
  by (rule mutation_result_accurate [OF assms(1)])
    (use assms(2-4) in \<open>simp_all add: same_coreD\<close>)

lemma install_hook_authority_accurate:
  assumes "install_hook_authority source label st msg r re tk clk now s = (m, t')" "same_core t s"
  shows "report_accurate t m t' \<and> arbitrated t'"
  using assms(1) unfolding install_hook_authority_def Let_def
  by (rule snapshot_mutation_accurate [OF _ assms(2)])
    (auto simp: frame split: option.split)

text \<open>A routed report leaves the terminal as it was when it is accepted.\<close>

lemma route_accepted:
  "route_hook_report s l st m r q at t = (Accept b, t1) \<Longrightarrow> t1 = t"
  by (auto simp: route_hook_report_def Let_def split: if_splits option.splits prod.splits)

lemma same_core_reanchor [simp]: "same_core t (reanchor_sequence b s t)"
  by (simp add: same_core_def frame)

text \<open>The way a hook report is accepted: past every guard of the handler, with the numbers its
  source had used.\<close>

lemma set_hook_authority_cases:
  assumes "set_hook_authority_at source label st msg r q clk now t = (m, t')"
  obtains (rejected) "m = None" "same_core t t'"
  | (accepted) reanchor s where
      "\<not> session_identity_only_integration source label"
      "full_lifecycle_hook_authority source label
         \<or> \<not> is_some_and (\<lambda>ex. parse_agent_label label = Some (exit_agent ex)) (recent_exit t)"
      "route_hook_report source label st msg r q now t = (Accept reanchor, t)"
      "\<not> known_agent_label_conflicts_with_detected_agent t label"
      "current_session_owner_conflicts t source label \<longrightarrow>
         foreground_agent_confirms_hook_authority_takeover t source label r"
      "\<not> live_hook_authority_conflicts_with_session t source label
         (reported_session_ref t source label r)"
      "accept_hook_report source q (reanchor_sequence reanchor source t) = (True, s)"
      "same_core t s"
      "install_hook_authority source label st msg (reported_session_ref t source label r)
         reanchor (current_session_owner_conflicts t source label) clk now s = (m, t')"
proof -
  have trans: "same_core t s" if "accept_hook_report source q (reanchor_sequence b source t) = (x, s)"
    for b x s
    using same_core_trans [OF same_core_reanchor same_core_accept [OF that]] .
  show ?thesis
  proof (cases "\<exists>reanchor t1. route_hook_report source label st msg r q now t = (Accept reanchor, t1)")
    case False
    then have "m = None \<and> same_core t t'"
      using assms unfolding set_hook_authority_at_def
      by (auto split: if_splits prod.splits hook_report_route.splits)
    then show ?thesis using rejected by blast
  next
    case True
    then obtain reanchor where ro: "route_hook_report source label st msg r q now t = (Accept reanchor, t)"
      using route_accepted by blast
    show ?thesis
      using assms ro trans rejected accepted unfolding set_hook_authority_at_def Let_def
      by (auto split: if_splits prod.splits bool.splits)
  qed
qed

lemma set_hook_authority_accurate:
  assumes "set_hook_authority_at source label st msg r q clk now t = (m, t')" "arbitrated t"
  shows "report_accurate t m t' \<and> arbitrated t'"
  using assms(1)
proof (cases rule: set_hook_authority_cases)
  case rejected
  then show ?thesis using same_core_report same_core_arbitrated assms(2) by blast
next
  case accepted
  then show ?thesis using install_hook_authority_accurate by blast
qed

text \<open>Session reports.\<close>

lemma adopt_ts_state [frame]: "ts_state (adopt_validated_session v t) = ts_state t"
  by (simp add: adopt_validated_session_def Let_def frame split: prod.split option.split)

lemma fold_adopt_ts_state [frame]: "ts_state (fold adopt_validated_session vs t) = ts_state t"
  by (induction vs arbitrary: t) (simp_all add: frame)

lemma clear_suppression_ts_state [frame]:
  "ts_state (clear_suppression_for_detected_agent p d t) = ts_state t"
  by (simp add: clear_suppression_for_detected_agent_def Let_def frame split: option.split)

lemma install_session_ref_accurate:
  assumes "install_session_ref source label r al tk re clk now s = (m, t')" "same_core t s"
  shows "report_accurate t m t' \<and> arbitrated t'"
  using assms(1) unfolding install_session_ref_def Let_def
  by (rule snapshot_mutation_accurate [OF _ assms(2)])
    (auto simp: frame split: option.split)

lemma park_start_same_core: "same_core t (park_session_start source label r n now t)"
  by (simp add: same_core_def frame)

lemma session_report_cases:
  assumes "set_agent_session_ref_for_session_start source label r q start clk now t = (m, t')"
  obtains (rejected) "m = None" "same_core t t'"
  | (confirmed) ref n where "r = Some ref" "q = Some n" "session_start_unconfirmed t source label"
      "session_start_source_is_recognized start" "process_present t label"
      "mutation_result (snapshot_at t now) now
         (current_session_identity t \<noteq> current_session_identity
            (clear_suppression_for_detected_agent None (parse_agent_label label)
               (park_session_start source label ref n now t))) False
         (clear_suppression_for_detected_agent None (parse_agent_label label)
            (park_session_start source label ref n now t)) = (m, t')"
  | (accepted) ref s al tk re where "r = Some ref" "accept_hook_report source q t = (True, s)"
      "\<not> known_agent_label_conflicts_with_detected_agent s label"
      "install_session_ref source label ref al tk re clk now s = (m, t')"
proof (cases r)
  case None
  with assms rejected show ?thesis
    by (auto simp: set_agent_session_ref_for_session_start_def)
next
  case (Some ref)
  show ?thesis
  proof (cases "session_start_unconfirmed t source label")
    case True
    with Some assms rejected confirmed show ?thesis
      unfolding set_agent_session_ref_for_session_start_def Let_def
      by (auto split: if_splits option.splits simp: park_start_same_core)
  next
    case False
    obtain b s where a: "accept_hook_report source q t = (b, s)" by (cases "accept_hook_report source q t")
    with False Some assms rejected accepted same_core_accept [OF a] show ?thesis
      unfolding set_agent_session_ref_for_session_start_def Let_def
      by (auto split: if_splits bool.splits)
  qed
qed

lemma session_report_accurate:
  assumes "set_agent_session_ref_for_session_start source label r q start clk now t = (m, t')"
    and "arbitrated t"
  shows "report_accurate t m t' \<and> arbitrated t'"
  using assms(1)
proof (cases rule: session_report_cases)
  case rejected
  then show ?thesis using same_core_report same_core_arbitrated assms(2) by blast
next
  case (confirmed ref n)
  show ?thesis by (rule snapshot_mutation_accurate [OF confirmed(6)]) (simp_all add: frame)
next
  case accepted
  then show ?thesis using install_session_ref_accurate same_core_accept by blast
qed

text \<open>Clears and releases.\<close>

lemma clear_hook_accurate:
  assumes "clear_hook_authority source q clk now t = (m, t')" "arbitrated t"
  shows "report_accurate t m t' \<and> arbitrated t'"
proof -
  have "m = None \<and> same_core t t' \<or>
      (\<exists>s. same_core t s \<and> mutation_result (snapshot_at s now) now
         (current_session_identity s \<noteq> None) False ((suppress_current_hook_authority HookClear clk s)
            \<lparr>hook_auth := None, persisted_session := None\<rparr>) = (m, t'))"
    using assms(1) unfolding clear_hook_authority_def Let_def
    by (auto split: if_splits option.splits prod.splits bool.splits)
  then show ?thesis
  proof (elim disjE exE conjE)
    fix s
    assume same: "same_core t s" and m: "mutation_result (snapshot_at s now) now
         (current_session_identity s \<noteq> None) False ((suppress_current_hook_authority HookClear clk s)
            \<lparr>hook_auth := None, persisted_session := None\<rparr>) = (m, t')"
    show ?thesis
      by (rule snapshot_mutation_accurate [OF m same]) (simp_all add: frame core_simps session_of_def)
  qed (use assms(2) same_core_report same_core_arbitrated in blast)
qed

lemma forget_released_ts_state [frame]:
  "ts_state (forget_released_agent source label own clk t) = ts_state t"
  by (simp add: forget_released_agent_def Let_def frame)

lemma release_accurate:
  assumes "release_agent source label q clk now t = (m, t')" "arbitrated t"
  shows "report_accurate t m t' \<and> arbitrated t'"
proof -
  have "m = None \<and> same_core t t' \<or>
      (\<exists>s u rel. same_core t s \<and> ts_state u = ts_state s \<and> mutation_result (snapshot_at s now) now
         (current_session_identity s \<noteq> current_session_identity u) rel u = (m, t'))"
    using assms(1) unfolding release_agent_def Let_def
    by (cases "accept_hook_report source q t")
      (fastforce simp: frame dest: same_core_accept split: if_splits bool.splits)
  then show ?thesis
    using snapshot_mutation_accurate same_core_report same_core_arbitrated assms(2) by blast
qed

text \<open>Detection updates.\<close>

lemma observe_ts_state [frame]: "ts_state (observe_detection ag fb vb ex now t) = ts_state t"
  by (simp add: observe_detection_def Let_def frame split: option.split)

lemma exit_clear_authority_ts_state [frame]:
  "ts_state (process_exit_clear_authority ag nc t) = ts_state t"
  by (simp add: process_exit_clear_authority_def Let_def split: option.split)

lemma exit_effects_ts_state [frame]: "ts_state (process_exit_effects ag nc now t) = ts_state t"
  by (simp add: process_exit_effects_def Let_def frame split: option.split)

lemma drop_ts_state [frame]: "ts_state (drop_conflicting_authority ag p now clk t) = ts_state t"
  by (simp add: drop_conflicting_authority_def Let_def frame)

lemma set_detected_state_accurate:
  assumes "set_detected_state ag fb vb ex clk now t = (m, t')"
  shows "report_accurate t m t' \<and> arbitrated t'"
proof -
  have "\<exists>u rel. ts_state u = ts_state t \<and> mutation_result (snapshot_at t now) now
         (current_session_identity t \<noteq> current_session_identity u) rel u = (m, t')"
  proof (cases "should_ignore_detected_state_under_full_lifecycle_hook t ag ex")
    case True
    with assms show ?thesis unfolding set_detected_state_def Let_def
      by (intro exI [of _ "if Option.bind (hook_auth t) (\<lambda>a. parse_agent_label (ha_agent_label a)) = ag
          then t\<lparr>detected_agent := ag\<rparr> else t"]) auto
  next
    case ignore: False
    show ?thesis
    proof (cases "\<not> ex \<and> detected_state_observed_before_release_suppression t ag now")
      case True
      with ignore assms show ?thesis unfolding set_detected_state_def Let_def
        by (intro exI [of _ t]) auto
    next
      case False
      let ?nc = "newer_custom_authority t ag ex now"
      let ?rel = "ex \<and> \<not> ?nc \<and> (effective_agent_label t \<noteq> None \<or> agent_name t \<noteq> None)"
      let ?t1 = "observe_detection ag fb vb ex now t"
      let ?t2 = "if ex then process_exit_effects ag ?nc now ?t1 else ?t1"
      let ?t3 = "drop_conflicting_authority ag (detected_agent t) now clk ?t2"
      let ?t4 = "if ?rel then clear_agent_name ?t3 else ?t3"
      have "ts_state ?t4 = ts_state t" by (simp add: frame)
      moreover have "mutation_result (snapshot_at t now) now
          (current_session_identity t \<noteq> current_session_identity ?t4) ?rel ?t4 = (m, t')"
        using ignore False assms unfolding set_detected_state_def Let_def snapshot_simps by auto
      ultimately show ?thesis by blast
    qed
  qed
  then show ?thesis using snapshot_mutation_accurate same_core_refl by blast
qed

text \<open>Metadata.\<close>

lemma same_core_metadata_map [simp]: "same_core s (s\<lparr>agent_metadata_map := M\<rparr>)"
  by (simp add: same_core_def)

lemma same_core_clear_expiry [simp]: "same_core s (clear_expiry_pending_for_hidden_metadata s)"
  by (simp add: same_core_def frame)

lemma same_core_drop_expired [simp]: "same_core s (drop_expired_metadata k now s)"
  by (simp add: drop_expired_metadata_def)

lemma same_core_store [simp]: "same_core s (store_metadata r now s)"
  by (simp add: store_metadata_def Let_def same_core_def)

lemma same_core_accept_metadata: "accept_metadata_report a b c d t = (x, s) \<Longrightarrow> same_core t s"
  using accept_metadata_frame [of a b c d t] by (simp add: same_core_def)

lemma set_agent_metadata_cases:
  assumes "set_agent_metadata r now t = (m, t')"
  obtains (rejected) "m = None" "same_core t t'"
  | (accepted) s c t3 where
      "accept_metadata_report (amr_source r) (amr_seq r) False (metadata_report_agent (amr_source r)
         (amr_agent_label r) (amr_applies_to_source r)) t = (Inr True, s)"
      "recompute_effective_state (snapshot_at (drop_expired_metadata (amr_source r) now s) now) now
         (store_metadata r now (drop_expired_metadata (amr_source r) now s)) = (c, t3)"
      "m = Some \<lparr>state_change = c, session_ref_changed = False, agent_released = False\<rparr>"
      "t' = (if c \<noteq> None then clear_expiry_pending_for_hidden_metadata t3 else t3)"
  using assms unfolding set_agent_metadata_def Let_def
  by (auto split: if_splits prod.splits dest: same_core_accept_metadata)

lemma set_agent_metadata_accurate:
  assumes "set_agent_metadata r now t = (m, t')" "arbitrated t"
  shows "report_accurate t m t' \<and> arbitrated t'"
  using assms(1)
proof (cases rule: set_agent_metadata_cases)
  case rejected
  then show ?thesis using same_core_report same_core_arbitrated assms(2) by blast
next
  case (accepted s c t3)
  let ?s = "drop_expired_metadata (amr_source r) now s"
  have ts: "same_core t ?s"
    using same_core_trans [OF same_core_accept_metadata [OF accepted(1)] same_core_drop_expired] .
  note tu = same_core_trans [OF ts same_core_store [of ?s r now]]
  have "change_accurate t c t3" "arbitrated t3" "current_session_identity t3 = current_session_identity t"
    using recompute_accurate [OF accepted(2), of t] ts tu by (simp_all add: same_coreD)
  moreover have "same_core t3 t'" using accepted(4) by simp
  ultimately show ?thesis
    by (auto simp: report_accurate_def accepted(3) change_accurate_def same_coreD
        same_core_arbitrated split: option.split)
qed

lemma expire_cases:
  assumes "expire_agent_metadata_at dl now t = (m, t')"
  obtains (quiet) "m = None" "same_core t t'"
  | (expired) M1 M2 where "mutation_result
        \<lparr>snap_label = effective_agent_label (t\<lparr>agent_metadata_map := M1\<rparr>),
         snap_known = effective_known_agent (t\<lparr>agent_metadata_map := M1\<rparr>),
         snap_state = ts_state (t\<lparr>agent_metadata_map := M1\<rparr>),
         snap_presentation = effective_presentation_with_ttl (t\<lparr>agent_metadata_map := M1\<rparr>) now False\<rparr>
        now False False (t\<lparr>agent_metadata_map := M2\<rparr>) = (m, t')"
  using assms unfolding expire_agent_metadata_at_def Let_def
  by (auto split: if_splits)

lemma expire_accurate:
  assumes "expire_agent_metadata_at dl now t = (m, t')" "arbitrated t"
  shows "report_accurate t m t' \<and> arbitrated t'"
  using assms(1)
proof (cases rule: expire_cases)
  case quiet
  then show ?thesis using same_core_report same_core_arbitrated assms(2) by blast
next
  case (expired M1 M2)
  show ?thesis
    by (rule mutation_result_accurate [OF expired]) (simp_all add: core_simps)
qed

lemma apply_event_accurate:
  assumes "apply_event clk now e t = (m, t')" "arbitrated t"
  shows "report_accurate t m t' \<and> arbitrated t'"
  using assms
  by (cases e)
    (auto dest: set_hook_authority_accurate session_report_accurate clear_hook_accurate
      release_accurate set_detected_state_accurate set_agent_metadata_accurate expire_accurate)

end
