(* ===== verification/Terminal_Invariant.thy ===== *)
theory Terminal_Invariant
  imports Terminal_Machine
begin

text \<open>
  What holds of every terminal a program can reach. A step is any public operation of
  \<open>src/terminal/state.rs\<close> and \<open>src/terminal/metadata.rs\<close> that changes the state; the invariant
  joins the arbitration (the stored state is the arbitrated one) with the bookkeeping: reports
  are parked under their own source and only for full life-cycle integrations, stale-session
  lists are non-empty and free of duplicates, an integration that only reports identities never
  holds a hook authority, a visible blocker is only remembered while the screen says Blocked,
  and the token sources stay within their bound.
\<close>

section \<open>The invariant\<close>

definition parked_ok :: "text \<Rightarrow> suppressed_full_lifecycle_hook_report \<Rightarrow> bool" where
  "parked_ok k s = is_none_or (\<lambda>p. ha_source (pr_authority p) = k
     \<and> ha_agent_label (pr_authority p) = sup_agent_label s
     \<and> full_lifecycle_hook_authority k (sup_agent_label s)
     \<and> ha_session_ref (pr_authority p) \<noteq> None) (pending_replacement_report s)"

definition reports_ok :: "(text, suppressed_full_lifecycle_hook_report) hashmap \<Rightarrow> bool" where
  "reports_ok rs \<longleftrightarrow> hm_wf rs \<and> (\<forall>k s. hm_get rs k = Some s \<longrightarrow> parked_ok k s)"

definition stales_ok :: "(text, stale_full_lifecycle_hook_session list) hashmap \<Rightarrow> bool" where
  "stales_ok st \<longleftrightarrow> (\<forall>k known. hm_get st k = Some known \<longrightarrow> known \<noteq> [] \<and> distinct known)"

definition authority_ok :: "hook_authority option \<Rightarrow> bool" where
  "authority_ok h = is_none_or (\<lambda>a.
     \<not> session_identity_only_integration (ha_source a) (ha_agent_label a)) h"

definition token_sources_ok :: "text list \<Rightarrow> bool" where
  "token_sources_ok ss \<longleftrightarrow> distinct ss \<and> length ss \<le> MAX_SEQUENCE_SOURCES"

definition books_ok :: "terminal_state \<Rightarrow> bool" where
  "books_ok t \<longleftrightarrow> reports_ok (suppressed_reports t) \<and> stales_ok (stale_sessions t)
     \<and> authority_ok (hook_auth t) \<and> token_sources_ok (metadata_token_sequence_sources t)
     \<and> (fallback_visible_blocker t \<longrightarrow> fallback_state t = Blocked)"

definition terminal_inv :: "terminal_state \<Rightarrow> bool" where
  "terminal_inv t \<longleftrightarrow> arbitrated t \<and> books_ok t"

section \<open>The maps\<close>

lemma reports_ok_Nil [simp]: "reports_ok []"
  by (simp add: reports_ok_def)

lemma reports_ok_insert [simp]: "reports_ok rs \<Longrightarrow> parked_ok k s \<Longrightarrow> reports_ok (hm_insert k s rs)"
  by (simp add: reports_ok_def hm_simps)

lemma reports_ok_remove [simp]: "reports_ok rs \<Longrightarrow> reports_ok (hm_remove k rs)"
  by (simp add: reports_ok_def hm_simps)

lemma reports_ok_retain [simp]: "reports_ok rs \<Longrightarrow> reports_ok (hm_retain p rs)"
  by (simp add: reports_ok_def hm_simps opt_simps)

lemma reports_ok_map_values:
  "reports_ok rs \<Longrightarrow> (\<And>k s. parked_ok k s \<Longrightarrow> parked_ok k (f k s)) \<Longrightarrow> reports_ok (hm_map_values f rs)"
  by (auto simp: reports_ok_def hm_simps)

lemma reports_okD: "reports_ok rs \<Longrightarrow> hm_get rs k = Some s \<Longrightarrow> parked_ok k s"
  by (simp add: reports_ok_def)

lemma reports_ok_update:
  assumes "reports_ok rs" "hm_get rs k = Some s" "sup_agent_label s' = sup_agent_label s"
    and "pending_replacement_report s' \<in> {pending_replacement_report s, None}"
  shows "reports_ok (hm_insert k s' rs)"
  using assms reports_okD [OF assms(1,2)] by (auto intro!: reports_ok_insert simp: parked_ok_def)

lemma stales_ok_Nil [simp]: "stales_ok []"
  by (simp add: stales_ok_def)

lemma stales_ok_insert [simp]:
  "stales_ok st \<Longrightarrow> known \<noteq> [] \<Longrightarrow> distinct known \<Longrightarrow> stales_ok (hm_insert k known st)"
  by (simp add: stales_ok_def hm_simps)

lemma stales_ok_remove [simp]: "stales_ok st \<Longrightarrow> stales_ok (hm_remove k st)"
  by (simp add: stales_ok_def hm_simps)

lemma stales_ok_lookup: "stales_ok st \<Longrightarrow> distinct (unwrap_or (hm_get st k) [])"
  by (cases "hm_get st k") (simp_all add: stales_ok_def)

lemma authority_ok_simps [simp]:
  "authority_ok None"
  "authority_ok (Some a) \<longleftrightarrow> \<not> session_identity_only_integration (ha_source a) (ha_agent_label a)"
  by (simp_all add: authority_ok_def)

lemma token_sources_removeAll [simp]: "token_sources_ok ss \<Longrightarrow> token_sources_ok (removeAll x ss)"
  by (auto simp: token_sources_ok_def distinct_removeAll intro: le_trans [OF length_removeAll_less_eq])

lemma token_sources_fold [simp]: "token_sources_ok ss \<Longrightarrow> token_sources_ok (fold removeAll xs ss)"
  by (induction xs arbitrary: ss) simp_all

section \<open>The bookkeeping operations\<close>

lemma books_clear_name [simp]: "books_ok t \<Longrightarrow> books_ok (clear_agent_name t)"
  by (simp add: books_ok_def clear_agent_name_def)

lemma books_reconcile [simp]: "books_ok t \<Longrightarrow> books_ok (reconcile_agent_name_owner l r t)"
  by (simp add: books_ok_def reconcile_agent_name_owner_def split: option.split)

lemma books_suppress_with [simp]:
  "books_ok t \<Longrightarrow> books_ok (suppress_with_session_ref s l r x n t)"
  by (simp add: books_ok_def suppress_with_session_ref_def parked_ok_def)

lemma books_suppress_current [simp]:
  "books_ok t \<Longrightarrow> books_ok (suppress_current_hook_authority x n t)"
  by (simp add: suppress_current_hook_authority_def split: option.split)

lemma books_suppress_report [simp]: "books_ok t \<Longrightarrow> books_ok (suppress_hook_report s l x n t)"
  by (simp add: suppress_hook_report_def)

lemma books_remember [simp]: "books_ok t \<Longrightarrow> books_ok (remember_stale_session s l r t)"
  using stales_ok_lookup [of "stale_sessions t" s]
  by (auto simp: books_ok_def remember_stale_session_def Let_def intro!: stales_ok_insert)

lemma books_fold_remember [simp]:
  "books_ok t \<Longrightarrow> books_ok (fold (\<lambda>(s, l, r). remember_stale_session s l r) xs t)"
  by (induction xs arbitrary: t) auto

lemma books_forget [simp]: "books_ok t \<Longrightarrow> books_ok (forget_stale_session s l r t)"
  by (auto simp: books_ok_def forget_stale_session_def Let_def stales_ok_def hm_simps
      split: option.split)

lemma books_accept: "books_ok t \<Longrightarrow> books_ok (snd (accept_hook_report s q t))"
  by (simp add: books_ok_def accept_hook_report_def split: option.split)

lemma books_acceptD: "accept_hook_report s q t = (b, t') \<Longrightarrow> books_ok t \<Longrightarrow> books_ok t'"
  using books_accept by (metis snd_conv)

lemma books_reanchor [simp]: "books_ok t \<Longrightarrow> books_ok (reanchor_sequence b s t)"
  by (simp add: books_ok_def reanchor_sequence_def)

lemma books_park_report:
  assumes "books_ok t" "full_lifecycle_hook_authority s l"
    and "is_none_or (\<lambda>x. sup_agent_label x = l) (hm_get (suppressed_reports t) s)"
  shows "books_ok (park_hook_report s l st m r n at t)"
  using assms
  by (cases "hm_get (suppressed_reports t) s")
    (auto simp: books_ok_def park_hook_report_def Let_def parked_ok_def intro: reports_ok_update)

lemma books_route:
  assumes "route_hook_report s l st m r q at t = (x, t')" "books_ok t"
  shows "books_ok t'"
proof -
  have "t' = t \<or> (full_lifecycle_hook_authority s l
      \<and> is_none_or (\<lambda>x. sup_agent_label x = l) (hm_get (suppressed_reports t) s)
      \<and> (\<exists>r n. t' = park_hook_report s l st m r n at t))"
    using assms(1) by (auto simp: route_hook_report_def Let_def split: if_splits option.splits)
  with assms(2) show ?thesis by (auto intro: books_park_report)
qed

lemma books_park_start [simp]: "books_ok t \<Longrightarrow> books_ok (park_session_start s l r n at t)"
  by (cases "hm_get (suppressed_reports t) s")
    (auto simp: books_ok_def park_session_start_def Let_def parked_ok_def intro: reports_ok_update)

lemma books_recompute:
  "recompute_effective_state p now t = (c, t') \<Longrightarrow> books_ok t \<Longrightarrow> books_ok t'"
  by (auto simp: recompute_effective_state_def Let_def books_ok_def
      clear_expiry_pending_for_hidden_metadata_def split: if_splits)

lemma books_mutation:
  "mutation_result p now rc rel t = (m, t') \<Longrightarrow> books_ok t \<Longrightarrow> books_ok t'"
  by (auto simp: mutation_result_def split: prod.splits intro: books_recompute)

lemma books_clear_expiry [simp]:
  "books_ok t \<Longrightarrow> books_ok (clear_expiry_pending_for_hidden_metadata t)"
  by (simp add: books_ok_def clear_expiry_pending_for_hidden_metadata_def)

text \<open>Fields the bookkeeping does not mention.\<close>

lemma books_fields [simp]:
  "books_ok (t\<lparr>detected_agent := a\<rparr>) = books_ok t"
  "books_ok (t\<lparr>recent_exit := b\<rparr>) = books_ok t"
  "books_ok (t\<lparr>persisted_session := c\<rparr>) = books_ok t"
  "books_ok (t\<lparr>hook_report_sequences := d\<rparr>) = books_ok t"
  "books_ok (t\<lparr>agent_metadata_map := e\<rparr>) = books_ok t"
  "books_ok (t\<lparr>ts_state := f\<rparr>) = books_ok t"
  "books_ok (t\<lparr>agent_name := g\<rparr>) = books_ok t"
  "books_ok (t\<lparr>name_owner := h\<rparr>) = books_ok t"
  "books_ok (t\<lparr>managed := i\<rparr>) = books_ok t"
  "books_ok (t\<lparr>fallback_observed_at := j\<rparr>) = books_ok t"
  by (simp_all add: books_ok_def)

lemma books_authority [simp]:
  "books_ok t \<Longrightarrow> authority_ok h \<Longrightarrow> books_ok (t\<lparr>hook_auth := h\<rparr>)"
  by (simp add: books_ok_def)

lemma books_fallback [simp]:
  "books_ok t \<Longrightarrow> (b \<longrightarrow> fb = Blocked) \<Longrightarrow>
     books_ok (t\<lparr>fallback_state := fb, fallback_visible_blocker := b\<rparr>)"
  by (simp add: books_ok_def)

lemma books_reports [simp]:
  "books_ok t \<Longrightarrow> reports_ok rs \<Longrightarrow> books_ok (t\<lparr>suppressed_reports := rs\<rparr>)"
  by (simp add: books_ok_def)

lemma books_okD [simp]:
  "books_ok t \<Longrightarrow> reports_ok (suppressed_reports t)"
  "books_ok t \<Longrightarrow> stales_ok (stale_sessions t)"
  "books_ok t \<Longrightarrow> authority_ok (hook_auth t)"
  "books_ok t \<Longrightarrow> token_sources_ok (metadata_token_sequence_sources t)"
  by (simp_all add: books_ok_def)

lemmas books_results = books_acceptD books_recompute books_mutation

section \<open>The public operations\<close>

lemma books_install_hook:
  assumes "install_hook_authority s l st m r re tk clk now t = (x, t')" "books_ok t"
    and "\<not> session_identity_only_integration s l"
  shows "books_ok t'"
  using assms(1) unfolding install_hook_authority_def Let_def
  by (rule books_mutation) (use assms(2,3) in \<open>simp split: option.split\<close>)

lemma books_set_hook:
  assumes "set_hook_authority_at s l st m r q clk now t = (x, t')" "books_ok t"
  shows "books_ok t'"
proof (cases "\<exists>t1. route_hook_report s l st m r q now t = (Ignore, t1)")
  case True
  with assms show ?thesis
    unfolding set_hook_authority_at_def by (auto split: if_splits intro: books_route)
next
  case False
  then obtain re where ro: "route_hook_report s l st m r q now t = (Accept re, t)"
    by (metis hook_report_route.exhaust route_accepted surj_pair)
  obtain b u where a: "accept_hook_report s q (reanchor_sequence re s t) = (b, u)"
    by (cases "accept_hook_report s q (reanchor_sequence re s t)")
  have "books_ok u" using books_acceptD [OF a] assms(2) by simp
  with assms ro a show ?thesis
    unfolding set_hook_authority_at_def Let_def
    by (auto split: if_splits bool.splits intro: books_install_hook)
qed

lemma adopt_books:
  assumes "books_ok t" "v = (source, label, r, p)"
    and "\<And>q. p = Some q \<Longrightarrow> full_lifecycle_hook_authority (ha_source (pr_authority q))
           (ha_agent_label (pr_authority q))"
  shows "books_ok (adopt_validated_session v t)"
proof (cases p)
  case None
  with assms(1,2) show ?thesis by (simp add: adopt_validated_session_def Let_def)
next
  case (Some q)
  with assms(3) have "authority_ok (Some (pr_authority q))"
    using full_lifecycle_not_identity_only by simp
  with Some assms(1,2) show ?thesis
    by (simp add: adopt_validated_session_def Let_def del: authority_ok_simps)
qed

lemma fold_adopt_books:
  assumes "books_ok t" "\<And>source label r p. (source, label, r, Some p) \<in> set vs \<Longrightarrow>
      full_lifecycle_hook_authority (ha_source (pr_authority p)) (ha_agent_label (pr_authority p))"
  shows "books_ok (fold adopt_validated_session vs t)"
  using assms
proof (induction vs arbitrary: t)
  case (Cons v vs)
  obtain source label r p where v: "v = (source, label, r, p)" by (cases v)
  have "books_ok (adopt_validated_session v t)"
    using Cons.prems v by (intro adopt_books) auto
  then have "books_ok (fold adopt_validated_session vs (adopt_validated_session v t))"
  proof (rule Cons.IH)
    fix source label r p
    assume "(source, label, r, Some p) \<in> set vs"
    then show "full_lifecycle_hook_authority (ha_source (pr_authority p)) (ha_agent_label (pr_authority p))"
      by (intro Cons.prems(2) [of source label r]) simp
  qed
  then show ?case by simp
qed simp

lemma validated_of_cleared_pending:
  "validated_of_cleared t k s = Some (source, label, r, Some p) \<Longrightarrow>
     source = k \<and> pending_replacement_report s = Some p"
  by (auto simp: validated_of_cleared_def opt_simps split: if_splits)

lemma map_filter_mem: "y \<in> set (List.map_filter f xs) \<longleftrightarrow> (\<exists>x \<in> set xs. f x = Some y)"
  by (induction xs) (auto simp: List.map_filter_simps split: option.splits)

lemma validated_lifecycle:
  assumes "reports_ok (suppressed_reports t)"
    and "(source, label, r, Some p) \<in> set (List.map_filter (\<lambda>(source, s). validated_of_cleared t source s)
       (filter P (suppressed_reports t)))"
  shows "full_lifecycle_hook_authority (ha_source (pr_authority p)) (ha_agent_label (pr_authority p))"
proof -
  have wf: "hm_wf (suppressed_reports t)" using assms(1) by (simp add: reports_ok_def)
  obtain x where "x \<in> set (suppressed_reports t)"
    and "validated_of_cleared t (fst x) (snd x) = Some (source, label, r, Some p)"
    using assms(2) by (auto simp: map_filter_mem split: prod.splits)
  then show ?thesis
    using reports_okD [OF assms(1), of "fst x" "snd x"] hm_get_eq_Some_iff [OF wf, of "fst x" "snd x"]
    by (auto simp: parked_ok_def dest!: validated_of_cleared_pending)
qed

lemma books_clear_suppression [simp]:
  assumes "books_ok t"
  shows "books_ok (clear_suppression_for_detected_agent p d t)"
proof (cases "d = None \<or> p = d")
  case True
  with assms show ?thesis by (auto simp: clear_suppression_for_detected_agent_def split: option.split)
next
  case False
  then obtain g where d: "d = Some g" "p \<noteq> Some g" by auto
  have folded: "books_ok (fold (\<lambda>(s, l, r). remember_stale_session s l r) xs
      (t\<lparr>suppressed_reports := hm_retain P (suppressed_reports t)\<rparr>))" for xs P
    using assms by simp
  show ?thesis
    unfolding clear_suppression_for_detected_agent_def d option.case(2) Let_def
    using d(2) assms folded by (auto intro!: fold_adopt_books intro: validated_lifecycle [rotated])
qed

lemma books_install_session:
  assumes "install_session_ref s l r al tk re clk now t = (m, t')" "books_ok t"
  shows "books_ok t'"
  using assms(1) unfolding install_session_ref_def Let_def
  by (rule books_mutation) (use assms(2) in \<open>simp split: option.split\<close>)

lemma books_session_report:
  assumes "set_agent_session_ref_for_session_start s l r q start clk now t = (m, t')" "books_ok t"
  shows "books_ok t'"
proof (cases r)
  case None
  with assms show ?thesis by (simp add: set_agent_session_ref_for_session_start_def)
next
  case (Some ref)
  show ?thesis
  proof (cases "session_start_unconfirmed t s l")
    case True
    with Some assms show ?thesis
      unfolding set_agent_session_ref_for_session_start_def Let_def
      by (auto split: if_splits option.splits intro: books_mutation)
  next
    case False
    obtain b u where a: "accept_hook_report s q t = (b, u)" by (cases "accept_hook_report s q t")
    with False Some assms books_acceptD [OF a] show ?thesis
      unfolding set_agent_session_ref_for_session_start_def Let_def
      by (auto split: if_splits bool.splits intro: books_install_session)
  qed
qed

lemma books_clear_hook:
  assumes "clear_hook_authority s q clk now t = (m, t')" "books_ok t"
  shows "books_ok t'"
proof -
  have acc: "books_ok u" if "accept_hook_report k q t = (b, u)" for k b u
    using books_acceptD [OF that assms(2)] .
  have "books_ok t' \<or> (\<exists>u p rc. books_ok u \<and> mutation_result p now rc False
      ((suppress_current_hook_authority HookClear clk u)
         \<lparr>hook_auth := None, persisted_session := None\<rparr>) = (m, t'))"
    using assms acc unfolding clear_hook_authority_def Let_def
    by (auto split: if_splits option.splits prod.splits bool.splits)
  then show ?thesis by (auto elim!: books_mutation)
qed

lemma books_forget_released [simp]:
  "books_ok t \<Longrightarrow> books_ok (forget_released_agent s l own clk t)"
  by (simp add: forget_released_agent_def Let_def)

lemma books_release:
  assumes "release_agent s l q clk now t = (m, t')" "books_ok t"
  shows "books_ok t'"
proof -
  obtain b u where a: "accept_hook_report s q t = (b, u)" by (cases "accept_hook_report s q t")
  have "books_ok u" using books_acceptD [OF a assms(2)] .
  with assms a have "books_ok t' \<or> (\<exists>v p rc rel. books_ok v \<and>
      mutation_result p now rc rel v = (m, t'))"
    unfolding release_agent_def Let_def
    by (fastforce split: if_splits bool.splits)
  then show ?thesis by (auto elim!: books_mutation)
qed

lemma books_observe [simp]:
  "books_ok t \<Longrightarrow> books_ok (observe_detection ag fb vb ex now t)"
  by (simp add: observe_detection_def Let_def split: option.split)

lemma books_exit_reset [simp]:
  "books_ok t \<Longrightarrow> books_ok (process_exit_reset_reports ag now t)"
  unfolding process_exit_reset_reports_def Let_def
  by (auto intro!: books_fold_remember books_reports reports_ok_map_values simp: parked_ok_def)

lemma books_exit_suppress [simp]:
  "books_ok t \<Longrightarrow> books_ok (process_exit_suppress_official ag now t)"
  by (simp add: process_exit_suppress_official_def split: option.split prod.split)

lemma books_exit_clear_authority [simp]:
  "books_ok t \<Longrightarrow> books_ok (process_exit_clear_authority ag nc t)"
  by (simp add: process_exit_clear_authority_def Let_def split: option.split)

lemma books_frame:
  "books_ok t \<Longrightarrow> suppressed_reports t' = suppressed_reports t \<Longrightarrow> stale_sessions t' = stale_sessions t \<Longrightarrow>
   hook_auth t' = hook_auth t \<Longrightarrow> fallback_visible_blocker t' = fallback_visible_blocker t \<Longrightarrow>
   fallback_state t' = fallback_state t \<Longrightarrow> token_sources_ok (metadata_token_sequence_sources t') \<Longrightarrow>
   books_ok t'"
  by (simp add: books_ok_def del: books_okD)

lemma books_exit_metadata [simp]:
  assumes "books_ok t"
  shows "books_ok (process_exit_clear_metadata ag now t)"
  using assms
proof (rule books_frame)
  show "token_sources_ok (metadata_token_sequence_sources (process_exit_clear_metadata ag now t))"
    using books_okD(4) [OF assms] by (simp add: process_exit_clear_metadata_def Let_def)
qed (simp_all add: process_exit_clear_metadata_def Let_def)

lemma books_exit_effects [simp]: "books_ok t \<Longrightarrow> books_ok (process_exit_effects ag nc now t)"
  by (simp add: process_exit_effects_def Let_def split: option.split)

lemma books_drop [simp]:
  "books_ok t \<Longrightarrow> books_ok (drop_conflicting_authority ag p now clk t)"
  by (simp add: drop_conflicting_authority_def Let_def)

lemma books_detection:
  assumes "set_detected_state ag fb vb ex clk now t = (m, t')" "books_ok t"
  shows "books_ok t'"
proof -
  let ?seen = "detected_state_observed_before_release_suppression t ag now"
  let ?o = "observe_detection ag fb vb ex now t"
  let ?d = "drop_conflicting_authority ag (detected_agent t) now clk
      (if ex then process_exit_effects ag (newer_custom_authority t ag ex now) now ?o else ?o)"
  have ds: "books_ok ?d" "books_ok (clear_agent_name ?d)" using assms(2) by simp_all
  let ?i = "if Option.bind (hook_auth t) (\<lambda>a. parse_agent_label (ha_agent_label a)) = ag
      then t\<lparr>detected_agent := ag\<rparr> else t"
  have "\<exists>u \<in> {t, ?i, ?d, clear_agent_name ?d}. \<exists>p rc rel. mutation_result p now rc rel u = (m, t')"
    using assms(1) unfolding set_detected_state_def Let_def
    by (simp del: books_fields split: if_splits) blast+
  then show ?thesis using ds assms(2) by (auto intro: books_mutation split: if_splits)
qed

lemma books_accept_metadata:
  assumes "accept_metadata_report s q tok ag t = (x, t')" "books_ok t"
  shows "books_ok t'"
proof -
  have ins: "token_sources_ok (if tok then List.insert s (metadata_token_sequence_sources t)
        else metadata_token_sequence_sources t)"
    if "\<not> (tok \<and> s \<notin> set (metadata_token_sequence_sources t)
          \<and> length (metadata_token_sequence_sources t) \<ge> MAX_SEQUENCE_SOURCES)"
    using that books_okD(4) [OF assms(2)]
    by (auto simp: token_sources_ok_def List.insert_def)
  have upd: "books_ok (t\<lparr>metadata_report_sequences := a, metadata_report_agents := b,
      metadata_token_sequence_sources := d\<rparr>)" if "token_sources_ok d" for a b d
    using that by (intro books_frame [OF assms(2)]) simp_all
  show ?thesis
  proof (cases q)
    case None
    with assms show ?thesis by (simp add: accept_metadata_report_def)
  next
    case (Some n)
    let ?full = "tok \<and> s \<notin> set (metadata_token_sequence_sources t)
        \<and> length (metadata_token_sequence_sources t) \<ge> MAX_SEQUENCE_SOURCES"
    show ?thesis
    proof (cases "metadata_report_sequence_is_fresh t s (Some n) \<and> \<not> ?full")
      case True
      from assms(1) True Some
      have "t' = t\<lparr>metadata_report_sequences := hm_insert s n (metadata_report_sequences t),
          metadata_report_agents := (case ag of None \<Rightarrow> metadata_report_agents t
               | Some a \<Rightarrow> hm_insert s a (metadata_report_agents t)),
          metadata_token_sequence_sources :=
             (if tok then List.insert s (metadata_token_sequence_sources t)
              else metadata_token_sequence_sources t)\<rparr>"
        by (simp only: accept_metadata_report_def option.case) (simp only: if_not_P if_P not_not simp_thms prod.inject)
      then show ?thesis using upd ins True by simp
    next
      case False
      with Some assms show ?thesis
        by (simp only: accept_metadata_report_def option.case) (simp only: split: if_split_asm, simp_all)
    qed
  qed
qed

lemma books_drop_expired [simp]: "books_ok (drop_expired_metadata k now u) = books_ok u"
  by (simp add: drop_expired_metadata_def)

lemma books_store [simp]: "books_ok (store_metadata r now u) = books_ok u"
  by (simp add: store_metadata_def Let_def)

lemma books_metadata:
  assumes "set_agent_metadata r now t = (m, t')" "books_ok t"
  shows "books_ok t'"
  using assms unfolding set_agent_metadata_def Let_def
  by (auto split: if_splits prod.splits dest!: books_accept_metadata books_recompute)

lemma books_expire:
  assumes "expire_agent_metadata_at dl now t = (m, t')" "books_ok t"
  shows "books_ok t'"
  using assms unfolding expire_agent_metadata_at_def Let_def
  by (auto split: if_splits elim!: books_mutation)

declare books_okD [simp del]

end
