(* ===== verification/Terminal_Reachable.thy ===== *)
theory Terminal_Reachable
  imports Terminal_Invariant Machine
begin

text \<open>
  The terminals a program can reach: a fresh terminal followed by any sequence of the public
  operations of \<open>src/terminal/state.rs\<close> and \<open>src/terminal/metadata.rs\<close>, in any order and with
  any arguments. The invariant of \<open>Terminal_Invariant\<close> holds of all of them.
\<close>

inductive terminal_step :: "terminal_state \<Rightarrow> terminal_state \<Rightarrow> bool" where
  event: "apply_event clk now e t = (m, t') \<Longrightarrow> terminal_step t t'"
| token_report: "accept_metadata_report source q True ag t = (r, t') \<Longrightarrow> terminal_step t t'"
| token_patch: "patch_tokens p ttl now (ts_metadata_tokens t) = (c, k) \<Longrightarrow>
    terminal_step t (t\<lparr>ts_metadata_tokens := k\<rparr>)"
| token_expiry: "expire_at now (ts_metadata_tokens t) = (c, k) \<Longrightarrow>
    terminal_step t (t\<lparr>ts_metadata_tokens := k\<rparr>)"
| title: "set_terminal_title x t = (c, t') \<Longrightarrow> terminal_step t t'"
| label: "terminal_step t (set_manual_label l t)"
| label_cleared: "terminal_step t (clear_manual_label t)"
| named: "terminal_step t (set_agent_name name t)"
| name_cleared: "terminal_step t (clear_agent_name t)"
| managed_begun: "terminal_step t (begin_managed_agent name k now settle timeout t)"
| managed_tick: "reconcile_managed_agent_at now ex t = (c, t') \<Longrightarrow> terminal_step t t'"
| managed_restored: "terminal_step t (restore_managed_agent name k t)"
| session_restored: "terminal_step t (set_persisted_agent_session s t)"
| argv: "terminal_step t (with_launch_argv av t)"
| respawn_flag: "terminal_step t (with_respawn_shell_on_exit t)"
| resume_plan: "terminal_step t (with_pending_agent_resume_plan p t)"
| respawned: "terminal_step t (clear_agent_runtime_identity_after_respawn t)"

definition terminal_init :: "terminal_state \<Rightarrow> bool" where
  "terminal_init t \<longleftrightarrow> (\<exists>i c. t = new_terminal i c)"

abbreviation terminal_reachable :: "terminal_state \<Rightarrow> bool" where
  "terminal_reachable \<equiv> reachable terminal_init terminal_step"

section \<open>The invariant holds\<close>

lemma books_event:
  assumes "apply_event clk now e t = (m, t')" "books_ok t"
  shows "books_ok t'"
  using assms
  by (cases e) (auto intro: books_set_hook books_session_report books_clear_hook books_release
      books_detection books_metadata books_expire)

lemma fresh_inv: "terminal_inv (new_terminal i c)"
  by (simp add: terminal_inv_def arbitrated_def core_simps eff_state_def eff_live_def opt_simps
      new_terminal_def books_ok_def token_sources_ok_def)

lemma respawned_inv: "terminal_inv (clear_agent_runtime_identity_after_respawn t)" if "books_ok t"
  using that
  by (simp add: terminal_inv_def arbitrated_def core_simps eff_state_def eff_live_def opt_simps
      clear_agent_runtime_identity_after_respawn_def clear_agent_name_def books_ok_def)

text \<open>The operations that touch neither what the terminal shows nor the bookkeeping.\<close>

definition same_inv :: "terminal_state \<Rightarrow> terminal_state \<Rightarrow> bool" where
  "same_inv t t' \<longleftrightarrow> same_core t t' \<and> (books_ok t \<longrightarrow> books_ok t')"

lemma same_inv_preserves: "same_inv t t' \<Longrightarrow> terminal_inv t \<Longrightarrow> terminal_inv t'"
  by (auto simp: same_inv_def terminal_inv_def same_core_arbitrated)

lemma books_plain:
  "books_ok (t\<lparr>ts_metadata_tokens := a\<rparr>) = books_ok t"
  "books_ok (t\<lparr>terminal_title := b\<rparr>) = books_ok t"
  "books_ok (t\<lparr>terminal_title := b, revision := c\<rparr>) = books_ok t"
  "books_ok (t\<lparr>manual_label := d\<rparr>) = books_ok t"
  "books_ok (t\<lparr>launch_argv := e\<rparr>) = books_ok t"
  "books_ok (t\<lparr>respawn_shell_on_exit := f\<rparr>) = books_ok t"
  "books_ok (t\<lparr>pending_agent_resume_plan := g\<rparr>) = books_ok t"
  by (simp_all add: books_ok_def)

lemma same_inv_fields:
  "same_inv t (t\<lparr>ts_metadata_tokens := k\<rparr>)"
  "same_inv t (set_manual_label l t)"
  "same_inv t (clear_manual_label t)"
  "same_inv t (set_agent_name n t)"
  "same_inv t (clear_agent_name t)"
  "same_inv t (begin_managed_agent n g now settle timeout t)"
  "same_inv t (restore_managed_agent n g t)"
  "same_inv t (with_launch_argv av t)"
  "same_inv t (with_respawn_shell_on_exit t)"
  "same_inv t (with_pending_agent_resume_plan p t)"
  by (simp_all add: same_inv_def same_core_def frame books_plain set_manual_label_def
      clear_manual_label_def set_agent_name_def begin_managed_agent_def restore_managed_agent_def
      with_launch_argv_def with_respawn_shell_on_exit_def with_pending_agent_resume_plan_def Let_def)

lemma same_inv_title: "set_terminal_title x t = (c, t') \<Longrightarrow> same_inv t t'"
  by (auto simp: set_terminal_title_def Let_def same_inv_def same_core_def books_plain
      split: if_splits)

lemma same_inv_tick: "reconcile_managed_agent_at now ex t = (c, t') \<Longrightarrow> same_inv t t'"
  by (auto simp: reconcile_managed_agent_at_def Let_def same_inv_def same_core_def frame
      split: if_splits option.splits managed_agent_phase.splits)

lemma same_inv_token_report: "accept_metadata_report s q True ag t = (r, t') \<Longrightarrow> same_inv t t'"
  using same_core_accept_metadata books_accept_metadata by (auto simp: same_inv_def)

lemma session_restored_inv: "terminal_inv t \<Longrightarrow> terminal_inv (set_persisted_agent_session s t)"
  by (simp add: terminal_inv_def arbitrated_def core_simps set_persisted_agent_session_def)

lemma step_inv: "terminal_step t t' \<Longrightarrow> terminal_inv t \<Longrightarrow> terminal_inv t'"
proof (induction rule: terminal_step.induct)
  case (event clk now e t m t')
  then show ?case
    using apply_event_accurate [OF event(1)] books_event [OF event(1)]
    by (simp add: terminal_inv_def)
next
  case (respawned t)
  then have "books_ok t" by (simp add: terminal_inv_def)
  then show ?case by (rule respawned_inv)
qed (auto intro: same_inv_preserves same_inv_fields same_inv_title same_inv_tick
      same_inv_token_report session_restored_inv)

interpretation terminal: invariant terminal_init terminal_step terminal_inv
  by unfold_locales (auto simp: terminal_init_def fresh_inv step_inv)

lemmas reachable_inv = terminal.reachable_inv

lemma reachable_arbitrated: "terminal_reachable t \<Longrightarrow> arbitrated t"
  using reachable_inv by (simp add: terminal_inv_def)

lemma reachable_new: "terminal_reachable (new_terminal i c)"
  by (rule reachable.start) (auto simp: terminal_init_def)

lemma reachable_event:
  "terminal_reachable t \<Longrightarrow> terminal_reachable (snd (apply_event clk now e t))"
  by (rule reachable.step, assumption, rule terminal_step.event [where m = "fst (apply_event clk now e t)"]) simp

end
