(* ===== verification/Terminal_Scenario.thy ===== *)
theory Terminal_Scenario
  imports Terminal_Reachable
begin

text \<open>
  A session of the agent pi, run on the model: the process is seen, its stored session is
  restored, its integration reports work, and the process exits. The states are computed by the
  operations and given in closed form, and each of them is reachable.
\<close>

definition pi_source :: "text" where
  "pi_source = lit ''herdr:pi''"

definition pi_label :: "text" where
  "pi_label = agent_label Pi"

definition pi_session :: agent_session_ref where
  "pi_session = \<lparr>kind = Id, ref_value = lit ''s1''\<rparr>"

definition pi_working :: hook_authority where
  "pi_working = \<lparr>ha_source = pi_source, ha_agent_label = pi_label, ha_state = Working,
     ha_message = None, ha_reported_at = 20, ha_session_ref = Some pi_session\<rparr>"

definition pi_seen :: terminal_state where
  "pi_seen = snd (apply_event 10 10 (Detection (Some Pi) Idle False False) (new_terminal [] []))"

definition pi_restored :: terminal_state where
  "pi_restored = set_persisted_agent_session
     \<lparr>ps_source = pi_source, ps_agent = pi_label, ps_session_ref = pi_session\<rparr> pi_seen"

definition pi_report :: terminal_event where
  "pi_report = HookReport pi_source pi_label Working None (Some pi_session) (Some 1)"

definition pi_busy :: terminal_state where
  "pi_busy = snd (apply_event 20 20 pi_report pi_restored)"

text \<open>What the names mean to the model.\<close>

lemma pi_names [simp]:
  "full_lifecycle_hook_authority pi_source pi_label" "parse_agent_label pi_label = Some Pi"
  "\<not> session_identity_only_integration pi_source pi_label"
  "\<not> is_pair pi_source pi_label ''herdr:mastracode'' ''mastracode''"
  by (simp_all add: is_pair_def pi_source_def pi_label_def full_lifecycle_hook_authority_def pair_in_def
      session_identity_only_integration_def del: agent_label.simps) simp_all

text \<open>The definitions a run unfolds.\<close>

lemmas run_core = apply_event.simps Let_def new_terminal_def mutation_result_def
  recompute_effective_state_def clear_expiry_pending_for_hidden_metadata_def snapshot_at_def
  effective_presentation_at_def effective_presentation_with_ttl_def newest_metadata_title_def
  newest_metadata_display_agent_def effective_metadata_state_labels_def valid_agent_metadata_def
  hm_values_def hm_map_values_def hm_collect_def presentation_eq_def hm_eq_def

lemmas run_core_values = arbitrated_state_eq eff_state_def eff_live_def eff_ok_def eff_label_def
  effective_agent_label_eq effective_known_agent_eq owns_life_cycle_def
  current_session_identity_eq session_of_def

lemmas run_detection = set_detected_state_def observe_detection_def
  detected_state_observed_before_release_suppression_def
  should_ignore_detected_state_under_full_lifecycle_hook_def live_full_lifecycle_eq
  clear_suppression_for_detected_agent_def drop_conflicting_authority_def
  hook_authority_conflicts_with_detected_agent_def hook_authority_not_newer_than_def
  reconcile_agent_name_owner_def hm_retain_def

lemma pi_seen_eq: "pi_seen = (new_terminal [] [])\<lparr>detected_agent := Some Pi, fallback_state := Idle,
    fallback_observed_at := Some 10, ts_state := Idle\<rparr>"
  by (simp add: pi_seen_def run_core run_core_values run_detection map_filter_simps)

lemmas run_hook = set_hook_authority_at_def route_hook_report_def report_matches_stale_session_def
  report_has_fresh_session_after_stale_session_def process_present_def report_session_anchored_def
  known_agent_label_conflicts_with_detected_agent_def current_session_owner_conflicts_def
  reported_session_ref_def lifecycle_hook_report_replaces_persisted_session_def
  conflicting_same_owner_session_ref_def live_hook_authority_conflicts_with_session_def
  accept_hook_report_def reanchor_sequence_def install_hook_authority_def
  reconcile_agent_name_owner_def hm_contains_def hm_insert_def hm_remove_def pi_working_def

lemma pi_restored_eq: "pi_restored = pi_seen\<lparr>persisted_session :=
    Some \<lparr>ps_source = pi_source, ps_agent = pi_label, ps_session_ref = pi_session\<rparr>\<rparr>"
  by (simp add: pi_restored_def set_persisted_agent_session_def)

lemma pi_busy_eq: "pi_busy = pi_restored\<lparr>persisted_session := None, hook_auth := Some pi_working,
    hook_report_sequences := [(pi_source, 1)], ts_state := Working\<rparr>"
  by (simp add: pi_busy_def pi_report_def pi_restored_eq pi_seen_eq run_hook run_core run_core_values
      map_filter_simps)

lemma pi_report_taken: "\<exists>m. set_hook_authority_at pi_source pi_label Working None (Some pi_session)
    (Some 1) 20 20 pi_restored = (Some m, pi_busy)"
  by (simp add: pi_busy_def pi_report_def pi_restored_eq pi_seen_eq run_hook run_core run_core_values
      map_filter_simps)

lemma pi_busy_fields [simp]:
  "hook_auth pi_busy = Some pi_working" "detected_agent pi_busy = Some Pi" "recent_exit pi_busy = None"
  "ts_state pi_busy = Working" "suppressed_reports pi_busy = []" "stale_sessions pi_busy = []"
  "hm_get (hook_report_sequences pi_busy) pi_source = Some 1" "fallback_state pi_busy = Idle"
  "persisted_session pi_busy = None"
  by (simp_all add: pi_busy_eq pi_restored_eq pi_seen_eq new_terminal_def)

lemma pi_working_fields [simp]:
  "ha_source pi_working = pi_source" "ha_agent_label pi_working = pi_label"
  "ha_state pi_working = Working" "ha_reported_at pi_working = 20"
  "ha_session_ref pi_working = Some pi_session"
  by (simp_all add: pi_working_def)

section \<open>Each state is reachable\<close>

lemma pi_seen_reachable: "terminal_reachable pi_seen"
  unfolding pi_seen_def by (intro reachable_event reachable_new)

lemma pi_restored_reachable: "terminal_reachable pi_restored"
  unfolding pi_restored_def
  by (rule reachable.step [OF pi_seen_reachable terminal_step.session_restored])

lemma pi_busy_reachable: "terminal_reachable pi_busy"
  unfolding pi_busy_def by (intro reachable_event pi_restored_reachable)

end
