(* ===== verification/Terminal_Exit.thy ===== *)
theory Terminal_Exit
  imports Terminal_Scenario
begin

text \<open>
  What a process exit does to a terminal, and why the exited agent does not come back: until
  the next observation of the process, no sequence of reports restores it.
\<close>

section \<open>What the operations leave of the exit marker and the authority\<close>

lemma mutation_result_core [frame]:
  "hook_auth (snd (mutation_result p now rc rel t)) = hook_auth t"
  "recent_exit (snd (mutation_result p now rc rel t)) = recent_exit t"
  "detected_agent (snd (mutation_result p now rc rel t)) = detected_agent t"
  "persisted_session (snd (mutation_result p now rc rel t)) = persisted_session t"
  "fallback_state (snd (mutation_result p now rc rel t)) = fallback_state t"
  "fallback_visible_blocker (snd (mutation_result p now rc rel t)) = fallback_visible_blocker t"
  "fallback_observed_at (snd (mutation_result p now rc rel t)) = fallback_observed_at t"
  by (simp_all add: mutation_result_def recompute_effective_state_def Let_def frame)

lemma recompute_core:
  assumes "recompute_effective_state p now t = (c, t')"
  shows "hook_auth t' = hook_auth t" "recent_exit t' = recent_exit t"
    "detected_agent t' = detected_agent t"
  using assms by (auto simp: recompute_effective_state_def Let_def frame split: if_splits)

lemma mutation_core:
  assumes "mutation_result p now rc rel t = (m, t')"
  shows "hook_auth t' = hook_auth t" "recent_exit t' = recent_exit t"
    "detected_agent t' = detected_agent t" "persisted_session t' = persisted_session t"
  using mutation_result_core [of p now rc rel t] assms by simp_all

lemma mutation_coreD:
  "mutation_result p now rc rel t = (m, t') \<Longrightarrow> hook_auth t' = hook_auth t
     \<and> recent_exit t' = recent_exit t \<and> detected_agent t' = detected_agent t
     \<and> persisted_session t' = persisted_session t"
  by (simp add: mutation_core)

lemma recompute_coreD:
  "recompute_effective_state p now t = (c, t') \<Longrightarrow>
     hook_auth t' = hook_auth t \<and> recent_exit t' = recent_exit t"
  by (simp add: recompute_core)

text \<open>The authority an operation may leave: the one before it, none, or the one it was asked to
  install.\<close>

definition keeps_marker :: "terminal_state \<Rightarrow> terminal_state \<Rightarrow> bool" where
  "keeps_marker t t' \<longleftrightarrow> recent_exit t' = recent_exit t \<and> hook_auth t' \<in> {hook_auth t, None}"

lemma same_core_keeps: "same_core t t' \<Longrightarrow> keeps_marker t t'"
  by (simp add: same_core_def keeps_marker_def)

lemma keeps_trans [trans]: "keeps_marker t u \<Longrightarrow> keeps_marker u v \<Longrightarrow> keeps_marker t v"
  by (auto simp: keeps_marker_def)

lemma mutation_keeps: "mutation_result p now rc rel t = (m, t') \<Longrightarrow> keeps_marker t t'"
  by (simp add: keeps_marker_def mutation_core)

lemma install_hook_marker:
  assumes "install_hook_authority s l st msg r re tk clk now t = (m, t')"
  shows "recent_exit t' = recent_exit t"
    "hook_auth t' = Some \<lparr>ha_source = s, ha_agent_label = l, ha_state = st, ha_message = msg,
       ha_reported_at = now, ha_session_ref = r\<rparr>"
    "detected_agent t' = detected_agent t"
  using assms unfolding install_hook_authority_def Let_def
  by (auto dest!: mutation_coreD simp: frame split: option.splits)

lemma install_session_keeps:
  assumes "install_session_ref s l r al tk re clk now t = (m, t')"
  shows "keeps_marker t t'"
  using assms unfolding install_session_ref_def Let_def
  by (auto dest!: mutation_coreD simp: frame keeps_marker_def split: option.splits)

lemma clear_hook_keeps:
  assumes "clear_hook_authority s q clk now t = (m, t')"
  shows "keeps_marker t t'"
proof -
  have "keeps_marker t t' \<or> (\<exists>u p rc. keeps_marker t u \<and> mutation_result p now rc False
      ((suppress_current_hook_authority HookClear clk u)
         \<lparr>hook_auth := None, persisted_session := None\<rparr>) = (m, t'))"
    using assms same_core_keeps [OF same_core_accept] same_core_keeps [OF same_core_refl]
    unfolding clear_hook_authority_def Let_def
    by (auto split: if_splits option.splits prod.splits bool.splits)
  then show ?thesis
    by (auto simp: keeps_marker_def frame dest!: mutation_coreD)
qed

lemma forget_released_marker:
  "recent_exit (forget_released_agent s l own clk t) = recent_exit t"
  "hook_auth (forget_released_agent s l own clk t) = None"
  by (simp_all add: forget_released_agent_def Let_def frame)

lemma release_keeps:
  assumes "release_agent s l q clk now t = (m, t')"
  shows "keeps_marker t t'"
proof -
  obtain b u where a: "accept_hook_report s q t = (b, u)" by (cases "accept_hook_report s q t")
  have u: "keeps_marker t u" by (rule same_core_keeps [OF same_core_accept [OF a]])
  have "t' = t \<or> t' = u \<or> (\<exists>p rc own rel. mutation_result p now rc rel
      (forget_released_agent s l own clk u) = (m, t'))"
    using assms a unfolding release_agent_def Let_def by (auto split: if_splits bool.splits)
  then show ?thesis
    using u by (auto simp: keeps_marker_def forget_released_marker dest!: mutation_coreD)
qed

lemma metadata_keeps: "set_agent_metadata r now t = (m, t') \<Longrightarrow> keeps_marker t t'"
  unfolding set_agent_metadata_def Let_def
  by (auto split: if_splits prod.splits simp: keeps_marker_def frame
      dest!: same_core_accept_metadata recompute_coreD simp: same_core_def drop_expired_metadata_def
      store_metadata_def Let_def)

lemma expire_keeps: "expire_agent_metadata_at dl now t = (m, t') \<Longrightarrow> keeps_marker t t'"
  unfolding expire_agent_metadata_at_def Let_def
  by (auto split: if_splits simp: keeps_marker_def dest!: mutation_coreD)

lemma session_report_keeps:
  assumes "set_agent_session_ref_for_session_start s l r q start clk now t = (m, t')"
    and "recent_exit t \<noteq> None"
  shows "keeps_marker t t'"
  using assms(1)
proof (cases rule: session_report_cases)
  case rejected
  then show ?thesis using same_core_keeps by blast
next
  case confirmed
  with assms(2) show ?thesis by (simp add: process_present_def)
next
  case (accepted ref u)
  then show ?thesis
    using keeps_trans [OF same_core_keeps [OF same_core_accept] install_session_keeps] by blast
qed

section \<open>Staying exited\<close>

text \<open>The exit marker is set for the agent, and no authority can show it.\<close>

definition barred :: "agent \<Rightarrow> terminal_state \<Rightarrow> bool" where
  "barred g t \<longleftrightarrow> is_some_and (\<lambda>ex. exit_agent ex = g) (recent_exit t)
     \<and> is_none_or (\<lambda>a. owns_life_cycle a \<or> parse_agent_label (ha_agent_label a) \<noteq> Some g) (hook_auth t)"

lemma barred_not_shown:
  assumes "barred g t"
  shows "effective_known_agent t \<noteq> Some g"
  using assms
  by (cases "hook_auth t"; cases "recent_exit t")
    (auto simp: barred_def core_simps eff_label_def eff_ok_def opt_simps)

lemma barred_keeps: "barred g t \<Longrightarrow> keeps_marker t t' \<Longrightarrow> barred g t'"
  by (auto simp: barred_def keeps_marker_def)

fun is_observation :: "terminal_event \<Rightarrow> bool" where
  "is_observation (Detection _ _ _ _) = True"
| "is_observation _ = False"

lemma hook_report_barred:
  assumes "set_hook_authority_at source label st msg r q clk now t = (m, t')" "barred g t"
  shows "barred g t'"
  using assms(1)
proof (cases rule: set_hook_authority_cases)
  case rejected
  then show ?thesis using barred_keeps assms(2) same_core_keeps by blast
next
  case (accepted re s)
  have "recent_exit s = recent_exit t" using accepted(8) by (simp add: same_core_def)
  moreover have "full_lifecycle_hook_authority source label \<or> parse_agent_label label \<noteq> Some g"
    using accepted(2) assms(2) by (cases "recent_exit t") (auto simp: barred_def)
  ultimately show ?thesis
    using install_hook_marker [OF accepted(9)] assms(2) by (simp add: barred_def owns_life_cycle_def)
qed

lemma event_barred:
  assumes "apply_event clk now e t = (m, t')" "\<not> is_observation e" "barred g t"
  shows "barred g t'"
proof (cases e)
  case HookReport
  with assms show ?thesis by (auto intro: hook_report_barred)
next
  case SessionReport
  moreover have "recent_exit t \<noteq> None" using assms(3) by (cases "recent_exit t") (auto simp: barred_def)
  ultimately show ?thesis using assms by (auto intro: barred_keeps session_report_keeps)
next
  case ClearHook
  with assms show ?thesis by (auto intro: barred_keeps clear_hook_keeps)
next
  case Release
  with assms show ?thesis by (auto intro: barred_keeps release_keeps)
next
  case Detection
  with assms show ?thesis by simp
next
  case MetadataReport
  with assms show ?thesis by (auto intro: barred_keeps metadata_keeps)
next
  case MetadataExpiry
  with assms show ?thesis by (auto intro: barred_keeps expire_keeps)
qed

type_synonym timed_event = "instant \<times> instant \<times> terminal_event"

fun run_events :: "timed_event list \<Rightarrow> terminal_state \<Rightarrow> terminal_state" where
  "run_events [] t = t"
| "run_events ((clk, now, e) # es) t = run_events es (snd (apply_event clk now e t))"

lemma run_barred:
  "barred g t \<Longrightarrow> \<forall>(clk, now, e) \<in> set es. \<not> is_observation e \<Longrightarrow> barred g (run_events es t)"
proof (induction es t rule: run_events.induct)
  case (2 clk now e es t)
  have "barred g (snd (apply_event clk now e t))"
    using event_barred [of clk now e t "fst (apply_event clk now e t)" "snd (apply_event clk now e t)" g] 2
    by simp
  then show ?case using "2.IH" "2.prems"(2) by simp
qed simp

section \<open>The exit\<close>

text \<open>The session of an authority or of the stored record, when it belongs to an agent.\<close>

definition session_agent_is :: "agent option \<Rightarrow> terminal_state \<Rightarrow> bool" where
  "session_agent_is ag t = is_some_and (\<lambda>(_, label, _, _). parse_agent_label label = ag)
     (current_session_identity t)"

definition authority_of :: "agent option \<Rightarrow> hook_authority \<Rightarrow> bool" where
  "authority_of ag a \<longleftrightarrow> parse_agent_label (ha_agent_label a) = ag"

definition free_of :: "agent option \<Rightarrow> terminal_state \<Rightarrow> bool" where
  "free_of ag t \<longleftrightarrow> is_none_or (\<lambda>a. \<not> authority_of ag a) (hook_auth t)
     \<and> is_none_or (\<lambda>s. parse_agent_label (ps_agent s) \<noteq> ag) (persisted_session t)"

lemma clear_authority_free:
  "\<not> nc \<Longrightarrow> free_of ag (process_exit_clear_authority ag nc t)"
  by (auto simp: process_exit_clear_authority_def free_of_def authority_of_def Let_def opt_simps
      split: option.splits)

lemma clear_metadata_free: "free_of ag (process_exit_clear_metadata g now t) = free_of ag t"
  by (simp add: free_of_def frame)

lemma exit_effects_free:
  assumes "\<not> nc"
  shows "free_of ag (process_exit_effects ag nc now t)"
  using clear_authority_free [OF assms, of ag]
  by (auto simp: process_exit_effects_def Let_def clear_metadata_free split: option.split)

lemma drop_free: "free_of ag t \<Longrightarrow> free_of ag (drop_conflicting_authority d p now clk t)"
  by (cases "hook_auth t"; cases "ha_session_ref (the (hook_auth t))")
    (auto simp: drop_conflicting_authority_def free_of_def authority_of_def Let_def frame)

lemma clear_authority_exit: "recent_exit (process_exit_clear_authority ag nc t) = recent_exit t"
  by (simp add: process_exit_clear_authority_def Let_def split: option.split)

lemma exit_effects_exit: "recent_exit (process_exit_effects ag nc now t) = recent_exit t"
  by (simp add: process_exit_effects_def Let_def frame clear_authority_exit split: option.split)

lemma drop_exit: "recent_exit (drop_conflicting_authority d p now clk t) = recent_exit t"
  by (simp add: drop_conflicting_authority_def Let_def frame)

lemma exited_detection:
  assumes "set_detected_state (Some g) fb vb True clk now t = (m, t')"
    and "\<not> newer_custom_authority t (Some g) True now"
  shows "free_of (Some g) t'" "recent_exit t' = Some \<lparr>exit_agent = g, exit_observed_at = now\<rparr>"
proof -
  let ?o = "observe_detection (Some g) fb vb True now t"
  let ?d = "drop_conflicting_authority (Some g) (detected_agent t) now clk
      (process_exit_effects (Some g) False now ?o)"
  obtain u p rc rel where u: "u \<in> {?d, clear_agent_name ?d}"
      and m: "mutation_result p now rc rel u = (m, t')"
    using assms unfolding set_detected_state_def Let_def
    by (auto simp: should_ignore_detected_state_under_full_lifecycle_hook_def split: if_splits)
  have "recent_exit ?o = Some \<lparr>exit_agent = g, exit_observed_at = now\<rparr>"
    by (simp add: observe_detection_def Let_def)
  then show "recent_exit t' = Some \<lparr>exit_agent = g, exit_observed_at = now\<rparr>"
    using u mutation_core [OF m] by (auto simp: drop_exit exit_effects_exit frame)
  have "free_of (Some g) ?d" by (intro drop_free exit_effects_free) simp
  then show "free_of (Some g) t'"
    using u mutation_core [OF m] by (auto simp: free_of_def frame)
qed

lemma free_session: "free_of ag t \<Longrightarrow> \<not> session_agent_is ag t"
  by (cases "hook_auth t"; cases "ha_session_ref (the (hook_auth t))"; cases "persisted_session t")
    (auto simp: free_of_def session_agent_is_def authority_of_def core_simps session_of_def opt_simps)

lemma free_barred: "free_of (Some g) t \<Longrightarrow> is_some_and (\<lambda>ex. exit_agent ex = g) (recent_exit t) \<Longrightarrow> barred g t"
  by (cases "hook_auth t") (auto simp: free_of_def barred_def authority_of_def)

text \<open>C4. A process exit ends the agent: the terminal no longer shows it, no authority of it is
  left, and its session is forgotten, unless an unofficial integration reported after the exit
  was observed.\<close>

theorem process_exit_ends_agent:
  assumes "set_detected_state (Some g) fb vb True clk now t = (m, t')"
    and "\<not> newer_custom_authority t (Some g) True now"
  shows "effective_known_agent t' \<noteq> Some g
    \<and> is_none_or (\<lambda>a. parse_agent_label (ha_agent_label a) \<noteq> Some g) (hook_auth t')
    \<and> is_none_or (\<lambda>(_, label, _, _). parse_agent_label label \<noteq> Some g) (current_session_identity t')
    \<and> recent_exit t' = Some \<lparr>exit_agent = g, exit_observed_at = now\<rparr>"
proof -
  note ex = exited_detection [OF assms]
  have "barred g t'" using ex by (intro free_barred) auto
  then show ?thesis
    using ex barred_not_shown free_session [OF ex(1)]
    by (cases "current_session_identity t'")
      (auto simp: free_of_def authority_of_def session_agent_is_def)
qed

theorem process_exit_ends_agent_witness:
  "effective_known_agent pi_busy = Some Pi
   \<and> effective_known_agent (snd (set_detected_state (Some Pi) Idle False True 30 30 pi_busy)) \<noteq> Some Pi"
proof -
  have "\<not> newer_custom_authority pi_busy (Some Pi) True 30"
    by (simp add: newer_custom_authority_def)
  note gone = process_exit_ends_agent [OF surjective_pairing this, of Idle False 30]
  have "effective_known_agent pi_busy = Some Pi"
    by (simp add: core_simps eff_label_def eff_ok_def)
  with gone show ?thesis by blast
qed

text \<open>C5. The exited agent stays away: after a process exit, no sequence of hook reports, session
  reports, clears, releases or metadata events, official or not, makes the terminal show the
  agent again before the process is next observed, unless at the exit an unofficial integration
  of the agent held the authority with a report made after the exit was observed.\<close>

theorem exited_agent_stays_away:
  assumes "set_detected_state (Some g) fb vb True clk now t = (m, t')"
    and "\<not> newer_custom_authority t (Some g) True now"
    and "\<forall>(clk, now, e) \<in> set es. \<not> is_observation e"
  shows "effective_known_agent (run_events es t') \<noteq> Some g"
proof -
  have "barred g t'" using exited_detection [OF assms(1,2)] by (intro free_barred) auto
  then show ?thesis using run_barred [OF _ assms(3)] barred_not_shown by blast
qed

theorem exited_agent_stays_away_witness:
  "effective_known_agent (run_events
     [(40, 40, HookReport pi_source pi_label Working None (Some pi_session) (Some 2)), (50, 50, ClearHook None None)]
     (snd (set_detected_state (Some Pi) Idle False True 30 30 pi_busy))) \<noteq> Some Pi"
proof -
  have "\<not> newer_custom_authority pi_busy (Some Pi) True 30"
    by (simp add: newer_custom_authority_def)
  show ?thesis
    by (rule exited_agent_stays_away [OF surjective_pairing \<open>\<not> newer_custom_authority _ _ _ _\<close>]) simp
qed

end
