(* ===== verification/Terminal_Order.thy ===== *)
theory Terminal_Order
  imports Terminal_Exit
begin

text \<open>
  The numbers a terminal has recorded for the sources of its hook reports, and the sessions it
  holds for finished, across runs of events. An event is quiet when it neither observes the
  process nor starts a session. A quiet event only ever raises the recorded numbers, except that
  an accepted report which starts a session afresh restarts the numbers of its source; and it
  never forgets a finished session.
\<close>

named_theorems order_frame "what an operation leaves of the recorded numbers and stale sessions"

fun is_session_report :: "terminal_event \<Rightarrow> bool" where
  "is_session_report (SessionReport _ _ _ _ _) = True"
| "is_session_report _ = False"

definition quiet :: "terminal_event \<Rightarrow> bool" where
  "quiet e \<longleftrightarrow> \<not> is_observation e \<and> \<not> is_session_report e"

section \<open>What the parts of an operation leave alone\<close>

lemma reconcile_order [order_frame]:
  "hook_report_sequences (reconcile_agent_name_owner l r t) = hook_report_sequences t"
  "stale_sessions (reconcile_agent_name_owner l r t) = stale_sessions t"
  by (simp_all add: reconcile_agent_name_owner_def split: option.split)

lemma clear_name_order [order_frame]:
  "hook_report_sequences (clear_agent_name t) = hook_report_sequences t"
  "stale_sessions (clear_agent_name t) = stale_sessions t"
  by (simp_all add: clear_agent_name_def)

lemma suppress_order [order_frame]:
  "hook_report_sequences (suppress_current_hook_authority x n t) = hook_report_sequences t"
  "stale_sessions (suppress_current_hook_authority x n t) = stale_sessions t"
  "hook_report_sequences (suppress_hook_report s l x n t) = hook_report_sequences t"
  "stale_sessions (suppress_hook_report s l x n t) = stale_sessions t"
  by (simp_all add: suppress_current_hook_authority_def suppress_hook_report_def
      suppress_with_session_ref_def split: option.split)

lemma remember_order [order_frame]:
  "hook_report_sequences (remember_stale_session s l r t) = hook_report_sequences t"
  by (simp add: remember_stale_session_def Let_def)

lemma route_order:
  assumes "route_hook_report s l st m r q at t = (x, t')"
  shows "hook_report_sequences t' = hook_report_sequences t" "stale_sessions t' = stale_sessions t"
  using assms
  by (auto simp: route_hook_report_def park_hook_report_def Let_def split: if_splits option.splits)

lemma mutation_order:
  assumes "mutation_result p now rc rel t = (m, t')"
  shows "hook_report_sequences t' = hook_report_sequences t" "stale_sessions t' = stale_sessions t"
  using assms
  by (auto simp: mutation_result_def recompute_effective_state_def Let_def
      clear_expiry_pending_for_hidden_metadata_def split: if_splits)

lemma accept_stale:
  "accept_hook_report s q t = (b, t') \<Longrightarrow> stale_sessions t' = stale_sessions t"
  by (auto simp: accept_hook_report_def split: if_splits option.splits)

lemma reanchor_stale [order_frame]: "stale_sessions (reanchor_sequence b s t) = stale_sessions t"
  by (simp add: reanchor_sequence_def)

text \<open>The gate raises the number of its source, and only that.\<close>

definition seqs_raised :: "terminal_state \<Rightarrow> terminal_state \<Rightarrow> bool" where
  "seqs_raised t t' \<longleftrightarrow> (\<forall>k l. hm_get (hook_report_sequences t) k = Some l \<longrightarrow>
     (\<exists>l' \<ge> l. hm_get (hook_report_sequences t') k = Some l'))"

lemma seqs_raised_same: "hook_report_sequences t' = hook_report_sequences t \<Longrightarrow> seqs_raised t t'"
  by (auto simp: seqs_raised_def)

lemma seqs_raisedD:
  "seqs_raised t t' \<Longrightarrow> hm_get (hook_report_sequences t) k = Some l \<Longrightarrow>
     \<exists>l' \<ge> l. hm_get (hook_report_sequences t') k = Some l'"
  by (simp add: seqs_raised_def)

lemma accept_raises: "accept_hook_report s q t = (b, t') \<Longrightarrow> seqs_raised t t'"
  by (auto simp: accept_hook_report_def seqs_raised_def hm_simps split: if_splits option.splits)

lemma accept_takes:
  assumes "accept_hook_report s (Some n) t = (True, t')"
  shows "hm_get (hook_report_sequences t') s = Some n"
    "hm_get (hook_report_sequences t) s = Some l \<Longrightarrow> l < n"
  using assms by (auto simp: accept_hook_report_def hm_simps split: if_splits)

section \<open>What the quiet operations leave\<close>

lemma install_hook_seqs:
  assumes "install_hook_authority s l st msg r re tk clk now t = (m, t')"
  shows "hook_report_sequences t' = hook_report_sequences t"
  using assms unfolding install_hook_authority_def Let_def
  by (auto dest!: mutation_order(1) simp: order_frame split: option.splits)

lemma clear_hook_raises:
  assumes "clear_hook_authority s q clk now t = (m, t')"
  shows "seqs_raised t t'"
proof -
  have "seqs_raised t t' \<or> (\<exists>u p rc. seqs_raised t u \<and> mutation_result p now rc False
      ((suppress_current_hook_authority HookClear clk u)
         \<lparr>hook_auth := None, persisted_session := None\<rparr>) = (m, t'))"
    using assms accept_raises seqs_raised_same [of t t]
    unfolding clear_hook_authority_def Let_def
    by (auto split: if_splits option.splits prod.splits bool.splits)
  then show ?thesis
    by (auto simp: seqs_raised_def order_frame dest!: mutation_order(1))
qed

lemma forget_released_order [order_frame]:
  "hook_report_sequences (forget_released_agent s l own clk t) = hook_report_sequences t"
  "stale_sessions (forget_released_agent s l own clk t) = stale_sessions t"
  by (simp_all add: forget_released_agent_def Let_def order_frame)

lemma release_raises:
  assumes "release_agent s l q clk now t = (m, t')"
  shows "seqs_raised t t'"
proof -
  obtain b u where a: "accept_hook_report s q t = (b, u)" by (cases "accept_hook_report s q t")
  have "t' = t \<or> t' = u \<or> (\<exists>p rc own rel. mutation_result p now rc rel
      (forget_released_agent s l own clk u) = (m, t'))"
    using assms a unfolding release_agent_def Let_def by (auto split: if_splits bool.splits)
  then show ?thesis
    using accept_raises [OF a] by (auto simp: seqs_raised_def order_frame dest!: mutation_order(1))
qed

lemma clear_expiry_order [order_frame]:
  "hook_report_sequences (clear_expiry_pending_for_hidden_metadata t) = hook_report_sequences t"
  "stale_sessions (clear_expiry_pending_for_hidden_metadata t) = stale_sessions t"
  by (simp_all add: clear_expiry_pending_for_hidden_metadata_def)

text \<open>Neither the recorded numbers nor the stale sessions change.\<close>

definition same_order :: "terminal_state \<Rightarrow> terminal_state \<Rightarrow> bool" where
  "same_order t t' \<longleftrightarrow> hook_report_sequences t' = hook_report_sequences t
     \<and> stale_sessions t' = stale_sessions t"

lemma same_orderD: "same_order t t' \<Longrightarrow> hook_report_sequences t' = hook_report_sequences t"
  "same_order t t' \<Longrightarrow> stale_sessions t' = stale_sessions t"
  by (simp_all add: same_order_def)

lemma recompute_order: "recompute_effective_state p now t = (c, t') \<Longrightarrow> same_order t t'"
  by (auto simp: recompute_effective_state_def Let_def order_frame same_order_def split: if_splits)

lemma accept_metadata_order: "accept_metadata_report s q i ag t = (b, t') \<Longrightarrow> same_order t t'"
  by (auto simp: accept_metadata_report_def same_order_def split: if_splits option.splits)

lemma metadata_order: "set_agent_metadata r now t = (m, t') \<Longrightarrow> same_order t t'"
  unfolding set_agent_metadata_def Let_def
  by (auto split: if_splits prod.splits dest!: accept_metadata_order recompute_order
      simp: drop_expired_metadata_def store_metadata_def order_frame same_order_def Let_def)

lemma expire_order: "expire_agent_metadata_at dl now t = (m, t') \<Longrightarrow> same_order t t'"
  unfolding expire_agent_metadata_at_def Let_def
  by (auto split: if_splits dest: mutation_order simp: same_order_def)

section \<open>Finished sessions\<close>

text \<open>No session the terminal holds for finished is forgotten.\<close>

definition stale_kept :: "terminal_state \<Rightarrow> terminal_state \<Rightarrow> bool" where
  "stale_kept t t' \<longleftrightarrow> (\<forall>s l r. report_matches_stale_session t s l r \<longrightarrow>
     report_matches_stale_session t' s l r)"

lemma stale_kept_same: "stale_sessions t' = stale_sessions t \<Longrightarrow> stale_kept t t'"
  by (simp add: stale_kept_def report_matches_stale_session_def)

lemma stale_kept_trans [trans]: "stale_kept t u \<Longrightarrow> stale_kept u v \<Longrightarrow> stale_kept t v"
  by (simp add: stale_kept_def)

lemma remember_keeps_stale: "stale_kept t (remember_stale_session s l r t)"
  by (force simp: stale_kept_def report_matches_stale_session_def remember_stale_session_def Let_def
      hm_simps list_ex_iff opt_simps split: if_splits option.splits)

lemma install_hook_stale:
  assumes "install_hook_authority s l st msg r re tk clk now t = (m, t')"
  shows "stale_kept t t'"
proof -
  define t2 where "t2 = (if tk then suppress_current_hook_authority HookClear clk (reconcile_agent_name_owner l r t)
      else reconcile_agent_name_owner l r t)"
  define t3 where "t3 = (if r \<noteq> None \<or> re
      then (case hm_get (suppressed_reports t2) s of None \<Rightarrow> t2
           | Some x \<Rightarrow>
               let t' = t2\<lparr>suppressed_reports := hm_remove s (suppressed_reports t2)\<rparr>
               in (case sup_session_ref x of None \<Rightarrow> t'
                   | Some r \<Rightarrow> remember_stale_session s (sup_agent_label x) r t'))
      else t2)"
  have "\<exists>p rc h. mutation_result p now rc False
      (t3\<lparr>persisted_session := None, hook_auth := h\<rparr>) = (m, t')"
    using assms unfolding install_hook_authority_def Let_def t2_def [symmetric]
      t3_def [unfolded Let_def, symmetric] by blast
  then have "stale_sessions t' = stale_sessions t3" by (auto dest!: mutation_order(2))
  moreover have "stale_kept t t2" by (rule stale_kept_same) (simp add: t2_def order_frame)
  moreover have "stale_kept t2 t3"
  proof -
    have "stale_kept t2 (remember_stale_session s x y (t2\<lparr>suppressed_reports := z\<rparr>))" for x y z
      by (rule stale_kept_trans [OF _ remember_keeps_stale]) (simp add: stale_kept_same)
    then show ?thesis by (auto simp: t3_def Let_def stale_kept_same split: option.split)
  qed
  ultimately show ?thesis using stale_kept_trans stale_kept_same by metis
qed

lemma hook_report_stale:
  assumes "set_hook_authority_at s l st msg r q clk now t = (m, t')"
  shows "stale_kept t t'"
  using assms
proof (cases "\<exists>re t1. route_hook_report s l st msg r q now t = (Accept re, t1)")
  case True
  then obtain re where ro: "route_hook_report s l st msg r q now t = (Accept re, t)"
    using route_accepted by blast
  obtain b u where u: "accept_hook_report s q (reanchor_sequence re s t) = (b, u)"
    by (cases "accept_hook_report s q (reanchor_sequence re s t)")
  have same: "stale_sessions u = stale_sessions t" using accept_stale [OF u] by (simp add: order_frame)
  have "t' = t \<or> t' = u \<or> (\<exists>r' tk. install_hook_authority s l st msg r' re tk clk now u = (m, t'))"
    using assms ro u unfolding set_hook_authority_at_def Let_def
    by (auto split: if_splits bool.splits)
  then show ?thesis
    using stale_kept_same [OF same] stale_kept_same [of t t] install_hook_stale stale_kept_trans
    by blast
next
  case False
  then have "t' = t \<or> (\<exists>x. route_hook_report s l st msg r q now t = (x, t'))"
    using assms unfolding set_hook_authority_at_def
    by (auto split: if_splits prod.splits hook_report_route.splits)
  then show ?thesis using route_order(2) stale_kept_same by metis
qed

lemma clear_hook_stale:
  assumes "clear_hook_authority s q clk now t = (m, t')"
  shows "stale_kept t t'"
proof -
  have "stale_kept t t' \<or> (\<exists>u p rc. stale_kept t u \<and> mutation_result p now rc False
      ((suppress_current_hook_authority HookClear clk u)
         \<lparr>hook_auth := None, persisted_session := None\<rparr>) = (m, t'))"
    using assms stale_kept_same [OF accept_stale] stale_kept_same [of t t]
    unfolding clear_hook_authority_def Let_def
    by (auto split: if_splits option.splits prod.splits bool.splits)
  then show ?thesis
    by (auto simp: stale_kept_def report_matches_stale_session_def order_frame
        dest!: mutation_order(2))
qed

lemma release_stale:
  assumes "release_agent s l q clk now t = (m, t')"
  shows "stale_kept t t'"
proof -
  obtain b u where a: "accept_hook_report s q t = (b, u)" by (cases "accept_hook_report s q t")
  have "t' = t \<or> t' = u \<or> (\<exists>p rc own rel. mutation_result p now rc rel
      (forget_released_agent s l own clk u) = (m, t'))"
    using assms a unfolding release_agent_def Let_def by (auto split: if_splits bool.splits)
  then show ?thesis
    using accept_stale [OF a] by (intro stale_kept_same) (auto simp: order_frame dest!: mutation_order(2))
qed

lemma quiet_event_stale:
  assumes "quiet e" "apply_event clk now e t = (m, t')"
  shows "stale_kept t t'"
  using assms
  by (cases e) (auto simp: quiet_def intro: hook_report_stale clear_hook_stale release_stale
      stale_kept_same same_orderD metadata_order expire_order)

lemma quiet_run_stale:
  "\<forall>(clk, now, e) \<in> set es. quiet e \<Longrightarrow> stale_kept t (run_events es t)"
proof (induction es t rule: run_events.induct)
  case (2 clk now e es t)
  have "stale_kept t (snd (apply_event clk now e t))"
    using quiet_event_stale [of e clk now t] 2(2) by (cases "apply_event clk now e t") auto
  then show ?case using 2 stale_kept_trans by auto
qed (simp add: stale_kept_same)

section \<open>The reports a terminal accepts\<close>

text \<open>A report starts its integration's session afresh: it comes from a full life-cycle
  integration, names no session the terminal holds for finished, and either the integration was
  cleared and the report names another session than the cleared one, or the terminal holds
  sessions of it for finished and the report names none of them.\<close>

definition starts_afresh :: "terminal_state \<Rightarrow> text \<Rightarrow> text \<Rightarrow> agent_session_ref option \<Rightarrow> bool" where
  "starts_afresh t source label session_ref \<longleftrightarrow>
     full_lifecycle_hook_authority source label
     \<and> \<not> report_matches_stale_session t source label session_ref
     \<and> (case hm_get (suppressed_reports t) source of
          Some s \<Rightarrow> sup_reason s = HookClear \<and> sup_agent_label s = label
            \<and> sup_session_ref s \<noteq> None \<and> session_ref \<noteq> None \<and> sup_session_ref s \<noteq> session_ref
        | None \<Rightarrow> report_has_fresh_session_after_stale_session t source label session_ref)"

lemma reanchored_afresh:
  "route_hook_report s l st msg r q now t = (Accept True, t1) \<Longrightarrow> starts_afresh t s l r"
  by (cases r; cases "hm_get (suppressed_reports t) s")
    (auto simp: route_hook_report_def starts_afresh_def Let_def hm_simps zip_is_some_and_def
      split: if_splits option.splits)

text \<open>The accepted hook reports of a run, each with its source, its number and whether it
  started afresh.\<close>

fun accepted_reports :: "timed_event list \<Rightarrow> terminal_state \<Rightarrow> (text \<times> u64 option \<times> bool) list" where
  "accepted_reports [] t = []"
| "accepted_reports ((clk, now, e) # es) t =
     (case apply_event clk now e t of (m, t') \<Rightarrow>
        (case e of
           HookReport source label st msg session_ref seq \<Rightarrow>
             if m \<noteq> None
             then (source, seq, starts_afresh t source label session_ref) # accepted_reports es t'
             else accepted_reports es t'
         | _ \<Rightarrow> accepted_reports es t'))"

lemma install_hook_reports: "install_hook_authority s l st msg r re tk clk now t = (m, t') \<Longrightarrow> m \<noteq> None"
  by (auto simp: install_hook_authority_def mutation_result_def Let_def split: prod.splits)

text \<open>What a hook report does to the recorded numbers: nothing when it is not accepted; otherwise
  its number passes the gate, or the numbers of its source start again with it.\<close>

lemma accepted_hook_report:
  assumes "set_hook_authority_at s l st msg r q clk now t = (m, t')"
  obtains (ignored) "m = None" "hook_report_sequences t' = hook_report_sequences t"
  | (taken) u where "m \<noteq> None" "accept_hook_report s q t = (True, u)"
      "hook_report_sequences t' = hook_report_sequences u"
  | (afresh) "m \<noteq> None" "starts_afresh t s l r"
      "\<And>n. q = Some n \<Longrightarrow> hm_get (hook_report_sequences t') s = Some n"
      "\<And>k. k \<noteq> s \<Longrightarrow> hm_get (hook_report_sequences t') k = hm_get (hook_report_sequences t) k"
proof (cases "\<exists>re t1. route_hook_report s l st msg r q now t = (Accept re, t1)")
  case False
  then have "m = None \<and> (t' = t \<or> (\<exists>x. route_hook_report s l st msg r q now t = (x, t')))"
    using assms unfolding set_hook_authority_at_def
    by (auto split: if_splits prod.splits hook_report_route.splits)
  then show ?thesis using ignored route_order(1) by metis
next
  case True
  then obtain re where ro: "route_hook_report s l st msg r q now t = (Accept re, t)"
    using route_accepted by blast
  obtain b u where u: "accept_hook_report s q (reanchor_sequence re s t) = (b, u)"
    by (cases "accept_hook_report s q (reanchor_sequence re s t)")
  have res: "m = None \<and> t' = t \<or> m = None \<and> \<not> b \<and> t' = u
      \<or> b \<and> (\<exists>r' tk. install_hook_authority s l st msg r' re tk clk now u = (m, t'))"
    using assms ro u unfolding set_hook_authority_at_def Let_def
    by (auto split: if_splits bool.splits)
  then consider "m = None" "t' = t" | "m = None" "\<not> b" "t' = u"
    | "b" "m \<noteq> None" "hook_report_sequences t' = hook_report_sequences u"
    using install_hook_reports install_hook_seqs by metis
  then show ?thesis
  proof cases
    case 1
    then show ?thesis using ignored by simp
  next
    case 2
    have "hook_report_sequences u = hook_report_sequences t"
      using u 2(2)
      by (cases re) (auto simp: accept_hook_report_def reanchor_sequence_def hm_simps
          split: if_splits option.splits)
    with 2 show ?thesis using ignored by simp
  next
    case 3
    show ?thesis
    proof (cases re)
      case False
      then show ?thesis using 3 u taken [of u] by (simp add: reanchor_sequence_def)
    next
      case True
      have "route_hook_report s l st msg r q now t = (Accept True, t)" using ro True by simp
      note fresh = reanchored_afresh [OF this]
      show ?thesis
        by (rule afresh [OF 3(2) fresh])
          (use u True 3(3) in
            \<open>auto simp: accept_hook_report_def reanchor_sequence_def hm_simps
               split: if_splits option.splits\<close>)
    qed
  qed
qed

text \<open>What one quiet event does, seen by the log.\<close>

definition log_entry :: "instant \<Rightarrow> instant \<Rightarrow> terminal_event \<Rightarrow> terminal_state \<Rightarrow>
    (text \<times> u64 option \<times> bool) list" where
  "log_entry clk now e t =
     (case e of
        HookReport source label st msg session_ref seq \<Rightarrow>
          if fst (apply_event clk now e t) \<noteq> None
          then [(source, seq, starts_afresh t source label session_ref)] else []
      | _ \<Rightarrow> [])"

lemma accepted_reports_Cons:
  "accepted_reports ((clk, now, e) # es) t
     = log_entry clk now e t @ accepted_reports es (snd (apply_event clk now e t))"
  by (auto simp: log_entry_def split: terminal_event.split prod.split)

lemma quiet_event_log:
  assumes "quiet e"
  obtains (silent) "log_entry clk now e t = []" "seqs_raised t (snd (apply_event clk now e t))"
  | (entry) s q f where "log_entry clk now e t = [(s, q, f)]"
      "f \<or> (\<exists>u. accept_hook_report s q t = (True, u)
             \<and> hook_report_sequences (snd (apply_event clk now e t)) = hook_report_sequences u)"
      "\<And>n. q = Some n \<Longrightarrow> hm_get (hook_report_sequences (snd (apply_event clk now e t))) s = Some n"
      "\<And>k. k \<noteq> s \<Longrightarrow> hm_get (hook_report_sequences (snd (apply_event clk now e t))) k
          = hm_get (hook_report_sequences t) k"
proof -
  obtain m t' where ap: "apply_event clk now e t = (m, t')" by (cases "apply_event clk now e t")
  show ?thesis
  proof (cases "\<exists>s l st msg r q. e = HookReport s l st msg r q")
    case True
    then obtain s l st msg r q where e: "e = HookReport s l st msg r q" by blast
    then have h: "set_hook_authority_at s l st msg r q clk now t = (m, t')" using ap by simp
    then show ?thesis
    proof (cases rule: accepted_hook_report)
      case ignored
      then show ?thesis using silent ap e by (auto simp: log_entry_def intro: seqs_raised_same)
    next
      case (taken u)
      have entry_eq: "log_entry clk now e t = [(s, q, starts_afresh t s l r)]"
        using taken(1) ap e by (simp add: log_entry_def)
      show ?thesis
        by (rule entry [OF entry_eq])
          (use taken ap in \<open>auto simp: accept_hook_report_def hm_simps split: if_splits option.splits\<close>)
    next
      case afresh
      have entry_eq: "log_entry clk now e t = [(s, q, starts_afresh t s l r)]"
        using afresh(1) ap e by (simp add: log_entry_def)
      show ?thesis by (rule entry [OF entry_eq]) (use afresh ap in auto)
    qed
  next
    case False
    then have "seqs_raised t t'"
      using assms ap
      by (cases e) (auto simp: quiet_def intro: clear_hook_raises release_raises seqs_raised_same
          same_orderD metadata_order expire_order)
    then show ?thesis using silent False ap by (cases e) (auto simp: log_entry_def)
  qed
qed

text \<open>Between two accepted reports of a source, the first of them being the one the terminal has
  recorded, the number rises unless the source started afresh in between.\<close>

definition no_fresh :: "text \<Rightarrow> (text \<times> u64 option \<times> bool) list \<Rightarrow> bool" where
  "no_fresh k log \<longleftrightarrow> (\<forall>(j, q, f) \<in> set log. j = k \<longrightarrow> \<not> f)"

lemma number_above_recorded:
  assumes "\<forall>(clk, now, e) \<in> set es. quiet e"
    and "accepted_reports es t = b @ (k, Some n, False) # c" "no_fresh k b"
    and "hm_get (hook_report_sequences t) k = Some l"
  shows "l < n"
  using assms
proof (induction es arbitrary: t b l)
  case (Cons x es)
  obtain clk now e where x: "x = (clk, now, e)" by (cases x)
  let ?t = "snd (apply_event clk now e t)"
  have q: "quiet e" and qs: "\<forall>(clk, now, e) \<in> set es. quiet e" using Cons.prems(1) by (auto simp: x)
  note log = Cons.prems(2) [unfolded x accepted_reports_Cons]
  from q show ?case
  proof (cases rule: quiet_event_log [where clk = clk and now = now and t = t])
    case silent
    obtain l' where "l \<le> l'" "hm_get (hook_report_sequences ?t) k = Some l'"
      using seqs_raisedD [OF silent(2) Cons.prems(4)] by blast
    then show ?thesis
      using Cons.IH [OF qs _ Cons.prems(3), of ?t l'] log silent(1) by simp
  next
    case (entry s q f)
    show ?thesis
    proof (cases b)
      case Nil
      then have "s = k" "q = Some n" "\<not> f" using log entry(1) by auto
      then show ?thesis using entry(2) accept_takes(2) Cons.prems(4) by blast
    next
      case (Cons y b')
      then have y: "y = (s, q, f)" and log': "accepted_reports es ?t = b' @ (k, Some n, False) # c"
        using log entry(1) by auto
      have nf: "no_fresh k b'" "s = k \<Longrightarrow> \<not> f" using Cons.prems(3) by (auto simp: no_fresh_def Cons y)
      have "\<exists>l'. l \<le> l' \<and> hm_get (hook_report_sequences ?t) k = Some l'"
      proof (cases "s = k")
        case False
        then show ?thesis using entry(4) Cons.prems(4) by auto
      next
        case True
        then obtain u where u: "accept_hook_report k q t = (True, u)"
            "hook_report_sequences ?t = hook_report_sequences u"
          using entry(2) nf(2) by auto
        from seqs_raisedD [OF accept_raises [OF u(1)] Cons.prems(4)] u(2) show ?thesis by auto
      qed
      then obtain l' where "l \<le> l'" "hm_get (hook_report_sequences ?t) k = Some l'" by blast
      then show ?thesis using Cons.IH [OF qs log' nf(1)] by force
    qed
  qed
qed simp

lemma number_above_accepted:
  assumes "\<forall>(clk, now, e) \<in> set es. quiet e"
    and "accepted_reports es t = a @ (k, Some m, f) # b @ (k, Some n, False) # c" "no_fresh k b"
  shows "m < n"
  using assms
proof (induction es arbitrary: t a)
  case (Cons x es)
  obtain clk now e where x: "x = (clk, now, e)" by (cases x)
  let ?t = "snd (apply_event clk now e t)"
  have q: "quiet e" and qs: "\<forall>(clk, now, e) \<in> set es. quiet e" using Cons.prems(1) by (auto simp: x)
  note log = Cons.prems(2) [unfolded x accepted_reports_Cons]
  from q show ?case
  proof (cases rule: quiet_event_log [where clk = clk and now = now and t = t])
    case silent
    then show ?thesis using Cons.IH [OF qs _ Cons.prems(3), of ?t a] log by simp
  next
    case (entry s q' f')
    show ?thesis
    proof (cases a)
      case Nil
      then have "s = k" "q' = Some m" and rest: "accepted_reports es ?t = b @ (k, Some n, False) # c"
        using log entry(1) by auto
      then show ?thesis using number_above_recorded [OF qs rest Cons.prems(3)] entry(3) by simp
    next
      case (Cons y a')
      then show ?thesis using Cons.IH [OF qs _ Cons.prems(3), of ?t a'] log entry(1) by simp
    qed
  qed
qed simp

end
