(* ===== verification/Terminal_Reports.thy ===== *)
theory Terminal_Reports
  imports Terminal_Order
begin

text \<open>
  What a terminal shows and which reports it listens to: the arbitration between hooks and the
  screen, the order of reports, sessions that were replaced, and the accuracy of what each
  operation tells its caller.
\<close>

section \<open>The gates\<close>

interpretation hook_gate: sequence_gate "\<lambda>t. hm_get (hook_report_sequences t)" accept_hook_report
proof unfold_locales
  show "hm_get (hook_report_sequences s') = (hm_get (hook_report_sequences s))(k \<mapsto> n)"
    if "accept_hook_report k (Some n) s = (True, s')" for k n s s'
    using that by (auto simp: accept_hook_report_def hm_simps split: if_splits)
  show "l < n" if "accept_hook_report k (Some n) s = (True, s')"
      "hm_get (hook_report_sequences s) k = Some l" for k n s s' l
    using that by (auto simp: accept_hook_report_def split: if_splits)
  show "s' = s" if "accept_hook_report k q s = (False, s')" for k q s s'
    using that by (auto simp: accept_hook_report_def split: if_splits option.splits)
  show "s' = s" if "accept_hook_report k None s = (b, s')" for k s b s'
    using that by (auto simp: accept_hook_report_def)
qed

text \<open>The gate of the reports that carry metadata tokens.\<close>

definition token_report_gate :: "text \<Rightarrow> u64 option \<Rightarrow> terminal_state \<Rightarrow> bool \<times> terminal_state" where
  "token_report_gate source seq t =
     (let (r, t') = accept_metadata_report source seq True None t in (r = Inr True, t'))"

lemma token_report_gate_numbered:
  assumes "token_report_gate k (Some n) s = (True, s')"
  shows "metadata_report_sequence_is_fresh s k (Some n)"
    "metadata_report_sequences s' = hm_insert k n (metadata_report_sequences s)"
  using assms by (auto simp: token_report_gate_def accept_metadata_report_def split: if_splits)

lemma token_report_gate_rejected: "token_report_gate k q s = (False, s') \<Longrightarrow> s' = s"
  by (auto simp: token_report_gate_def accept_metadata_report_def split: if_splits option.splits)

lemma token_report_gate_bounded:
  assumes "token_report_gate k q s = (b, s')"
    and "length (metadata_token_sequence_sources s) \<le> MAX_SEQUENCE_SOURCES"
  shows "length (metadata_token_sequence_sources s') \<le> MAX_SEQUENCE_SOURCES"
  using assms
  by (auto simp: token_report_gate_def accept_metadata_report_def List.insert_def
      split: if_splits option.splits)

interpretation token_gate: bounded_gate "\<lambda>t. hm_get (metadata_report_sequences t)" token_report_gate
  "\<lambda>t. length (metadata_token_sequence_sources t)" MAX_SEQUENCE_SOURCES
proof unfold_locales
  show "hm_get (metadata_report_sequences s') = (hm_get (metadata_report_sequences s))(k \<mapsto> n)"
    if "token_report_gate k (Some n) s = (True, s')" for k n s s'
    using token_report_gate_numbered [OF that] by (auto simp: hm_simps)
  show "l < n" if "token_report_gate k (Some n) s = (True, s')"
      "hm_get (metadata_report_sequences s) k = Some l" for k n s s' l
    using token_report_gate_numbered(1) [OF that(1)] that(2)
    by (simp add: metadata_report_sequence_is_fresh_def sequence_is_fresh_def)
  show "s' = s" if "token_report_gate k None s = (b, s')" for k s b s'
    using that by (auto simp: token_report_gate_def accept_metadata_report_def)
qed (rule token_report_gate_rejected token_report_gate_bounded, assumption+)+

text \<open>C12. Reports of one source are taken in order and at most once. In every run of quiet events
  (hook reports of any sources, clears, releases and metadata, but no session report and no
  observation of the process), an accepted numbered hook report that does not start its session
  afresh has a number above that of every report of its source accepted before it in the run, and
  above the number the terminal had recorded for the source, as long as no report in between
  started a session of the source afresh: that starts the numbers again.\<close>

theorem hook_reports_in_order:
  assumes "\<forall>(clk, now, e) \<in> set es. quiet e"
    and "accepted_reports es t = a @ (k, Some n, False) # c"
  shows "(\<forall>l. hm_get (hook_report_sequences t) k = Some l \<and> no_fresh k a \<longrightarrow> l < n)
    \<and> (\<forall>a' m f b. a = a' @ (k, Some m, f) # b \<and> no_fresh k b \<longrightarrow> m < n)"
  using number_above_recorded [OF assms(1,2)] number_above_accepted [OF assms(1)] assms(2) by auto

definition pi_reports :: "timed_event list" where
  "pi_reports = map (\<lambda>n. (30, 30, HookReport pi_source pi_label Idle None (Some pi_session) (Some n))) [3, 2, 5]"

lemma pi_reports_accepted:
  "accepted_reports pi_reports pi_busy = [(pi_source, Some 3, False), (pi_source, Some 5, False)]"
proof -
  have "\<not> (3 :: u64) \<le> 1" "(2 :: u64) \<le> 3" "\<not> (5 :: u64) \<le> 3" by (simp_all add: word_le_nat_alt)
  then show ?thesis
    by (simp add: pi_reports_def pi_busy_eq pi_restored_eq pi_seen_eq run_hook run_core run_core_values
        starts_afresh_def map_filter_simps)
qed

theorem hook_reports_in_order_witness:
  "accepted_reports pi_reports pi_busy = [(pi_source, Some 3, False), (pi_source, Some 5, False)]
   \<and> (1::u64) < 3 \<and> (3::u64) < 5"
proof -
  have q: "\<forall>(clk, now, e) \<in> set pi_reports. quiet e" by (simp add: pi_reports_def quiet_def)
  have "(1::u64) < 3"
    using hook_reports_in_order [OF q, where t = pi_busy and a = "[]" and k = pi_source and n = 3]
      pi_reports_accepted by (simp add: no_fresh_def)
  moreover have "(3::u64) < 5"
    using hook_reports_in_order [OF q, where t = pi_busy and k = pi_source and n = 5 and c = "[]"
        and a = "[(pi_source, Some 3, False)]"] pi_reports_accepted
    by (auto simp: no_fresh_def)
  ultimately show ?thesis using pi_reports_accepted by simp
qed

text \<open>However many sources report tokens, the terminal tracks at most 32 of them, and the
  numbers it accepts from each are strictly increasing.\<close>

theorem token_sources_stay_bounded:
  assumes "gate_run token_report_gate rs t = (log, t')"
    and "length (metadata_token_sequence_sources t) \<le> 32"
  shows "length (metadata_token_sequence_sources t') \<le> 32 \<and> sorted_wrt (<) (accepted_of k log)"
  using token_gate.run_bounded [OF assms(1)] token_gate.run_accepted [OF assms(1)] assms(2)
  by (simp add: MAX_SEQUENCE_SOURCES_def)

theorem token_sources_stay_bounded_witness:
  "length (metadata_token_sequence_sources (snd (gate_run token_report_gate
       [([1], Some 1), ([2], Some 1), ([1], Some 2)] (new_terminal [] [])))) \<le> 32"
  using token_sources_stay_bounded [OF surjective_pairing, where t = "new_terminal [] []"
      and rs = "[([1], Some 1), ([2], Some 1), ([1], Some 2)]"]
  by (simp add: new_terminal_def)

section \<open>Reports that change nothing\<close>

lemma stale_rejected_by_handler:
  "full_lifecycle_hook_authority source label \<Longrightarrow> report_matches_stale_session t source label r \<Longrightarrow>
     set_hook_authority_at source label st msg r q clk now t = (None, t)"
  by (simp add: set_hook_authority_at_def route_hook_report_def)

text \<open>A replayed hook report changes nothing: when a report's number is not above the last
  one accepted from its source, and the source is neither suppressed nor starting a session after
  a stale one, the handler returns nothing and leaves the terminal exactly as it was.\<close>

theorem replayed_hook_report_ignored:
  assumes "hm_get (hook_report_sequences t) source = Some l" "n \<le> l"
    and "hm_get (suppressed_reports t) source = None"
    and "\<not> report_has_fresh_session_after_stale_session t source label r"
  shows "set_hook_authority_at source label st msg r (Some n) clk now t = (None, t)"
proof -
  have gate: "accept_hook_report source (Some n) t = (False, t)"
    by (rule hook_gate.stale_rejected [OF assms(1,2)])
  have "route_hook_report source label st msg r (Some n) now t \<in> {(Ignore, t), (Accept False, t)}"
    using assms by (cases r) (auto simp: route_hook_report_def Let_def)
  then show ?thesis
    using gate by (auto simp: set_hook_authority_at_def Let_def reanchor_sequence_def)
qed

theorem replayed_hook_report_ignored_witness:
  "set_hook_authority_at pi_source pi_label Idle None (Some pi_session) (Some 1) 30 30 pi_busy
     = (None, pi_busy)"
  by (rule replayed_hook_report_ignored [where l = 1])
    (simp_all add: report_has_fresh_session_after_stale_session_def)

text \<open>How a session report replaces the session of a live authority.\<close>

lemma remembered_is_stale:
  "full_lifecycle_hook_authority s l \<Longrightarrow>
     report_matches_stale_session (remember_stale_session s l r t) s l (Some r)"
  by (force simp: report_matches_stale_session_def remember_stale_session_def Let_def hm_simps
      list_ex_iff)

lemma stale_frame:
  "stale_sessions (reconcile_agent_name_owner l r t) = stale_sessions t"
  by (simp add: reconcile_agent_name_owner_def split: option.split)

lemma stale_cong: "stale_sessions t' = stale_sessions t \<Longrightarrow>
    report_matches_stale_session t' s l r = report_matches_stale_session t s l r"
  by (simp add: report_matches_stale_session_def)

lemma mutation_stale: "mutation_result p now rc rel t = (m, t') \<Longrightarrow> stale_sessions t' = stale_sessions t"
  by (auto simp: mutation_result_def recompute_effective_state_def Let_def
      clear_expiry_pending_for_hidden_metadata_def split: if_splits)

lemma install_session_stale:
  assumes "install_session_ref s l r al tk (Some old) clk now t = (m, t')"
    and "full_lifecycle_hook_authority s l"
  shows "report_matches_stale_session t' s l (Some old)"
proof -
  let ?t1 = "if al \<or> tk then forget_stale_session s l r t else t"
  have "stale_sessions t' = stale_sessions (remember_stale_session s l old ?t1)"
    using assms(1) unfolding install_session_ref_def Let_def
    by (auto dest!: mutation_stale simp: stale_frame)
  then show ?thesis using remembered_is_stale [OF assms(2)] stale_cong by metis
qed

text \<open>C13. A replaced session is finished: once a session report has moved a live full life-cycle
  agent to another session, every hook report that still names the old session is ignored and
  leaves the terminal unchanged, whatever hook reports, clears, releases and metadata arrive in
  between, until the next session report or observation of the process: a later session report
  may resume the old session.\<close>

theorem replaced_session_ignored:
  assumes "hook_auth t = Some a" "owns_life_cycle a" "ha_session_ref a = Some old" "new \<noteq> old"
    and "\<not> session_start_unconfirmed t (ha_source a) (ha_agent_label a)"
    and "set_agent_session_ref_for_session_start (ha_source a) (ha_agent_label a) (Some new) q start
           clk now t = (Some m, t')"
    and "\<forall>(clk, now, e) \<in> set es. quiet e"
  shows "set_hook_authority_at (ha_source a) (ha_agent_label a) st msg (Some old) q' clk' now'
           (run_events es t') = (None, run_events es t')"
proof -
  let ?s = "ha_source a" and ?l = "ha_agent_label a"
  have fl: "full_lifecycle_hook_authority ?s ?l" using assms(2) by (simp add: owns_life_cycle_def)
  obtain b u where acc: "accept_hook_report ?s q t = (b, u)" by (cases "accept_hook_report ?s q t")
  have "hook_auth u = Some a" using same_core_accept [OF acc] assms(1) by (simp add: same_core_def)
  then have "same_owner_hook_authority_session_ref u ?s ?l new = Some old"
    using assms(2-4) by (simp add: same_owner_hook_authority_session_ref_def)
  then have "\<exists>al tk. install_session_ref ?s ?l new al tk (Some old) clk now u = (Some m, t')"
    using assms(5,6) acc unfolding set_agent_session_ref_for_session_start_def Let_def
    by (auto split: if_splits bool.splits)
  then have "report_matches_stale_session t' ?s ?l (Some old)" using install_session_stale [OF _ fl] by blast
  then have "report_matches_stale_session (run_events es t') ?s ?l (Some old)"
    using quiet_run_stale [OF assms(7)] unfolding stale_kept_def by blast
  then show ?thesis by (rule stale_rejected_by_handler [OF fl])
qed

theorem replaced_session_ignored_witness:
  "let t = snd (set_agent_session_ref_for_session_start pi_source pi_label
           (Some \<lparr>kind = Id, ref_value = lit ''s2''\<rparr>) (Some 2) (Some (lit ''new'')) 30 30 pi_busy);
       t' = run_events [(35, 35, ClearHook None None)] t
   in set_hook_authority_at pi_source pi_label Working None (Some pi_session) (Some 3) 40 40 t' = (None, t')"
proof -
  let ?new = "\<lparr>kind = Id, ref_value = lit ''s2''\<rparr>"
  let ?r = "set_agent_session_ref_for_session_start (ha_source pi_working) (ha_agent_label pi_working)
      (Some ?new) (Some 2) (Some (lit ''new'')) 30 30 pi_busy"
  have known: "\<not> session_start_unconfirmed pi_busy pi_source pi_label"
    by (simp add: session_start_unconfirmed_def process_present_def)
  have allowed: "session_report_allows_session_replacement pi_source pi_label (Some (lit ''new''))"
    by (simp add: session_report_allows_session_replacement_def is_pair_def start_source_in_def
        one_of_def pi_source_def pi_label_def)
  have "\<not> (2 :: u64) \<le> 1" by (simp add: word_le_nat_alt)
  then have "fst ?r \<noteq> None"
    using known allowed
    by (simp add: set_agent_session_ref_for_session_start_def accept_hook_report_def Let_def
        known_agent_label_conflicts_with_detected_agent_def replacing_identity_only_session_def
        current_session_owner_conflicts_def core_simps session_of_def
        conflicting_same_owner_session_ref_def install_session_ref_def mutation_result_def
        then_some_def case_prod_beta)
  then obtain m where "?r = (Some m, snd ?r)" by (cases ?r) auto
  then show ?thesis
    using replaced_session_ignored [of pi_busy pi_working pi_session ?new _ _ _ _ _ _ "[(35, 35, ClearHook None None)]"] known
    by (simp add: owns_life_cycle_def pi_session_def Let_def quiet_def)
qed

section \<open>What the terminal shows\<close>

text \<open>C3. The arbitration of every reachable terminal. Without a hook the screen decides. A hook of
  a full life-cycle integration decides alone while its process is the one in the foreground and
  has not exited, and counts for nothing otherwise. Any other hook decides unless the screen of
  the same agent showed a blocker no earlier than the hook's report.\<close>

theorem arbitration_table:
  assumes "terminal_reachable t"
  shows "ts_state t = (case hook_auth t of
      None \<Rightarrow> fallback_state t
    | Some a \<Rightarrow>
        if full_lifecycle_hook_authority (ha_source a) (ha_agent_label a)
        then (if detected_agent t = parse_agent_label (ha_agent_label a) \<and> recent_exit t = None
              then ha_state a else fallback_state t)
        else (if fallback_visible_blocker t \<and> detected_agent t = parse_agent_label (ha_agent_label a)
                 \<and> is_some_and (\<lambda>seen. ha_reported_at a \<le> seen) (fallback_observed_at t)
              then Blocked else ha_state a))"
proof -
  have inv: "ts_state t = arbitrated_state t" "fallback_visible_blocker t \<longrightarrow> fallback_state t = Blocked"
    using reachable_inv [OF assms] by (simp_all add: terminal_inv_def arbitrated_def books_ok_def)
  show ?thesis
  proof (cases "hook_auth t")
    case None
    then show ?thesis using inv by (auto simp: core_simps eff_state_def opt_simps)
  next
    case (Some a)
    then show ?thesis using inv
      by (auto simp: core_simps eff_state_def eff_live_def eff_ok_def owns_life_cycle_def)
  qed
qed

theorem arbitration_table_witness: "ts_state pi_busy = ha_state pi_working"
  using arbitration_table [OF pi_busy_reachable] by simp

text \<open>The bookkeeping of every reachable terminal: an integration that only reports session
  identities never holds the authority, a report is only parked under its own source for a full
  life-cycle integration and with a session, and at most 32 token sources are tracked.\<close>

theorem reachable_bookkeeping:
  assumes "terminal_reachable t"
  shows "is_none_or (\<lambda>a. \<not> session_identity_only_integration (ha_source a) (ha_agent_label a))
           (hook_auth t)
    \<and> (\<forall>k s p. hm_get (suppressed_reports t) k = Some s \<and> pending_replacement_report s = Some p \<longrightarrow>
         ha_source (pr_authority p) = k \<and> ha_agent_label (pr_authority p) = sup_agent_label s
         \<and> full_lifecycle_hook_authority k (sup_agent_label s) \<and> ha_session_ref (pr_authority p) \<noteq> None)
    \<and> distinct (metadata_token_sequence_sources t) \<and> length (metadata_token_sequence_sources t) \<le> 32"
proof -
  have b: "books_ok t" using reachable_inv [OF assms] by (simp add: terminal_inv_def)
  show ?thesis
    using books_okD [OF b] reports_okD [OF books_okD(1) [OF b]]
    by (auto simp: authority_ok_def parked_ok_def token_sources_ok_def MAX_SEQUENCE_SOURCES_def
        simp del: not_None_eq dest!: is_none_or_iff [THEN iffD1])
qed

theorem reachable_bookkeeping_witness:
  "\<not> session_identity_only_integration (ha_source pi_working) (ha_agent_label pi_working)
   \<and> length (metadata_token_sequence_sources pi_busy) \<le> 32"
  using reachable_bookkeeping [OF pi_busy_reachable] by simp

lemma mutation_fallback:
  "mutation_result p now rc rel t = (m, t') \<Longrightarrow> fallback_visible_blocker t' = fallback_visible_blocker t
     \<and> fallback_observed_at t' = fallback_observed_at t"
  using mutation_result_core(6,7) [of p now rc rel t] by simp

lemma install_hook_fallback:
  assumes "install_hook_authority s l st msg r re tk clk now t = (m, t')"
  shows "fallback_visible_blocker t' = fallback_visible_blocker t
    \<and> fallback_observed_at t' = fallback_observed_at t"
  using assms unfolding install_hook_authority_def Let_def
  by (cases tk; auto dest!: mutation_fallback simp: frame split: option.splits if_splits)

text \<open>C10. An accepted hook report takes effect: the authority is the reported one and the terminal
  shows its label and its state. For a full life-cycle integration this is so when its process is
  in the foreground. The state of any other integration is shown as Blocked instead exactly when
  the screen of the same agent shows a blocker and was seen no earlier than the report.\<close>

theorem accepted_report_is_shown:
  assumes "terminal_reachable t"
    and "set_hook_authority_at source label st msg r q clk now t = (Some m, t')"
  shows "hook_auth t' = Some \<lparr>ha_source = source, ha_agent_label = label, ha_state = st,
           ha_message = msg, ha_reported_at = now,
           ha_session_ref = reported_session_ref t source label r\<rparr>
    \<and> (full_lifecycle_hook_authority source label \<longrightarrow> process_present t label \<longrightarrow>
         ts_state t' = st \<and> effective_agent_label t' = Some label)
    \<and> (\<not> full_lifecycle_hook_authority source label \<longrightarrow>
         ts_state t' = (if fallback_visible_blocker t \<and> detected_agent t = parse_agent_label label
             \<and> is_some_and (\<lambda>seen. now \<le> seen) (fallback_observed_at t)
           then Blocked else st)
         \<and> effective_agent_label t' = Some label)"
  using assms(2)
proof (cases rule: set_hook_authority_cases)
  case (accepted re s)
  have core: "detected_agent t' = detected_agent t" "recent_exit t' = recent_exit t"
      "fallback_visible_blocker t' = fallback_visible_blocker t"
      "fallback_observed_at t' = fallback_observed_at t"
    using install_hook_marker [OF accepted(9)] install_hook_fallback [OF accepted(9)] accepted(8)
    by (simp_all add: same_core_def)
  have "ts_state t' = arbitrated_state t'"
    using set_hook_authority_accurate [OF assms(2)] reachable_arbitrated [OF assms(1)]
    by (simp add: arbitrated_def)
  then show ?thesis
    using core install_hook_marker(2) [OF accepted(9)]
    by (auto simp: core_simps eff_state_def eff_live_def eff_label_def eff_ok_def owns_life_cycle_def
        process_present_def)
qed simp

theorem accepted_report_is_shown_witness:
  "ts_state pi_busy = Working \<and> effective_agent_label pi_busy = Some pi_label"
proof -
  obtain m where m: "set_hook_authority_at pi_source pi_label Working None (Some pi_session)
      (Some 1) 20 20 pi_restored = (Some m, pi_busy)"
    using pi_report_taken by blast
  have "process_present pi_restored pi_label"
    by (simp add: process_present_def pi_restored_eq pi_seen_eq new_terminal_def)
  then show ?thesis using accepted_report_is_shown [OF pi_restored_reachable m] by simp
qed

text \<open>C11. The screen cannot contradict a live full life-cycle hook: an observation of the same
  agent, or of none, leaves the shown state, the shown label and the authority as they are.\<close>

theorem screen_cannot_override_life_cycle:
  assumes "terminal_reachable t" "live_full_lifecycle_hook_authority t"
    and "\<not> hook_authority_conflicts_with_detected_agent t agent"
    and "set_detected_state agent fallback blocker False clk now t = (m, t')"
  shows "ts_state t' = ts_state t \<and> effective_agent_label t' = effective_agent_label t
    \<and> hook_auth t' = hook_auth t"
proof -
  obtain a where a: "hook_auth t = Some a" "owns_life_cycle a"
      "detected_agent t = parse_agent_label (ha_agent_label a)"
    using assms(2) by (cases "hook_auth t") (auto simp: core_simps eff_live_def eff_ok_def)
  have same: "(if Option.bind (hook_auth t) (\<lambda>a. parse_agent_label (ha_agent_label a)) = agent
      then t\<lparr>detected_agent := agent\<rparr> else t) = t"
    using a by auto
  have m: "mutation_result (snapshot_at t now) now False False t = (m, t')"
    using assms(2-4) unfolding set_detected_state_def Let_def
      should_ignore_detected_state_under_full_lifecycle_hook_def same by simp
  have "arbitrated_state t' = arbitrated_state t"
    using mutation_result_core [of "snapshot_at t now" now False False t] m by (simp add: core_simps)
  moreover have "arbitrated t'" using snapshot_mutation_accurate [OF m same_core_refl] by simp
  ultimately have "ts_state t' = ts_state t"
    using reachable_arbitrated [OF assms(1)] by (simp add: arbitrated_def)
  then show ?thesis using mutation_core [OF m] by (simp add: core_simps)
qed

theorem screen_cannot_override_life_cycle_witness:
  "ts_state (snd (set_detected_state (Some Pi) Blocked True False 30 30 pi_busy)) = Working"
proof -
  have "live_full_lifecycle_hook_authority pi_busy"
    by (simp add: core_simps eff_live_def eff_ok_def owns_life_cycle_def)
  moreover have "\<not> hook_authority_conflicts_with_detected_agent pi_busy (Some Pi)"
    by (simp add: hook_authority_conflicts_with_detected_agent_def)
  ultimately show ?thesis
    using screen_cannot_override_life_cycle [OF pi_busy_reachable _ _ surjective_pairing] by simp
qed

text \<open>C9. Every operation reports accurately on every reachable terminal: an operation that
  reports nothing changed neither the shown label and state nor the session; a reported change
  gives the label, agent and state before and after; and the session is flagged exactly when its
  identity changed.\<close>

theorem mutations_are_accurate:
  assumes "terminal_reachable t" "apply_event clk now e t = (m, t')"
  shows "case m of
      None \<Rightarrow> effective_agent_label t' = effective_agent_label t \<and> ts_state t' = ts_state t
              \<and> current_session_identity t' = current_session_identity t
    | Some r \<Rightarrow>
        (session_ref_changed r \<longleftrightarrow> current_session_identity t \<noteq> current_session_identity t')
        \<and> (case state_change r of
             None \<Rightarrow> effective_agent_label t' = effective_agent_label t \<and> ts_state t' = ts_state t
           | Some c \<Rightarrow> previous_agent_label c = effective_agent_label t
               \<and> previous_known_agent c = effective_known_agent t \<and> previous_state c = ts_state t
               \<and> esc_agent_label c = effective_agent_label t'
               \<and> known_agent c = effective_known_agent t' \<and> esc_state c = ts_state t')"
  using apply_event_accurate [OF assms(2) reachable_arbitrated [OF assms(1)]]
  by (auto simp: report_accurate_def change_accurate_def split: option.splits)

theorem mutations_are_accurate_witness:
  "\<exists>m. fst (apply_event 20 20 pi_report pi_restored) = Some m
     \<and> (session_ref_changed m \<longleftrightarrow> current_session_identity pi_restored \<noteq> current_session_identity pi_busy)"
proof -
  obtain m where "apply_event 20 20 pi_report pi_restored = (Some m, pi_busy)"
    using pi_report_taken by (auto simp: pi_report_def)
  from this mutations_are_accurate [OF pi_restored_reachable this] show ?thesis by simp
qed

end
