(* ===== verification/Terminal_Timers.thy ===== *)
theory Terminal_Timers
  imports Terminal_Reports
begin

text \<open>
  The parts of a terminal driven by time and by the user: titles, the managed-agent phases with
  their deadlines, and the metadata with its time to live.
\<close>

section \<open>Titles\<close>

text \<open>A title update is reported as what it is: the raw flag says whether the title differs,
  the stripped flag whether the displayed title (without activity glyphs) differs, and the
  revision counts exactly the changes of the displayed title.\<close>

theorem title_change_accurate:
  assumes "set_terminal_title x t = (c, t')"
  shows "terminal_title t' = x \<and> (raw_changed c \<longleftrightarrow> terminal_title t \<noteq> x)
    \<and> (stripped_changed c \<longleftrightarrow> terminal_title_stripped t \<noteq> terminal_title_stripped t')
    \<and> revision t' = (if terminal_title_stripped t = terminal_title_stripped t' then revision t
                     else revision t + 1)"
proof (cases "terminal_title t = x")
  case True
  with assms show ?thesis by (auto simp: set_terminal_title_def)
next
  case False
  let ?new = "Option.bind x stripped_terminal_title"
  let ?changed = "terminal_title_stripped t \<noteq> ?new"
  have c: "c = \<lparr>raw_changed = True, stripped_changed = ?changed\<rparr>"
    and t': "t' = (if ?changed then t\<lparr>terminal_title := x, revision := revision t + 1\<rparr>
                   else t\<lparr>terminal_title := x\<rparr>)"
    using assms False
    by (cases ?changed; clarsimp simp: set_terminal_title_def Let_def terminal_title_stripped_def)+
  have "terminal_title t' = x" "revision t' = (if ?changed then revision t + 1 else revision t)"
    by (simp_all add: t')
  moreover from this have "terminal_title_stripped t' = ?new"
    by (simp only: terminal_title_stripped_def)
  ultimately show ?thesis using c False by (simp only: terminal_title_change.simps) simp
qed

theorem title_change_accurate_witness:
  "revision (snd (set_terminal_title (Some (lit ''task'')) (new_terminal [] []))) = 1"
proof -
  let ?t = "snd (set_terminal_title (Some (lit ''task'')) (new_terminal [] []))"
  note claim = title_change_accurate [OF surjective_pairing, of "Some (lit ''task'')" "new_terminal [] []"]
  have "terminal_title_stripped (new_terminal [] []) = None" "revision (new_terminal [] []) = 0"
    by (simp_all add: terminal_title_stripped_def new_terminal_def)
  moreover have "terminal_title_stripped ?t = Some (lit ''task'')"
    using claim by (simp add: terminal_title_stripped_def stripped_terminal_title_def
        is_activity_glyph_def trim_id is_whitespace_def lit_def then_some_def)
  ultimately show ?thesis using claim by simp
qed

text \<open>A displayed title is never empty, has no surrounding white space, and is a contiguous
  part of the raw title.\<close>

theorem stripped_title_clean:
  assumes "stripped_terminal_title raw = Some s"
  shows "s \<noteq> [] \<and> trim s = s \<and> (\<exists>pre post. raw = pre @ s @ post)"
proof -
  have part: "\<exists>pre post. x = pre @ trim x @ post" for x
    by (rule trim_part)
  from assms have ne: "s \<noteq> []" by (auto simp: stripped_terminal_title_def Let_def then_some_def
        split: list.splits if_splits)
  from assms have "s = trim raw \<or> (\<exists>g rest. trim raw = g # rest \<and> s = trim rest)"
    by (auto simp: stripped_terminal_title_def Let_def then_some_def split: list.splits if_splits)
  then show ?thesis
  proof (elim disjE exE conjE)
    assume "s = trim raw"
    then show ?thesis using ne part [of raw] by simp
  next
    fix g rest assume r: "trim raw = g # rest" and s: "s = trim rest"
    obtain p q where "raw = p @ (g # rest) @ q" using part [of raw] r by auto
    moreover obtain p' q' where "rest = p' @ s @ q'" using part [of rest] s by auto
    ultimately have "raw = (p @ g # p') @ s @ (q' @ q)" by simp
    then have "\<exists>pre post. raw = pre @ s @ post" by blast
    then show ?thesis using ne s by simp
  qed
qed

theorem stripped_title_clean_witness: "trim (lit ''task'') = lit ''task''"
proof -
  have "stripped_terminal_title (lit ''task'') = Some (lit ''task'')"
    by (simp add: stripped_terminal_title_def is_activity_glyph_def trim_id is_whitespace_def
        lit_def then_some_def)
  from stripped_title_clean [OF this] show ?thesis by simp
qed

section \<open>Managed agents\<close>

text \<open>A managed agent is only promoted on evidence: it becomes active exactly when it was
  pending, its settle delay has passed, its deadline has not, the terminal shows the managed
  agent, and that agent is idle or blocked; and the returned flag says whether the managed state
  changed.\<close>

theorem managed_promotion:
  assumes "reconcile_managed_agent_at now exited t = (changed, t')"
  shows "(changed \<longleftrightarrow> managed t' \<noteq> managed t)
    \<and> (managed_agent_interactive_ready t' \<and> \<not> managed_agent_interactive_ready t \<longleftrightarrow>
        (\<exists>k ready deadline seen. managed t = Some \<lparr>managed_kind = k, managed_phase = Pending ready deadline seen\<rparr>
           \<and> \<not> exited \<and> now < deadline \<and> is_none_or (\<lambda>r. r \<le> now) ready
           \<and> effective_known_agent t = Some k \<and> ts_state t \<in> {Idle, Blocked}))"
proof (cases "managed t")
  case None
  with assms show ?thesis by (auto simp: reconcile_managed_agent_at_def managed_agent_interactive_ready_def)
next
  case (Some m)
  show ?thesis
  proof (cases "managed_phase m")
    case Active
    then show ?thesis using assms Some
      by (cases m) (auto simp: reconcile_managed_agent_at_def managed_agent_interactive_ready_def
          Let_def clear_agent_name_def split: if_splits)
  next
    case (Pending ready deadline seen)
    then show ?thesis using assms Some
      by (cases m; cases ready) (auto simp: reconcile_managed_agent_at_def
          managed_agent_interactive_ready_def Let_def clear_agent_name_def split: if_splits)
  qed
qed

theorem managed_promotion_witness:
  "managed_agent_interactive_ready
     (snd (reconcile_managed_agent_at 100 False (begin_managed_agent [65] Pi 10 50 1000 pi_seen)))"
proof -
  let ?t = "begin_managed_agent [65] Pi 10 50 1000 pi_seen"
  have "managed ?t = Some \<lparr>managed_kind = Pi, managed_phase = Pending (Some 60) 1010 False\<rparr>"
    by (simp add: begin_managed_agent_def checked_add_def instant_max_def)
  moreover have "effective_known_agent ?t = Some Pi" "ts_state ?t = Idle"
    by (simp_all add: begin_managed_agent_def set_agent_name_def Let_def pi_seen_eq new_terminal_def
        core_simps eff_label_def del: agent_label.simps)
  ultimately show ?thesis
    using managed_promotion [OF surjective_pairing, of 100 False ?t]
    by (simp add: ex_bool_eq)
qed

text \<open>C36. No launch stays pending for ever: at its deadline a managed agent is no longer pending,
  and an exit ends it at once.\<close>

theorem managed_launch_resolves:
  assumes "managed t = Some \<lparr>managed_kind = k, managed_phase = Pending ready deadline seen\<rparr>"
    and "exited \<or> deadline \<le> now"
  shows "let (changed, t') = reconcile_managed_agent_at now exited t
         in changed \<and> managed t' = None \<and> agent_name t' = None"
  using assms
  by (auto simp: reconcile_managed_agent_at_def Let_def clear_agent_name_def)

theorem managed_launch_resolves_witness:
  "managed (snd (reconcile_managed_agent_at 2000 False (begin_managed_agent [65] Pi 10 50 1000 pi_seen))) = None"
proof -
  let ?t = "begin_managed_agent [65] Pi 10 50 1000 pi_seen"
  have "managed ?t = Some \<lparr>managed_kind = Pi, managed_phase = Pending (Some 60) 1010 False\<rparr>"
    by (simp add: begin_managed_agent_def checked_add_def instant_max_def)
  from managed_launch_resolves [OF this, of False 2000] show ?thesis by (simp add: case_prod_beta)
qed

text \<open>A begun launch is watched: its next deadline is the end of the settle delay or the
  timeout, whichever comes first.\<close>

theorem begun_launch_is_watched:
  assumes "now + settle < instant_max" "now + timeout < instant_max"
  shows "next_managed_agent_deadline (begin_managed_agent name k now settle timeout t)
           = Some (min (now + settle) (now + timeout))
    \<and> managed_agent_launch_pending (begin_managed_agent name k now settle timeout t)
    \<and> managed_agent_kind (begin_managed_agent name k now settle timeout t) = Some k"
  using assms
  by (simp add: begin_managed_agent_def next_managed_agent_deadline_def checked_add_def
      managed_agent_launch_pending_def managed_agent_kind_def)

theorem begun_launch_is_watched_witness:
  "next_managed_agent_deadline (begin_managed_agent [65] Pi 10 50 1000 pi_seen) = Some 60"
  using begun_launch_is_watched [of 10 50 1000 "[65]" Pi pi_seen] by (simp add: instant_max_def)

section \<open>Metadata\<close>

lemma max_by_key_None [simp]: "max_by_key f xs = None \<longleftrightarrow> xs = []"
  by (cases xs) (auto split: option.split)

lemma max_by_key_Some:
  "max_by_key f xs = Some x \<Longrightarrow> x \<in> set xs \<and> (\<forall>y \<in> set xs. f y \<le> f x)"
proof (induction xs arbitrary: x)
  case (Cons a xs)
  show ?case
  proof (cases "max_by_key f xs")
    case None
    then show ?thesis using Cons.prems by simp
  next
    case (Some y)
    have y: "y \<in> set xs" "\<forall>z \<in> set xs. f z \<le> f y" using Cons.IH [OF Some] by simp_all
    show ?thesis using Cons.prems Some y by (auto split: if_splits intro: order.trans less_imp_le)
  qed
qed simp

text \<open>A terminal with one record, reported at 10 with a time to live of 5.\<close>

definition titled_record :: agent_metadata where
  "titled_record = \<lparr>am_source = [7], am_agent_label = None, applies_to_source = None,
     am_title = Some [65], am_display_agent = None, am_state_labels = [], am_reported_at = 10,
     title_reported_at = Some 10, display_agent_reported_at = None, state_label_reported_at = [],
     am_ttl = Some 5, expiry_event_pending = False\<rparr>"

definition titled :: terminal_state where
  "titled = (new_terminal [] [])\<lparr>agent_metadata_map := [([7], titled_record)]\<rparr>"

lemma titled_facts:
  "agent_metadata_map titled = [([7], titled_record)]" "hm_values (agent_metadata_map titled) = [titled_record]"
  "agent_metadata_expiry titled_record = Some 15" "agent_metadata_matches_guards titled titled_record"
  by (simp_all add: titled_def hm_values_def agent_metadata_expiry_def titled_record_def checked_add_def
      instant_max_def agent_metadata_matches_guards_def metadata_guards_match_def)

text \<open>The shown title is the newest one: it is the title of a visible metadata record none of
  the other visible titled records is newer than, and there is none exactly when no visible
  record has a title.\<close>

theorem newest_title_shown:
  shows "case effective_title now t of
      None \<Rightarrow> \<forall>m \<in> set (hm_values (agent_metadata_map t)).
                agent_metadata_is_valid t now True m \<longrightarrow> am_title m = None
    | Some x \<Rightarrow> \<exists>m \<in> set (hm_values (agent_metadata_map t)).
                agent_metadata_is_valid t now True m \<and> am_title m = Some x
                \<and> (\<forall>m' \<in> set (hm_values (agent_metadata_map t)).
                     agent_metadata_is_valid t now True m' \<and> am_title m' \<noteq> None
                       \<longrightarrow> title_reported_at m' \<le> title_reported_at m)"
proof -
  let ?ms = "filter (\<lambda>m. am_title m \<noteq> None) (valid_agent_metadata t now True)"
  have title: "effective_title now t = Option.bind (max_by_key title_reported_at ?ms) am_title"
    by (simp add: effective_title_def effective_presentation_at_def
        effective_presentation_with_ttl_def newest_metadata_title_def)
  show ?thesis
  proof (cases "max_by_key title_reported_at ?ms")
    case None
    then have "?ms = []" by (simp only: max_by_key_None)
    then show ?thesis using title None by (simp add: filter_empty_conv valid_agent_metadata_def)
  next
    case (Some m)
    note m = max_by_key_Some [OF Some]
    then obtain x where "am_title m = Some x" by auto
    then show ?thesis using title Some m by (auto simp: valid_agent_metadata_def)
  qed
qed

theorem newest_title_shown_witness: "effective_title 12 titled = Some [65]"
proof -
  have "agent_metadata_is_valid titled 12 True titled_record"
    by (simp add: agent_metadata_is_valid_def metadata_shows_something_def titled_facts
        agent_metadata_is_expired_def) (simp add: titled_record_def)
  moreover have "am_title titled_record = Some [65]" by (simp add: titled_record_def)
  ultimately show ?thesis
    using newest_title_shown [of titled 12] by (auto simp: titled_facts hm_values_def split: option.splits)
qed

text \<open>The part of a record that the expiry bookkeeping does not touch.\<close>

definition settled :: "agent_metadata \<Rightarrow> agent_metadata" where
  "settled m = m\<lparr>expiry_event_pending := False\<rparr>"

lemma hm_get_fold_remove:
  "hm_get (fold hm_remove ks m) k = (if k \<in> set ks then None else hm_get m k)"
  by (induction ks arbitrary: m) (auto simp: hm_simps)

lemma settled_recompute:
  assumes "recompute_effective_state p now t = (c, t')"
  shows "map_option settled (hm_get (agent_metadata_map t') k)
           = map_option settled (hm_get (agent_metadata_map t) k)"
  using assms
  by (cases "hm_get (agent_metadata_map t) k")
    (auto simp: recompute_effective_state_def Let_def clear_expiry_pending_for_hidden_metadata_def
      hm_simps settled_def split: if_splits)

lemma expiry_due_iff:
  assumes "hm_wf ms"
  shows "(k, d) \<in> set (List.map_filter (\<lambda>(source, m). Option.bind (agent_metadata_expiry m)
            (\<lambda>deadline. then_some (deadline \<le> now) (source, deadline))) ms)
    \<longleftrightarrow> (\<exists>m. hm_get ms k = Some m \<and> agent_metadata_expiry m = Some d \<and> d \<le> now)"
  using hm_get_eq_Some_iff [OF assms]
  by (auto simp: map_filter_mem then_some_def split: option.splits bind_splits if_splits; force)

text \<open>Expiry removes exactly what is due: after a tick, a metadata record is present exactly
  when it was present and its deadline, if any, is still to come, whatever deadline the tick was
  scheduled for; the records that stay keep their content.\<close>

theorem expiry_removes_due:
  assumes "hm_wf (agent_metadata_map t)" "expire_agent_metadata_at scheduled now t = (m, t')"
  shows "map_option settled (hm_get (agent_metadata_map t') k)
    = map_option settled (opt_filter (\<lambda>r. \<not> agent_metadata_is_expired r now)
        (hm_get (agent_metadata_map t) k))"
proof -
  let ?due = "List.map_filter (\<lambda>(source, m). Option.bind (agent_metadata_expiry m)
      (\<lambda>deadline. then_some (deadline \<le> now) (source, deadline))) (agent_metadata_map t)"
  let ?ex = "map fst (filter (\<lambda>(_, d). d \<ge> scheduled) ?due)"
  let ?st = "map fst (filter (\<lambda>(_, d). \<not> d \<ge> scheduled) ?due)"
  let ?ms = "fold hm_remove ?ex (fold hm_remove ?st (agent_metadata_map t))"
  have due: "k \<in> set ?ex \<union> set ?st \<longleftrightarrow>
      is_some_and (\<lambda>r. agent_metadata_is_expired r now) (hm_get (agent_metadata_map t) k)"
  proof -
    have "k \<in> set ?ex \<union> set ?st \<longleftrightarrow> (\<exists>d. (k, d) \<in> set ?due)" by force
    also have "\<dots> \<longleftrightarrow> is_some_and (\<lambda>r. agent_metadata_is_expired r now) (hm_get (agent_metadata_map t) k)"
      unfolding expiry_due_iff [OF assms(1)] by (auto simp: agent_metadata_is_expired_def opt_simps)
    finally show ?thesis .
  qed
  have "map_option settled (hm_get (agent_metadata_map t') k) = map_option settled (hm_get ?ms k)"
  proof (cases "?ex = []")
    case True
    then show ?thesis using assms(2) unfolding expire_agent_metadata_at_def Let_def by auto
  next
    case False
    then obtain p where "mutation_result p now False False (t\<lparr>agent_metadata_map := ?ms\<rparr>) = (m, t')"
      using assms(2) unfolding expire_agent_metadata_at_def Let_def by auto
    then show ?thesis using settled_recompute [where k = k]
      by (auto simp: mutation_result_def split: prod.splits)
  qed
  then show ?thesis
    using due by (cases "hm_get (agent_metadata_map t) k") (auto simp: hm_get_fold_remove opt_simps)
qed

theorem expiry_removes_due_witness:
  "hm_get (agent_metadata_map (snd (expire_agent_metadata_at 15 15 titled))) [7] = None"
proof -
  have "hm_wf (agent_metadata_map titled)" by (simp add: titled_facts)
  from expiry_removes_due [OF this surjective_pairing, where k = "[7]", of 15 15] show ?thesis
    by (simp add: titled_facts agent_metadata_is_expired_def)
qed

text \<open>No expiry is slept through: when a record the terminal currently shows expires later,
  the next wake-up is no later than that, and every wake-up is the deadline of some record.\<close>

theorem next_expiry_wakes_in_time:
  assumes "r \<in> set (hm_values (agent_metadata_map t))" "agent_metadata_matches_guards t r"
    and "agent_metadata_expiry r = Some d" "now < d"
  shows "\<exists>e. next_agent_metadata_expiry now t = Some e \<and> e \<le> d
    \<and> (\<exists>r' \<in> set (hm_values (agent_metadata_map t)). agent_metadata_expiry r' = Some e)"
proof -
  let ?ms = "hm_values (agent_metadata_map t)"
  let ?ds = "filter (\<lambda>d. d > now \<or> list_ex (\<lambda>m. expiry_event_pending m
      \<and> agent_metadata_matches_guards t m \<and> agent_metadata_expiry m = Some d) ?ms)
    (List.map_filter agent_metadata_expiry (filter (agent_metadata_matches_guards t) ?ms))"
  have d: "d \<in> set ?ds" using assms by (auto simp: map_filter_mem)
  then have ne: "set ?ds \<noteq> {}" by (metis empty_iff)
  have "Min (set ?ds) \<le> d" by (rule Min_le [OF finite_set d])
  moreover have "Min (set ?ds) \<in> set ?ds" by (rule Min_in [OF finite_set ne])
  moreover have "next_agent_metadata_expiry now t = Some (Min (set ?ds))"
    using ne unfolding next_agent_metadata_expiry_def Let_def by (simp only: set_empty if_False)
  ultimately show ?thesis by (intro exI [of _ "Min (set ?ds)"]) (simp add: map_filter_mem, blast)
qed

theorem next_expiry_wakes_in_time_witness:
  "\<exists>e. next_agent_metadata_expiry 12 titled = Some e \<and> e \<le> 15"
  using next_expiry_wakes_in_time [of titled_record titled 15 12] by (auto simp: titled_facts hm_values_def)

end
