(* ===== verification/Agent_Properties.thy ===== *)
theory Agent_Properties
  imports Terminal_Timers
begin

text \<open>
  The properties of the smaller components the terminal rests on: the names of the agents and
  their detection among the processes of a job (\<open>src/detect/mod.rs\<close>), session references and
  resume plans (\<open>src/agent_resume.rs\<close>), and metadata tokens (\<open>src/metadata_tokens.rs\<close>).
\<close>

section \<open>Agents\<close>

text \<open>Every agent is listed once, and can be found again by the label shown for it and by the
  executable that starts it; the labels of different agents differ.\<close>

theorem agent_names_round_trip:
  "set all_agents = UNIV \<and> distinct all_agents
   \<and> parse_agent_label (agent_label a) = Some a
   \<and> parse_agent_label (interactive_agent_executable a) = Some a
   \<and> (agent_label a = agent_label b \<longleftrightarrow> a = b)"
  by (simp add: all_agents_complete parse_agent_label_alt normalized_label lookup_agent_label
      normalized_executable lookup_agent_executable)

text \<open>What a job is taken to run: the agent of its group leader when the leader is an agent;
  otherwise the agent of the first process such that no process is a better candidate; and none
  exactly when no process is an agent.\<close>

theorem job_agent_is_best_candidate:
  shows "case identify_agent_in_job resolve job of
      None \<Rightarrow> \<forall>p \<in> set (processes job). process_candidate resolve p = None
    | Some (g, name) \<Rightarrow> \<exists>pre p post score. processes job = pre @ p # post
        \<and> process_candidate resolve p = Some (score, g, name)
        \<and> (case Option.bind (find (\<lambda>p. pid p = process_group_id job) (processes job))
                   (process_candidate resolve) of
             Some c \<Rightarrow> snd c = (g, name) \<and> pid p = process_group_id job
           | None \<Rightarrow>
               (\<forall>q \<in> set pre. is_none_or (\<lambda>c. fst c < score) (process_candidate resolve q))
               \<and> (\<forall>q \<in> set post. is_none_or (\<lambda>c. fst c \<le> score) (process_candidate resolve q)))"
proof -
  let ?leader = "find (\<lambda>p. pid p = process_group_id job) (processes job)"
  show ?thesis
  proof (cases "Option.bind ?leader (process_candidate resolve)")
    case (Some c)
    then obtain p where p: "?leader = Some p" "process_candidate resolve p = Some c"
      by (auto simp: bind_eq_Some_conv)
    then have "p \<in> set (processes job)" "pid p = process_group_id job"
      by (auto simp: find_Some_iff)
    moreover have "identify_agent_in_job resolve job = Some (snd c)"
      using p by (auto simp: identify_agent_in_job_def process_candidate_def Let_def)
    moreover obtain score g name where "c = (score, g, name)" by (cases c)
    ultimately show ?thesis using Some p by (auto simp: in_set_conv_decomp)
  next
    case None
    let ?best = "fold (best_process_step resolve) (processes job) None"
    have scan: "identify_agent_in_job resolve job = map_option snd ?best"
      using None by (cases ?leader; cases ?best)
        (auto simp: identify_agent_in_job_def process_candidate_def Let_def)
    show ?thesis
    proof (cases ?best)
      case None
      then show ?thesis using scan best_process_None [of resolve "processes job" None] by simp
    next
      case (Some b)
      obtain score g name where b: "b = (score, g, name)" by (cases b)
      show ?thesis using best_process_sound [OF Some] scan Some None by (auto simp: b)
    qed
  qed
qed

theorem job_agent_is_best_candidate_witness:
  "\<exists>name. identify_agent_in_job (\<lambda>_. None) \<lparr>process_group_id = 7, processes =
     [\<lparr>pid = 7, proc_name = pi_label, argv0 = None, argv = None, cmdline = None\<rparr>]\<rparr> = Some (Pi, name)"
proof -
  let ?p = "\<lparr>pid = 7, proc_name = pi_label, argv0 = None, argv = None, cmdline = None\<rparr>"
  let ?job = "\<lparr>process_group_id = 7, processes = [?p]\<rparr>"
  have "identify_agent pi_label = Some Pi" by (simp add: identify_agent_def)
  then have c: "process_candidate (\<lambda>_. None) ?p = Some (process_priority ?p pi_label, Pi, pi_label)"
    by (simp add: process_candidate_def normalized_process_name_def Let_def
        wrapped_agent_name_from_runtime_argv_def)
  then show ?thesis
    using job_agent_is_best_candidate [where resolve = "\<lambda>_. None" and job = ?job]
    by (cases "identify_agent_in_job (\<lambda>_. None) ?job") auto
qed

section \<open>Sessions\<close>

text \<open>The integrations form classes that do not overlap where it matters: an official source
  either owns the life cycle of its agent or leaves the state to the screen, never both, and a
  life-cycle source and its agent determine each other.\<close>

theorem official_sources_classified:
  "(is_official_agent_source s l \<longleftrightarrow> full_lifecycle_hook_authority s l
      \<or> session_identity_only_integration s l \<or> is_reserved_native_state_source s l)
   \<and> \<not> (full_lifecycle_hook_authority s l \<and> session_identity_only_integration s l)
   \<and> \<not> (full_lifecycle_hook_authority s l \<and> is_reserved_native_state_source s l)
   \<and> (full_lifecycle_hook_authority s l \<longrightarrow>
        (full_lifecycle_hook_authority s l' \<longrightarrow> l' = l)
        \<and> (full_lifecycle_hook_authority s' l \<longrightarrow> s' = s))"
  using official_partition full_lifecycle_not_identity_only full_lifecycle_not_reserved
    full_lifecycle_functional full_lifecycle_injective by blast

theorem official_sources_classified_witness:
  "is_official_agent_source pi_source pi_label \<and> \<not> is_reserved_native_state_source pi_source pi_label"
  using official_sources_classified [of pi_source pi_label] by simp

text \<open>C34. A session survives a restart: the reference made from a report of an official integration
  is restored unchanged from the kind and value a snapshot stores, and a plan to resume it
  exists.\<close>

theorem session_survives_restart:
  assumes "session_ref_from_report source agent i p = Some r"
  shows "session_ref_from_snapshot source agent (kind r) (ref_value r)
           = Some \<lparr>ps_source = source, ps_agent = agent, ps_session_ref = r\<rparr>
    \<and> plan source agent r \<noteq> None"
proof -
  have off: "is_official_agent_source source agent"
    using assms by (simp add: session_ref_from_report_def split: if_splits)
  have cases: "(kind r = Path \<and> one_of agent [''pi'', ''omp''] \<and> valid_session_path (ref_value r))
      \<or> (kind r = Id \<and> valid_session_id (ref_value r))"
    using assms
    by (auto simp: session_ref_from_report_def opt_simps session_ref_ctor_value one_of_def
        bind_eq_Some_conv split: if_splits)
  have r: "r = \<lparr>kind = kind r, ref_value = ref_value r\<rparr>" by simp
  have "session_ref_from_snapshot source agent (kind r) (ref_value r)
      = Some \<lparr>ps_source = source, ps_agent = agent, ps_session_ref = r\<rparr>"
    using off cases r
    by (cases "kind r") (auto simp: session_ref_from_snapshot_def session_ref_id_def
        session_ref_path_def then_some_def)
  moreover have "plan source agent r \<noteq> None"
    unfolding plan_defined using off cases by blast
  ultimately show ?thesis by blast
qed

theorem session_survives_restart_witness:
  "session_ref_from_snapshot pi_source pi_label Id (lit ''s1'')
     = Some \<lparr>ps_source = pi_source, ps_agent = pi_label, ps_session_ref = pi_session\<rparr>"
proof -
  have "is_official_agent_source pi_source pi_label" by (rule full_lifecycle_official) simp
  moreover have "valid_session_id (lit ''s1'')"
    by (simp add: valid_session_id_def MAX_SESSION_ID_LEN_def str_len_def lit_def is_control_def len_utf8_def)
  ultimately have "session_ref_from_report pi_source pi_label (Some (lit ''s1'')) None = Some pi_session"
    by (simp add: session_ref_from_report_def session_ref_id_def pi_session_def then_some_def)
  from session_survives_restart [OF this] show ?thesis by (simp add: pi_session_def)
qed

text \<open>The shape of a resume command: the agent's own program first, the session last.\<close>

definition plan_shape :: "text \<Rightarrow> agent_session_ref \<Rightarrow> text list \<Rightarrow> bool" where
  "plan_shape l r av \<longleftrightarrow> (\<exists>g pre. l = agent_label g \<and> hd av = interactive_agent_executable g
     \<and> 2 \<le> length av \<and> last av = pre @ ref_value r)"

lemma if_SomeE:
  "(if b then Some x else e) = Some y \<Longrightarrow> (b \<Longrightarrow> y = x \<Longrightarrow> P) \<Longrightarrow> (e = Some y \<Longrightarrow> P) \<Longrightarrow> P"
  by (cases b) simp_all

lemma plan_shapeI:
  assumes "is_pair s l n m" "agent_label g = lit m" "interactive_agent_executable g = w"
  shows "av = [w, x, ref_value r] \<Longrightarrow> plan_shape l r av"
    "av = [w, pre @ ref_value r] \<Longrightarrow> plan_shape l r av"
  using assms unfolding plan_shape_def is_pair_def
  by (rule_tac exI [of _ g], rule_tac exI [of _ "[]"], simp,
      rule_tac exI [of _ g], rule_tac exI [of _ pre], simp)

lemma plan_command_shape: "plan_command s l r = Some av \<Longrightarrow> plan_shape l r av"
  unfolding plan_command_def Let_def
  by (elim if_SomeE conjE;
      (rule plan_shapeI(1), assumption, rule agent_label.simps, simp, assumption
        | rule plan_shapeI(2), assumption, rule agent_label.simps, simp, assumption
        | simp)?)

text \<open>A resume plan runs the agent it is for, and the reported session only ever appears at the
  end of the last argument: it can name neither the program nor an option of its own.\<close>

theorem plan_runs_its_agent:
  assumes "plan source agent r = Some p"
  shows "\<exists>g pre. agent = agent_label g \<and> hd (plan_argv p) = interactive_agent_executable g
    \<and> 2 \<le> length (plan_argv p) \<and> last (plan_argv p) = pre @ ref_value r \<and> plan_agent p = agent"
proof -
  obtain av where "plan_command source agent r = Some av" "plan_argv p = av" "plan_agent p = agent"
    using assms by (auto simp: plan_def split: if_splits option.splits)
  then show ?thesis using plan_command_shape unfolding plan_shape_def by blast
qed

theorem plan_runs_its_agent_witness:
  "\<exists>p. plan pi_source pi_label pi_session = Some p \<and> 2 \<le> length (plan_argv p)"
proof -
  have "is_official_agent_source pi_source pi_label" by (rule full_lifecycle_official) simp
  then have "plan pi_source pi_label pi_session \<noteq> None" by (simp only: plan_defined pi_session_def) simp
  then obtain p where p: "plan pi_source pi_label pi_session = Some p" by blast
  from plan_runs_its_agent [OF this] p show ?thesis by blast
qed

text \<open>Two panes are never confused when sessions are resumed: the keys of two plans for
  sessions of official integrations are equal only for the same source, agent and session.\<close>

theorem dedupe_key_injective:
  assumes "is_official_agent_source s a" "is_official_agent_source s' a'"
    and "dedupe_key s a r = dedupe_key s' a' r'"
  shows "s = s' \<and> a = a' \<and> r = r'"
proof -
  note n = official_no_nul [OF assms(1)] official_no_nul [OF assms(2)]
  have 1: "s = s'" "a @ nul @ kind_debug (kind r) @ nul @ ref_value r
      = a' @ nul @ kind_debug (kind r') @ nul @ ref_value r'"
    using append_nul_inject [of s s'] n assms(3) unfolding dedupe_key_def by blast+
  then have 2: "a = a'" "kind_debug (kind r) @ nul @ ref_value r = kind_debug (kind r') @ nul @ ref_value r'"
    using append_nul_inject [of a a'] n by blast+
  then have "kind_debug (kind r) = kind_debug (kind r')" "ref_value r = ref_value r'"
    using append_nul_inject [of "kind_debug (kind r)" "kind_debug (kind r')"] kind_debug_simps(1) by blast+
  then show ?thesis using 1 2 kind_debug_simps(2) by simp
qed

theorem dedupe_key_injective_witness:
  "dedupe_key pi_source pi_label pi_session \<noteq>
     dedupe_key pi_source pi_label \<lparr>kind = Path, ref_value = lit ''s1''\<rparr>"
proof -
  have off: "is_official_agent_source pi_source pi_label" by (rule full_lifecycle_official) simp
  show ?thesis
  proof
    assume "dedupe_key pi_source pi_label pi_session =
        dedupe_key pi_source pi_label \<lparr>kind = Path, ref_value = lit ''s1''\<rparr>"
    from dedupe_key_injective [OF off off this] show False by (simp add: pi_session_def)
  qed
qed

section \<open>Tokens\<close>

lemma patch_loop_changed:
  "hm_wf p \<Longrightarrow> snd (patch_loop ex p (es, c)) \<longleftrightarrow>
     c \<or> (\<exists>k. hm_get (fst (patch_loop ex p (es, c))) k \<noteq> hm_get es k)"
proof (induction ex p "(es, c)" arbitrary: es c rule: patch_loop.induct)
  case (2 ex key v ps es changed)
  let ?tok = "\<lparr>tok_value = v, expires_at = ex\<rparr>"
  have wf: "hm_wf ps" "hm_get ps key = None" using "2.prems" by simp_all
  show ?case
  proof (cases "hm_get es key = Some ?tok")
    case True
    then show ?thesis using "2.hyps"(2) wf by (simp add: Let_def)
  next
    case False
    have "hm_get (fst (patch_loop ex ps (hm_insert key ?tok es, True))) key = Some ?tok"
      using patch_loop_get [OF wf(1)] wf(2) by (simp add: hm_simps)
    then show ?thesis using "2.hyps"(1) wf False by (auto simp: Let_def)
  qed
next
  case (3 ex key ps es changed)
  have wf: "hm_wf ps" "hm_get ps key = None" using "3.prems" by simp_all
  have at: "hm_get (fst (patch_loop ex ps (hm_remove key es, c))) key = None" for c
    using patch_loop_get [OF wf(1)] wf(2) by (simp add: hm_simps)
  show ?case
  proof (cases "hm_get es key")
    case None
    then show ?thesis using "3.hyps" wf by (simp add: hm_remove_absent is_some_def)
  next
    case (Some tok)
    then have "hm_get (fst (patch_loop ex ps (hm_remove key es, True))) key \<noteq> hm_get es key"
      using at by simp
    then have "\<exists>k. hm_get (fst (patch_loop ex ps (hm_remove key es, True))) k \<noteq> hm_get es k" by blast
    then show ?thesis using "3.hyps" wf Some by (simp add: is_some_def)
  qed
qed simp

text \<open>A patch does to each token what it says: a key with a value gets it with the new deadline,
  a key without one is removed, every other key keeps its token, and the patch reports a change
  exactly when some token is different afterwards.\<close>

theorem patch_does_what_it_says:
  assumes "hm_wf p" "patch_tokens p ttl now t = (changed, t')"
  shows "hm_get (entries t') k = (case hm_get p k of
       None \<Rightarrow> hm_get (entries t) k
     | Some None \<Rightarrow> None
     | Some (Some v) \<Rightarrow> Some \<lparr>tok_value = v, expires_at = Option.bind ttl (checked_add now)\<rparr>)
    \<and> (changed \<longleftrightarrow> (\<exists>j. hm_get (entries t') j \<noteq> hm_get (entries t) j))"
proof -
  let ?run = "patch_loop (Option.bind ttl (checked_add now)) p (entries t, False)"
  have "changed = snd ?run" "entries t' = fst ?run"
    using assms(2) by (auto simp: patch_tokens_def Let_def split: prod.splits)
  then show ?thesis
    using patch_loop_get [OF assms(1)] patch_loop_changed [OF assms(1)] by simp
qed

theorem patch_does_what_it_says_witness:
  "hm_get (entries (snd (patch_tokens [([7], Some [65]), ([8], None)] (Some 5) 10 \<lparr>entries = []\<rparr>))) [7]
     = Some \<lparr>tok_value = [65], expires_at = Some 15\<rparr>"
proof -
  have "hm_wf [([7], Some [65]), ([8 :: nat], None)]" by simp
  from patch_does_what_it_says [OF this surjective_pairing, where k = "[7]"] show ?thesis
    by (simp add: checked_add_def instant_max_def)
qed

text \<open>The limit on token keys can be checked before a patch is applied: the count computed
  beforehand is the number of tokens afterwards.\<close>

theorem key_count_is_exact:
  assumes "tokens_wf t"
  shows "key_count_after_patch p t = length (entries (snd (patch_tokens p ttl now t)))"
  using assms by (rule key_count_matches)

theorem key_count_is_exact_witness:
  "length (entries (snd (patch_tokens [([7], Some [65])] None 10 \<lparr>entries = []\<rparr>))) = 1"
proof -
  have "tokens_wf \<lparr>entries = []\<rparr>" by (simp add: tokens_wf_def)
  from key_count_is_exact [OF this, of "[([7], Some [65])]" None 10] show ?thesis
    by (simp add: key_count_after_patch_def token_values_def hm_map_values_def)
qed

text \<open>After an expiry tick no token is overdue and none that was not due is gone, so the next
  wake-up, if there is one, lies in the future.\<close>

theorem token_expiry_exact:
  assumes "tokens_wf t" "expire_at now t = (changed, t')"
  shows "hm_get (entries t') k = opt_filter (\<lambda>tok. is_none_or (\<lambda>d. now < d) (expires_at tok))
           (hm_get (entries t) k)
    \<and> is_none_or (\<lambda>d. now < d) (next_expiry t')
    \<and> (changed \<longleftrightarrow> entries t' \<noteq> entries t)"
proof -
  let ?keep = "\<lambda>tok. is_none_or (\<lambda>d. now < d) (expires_at tok)"
  have es: "entries t' = hm_retain (\<lambda>_. ?keep) (entries t)"
    and ch: "changed \<longleftrightarrow> length (hm_retain (\<lambda>_. ?keep) (entries t)) \<noteq> length (entries t)"
    using assms(2) by (auto simp: expire_at_def Let_def)
  have "hm_get (entries t') k = opt_filter ?keep (hm_get (entries t) k)"
    using assms(1) by (simp add: es hm_get_retain tokens_wf_def)
  moreover have "changed \<longleftrightarrow> entries t' \<noteq> entries t"
  proof -
    have "length (filter P xs) = length xs \<longleftrightarrow> filter P xs = xs" for P and xs :: "(text \<times> metadata_token) list"
      by (metis length_filter_less filter_True less_irrefl)
    then show ?thesis by (simp add: ch es hm_retain_def)
  qed
  moreover have "is_none_or (\<lambda>d. now < d) (next_expiry t')"
  proof (cases "next_expiry t'")
    case (Some d)
    let ?ds = "List.map_filter expires_at (hm_values (entries t'))"
    have ne: "set ?ds \<noteq> {}" and "d = Min (set ?ds)"
      using Some by (auto simp: next_expiry_def Let_def split: if_splits)
    then have "d \<in> set ?ds" using Min_in [OF finite_set ne] by simp
    then show ?thesis using Some
      by (auto simp: map_filter_mem hm_values_def es hm_retain_def)
  qed simp
  ultimately show ?thesis by blast
qed

theorem token_expiry_exact_witness:
  "hm_get (entries (snd (expire_at 15 \<lparr>entries = [([7], \<lparr>tok_value = [65], expires_at = Some 15\<rparr>)]\<rparr>))) [7]
     = None"
proof -
  have "tokens_wf \<lparr>entries = [([7], \<lparr>tok_value = [65], expires_at = Some 15\<rparr>)]\<rparr>"
    by (simp add: tokens_wf_def)
  from token_expiry_exact [OF this surjective_pairing, where k = "[7]" and now = 15] show ?thesis by simp
qed

end
