(* ===== verification/Float32.thy ===== *)
theory Float32
  imports Prelude "HOL-Library.Log_Nat"
begin

text \<open>
  The IEEE 754 binary32 values (Rust's \<open>f32\<close>) and the operations the layout uses. A finite value
  is its exact rational; results of arithmetic are rounded to the nearest representable value,
  ties to even, with subnormals and overflow to infinity. The two zeros are one value: no
  operation modelled here tells them apart.
\<close>

datatype f32 = NaN | Inf bool | Fin rat

section \<open>Rounding\<close>

definition round_half_even :: "rat \<Rightarrow> int" where
  "round_half_even x =
     (let f = \<lfloor>x\<rfloor>; r = x - of_int f
      in if r < 1 / 2 then f else if r > 1 / 2 then f + 1 else if even f then f else f + 1)"

text \<open>The exponent of a positive value: \<open>2 powi e \<le> x < 2 powi (e + 1)\<close>.\<close>

definition exponent_of :: "rat \<Rightarrow> int" where
  "exponent_of x =
     (let (p, q) = quotient_of x; e = bitlen p - bitlen q
      in if 2 powi e \<le> x then e else e - 1)"

text \<open>The exponent of the unit in the last place: 24 bits of precision, least exponent -149.\<close>

definition ulp_exponent :: "rat \<Rightarrow> int" where
  "ulp_exponent x = max (exponent_of x - 23) (-149)"

definition round_magnitude :: "rat \<Rightarrow> rat" where
  "round_magnitude x =
     (let u = ulp_exponent x in of_int (round_half_even (x / 2 powi u)) * 2 powi u)"

definition f32_of_rat :: "rat \<Rightarrow> f32" where
  "f32_of_rat x =
     (if x = 0 then Fin 0
      else let m = round_magnitude \<bar>x\<bar>
           in if m \<ge> 2 ^ 128 then Inf (x < 0) else Fin (if x < 0 then - m else m))"

section \<open>Operations\<close>

definition f32_of_u16 :: "u16 \<Rightarrow> f32" where
  "f32_of_u16 n = Fin (of_nat (unat n))"

definition f32_is_finite :: "f32 \<Rightarrow> bool" where
  "f32_is_finite a = (case a of Fin _ \<Rightarrow> True | _ \<Rightarrow> False)"

fun f32_neg :: "f32 \<Rightarrow> f32" where
  "f32_neg NaN = NaN"
| "f32_neg (Inf s) = Inf (\<not> s)"
| "f32_neg (Fin x) = Fin (- x)"

fun f32_add :: "f32 \<Rightarrow> f32 \<Rightarrow> f32" where
  "f32_add NaN b = NaN"
| "f32_add a NaN = NaN"
| "f32_add (Inf s) (Inf t) = (if s = t then Inf s else NaN)"
| "f32_add (Inf s) (Fin y) = Inf s"
| "f32_add (Fin x) (Inf t) = Inf t"
| "f32_add (Fin x) (Fin y) = f32_of_rat (x + y)"

fun f32_mul :: "f32 \<Rightarrow> f32 \<Rightarrow> f32" where
  "f32_mul NaN b = NaN"
| "f32_mul a NaN = NaN"
| "f32_mul (Inf s) (Inf t) = Inf (s \<noteq> t)"
| "f32_mul (Inf s) (Fin y) = (if y = 0 then NaN else Inf (s \<noteq> (y < 0)))"
| "f32_mul (Fin x) (Inf t) = (if x = 0 then NaN else Inf ((x < 0) \<noteq> t))"
| "f32_mul (Fin x) (Fin y) = f32_of_rat (x * y)"

fun f32_less :: "f32 \<Rightarrow> f32 \<Rightarrow> bool" where
  "f32_less NaN b = False"
| "f32_less a NaN = False"
| "f32_less (Inf s) (Inf t) = (s \<and> \<not> t)"
| "f32_less (Inf s) (Fin y) = s"
| "f32_less (Fin x) (Inf t) = (\<not> t)"
| "f32_less (Fin x) (Fin y) = (x < y)"

text \<open>\<open>==\<close>: not a number is not equal to itself.\<close>

definition f32_eq :: "f32 \<Rightarrow> f32 \<Rightarrow> bool" where
  "f32_eq a b \<longleftrightarrow> a \<noteq> NaN \<and> a = b"

text \<open>\<open>f32::clamp\<close> returns not a number for not a number.\<close>

definition f32_clamp :: "f32 \<Rightarrow> f32 \<Rightarrow> f32 \<Rightarrow> f32" where
  "f32_clamp a lo hi = (if f32_less a lo then lo else if f32_less hi a then hi else a)"

text \<open>\<open>f32::round\<close>: to the nearest integer, halves away from zero.\<close>

definition round_half_away :: "rat \<Rightarrow> int" where
  "round_half_away x = (if x < 0 then - \<lfloor>- x + 1 / 2\<rfloor> else \<lfloor>x + 1 / 2\<rfloor>)"

fun f32_round :: "f32 \<Rightarrow> f32" where
  "f32_round (Fin x) = Fin (of_int (round_half_away x))"
| "f32_round a = a"

text \<open>\<open>as u16\<close> saturates; not a number becomes 0.\<close>

fun f32_as_u16 :: "f32 \<Rightarrow> u16" where
  "f32_as_u16 NaN = 0"
| "f32_as_u16 (Inf s) = (if s then 0 else - 1)"
| "f32_as_u16 (Fin x) =
     (if x \<le> 0 then 0 else if 65535 \<le> x then - 1 else of_int \<lfloor>x\<rfloor>)"

text \<open>The literals of the layout, rounded as the compiler rounds them.\<close>

definition f32_tenth :: f32 where
  "f32_tenth = Fin (13421773 / 134217728)"

definition f32_nine_tenths :: f32 where
  "f32_nine_tenths = Fin (15099494 / 16777216)"

definition f32_half :: f32 where
  "f32_half = Fin (1 / 2)"

section \<open>Properties\<close>

lemma round_half_even_le: "x \<le> of_int n \<Longrightarrow> round_half_even x \<le> n"
proof -
  assume a: "x \<le> of_int n"
  then have f: "\<lfloor>x\<rfloor> \<le> n" by linarith
  show ?thesis
  proof (cases "\<lfloor>x\<rfloor> = n")
    case True
    then have "x = of_int n" using a by linarith
    then show ?thesis by (simp add: round_half_even_def)
  next
    case False
    then show ?thesis using f by (auto simp: round_half_even_def Let_def)
  qed
qed

lemma round_half_even_nonneg: "0 \<le> x \<Longrightarrow> 0 \<le> round_half_even x"
proof -
  assume "0 \<le> x"
  then have "0 \<le> \<lfloor>x\<rfloor>" by simp
  then show ?thesis by (auto simp: round_half_even_def Let_def)
qed

lemma powi_pos: "(0::rat) < 2 powi e"
  by (simp add: zero_less_power_int)

lemma powi_mono: "a \<le> b \<Longrightarrow> (2::rat) powi a \<le> 2 powi b"
  by (simp add: power_int_increasing)

lemma exponent_of_le:
  assumes "0 < x"
  shows "2 powi exponent_of x \<le> x"
proof -
  obtain p q where pq: "quotient_of x = (p, q)" by (cases "quotient_of x")
  have q: "0 < q" and x: "x = of_int p / of_int q"
    using quotient_of_denom_pos [OF pq] quotient_of_div [OF pq] by simp_all
  have p: "0 < p" using assms q by (simp add: x zero_less_divide_iff)
  let ?e = "bitlen p - bitlen q"
  have bp: "1 \<le> bitlen p" using p by (simp add: bitlen_alt_def)
  have "(2::rat) powi (?e - 1) \<le> x"
  proof -
    have "(2::rat) powi (bitlen p - 1) \<le> of_int p"
    proof -
      have "(of_int (2 ^ nat (bitlen p - 1)) :: rat) \<le> of_int p"
        by (rule of_int_le_iff [THEN iffD2]) (simp add: bitlen_bounds [OF p])
      then show ?thesis using bp by (simp add: power_int_def)
    qed
    moreover have "of_int q \<le> (2::rat) powi (bitlen q)"
    proof -
      have "(of_int q :: rat) \<le> of_int (2 ^ nat (bitlen q))"
        by (rule of_int_le_iff [THEN iffD2]) (simp add: less_imp_le bitlen_bounds [OF q])
      then show ?thesis using bitlen_nonneg [of q] by (simp add: power_int_def)
    qed
    moreover have "(2::rat) powi (?e - 1) * 2 powi (bitlen q) = 2 powi (bitlen p - 1)"
      by (simp add: algebra_simps flip: power_int_add)
    ultimately have "(2::rat) powi (?e - 1) * of_int q \<le> of_int p"
      using powi_pos [of "?e - 1"] by (metis mult_left_mono less_imp_le order_trans)
    then show ?thesis using q by (simp add: x pos_le_divide_eq)
  qed
  then show ?thesis by (simp add: exponent_of_def pq Let_def)
qed

text \<open>Rounding does not pass a representable bound: here, a whole number of at most 24 bits.\<close>

lemma ulp_exponent_nonpos:
  assumes "0 < x" "x < 2 ^ 24"
  shows "ulp_exponent x \<le> 0"
proof -
  have "(2::rat) powi exponent_of x < 2 powi 24"
    using exponent_of_le [OF assms(1)] assms(2) by (simp add: power_int_def)
  then have "exponent_of x < 24" using powi_mono [of 24 "exponent_of x"] by (meson not_less)
  then show ?thesis by (simp add: ulp_exponent_def)
qed

lemma of_int_24: "w < 2 ^ 24 \<Longrightarrow> of_int w < (2::rat) ^ 24"
proof -
  assume "w < 2 ^ 24"
  then have "(of_int w :: rat) < of_int (2 ^ 24)" by (rule of_int_less_iff [THEN iffD2])
  then show ?thesis by simp
qed

lemma unat_u16_less: "unat (n :: u16) < 65536"
proof -
  have "unat n < 2 ^ LENGTH(16)" by (rule unsigned_less)
  then show ?thesis by simp
qed

lemma round_magnitude_bounds:
  assumes "0 < x" "x \<le> of_int w" "w < 2 ^ 24"
  shows "0 \<le> round_magnitude x" "round_magnitude x \<le> of_int w"
proof -
  let ?u = "ulp_exponent x"
  have "of_int w < (2::rat) ^ 24" by (rule of_int_24 [OF assms(3)])
  then have u: "?u \<le> 0" using ulp_exponent_nonpos [OF assms(1)] assms(2) by simp
  then have whole: "of_int w / 2 powi ?u = (of_int (w * 2 ^ nat (- ?u)) :: rat)"
    by (simp add: power_int_def field_simps)
  have "x / 2 powi ?u \<le> of_int w / 2 powi ?u"
    using assms(2) powi_pos [of ?u] by (simp add: divide_right_mono)
  then have "round_half_even (x / 2 powi ?u) \<le> w * 2 ^ nat (- ?u)"
    unfolding whole by (rule round_half_even_le)
  then have "of_int (round_half_even (x / 2 powi ?u)) \<le> of_int w / (2::rat) powi ?u"
    unfolding whole by (simp only: of_int_le_iff)
  then show "round_magnitude x \<le> of_int w"
    using powi_pos [of ?u] by (simp add: round_magnitude_def Let_def pos_le_divide_eq)
  have "0 \<le> round_half_even (x / 2 powi ?u)"
    using assms(1) powi_pos [of ?u] by (intro round_half_even_nonneg) simp
  then show "0 \<le> round_magnitude x"
    using powi_pos [of ?u] by (simp add: round_magnitude_def Let_def)
qed

lemma f32_of_rat_bounds:
  assumes "0 \<le> x" "x \<le> of_int w" "w < 2 ^ 24"
  shows "\<exists>y. f32_of_rat x = Fin y \<and> 0 \<le> y \<and> y \<le> of_int w"
proof (cases "x = 0")
  case True
  then show ?thesis using assms(2) by (simp add: f32_of_rat_def)
next
  case False
  then have pos: "0 < x" using assms(1) by simp
  note b = round_magnitude_bounds [OF pos assms(2,3)]
  have "of_int w < (2::rat) ^ 24" by (rule of_int_24 [OF assms(3)])
  also have "\<dots> \<le> 2 ^ 128" by simp
  finally have "round_magnitude x < 2 ^ 128" using b(2) by linarith
  then show ?thesis using pos b by (simp add: f32_of_rat_def Let_def)
qed

text \<open>The share of a length: for a ratio in the unit interval it is at most the length.\<close>

definition f32_unit :: "f32 \<Rightarrow> bool" where
  "f32_unit r = (case r of NaN \<Rightarrow> True | Inf _ \<Rightarrow> False | Fin x \<Rightarrow> 0 \<le> x \<and> x \<le> 1)"

lemma f32_as_u16_of_int:
  assumes "0 \<le> k" "k \<le> 65535"
  shows "f32_as_u16 (Fin (of_int k)) = of_int k"
proof -
  consider "k = 0" | "k = 65535" | "0 < k" "k < 65535" using assms by linarith
  then show ?thesis by cases simp_all
qed

lemma f32_as_u16_le:
  assumes "0 \<le> y" "y \<le> of_nat (unat (n :: u16))"
  shows "f32_as_u16 (f32_round (Fin y)) \<le> n"
proof -
  let ?k = "\<lfloor>y + 1 / 2\<rfloor>"
  have k: "0 \<le> ?k" "?k \<le> int (unat n)" using assms by linarith+
  have n: "unat n < 65536" by (rule unat_u16_less)
  have k2: "?k \<le> 65535" using k(2) n by linarith
  have "f32_as_u16 (f32_round (Fin y)) = of_int ?k"
    using assms(1) f32_as_u16_of_int [OF k(1) k2] by (simp add: round_half_away_def del: f32_as_u16.simps)
  moreover have "(of_int ?k :: u16) \<le> n"
  proof -
    have "uint (of_int ?k :: u16) = ?k" using k k2 by (simp add: unsigned_of_int take_bit_int_eq_self)
    then show ?thesis using k(2) by (simp add: word_le_def)
  qed
  ultimately show ?thesis by simp
qed

lemma f32_share_le:
  assumes "f32_unit r"
  shows "f32_as_u16 (f32_round (f32_mul (f32_of_u16 n) r)) \<le> n"
proof (cases r)
  case (Fin x)
  have n: "unat n < 65536" by (rule unat_u16_less)
  have x: "0 \<le> x" "x \<le> 1" using assms Fin by (simp_all add: f32_unit_def)
  have share: "of_nat w * x \<le> of_int (int w)" "0 \<le> of_nat w * x" for w
    using x by (simp_all add: mult_left_le)
  have w: "int (unat n) < 2 ^ 24"
  proof -
    have "int (unat n) < 65536" using n by linarith
    then show ?thesis by (rule less_trans) simp
  qed
  obtain y where "f32_of_rat (of_nat (unat n) * x) = Fin y" "0 \<le> y" "y \<le> of_int (int (unat n))"
    using f32_of_rat_bounds [OF share(2) share(1) w] by blast
  then show ?thesis using f32_as_u16_le [of y n] Fin by (simp add: f32_of_u16_def)
qed (use assms in \<open>simp_all add: f32_of_u16_def f32_unit_def\<close>)

lemma f32_clamp_unit:
  "f32_unit (f32_clamp r f32_tenth f32_nine_tenths)"
  "f32_clamp r f32_tenth f32_nine_tenths = NaN \<longleftrightarrow> r = NaN"
  by (cases r; auto simp: f32_clamp_def f32_tenth_def f32_nine_tenths_def f32_unit_def)+

end
