(* ===== verification/Layout.thy ===== *)
theory Layout
  imports Float32 Machine "HOL-Library.Product_Lexorder"
begin

text \<open>
  The tiling layout of a tab, \<open>src/layout.rs\<close>: a binary tree of splits with a focused pane. The
  allocation counter \<open>NEXT_PANE_ID\<close> is passed explicitly. \<open>Rect\<close> is the public data of the
  terminal UI library; its constructor \<open>Rect::new\<close> is the parameter \<open>rn\<close>. Coordinates are
  16-bit words that wrap, as in a release build. The borders of a pane, which the layout always
  leaves empty, are left out.
\<close>

section \<open>Data\<close>

record rect =
  rect_x :: u16
  rect_y :: u16
  rect_width :: u16
  rect_height :: u16

type_synonym rect_ctor = "u16 \<Rightarrow> u16 \<Rightarrow> u16 \<Rightarrow> u16 \<Rightarrow> rect"

type_synonym pane_id = u32

datatype direction = Horizontal | Vertical

datatype nav_direction = NavLeft | NavRight | NavUp | NavDown

record pane_info =
  pi_id :: pane_id
  pi_rect :: rect
  inner_rect :: rect
  scrollbar_rect :: "rect option"
  is_focused :: bool

record split_border =
  sb_pos :: u16
  sb_direction :: direction
  sb_ratio :: f32
  sb_area :: rect
  sb_path :: "bool list"

datatype node = Pane pane_id | Split direction f32 node node

record tile_layout =
  tree_root :: node
  focus :: pane_id

definition pane_id_alloc :: "u32 \<Rightarrow> pane_id \<times> u32" where
  "pane_id_alloc next_id = (next_id, next_id + 1)"

section \<open>Tree operations\<close>

fun count_panes :: "node \<Rightarrow> nat" where
  "count_panes (Pane _) = 1"
| "count_panes (Split _ _ first second) = count_panes first + count_panes second"

definition split_rect :: "rect_ctor \<Rightarrow> rect \<Rightarrow> direction \<Rightarrow> f32 \<Rightarrow> rect \<times> rect" where
  "split_rect rn area d ratio =
     (case d of
        Horizontal \<Rightarrow>
          let first_w = f32_as_u16 (f32_round (f32_mul (f32_of_u16 (rect_width area)) ratio));
              second_w = saturating_sub_u16 (rect_width area) first_w
          in (rn (rect_x area) (rect_y area) first_w (rect_height area),
              rn (rect_x area + first_w) (rect_y area) second_w (rect_height area))
      | Vertical \<Rightarrow>
          let first_h = f32_as_u16 (f32_round (f32_mul (f32_of_u16 (rect_height area)) ratio));
              second_h = saturating_sub_u16 (rect_height area) first_h
          in (rn (rect_x area) (rect_y area) (rect_width area) first_h,
              rn (rect_x area) (rect_y area + first_h) (rect_width area) second_h))"

fun collect_panes :: "rect_ctor \<Rightarrow> node \<Rightarrow> rect \<Rightarrow> pane_id \<Rightarrow> pane_info list \<Rightarrow> pane_info list" where
  "collect_panes rn (Pane i) area foc result =
     result @ [\<lparr>pi_id = i, pi_rect = area, inner_rect = area, scrollbar_rect = None,
                is_focused = (i = foc)\<rparr>]"
| "collect_panes rn (Split d ratio first second) area foc result =
     (let (a, b) = split_rect rn area d ratio
      in collect_panes rn second b foc (collect_panes rn first a foc result))"

fun collect_splits :: "rect_ctor \<Rightarrow> node \<Rightarrow> rect \<Rightarrow> bool list \<Rightarrow> split_border list \<Rightarrow> split_border list" where
  "collect_splits rn (Pane _) area path result = result"
| "collect_splits rn (Split d ratio first second) area path result =
     (let (a, b) = split_rect rn area d ratio;
          pos = (case d of Horizontal \<Rightarrow> rect_x a + rect_width a
                 | Vertical \<Rightarrow> rect_y a + rect_height a);
          result1 = result @ [\<lparr>sb_pos = pos, sb_direction = d, sb_ratio = ratio, sb_area = area,
                               sb_path = path\<rparr>]
      in collect_splits rn second b (path @ [True])
           (collect_splits rn first a (path @ [False]) result1))"

fun collect_ids :: "node \<Rightarrow> pane_id list \<Rightarrow> pane_id list" where
  "collect_ids (Pane i) ids = ids @ [i]"
| "collect_ids (Split _ _ first second) ids = collect_ids second (collect_ids first ids)"

fun split_ratios_from :: "node \<Rightarrow> bool list \<Rightarrow> (bool list \<times> f32) list \<Rightarrow> (bool list \<times> f32) list" where
  "split_ratios_from (Pane _) path out = out"
| "split_ratios_from (Split _ ratio first second) path out =
     split_ratios_from second (path @ [True])
       (split_ratios_from first (path @ [False]) (out @ [(path, ratio)]))"

definition split_ratios :: "node \<Rightarrow> (bool list \<times> f32) list" where
  "split_ratios n = split_ratios_from n [] []"

text \<open>\<open>==\<close> on the collected ratios: not a number differs from itself.\<close>

definition ratios_eq :: "(bool list \<times> f32) list \<Rightarrow> (bool list \<times> f32) list \<Rightarrow> bool" where
  "ratios_eq xs ys = list_all2 (\<lambda>(p, r) (q, s). p = q \<and> f32_eq r s) xs ys"

fun swap_pane_ids :: "pane_id \<Rightarrow> pane_id \<Rightarrow> node \<Rightarrow> node" where
  "swap_pane_ids a b (Pane i) = (if i = a then Pane b else if i = b then Pane a else Pane i)"
| "swap_pane_ids a b (Split d r first second) =
     Split d r (swap_pane_ids a b first) (swap_pane_ids a b second)"

fun split_at :: "node \<Rightarrow> pane_id \<Rightarrow> direction \<Rightarrow> pane_id \<Rightarrow> f32 \<Rightarrow> node" where
  "split_at (Pane i) target d new_id split_ratio =
     (if i = target then Split d split_ratio (Pane i) (Pane new_id) else Pane i)"
| "split_at (Split d' ratio first second) target d new_id split_ratio =
     Split d' ratio (split_at first target d new_id split_ratio)
       (split_at second target d new_id split_ratio)"

definition valid_split_ratio :: "f32 \<Rightarrow> f32" where
  "valid_split_ratio ratio =
     (if f32_is_finite ratio then f32_clamp ratio f32_tenth f32_nine_tenths else f32_half)"

fun remove_pane :: "node \<Rightarrow> pane_id \<Rightarrow> node option" where
  "remove_pane (Pane i) target = (if i = target then None else Some (Pane i))"
| "remove_pane (Split d ratio first second) target =
     (case (remove_pane first target, remove_pane second target) of
        (None, Some s) \<Rightarrow> Some s
      | (Some f, None) \<Rightarrow> Some f
      | (Some f, Some s) \<Rightarrow> Some (Split d ratio f s)
      | (None, None) \<Rightarrow> None)"

fun set_node_ratio_at :: "node \<Rightarrow> bool list \<Rightarrow> f32 \<Rightarrow> bool \<times> node" where
  "set_node_ratio_at (Pane i) path r = (False, Pane i)"
| "set_node_ratio_at (Split d ratio first second) [] r = (True, Split d r first second)"
| "set_node_ratio_at (Split d ratio first second) (b # path) r =
     (if b then let (ok, s) = set_node_ratio_at second path r in (ok, Split d ratio first s)
      else let (ok, f) = set_node_ratio_at first path r in (ok, Split d ratio f second))"

fun get_ratio_at :: "node \<Rightarrow> bool list \<Rightarrow> f32 option" where
  "get_ratio_at (Pane _) path = None"
| "get_ratio_at (Split _ ratio _ _) [] = Some ratio"
| "get_ratio_at (Split _ _ first second) (b # path) =
     (if b then get_ratio_at second path else get_ratio_at first path)"

section \<open>Directional navigation\<close>

definition ranges_overlap :: "u16 \<Rightarrow> u16 \<Rightarrow> u16 \<Rightarrow> u16 \<Rightarrow> bool" where
  "ranges_overlap a_start a_len b_start b_len \<longleftrightarrow>
     a_start < b_start + b_len \<and> a_start + a_len > b_start"

definition range_overlap_amount :: "u16 \<Rightarrow> u16 \<Rightarrow> u16 \<Rightarrow> u16 \<Rightarrow> u16" where
  "range_overlap_amount a_start a_len b_start b_len =
     (let a_end = saturating_add_u16 a_start a_len; b_end = saturating_add_u16 b_start b_len
      in saturating_sub_u16 (min a_end b_end) (max a_start b_start))"

definition range_center_distance :: "u16 \<Rightarrow> u16 \<Rightarrow> u16 \<Rightarrow> u16 \<Rightarrow> u16" where
  "range_center_distance a_start a_len b_start b_len =
     (let a_center = saturating_add_u16 (saturating_mul_u16 a_start 2) a_len;
          b_center = saturating_add_u16 (saturating_mul_u16 b_start 2) b_len
      in abs_diff_u16 a_center b_center)"

text \<open>The candidates in a direction, and the key they are ranked by (\<open>Reverse\<close> as a negation).\<close>

definition lies_in_direction :: "nav_direction \<Rightarrow> rect \<Rightarrow> rect \<Rightarrow> bool" where
  "lies_in_direction nav fr r =
     (case nav of
        NavLeft \<Rightarrow> rect_x r + rect_width r \<le> rect_x fr
          \<and> ranges_overlap (rect_y r) (rect_height r) (rect_y fr) (rect_height fr)
      | NavRight \<Rightarrow> rect_x r \<ge> rect_x fr + rect_width fr
          \<and> ranges_overlap (rect_y r) (rect_height r) (rect_y fr) (rect_height fr)
      | NavUp \<Rightarrow> rect_y r + rect_height r \<le> rect_y fr
          \<and> ranges_overlap (rect_x r) (rect_width r) (rect_x fr) (rect_width fr)
      | NavDown \<Rightarrow> rect_y r \<ge> rect_y fr + rect_height fr
          \<and> ranges_overlap (rect_x r) (rect_width r) (rect_x fr) (rect_width fr))"

definition edge_distance :: "nav_direction \<Rightarrow> rect \<Rightarrow> rect \<Rightarrow> u16" where
  "edge_distance nav fr r =
     (case nav of
        NavLeft \<Rightarrow> saturating_sub_u16 (rect_x fr) (rect_x r + rect_width r)
      | NavRight \<Rightarrow> saturating_sub_u16 (rect_x r) (rect_x fr + rect_width fr)
      | NavUp \<Rightarrow> saturating_sub_u16 (rect_y fr) (rect_y r + rect_height r)
      | NavDown \<Rightarrow> saturating_sub_u16 (rect_y r) (rect_y fr + rect_height fr))"

definition is_sideways :: "nav_direction \<Rightarrow> bool" where
  "is_sideways nav = (case nav of NavLeft \<Rightarrow> True | NavRight \<Rightarrow> True | _ \<Rightarrow> False)"

definition direction_key :: "nav_direction \<Rightarrow> rect \<Rightarrow> nat \<times> pane_info \<Rightarrow> u16 \<times> int \<times> u16 \<times> nat" where
  "direction_key nav fr e =
     (let (index, p) = e; r = pi_rect p;
          overlap = (if is_sideways nav
            then range_overlap_amount (rect_y r) (rect_height r) (rect_y fr) (rect_height fr)
            else range_overlap_amount (rect_x r) (rect_width r) (rect_x fr) (rect_width fr));
          center = (if is_sideways nav
            then range_center_distance (rect_y r) (rect_height r) (rect_y fr) (rect_height fr)
            else range_center_distance (rect_x r) (rect_width r) (rect_x fr) (rect_width fr))
      in (edge_distance nav fr r, - uint overlap, center, index))"

text \<open>\<open>Iterator::min_by_key\<close>: the first of the elements with the least key.\<close>

fun min_by_key :: "('a \<Rightarrow> 'k :: linorder) \<Rightarrow> 'a list \<Rightarrow> 'a option" where
  "min_by_key f [] = None"
| "min_by_key f (x # xs) =
     (case min_by_key f xs of None \<Rightarrow> Some x
      | Some y \<Rightarrow> if f y < f x then Some y else Some x)"

definition find_in_direction :: "pane_info \<Rightarrow> nav_direction \<Rightarrow> pane_info list \<Rightarrow> pane_id option" where
  "find_in_direction focused nav panes =
     map_option (\<lambda>(_, p). pi_id p)
       (min_by_key (direction_key nav (pi_rect focused))
         (filter (\<lambda>(_, p). lies_in_direction nav (pi_rect focused) (pi_rect p))
           (filter (\<lambda>(_, p). pi_id p \<noteq> pi_id focused) (enumerate 0 panes))))"

definition split_edge_distance :: "split_border \<Rightarrow> rect \<Rightarrow> nav_direction \<Rightarrow> nat" where
  "split_edge_distance s focused nav =
     (let pos = uint (sb_pos s)
      in case nav of
        NavLeft \<Rightarrow> nat \<bar>pos - uint (rect_x focused)\<bar>
      | NavRight \<Rightarrow> nat \<bar>pos - uint (rect_x focused + rect_width focused)\<bar>
      | NavUp \<Rightarrow> nat \<bar>pos - uint (rect_y focused)\<bar>
      | NavDown \<Rightarrow> nat \<bar>pos - uint (rect_y focused + rect_height focused)\<bar>)"

definition split_on_requested_edge :: "split_border \<Rightarrow> rect \<Rightarrow> nav_direction \<Rightarrow> bool" where
  "split_on_requested_edge s focused nav \<longleftrightarrow> split_edge_distance s focused nav \<le> 1"

definition split_area_overlaps_focused_pane :: "split_border \<Rightarrow> rect \<Rightarrow> nav_direction \<Rightarrow> bool" where
  "split_area_overlaps_focused_pane s focused nav =
     (if is_sideways nav
      then ranges_overlap (rect_y (sb_area s)) (rect_height (sb_area s))
             (rect_y focused) (rect_height focused)
      else ranges_overlap (rect_x (sb_area s)) (rect_width (sb_area s))
             (rect_x focused) (rect_width focused))"

definition nearest_resize_split ::
    "split_border list \<Rightarrow> direction \<Rightarrow> rect \<Rightarrow> nav_direction \<Rightarrow> split_border option" where
  "nearest_resize_split splits target_dir focused nav =
     min_by_key (\<lambda>s. split_edge_distance s focused nav)
       (filter (\<lambda>s. split_on_requested_edge s focused nav)
         (filter (\<lambda>s. split_area_overlaps_focused_pane s focused nav)
           (filter (\<lambda>s. sb_direction s = target_dir) splits)))"

fun opposite_direction :: "nav_direction \<Rightarrow> nav_direction" where
  "opposite_direction NavLeft = NavRight"
| "opposite_direction NavRight = NavLeft"
| "opposite_direction NavUp = NavDown"
| "opposite_direction NavDown = NavUp"

section \<open>The layout\<close>

definition new_layout :: "u32 \<Rightarrow> tile_layout \<times> pane_id \<times> u32" where
  "new_layout next_id =
     (let (root_id, next') = pane_id_alloc next_id
      in (\<lparr>tree_root = Pane root_id, focus = root_id\<rparr>, root_id, next'))"

definition pane_count :: "tile_layout \<Rightarrow> nat" where
  "pane_count l = count_panes (tree_root l)"

definition panes :: "rect_ctor \<Rightarrow> rect \<Rightarrow> tile_layout \<Rightarrow> pane_info list" where
  "panes rn area l = collect_panes rn (tree_root l) area (focus l) []"

definition splits :: "rect_ctor \<Rightarrow> rect \<Rightarrow> tile_layout \<Rightarrow> split_border list" where
  "splits rn area l = collect_splits rn (tree_root l) area [] []"

definition pane_ids :: "tile_layout \<Rightarrow> pane_id list" where
  "pane_ids l = collect_ids (tree_root l) []"

definition split_focused_with_ratio ::
    "direction \<Rightarrow> f32 \<Rightarrow> u32 \<Rightarrow> tile_layout \<Rightarrow> pane_id \<times> u32 \<times> tile_layout" where
  "split_focused_with_ratio d ratio next_id l =
     (let (new_id, next') = pane_id_alloc next_id
      in (new_id, next', \<lparr>tree_root = split_at (tree_root l) (focus l) d new_id (valid_split_ratio ratio),
                          focus = new_id\<rparr>))"

definition split_focused :: "direction \<Rightarrow> u32 \<Rightarrow> tile_layout \<Rightarrow> pane_id \<times> u32 \<times> tile_layout" where
  "split_focused d next_id l = split_focused_with_ratio d f32_half next_id l"

definition insert_pane_near ::
    "pane_id \<Rightarrow> pane_id \<Rightarrow> direction \<Rightarrow> f32 \<Rightarrow> tile_layout \<Rightarrow> bool \<times> tile_layout" where
  "insert_pane_near target moved d ratio l =
     (if target = moved then (False, l)
      else
        let ids = pane_ids l
        in if target \<notin> set ids \<or> moved \<in> set ids then (False, l)
           else (True, \<lparr>tree_root = split_at (tree_root l) target d moved (valid_split_ratio ratio),
                        focus = moved\<rparr>))"

text \<open>\<open>None\<close> is the panic of \<open>unwrap\<close> when the focused pane is not in the tree. The tree is
  replaced by a placeholder while the pane is removed, and stays so when nothing is left.\<close>

definition close_focused :: "tile_layout \<Rightarrow> (bool \<times> tile_layout) option" where
  "close_focused l =
     (if pane_count l \<le> 1 then Some (False, l)
      else
        let ids = pane_ids l
        in case position (\<lambda>i. i = focus l) ids of
             None \<Rightarrow> None
           | Some pos \<Rightarrow>
               let new_focus = (if pos + 1 < length ids then ids ! (pos + 1) else ids ! (pos - 1))
               in (case remove_pane (tree_root l) (focus l) of
                     Some new_root \<Rightarrow> Some (True, \<lparr>tree_root = new_root, focus = new_focus\<rparr>)
                   | None \<Rightarrow> Some (False, l\<lparr>tree_root := Pane 0\<rparr>)))"

definition focus_pane :: "pane_id \<Rightarrow> tile_layout \<Rightarrow> tile_layout" where
  "focus_pane i l = (if i \<in> set (pane_ids l) then l\<lparr>focus := i\<rparr> else l)"

definition swap_panes :: "pane_id \<Rightarrow> pane_id \<Rightarrow> tile_layout \<Rightarrow> bool \<times> tile_layout" where
  "swap_panes a b l =
     (if a = b then (False, l)
      else if a \<notin> set (pane_ids l) \<or> b \<notin> set (pane_ids l) then (False, l)
      else (True, l\<lparr>tree_root := swap_pane_ids a b (tree_root l)\<rparr>))"

definition set_ratio_at :: "bool list \<Rightarrow> f32 \<Rightarrow> tile_layout \<Rightarrow> bool \<times> tile_layout" where
  "set_ratio_at path ratio l =
     (let (ok, n) = set_node_ratio_at (tree_root l) path (f32_clamp ratio f32_tenth f32_nine_tenths)
      in (ok, l\<lparr>tree_root := n\<rparr>))"

definition resize_focused ::
    "rect_ctor \<Rightarrow> nav_direction \<Rightarrow> f32 \<Rightarrow> rect \<Rightarrow> tile_layout \<Rightarrow> tile_layout" where
  "resize_focused rn nav delta area l =
     (case find is_focused (panes rn area l) of
        None \<Rightarrow> l
      | Some focused \<Rightarrow>
          let ss = splits rn area l;
              target_dir = (if is_sideways nav then Horizontal else Vertical);
              grows = (nav = NavRight \<or> nav = NavDown);
              best = or_else (nearest_resize_split ss target_dir (pi_rect focused) nav)
                (nearest_resize_split ss target_dir (pi_rect focused) (opposite_direction nav))
          in (case best of
                None \<Rightarrow> l
              | Some s \<Rightarrow>
                  let current_ratio = unwrap_or (get_ratio_at (tree_root l) (sb_path s)) f32_half;
                      adj = (if grows then delta else f32_neg delta)
                  in snd (set_ratio_at (sb_path s) (f32_add current_ratio adj) l)))"

definition resize_pane ::
    "rect_ctor \<Rightarrow> pane_id \<Rightarrow> nav_direction \<Rightarrow> f32 \<Rightarrow> rect \<Rightarrow> tile_layout \<Rightarrow> bool \<times> tile_layout" where
  "resize_pane rn i nav delta area l =
     (if i \<notin> set (pane_ids l) then (False, l)
      else
        let l1 = resize_focused rn nav delta area (l\<lparr>focus := i\<rparr>);
            l2 = l1\<lparr>focus := focus l\<rparr>
        in (\<not> ratios_eq (split_ratios (tree_root l2)) (split_ratios (tree_root l)), l2))"

end
