(* ===== verification/Layout_Properties.thy ===== *)
theory Layout_Properties
  imports Layout
begin

text \<open>
  The layout keeps its promises: the panes tile the area, the tree stays well formed under every
  operation, and each operation changes only what it says.
\<close>

named_theorems ids "pane identifiers after an operation"

section \<open>Trees\<close>

abbreviation ids_of :: "node \<Rightarrow> pane_id list" where
  "ids_of n \<equiv> collect_ids n []"

lemma collect_ids_acc: "collect_ids n acc = acc @ ids_of n"
proof (induction n arbitrary: acc)
  case (Split d r f s)
  show ?case using Split.IH(1) [of acc] Split.IH(2) [of "acc @ ids_of f"] Split.IH(2) [of "ids_of f"]
    by simp
qed simp

lemma ids_of_Split [simp]: "ids_of (Split d r f s) = ids_of f @ ids_of s"
  using collect_ids_acc [of s "ids_of f"] by simp

declare collect_ids.simps(2) [simp del]

lemma ids_nonempty [simp]: "ids_of n \<noteq> []"
  by (induction n) simp_all

lemma count_panes_ids: "count_panes n = length (ids_of n)"
  by (induction n) simp_all

lemma split_at_ids [ids]:
  "ids_of (split_at n t d i r) = concat (map (\<lambda>j. if j = t then [t, i] else [j]) (ids_of n))"
  by (induction n) simp_all

lemma swap_ids [ids]:
  "ids_of (swap_pane_ids a b n) = map (\<lambda>i. if i = a then b else if i = b then a else i) (ids_of n)"
  by (induction n) simp_all

lemma remove_pane_ids:
  "case remove_pane n t of None \<Rightarrow> filter (\<lambda>i. i \<noteq> t) (ids_of n) = []
   | Some m \<Rightarrow> ids_of m = filter (\<lambda>i. i \<noteq> t) (ids_of n)"
proof (induction n)
  case (Split d r f s)
  then show ?case by (auto split: option.splits)
qed simp

lemma set_node_ratio_ids [ids]: "ids_of (snd (set_node_ratio_at n p r)) = ids_of n"
  by (induction n p r rule: set_node_ratio_at.induct) (auto split: prod.splits)

lemma split_at_absent: "t \<notin> set (ids_of n) \<Longrightarrow> split_at n t d i r = n"
  by (induction n) auto

lemma remove_absent: "t \<notin> set (ids_of n) \<Longrightarrow> remove_pane n t = Some n"
  by (induction n) auto

lemma remove_split_at:
  "i \<notin> set (ids_of n) \<Longrightarrow> i \<noteq> t \<Longrightarrow> remove_pane (split_at n t d i r) i = Some n"
  by (induction n) auto

lemma swap_swap: "swap_pane_ids a b (swap_pane_ids a b n) = n"
  by (induction n) auto

section \<open>Ratios\<close>

fun ratios_ok :: "node \<Rightarrow> bool" where
  "ratios_ok (Pane _) = True"
| "ratios_ok (Split _ r f s) \<longleftrightarrow> f32_unit r \<and> ratios_ok f \<and> ratios_ok s"

lemma valid_ratio_unit: "f32_unit (valid_split_ratio r)"
proof (cases "f32_is_finite r")
  case True
  then show ?thesis by (simp only: valid_split_ratio_def if_True f32_clamp_unit)
next
  case False
  then show ?thesis by (simp add: valid_split_ratio_def f32_half_def f32_unit_def)
qed

lemma split_at_ratios: "ratios_ok n \<Longrightarrow> f32_unit r \<Longrightarrow> ratios_ok (split_at n t d i r)"
  by (induction n) auto

lemma swap_ratios: "ratios_ok (swap_pane_ids a b n) = ratios_ok n"
  by (induction n) auto

lemma remove_ratios_all: "ratios_ok n \<Longrightarrow> is_none_or ratios_ok (remove_pane n t)"
proof (induction n)
  case (Split d r f s)
  then show ?case by (cases "remove_pane f t"; cases "remove_pane s t") auto
qed simp

lemma remove_ratios: "ratios_ok n \<Longrightarrow> remove_pane n t = Some m \<Longrightarrow> ratios_ok m"
  using remove_ratios_all [of n t] by simp

lemma set_node_ratios: "ratios_ok n \<Longrightarrow> f32_unit r \<Longrightarrow> ratios_ok (snd (set_node_ratio_at n p r))"
  by (induction n p r rule: set_node_ratio_at.induct) (auto split: prod.splits)

section \<open>The invariant\<close>

text \<open>Identifiers are distinct and below the counter, the focused pane is in the tree, and every
  ratio gives the first child a share of the split.\<close>

definition layout_ok :: "u32 \<times> tile_layout \<Rightarrow> bool" where
  "layout_ok s = (case s of (next_id, l) \<Rightarrow>
     distinct (pane_ids l) \<and> focus l \<in> set (pane_ids l) \<and> (\<forall>i \<in> set (pane_ids l). i < next_id)
     \<and> ratios_ok (tree_root l))"

text \<open>The operations of a tab on its layout, and the allocation of identifiers by other tabs. The
  counter has not wrapped: fewer than \<open>2 ^ 32 - 1\<close> panes were ever allocated.\<close>

inductive layout_step :: "rect_ctor \<Rightarrow> u32 \<times> tile_layout \<Rightarrow> u32 \<times> tile_layout \<Rightarrow> bool"
  for rn :: rect_ctor where
  split: "unat n < 4294967295 \<Longrightarrow> split_focused_with_ratio d r n l = (i, n', l') \<Longrightarrow> layout_step rn (n, l) (n', l')"
| elsewhere: "unat n < 4294967295 \<Longrightarrow> pane_id_alloc n = (i, n') \<Longrightarrow> layout_step rn (n, l) (n', l)"
| moved: "m < n \<Longrightarrow> insert_pane_near t m d r l = (b, l') \<Longrightarrow> layout_step rn (n, l) (n, l')"
| closed: "close_focused l = Some (b, l') \<Longrightarrow> layout_step rn (n, l) (n, l')"
| focused: "layout_step rn (n, l) (n, focus_pane i l)"
| swapped: "swap_panes a c l = (b, l') \<Longrightarrow> layout_step rn (n, l) (n, l')"
| ratio: "set_ratio_at p r l = (b, l') \<Longrightarrow> layout_step rn (n, l) (n, l')"
| resized: "layout_step rn (n, l) (n, resize_focused rn nav delta area l)"
| pane_resized: "resize_pane rn i nav delta area l = (b, l') \<Longrightarrow> layout_step rn (n, l) (n, l')"

definition layout_init :: "u32 \<times> tile_layout \<Rightarrow> bool" where
  "layout_init s \<longleftrightarrow> (\<exists>n l i n'. unat n < 4294967295 \<and> new_layout n = (l, i, n') \<and> s = (n', l))"

lemma next_id_less: "unat n < 4294967295 \<Longrightarrow> (n :: u32) < n + 1"
proof -
  assume "unat n < 4294967295"
  then have "unat (n + 1) = unat n + 1"
    by (simp add: unat_word_ariths)
  then show ?thesis by (simp add: word_less_nat_alt)
qed

text \<open>What a resize does: the ratio of one split.\<close>

lemma set_ratio_eq:
  "snd (set_ratio_at p r l) =
     l\<lparr>tree_root := snd (set_node_ratio_at (tree_root l) p (f32_clamp r f32_tenth f32_nine_tenths))\<rparr>"
  by (simp add: set_ratio_at_def case_prod_beta)

lemma resize_focused_cases:
  "resize_focused rn nav delta area l = l
   \<or> (\<exists>p r. resize_focused rn nav delta area l = snd (set_ratio_at p r l))"
  unfolding resize_focused_def Let_def by (simp split: option.split) blast

lemma layout_ok_refocus:
  "layout_ok (n, l) \<Longrightarrow> i \<in> set (pane_ids l) \<Longrightarrow> layout_ok (n, l\<lparr>focus := i\<rparr>)"
  by (simp add: layout_ok_def pane_ids_def)

lemma set_ratio_ok: "layout_ok (n, l) \<Longrightarrow> layout_ok (n, snd (set_ratio_at p r l))"
  by (simp add: layout_ok_def set_ratio_eq pane_ids_def ids set_node_ratios f32_clamp_unit)

lemma resize_ok: "layout_ok (n, l) \<Longrightarrow> layout_ok (n, resize_focused rn nav delta area l)"
  using resize_focused_cases [of rn nav delta area l] set_ratio_ok by metis

lemma resize_ids:
  "pane_ids (resize_focused rn nav delta area l) = pane_ids l"
  "focus (resize_focused rn nav delta area l) = focus l"
  using resize_focused_cases [of rn nav delta area l] by (auto simp: set_ratio_eq pane_ids_def ids)

lemma split_ids_absent: "t \<notin> set xs \<Longrightarrow> concat (map (\<lambda>j. if j = t then [t, i] else [j]) xs) = xs"
  by (induction xs) auto

lemma split_ids_facts:
  assumes "distinct xs" "t \<in> set xs" "i \<notin> set xs"
  shows "distinct (concat (map (\<lambda>j. if j = t then [t, i] else [j]) xs))"
    "set (concat (map (\<lambda>j. if j = t then [t, i] else [j]) xs)) = insert i (set xs)"
  using assms by (induction xs) (auto simp: split_ids_absent)

lemma split_ok:
  assumes "layout_ok (n, l)" "t \<in> set (pane_ids l)" "i \<notin> set (pane_ids l)" "i < m" "n \<le> m"
  shows "layout_ok (m, \<lparr>tree_root = split_at (tree_root l) t d i (valid_split_ratio r), focus = i\<rparr>)"
  using assms split_ids_facts [of "pane_ids l" t i]
  by (auto simp: layout_ok_def pane_ids_def ids split_at_ratios valid_ratio_unit
      dest: order.strict_trans2)

lemma swap_map_facts:
  assumes "distinct xs" "a \<in> set xs" "b \<in> set xs"
  shows "distinct (map (\<lambda>i. if i = a then b else if i = b then a else i) xs)"
    "set (map (\<lambda>i. if i = a then b else if i = b then a else i) xs) = set xs"
proof -
  let ?f = "\<lambda>i. if i = a then b else if i = b then a else i"
  have "inj ?f" by (auto intro: injI split: if_splits)
  then show "distinct (map ?f xs)" using assms(1) by (simp add: distinct_map inj_on_subset [OF _ subset_UNIV])
  show "set (map ?f xs) = set xs" using assms(2,3) by (auto simp: image_iff split: if_splits)
qed

lemma swap_ok: "layout_ok (n, l) \<Longrightarrow> swap_panes a c l = (b, l') \<Longrightarrow> layout_ok (n, l')"
  using swap_map_facts [of "pane_ids l" a c]
  by (auto simp: swap_panes_def layout_ok_def pane_ids_def ids swap_ratios split: if_splits)

text \<open>Closing a pane.\<close>

lemma position_Some: "x \<in> set xs \<Longrightarrow> \<exists>k. position (\<lambda>y. y = x) xs = Some k \<and> k < length xs \<and> xs ! k = x"
proof (induction xs)
  case (Cons a xs)
  show ?case
  proof (cases "a = x")
    case True
    then show ?thesis by (simp add: position_def)
  next
    case False
    then obtain k where "position (\<lambda>y. y = x) xs = Some k" "k < length xs" "xs ! k = x"
      using Cons by auto
    then show ?thesis using False by (auto simp: position_def split: if_splits)
  qed
qed simp

lemma close_focused_eq:
  assumes "distinct (pane_ids l)" "focus l \<in> set (pane_ids l)" "1 < length (pane_ids l)"
  obtains k m where "k < length (pane_ids l)" "pane_ids l ! k = focus l"
    "remove_pane (tree_root l) (focus l) = Some m"
    "ids_of m = filter (\<lambda>i. i \<noteq> focus l) (pane_ids l)"
    "close_focused l = Some (True, \<lparr>tree_root = m,
       focus = (if k + 1 < length (pane_ids l) then pane_ids l ! (k + 1) else pane_ids l ! (k - 1))\<rparr>)"
proof -
  note d = assms(1) and f = assms(2)
  obtain k where k: "position (\<lambda>y. y = focus l) (pane_ids l) = Some k" "k < length (pane_ids l)"
      "pane_ids l ! k = focus l"
    using position_Some [OF f] by blast
  have "filter (\<lambda>i. i \<noteq> focus l) (pane_ids l) \<noteq> []"
  proof
    assume "filter (\<lambda>i. i \<noteq> focus l) (pane_ids l) = []"
    then have "set (pane_ids l) \<subseteq> {focus l}" by (auto simp: filter_empty_conv)
    then have "card (set (pane_ids l)) \<le> 1" by (metis card.empty card_insert_le_m1 card_mono
          finite.emptyI finite.insertI is_singletonI is_singleton_altdef le_numeral_extra(4))
    then show False using assms(3) distinct_card [OF d] by simp
  qed
  then obtain m where m: "remove_pane (tree_root l) (focus l) = Some m"
      "ids_of m = filter (\<lambda>i. i \<noteq> focus l) (pane_ids l)"
    using remove_pane_ids [where n = "tree_root l" and t = "focus l"] by (auto simp: pane_ids_def split: option.splits)
  have "pane_count l = length (pane_ids l)" by (simp add: pane_count_def pane_ids_def count_panes_ids)
  then show ?thesis
    using that [OF k(2,3) m] k(1) m(1) assms(3) by (simp add: close_focused_def Let_def)
qed

lemma neighbour_other:
  assumes "distinct xs" "k < length xs" "1 < length xs"
  shows "(if k + 1 < length xs then xs ! (k + 1) else xs ! (k - 1)) \<in> set xs - {xs ! k}"
  using assms by (auto simp: nth_eq_iff_index_eq)

lemma close_ok: "layout_ok (n, l) \<Longrightarrow> close_focused l = Some (b, l') \<Longrightarrow> layout_ok (n, l')"
proof (cases "1 < length (pane_ids l)")
  case False
  moreover assume "layout_ok (n, l)" "close_focused l = Some (b, l')"
  ultimately show ?thesis
    by (simp add: close_focused_def pane_count_def count_panes_ids pane_ids_def)
next
  case True
  assume ok: "layout_ok (n, l)" and c: "close_focused l = Some (b, l')"
  have d: "distinct (pane_ids l)" "focus l \<in> set (pane_ids l)" using ok by (simp_all add: layout_ok_def)
  obtain k m where k: "k < length (pane_ids l)" "pane_ids l ! k = focus l"
    and m: "remove_pane (tree_root l) (focus l) = Some m" "ids_of m = filter (\<lambda>i. i \<noteq> focus l) (pane_ids l)"
    and e: "close_focused l = Some (True, \<lparr>tree_root = m,
       focus = (if k + 1 < length (pane_ids l) then pane_ids l ! (k + 1) else pane_ids l ! (k - 1))\<rparr>)"
    by (rule close_focused_eq [OF d True])
  from neighbour_other [OF d(1) k(1) True] show ?thesis
    using ok c e m remove_ratios [OF _ m(1)] k(2)
    by (auto simp: layout_ok_def pane_ids_def split: if_splits)
qed

lemma layout_step_ok: "layout_step rn s s' \<Longrightarrow> layout_ok s \<Longrightarrow> layout_ok s'"
proof (induction rule: layout_step.induct)
  case (split n d r l i n' l')
  have n: "n < n + 1" "n \<le> n + 1" using next_id_less [OF split(1)] by simp_all
  have "i = n" "n' = n + 1" and l': "l' = \<lparr>tree_root = split_at (tree_root l) (focus l) d n (valid_split_ratio r), focus = n\<rparr>"
    using split(2) by (auto simp: split_focused_with_ratio_def pane_id_alloc_def)
  then show ?case
    using split_ok [OF split(3), of "focus l" n "n + 1" d r] split(3) n
    by (auto simp: layout_ok_def)
next
  case (elsewhere n i n' l)
  have "n < n + 1" using next_id_less [OF elsewhere(1)] .
  then show ?case using elsewhere(2,3) by (auto simp: layout_ok_def pane_id_alloc_def)
next
  case (moved m n t d r l b l')
  then show ?case
    by (auto simp: insert_pane_near_def Let_def intro!: split_ok split: if_splits)
next
  case (closed l b l' n)
  then show ?case using close_ok by blast
next
  case (focused n l i)
  then show ?case by (simp add: focus_pane_def layout_ok_refocus)
next
  case (swapped a c l b l' n)
  then show ?case using swap_ok by blast
next
  case (ratio p r l b l' n)
  then show ?case using set_ratio_ok [of n l p r] by simp
next
  case (resized n l nav delta area)
  then show ?case by (rule resize_ok)
next
  case (pane_resized i nav delta area l b l' n)
  show ?case
  proof (cases "i \<in> set (pane_ids l)")
    case True
    let ?l1 = "resize_focused rn nav delta area (l\<lparr>focus := i\<rparr>)"
    have "layout_ok (n, ?l1)" using resize_ok layout_ok_refocus pane_resized(2) True by blast
    moreover have "focus l \<in> set (pane_ids ?l1)"
      using pane_resized(2) by (simp add: layout_ok_def resize_ids) (simp add: pane_ids_def)
    ultimately have "layout_ok (n, ?l1\<lparr>focus := focus l\<rparr>)" by (rule layout_ok_refocus)
    then show ?thesis using pane_resized(1) True by (auto simp: resize_pane_def Let_def)
  next
    case False
    then show ?thesis using pane_resized by (simp add: resize_pane_def)
  qed
qed

lemma layout_init_ok: "layout_init s \<Longrightarrow> layout_ok s"
proof -
  assume "layout_init s"
  then obtain n where "unat n < 4294967295" "s = (n + 1, \<lparr>tree_root = Pane n, focus = n\<rparr>)"
    by (auto simp: layout_init_def new_layout_def pane_id_alloc_def)
  then show ?thesis using next_id_less by (simp add: layout_ok_def pane_ids_def)
qed

interpretation layout: invariant layout_init "layout_step rn" layout_ok for rn
  by unfold_locales (use layout_init_ok layout_step_ok in blast)+

end
