(* ===== verification/Layout_Claims.thy ===== *)
theory Layout_Claims
  imports Layout_Properties
begin

text \<open>The properties of the layout: tiling, the operations on the tree, and navigation.\<close>

section \<open>Tiling\<close>

definition rect_fits :: "rect \<Rightarrow> bool" where
  "rect_fits r \<longleftrightarrow> unat (rect_x r) + unat (rect_width r) < 65536
     \<and> unat (rect_y r) + unat (rect_height r) < 65536"

text \<open>The documented behaviour of \<open>Rect::new\<close>: it keeps what it is given while the rectangle ends
  within the 16-bit coordinates.\<close>

definition rect_ctor_keeps :: "rect_ctor \<Rightarrow> bool" where
  "rect_ctor_keeps rn \<longleftrightarrow> (\<forall>x y w h. unat x + unat w < 65536 \<and> unat y + unat h < 65536 \<longrightarrow>
     rn x y w h = \<lparr>rect_x = x, rect_y = y, rect_width = w, rect_height = h\<rparr>)"

definition in_rect :: "nat \<times> nat \<Rightarrow> rect \<Rightarrow> bool" where
  "in_rect c r \<longleftrightarrow> unat (rect_x r) \<le> fst c \<and> fst c < unat (rect_x r) + unat (rect_width r)
     \<and> unat (rect_y r) \<le> snd c \<and> snd c < unat (rect_y r) + unat (rect_height r)"

text \<open>Cutting a length.\<close>

lemma cut_length:
  assumes "unat x + unat w < 65536" "f32_unit r"
    and "a = f32_as_u16 (f32_round (f32_mul (f32_of_u16 w) r))"
  shows "unat a \<le> unat w" "unat (saturating_sub_u16 w a) = unat w - unat a"
    "unat (x + a) = unat x + unat a"
proof -
  have le: "a \<le> w" using f32_share_le [OF assms(2)] assms(3) by simp
  then show ale: "unat a \<le> unat w" by (simp add: word_le_nat_alt)
  show "unat (saturating_sub_u16 w a) = unat w - unat a"
    using le by (simp add: saturating_sub_u16_def unat_sub)
  show "unat (x + a) = unat x + unat a"
    using ale assms(1) by (simp add: unat_word_ariths)
qed

lemma split_rect_cuts:
  assumes "rect_ctor_keeps rn" "rect_fits area" "f32_unit r" "split_rect rn area d r = (a, b)"
  shows "rect_fits a" "rect_fits b"
    "in_rect c area \<longleftrightarrow> in_rect c a \<or> in_rect c b" "\<not> (in_rect c a \<and> in_rect c b)"
proof -
  have new: "rn x y w h = \<lparr>rect_x = x, rect_y = y, rect_width = w, rect_height = h\<rparr>"
    if "unat x + unat w < 65536" "unat y + unat h < 65536" for x y w h
    using assms(1) that by (simp add: rect_ctor_keeps_def)
  have f: "unat (rect_x area) + unat (rect_width area) < 65536"
    "unat (rect_y area) + unat (rect_height area) < 65536"
    using assms(2) by (simp_all add: rect_fits_def)
  have "rect_fits a \<and> rect_fits b \<and> (in_rect c area \<longleftrightarrow> in_rect c a \<or> in_rect c b)
      \<and> \<not> (in_rect c a \<and> in_rect c b)"
  proof (cases d)
    case Horizontal
    note w = cut_length [OF f(1) assms(3) refl]
    show ?thesis using assms(4) Horizontal f w
      by (auto simp: split_rect_def Let_def new rect_fits_def in_rect_def)
  next
    case Vertical
    note h = cut_length [OF f(2) assms(3) refl]
    show ?thesis using assms(4) Vertical f h
      by (auto simp: split_rect_def Let_def new rect_fits_def in_rect_def)
  qed
  then show "rect_fits a" "rect_fits b"
    "in_rect c area \<longleftrightarrow> in_rect c a \<or> in_rect c b" "\<not> (in_rect c a \<and> in_rect c b)"
    by blast+
qed

definition cover :: "nat \<times> nat \<Rightarrow> pane_info list \<Rightarrow> nat" where
  "cover c ps = length (filter (\<lambda>p. in_rect c (pi_rect p)) ps)"

lemma cover_append [simp]: "cover c (ps @ qs) = cover c ps + cover c qs"
  by (simp add: cover_def)

lemma collect_panes_cover:
  assumes "rect_ctor_keeps rn"
  shows "rect_fits area \<Longrightarrow> ratios_ok n \<Longrightarrow>
     cover c (collect_panes rn n area foc res) = cover c res + (if in_rect c area then 1 else 0)"
proof (induction n arbitrary: area res)
  case (Pane i)
  then show ?case by (simp add: cover_def)
next
  case (Split d r f s)
  obtain a b where ab: "split_rect rn area d r = (a, b)" by (cases "split_rect rn area d r")
  have "f32_unit r" using Split.prems(2) by simp
  note cut = split_rect_cuts [OF assms Split.prems(1) this ab]
  show ?case using Split.IH cut(1,2) cut(3,4) [of c] Split.prems(2) by (auto simp: ab)
qed

lemma collect_panes_ids:
  "map pi_id (collect_panes rn n area foc res) = map pi_id res @ ids_of n"
  by (induction n arbitrary: area res) (auto split: prod.splits)

lemma collect_panes_focused:
  "filter is_focused (collect_panes rn n area foc res) =
     filter is_focused res @ filter is_focused (collect_panes rn n area foc [])
   \<and> map pi_id (filter is_focused (collect_panes rn n area foc [])) = filter (\<lambda>i. i = foc) (ids_of n)"
proof (induction n arbitrary: area res)
  case (Split d r f s)
  obtain a b where ab: "split_rect rn area d r = (a, b)" by (cases "split_rect rn area d r")
  show ?case
    using Split.IH(1) [of a res] Split.IH(1) [of a "[]"]
      Split.IH(2) [of b "collect_panes rn f a foc res"] Split.IH(2) [of b "collect_panes rn f a foc []"]
    by (simp add: ab)
qed simp

lemma distinct_filter_one: "distinct xs \<Longrightarrow> x \<in> set xs \<Longrightarrow> filter (\<lambda>y. y = x) xs = [x]"
  by (induction xs) (auto simp: filter_empty_conv)

text \<open>C16. The panes tile the area: in every layout a program reaches, every cell of the area belongs
  to exactly one pane and no pane reaches outside it; there is one entry per pane of the tree, in
  order, and exactly one of them is the focused one.\<close>

theorem panes_tile_the_area:
  assumes "reachable layout_init (layout_step rn) (n, l)"
    and "rect_ctor_keeps rn" "rect_fits area"
  shows "length (filter (\<lambda>p. in_rect c (pi_rect p)) (panes rn area l)) = (if in_rect c area then 1 else 0)
    \<and> map pi_id (panes rn area l) = pane_ids l
    \<and> map pi_id (filter is_focused (panes rn area l)) = [focus l]"
proof -
  have ok: "layout_ok (n, l)" by (rule layout.reachable_inv [OF assms(1)])
  then have one: "filter (\<lambda>i. i = focus l) (pane_ids l) = [focus l]"
    using distinct_filter_one [of "pane_ids l" "focus l"] by (simp add: layout_ok_def)
  show ?thesis
    using collect_panes_cover [OF assms(2,3), of "tree_root l" c "focus l" "[]"] ok one
      collect_panes_ids [of rn "tree_root l" area "focus l" "[]"]
      collect_panes_focused [of rn "tree_root l" area "focus l" "[]"]
    by (simp add: panes_def layout_ok_def cover_def pane_ids_def)
qed

section \<open>A small layout\<close>

text \<open>A pane split once, and a constructor that keeps its arguments.\<close>

definition plain_rect :: rect_ctor where
  "plain_rect x y w h = \<lparr>rect_x = x, rect_y = y, rect_width = w, rect_height = h\<rparr>"

definition two_panes :: tile_layout where
  "two_panes = \<lparr>tree_root = Split Horizontal f32_half (Pane 1) (Pane 2), focus = 2\<rparr>"

lemma two_panes_reachable: "reachable layout_init (layout_step plain_rect) (3, two_panes)"
proof -
  have "layout_init (2, \<lparr>tree_root = Pane 1, focus = 1\<rparr>)"
    unfolding layout_init_def new_layout_def pane_id_alloc_def
    by (rule exI [of _ 1]) simp
  then have one: "reachable layout_init (layout_step plain_rect) (2, \<lparr>tree_root = Pane 1, focus = 1\<rparr>)"
    by (rule reachable.start)
  have "split_focused_with_ratio Horizontal f32_half 2 \<lparr>tree_root = Pane 1, focus = 1\<rparr> = (2, 3, two_panes)"
    by (simp add: split_focused_with_ratio_def pane_id_alloc_def two_panes_def valid_split_ratio_def
        f32_half_def f32_is_finite_def f32_clamp_def f32_tenth_def f32_nine_tenths_def)
  from reachable.step [OF one layout_step.split [OF _ this]] show ?thesis by simp
qed

lemma two_panes_ids [simp]: "pane_ids two_panes = [1, 2]"
  by (simp add: pane_ids_def two_panes_def)

lemma two_panes_focus [simp]: "focus two_panes = 2"
  by (simp add: two_panes_def)

section \<open>The tree\<close>

text \<open>C17. The tree stays well formed: in every layout a program reaches, pane identifiers are
  distinct, the focused pane is one of them, every ratio gives the first child a share, and
  closing the focused pane cannot panic.\<close>

theorem layout_stays_well_formed:
  assumes "reachable layout_init (layout_step rn) (n, l)"
  shows "distinct (pane_ids l) \<and> focus l \<in> set (pane_ids l) \<and> (\<forall>i \<in> set (pane_ids l). i < n)
    \<and> ratios_ok (tree_root l) \<and> close_focused l \<noteq> None"
proof -
  have ok: "layout_ok (n, l)" by (rule layout.reachable_inv [OF assms])
  then have d: "distinct (pane_ids l)" "focus l \<in> set (pane_ids l)" by (simp_all add: layout_ok_def)
  have "close_focused l \<noteq> None"
  proof (cases "1 < length (pane_ids l)")
    case True
    then show ?thesis using close_focused_eq [OF d] by (metis option.discI)
  next
    case False
    then show ?thesis by (simp add: close_focused_def pane_count_def count_panes_ids pane_ids_def)
  qed
  then show ?thesis using ok by (simp add: layout_ok_def)
qed

theorem layout_stays_well_formed_witness:
  "distinct (pane_ids two_panes) \<and> close_focused two_panes \<noteq> None"
  using layout_stays_well_formed [OF two_panes_reachable] by blast

theorem panes_tile_the_area_witness:
  "length (filter (\<lambda>p. in_rect (5, 3) (pi_rect p)) (panes plain_rect (plain_rect 0 0 80 24) two_panes)) = 1"
proof -
  have "rect_ctor_keeps plain_rect" "rect_fits (plain_rect 0 0 80 24)"
    by (simp_all add: rect_ctor_keeps_def plain_rect_def rect_fits_def)
  from panes_tile_the_area [OF two_panes_reachable this, of "(5, 3)"] show ?thesis
    by (simp add: in_rect_def plain_rect_def)
qed

text \<open>C33. Closing removes the focused pane and nothing else: it is refused exactly for the last
  pane, the other panes keep their order, and the focus moves to the next pane, or to the
  previous one when the last was closed.\<close>

theorem close_removes_the_focused_pane:
  assumes "reachable layout_init (layout_step rn) (n, l)" "close_focused l = Some (ok, l')"
  shows "(ok \<longleftrightarrow> 1 < length (pane_ids l))
    \<and> (\<not> ok \<longrightarrow> l' = l)
    \<and> (ok \<longrightarrow> pane_ids l' = filter (\<lambda>i. i \<noteq> focus l) (pane_ids l)
         \<and> (\<exists>k < length (pane_ids l). pane_ids l ! k = focus l
              \<and> focus l' = (if k + 1 < length (pane_ids l) then pane_ids l ! (k + 1)
                           else pane_ids l ! (k - 1))))"
proof -
  have "layout_ok (n, l)" by (rule layout.reachable_inv [OF assms(1)])
  then have d: "distinct (pane_ids l)" "focus l \<in> set (pane_ids l)" by (simp_all add: layout_ok_def)
  show ?thesis
  proof (cases "1 < length (pane_ids l)")
    case True
    show ?thesis
      by (rule close_focused_eq [OF d True]) (use assms(2) True in \<open>auto simp: pane_ids_def\<close>)
  next
    case False
    then show ?thesis using assms(2)
      by (simp add: close_focused_def pane_count_def count_panes_ids pane_ids_def)
  qed
qed

theorem close_removes_the_focused_pane_witness:
  "\<exists>l'. close_focused two_panes = Some (True, l') \<and> pane_ids l' = [1] \<and> focus l' = 1"
proof -
  have c: "close_focused two_panes = Some (True, \<lparr>tree_root = Pane 1, focus = 1\<rparr>)"
    by (simp add: close_focused_def pane_count_def position_def) (simp add: two_panes_def)
  from close_removes_the_focused_pane [OF two_panes_reachable c] show ?thesis using c by simp
qed

text \<open>Splitting adds exactly one pane, right after the focused one, and focuses it; closing it
  again restores the tree.\<close>

theorem split_then_close:
  assumes "reachable layout_init (layout_step rn) (n, l)"
    and "split_focused_with_ratio d r n l = (i, n', l')"
  shows "i \<notin> set (pane_ids l) \<and> focus l' = i
    \<and> pane_ids l' = concat (map (\<lambda>j. if j = focus l then [j, i] else [j]) (pane_ids l))
    \<and> (\<exists>l''. close_focused l' = Some (True, l'') \<and> tree_root l'' = tree_root l)"
proof -
  have inv: "layout_ok (n, l)" by (rule layout.reachable_inv [OF assms(1)])
  have i: "i = n" and l': "l' = \<lparr>tree_root = split_at (tree_root l) (focus l) d i (valid_split_ratio r), focus = i\<rparr>"
    using assms(2) by (auto simp: split_focused_with_ratio_def pane_id_alloc_def)
  have new: "i \<notin> set (pane_ids l)" using inv i by (auto simp: layout_ok_def)
  have foc: "focus l \<in> set (pane_ids l)" and d: "distinct (pane_ids l)"
    using inv by (simp_all add: layout_ok_def)
  have ids': "pane_ids l' = concat (map (\<lambda>j. if j = focus l then [focus l, i] else [j]) (pane_ids l))"
    by (simp add: l' pane_ids_def ids)
  have "i \<noteq> focus l" using new foc by auto
  then have rm: "remove_pane (tree_root l') i = Some (tree_root l)"
    using new by (simp add: l' remove_split_at pane_ids_def)
  have mem: "i \<in> set (pane_ids l')" "{focus l, i} \<subseteq> set (pane_ids l')"
    using split_ids_facts(2) [OF d foc new] foc unfolding ids' by auto
  then have "2 \<le> length (pane_ids l')"
    using card_mono [OF finite_set mem(2)] \<open>i \<noteq> focus l\<close> card_length [of "pane_ids l'"] by simp
  then have "1 < pane_count l'" by (simp add: pane_count_def count_panes_ids pane_ids_def)
  moreover obtain k where "position (\<lambda>y. y = i) (pane_ids l') = Some k"
    using position_Some [OF mem(1)] by blast
  moreover have "focus l' = i" by (simp add: l')
  ultimately have "\<exists>l''. close_focused l' = Some (True, l'') \<and> tree_root l'' = tree_root l"
    using rm by (simp add: close_focused_def Let_def)
  moreover have "concat (map (\<lambda>j. if j = focus l then [focus l, i] else [j]) (pane_ids l))
      = concat (map (\<lambda>j. if j = focus l then [j, i] else [j]) (pane_ids l))"
    by (intro arg_cong [where f = concat] map_cong) auto
  ultimately show ?thesis using new ids' by (simp add: l')
qed

theorem split_then_close_witness:
  "pane_ids (snd (snd (split_focused_with_ratio Vertical f32_half 3 two_panes))) = [1, 2, 3]"
proof -
  have s: "split_focused_with_ratio Vertical f32_half 3 two_panes =
      (3, 4, snd (snd (split_focused_with_ratio Vertical f32_half 3 two_panes)))"
    by (simp add: split_focused_with_ratio_def pane_id_alloc_def)
  from split_then_close [OF two_panes_reachable s] show ?thesis by simp
qed

fun pane_rects :: "rect_ctor \<Rightarrow> node \<Rightarrow> rect \<Rightarrow> rect list" where
  "pane_rects rn (Pane i) area = [area]"
| "pane_rects rn (Split d r f s) area =
     pane_rects rn f (fst (split_rect rn area d r)) @ pane_rects rn s (snd (split_rect rn area d r))"

lemma collect_panes_rects:
  "map pi_rect (collect_panes rn n area foc res) = map pi_rect res @ pane_rects rn n area"
  by (induction n arbitrary: area res) (simp_all add: case_prod_beta)

lemma pane_rects_swap: "pane_rects rn (swap_pane_ids a b n) area = pane_rects rn n area"
  by (induction n arbitrary: area) simp_all

text \<open>Swapping exchanges two panes and nothing else: every position keeps its rectangle, the two
  identifiers trade places, and swapping again restores the layout.\<close>

theorem swap_exchanges_panes:
  assumes "swap_panes a b l = (True, l')"
  shows "map pi_rect (panes rn area l') = map pi_rect (panes rn area l)
    \<and> pane_ids l' = map (\<lambda>i. if i = a then b else if i = b then a else i) (pane_ids l)
    \<and> swap_panes a b l' = (True, l)"
proof -
  have ab: "a \<noteq> b" "a \<in> set (pane_ids l)" "b \<in> set (pane_ids l)"
    and l': "l' = l\<lparr>tree_root := swap_pane_ids a b (tree_root l)\<rparr>"
    using assms by (auto simp: swap_panes_def split: if_splits)
  have i: "pane_ids l' = map (\<lambda>i. if i = a then b else if i = b then a else i) (pane_ids l)"
    by (simp add: l' pane_ids_def ids)
  have "a \<in> set (pane_ids l')" "b \<in> set (pane_ids l')"
    using ab by (auto simp: i image_iff)
  then have "swap_panes a b l' = (True, l)"
    using ab(1) by (simp add: swap_panes_def l' swap_swap)
  then show ?thesis using i by (simp add: panes_def l' collect_panes_rects pane_rects_swap)
qed

theorem swap_exchanges_panes_witness:
  "pane_ids (snd (swap_panes 1 2 two_panes)) = [2, 1]"
proof -
  have s: "swap_panes 1 2 two_panes = (True, snd (swap_panes 1 2 two_panes))"
    by (simp add: swap_panes_def)
  from swap_exchanges_panes [OF s] show ?thesis by simp
qed

section \<open>Ratios\<close>

fun shape :: "node \<Rightarrow> node" where
  "shape (Pane i) = Pane i"
| "shape (Split d r f s) = Split d f32_half (shape f) (shape s)"

fun ratio_list :: "node \<Rightarrow> f32 list" where
  "ratio_list (Pane i) = []"
| "ratio_list (Split d r f s) = r # ratio_list f @ ratio_list s"

lemma shape_ratio_length: "shape m = shape n \<Longrightarrow> length (ratio_list m) = length (ratio_list n)"
proof (induction m arbitrary: n)
  case (Split d r f s)
  obtain r' f' s' where n: "n = Split d r' f' s'" "shape f = shape f'" "shape s = shape s'"
    using Split.prems by (cases n) auto
  show ?case using Split.IH(1) [OF n(2)] Split.IH(2) [OF n(3)] by (simp add: n(1))
next
  case (Pane i)
  then show ?case by (cases n) auto
qed

lemma shape_ratios_eq: "shape m = shape n \<Longrightarrow> ratio_list m = ratio_list n \<Longrightarrow> m = n"
proof (induction m arbitrary: n)
  case (Split d r f s)
  obtain r' f' s' where n: "n = Split d r' f' s'" "shape f = shape f'" "shape s = shape s'"
    using Split.prems(1) by (cases n) auto
  have "r = r'" "ratio_list f = ratio_list f'" "ratio_list s = ratio_list s'"
    using Split.prems(2) shape_ratio_length [OF n(2)] by (simp_all add: n(1))
  then show ?case using Split.IH(1) [OF n(2)] Split.IH(2) [OF n(3)] by (simp add: n(1))
next
  case (Pane i)
  then show ?case by (cases n) auto
qed

lemma split_ratios_list: "map snd (split_ratios_from n p out) = map snd out @ ratio_list n"
  by (induction n arbitrary: p out) auto

lemma ratios_eq_imp: "ratios_eq xs ys \<Longrightarrow> map snd xs = map snd ys"
  unfolding ratios_eq_def by (induction rule: list_all2_induct) (auto simp: f32_eq_def)

lemma set_node_ratio_shape: "shape (snd (set_node_ratio_at n p r)) = shape n"
  by (induction n p r rule: set_node_ratio_at.induct) (auto split: prod.splits)

lemma set_node_ratio_get:
  "get_ratio_at (snd (set_node_ratio_at n p r)) q =
     (if q = p \<and> get_ratio_at n p \<noteq> None then Some r else get_ratio_at n q)"
proof (induction n p r arbitrary: q rule: set_node_ratio_at.induct)
  case (2 d ratio first second r)
  then show ?case by (cases q) auto
next
  case (3 d ratio first second b path r)
  then show ?case by (cases q) (auto split: prod.splits)
qed simp

lemma set_node_ratio_ok: "fst (set_node_ratio_at n p r) \<longleftrightarrow> get_ratio_at n p \<noteq> None"
  by (induction n p r rule: set_node_ratio_at.induct) (auto split: prod.splits)

text \<open>Setting a ratio changes that ratio only: it succeeds exactly when the path leads to a
  split, whose ratio becomes the clamped value; every other ratio, the panes and the focus stay.\<close>

theorem set_ratio_is_local:
  assumes "set_ratio_at p r l = (ok, l')"
  shows "(ok \<longleftrightarrow> get_ratio_at (tree_root l) p \<noteq> None)
    \<and> get_ratio_at (tree_root l') q =
        (if q = p \<and> ok then Some (f32_clamp r f32_tenth f32_nine_tenths)
         else get_ratio_at (tree_root l) q)
    \<and> pane_ids l' = pane_ids l \<and> focus l' = focus l"
proof -
  let ?r = "f32_clamp r f32_tenth f32_nine_tenths"
  have "ok = fst (set_node_ratio_at (tree_root l) p ?r)"
    and l': "l' = l\<lparr>tree_root := snd (set_node_ratio_at (tree_root l) p ?r)\<rparr>"
    using assms by (auto simp: set_ratio_at_def split: prod.splits)
  then show ?thesis by (simp add: set_node_ratio_ok set_node_ratio_get pane_ids_def ids)
qed

theorem set_ratio_is_local_witness:
  "get_ratio_at (tree_root (snd (set_ratio_at [] (Fin 2) two_panes))) [] = Some f32_nine_tenths"
proof -
  have "f32_clamp (Fin 2) f32_tenth f32_nine_tenths = f32_nine_tenths"
    by (simp add: f32_clamp_def f32_tenth_def f32_nine_tenths_def)
  moreover have "get_ratio_at (tree_root two_panes) [] \<noteq> None" by (simp add: two_panes_def)
  ultimately show ?thesis
    using set_ratio_is_local [OF surjective_pairing, of "[]" "Fin 2" two_panes "[]"] by simp
qed

text \<open>A resize of a pane moves one divider at most: the panes, their order and the focus stay,
  all ratios but one stay, and when it reports no change the layout is untouched.\<close>

theorem resize_moves_one_divider:
  assumes "resize_pane rn i nav delta area l = (changed, l')"
  shows "pane_ids l' = pane_ids l \<and> focus l' = focus l
    \<and> (\<exists>p. \<forall>q. q \<noteq> p \<longrightarrow> get_ratio_at (tree_root l') q = get_ratio_at (tree_root l) q)
    \<and> (\<not> changed \<longrightarrow> l' = l)"
proof (cases "i \<in> set (pane_ids l)")
  case False
  then show ?thesis using assms by (simp add: resize_pane_def)
next
  case True
  let ?l1 = "resize_focused rn nav delta area (l\<lparr>focus := i\<rparr>)"
  have l': "l' = ?l1\<lparr>focus := focus l\<rparr>"
    and ch: "changed \<longleftrightarrow> \<not> ratios_eq (split_ratios (tree_root ?l1)) (split_ratios (tree_root l))"
    using assms True by (auto simp: resize_pane_def Let_def)
  have "\<exists>p r. tree_root ?l1 = tree_root l \<or> tree_root ?l1 = snd (set_node_ratio_at (tree_root l) p r)"
    using resize_focused_cases [of rn nav delta area "l\<lparr>focus := i\<rparr>"]
  proof
    assume "\<exists>p r. ?l1 = snd (set_ratio_at p r (l\<lparr>focus := i\<rparr>))"
    then obtain p r where "?l1 = snd (set_ratio_at p r (l\<lparr>focus := i\<rparr>))" by blast
    then show ?thesis by (simp add: set_ratio_eq) blast
  qed simp
  then obtain p r where root: "tree_root ?l1 = tree_root l \<or>
      tree_root ?l1 = snd (set_node_ratio_at (tree_root l) p r)" by blast
  have "\<not> changed \<Longrightarrow> tree_root ?l1 = tree_root l"
  proof (rule shape_ratios_eq)
    show "shape (tree_root ?l1) = shape (tree_root l)" using root set_node_ratio_shape by metis
    assume "\<not> changed"
    then show "ratio_list (tree_root ?l1) = ratio_list (tree_root l)"
      using ch ratios_eq_imp by (fastforce simp: split_ratios_def split_ratios_list)
  qed
  then have "\<not> changed \<longrightarrow> l' = l" using l' by simp
  moreover have "pane_ids l' = pane_ids l"
    using resize_ids(1) [of rn nav delta area "l\<lparr>focus := i\<rparr>"] by (simp add: l' pane_ids_def)
  moreover have "\<forall>q. q \<noteq> p \<longrightarrow> get_ratio_at (tree_root l') q = get_ratio_at (tree_root l) q"
    using root by (auto simp: l' set_node_ratio_get)
  ultimately show ?thesis by (auto simp: l')
qed

theorem resize_moves_one_divider_witness:
  "pane_ids (snd (resize_pane plain_rect 1 NavRight f32_tenth (plain_rect 0 0 80 24) two_panes)) = [1, 2]"
  using resize_moves_one_divider [OF surjective_pairing,
      of plain_rect 1 NavRight f32_tenth "plain_rect 0 0 80 24" two_panes] by simp

section \<open>Navigation\<close>

lemma min_by_key_None [simp]: "min_by_key f xs = None \<longleftrightarrow> xs = []"
  by (cases xs) (auto split: option.split)

lemma min_by_key_Some: "min_by_key f xs = Some x \<Longrightarrow> x \<in> set xs \<and> (\<forall>y \<in> set xs. f x \<le> f y)"
proof (induction xs arbitrary: x)
  case (Cons a xs)
  show ?case
  proof (cases "min_by_key f xs")
    case None
    then show ?thesis using Cons.prems by simp
  next
    case (Some y)
    have y: "y \<in> set xs" "\<forall>z \<in> set xs. f y \<le> f z" using Cons.IH [OF Some] by simp_all
    show ?thesis using Cons.prems Some y by (auto split: if_splits intro: order.trans less_imp_le)
  qed
qed simp

text \<open>The edges of a rectangle, as integers. It fits when no edge is beyond the last coordinate.\<close>

definition left_edge :: "rect \<Rightarrow> int" where "left_edge r = uint (rect_x r)"
definition right_edge :: "rect \<Rightarrow> int" where "right_edge r = uint (rect_x r) + uint (rect_width r)"
definition top_edge :: "rect \<Rightarrow> int" where "top_edge r = uint (rect_y r)"
definition bottom_edge :: "rect \<Rightarrow> int" where "bottom_edge r = uint (rect_y r) + uint (rect_height r)"

lemmas edges = left_edge_def right_edge_def top_edge_def bottom_edge_def

definition fits :: "rect \<Rightarrow> bool" where
  "fits r \<longleftrightarrow> right_edge r < 65536 \<and> bottom_edge r < 65536"

text \<open>How far \<open>r\<close> is from \<open>fr\<close> on a side, negative when it is not wholly on that side.\<close>

fun gap :: "nav_direction \<Rightarrow> rect \<Rightarrow> rect \<Rightarrow> int" where
  "gap NavLeft fr r = left_edge fr - right_edge r"
| "gap NavRight fr r = left_edge r - right_edge fr"
| "gap NavUp fr r = top_edge fr - bottom_edge r"
| "gap NavDown fr r = top_edge r - bottom_edge fr"

text \<open>Whether two rectangles are level with each other: side by side their rows meet, one above the
  other their columns do; and the number of rows or columns they share.\<close>

fun level :: "nav_direction \<Rightarrow> rect \<Rightarrow> rect \<Rightarrow> bool" where
  "level NavLeft fr r = (top_edge r < bottom_edge fr \<and> top_edge fr < bottom_edge r)"
| "level NavRight fr r = (top_edge r < bottom_edge fr \<and> top_edge fr < bottom_edge r)"
| "level NavUp fr r = (left_edge r < right_edge fr \<and> left_edge fr < right_edge r)"
| "level NavDown fr r = (left_edge r < right_edge fr \<and> left_edge fr < right_edge r)"

fun shared :: "nav_direction \<Rightarrow> rect \<Rightarrow> rect \<Rightarrow> int" where
  "shared NavLeft fr r = max 0 (min (bottom_edge r) (bottom_edge fr) - max (top_edge r) (top_edge fr))"
| "shared NavRight fr r = max 0 (min (bottom_edge r) (bottom_edge fr) - max (top_edge r) (top_edge fr))"
| "shared NavUp fr r = max 0 (min (right_edge r) (right_edge fr) - max (left_edge r) (left_edge fr))"
| "shared NavDown fr r = max 0 (min (right_edge r) (right_edge fr) - max (left_edge r) (left_edge fr))"

lemma level_shares:
  assumes "rect_width r \<noteq> 0" "rect_height r \<noteq> 0" "rect_width fr \<noteq> 0" "rect_height fr \<noteq> 0"
  shows "level nav fr r \<longleftrightarrow> 0 < shared nav fr r"
proof -
  have "0 < uint (rect_width r)" "0 < uint (rect_height r)" "0 < uint (rect_width fr)" "0 < uint (rect_height fr)"
    using assms by (simp_all add: word_neq_0_conv word_less_def)
  then show ?thesis by (cases nav) (auto simp: edges)
qed

text \<open>The conditions of the code, in these terms.\<close>

lemma uint_sum_u16: "uint a + uint b < 65536 \<Longrightarrow> uint (a + b :: u16) = uint a + uint b"
  by (simp add: uint_word_ariths)

lemma uint_saturating_sub_u16: "uint (saturating_sub_u16 a b) = max 0 (uint a - uint b)"
proof (cases "a < b")
  case True
  then show ?thesis by (simp add: saturating_sub_u16_def word_less_def)
next
  case False
  then have "uint (a - b) = uint a - uint b" by (intro uint_minus_simple_alt [THEN iffD1]) simp
  then show ?thesis using False by (simp add: saturating_sub_u16_def word_less_def)
qed

lemma direction_is_geometric:
  assumes "fits fr" "fits r"
  shows "lies_in_direction nav fr r \<longleftrightarrow> 0 \<le> gap nav fr r \<and> level nav fr r"
  using assms
  by (cases nav) (auto simp: lies_in_direction_def ranges_overlap_def fits_def edges uint_sum_u16
      word_le_def word_less_def)

lemma distance_is_geometric:
  assumes "fits fr" "fits r" "0 \<le> gap nav fr r"
  shows "uint (edge_distance nav fr r) = gap nav fr r"
  using assms
  by (cases nav) (auto simp: edge_distance_def fits_def edges uint_sum_u16 uint_saturating_sub_u16)

lemma overlap_is_geometric:
  assumes "uint a + uint n < 65536" "uint b + uint m < 65536"
  shows "uint (range_overlap_amount a n b m) =
    max 0 (min (uint a + uint n) (uint b + uint m) - max (uint a) (uint b))"
proof -
  have "unat x + unat y < 65536" if "uint x + uint y < 65536" for x y :: u16
    using that unfolding uint_nat by linarith
  then have ends: "uint (saturating_add_u16 a n) = uint a + uint n" "uint (saturating_add_u16 b m) = uint b + uint m"
    using assms by (simp_all add: saturating_add_u16_def uint_sum_u16)
  have mm: "uint (min x y) = min (uint x) (uint y)" "uint (max x y) = max (uint x) (uint y)" for x y :: u16
    by (simp_all add: min_def max_def word_le_def)
  show ?thesis by (simp add: range_overlap_amount_def Let_def uint_saturating_sub_u16 ends mm)
qed

lemma ranking_is_geometric:
  assumes "fits fr" "fits (pi_rect p)" "fits (pi_rect q)" "0 \<le> gap nav fr (pi_rect p)" "0 \<le> gap nav fr (pi_rect q)"
    and "direction_key nav fr (j, p) \<le> direction_key nav fr (k, q)"
  shows "gap nav fr (pi_rect p) < gap nav fr (pi_rect q)
    \<or> gap nav fr (pi_rect p) = gap nav fr (pi_rect q) \<and> shared nav fr (pi_rect q) \<le> shared nav fr (pi_rect p)"
proof -
  let ?o = "\<lambda>r. if is_sideways nav then range_overlap_amount (rect_y r) (rect_height r) (rect_y fr) (rect_height fr)
      else range_overlap_amount (rect_x r) (rect_width r) (rect_x fr) (rect_width fr)"
  have o: "uint (?o r) = shared nav fr r" if "fits r" for r
    using assms(1) that by (cases nav) (simp_all add: is_sideways_def overlap_is_geometric fits_def edges)
  have "edge_distance nav fr (pi_rect p) < edge_distance nav fr (pi_rect q)
      \<or> edge_distance nav fr (pi_rect p) = edge_distance nav fr (pi_rect q) \<and> - uint (?o (pi_rect p)) \<le> - uint (?o (pi_rect q))"
    using assms(6) by (auto simp: direction_key_def Let_def less_eq_prod_def less_prod_def)
  then show ?thesis
    using o [OF assms(2)] o [OF assms(3)] distance_is_geometric [OF assms(1,2,4)] distance_is_geometric [OF assms(1,3,5)]
    unfolding word_less_def by auto
qed

text \<open>C35. Moving the focus finds the nearest pane. Among the other panes that lie wholly on the asked
  side of the focused one and are level with it, the result has the smallest gap to it and, of
  those with that gap, the most rows or columns in common with it; there is a result whenever
  there is such a pane. The rectangles lie within the coordinates of a screen; side, level, gap and
  common rows are those of the plane.\<close>

theorem navigation_finds_nearest:
  assumes "fits (pi_rect focused)" "\<forall>p \<in> set ps. fits (pi_rect p)"
    and "candidates = {p \<in> set ps. pi_id p \<noteq> pi_id focused
           \<and> 0 \<le> gap nav (pi_rect focused) (pi_rect p) \<and> level nav (pi_rect focused) (pi_rect p)}"
  shows "case find_in_direction focused nav ps of
      None \<Rightarrow> candidates = {}
    | Some i \<Rightarrow> \<exists>p \<in> candidates. pi_id p = i
        \<and> (\<forall>p' \<in> candidates. gap nav (pi_rect focused) (pi_rect p) < gap nav (pi_rect focused) (pi_rect p')
             \<or> gap nav (pi_rect focused) (pi_rect p) = gap nav (pi_rect focused) (pi_rect p')
               \<and> shared nav (pi_rect focused) (pi_rect p') \<le> shared nav (pi_rect focused) (pi_rect p))"
proof -
  let ?fr = "pi_rect focused"
  let ?cs = "filter (\<lambda>(_, p). lies_in_direction nav ?fr (pi_rect p))
      (filter (\<lambda>(_, p). pi_id p \<noteq> pi_id focused) (enumerate 0 ps))"
  have mem: "(\<exists>k. (k, p) \<in> set ?cs) \<longleftrightarrow> p \<in> candidates" for p
  proof -
    have "(\<exists>k. (k, p) \<in> set (enumerate 0 ps)) \<longleftrightarrow> p \<in> set ps"
      by (simp add: in_set_enumerate_eq in_set_conv_nth [of p ps])
    then show ?thesis using assms direction_is_geometric [of ?fr "pi_rect p" nav] by auto
  qed
  have find: "find_in_direction focused nav ps = map_option (\<lambda>(_, p). pi_id p)
      (min_by_key (direction_key nav ?fr) ?cs)"
    by (simp add: find_in_direction_def)
  show ?thesis
  proof (cases "min_by_key (direction_key nav ?fr) ?cs")
    case None
    then have "?cs = []" by (simp only: min_by_key_None)
    then have "p \<notin> candidates" for p using mem [of p] by simp
    then show ?thesis using find None by auto
  next
    case (Some e)
    obtain k p where e: "e = (k, p)" by (cases e)
    note m = min_by_key_Some [OF Some]
    have p: "p \<in> candidates" using m mem [of p] e by auto
    have best: "gap nav ?fr (pi_rect p) < gap nav ?fr (pi_rect p')
        \<or> gap nav ?fr (pi_rect p) = gap nav ?fr (pi_rect p') \<and> shared nav ?fr (pi_rect p') \<le> shared nav ?fr (pi_rect p)"
      if p': "p' \<in> candidates" for p'
    proof -
      obtain k' where "(k', p') \<in> set ?cs" using mem [of p'] p' by blast
      then have "direction_key nav ?fr (k, p) \<le> direction_key nav ?fr (k', p')" using m e by blast
      then show ?thesis using p p' assms by (intro ranking_is_geometric) auto
    qed
    show ?thesis using find Some e p best by auto
  qed
qed

theorem navigation_finds_nearest_witness:
  "let left = \<lparr>pi_id = 1, pi_rect = plain_rect 0 0 40 24, inner_rect = plain_rect 0 0 40 24,
               scrollbar_rect = None, is_focused = False\<rparr>;
       right = \<lparr>pi_id = 2, pi_rect = plain_rect 40 0 40 24, inner_rect = plain_rect 40 0 40 24,
               scrollbar_rect = None, is_focused = True\<rparr>
   in find_in_direction right NavLeft [left, right] = Some 1"
proof -
  let ?l = "\<lparr>pi_id = 1, pi_rect = plain_rect 0 0 40 24, inner_rect = plain_rect 0 0 40 24,
      scrollbar_rect = None, is_focused = False\<rparr>"
  let ?r = "\<lparr>pi_id = 2, pi_rect = plain_rect 40 0 40 24, inner_rect = plain_rect 40 0 40 24,
      scrollbar_rect = None, is_focused = True\<rparr>"
  have "fits (pi_rect ?r) \<and> fits (pi_rect ?l)"
    and near: "0 \<le> gap NavLeft (pi_rect ?r) (pi_rect ?l)" "level NavLeft (pi_rect ?r) (pi_rect ?l)"
    by (simp_all add: fits_def edges plain_rect_def)
  then have fit: "fits (pi_rect ?r)" "\<forall>p \<in> set [?l, ?r]. fits (pi_rect p)" by simp_all
  define candidates where "candidates = {p \<in> set [?l, ?r]. pi_id p \<noteq> pi_id ?r
      \<and> 0 \<le> gap NavLeft (pi_rect ?r) (pi_rect p) \<and> level NavLeft (pi_rect ?r) (pi_rect p)}"
  have c: "?l \<in> candidates" using near by (simp add: candidates_def)
  have only: "pi_id p = 1" if "p \<in> candidates" for p using that by (auto simp: candidates_def)
  note found = navigation_finds_nearest [OF fit candidates_def]
  have "find_in_direction ?r NavLeft [?l, ?r] = Some 1"
  proof (cases "find_in_direction ?r NavLeft [?l, ?r]")
    case None
    with found have "candidates = {}" by simp
    with c show ?thesis by blast
  next
    case (Some i)
    with found have "\<exists>p \<in> candidates. pi_id p = i" by auto
    with only Some show ?thesis by auto
  qed
  then show ?thesis by (simp only: Let_def)
qed

end
