(* ===== verification/Screen_Publish.thy ===== *)
theory Screen_Publish
  imports Detect
begin

text \<open>
  What a pane does with the state its screen shows, \<open>src/pane/agent_detection.rs\<close>: whether the
  screen is read at all, whether a change is published, and the confirmation that holds back a
  plain idle screen of a working agent, because agents redraw between two steps of their work.
  Durations are in nanoseconds; \<open>duration_since\<close> saturates at zero, as the subtraction of natural
  numbers does.
\<close>

type_synonym u8 = "8 word"

definition saturating_add_u8 :: "u8 \<Rightarrow> u8 \<Rightarrow> u8" where
  "saturating_add_u8 a b = (if unat a + unat b < 256 then a + b else 255)"

definition millis :: "nat \<Rightarrow> duration" where
  "millis n = n * 1000000"

definition AGENT_PENDING_IDLE_RECHECK :: duration where
  "AGENT_PENDING_IDLE_RECHECK = millis 100"

definition AGENT_PENDING_IDLE_CONFIRMATIONS :: u8 where
  "AGENT_PENDING_IDLE_CONFIRMATIONS = 3"

definition AGENT_PENDING_IDLE_CAP :: duration where
  "AGENT_PENDING_IDLE_CAP = millis 700"

definition STABLE_VISIBLE_SIGNAL_REFRESH :: duration where
  "STABLE_VISIBLE_SIGNAL_REFRESH = millis 800"

definition AGENT_STARTUP_GRACE_WINDOW :: duration where
  "AGENT_STARTUP_GRACE_WINDOW = millis 3000"

record detection_publish_state =
  dp_state :: agent_state
  dp_visible_idle :: bool
  dp_visible_blocker :: bool
  dp_visible_working :: bool

section \<open>Holding back an idle screen\<close>

record pending_idle_confirmation =
  started_at :: "instant option"
  confirmations :: u8

definition no_pending_idle :: pending_idle_confirmation where
  "no_pending_idle = \<lparr>started_at = None, confirmations = 0\<rparr>"

definition pending_idle_active :: "pending_idle_confirmation \<Rightarrow> bool" where
  "pending_idle_active p \<longleftrightarrow> started_at p \<noteq> None"

definition clear_pending_idle :: "pending_idle_confirmation \<Rightarrow> pending_idle_confirmation" where
  "clear_pending_idle p = p\<lparr>started_at := None, confirmations := 0\<rparr>"

definition is_working_to_plain_idle ::
    "detection_publish_state \<Rightarrow> detection_publish_state \<Rightarrow> bool \<Rightarrow> bool \<Rightarrow> bool" where
  "is_working_to_plain_idle previous nxt agent_changed process_exited \<longleftrightarrow>
     dp_state previous = Working \<and> dp_state nxt = Idle \<and> \<not> dp_visible_idle nxt
     \<and> \<not> dp_visible_blocker nxt \<and> \<not> agent_changed \<and> \<not> process_exited"

definition should_hold_working_to_idle ::
    "detection_publish_state \<Rightarrow> detection_publish_state \<Rightarrow> bool \<Rightarrow> bool \<Rightarrow> instant \<Rightarrow>
     pending_idle_confirmation \<Rightarrow> bool \<times> pending_idle_confirmation" where
  "should_hold_working_to_idle previous nxt agent_changed process_exited now p =
     (if \<not> is_working_to_plain_idle previous nxt agent_changed process_exited
      then (False, clear_pending_idle p)
      else case started_at p of
        None \<Rightarrow> (True, p\<lparr>started_at := Some now, confirmations := 0\<rparr>)
      | Some start \<Rightarrow>
          if now - start \<ge> AGENT_PENDING_IDLE_CAP then (False, clear_pending_idle p)
          else
            let p1 = p\<lparr>confirmations := saturating_add_u8 (confirmations p) 1\<rparr>
            in if confirmations p1 \<ge> AGENT_PENDING_IDLE_CONFIRMATIONS
               then (False, clear_pending_idle p1)
               else (True, p1))"

section \<open>Reading the screen\<close>

record detection_screen_read_input =
  sr_state :: agent_state
  sr_agent :: "agent option"
  sr_pending_idle_active :: bool
  sr_agent_changed :: bool
  sr_process_exited :: bool
  sr_content_seq :: "u64 option"
  sr_last_content_seq :: "u64 option"

definition should_skip_idle_screen_scan :: "detection_screen_read_input \<Rightarrow> bool" where
  "should_skip_idle_screen_scan i \<longleftrightarrow>
     (if sr_state i \<noteq> Idle \<or> sr_agent i = None \<or> sr_pending_idle_active i \<or> sr_agent_changed i
         \<or> sr_process_exited i
      then False
      else sr_content_seq i \<noteq> None \<and> sr_last_content_seq i = sr_content_seq i)"

datatype screen_read_decision = Read | Skip

definition decide_detection_screen_read :: "detection_screen_read_input \<Rightarrow> screen_read_decision" where
  "decide_detection_screen_read i = (if should_skip_idle_screen_scan i then Skip else Read)"

section \<open>Publishing\<close>

definition should_publish_detection_update ::
    "detection_publish_state \<Rightarrow> detection_publish_state \<Rightarrow> bool \<Rightarrow> bool \<Rightarrow> bool \<Rightarrow> bool" where
  "should_publish_detection_update previous nxt agent_changed process_exited refresh_due \<longleftrightarrow>
     dp_state nxt \<noteq> dp_state previous
     \<or> dp_visible_idle nxt \<noteq> dp_visible_idle previous
     \<or> dp_visible_blocker nxt \<noteq> dp_visible_blocker previous
     \<or> dp_visible_working nxt \<noteq> dp_visible_working previous
     \<or> agent_changed \<or> process_exited
     \<or> (refresh_due \<and> dp_visible_blocker nxt \<and> dp_visible_blocker previous)"

definition stable_visible_signal_refresh_due ::
    "detection_publish_state \<Rightarrow> detection_publish_state \<Rightarrow> instant option \<Rightarrow> instant \<Rightarrow> bool" where
  "stable_visible_signal_refresh_due previous nxt last_refresh now \<longleftrightarrow>
     dp_visible_blocker nxt \<and> dp_visible_blocker previous
     \<and> is_none_or (\<lambda>refreshed. now - refreshed \<ge> STABLE_VISIBLE_SIGNAL_REFRESH) last_refresh"

datatype transition_decision = NoPublish | PublishNext

definition decide_detection_transition ::
    "detection_publish_state \<Rightarrow> detection_publish_state \<Rightarrow> bool \<Rightarrow> bool \<Rightarrow> bool \<Rightarrow> instant \<Rightarrow>
     pending_idle_confirmation \<Rightarrow> transition_decision \<times> pending_idle_confirmation" where
  "decide_detection_transition previous nxt agent_changed process_exited refresh_due now p =
     (let (hold, p1) = should_hold_working_to_idle previous nxt agent_changed process_exited now p
      in if hold then (NoPublish, p1)
         else if should_publish_detection_update previous nxt agent_changed process_exited refresh_due
         then (PublishNext, p1)
         else (NoPublish, p1))"

text \<open>\<open>stabilize_agent_detection\<close> of \<open>src/terminal/state.rs\<close>.\<close>

definition stabilize_agent_detection :: "agent_detection \<Rightarrow> agent_state" where
  "stabilize_agent_detection d = det_state d"

record screen_detection_publish_input =
  sp_current_state :: agent_state
  sp_last_visible_idle :: bool
  sp_last_visible_blocker :: bool
  sp_last_visible_working :: bool
  sp_last_visible_signal_refresh :: "instant option"
  sp_screen_detection :: agent_detection
  sp_process_exited :: bool
  sp_agent_changed :: bool
  sp_now :: instant

record detection_publish =
  pub_state :: agent_state
  pub_visible_idle :: bool
  pub_visible_blocker :: bool
  pub_visible_working :: bool
  pub_process_exited :: bool

definition previous_publish :: "screen_detection_publish_input \<Rightarrow> detection_publish_state" where
  "previous_publish i = \<lparr>dp_state = sp_current_state i, dp_visible_idle = sp_last_visible_idle i,
     dp_visible_blocker = sp_last_visible_blocker i, dp_visible_working = sp_last_visible_working i\<rparr>"

definition next_publish :: "screen_detection_publish_input \<Rightarrow> detection_publish_state" where
  "next_publish i =
     (let d = sp_screen_detection i; new_state = stabilize_agent_detection d
      in \<lparr>dp_state = new_state,
          dp_visible_idle = (det_visible_idle d \<and> new_state = Idle),
          dp_visible_blocker = (det_visible_blocker d \<and> new_state = Blocked),
          dp_visible_working = (det_visible_working d \<and> new_state = Working)\<rparr>)"

text \<open>\<open>DetectionPublishDecision\<close> is the optional update.\<close>

definition decide_screen_detection_publish ::
    "screen_detection_publish_input \<Rightarrow> pending_idle_confirmation \<Rightarrow>
     detection_publish option \<times> pending_idle_confirmation" where
  "decide_screen_detection_publish i p =
     (let previous = previous_publish i; nxt = next_publish i;
          refresh_due = stable_visible_signal_refresh_due previous nxt
            (sp_last_visible_signal_refresh i) (sp_now i);
          (decision, p1) = decide_detection_transition previous nxt (sp_agent_changed i)
            (sp_process_exited i) refresh_due (sp_now i) p
      in (case decision of
            NoPublish \<Rightarrow> (None, p1)
          | PublishNext \<Rightarrow>
              (Some \<lparr>pub_state = dp_state nxt, pub_visible_idle = dp_visible_idle nxt,
                     pub_visible_blocker = dp_visible_blocker nxt,
                     pub_visible_working = dp_visible_working nxt,
                     pub_process_exited = sp_process_exited i\<rparr>, p1)))"

text \<open>The rules for the screens of the agents (\<open>src/detect/manifest.rs\<close>) are data; a rule set is
  what the detection sees of them.\<close>

record screen_rules =
  detect_with_osc :: "agent \<Rightarrow> text \<Rightarrow> text \<Rightarrow> text \<Rightarrow> agent_detection"
  skip_state_update :: "agent \<Rightarrow> text \<Rightarrow> bool"

definition detect_agent_with_osc ::
    "screen_rules \<Rightarrow> agent option \<Rightarrow> text \<Rightarrow> text \<Rightarrow> text \<Rightarrow> agent_detection" where
  "detect_agent_with_osc rules agent content osc_title osc_progress =
     (case agent of
        None \<Rightarrow> \<lparr>det_state = Unknown, det_skip_state_update = False, det_visible_idle = False,
                 det_visible_blocker = False, det_visible_working = False\<rparr>
      | Some g \<Rightarrow> detect_with_osc rules g content osc_title osc_progress)"

definition should_skip_state_update :: "screen_rules \<Rightarrow> agent option \<Rightarrow> text \<Rightarrow> bool" where
  "should_skip_state_update rules agent content =
     is_some_and (\<lambda>g. skip_state_update rules g content) agent"

definition detection_update_for_publish_with_osc ::
    "screen_rules \<Rightarrow> agent option \<Rightarrow> text \<Rightarrow> text \<Rightarrow> text \<Rightarrow> bool \<Rightarrow> agent_detection option" where
  "detection_update_for_publish_with_osc rules agent content osc_title osc_progress process_exited =
     (if process_exited
      then Some \<lparr>det_state = Idle, det_skip_state_update = False, det_visible_idle = True,
                 det_visible_blocker = False, det_visible_working = False\<rparr>
      else let d = detect_agent_with_osc rules agent content osc_title osc_progress
           in then_some (\<not> det_skip_state_update d) d)"

text \<open>The counter the reader of the terminal increments (\<open>AtomicU64\<close>, wrapping).\<close>

definition observe_detection_content_change :: "text \<Rightarrow> u64 \<Rightarrow> u64" where
  "observe_detection_content_change bytes seq = (if bytes = [] then seq else seq + 1)"

definition mark_detection_content_changed :: "u64 \<Rightarrow> u64" where
  "mark_detection_content_changed seq = seq + 1"

end
