(* ===== verification/Process_Probe.thy ===== *)
theory Process_Probe
  imports Screen_Publish
begin

text \<open>
  How a pane finds out which agent runs in it, \<open>src/pane.rs\<close>: when the foreground job is probed,
  what a probe says, how often an agent may be missed before it is given up, and what happens
  when the shell of the pane is in the foreground again. The operating system's answers (jobs,
  the agent hint in a process's environment) are arguments.
\<close>

section \<open>Presence of an agent\<close>

definition AGENT_MISS_CONFIRMATION_ATTEMPTS :: u8 where
  "AGENT_MISS_CONFIRMATION_ATTEMPTS = 6"

definition PROCESS_RECHECK_IDENTIFIED :: duration where
  "PROCESS_RECHECK_IDENTIFIED = millis 5000"

definition PROCESS_RECHECK_MISSING_FOREGROUND_GROUP :: duration where
  "PROCESS_RECHECK_MISSING_FOREGROUND_GROUP = millis 30000"

definition PROCESS_ACQUISITION_WINDOW :: duration where
  "PROCESS_ACQUISITION_WINDOW = millis 8000"

definition PROCESS_ACQUISITION_FAST_WINDOW :: duration where
  "PROCESS_ACQUISITION_FAST_WINDOW = millis 1500"

definition PROCESS_ACQUISITION_FAST_RECHECK :: duration where
  "PROCESS_ACQUISITION_FAST_RECHECK = millis 500"

definition PROCESS_ACQUISITION_SLOW_RECHECK :: duration where
  "PROCESS_ACQUISITION_SLOW_RECHECK = millis 2000"

definition PROCESS_ACQUISITION_IDLE_RESET :: duration where
  "PROCESS_ACQUISITION_IDLE_RESET = millis 2000"

record agent_detection_presence =
  current_agent :: "agent option"
  consecutive_misses :: u8

definition presence_from_agent :: "agent option \<Rightarrow> agent_detection_presence" where
  "presence_from_agent g = \<lparr>current_agent = g, consecutive_misses = 0\<rparr>"

definition clear_current_agent :: "agent_detection_presence \<Rightarrow> bool \<times> agent_detection_presence" where
  "clear_current_agent a =
     (if current_agent a = None then (False, a\<lparr>consecutive_misses := 0\<rparr>)
      else (True, a\<lparr>current_agent := None, consecutive_misses := 0\<rparr>))"

definition observe_process_probe ::
    "agent option \<Rightarrow> agent_detection_presence \<Rightarrow> bool \<times> agent_detection_presence" where
  "observe_process_probe identified a =
     (case identified of
        Some g \<Rightarrow>
          if Some g = current_agent a then (False, a\<lparr>consecutive_misses := 0\<rparr>)
          else (True, a\<lparr>current_agent := Some g, consecutive_misses := 0\<rparr>)
      | None \<Rightarrow>
          if current_agent a = None then (False, a\<lparr>consecutive_misses := 0\<rparr>)
          else
            let a1 = a\<lparr>consecutive_misses := saturating_add_u8 (consecutive_misses a) 1\<rparr>
            in if consecutive_misses a1 < AGENT_MISS_CONFIRMATION_ATTEMPTS then (False, a1)
               else (True, a1\<lparr>current_agent := None, consecutive_misses := 0\<rparr>))"

section \<open>The shell in the foreground\<close>

datatype foreground_shell_agent_action =
  ObserveProbe | ReportProcessExit | ReportReplacementProcess | ClearAgent

definition foreground_shell_agent_action ::
    "agent option \<Rightarrow> agent option \<Rightarrow> bool \<Rightarrow> bool \<Rightarrow> foreground_shell_agent_action" where
  "foreground_shell_agent_action previous_agent new_agent foreground_is_pane_shell exit_reported =
     (case previous_agent of None \<Rightarrow> ObserveProbe
      | Some previous \<Rightarrow>
          if exit_reported
          then (if new_agent = Some previous then ReportReplacementProcess
                else if new_agent = None then ClearAgent else ObserveProbe)
          else if new_agent \<noteq> None then ObserveProbe
          else if foreground_is_pane_shell then ReportProcessExit
          else ObserveProbe)"

text \<open>The two flags the action also changes: the clear that is pending, and the reported exit.\<close>

record shell_flags =
  pending_foreground_shell_clear :: bool
  foreground_shell_exit_reported :: bool

definition no_shell_flags :: shell_flags where
  "no_shell_flags = \<lparr>pending_foreground_shell_clear = False, foreground_shell_exit_reported = False\<rparr>"

definition apply_foreground_shell_agent_action ::
    "foreground_shell_agent_action \<Rightarrow> agent option \<Rightarrow> agent option \<Rightarrow>
     agent_detection_presence \<Rightarrow> shell_flags \<Rightarrow> bool \<times> agent_detection_presence \<times> shell_flags" where
  "apply_foreground_shell_agent_action action previous_agent new_agent presence flags =
     (case action of
        ReportReplacementProcess \<Rightarrow>
          (True, snd (observe_process_probe previous_agent presence), no_shell_flags)
      | ReportProcessExit \<Rightarrow> (False, presence, flags\<lparr>pending_foreground_shell_clear := True\<rparr>)
      | ClearAgent \<Rightarrow>
          let (changed, presence') = clear_current_agent presence
          in (changed, presence', no_shell_flags)
      | ObserveProbe \<Rightarrow>
          let (changed, presence') = observe_process_probe new_agent presence
          in (changed, presence', no_shell_flags))"

section \<open>When to probe\<close>

record process_probe_input =
  pp_current_agent :: "agent option"
  pp_suppressed_agent :: "agent option"
  pp_foreground_pgid :: "u32 option"
  pp_last_foreground_pgid :: "u32 option"
  pp_has_process_probe :: bool
  pp_acquisition_age :: "duration option"
  pp_pending_foreground_shell_clear :: bool
  pp_pending_restore_probe :: bool
  pp_elapsed_since_process_check :: duration

definition foreground_group_changed :: "u32 option \<Rightarrow> u32 option \<Rightarrow> bool" where
  "foreground_group_changed foreground_pgid last_foreground_pgid \<longleftrightarrow>
     foreground_pgid \<noteq> last_foreground_pgid \<and> (foreground_pgid \<noteq> None \<or> last_foreground_pgid \<noteq> None)"

definition process_group_for_change_tracking :: "u32 option \<Rightarrow> u32 option \<Rightarrow> u32 option" where
  "process_group_for_change_tracking observed probed =
     (case observed of None \<Rightarrow> None | Some _ \<Rightarrow> or_else probed observed)"

definition should_skip_process_probe_for_lifecycle_authority :: "bool \<Rightarrow> process_probe_input \<Rightarrow> bool" where
  "should_skip_process_probe_for_lifecycle_authority lifecycle_active i \<longleftrightarrow>
     lifecycle_active \<and> pp_foreground_pgid i \<noteq> None \<and> \<not> pp_pending_foreground_shell_clear i
     \<and> pp_suppressed_agent i = None \<and> pp_has_process_probe i
     \<and> \<not> foreground_group_changed (pp_foreground_pgid i) (pp_last_foreground_pgid i)"

definition acquisition_probe_due :: "process_probe_input \<Rightarrow> bool" where
  "acquisition_probe_due i = is_some_and (\<lambda>age.
     let interval = (if age \<le> PROCESS_ACQUISITION_FAST_WINDOW then PROCESS_ACQUISITION_FAST_RECHECK
                     else PROCESS_ACQUISITION_SLOW_RECHECK)
     in age \<le> PROCESS_ACQUISITION_WINDOW \<and> pp_elapsed_since_process_check i \<ge> interval)
     (pp_acquisition_age i)"

definition should_probe_foreground_job :: "process_probe_input \<Rightarrow> bool" where
  "should_probe_foreground_job i =
     (if pp_pending_foreground_shell_clear i \<or> pp_pending_restore_probe i then True
      else
        let group_changed = foreground_group_changed (pp_foreground_pgid i) (pp_last_foreground_pgid i)
        in if pp_suppressed_agent i \<noteq> None then \<not> pp_has_process_probe i \<or> group_changed
           else if acquisition_probe_due i then True
           else if pp_current_agent i = None
           then \<not> pp_has_process_probe i \<or> group_changed
                \<or> (pp_foreground_pgid i = None
                   \<and> pp_elapsed_since_process_check i \<ge> PROCESS_RECHECK_MISSING_FOREGROUND_GROUP)
           else group_changed \<or> pp_elapsed_since_process_check i \<ge> PROCESS_RECHECK_IDENTIFIED)"

text \<open>The start of an acquisition and the last change of the screen, both optional instants.\<close>

record acquisition =
  acquisition_started_at :: "instant option"
  last_content_change_at :: "instant option"

definition no_acquisition :: acquisition where
  "no_acquisition = \<lparr>acquisition_started_at = None, last_content_change_at = None\<rparr>"

definition sync_content_change_acquisition ::
    "agent option \<Rightarrow> agent option \<Rightarrow> bool \<Rightarrow> bool \<Rightarrow> instant \<Rightarrow> acquisition \<Rightarrow> acquisition" where
  "sync_content_change_acquisition agent suppressed group_changed content_changed now q =
     (if agent \<noteq> None \<or> suppressed \<noteq> None \<or> group_changed then q
      else if content_changed then
        let should_start = is_none_or (\<lambda>start. now - start > PROCESS_ACQUISITION_WINDOW
              \<and> is_none_or (\<lambda>changed. now - changed \<ge> PROCESS_ACQUISITION_IDLE_RESET)
                  (last_content_change_at q)) (acquisition_started_at q)
        in (if should_start then q\<lparr>acquisition_started_at := Some now\<rparr> else q)
             \<lparr>last_content_change_at := Some now\<rparr>
      else case (acquisition_started_at q, last_content_change_at q) of
        (Some start, Some changed) \<Rightarrow>
          if now - start > PROCESS_ACQUISITION_WINDOW \<and> now - changed \<ge> PROCESS_ACQUISITION_IDLE_RESET
          then no_acquisition else q
      | _ \<Rightarrow> q)"

section \<open>What a probe says\<close>

record process_probe_result =
  pr_process_group_id :: "u32 option"
  pr_foreground_is_pane_shell :: bool
  pr_agent :: "agent option"
  pr_process_name :: "text option"

text \<open>\<open>Iterator::find_map\<close>.\<close>

fun find_map :: "('a \<Rightarrow> 'b option) \<Rightarrow> 'a list \<Rightarrow> 'b option" where
  "find_map f [] = None"
| "find_map f (x # xs) = (case f x of Some y \<Rightarrow> Some y | None \<Rightarrow> find_map f xs)"

definition agent_hint_for_non_leader_foreground_job_members ::
    "foreground_job \<Rightarrow> (u32 \<Rightarrow> agent option) \<Rightarrow> agent option" where
  "agent_hint_for_non_leader_foreground_job_members job read_hint =
     find_map (\<lambda>p. read_hint (pid p)) (filter (\<lambda>p. pid p \<noteq> process_group_id job) (processes job))"

definition agent_hint_for_foreground_job_members ::
    "foreground_job \<Rightarrow> (u32 \<Rightarrow> agent option) \<Rightarrow> agent option" where
  "agent_hint_for_foreground_job_members job read_hint =
     or_else (read_hint (process_group_id job))
       (agent_hint_for_non_leader_foreground_job_members job read_hint)"

definition identify_process_group_leader_in_job ::
    "(text \<Rightarrow> text option) \<Rightarrow> foreground_job \<Rightarrow> (agent \<times> text) option" where
  "identify_process_group_leader_in_job resolve job =
     (case find (\<lambda>p. pid p = process_group_id job) (processes job) of None \<Rightarrow> None
      | Some leader \<Rightarrow> identify_agent_in_job resolve
          \<lparr>process_group_id = process_group_id job, processes = [leader]\<rparr>)"

definition is_pane_shell_job :: "foreground_job \<Rightarrow> u32 \<Rightarrow> bool" where
  "is_pane_shell_job job shell = list_ex (\<lambda>p. pid p = shell) (processes job)"

definition process_probe_result_of ::
    "foreground_job \<Rightarrow> u32 \<Rightarrow> agent \<Rightarrow> text \<Rightarrow> process_probe_result" where
  "process_probe_result_of job shell agent process_name =
     \<lparr>pr_process_group_id = Some (process_group_id job),
      pr_foreground_is_pane_shell = is_pane_shell_job job shell,
      pr_agent = Some agent, pr_process_name = Some process_name\<rparr>"

definition hinted_process_probe_result ::
    "foreground_job \<Rightarrow> u32 \<Rightarrow> (u32 \<Rightarrow> agent option) \<Rightarrow> process_probe_result option" where
  "hinted_process_probe_result job shell read_hint =
     map_option (\<lambda>agent. process_probe_result_of job shell agent (agent_label agent))
       (agent_hint_for_foreground_job_members job read_hint)"

definition probe_whole_job ::
    "(text \<Rightarrow> text option) \<Rightarrow> u32 \<Rightarrow> foreground_job \<Rightarrow> (u32 \<Rightarrow> agent option) \<Rightarrow> process_probe_result" where
  "probe_whole_job resolve shell job read_hint =
     (let hinted = (\<lambda>agent. process_probe_result_of job shell agent (agent_label agent));
          identified = identify_agent_in_job resolve job
      in unwrap_or
           (or_else (map_option hinted (read_hint (process_group_id job)))
             (or_else
               (map_option (\<lambda>(agent, name). process_probe_result_of job shell agent name)
                  (identify_process_group_leader_in_job resolve job))
               (map_option hinted (agent_hint_for_non_leader_foreground_job_members job read_hint))))
           \<lparr>pr_process_group_id = Some (process_group_id job),
            pr_foreground_is_pane_shell = is_pane_shell_job job shell,
            pr_agent = map_option fst identified, pr_process_name = map_option snd identified\<rparr>)"

definition probe_foreground_process_from_jobs ::
    "(text \<Rightarrow> text option) \<Rightarrow> u32 \<Rightarrow> u32 option \<Rightarrow> foreground_job option \<Rightarrow> foreground_job option \<Rightarrow>
     (u32 \<Rightarrow> agent option) \<Rightarrow> process_probe_result" where
  "probe_foreground_process_from_jobs resolve shell foreground_pgid leader_job foreground read_hint =
     unwrap_or
       (or_else
         (Option.bind leader_job (\<lambda>job.
            or_else (hinted_process_probe_result job shell read_hint)
              (map_option (\<lambda>(agent, name). process_probe_result_of job shell agent name)
                 (identify_agent_in_job resolve job))))
         (map_option (\<lambda>job. probe_whole_job resolve shell job read_hint) foreground))
       \<lparr>pr_process_group_id = foreground_pgid, pr_foreground_is_pane_shell = False,
        pr_agent = None, pr_process_name = None\<rparr>"

section \<open>A released agent\<close>

record pending_agent_release =
  release_agent_of :: agent
  release_until :: instant

definition active_pending_release ::
    "pending_agent_release option \<Rightarrow> instant \<Rightarrow> agent option \<times> pending_agent_release option" where
  "active_pending_release r now =
     (case r of
        Some q \<Rightarrow> if now < release_until q then (Some (release_agent_of q), r) else (None, None)
      | None \<Rightarrow> (None, None))"

end
