(* ===== verification/Detection_Task.thy ===== *)
theory Detection_Task
  imports Process_Probe
begin

text \<open>
  The detection task of a pane, \<open>src/pane.rs\<close>: a loop that, at each tick, probes the foreground
  process when that is due, reads the screen when that is needed, and sends an event when what it
  knows has changed. The code has the loop twice: \<open>spawn_basic_detection_task\<close> for the panes taken
  over from another server, and the task of \<open>PaneRuntime::spawn\<close> for all others. They are the same
  but for a few lines, which are the ones that mention \<open>task\<close> here. A tick is one pass through
  the body of the loop; what it learns from outside is its input.
\<close>

datatype detection_task = BasicTask | PaneTask

text \<open>The local variables of the task. The four variables \<open>state\<close> and \<open>last_visible_*\<close> are the
  published state; \<open>pending_release\<close> is shared with the pane. \<open>pending_restore_probe\<close> belongs to
  the pane task; the basic task passes false.\<close>

record detector =
  presence :: agent_detection_presence
  published :: detection_publish_state
  last_visible_signal_refresh :: "instant option"
  last_process_check :: instant
  last_foreground_pgid :: "u32 option"
  has_process_probe :: bool
  acquiring :: acquisition
  flags :: shell_flags
  release_was_active :: bool
  pending_restore_probe :: bool
  last_detection_text :: "text"
  last_screen_scan_seq :: "u64 option"
  agent_startup_grace_until :: "instant option"
  pending_idle :: pending_idle_confirmation
  pending_release :: "pending_agent_release option"

record tick_input =
  ti_now :: instant
  ti_shell_pid :: u32
  ti_lifecycle_active :: bool
  ti_foreground_pgid :: "u32 \<Rightarrow> u32 option"
  ti_leader_job :: "u32 \<Rightarrow> foreground_job option"
  ti_foreground_job :: "u32 \<Rightarrow> foreground_job option"
  ti_agent_hint :: "u32 \<Rightarrow> agent option"
  ti_resolve :: "text \<Rightarrow> text option"
  ti_content :: "text"
  ti_content_seq :: u64
  ti_osc_title :: "text"
  ti_osc_progress :: "text"

text \<open>What a tick does to the outside: it may drop the evidence of the previous process from the
  terminal, and send \<open>AppEvent::StateChanged\<close> with the agent, its state, whether a blocker or work
  is visible, whether the process exited, and the time of the observation.\<close>

datatype detector_effect =
    ClearAgentOscState
  | StateChanged "agent option" agent_state bool bool bool instant

section \<open>Start and reset\<close>

definition unpublished :: "agent_state \<Rightarrow> bool \<Rightarrow> detection_publish_state" where
  "unpublished st visible_idle = \<lparr>dp_state = st, dp_visible_idle = visible_idle,
     dp_visible_blocker = False, dp_visible_working = False\<rparr>"

definition new_detector :: "detection_task \<Rightarrow> agent option \<Rightarrow> instant \<Rightarrow> detector" where
  "new_detector task initial_agent now =
     (let restored = (case task of BasicTask \<Rightarrow> None | PaneTask \<Rightarrow> initial_agent)
      in \<lparr>presence = presence_from_agent restored,
          published = unpublished (case task of BasicTask \<Rightarrow> Unknown | PaneTask \<Rightarrow> Idle) (restored \<noteq> None),
          last_visible_signal_refresh = None, last_process_check = now, last_foreground_pgid = None,
          has_process_probe = False, acquiring = no_acquisition, flags = no_shell_flags,
          release_was_active = False, pending_restore_probe = (restored \<noteq> None),
          last_detection_text = [], last_screen_scan_seq = None, agent_startup_grace_until = None,
          pending_idle = no_pending_idle, pending_release = None\<rparr>)"

definition reset_detector :: "detection_task \<Rightarrow> instant \<Rightarrow> detector \<Rightarrow> detector" where
  "reset_detector task now d =
     d\<lparr>presence := presence_from_agent None, published := unpublished Unknown False,
       last_visible_signal_refresh := None,
       last_process_check := (case task of BasicTask \<Rightarrow> now | PaneTask \<Rightarrow> last_process_check d),
       last_foreground_pgid := None, has_process_probe := False, acquiring := no_acquisition,
       flags := no_shell_flags, release_was_active := False, pending_restore_probe := False,
       last_detection_text := [], last_screen_scan_seq := None, agent_startup_grace_until := None,
       pending_idle := clear_pending_idle (pending_idle d)\<rparr>"

definition RELEASE_REACQUIRE_SUPPRESSION :: duration where
  "RELEASE_REACQUIRE_SUPPRESSION = millis 1000"

text \<open>The pane's side: a release suppresses the agent for a second; the reset it also asks for is
  delivered at the next tick.\<close>

definition begin_graceful_release :: "agent \<Rightarrow> instant \<Rightarrow> detector \<Rightarrow> detector" where
  "begin_graceful_release g now d =
     d\<lparr>pending_release := Some \<lparr>release_agent_of = g, release_until = now + RELEASE_REACQUIRE_SUPPRESSION\<rparr>\<rparr>"

text \<open>How long the task sleeps before a tick.\<close>

definition tick_delay :: "detection_task \<Rightarrow> instant \<Rightarrow> bool \<Rightarrow> detector \<Rightarrow> duration \<times> detector" where
  "tick_delay task now default_color_override d =
     (case task of
        BasicTask \<Rightarrow>
          (if pending_idle_active (pending_idle d) then AGENT_PENDING_IDLE_RECHECK else millis 300, d)
      | PaneTask \<Rightarrow>
          let (suppressed, release) = active_pending_release (pending_release d) now
          in (if suppressed \<noteq> None \<or> default_color_override then millis 50
              else if pending_idle_active (pending_idle d) then AGENT_PENDING_IDLE_RECHECK
              else if current_agent (presence d) = None then millis 500
              else millis 300, d\<lparr>pending_release := release\<rparr>))"

section \<open>Probing the foreground process\<close>

definition begin_tick :: "instant \<Rightarrow> detector \<Rightarrow> agent option \<times> detector" where
  "begin_tick now d =
     (let (suppressed, release) = active_pending_release (pending_release d) now;
          d1 = d\<lparr>pending_release := release\<rparr>;
          d2 = (if suppressed = None \<and> release_was_active d
                then d1\<lparr>has_process_probe := False, acquiring := no_acquisition\<rparr> else d1)
      in (suppressed, d2\<lparr>release_was_active := (suppressed \<noteq> None)\<rparr>))"

definition foreground_pgid :: "tick_input \<Rightarrow> u32 option" where
  "foreground_pgid i = (if ti_shell_pid i > 0 then ti_foreground_pgid i (ti_shell_pid i) else None)"

definition probe_input :: "tick_input \<Rightarrow> agent option \<Rightarrow> detector \<Rightarrow> process_probe_input" where
  "probe_input i suppressed d =
     \<lparr>pp_current_agent = current_agent (presence d), pp_suppressed_agent = suppressed,
      pp_foreground_pgid = foreground_pgid i, pp_last_foreground_pgid = last_foreground_pgid d,
      pp_has_process_probe = has_process_probe d,
      pp_acquisition_age = map_option (\<lambda>start. ti_now i - start) (acquisition_started_at (acquiring d)),
      pp_pending_foreground_shell_clear = pending_foreground_shell_clear (flags d),
      pp_pending_restore_probe = pending_restore_probe d,
      pp_elapsed_since_process_check = ti_now i - last_process_check d\<rparr>"

definition should_check_process :: "tick_input \<Rightarrow> agent option \<Rightarrow> detector \<Rightarrow> bool" where
  "should_check_process i suppressed d \<longleftrightarrow>
     ti_shell_pid i > 0
     \<and> \<not> should_skip_process_probe_for_lifecycle_authority (ti_lifecycle_active i) (probe_input i suppressed d)
     \<and> should_probe_foreground_job (probe_input i suppressed d)"

definition probe_foreground_process :: "tick_input \<Rightarrow> process_probe_result" where
  "probe_foreground_process i =
     probe_foreground_process_from_jobs (ti_resolve i) (ti_shell_pid i) (foreground_pgid i)
       (Option.bind (foreground_pgid i) (ti_leader_job i)) (ti_foreground_job i (ti_shell_pid i))
       (ti_agent_hint i)"

text \<open>A released agent that is still found counts as none; anything else ends the release.\<close>

definition unsuppressed_agent ::
    "agent option \<Rightarrow> agent option \<Rightarrow> pending_agent_release option \<Rightarrow>
     agent option \<times> pending_agent_release option" where
  "unsuppressed_agent suppressed found release =
     (case suppressed of None \<Rightarrow> (found, release)
      | Some g \<Rightarrow> if found = Some g then (None, release) else (found, None))"

text \<open>A new process in the foreground starts idle, in its startup grace.\<close>

definition start_agent :: "instant \<Rightarrow> agent option \<Rightarrow> detector \<Rightarrow> detector_effect list \<times> detector" where
  "start_agent now agent d =
     (let d1 = d\<lparr>pending_idle := clear_pending_idle (pending_idle d), last_screen_scan_seq := None\<rparr>
      in if agent \<noteq> None
         then ([ClearAgentOscState, StateChanged agent Idle False False False now],
               d1\<lparr>agent_startup_grace_until := Some (now + AGENT_STARTUP_GRACE_WINDOW),
                  published := unpublished Idle True, last_visible_signal_refresh := None\<rparr>)
         else ([ClearAgentOscState], d1\<lparr>agent_startup_grace_until := None\<rparr>))"

text \<open>What a probe leaves in the variables of the task.\<close>

definition record_probe :: "detection_task \<Rightarrow> tick_input \<Rightarrow> process_probe_result \<Rightarrow> agent option \<Rightarrow>
    pending_agent_release option \<Rightarrow> agent_detection_presence \<Rightarrow> shell_flags \<Rightarrow> detector \<Rightarrow> detector" where
  "record_probe task i probe new_agent release presence' flags' d =
     d\<lparr>last_process_check := ti_now i, has_process_probe := True, presence := presence',
       flags := flags', pending_release := release,
       acquiring :=
         (if new_agent \<noteq> None then no_acquisition
          else if current_agent presence' = None \<and> has_process_probe d
               \<and> foreground_group_changed (foreground_pgid i) (last_foreground_pgid d)
          then (acquiring d)\<lparr>acquisition_started_at := Some (ti_now i)\<rparr>
          else acquiring d),
       last_foreground_pgid :=
         process_group_for_change_tracking (foreground_pgid i) (pr_process_group_id probe),
       pending_restore_probe := (pending_restore_probe d \<and> task = BasicTask)\<rparr>"

text \<open>The result is the agent the rest of the tick works with, whether it changed, and the
  effects.\<close>

definition probe_phase ::
    "detection_task \<Rightarrow> tick_input \<Rightarrow> agent option \<Rightarrow> detector \<Rightarrow>
     agent option \<times> bool \<times> detector_effect list \<times> detector" where
  "probe_phase task i suppressed d =
     (let probe = probe_foreground_process i;
          (new_agent, release) = unsuppressed_agent suppressed (pr_agent probe) (pending_release d);
          previous_agent = current_agent (presence d);
          action = foreground_shell_agent_action previous_agent new_agent
            (pr_foreground_is_pane_shell probe) (foreground_shell_exit_reported (flags d));
          (changed, presence', flags') = apply_foreground_shell_agent_action action previous_agent
            new_agent (presence d) (flags d);
          d1 = record_probe task i probe new_agent release presence' flags' d
      in if \<not> changed then (previous_agent, False, [], d1)
         else
           let agent = current_agent presence';
               new_process = (previous_agent \<noteq> agent \<or> action = ReportReplacementProcess);
               (effects, d2) = (if new_process then start_agent (ti_now i) agent d1 else ([], d1))
           in (agent, (case task of BasicTask \<Rightarrow> new_process | PaneTask \<Rightarrow> True), effects, d2))"

section \<open>Reading the screen\<close>

definition exit_to_report :: "agent option \<Rightarrow> detector \<Rightarrow> bool" where
  "exit_to_report agent d \<longleftrightarrow> pending_foreground_shell_clear (flags d) \<and> agent \<noteq> None
     \<and> \<not> foreground_shell_exit_reported (flags d)"

definition stop_waiting :: "detector \<Rightarrow> detector" where
  "stop_waiting d = d\<lparr>pending_idle := clear_pending_idle (pending_idle d)\<rparr>"

text \<open>The startup grace: whether the tick goes on.\<close>

definition startup_grace :: "detection_task \<Rightarrow> instant \<Rightarrow> bool \<Rightarrow> detector \<Rightarrow> bool \<times> detector" where
  "startup_grace task now process_exited d =
     (case agent_startup_grace_until d of None \<Rightarrow> (True, d)
      | Some until \<Rightarrow>
          let over = stop_waiting (d\<lparr>agent_startup_grace_until := None\<rparr>);
              rescan = over\<lparr>last_screen_scan_seq := None\<rparr>
          in if process_exited then (True, if task = BasicTask then over else rescan)
             else if now < until then (False, stop_waiting d)
             else (False, if task = BasicTask then rescan else over))"

definition apply_agent_detection_publish_update ::
    "agent option \<Rightarrow> detection_publish \<Rightarrow> instant \<Rightarrow> detector \<Rightarrow> detector_effect list \<times> detector" where
  "apply_agent_detection_publish_update agent u now d =
     ([StateChanged agent (pub_state u) (pub_visible_blocker u) (pub_visible_working u)
         (pub_process_exited u) now],
      d\<lparr>published := \<lparr>dp_state = pub_state u, dp_visible_idle = pub_visible_idle u,
            dp_visible_blocker = pub_visible_blocker u, dp_visible_working = pub_visible_working u\<rparr>,
        last_visible_signal_refresh :=
            (if pub_visible_blocker u \<or> pub_visible_working u then Some now else None),
        flags := (if pub_process_exited u then (flags d)\<lparr>foreground_shell_exit_reported := True\<rparr>
                  else flags d)\<rparr>)"

definition publish_phase ::
    "agent option \<Rightarrow> bool \<Rightarrow> bool \<Rightarrow> instant \<Rightarrow> agent_detection \<Rightarrow> detector \<Rightarrow>
     detector_effect list \<times> detector" where
  "publish_phase agent agent_changed process_exited now screen_detection d =
     (let (update, p) = decide_screen_detection_publish
            \<lparr>sp_current_state = dp_state (published d),
             sp_last_visible_idle = dp_visible_idle (published d),
             sp_last_visible_blocker = dp_visible_blocker (published d),
             sp_last_visible_working = dp_visible_working (published d),
             sp_last_visible_signal_refresh = last_visible_signal_refresh d,
             sp_screen_detection = screen_detection, sp_process_exited = process_exited,
             sp_agent_changed = agent_changed, sp_now = now\<rparr> (pending_idle d);
          d1 = d\<lparr>pending_idle := p\<rparr>
      in case update of None \<Rightarrow> ([], d1)
         | Some u \<Rightarrow> apply_agent_detection_publish_update agent u now d1)"

definition read_screen ::
    "detection_task \<Rightarrow> screen_rules \<Rightarrow> tick_input \<Rightarrow> agent option \<Rightarrow> bool \<Rightarrow> agent option \<Rightarrow> bool \<Rightarrow> bool \<Rightarrow>
     detector \<Rightarrow> detector_effect list \<times> detector" where
  "read_screen task rules i suppressed group_changed agent agent_changed process_exited d =
     (let content_seq = (if agent \<noteq> None then Some (ti_content_seq i) else None)
      in (case decide_detection_screen_read
           \<lparr>sr_state = dp_state (published d), sr_agent = agent,
            sr_pending_idle_active = pending_idle_active (pending_idle d),
            sr_agent_changed = agent_changed, sr_process_exited = process_exited,
            sr_content_seq = content_seq, sr_last_content_seq = last_screen_scan_seq d\<rparr> of
         Skip \<Rightarrow> ([], d)
       | Read \<Rightarrow>
         let content_changed = (ti_content i \<noteq> last_detection_text d);
             d1 = d\<lparr>last_screen_scan_seq := content_seq, last_detection_text := ti_content i\<rparr>
         in if (task = BasicTask \<longrightarrow> \<not> process_exited) \<and> should_skip_state_update rules agent (ti_content i)
            then ([], stop_waiting d1)
            else
              let d2 = d1\<lparr>acquiring := sync_content_change_acquisition (current_agent (presence d1))
                     suppressed group_changed content_changed (ti_now i) (acquiring d1)\<rparr>
              in (case detection_update_for_publish_with_osc rules agent (ti_content i)
                     (ti_osc_title i) (ti_osc_progress i) process_exited of
                   None \<Rightarrow> ([], stop_waiting d2)
                 | Some detection \<Rightarrow>
                     publish_phase agent agent_changed process_exited (ti_now i) detection d2)))"

section \<open>The body of the loop\<close>

definition detection_tick ::
    "detection_task \<Rightarrow> screen_rules \<Rightarrow> tick_input \<Rightarrow> detector \<Rightarrow> detector_effect list \<times> detector" where
  "detection_tick task rules i d =
     (let (suppressed, d1) = begin_tick (ti_now i) d;
          group_changed = foreground_group_changed (foreground_pgid i) (last_foreground_pgid d1);
          (agent, agent_changed, effects, d2) =
            (if should_check_process i suppressed d1 then probe_phase task i suppressed d1
             else (current_agent (presence d1), False, [], d1));
          process_exited = exit_to_report agent d2
      in if ti_lifecycle_active i \<and> \<not> process_exited then (effects, stop_waiting d2)
         else
           let (go_on, d3) = startup_grace task (ti_now i) process_exited d2
           in if \<not> go_on then (effects, d3)
              else
                let (more, d4) = read_screen task rules i suppressed group_changed agent agent_changed
                      process_exited d3
                in (effects @ more, d4))"

end
