(* ===== verification/Detection_Machine.thy ===== *)
theory Detection_Machine
  imports Detection_Task Machine
begin

text \<open>
  The detection task as a machine. What each phase of a tick may do is stated once, in the
  collection \<open>phase\<close>; the invariant of the task's variables and the agreement between the task
  and whoever follows its events are read off these facts.
\<close>

named_theorems phase "what a phase of the detection tick does"

section \<open>Phases\<close>

lemma begin_tick_facts [phase]:
  assumes "begin_tick now d = (suppressed, d')"
  shows "presence d' = presence d" "published d' = published d" "flags d' = flags d"
    "pending_idle d' = pending_idle d" "agent_startup_grace_until d' = agent_startup_grace_until d"
    "last_screen_scan_seq d' = last_screen_scan_seq d" "last_foreground_pgid d' = last_foreground_pgid d"
    "pending_restore_probe d' = pending_restore_probe d" "last_process_check d' = last_process_check d"
  using assms by (auto simp: begin_tick_def Let_def split: prod.splits if_splits)

lemma stop_waiting_fields [simp]:
  "presence (stop_waiting d) = presence d" "published (stop_waiting d) = published d"
  "flags (stop_waiting d) = flags d"
  "agent_startup_grace_until (stop_waiting d) = agent_startup_grace_until d"
  "pending_idle (stop_waiting d) = clear_pending_idle (pending_idle d)"
  "last_screen_scan_seq (stop_waiting d) = last_screen_scan_seq d"
  "pending_release (stop_waiting d) = pending_release d"
  by (simp_all add: stop_waiting_def)

lemma record_probe_fields [simp]:
  "presence (record_probe task i probe g release a fl d) = a"
  "flags (record_probe task i probe g release a fl d) = fl"
  "published (record_probe task i probe g release a fl d) = published d"
  "pending_idle (record_probe task i probe g release a fl d) = pending_idle d"
  "agent_startup_grace_until (record_probe task i probe g release a fl d) = agent_startup_grace_until d"
  "last_screen_scan_seq (record_probe task i probe g release a fl d) = last_screen_scan_seq d"
  by (simp_all add: record_probe_def)

lemma observe_changed:
  assumes "observe_process_probe g a = (changed, a')"
  shows "changed \<longleftrightarrow> current_agent a' \<noteq> current_agent a"
  using assms by (auto simp: observe_process_probe_def Let_def split: option.splits if_splits)

lemma clear_changed:
  assumes "clear_current_agent a = (changed, a')"
  shows "changed \<longleftrightarrow> current_agent a' \<noteq> current_agent a" "current_agent a' = None"
  using assms by (auto simp: clear_current_agent_def split: if_splits)

text \<open>An action reports a change when the agent is another one, or when its process was replaced;
  a change forgets the shell flags.\<close>

lemma action_facts:
  assumes "apply_foreground_shell_agent_action action (current_agent a) g a fl = (changed, a', fl')"
  shows "changed \<longleftrightarrow> current_agent a' \<noteq> current_agent a \<or> action = ReportReplacementProcess"
    "changed \<Longrightarrow> fl' = no_shell_flags"
    "action = ReportReplacementProcess \<Longrightarrow> current_agent a' = current_agent a"
proof -
  have same: "current_agent (snd (observe_process_probe (current_agent a) a)) = current_agent a"
    by (auto simp: observe_process_probe_def split: option.splits)
  show "changed \<longleftrightarrow> current_agent a' \<noteq> current_agent a \<or> action = ReportReplacementProcess"
    using assms observe_changed [of g a] clear_changed [of a]
    by (cases action) (auto simp: apply_foreground_shell_agent_action_def split: prod.splits)
  show "changed \<Longrightarrow> fl' = no_shell_flags"
    using assms by (cases action) (auto simp: apply_foreground_shell_agent_action_def split: prod.splits)
  show "action = ReportReplacementProcess \<Longrightarrow> current_agent a' = current_agent a"
    using assms same by (auto simp: apply_foreground_shell_agent_action_def)
qed

lemma replacement_has_agent:
  "foreground_shell_agent_action p g s e = ReportReplacementProcess \<Longrightarrow> p \<noteq> None"
  by (cases p) (simp_all add: foreground_shell_agent_action_def)

text \<open>Either the agent stays and nothing is sent, or it changes and, when there is a new one, its
  start is sent.\<close>

lemma probe_phase_cases:
  assumes "probe_phase task i suppressed d = (agent, changed, effects, d')"
  shows "(\<not> changed \<and> effects = [] \<and> agent = current_agent (presence d)
      \<and> current_agent (presence d') = agent \<and> published d' = published d
      \<and> pending_idle d' = pending_idle d \<and> agent_startup_grace_until d' = agent_startup_grace_until d
      \<and> last_screen_scan_seq d' = last_screen_scan_seq d)
    \<or> (changed \<and> agent = None \<and> effects = [ClearAgentOscState] \<and> flags d' = no_shell_flags
      \<and> current_agent (presence d') = None \<and> published d' = published d
      \<and> pending_idle d' = clear_pending_idle (pending_idle d) \<and> agent_startup_grace_until d' = None)
    \<or> (changed \<and> agent \<noteq> None \<and> flags d' = no_shell_flags
      \<and> effects = [ClearAgentOscState, StateChanged agent Idle False False False (ti_now i)]
      \<and> current_agent (presence d') = agent \<and> published d' = unpublished Idle True
      \<and> pending_idle d' = clear_pending_idle (pending_idle d) \<and> last_screen_scan_seq d' = None
      \<and> agent_startup_grace_until d' = Some (ti_now i + AGENT_STARTUP_GRACE_WINDOW))"
proof -
  let ?probe = "probe_foreground_process i"
  obtain g release where g: "unsuppressed_agent suppressed (pr_agent ?probe) (pending_release d) = (g, release)"
    by fastforce
  let ?action = "foreground_shell_agent_action (current_agent (presence d)) g
      (pr_foreground_is_pane_shell ?probe) (foreground_shell_exit_reported (flags d))"
  obtain ch a' fl' where act: "apply_foreground_shell_agent_action ?action (current_agent (presence d)) g
      (presence d) (flags d) = (ch, a', fl')" by (metis prod_cases3)
  note facts = action_facts [OF act]
  let ?d1 = "record_probe task i ?probe g release a' fl' d"
  show ?thesis
  proof (cases ch)
    case False
    then have "current_agent a' = current_agent (presence d)" using facts(1) by simp
    then show ?thesis
      using assms False by (auto simp: probe_phase_def Let_def g act)
  next
    case True
    define new where "new = (current_agent (presence d) \<noteq> current_agent a' \<or> ?action = ReportReplacementProcess)"
    have "new" using facts(1) True unfolding new_def by metis
    have "probe_phase task i suppressed d = (let (effects, d2) =
        if new then start_agent (ti_now i) (current_agent a') ?d1 else ([], ?d1)
        in (current_agent a', case task of BasicTask \<Rightarrow> new | PaneTask \<Rightarrow> True, effects, d2))"
      by (simp only: probe_phase_def Let_def g act True prod.case new_def not_True_eq_False if_False)
    then have "agent = current_agent a' \<and> changed \<and> start_agent (ti_now i) (current_agent a') ?d1 = (effects, d')"
      using assms \<open>new\<close> by (cases task) (auto split: prod.splits)
    then show ?thesis
      using facts(2) [OF True] by (cases "current_agent a'") (auto simp: start_agent_def Let_def)
  qed
qed

lemma startup_grace_facts [phase]:
  assumes "startup_grace task now exited d = (go_on, d')"
  shows "presence d' = presence d" "published d' = published d" "flags d' = flags d"
    "agent_startup_grace_until d = None \<Longrightarrow> go_on \<and> d' = d"
    "agent_startup_grace_until d = Some until \<Longrightarrow> \<not> exited \<Longrightarrow> \<not> go_on"
    "exited \<Longrightarrow> go_on"
    "pending_idle d' = pending_idle d \<or> pending_idle d' = clear_pending_idle (pending_idle d)"
    "agent_startup_grace_until d' = agent_startup_grace_until d \<or> agent_startup_grace_until d' = None"
    "go_on \<Longrightarrow> agent_startup_grace_until d' = None"
    "last_screen_scan_seq d' = last_screen_scan_seq d \<or> last_screen_scan_seq d' = None"
  using assms by (auto simp: startup_grace_def Let_def split: option.splits if_splits)

lemma publish_phase_cases:
  assumes "publish_phase agent changed exited now s d = (effects, d')"
  shows "presence d' = presence d"
    "agent_startup_grace_until d' = agent_startup_grace_until d"
    "effects = [] \<and> published d' = published d \<and> flags d' = flags d
     \<or> effects = [StateChanged agent (dp_state (published d')) (dp_visible_blocker (published d'))
                   (dp_visible_working (published d')) exited now]
       \<and> flags d' = (if exited then (flags d)\<lparr>foreground_shell_exit_reported := True\<rparr> else flags d)"
    "\<exists>i. pending_idle d' = snd (decide_screen_detection_publish i (pending_idle d))"
proof -
  let ?i = "\<lparr>sp_current_state = dp_state (published d),
             sp_last_visible_idle = dp_visible_idle (published d),
             sp_last_visible_blocker = dp_visible_blocker (published d),
             sp_last_visible_working = dp_visible_working (published d),
             sp_last_visible_signal_refresh = last_visible_signal_refresh d,
             sp_screen_detection = s, sp_process_exited = exited,
             sp_agent_changed = changed, sp_now = now\<rparr>"
  obtain u p where dec: "decide_screen_detection_publish ?i (pending_idle d) = (u, p)" by fastforce
  have ex: "u = Some v \<Longrightarrow> pub_process_exited v = exited" for v
    using dec by (auto simp: decide_screen_detection_publish_def Let_def
        split: prod.splits transition_decision.splits)
  have pend: "pending_idle d' = p" and rest: "presence d' = presence d"
    "agent_startup_grace_until d' = agent_startup_grace_until d"
    "effects = [] \<and> published d' = published d \<and> flags d' = flags d
     \<or> effects = [StateChanged agent (dp_state (published d')) (dp_visible_blocker (published d'))
                   (dp_visible_working (published d')) exited now]
       \<and> flags d' = (if exited then (flags d)\<lparr>foreground_shell_exit_reported := True\<rparr> else flags d)"
    using assms ex
    by (auto simp: publish_phase_def Let_def dec apply_agent_detection_publish_update_def
        split: option.splits)
  show "presence d' = presence d" "agent_startup_grace_until d' = agent_startup_grace_until d"
    "effects = [] \<and> published d' = published d \<and> flags d' = flags d
     \<or> effects = [StateChanged agent (dp_state (published d')) (dp_visible_blocker (published d'))
                   (dp_visible_working (published d')) exited now]
       \<and> flags d' = (if exited then (flags d)\<lparr>foreground_shell_exit_reported := True\<rparr> else flags d)"
    by (fact rest)+
  show "\<exists>i. pending_idle d' = snd (decide_screen_detection_publish i (pending_idle d))"
    using dec pend by (metis snd_conv)
qed

text \<open>Reading the screen is one of three things: nothing, forgetting a pending idle, publishing.\<close>

lemma read_screen_cases:
  assumes "read_screen task rules i suppressed gc agent changed exited d = (effects, d')"
  shows "(effects = [] \<and> presence d' = presence d \<and> published d' = published d \<and> flags d' = flags d
       \<and> agent_startup_grace_until d' = agent_startup_grace_until d
       \<and> (pending_idle d' = pending_idle d \<or> pending_idle d' = clear_pending_idle (pending_idle d)))
    \<or> (\<exists>s d1. publish_phase agent changed exited (ti_now i) s d1 = (effects, d')
         \<and> detection_update_for_publish_with_osc rules agent (ti_content i) (ti_osc_title i)
             (ti_osc_progress i) exited = Some s
         \<and> presence d1 = presence d \<and> published d1 = published d \<and> flags d1 = flags d
         \<and> agent_startup_grace_until d1 = agent_startup_grace_until d
         \<and> pending_idle d1 = pending_idle d)"
  using assms
  by (auto simp: read_screen_def Let_def split: screen_read_decision.splits if_splits option.splits)

section \<open>The invariant of the task\<close>

text \<open>Misses are counted only for a tracked agent and stay below the limit; a pending idle has been
  confirmed less often than needed; the flags about the shell and the startup grace are only set
  while an agent is tracked, and the screen is not scanned during the grace.\<close>

definition pending_idle_ok :: "pending_idle_confirmation \<Rightarrow> bool" where
  "pending_idle_ok p \<longleftrightarrow> confirmations p < AGENT_PENDING_IDLE_CONFIRMATIONS
     \<and> (started_at p = None \<longrightarrow> confirmations p = 0)"

definition presence_ok :: "agent_detection_presence \<Rightarrow> bool" where
  "presence_ok a \<longleftrightarrow> consecutive_misses a < AGENT_MISS_CONFIRMATION_ATTEMPTS
     \<and> (current_agent a = None \<longrightarrow> consecutive_misses a = 0)"

definition detector_ok :: "detector \<Rightarrow> bool" where
  "detector_ok d \<longleftrightarrow> presence_ok (presence d) \<and> pending_idle_ok (pending_idle d)
     \<and> (current_agent (presence d) = None \<longrightarrow>
          flags d = no_shell_flags \<and> agent_startup_grace_until d = None)
     \<and> (agent_startup_grace_until d \<noteq> None \<longrightarrow> last_screen_scan_seq d = None)"

lemma pending_idle_ok_clear [simp]: "pending_idle_ok (clear_pending_idle p)"
  by (simp add: pending_idle_ok_def clear_pending_idle_def AGENT_PENDING_IDLE_CONFIRMATIONS_def)

lemma hold_pending_idle_ok:
  assumes "pending_idle_ok p"
  shows "pending_idle_ok (snd (should_hold_working_to_idle a b c e now p))"
  using assms
  by (auto simp: should_hold_working_to_idle_def pending_idle_ok_def Let_def not_le
      AGENT_PENDING_IDLE_CONFIRMATIONS_def clear_pending_idle_def split: option.splits)

lemma decide_pending_idle_ok:
  assumes "pending_idle_ok p"
  shows "pending_idle_ok (snd (decide_screen_detection_publish i p))"
  using hold_pending_idle_ok [OF assms]
  by (auto simp: decide_screen_detection_publish_def decide_detection_transition_def Let_def
      split: prod.splits transition_decision.splits if_splits) (metis snd_conv)+

lemma presence_ok_from [simp]: "presence_ok (presence_from_agent g)"
  by (simp add: presence_ok_def presence_from_agent_def AGENT_MISS_CONFIRMATION_ATTEMPTS_def)

lemma observe_presence_ok:
  assumes "presence_ok a"
  shows "presence_ok (snd (observe_process_probe g a))"
  using assms by (auto simp: presence_ok_def observe_process_probe_def Let_def
      AGENT_MISS_CONFIRMATION_ATTEMPTS_def split: option.splits)

lemma clear_presence_ok: "presence_ok (snd (clear_current_agent a))"
  by (auto simp: presence_ok_def clear_current_agent_def AGENT_MISS_CONFIRMATION_ATTEMPTS_def)

lemma action_presence_ok:
  assumes "apply_foreground_shell_agent_action action p g a fl = (changed, a', fl')" "presence_ok a"
  shows "presence_ok a'"
  using assms observe_presence_ok [OF assms(2)] clear_presence_ok
  by (cases action)
    (auto simp: apply_foreground_shell_agent_action_def split: prod.splits, (metis snd_conv)+)

text \<open>When no agent is tracked an action leaves the flags cleared.\<close>

lemma action_no_agent:
  assumes "apply_foreground_shell_agent_action action p g a fl = (changed, a', fl')"
    and "current_agent a' = None" "current_agent a = None \<Longrightarrow> fl = no_shell_flags"
    and "action = ReportProcessExit \<Longrightarrow> current_agent a \<noteq> None"
  shows "fl' = no_shell_flags"
  using assms
  by (cases action) (auto simp: apply_foreground_shell_agent_action_def split: prod.splits)

lemma exit_action_has_agent:
  "foreground_shell_agent_action p g s e = ReportProcessExit \<Longrightarrow> p \<noteq> None"
  by (cases p) (simp_all add: foreground_shell_agent_action_def)

lemma probe_phase_ok:
  assumes "probe_phase task i suppressed d = (agent, changed, effects, d')" "detector_ok d"
  shows "detector_ok d'"
proof -
  let ?probe = "probe_foreground_process i"
  obtain g release where g: "unsuppressed_agent suppressed (pr_agent ?probe) (pending_release d) = (g, release)"
    by fastforce
  let ?action = "foreground_shell_agent_action (current_agent (presence d)) g
      (pr_foreground_is_pane_shell ?probe) (foreground_shell_exit_reported (flags d))"
  obtain ch a' fl' where act: "apply_foreground_shell_agent_action ?action (current_agent (presence d)) g
      (presence d) (flags d) = (ch, a', fl')" by (metis prod_cases3)
  have ok: "presence_ok a'" "current_agent a' = None \<Longrightarrow> fl' = no_shell_flags"
    using action_presence_ok [OF act] action_no_agent [OF act] exit_action_has_agent assms(2)
    by (auto simp: detector_ok_def)
  have "presence d' = a'" "flags d' = fl'"
    using assms(1) by (auto simp: probe_phase_def Let_def g act start_agent_def split: if_splits prod.splits)
  then show ?thesis
    using ok assms(2) probe_phase_cases [OF assms(1)] by (auto simp: detector_ok_def)
qed

lemma probe_phase_agent:
  "probe_phase task i suppressed d = (agent, changed, effects, d') \<Longrightarrow> agent = current_agent (presence d')"
  using probe_phase_cases by fastforce

lemma publish_phase_ok:
  assumes "publish_phase agent changed exited now s d = (effects, d')" "detector_ok d"
    and "exited \<Longrightarrow> current_agent (presence d) \<noteq> None" "agent_startup_grace_until d = None"
  shows "detector_ok d'"
proof -
  note facts = publish_phase_cases [OF assms(1)]
  have "pending_idle_ok (pending_idle d')"
    using facts(4) decide_pending_idle_ok assms(2) by (auto simp: detector_ok_def)
  then show ?thesis using facts(1-3) assms(2-4) by (auto simp: detector_ok_def)
qed

lemma read_screen_ok:
  assumes "read_screen task rules i suppressed gc agent changed exited d = (effects, d')" "detector_ok d"
    and "exited \<Longrightarrow> current_agent (presence d) \<noteq> None" "agent_startup_grace_until d = None"
  shows "detector_ok d'"
proof -
  consider "presence d' = presence d" "flags d' = flags d"
      "agent_startup_grace_until d' = agent_startup_grace_until d"
      "pending_idle d' = pending_idle d \<or> pending_idle d' = clear_pending_idle (pending_idle d)"
    | s d1 where "publish_phase agent changed exited (ti_now i) s d1 = (effects, d')"
        "presence d1 = presence d" "flags d1 = flags d" "pending_idle d1 = pending_idle d"
        "agent_startup_grace_until d1 = agent_startup_grace_until d"
    using read_screen_cases [OF assms(1)] by blast
  then show ?thesis
  proof cases
    case 1
    then show ?thesis using assms(2,4) by (auto simp: detector_ok_def)
  next
    case 2
    then show ?thesis
      using assms(2-4) by (intro publish_phase_ok [OF 2(1)]) (auto simp: detector_ok_def)
  qed
qed

text \<open>A tick is the composition of its phases.\<close>

lemma detection_tick_cases:
  assumes "detection_tick task rules i d = (effects, d')"
  obtains suppressed d1 agent changed sent d2 where
    "begin_tick (ti_now i) d = (suppressed, d1)"
    "(if should_check_process i suppressed d1 then probe_phase task i suppressed d1
      else (current_agent (presence d1), False, [], d1)) = (agent, changed, sent, d2)"
    "(ti_lifecycle_active i \<and> \<not> exit_to_report agent d2 \<and> effects = sent \<and> d' = stop_waiting d2)
     \<or> (\<not> (ti_lifecycle_active i \<and> \<not> exit_to_report agent d2) \<and>
        (startup_grace task (ti_now i) (exit_to_report agent d2) d2 = (False, d') \<and> effects = sent
         \<or> (\<exists>d3 more. startup_grace task (ti_now i) (exit_to_report agent d2) d2 = (True, d3)
              \<and> read_screen task rules i suppressed
                   (foreground_group_changed (foreground_pgid i) (last_foreground_pgid d1))
                   agent changed (exit_to_report agent d2) d3 = (more, d')
              \<and> effects = sent @ more)))"
proof -
  obtain suppressed d1 where b: "begin_tick (ti_now i) d = (suppressed, d1)" by fastforce
  obtain agent changed sent d2 where p: "(if should_check_process i suppressed d1
      then probe_phase task i suppressed d1 else (current_agent (presence d1), False, [], d1))
      = (agent, changed, sent, d2)" by (metis prod_cases4)
  let ?exited = "exit_to_report agent d2"
  obtain go_on d3 where s: "startup_grace task (ti_now i) ?exited d2 = (go_on, d3)" by fastforce
  obtain more d4 where r: "read_screen task rules i suppressed
      (foreground_group_changed (foreground_pgid i) (last_foreground_pgid d1)) agent changed ?exited d3
      = (more, d4)" by fastforce
  have "detection_tick task rules i d =
      (if ti_lifecycle_active i \<and> \<not> ?exited then (sent, stop_waiting d2)
       else if \<not> go_on then (sent, d3) else (sent @ more, d4))"
    by (simp only: detection_tick_def Let_def b p s r prod.case)
  then show thesis
    using assms s r by (intro that [OF b p]) (cases "ti_lifecycle_active i \<and> \<not> ?exited"; cases go_on; simp)
qed

lemma detection_tick_ok:
  assumes "detection_tick task rules i d = (effects, d')" "detector_ok d"
  shows "detector_ok d'"
proof -
  from assms(1) obtain suppressed d1 agent changed sent d2 where
    b: "begin_tick (ti_now i) d = (suppressed, d1)"
    and p: "(if should_check_process i suppressed d1 then probe_phase task i suppressed d1
      else (current_agent (presence d1), False, [], d1)) = (agent, changed, sent, d2)"
    and rest: "d' = stop_waiting d2
      \<or> startup_grace task (ti_now i) (exit_to_report agent d2) d2 = (False, d')
      \<or> (\<exists>d3 gc more. startup_grace task (ti_now i) (exit_to_report agent d2) d2 = (True, d3)
           \<and> read_screen task rules i suppressed gc agent changed (exit_to_report agent d2) d3 = (more, d'))"
    by (rule detection_tick_cases) blast
  have ok1: "detector_ok d1" using begin_tick_facts [OF b] assms(2) by (simp add: detector_ok_def)
  then have ok2: "detector_ok d2" and agent: "agent = current_agent (presence d2)"
    using p probe_phase_ok probe_phase_agent by (auto split: if_splits)
  have grace: "detector_ok d3" if "startup_grace task (ti_now i) (exit_to_report agent d2) d2 = (go, d3)" for go d3
    using startup_grace_facts(1-3,7,8,10) [OF that] ok2 by (auto simp: detector_ok_def)
  from rest show ?thesis
  proof (elim disjE exE conjE)
    assume "d' = stop_waiting d2" then show ?thesis using ok2 by (simp add: detector_ok_def)
  next
    assume "startup_grace task (ti_now i) (exit_to_report agent d2) d2 = (False, d')"
    then show ?thesis by (rule grace)
  next
    fix d3 gc more
    assume g: "startup_grace task (ti_now i) (exit_to_report agent d2) d2 = (True, d3)"
      and r: "read_screen task rules i suppressed gc agent changed (exit_to_report agent d2) d3 = (more, d')"
    show ?thesis
      using startup_grace_facts(1,9) [OF g] agent
      by (intro read_screen_ok [OF r grace [OF g]]) (simp_all add: exit_to_report_def)
  qed
qed

section \<open>Runs of the task\<close>

text \<open>Besides ticks, the pane may release the agent, ask for a reset, and read the delay before the
  next tick, which forgets a release that has ended.\<close>

inductive detector_step :: "detection_task \<Rightarrow> detector \<Rightarrow> detector \<Rightarrow> bool" for task where
  Tick: "detection_tick task rules i d = (effects, d') \<Longrightarrow> detector_step task d d'"
| Reset: "detector_step task d (reset_detector task now d)"
| Released: "detector_step task d (begin_graceful_release g now d)"
| Delay: "tick_delay task now override d = (delay, d') \<Longrightarrow> detector_step task d d'"

definition detector_init :: "detection_task \<Rightarrow> detector \<Rightarrow> bool" where
  "detector_init task d \<longleftrightarrow> (\<exists>g now. d = new_detector task g now)"

lemma new_detector_ok: "detector_ok (new_detector task g now)"
  by (simp add: new_detector_def detector_ok_def Let_def pending_idle_ok_def no_pending_idle_def
      AGENT_PENDING_IDLE_CONFIRMATIONS_def)

lemma detector_step_ok: "detector_step task d d' \<Longrightarrow> detector_ok d \<Longrightarrow> detector_ok d'"
proof (induction rule: detector_step.induct)
  case (Tick rules i d effects d')
  then show ?case by (rule detection_tick_ok)
next
  case (Reset d now)
  then show ?case by (simp add: reset_detector_def detector_ok_def)
next
  case (Released d g now)
  then show ?case by (simp add: begin_graceful_release_def detector_ok_def)
next
  case (Delay now override d delay d')
  then show ?case by (cases task) (auto simp: tick_delay_def detector_ok_def Let_def split: prod.splits)
qed

interpretation detection: invariant "detector_init task" "detector_step task" detector_ok for task
  by unfold_locales (auto simp: detector_init_def new_detector_ok intro: detector_step_ok)

section \<open>The follower of the events\<close>

text \<open>What a follower knows: the agent, its state, and whether a blocker or work is visible, as of
  the last event.\<close>

type_synonym detector_view = "agent option \<times> agent_state \<times> bool \<times> bool"

fun follow :: "detector_effect \<Rightarrow> detector_view \<Rightarrow> detector_view" where
  "follow ClearAgentOscState v = v"
| "follow (StateChanged g st blocker working exited at) v = (g, st, blocker, working)"

definition view_of :: "detector \<Rightarrow> detector_view" where
  "view_of d = (current_agent (presence d), dp_state (published d), dp_visible_blocker (published d),
     dp_visible_working (published d))"

fun run_ticks :: "detection_task \<Rightarrow> screen_rules \<Rightarrow> tick_input list \<Rightarrow> detector \<Rightarrow>
    detector_effect list \<times> detector" where
  "run_ticks task rules [] d = ([], d)"
| "run_ticks task rules (i # is) d =
     (let (effects, d1) = detection_tick task rules i d; (more, d2) = run_ticks task rules is d1
      in (effects @ more, d2))"

end
