(* ===== verification/Detection_Claims.thy ===== *)
theory Detection_Claims
  imports Detection_Machine Terminal_Exit
begin

text \<open>
  The properties of the detection task: its events keep a follower up to date, an exit is
  reported before the agent is forgotten and reaches the terminal, an idle screen is confirmed
  before it is believed, and the two copies of the task agree.
\<close>

section \<open>Events\<close>

lemma not_plain_idle_when_changed [simp]:
  "\<not> is_working_to_plain_idle p n True e" "\<not> is_working_to_plain_idle p n c True"
  by (simp_all add: is_working_to_plain_idle_def)

text \<open>A changed agent and an exit are always published.\<close>

lemma publish_phase_forced:
  assumes "publish_phase agent changed exited now s d = (effects, d')" "changed \<or> exited"
  shows "effects \<noteq> []"
  using assms
  by (auto simp: publish_phase_def decide_screen_detection_publish_def decide_detection_transition_def
      should_hold_working_to_idle_def should_publish_detection_update_def Let_def
      apply_agent_detection_publish_update_def split: prod.splits)

lemma lost_agent_is_sent:
  assumes "read_screen task rules i suppressed gc None True False d = (effects, d')"
  shows "effects \<noteq> []"
  using assms publish_phase_forced
  by (fastforce simp: read_screen_def Let_def decide_detection_screen_read_def should_skip_idle_screen_scan_def
      should_skip_state_update_def detection_update_for_publish_with_osc_def detect_agent_with_osc_def)

lemma view_of_stop_waiting [simp]: "view_of (stop_waiting d) = view_of d"
  by (simp add: view_of_def)

lemma read_screen_view:
  assumes "read_screen task rules i suppressed gc agent changed exited d = (effects, d')"
    and "agent = current_agent (presence d)"
  shows "effects = [] \<and> view_of d' = view_of d \<or> fold follow effects v = view_of d'"
  using read_screen_cases [OF assms(1)]
proof (elim disjE exE conjE)
  fix s d1
  assume "publish_phase agent changed exited (ti_now i) s d1 = (effects, d')"
    and "presence d1 = presence d" "published d1 = published d"
  then show ?thesis using publish_phase_cases [of agent changed exited "ti_now i" s d1 effects d'] assms(2)
    by (auto simp: view_of_def)
qed (simp_all add: view_of_def)

lemma probe_view_cases:
  assumes "(if due then probe_phase task i suppressed d1 else (current_agent (presence d1), False, [], d1))
    = (agent, changed, sent, d2)"
  shows "(\<not> changed \<and> sent = [] \<and> view_of d2 = view_of d1 \<and> agent = current_agent (presence d2))
    \<or> (changed \<and> agent = None \<and> sent = [ClearAgentOscState] \<and> flags d2 = no_shell_flags
       \<and> current_agent (presence d2) = None \<and> agent_startup_grace_until d2 = None)
    \<or> (fold follow sent v = view_of d2 \<and> flags d2 = no_shell_flags \<and> agent_startup_grace_until d2 \<noteq> None)"
proof (cases due)
  case True
  then have "probe_phase task i suppressed d1 = (agent, changed, sent, d2)" using assms by simp
  from probe_phase_cases [OF this] show ?thesis
    by (elim disjE conjE) (simp_all add: view_of_def unpublished_def)
qed (use assms in auto)

lemma tick_keeps_follower:
  assumes "detection_tick task rules i d = (effects, d')" "\<not> ti_lifecycle_active i"
  shows "fold follow effects (view_of d) = view_of d'"
proof -
  from assms obtain suppressed d1 agent changed sent d2 where
    b: "begin_tick (ti_now i) d = (suppressed, d1)"
    and p: "(if should_check_process i suppressed d1 then probe_phase task i suppressed d1
      else (current_agent (presence d1), False, [], d1)) = (agent, changed, sent, d2)"
    and rest: "startup_grace task (ti_now i) (exit_to_report agent d2) d2 = (False, d') \<and> effects = sent
      \<or> (\<exists>d3 gc more. startup_grace task (ti_now i) (exit_to_report agent d2) d2 = (True, d3)
           \<and> read_screen task rules i suppressed gc agent changed (exit_to_report agent d2) d3 = (more, d')
           \<and> effects = sent @ more)"
    by (elim detection_tick_cases) blast
  have start: "view_of d1 = view_of d" using begin_tick_facts [OF b] by (simp add: view_of_def)
  consider (same) "\<not> changed" "sent = []" "view_of d2 = view_of d" "agent = current_agent (presence d2)"
    | (lost) "changed" "agent = None" "sent = [ClearAgentOscState]" "flags d2 = no_shell_flags"
        "current_agent (presence d2) = None" "agent_startup_grace_until d2 = None"
    | (new) "fold follow sent (view_of d) = view_of d2" "flags d2 = no_shell_flags"
        "agent_startup_grace_until d2 \<noteq> None"
    using probe_view_cases [OF p, of "view_of d"] start by metis
  then show ?thesis
  proof cases
    case same
    from rest show ?thesis
    proof (elim disjE exE conjE)
      assume "startup_grace task (ti_now i) (exit_to_report agent d2) d2 = (False, d')" "effects = sent"
      then show ?thesis using same startup_grace_facts(1,2) by (fastforce simp: view_of_def)
    next
      fix d3 gc more
      assume g: "startup_grace task (ti_now i) (exit_to_report agent d2) d2 = (True, d3)"
        and r: "read_screen task rules i suppressed gc agent changed (exit_to_report agent d2) d3 = (more, d')"
        and e: "effects = sent @ more"
      have "view_of d3 = view_of d2" "agent = current_agent (presence d3)"
        using startup_grace_facts(1,2) [OF g] same by (simp_all add: view_of_def)
      then show ?thesis using read_screen_view [OF r, of "view_of d"] same e by auto
    qed
  next
    case lost
    then have exited: "\<not> exit_to_report agent d2" by (simp add: exit_to_report_def)
    obtain gc more where r: "read_screen task rules i suppressed gc None True False d2 = (more, d')"
      and e: "effects = sent @ more"
      using rest startup_grace_facts(4) [OF _ lost(6)] exited lost(1,2) by auto blast+
    show ?thesis using read_screen_view [OF r, of "view_of d"] lost_agent_is_sent [OF r] lost e by auto
  next
    case new
    then have "\<not> exit_to_report agent d2" by (simp add: exit_to_report_def no_shell_flags_def)
    then have "startup_grace task (ti_now i) (exit_to_report agent d2) d2 = (False, d')" "effects = sent"
      using rest new(3) startup_grace_facts(5) by auto blast+
    then show ?thesis using new startup_grace_facts(1,2) by (fastforce simp: view_of_def)
  qed
qed

text \<open>C7. A follower of the events is never out of date: as long as no integration owns the life
  cycle, whoever starts with the agent, the state and the visible signals the task has published
  and applies its events knows them after any number of ticks, whatever the probes and the screen
  show.\<close>

theorem follower_is_up_to_date:
  assumes "run_ticks task rules is d = (effects, d')" "\<forall>i \<in> set is. \<not> ti_lifecycle_active i"
  shows "fold follow effects (view_of d) = view_of d'"
  using assms
proof (induction "is" arbitrary: d effects)
  case (Cons i "is")
  then show ?case using tick_keeps_follower [of task rules i d]
    by (auto simp: Let_def split: prod.splits)
qed simp

section \<open>A concrete pane\<close>

text \<open>A pane whose shell is process 5, with the shell alone in the foreground, and rules that never
  see anything.\<close>

definition quiet_rules :: screen_rules where
  "quiet_rules = \<lparr>detect_with_osc = \<lambda>_ _ _ _. \<lparr>det_state = Idle, det_skip_state_update = False,
       det_visible_idle = False, det_visible_blocker = False, det_visible_working = False\<rparr>,
     skip_state_update = \<lambda>_ _. False\<rparr>"

definition shell_job :: foreground_job where
  "shell_job = \<lparr>process_group_id = 5, processes =
     [\<lparr>pid = 5, proc_name = lit ''sh'', argv0 = None, argv = None, cmdline = None\<rparr>]\<rparr>"

definition shell_tick :: "instant \<Rightarrow> tick_input" where
  "shell_tick now = \<lparr>ti_now = now, ti_shell_pid = 5, ti_lifecycle_active = False,
     ti_foreground_pgid = \<lambda>_. Some 5, ti_leader_job = \<lambda>_. None, ti_foreground_job = \<lambda>_. Some shell_job,
     ti_agent_hint = \<lambda>_. None, ti_resolve = \<lambda>_. None, ti_content = [], ti_content_seq = 0,
     ti_osc_title = [], ti_osc_progress = []\<rparr>"

lemma shell_tick_fields [simp]:
  "ti_now (shell_tick now) = now" "ti_shell_pid (shell_tick now) = 5"
  "\<not> ti_lifecycle_active (shell_tick now)" "foreground_pgid (shell_tick now) = Some 5"
  "ti_content (shell_tick now) = []"
  by (simp_all add: shell_tick_def foreground_pgid_def)

lemma sh_is_no_agent [simp]: "identify_agent (lit ''sh'') = None"
  by (simp add: identify_agent_def parse_agent_label_alt normalized_plain plain_char_def
      is_whitespace_def table_simps)

lemma shell_probe [simp]:
  "pr_agent (probe_foreground_process (shell_tick now)) = None"
  "pr_foreground_is_pane_shell (probe_foreground_process (shell_tick now))"
proof -
  have n: "normalized_process_name (\<lambda>_. None)
      \<lparr>pid = 5, proc_name = lit ''sh'', argv0 = None, argv = None, cmdline = None\<rparr> = lit ''sh''"
    by (simp add: normalized_process_name_def wrapped_agent_name_from_runtime_argv_def Let_def
        argv0_agent_name_def cmdline_argv0_agent_name_def split_whitespace_def split_on.simps)
  have j: "identify_agent_in_job (\<lambda>_. None) shell_job = None"
    by (simp add: identify_agent_in_job_def best_process_step_def shell_job_def n)
  show "pr_agent (probe_foreground_process (shell_tick now)) = None"
    "pr_foreground_is_pane_shell (probe_foreground_process (shell_tick now))"
    using j by (simp_all add: probe_foreground_process_def probe_foreground_process_from_jobs_def shell_tick_def
        probe_whole_job_def identify_process_group_leader_in_job_def is_pane_shell_job_def shell_job_def
        agent_hint_for_non_leader_foreground_job_members_def foreground_pgid_def)
qed

section \<open>Exits\<close>

text \<open>The shell of the pane is in the foreground again and no agent is found.\<close>

definition shell_is_back :: "tick_input \<Rightarrow> bool" where
  "shell_is_back i \<longleftrightarrow> ti_shell_pid i > 0 \<and> pr_agent (probe_foreground_process i) = None
     \<and> pr_foreground_is_pane_shell (probe_foreground_process i)"

text \<open>The probe that sees it, and the tick around it.\<close>

lemma exit_probe:
  assumes "shell_is_back i" "current_agent (presence d) = Some g"
    and "\<not> foreground_shell_exit_reported (flags d)" "pending_release d = None"
  obtains d' where "probe_phase task i None d = (Some g, False, [], d')"
    "presence d' = presence d" "flags d' = (flags d)\<lparr>pending_foreground_shell_clear := True\<rparr>"
    "pending_release d' = None"
  using assms
  by (simp add: probe_phase_def shell_is_back_def unsuppressed_agent_def foreground_shell_agent_action_def
      apply_foreground_shell_agent_action_def record_probe_def Let_def)

lemma begin_tick_unreleased:
  assumes "pending_release d = None"
  obtains d' where "begin_tick now d = (None, d')" "pending_release d' = None"
  using assms by (simp add: begin_tick_def active_pending_release_def Let_def)

lemma exit_published:
  assumes "read_screen task rules i suppressed gc (Some g) changed True d = (effects, d')"
    and "task = BasicTask \<or> \<not> should_skip_state_update rules (Some g) (ti_content i)"
    and "flags d = \<lparr>pending_foreground_shell_clear = True, foreground_shell_exit_reported = False\<rparr>"
  shows "effects = [StateChanged (Some g) Idle False False True (ti_now i)]"
    "presence d' = presence d" "pending_release d' = pending_release d"
    "flags d' = \<lparr>pending_foreground_shell_clear = True, foreground_shell_exit_reported = True\<rparr>"
  using assms
  by (auto simp: read_screen_def Let_def decide_detection_screen_read_def should_skip_idle_screen_scan_def
      detection_update_for_publish_with_osc_def publish_phase_def decide_screen_detection_publish_def
      decide_detection_transition_def should_hold_working_to_idle_def should_publish_detection_update_def
      next_publish_def stabilize_agent_detection_def apply_agent_detection_publish_update_def
      split: if_splits)

lemma startup_grace_exit:
  obtains d' where "startup_grace task now True d = (True, d')" "presence d' = presence d"
    "flags d' = flags d" "pending_release d' = pending_release d"
  by (cases "agent_startup_grace_until d") (simp_all add: startup_grace_def Let_def)

lemma exit_tick:
  assumes "shell_is_back i" "current_agent (presence d) = Some g"
    and "\<not> foreground_shell_exit_reported (flags d)" "pending_release d = None"
    and "should_check_process i None (snd (begin_tick (ti_now i) d))"
    and "task = BasicTask \<or> \<not> should_skip_state_update rules (Some g) (ti_content i)"
  obtains d' where
    "detection_tick task rules i d = ([StateChanged (Some g) Idle False False True (ti_now i)], d')"
    "current_agent (presence d') = Some g" "pending_release d' = None"
    "flags d' = \<lparr>pending_foreground_shell_clear = True, foreground_shell_exit_reported = True\<rparr>"
proof -
  obtain d1 where b: "begin_tick (ti_now i) d = (None, d1)" "pending_release d1 = None"
    using assms(4) by (rule begin_tick_unreleased)
  note same = begin_tick_facts [OF b(1)]
  obtain d2 where p: "probe_phase task i None d1 = (Some g, False, [], d2)" "presence d2 = presence d"
      "flags d2 = (flags d)\<lparr>pending_foreground_shell_clear := True\<rparr>" "pending_release d2 = None"
    using exit_probe [OF assms(1), of d1 g task thesis] assms(2,3) b(2) same by simp
  have exited: "exit_to_report (Some g) d2" using p(3) assms(3) by (simp add: exit_to_report_def)
  obtain d3 where s: "startup_grace task (ti_now i) True d2 = (True, d3)" "presence d3 = presence d2"
      "flags d3 = flags d2" "pending_release d3 = pending_release d2"
    by (rule startup_grace_exit)
  have f: "flags d3 = \<lparr>pending_foreground_shell_clear = True, foreground_shell_exit_reported = False\<rparr>"
    using s(3) p(3) assms(3) by simp
  obtain effects d4 where r: "read_screen task rules i None (foreground_group_changed (foreground_pgid i)
      (last_foreground_pgid d1)) (Some g) False True d3 = (effects, d4)" by fastforce
  note sent = exit_published [OF r assms(6) f]
  have "detection_tick task rules i d = (effects, d4)"
    using assms(5) by (simp add: detection_tick_def Let_def b(1) p(1) s(1) exited r)
  then show thesis using that sent s p assms(2) by simp
qed

lemma forget_tick:
  assumes "shell_is_back i" "current_agent (presence d) = Some g" "pending_release d = None"
    and "flags d = \<lparr>pending_foreground_shell_clear = True, foreground_shell_exit_reported = True\<rparr>"
    and "\<not> ti_lifecycle_active i"
  obtains d' where "detection_tick task rules i d =
      ([ClearAgentOscState, StateChanged None Unknown False False False (ti_now i)], d')"
    "current_agent (presence d') = None"
proof -
  obtain d1 where b: "begin_tick (ti_now i) d = (None, d1)" "pending_release d1 = None"
    using assms(3) by (rule begin_tick_unreleased)
  note same = begin_tick_facts [OF b(1)]
  have due: "should_check_process i None d1"
    using assms(1,4) same(3) by (simp add: should_check_process_def shell_is_back_def probe_input_def
        should_skip_process_probe_for_lifecycle_authority_def should_probe_foreground_job_def)
  obtain ch a where clear: "clear_current_agent (presence d1) = (ch, a)" "ch" "current_agent a = None"
    using assms(2) same(1) by (simp add: clear_current_agent_def)
  obtain d2 where p: "probe_phase task i None d1 = (None, True, [ClearAgentOscState], d2)"
      "current_agent (presence d2) = None" "agent_startup_grace_until d2 = None" "flags d2 = no_shell_flags"
    using assms(1,2,4) same(1,3) clear b(2)
    by (cases task) (auto simp: probe_phase_def shell_is_back_def unsuppressed_agent_def
        foreground_shell_agent_action_def apply_foreground_shell_agent_action_def start_agent_def Let_def)
  obtain more d3 where r: "read_screen task rules i None (foreground_group_changed (foreground_pgid i)
      (last_foreground_pgid d1)) None True False d2 = (more, d3)" by fastforce
  have "more = [StateChanged None Unknown False False False (ti_now i)]" "presence d3 = presence d2"
    using r
    by (auto simp: read_screen_def Let_def decide_detection_screen_read_def should_skip_idle_screen_scan_def
        should_skip_state_update_def detection_update_for_publish_with_osc_def detect_agent_with_osc_def
        publish_phase_def decide_screen_detection_publish_def decide_detection_transition_def
        should_hold_working_to_idle_def should_publish_detection_update_def next_publish_def
        stabilize_agent_detection_def apply_agent_detection_publish_update_def)
  moreover have "detection_tick task rules i d = ([ClearAgentOscState] @ more, d3)"
    using assms(5) p due by (simp add: detection_tick_def Let_def b(1) r exit_to_report_def startup_grace_def)
  ultimately show thesis using that p(2) by simp
qed

text \<open>An exit is reported before the agent is forgotten: when two probes in a row find the shell
  of the pane in the foreground, the first reports the agent idle with its process exited, and the
  second reports that there is none, with nothing in between.\<close>

theorem exit_is_reported_then_forgotten:
  assumes "current_agent (presence d) = Some g" "\<not> foreground_shell_exit_reported (flags d)"
    and "pending_release d = None" "shell_is_back i" "shell_is_back j"
    and "should_check_process i None (snd (begin_tick (ti_now i) d))" "\<not> ti_lifecycle_active j"
    and "task = BasicTask \<or> \<not> should_skip_state_update rules (Some g) (ti_content i)"
  shows "fst (run_ticks task rules [i, j] d) =
      [StateChanged (Some g) Idle False False True (ti_now i),
       ClearAgentOscState, StateChanged None Unknown False False False (ti_now j)]"
proof -
  obtain d1 where d1: "detection_tick task rules i d =
      ([StateChanged (Some g) Idle False False True (ti_now i)], d1)"
    and f: "current_agent (presence d1) = Some g" "pending_release d1 = None"
    "flags d1 = \<lparr>pending_foreground_shell_clear = True, foreground_shell_exit_reported = True\<rparr>"
    using assms(1-4,6,8) by (rule_tac exit_tick)
  obtain d2 where "detection_tick task rules j d1 =
      ([ClearAgentOscState, StateChanged None Unknown False False False (ti_now j)], d2)"
    using forget_tick [OF assms(5) f assms(7)] by metis
  then show ?thesis by (simp add: d1)
qed

text \<open>A pane that tracks pi since it was restored.\<close>

definition pi_pane :: detector where
  "pi_pane = new_detector PaneTask (Some Pi) 0"

lemma pi_pane_fields [simp]:
  "current_agent (presence pi_pane) = Some Pi" "flags pi_pane = no_shell_flags"
  "pending_release pi_pane = None" "pending_restore_probe pi_pane" "\<not> release_was_active pi_pane"
  "has_process_probe pi_pane = False"
  by (simp_all add: pi_pane_def new_detector_def presence_from_agent_def)

lemma shell_tick_is_back [simp]: "shell_is_back (shell_tick now)"
  by (simp add: shell_is_back_def)

lemma quiet_rules_never_skip [simp]: "\<not> should_skip_state_update quiet_rules g content"
  by (cases g) (simp_all add: should_skip_state_update_def quiet_rules_def)

lemma pi_pane_probe_due [simp]:
  "should_check_process (shell_tick now) None (snd (begin_tick now' pi_pane))"
  by (simp add: begin_tick_def active_pending_release_def should_check_process_def probe_input_def Let_def
      should_skip_process_probe_for_lifecycle_authority_def should_probe_foreground_job_def)

theorem exit_is_reported_then_forgotten_witness:
  "fst (run_ticks PaneTask quiet_rules [shell_tick 10, shell_tick 20] pi_pane) =
      [StateChanged (Some Pi) Idle False False True 10,
       ClearAgentOscState, StateChanged None Unknown False False False 20]"
  using exit_is_reported_then_forgotten [of pi_pane Pi "shell_tick 10" "shell_tick 20" PaneTask quiet_rules]
  by (simp add: no_shell_flags_def)

theorem follower_is_up_to_date_witness:
  "fold follow (fst (run_ticks PaneTask quiet_rules [shell_tick 10, shell_tick 20] pi_pane)) (view_of pi_pane)
     = view_of (snd (run_ticks PaneTask quiet_rules [shell_tick 10, shell_tick 20] pi_pane))"
  by (rule follower_is_up_to_date [OF surjective_pairing]) simp

section \<open>From the task to the terminal\<close>

text \<open>The handler of \<open>AppEvent::StateChanged\<close>, as far as it changes the terminal: the observation,
  and then, in \<open>update_terminal_state\<close>, a look at the launch that is under way, with the time read
  before.\<close>

fun deliver :: "instant \<Rightarrow> instant \<Rightarrow> detector_effect \<Rightarrow> terminal_state \<Rightarrow> terminal_state" where
  "deliver now clk ClearAgentOscState t = t"
| "deliver now clk (StateChanged g st blocker working exited at) t =
     snd (reconcile_managed_agent_at now False (snd (set_detected_state g st blocker exited clk at t)))"

lemma reconcile_result:
  "snd (reconcile_managed_agent_at now exited t) = t
   \<or> snd (reconcile_managed_agent_at now exited t) = clear_agent_name t
   \<or> (\<exists>m. snd (reconcile_managed_agent_at now exited t) = t\<lparr>managed := m\<rparr>)"
proof (cases "managed t")
  case (Some m)
  then show ?thesis
    unfolding reconcile_managed_agent_at_def Let_def option.case
    by (cases "managed_phase m") (simp_all only: managed_agent_phase.case split: if_split, auto)
qed (simp add: reconcile_managed_agent_at_def)

lemma reconcile_keeps:
  "effective_known_agent (snd (reconcile_managed_agent_at now exited t)) = effective_known_agent t"
  "hook_auth (snd (reconcile_managed_agent_at now exited t)) = hook_auth t"
  "current_session_identity (snd (reconcile_managed_agent_at now exited t)) = current_session_identity t"
  "recent_exit (snd (reconcile_managed_agent_at now exited t)) = recent_exit t"
proof -
  have same: "effective_known_agent t' = effective_known_agent t \<and> hook_auth t' = hook_auth t
      \<and> current_session_identity t' = current_session_identity t \<and> recent_exit t' = recent_exit t"
    if "t' = t \<or> t' = clear_agent_name t \<or> (\<exists>m. t' = t\<lparr>managed := m\<rparr>)" for t'
    using that by (elim disjE exE) (simp_all add: frame core_simps)
  from same [OF reconcile_result] show
    "effective_known_agent (snd (reconcile_managed_agent_at now exited t)) = effective_known_agent t"
    "hook_auth (snd (reconcile_managed_agent_at now exited t)) = hook_auth t"
    "current_session_identity (snd (reconcile_managed_agent_at now exited t)) = current_session_identity t"
    "recent_exit (snd (reconcile_managed_agent_at now exited t)) = recent_exit t" by blast+
qed

text \<open>C6. A detected exit ends the agent: in a tick that probes the process and finds the shell of
  the pane in the foreground, while an agent is tracked whose exit has not been reported yet and
  no release is pending, the events of the tick make the terminal drop the agent, its authority
  and its session. Two cases are excepted: in the task of a pane, a tick whose screen matches a
  rule that keeps the state sends no event; and an unofficial integration of the agent that
  reported after the observation keeps its authority.\<close>

theorem detected_exit_ends_agent:
  assumes "current_agent (presence d) = Some g" "\<not> foreground_shell_exit_reported (flags d)"
    and "pending_release d = None" "shell_is_back i"
    and "should_check_process i None (snd (begin_tick (ti_now i) d))"
    and "task = BasicTask \<or> \<not> should_skip_state_update rules (Some g) (ti_content i)"
    and "\<not> newer_custom_authority t (Some g) True (ti_now i)"
    and "t' = fold (deliver now clk) (fst (detection_tick task rules i d)) t"
  shows "effective_known_agent t' \<noteq> Some g
    \<and> is_none_or (\<lambda>a. parse_agent_label (ha_agent_label a) \<noteq> Some g) (hook_auth t')
    \<and> is_none_or (\<lambda>(_, label, _, _). parse_agent_label label \<noteq> Some g) (current_session_identity t')
    \<and> recent_exit t' = Some \<lparr>exit_agent = g, exit_observed_at = ti_now i\<rparr>"
proof -
  obtain d1 where "detection_tick task rules i d =
      ([StateChanged (Some g) Idle False False True (ti_now i)], d1)"
    using assms(1-6) by (rule_tac exit_tick)
  then have t': "t' = snd (reconcile_managed_agent_at now False
      (snd (set_detected_state (Some g) Idle False True clk (ti_now i) t)))"
    using assms(8) by simp
  obtain m t1 where t1: "set_detected_state (Some g) Idle False True clk (ti_now i) t = (m, t1)" by fastforce
  note ex = exited_detection [OF t1 assms(7)]
  have "barred g t1" using ex by (intro free_barred) auto
  then show ?thesis
    using ex barred_not_shown free_session [OF ex(1)]
    by (cases "current_session_identity t1")
      (auto simp: t' t1 reconcile_keeps free_of_def authority_of_def session_agent_is_def)
qed

theorem detected_exit_ends_agent_witness:
  "effective_known_agent (fold (deliver 10 10) (fst (detection_tick PaneTask quiet_rules (shell_tick 10) pi_pane))
      (new_terminal [] [])) \<noteq> Some Pi"
  using detected_exit_ends_agent [of pi_pane Pi "shell_tick 10" PaneTask quiet_rules "new_terminal [] []", OF _ _ _ _ _ _ _ refl]
  by (simp add: no_shell_flags_def newer_custom_authority_def new_terminal_def)

section \<open>Misses\<close>

text \<open>What a number of probes in a row that find nothing leave.\<close>

fun missed :: "nat \<Rightarrow> agent_detection_presence \<Rightarrow> agent_detection_presence" where
  "missed 0 a = a"
| "missed (Suc n) a = snd (observe_process_probe None (missed n a))"

lemma missed_add: "missed (m + n) a = missed m (missed n a)"
  by (induction m) simp_all

lemma lost_stays: "current_agent a = None \<Longrightarrow> current_agent (missed n a) = None"
  by (induction n) (simp_all add: observe_process_probe_def)

lemma missed_counts:
  assumes "current_agent a = Some g" "consecutive_misses a = 0" "n < 6"
  shows "missed n a = a\<lparr>consecutive_misses := of_nat n\<rparr>"
  using assms(3)
proof (induction n)
  case (Suc n)
  then have IH: "missed n a = a\<lparr>consecutive_misses := of_nat n\<rparr>" by simp
  have "n = 0 \<or> n = 1 \<or> n = 2 \<or> n = 3 \<or> n = 4" using Suc.prems by arith
  then have "saturating_add_u8 (of_nat n) 1 = of_nat (Suc n)"
    "(of_nat (Suc n) :: u8) < AGENT_MISS_CONFIRMATION_ATTEMPTS"
    by (elim disjE; simp add: saturating_add_u8_def AGENT_MISS_CONFIRMATION_ATTEMPTS_def)+
  then show ?case
    using assms(1) IH by (simp add: observe_process_probe_def Let_def del: of_nat_Suc)
qed (use assms(2) in simp)

text \<open>An agent is not lost by accident: after a probe has found it, it is still tracked after
  any five probes in a row that find nothing, and given up at the sixth.\<close>

theorem agent_survives_five_misses:
  assumes "observe_process_probe (Some g) a = (changed, b)"
  shows "current_agent (missed n b) = (if n < 6 then Some g else None)"
proof -
  have b: "current_agent b = Some g" "consecutive_misses b = 0"
    using assms by (auto simp: observe_process_probe_def split: if_splits)
  have "missed 6 b = missed (Suc 5) b" by simp
  also have "\<dots> = snd (observe_process_probe None (b\<lparr>consecutive_misses := 5\<rparr>))"
    using missed_counts [OF b, of 5] by (simp only: missed.simps) simp
  finally have six: "current_agent (missed 6 b) = None"
    using b(1) by (simp add: observe_process_probe_def saturating_add_u8_def
        AGENT_MISS_CONFIRMATION_ATTEMPTS_def Let_def)
  have late: "current_agent (missed (k + 6) b) = None" for k
    using lost_stays [OF six] by (simp only: missed_add)
  show ?thesis
  proof (cases "n < 6")
    case True
    then show ?thesis using missed_counts [OF b True] b(1) by simp
  next
    case False
    then show ?thesis using late [of "n - 6"] by simp
  qed
qed

theorem agent_survives_five_misses_witness:
  "current_agent (missed 5 (presence_from_agent (Some Pi))) = Some Pi
   \<and> current_agent (missed 6 (presence_from_agent (Some Pi))) = None"
proof -
  have "observe_process_probe (Some Pi) (presence_from_agent None) = (True, presence_from_agent (Some Pi))"
    by (simp add: observe_process_probe_def presence_from_agent_def)
  note after = agent_survives_five_misses [OF this]
  show ?thesis using after [of 5] after [of 6] by simp
qed

section \<open>Idle screens\<close>

text \<open>An observation of a working agent whose screen shows nothing but an idle prompt.\<close>

definition plain_idle :: "screen_detection_publish_input \<Rightarrow> bool" where
  "plain_idle i \<longleftrightarrow> sp_current_state i = Working \<and> det_state (sp_screen_detection i) = Idle
     \<and> \<not> det_visible_idle (sp_screen_detection i) \<and> \<not> sp_agent_changed i \<and> \<not> sp_process_exited i"

text \<open>What is published for observations in a row, up to the first publication.\<close>

fun publish_run :: "screen_detection_publish_input list \<Rightarrow> pending_idle_confirmation \<Rightarrow>
    detection_publish option list" where
  "publish_run [] p = []"
| "publish_run (i # is) p =
     (let (u, p') = decide_screen_detection_publish i p
      in u # (if u = None then publish_run is p' else []))"

definition idle_publish :: detection_publish where
  "idle_publish = \<lparr>pub_state = Idle, pub_visible_idle = False, pub_visible_blocker = False,
     pub_visible_working = False, pub_process_exited = False\<rparr>"

lemma decide_plain_idle:
  assumes "plain_idle i"
  shows "decide_screen_detection_publish i p =
    (case started_at p of
       None \<Rightarrow> (None, \<lparr>started_at = Some (sp_now i), confirmations = 0\<rparr>)
     | Some start \<Rightarrow>
         if sp_now i - start \<ge> AGENT_PENDING_IDLE_CAP
            \<or> saturating_add_u8 (confirmations p) 1 \<ge> AGENT_PENDING_IDLE_CONFIRMATIONS
         then (Some idle_publish, no_pending_idle)
         else (None, p\<lparr>confirmations := saturating_add_u8 (confirmations p) 1\<rparr>))"
proof -
  have "is_working_to_plain_idle (previous_publish i) (next_publish i) (sp_agent_changed i) (sp_process_exited i)"
    "next_publish i = \<lparr>dp_state = Idle, dp_visible_idle = False, dp_visible_blocker = False,
       dp_visible_working = False\<rparr>" "dp_state (previous_publish i) = Working" "\<not> sp_process_exited i"
    using assms by (simp_all add: plain_idle_def is_working_to_plain_idle_def previous_publish_def
        next_publish_def stabilize_agent_detection_def)
  then show ?thesis
    by (simp add: decide_screen_detection_publish_def decide_detection_transition_def
        should_hold_working_to_idle_def should_publish_detection_update_def clear_pending_idle_def
        no_pending_idle_def idle_publish_def Let_def split: option.splits)
qed

text \<open>An idle screen is confirmed before it is believed, and always believed in time: from the
  first sight of a plain idle screen of a working agent, the fourth observation at the latest
  publishes the agent as idle, an earlier one only when 700 milliseconds have passed, and the
  first one never.\<close>

theorem idle_is_confirmed_in_time:
  assumes "list_all plain_idle [i0, i1, i2, i3]" "\<not> pending_idle_active p"
  shows "publish_run [i0, i1, i2, i3] p =
    (if sp_now i1 - sp_now i0 \<ge> millis 700 then [None, Some idle_publish]
     else if sp_now i2 - sp_now i0 \<ge> millis 700 then [None, None, Some idle_publish]
     else [None, None, None, Some idle_publish])"
  using assms
  by (simp add: decide_plain_idle pending_idle_active_def Let_def saturating_add_u8_def
      AGENT_PENDING_IDLE_CAP_def AGENT_PENDING_IDLE_CONFIRMATIONS_def word_le_nat_alt)

text \<open>An observation of the example, at a given time.\<close>

definition idle_at :: "instant \<Rightarrow> screen_detection_publish_input" where
  "idle_at now = \<lparr>sp_current_state = Working, sp_last_visible_idle = False,
     sp_last_visible_blocker = False, sp_last_visible_working = True,
     sp_last_visible_signal_refresh = None,
     sp_screen_detection = \<lparr>det_state = Idle, det_skip_state_update = False, det_visible_idle = False,
       det_visible_blocker = False, det_visible_working = False\<rparr>,
     sp_process_exited = False, sp_agent_changed = False, sp_now = now\<rparr>"

theorem idle_is_confirmed_in_time_witness:
  "publish_run (map idle_at [0, millis 100, millis 200, millis 300]) no_pending_idle =
     [None, None, None, Some idle_publish]"
proof -
  have "publish_run [idle_at 0, idle_at (millis 100), idle_at (millis 200), idle_at (millis 300)] no_pending_idle
      = [None, None, None, Some idle_publish]"
    by (subst idle_is_confirmed_in_time)
      (simp_all add: plain_idle_def idle_at_def pending_idle_active_def no_pending_idle_def millis_def)
  then show ?thesis by simp
qed

section \<open>The variables of the task\<close>

text \<open>C18. The variables of the task are consistent in every run of either task: misses are counted
  only while an agent is tracked and stay below six, an idle screen that is waited for was
  confirmed less than three times, and without an agent neither an exit is pending or reported
  nor a startup grace is running.\<close>

theorem detector_is_consistent:
  assumes "reachable (detector_init task) (detector_step task) d"
  shows "consecutive_misses (presence d) < 6 \<and> confirmations (pending_idle d) < 3
    \<and> (current_agent (presence d) = None \<longrightarrow>
         consecutive_misses (presence d) = 0 \<and> \<not> pending_foreground_shell_clear (flags d)
         \<and> \<not> foreground_shell_exit_reported (flags d) \<and> agent_startup_grace_until d = None)"
  using detection.reachable_inv [OF assms]
  by (auto simp: detector_ok_def presence_ok_def pending_idle_ok_def no_shell_flags_def
      AGENT_MISS_CONFIRMATION_ATTEMPTS_def AGENT_PENDING_IDLE_CONFIRMATIONS_def)

theorem detector_is_consistent_witness:
  "consecutive_misses (presence (snd (detection_tick PaneTask quiet_rules (shell_tick 10) pi_pane))) < 6"
proof -
  have "detector_init PaneTask pi_pane" unfolding detector_init_def pi_pane_def by blast
  then have "reachable (detector_init PaneTask) (detector_step PaneTask)
      (snd (detection_tick PaneTask quiet_rules (shell_tick 10) pi_pane))"
    by (metis reachable.start reachable.step detector_step.Tick surjective_pairing)
  then show ?thesis using detector_is_consistent by blast
qed

section \<open>The two tasks\<close>

lemma probe_phase_same_task:
  assumes "\<not> pending_restore_probe d"
  shows "probe_phase PaneTask i s d = probe_phase BasicTask i s d"
proof -
  let ?probe = "probe_foreground_process i"
  obtain g release where g: "unsuppressed_agent s (pr_agent ?probe) (pending_release d) = (g, release)"
    by fastforce
  let ?action = "foreground_shell_agent_action (current_agent (presence d)) g
      (pr_foreground_is_pane_shell ?probe) (foreground_shell_exit_reported (flags d))"
  obtain ch a' fl' where act: "apply_foreground_shell_agent_action ?action (current_agent (presence d)) g
      (presence d) (flags d) = (ch, a', fl')" by (metis prod_cases3)
  define new where "new = (current_agent (presence d) \<noteq> current_agent a' \<or> ?action = ReportReplacementProcess)"
  have new: "ch \<longleftrightarrow> new" using action_facts(1) [OF act] unfolding new_def by metis
  have rec: "record_probe PaneTask i ?probe g release a' fl' d = record_probe BasicTask i ?probe g release a' fl' d"
    using assms by (simp add: record_probe_def)
  have unf: "probe_phase task i s d =
      (let d1 = record_probe task i ?probe g release a' fl' d
       in if \<not> ch then (current_agent (presence d), False, [], d1)
          else let (effects, d2) = (if new then start_agent (ti_now i) (current_agent a') d1 else ([], d1))
               in (current_agent a', case task of BasicTask \<Rightarrow> new | PaneTask \<Rightarrow> True, effects, d2))" for task
    by (simp only: probe_phase_def Let_def g act prod.case new_def)
  show ?thesis unfolding unf rec using new by (cases new) simp_all
qed

lemma startup_grace_same_task:
  assumes "agent_startup_grace_until d \<noteq> None \<Longrightarrow> last_screen_scan_seq d = None"
  shows "startup_grace PaneTask now e d = startup_grace BasicTask now e d"
proof (cases "agent_startup_grace_until d")
  case (Some until)
  let ?over = "stop_waiting (d\<lparr>agent_startup_grace_until := None\<rparr>)"
  have "last_screen_scan_seq ?over = None" using assms Some by simp
  then have "?over\<lparr>last_screen_scan_seq := None\<rparr> = ?over" by simp
  then show ?thesis using Some by (simp add: startup_grace_def Let_def)
qed (simp add: startup_grace_def)

lemma read_screen_same_task:
  assumes "\<not> (exited \<and> should_skip_state_update rules agent (ti_content i))"
  shows "read_screen PaneTask rules i s gc agent ch exited d = read_screen BasicTask rules i s gc agent ch exited d"
proof -
  have "((PaneTask = BasicTask \<longrightarrow> \<not> exited) \<and> should_skip_state_update rules agent (ti_content i))
      = ((BasicTask = BasicTask \<longrightarrow> \<not> exited) \<and> should_skip_state_update rules agent (ti_content i))"
    using assms by auto
  then show ?thesis by (simp only: read_screen_def Let_def)
qed

text \<open>The two copies of the loop do the same: from every state a task reaches, once the probe
  after a restore is done, a tick of the pane task and a tick of the basic task send the same
  events and leave the same variables, on every screen no rule skips.\<close>

theorem tasks_agree:
  assumes "reachable (detector_init task) (detector_step task) d" "\<not> pending_restore_probe d"
    and "\<forall>g. \<not> skip_state_update rules g (ti_content i)"
  shows "detection_tick PaneTask rules i d = detection_tick BasicTask rules i d"
proof -
  obtain s d1 where b: "begin_tick (ti_now i) d = (s, d1)" by fastforce
  have ok1: "detector_ok d1" "\<not> pending_restore_probe d1"
    using begin_tick_facts [OF b] detection.reachable_inv [OF assms(1)] assms(2)
    by (simp_all add: detector_ok_def)
  have noskip: "\<not> should_skip_state_update rules agent (ti_content i)" for agent
    using assms(3) by (cases agent) (simp_all add: should_skip_state_update_def)
  obtain agent ch sent d2 where p: "(if should_check_process i s d1 then probe_phase BasicTask i s d1
      else (current_agent (presence d1), False, [], d1)) = (agent, ch, sent, d2)" by (metis prod_cases4)
  have p': "(if should_check_process i s d1 then probe_phase PaneTask i s d1
      else (current_agent (presence d1), False, [], d1)) = (agent, ch, sent, d2)"
    by (simp only: probe_phase_same_task [OF ok1(2)] p)
  have "detector_ok d2" using p ok1(1) probe_phase_ok by (auto split: if_splits)
  then have g: "startup_grace PaneTask now e d2 = startup_grace BasicTask now e d2" for now e
    by (intro startup_grace_same_task) (simp add: detector_ok_def)
  have r: "read_screen PaneTask rules i s gc agent ch e d3 = read_screen BasicTask rules i s gc agent ch e d3"
    for gc e d3 by (rule read_screen_same_task) (simp add: noskip)
  show ?thesis by (simp only: detection_tick_def Let_def b p p' g r prod.case)
qed

theorem tasks_agree_witness:
  "detection_tick PaneTask quiet_rules (shell_tick 10) (new_detector BasicTask None 0)
     = detection_tick BasicTask quiet_rules (shell_tick 10) (new_detector BasicTask None 0)"
proof (rule tasks_agree [of BasicTask])
  show "reachable (detector_init BasicTask) (detector_step BasicTask) (new_detector BasicTask None 0)"
    by (rule reachable.start) (auto simp: detector_init_def)
  show "\<not> pending_restore_probe (new_detector BasicTask None 0)" by (simp add: new_detector_def)
  show "\<forall>g. \<not> skip_state_update quiet_rules g (ti_content (shell_tick 10))" by (simp add: quiet_rules_def)
qed

text \<open>They differ on the screens a rule does skip: the pane task then does not report the exit, and
  waits for the screen to change, where the basic task reports it.\<close>

lemma pane_task_hides_exit:
  assumes "shell_is_back i" "current_agent (presence d) = Some g"
    and "\<not> foreground_shell_exit_reported (flags d)" "pending_release d = None"
    and "should_check_process i None (snd (begin_tick (ti_now i) d))"
    and "should_skip_state_update rules (Some g) (ti_content i)"
  shows "fst (detection_tick PaneTask rules i d) = []
    \<and> fst (detection_tick BasicTask rules i d) = [StateChanged (Some g) Idle False False True (ti_now i)]"
proof -
  obtain d1 where b: "begin_tick (ti_now i) d = (None, d1)" "pending_release d1 = None"
    using assms(4) by (rule begin_tick_unreleased)
  note same = begin_tick_facts [OF b(1)]
  obtain d2 where p: "probe_phase PaneTask i None d1 = (Some g, False, [], d2)"
      "flags d2 = (flags d)\<lparr>pending_foreground_shell_clear := True\<rparr>"
    using exit_probe [OF assms(1), of d1 g PaneTask thesis] assms(2,3) b(2) same by simp
  have exited: "exit_to_report (Some g) d2" using p(2) assms(3) by (simp add: exit_to_report_def)
  obtain d3 where s: "startup_grace PaneTask (ti_now i) True d2 = (True, d3)"
    by (rule startup_grace_exit)
  have "fst (read_screen PaneTask rules i None gc (Some g) False True d3) = []" for gc
    using assms(6) by (simp add: read_screen_def decide_detection_screen_read_def should_skip_idle_screen_scan_def)
  then have "fst (detection_tick PaneTask rules i d) = []"
    using assms(5) by (simp add: detection_tick_def Let_def b(1) p(1) s exited split: prod.splits)
  moreover obtain d4 where "detection_tick BasicTask rules i d =
      ([StateChanged (Some g) Idle False False True (ti_now i)], d4)"
    using assms(1-5) by (rule_tac exit_tick) auto
  ultimately show ?thesis by simp
qed

end
