(* ===== verification/Input_Lease.thy ===== *)
theory Input_Lease
  imports Rust_Text
begin

text \<open>
  Input leases, \<open>src/app/input/lease.rs\<close>, with the keys of \<open>src/input/model.rs\<close> and the handler
  of \<open>src/app/runtime.rs\<close>: a key that was forwarded to a terminal stays with that terminal until
  it is released, wherever the focus goes meanwhile, and a key the interface consumed is not
  repeated into something else. Key codes and modifiers are types of crossterm and stay type
  variables, \<open>'c\<close> and \<open>'m\<close>.
\<close>

section \<open>Keys\<close>

datatype key_event_kind = KeyPress | KeyRepeat | KeyRelease

record windows_key_record =
  key_down :: bool
  record_repeat_count :: u16
  virtual_key_code :: u16
  virtual_scan_code :: u16
  unicode :: u16
  control_key_state :: u32

type_synonym physical_key_id = u32

datatype 'c key_identity = Physical physical_key_id | Semantic 'c

datatype key_source =
    Synthesized
  | Vt "8 word list"
  | WindowsConsole windows_key_record "physical_key_id option"

unbundle bit_operations_syntax

definition record_physical_key_id :: "windows_key_record \<Rightarrow> physical_key_id option" where
  "record_physical_key_id r =
     then_some (virtual_scan_code r \<noteq> 0)
       (ucast (virtual_scan_code r) OR
        push_bit 16 (if control_key_state r AND 0x100 \<noteq> 0 then 1 else 0))"

record ('c, 'm) terminal_key =
  key_code :: 'c
  key_modifiers :: 'm
  key_kind :: key_event_kind
  repeat_count :: u16
  shifted_codepoint :: "u32 option"
  generated_text :: "text option"
  source :: key_source

definition new_key :: "'c \<Rightarrow> 'm \<Rightarrow> ('c, 'm) terminal_key" where
  "new_key code modifiers = \<lparr>key_code = code, key_modifiers = modifiers, key_kind = KeyPress,
     repeat_count = 1, shifted_codepoint = None, generated_text = None, source = Synthesized\<rparr>"

definition with_kind :: "key_event_kind \<Rightarrow> ('c, 'm) terminal_key \<Rightarrow> ('c, 'm) terminal_key" where
  "with_kind kind k =
     (if kind = KeyRelease then k\<lparr>repeat_count := 1, generated_text := None\<rparr> else k)\<lparr>key_kind := kind\<rparr>"

definition with_repeat_count :: "u16 \<Rightarrow> ('c, 'm) terminal_key \<Rightarrow> ('c, 'm) terminal_key" where
  "with_repeat_count n k =
     k\<lparr>repeat_count := (if key_kind k = KeyRelease then 1 else max n 1)\<rparr>"

definition with_windows_record :: "windows_key_record \<Rightarrow> ('c, 'm) terminal_key \<Rightarrow> ('c, 'm) terminal_key" where
  "with_windows_record r k =
     k\<lparr>repeat_count := (if key_kind k = KeyRelease then 1 else max (record_repeat_count r) 1),
       source := WindowsConsole r (record_physical_key_id r)\<rparr>"

definition with_vt_bytes :: "8 word list \<Rightarrow> ('c, 'm) terminal_key \<Rightarrow> ('c, 'm) terminal_key" where
  "with_vt_bytes bytes k = k\<lparr>source := Vt bytes\<rparr>"

definition with_generated_text :: "text option \<Rightarrow> ('c, 'm) terminal_key \<Rightarrow> ('c, 'm) terminal_key" where
  "with_generated_text t k = k\<lparr>generated_text := (if key_kind k = KeyRelease then None else t)\<rparr>"

definition identity :: "('c, 'm) terminal_key \<Rightarrow> 'c key_identity" where
  "identity k = (case source k of
       WindowsConsole r (Some physical) \<Rightarrow> Physical physical
     | WindowsConsole r None \<Rightarrow> Semantic (key_code k)
     | Synthesized \<Rightarrow> Semantic (key_code k)
     | Vt bytes \<Rightarrow> Semantic (key_code k))"

definition has_physical_identity :: "('c, 'm) terminal_key \<Rightarrow> bool" where
  "has_physical_identity k = (case source k of WindowsConsole r (Some physical) \<Rightarrow> True | _ \<Rightarrow> False)"

section \<open>Leases\<close>

type_synonym input_source_id = u64

text \<open>\<open>TerminalInputTarget\<close> holds a terminal identifier, a string.\<close>

type_synonym terminal_input_target = "text"

datatype terminal_input_context = PaneContext | PopupContext "text"

type_synonym 'c input_lease_key = "input_source_id \<times> 'c key_identity"

definition lease_key_of :: "input_source_id \<Rightarrow> ('c, 'm) terminal_key \<Rightarrow> 'c input_lease_key" where
  "lease_key_of source_id k = (source_id, identity k)"

record ('c, 'm) forwarded_input_lease =
  lease_target :: terminal_input_target
  lease_key :: "('c, 'm) terminal_key"

datatype consumed_input_lease = ReprocessRepeats terminal_input_context | SuppressRepeats

datatype ('c, 'm) input_lease =
  Forwarded "('c, 'm) forwarded_input_lease" | Consumed consumed_input_lease

datatype repeat_plan =
    PlanForwarded terminal_input_target
  | PlanReprocess terminal_input_context u16 bool
  | PlanIgnore

type_synonym ('c, 'm) leases = "('c input_lease_key, ('c, 'm) input_lease) hashmap"

definition normalize_press ::
    "'c input_lease_key \<Rightarrow> ('c, 'm) terminal_key \<Rightarrow> ('c, 'm) leases \<Rightarrow>
     ('c, 'm) terminal_key \<times> ('c, 'm) leases" where
  "normalize_press lk key leases =
     (if key_kind key \<noteq> KeyPress \<or> generated_text key \<noteq> None then (key, leases)
      else if has_physical_identity key \<and> hm_contains leases lk
      then (with_kind KeyRepeat key, leases)
      else (key, hm_remove lk leases))"

definition insert_forwarded ::
    "'c input_lease_key \<Rightarrow> terminal_input_target \<Rightarrow> ('c, 'm) terminal_key \<Rightarrow> ('c, 'm) leases \<Rightarrow>
     ('c, 'm) leases" where
  "insert_forwarded lk target original leases =
     hm_insert lk (Forwarded \<lparr>lease_target = target, lease_key = original\<rparr>) leases"

definition insert_consumed ::
    "'c input_lease_key \<Rightarrow> consumed_input_lease \<Rightarrow> ('c, 'm) leases \<Rightarrow> ('c, 'm) leases" where
  "insert_consumed lk disposition leases = hm_insert lk (Consumed disposition) leases"

definition complete_press ::
    "'c input_lease_key \<Rightarrow> ('c, 'm) terminal_key \<Rightarrow> terminal_input_context option \<Rightarrow>
     terminal_input_context option \<Rightarrow> terminal_input_target option \<Rightarrow> ('c, 'm) leases \<Rightarrow>
     repeat_plan \<times> ('c, 'm) leases" where
  "complete_press lk key initial resulting target leases =
     (if generated_text key \<noteq> None then (PlanIgnore, leases)
      else case target of
        Some tg \<Rightarrow> (PlanIgnore, insert_forwarded lk tg key leases)
      | None \<Rightarrow>
          let leases1 = (if hm_contains leases lk then leases
                else insert_consumed lk
                  (case initial of
                     Some context \<Rightarrow> if resulting = Some context then ReprocessRepeats context else SuppressRepeats
                   | None \<Rightarrow> SuppressRepeats) leases)
          in (case hm_get leases1 lk of
                Some (Consumed (ReprocessRepeats context)) \<Rightarrow>
                  if repeat_count key > 1 then PlanReprocess context (repeat_count key - 1) True
                  else PlanIgnore
              | _ \<Rightarrow> PlanIgnore, leases1))"

definition plan_repeat ::
    "'c input_lease_key \<Rightarrow> ('c, 'm) terminal_key \<Rightarrow> terminal_input_context option \<Rightarrow> ('c, 'm) leases \<Rightarrow>
     repeat_plan \<times> ('c, 'm) leases" where
  "plan_repeat lk key current leases =
     (case hm_get leases lk of
        Some (Forwarded lease) \<Rightarrow> (PlanForwarded (lease_target lease), leases)
      | Some (Consumed (ReprocessRepeats context)) \<Rightarrow>
          if current = Some context then (PlanReprocess context (repeat_count key) True, leases)
          else (PlanIgnore, insert_consumed lk SuppressRepeats leases)
      | Some (Consumed SuppressRepeats) \<Rightarrow> (PlanIgnore, leases)
      | None \<Rightarrow>
          (case current of
             Some context \<Rightarrow> (PlanReprocess context (repeat_count key) False, leases)
           | None \<Rightarrow> (PlanIgnore, leases)))"

definition reprocess_allowed ::
    "'c input_lease_key \<Rightarrow> terminal_input_context \<Rightarrow> terminal_input_context option \<Rightarrow> bool \<Rightarrow>
     ('c, 'm) leases \<Rightarrow> bool \<times> ('c, 'm) leases" where
  "reprocess_allowed lk expected current tracked leases =
     (let allowed = (current = Some expected)
      in (allowed, if tracked \<and> \<not> allowed then insert_consumed lk SuppressRepeats leases else leases))"

fun forwarded_of :: "('c, 'm) input_lease option \<Rightarrow> ('c, 'm) forwarded_input_lease option" where
  "forwarded_of (Some (Forwarded lease)) = Some lease"
| "forwarded_of _ = None"

definition remove_forwarded ::
    "'c input_lease_key \<Rightarrow> ('c, 'm) leases \<Rightarrow> ('c, 'm) forwarded_input_lease option \<times> ('c, 'm) leases" where
  "remove_forwarded lk leases = (forwarded_of (hm_get leases lk), hm_remove lk leases)"

fun remove_keys ::
    "'c input_lease_key list \<Rightarrow> ('c, 'm) leases \<Rightarrow> ('c, 'm) forwarded_input_lease list \<times> ('c, 'm) leases" where
  "remove_keys [] leases = ([], leases)"
| "remove_keys (lk # lks) leases =
     (let (found, leases1) = remove_forwarded lk leases; (rest, leases2) = remove_keys lks leases1
      in (case found of None \<Rightarrow> rest | Some lease \<Rightarrow> lease # rest, leases2))"

definition remove_source ::
    "input_source_id \<Rightarrow> ('c, 'm) leases \<Rightarrow> ('c, 'm) forwarded_input_lease list \<times> ('c, 'm) leases" where
  "remove_source source_id leases =
     remove_keys (filter (\<lambda>lk. fst lk = source_id) (map fst leases)) leases"

definition remove_target ::
    "terminal_input_target \<Rightarrow> ('c, 'm) leases \<Rightarrow> ('c, 'm) forwarded_input_lease list \<times> ('c, 'm) leases" where
  "remove_target target leases =
     remove_keys (List.map_filter (\<lambda>(lk, lease).
       then_some (is_some_and (\<lambda>l. lease_target l = target) (forwarded_of (Some lease))) lk) leases) leases"

section \<open>The handler\<close>

text \<open>The application around the table: what it does with a key may change anything, the table
  included; forwarding a key only sends bytes.\<close>

record ('c, 'm, 'a) input_app =
  input_leases :: "('c, 'm) leases"
  pending_url_click_sources :: "input_source_id set"
  outside :: 'a

record ('c, 'm, 'a) key_ops =
  handle_key :: "('c, 'm) terminal_key \<Rightarrow> ('c, 'm, 'a) input_app \<Rightarrow>
    terminal_input_target option \<times> ('c, 'm, 'a) input_app"
  input_context :: "'a \<Rightarrow> terminal_input_context option"
  forward_key :: "terminal_input_target \<Rightarrow> ('c, 'm) terminal_key \<Rightarrow> 'a \<Rightarrow> bool \<times> 'a"

definition forward_terminal_key_to_target ::
    "('c, 'm, 'a) key_ops \<Rightarrow> terminal_input_target \<Rightarrow> ('c, 'm) terminal_key \<Rightarrow> ('c, 'm, 'a) input_app \<Rightarrow>
     bool \<times> ('c, 'm, 'a) input_app" where
  "forward_terminal_key_to_target ops target key app =
     (let (sent, out) = forward_key ops target key (outside app) in (sent, app\<lparr>outside := out\<rparr>))"

text \<open>A repeat that has to go to a target; the lease is dropped when the target is gone.\<close>

definition forward_or_drop ::
    "('c, 'm, 'a) key_ops \<Rightarrow> 'c input_lease_key \<Rightarrow> terminal_input_target \<Rightarrow> ('c, 'm) terminal_key \<Rightarrow>
     ('c, 'm, 'a) input_app \<Rightarrow> bool \<times> ('c, 'm, 'a) input_app" where
  "forward_or_drop ops lk target key app =
     (let (sent, app1) = forward_terminal_key_to_target ops target key app
      in (sent, if sent then app1 else app1\<lparr>input_leases := hm_remove lk (input_leases app1)\<rparr>))"

fun reprocess_loop ::
    "nat \<Rightarrow> ('c, 'm, 'a) key_ops \<Rightarrow> 'c input_lease_key \<Rightarrow> ('c, 'm) terminal_key \<Rightarrow>
     terminal_input_context \<Rightarrow> bool \<Rightarrow> terminal_input_target option \<Rightarrow> ('c, 'm, 'a) input_app \<Rightarrow>
     ('c, 'm, 'a) input_app" where
  "reprocess_loop 0 ops lk key context tracked forwarded app = app"
| "reprocess_loop (Suc n) ops lk key context tracked (Some target) app =
     (let (sent, app1) = forward_or_drop ops lk target key app
      in if sent then reprocess_loop n ops lk key context tracked (Some target) app1 else app1)"
| "reprocess_loop (Suc n) ops lk key context tracked None app =
     (let (allowed, leases) = reprocess_allowed lk context (input_context ops (outside app)) tracked
            (input_leases app);
          app1 = app\<lparr>input_leases := leases\<rparr>
      in if \<not> allowed then app1
         else
           let (target, app2) = handle_key ops key app1
           in case target of
                Some tg \<Rightarrow>
                  if tracked
                  then reprocess_loop n ops lk key context tracked (Some tg)
                         (app2\<lparr>input_leases := insert_forwarded lk tg key (input_leases app2)\<rparr>)
                  else reprocess_loop n ops lk key context tracked None app2
              | None \<Rightarrow> reprocess_loop n ops lk key context tracked None app2)"

definition execute_repeat_plan ::
    "('c, 'm, 'a) key_ops \<Rightarrow> 'c input_lease_key \<Rightarrow> ('c, 'm) terminal_key \<Rightarrow> repeat_plan \<Rightarrow>
     ('c, 'm, 'a) input_app \<Rightarrow> bool \<times> ('c, 'm, 'a) input_app" where
  "execute_repeat_plan ops lk key plan app =
     (case plan of
        PlanForwarded target \<Rightarrow> (True, snd (forward_or_drop ops lk target key app))
      | PlanReprocess context repetitions tracked \<Rightarrow>
          (True, reprocess_loop (unat repetitions) ops lk (with_repeat_count 1 (with_kind KeyRepeat key))
             context tracked None app)
      | PlanIgnore \<Rightarrow> (False, app))"

text \<open>The branch of \<open>handle_raw_input_event\<close> for keys, for any input source.\<close>

definition handle_raw_key ::
    "('c, 'm, 'a) key_ops \<Rightarrow> input_source_id \<Rightarrow> ('c, 'm) terminal_key \<Rightarrow> ('c, 'm, 'a) input_app \<Rightarrow>
     bool \<times> ('c, 'm, 'a) input_app" where
  "handle_raw_key ops source_id raw app =
     (let lk = lease_key_of source_id raw;
          (key, leases) = normalize_press lk raw (input_leases app);
          app1 = app\<lparr>input_leases := leases\<rparr>
      in case key_kind key of
           KeyPress \<Rightarrow>
             let initial = input_context ops (outside app1);
                 (target, app2) = handle_key ops key app1;
                 resulting = input_context ops (outside app2);
                 (plan, leases2) = complete_press lk key initial resulting target (input_leases app2)
             in (True, snd (execute_repeat_plan ops lk key plan (app2\<lparr>input_leases := leases2\<rparr>)))
         | KeyRepeat \<Rightarrow>
             let (plan, leases2) = plan_repeat lk key (input_context ops (outside app1)) (input_leases app1)
             in execute_repeat_plan ops lk key plan (app1\<lparr>input_leases := leases2\<rparr>)
         | KeyRelease \<Rightarrow>
             let (found, leases2) = remove_forwarded lk (input_leases app1);
                 app2 = app1\<lparr>input_leases := leases2\<rparr>
             in (False, case found of None \<Rightarrow> app2
                        | Some lease \<Rightarrow> snd (forward_terminal_key_to_target ops (lease_target lease) key app2)))"

text \<open>When a source goes away its forwarded keys are released, in the order of the table.\<close>

definition release_input_source ::
    "('c, 'm, 'a) key_ops \<Rightarrow> input_source_id \<Rightarrow> ('c, 'm, 'a) input_app \<Rightarrow> ('c, 'm, 'a) input_app" where
  "release_input_source ops source_id app =
     (let app1 = app\<lparr>pending_url_click_sources := pending_url_click_sources app - {source_id}\<rparr>;
          (pressed, leases) = remove_source source_id (input_leases app1)
      in fold (\<lambda>lease. snd \<circ> forward_terminal_key_to_target ops (lease_target lease)
                 (with_kind KeyRelease (lease_key lease)))
           pressed (app1\<lparr>input_leases := leases\<rparr>))"

definition release_input_target ::
    "('c, 'm, 'a) key_ops \<Rightarrow> terminal_input_target \<Rightarrow> ('c, 'm, 'a) input_app \<Rightarrow> ('c, 'm, 'a) input_app" where
  "release_input_target ops target app =
     (let (pressed, leases) = remove_target target (input_leases app)
      in fold (\<lambda>lease. snd \<circ> forward_terminal_key_to_target ops (lease_target lease)
                 (with_kind KeyRelease (lease_key lease)))
           pressed (app\<lparr>input_leases := leases\<rparr>))"

end
