(* ===== verification/Input_Claims.thy ===== *)
theory Input_Claims
  imports Input_Lease
begin


lemma key_kind_with_kind [simp]: "key_kind (with_kind kind k) = kind"
  by (simp add: with_kind_def)

section \<open>Held keys\<close>


section \<open>A concrete application\<close>

text \<open>An application in the context of a pane that logs what it handles and forwards.\<close>

definition logging_ops :: "(nat, unit, (text option \<times> (nat, unit) terminal_key) list) key_ops" where
  "logging_ops = \<lparr>handle_key = \<lambda>k app. (None, app\<lparr>outside := (None, k) # outside app\<rparr>),
     input_context = \<lambda>_. Some PaneContext,
     forward_key = \<lambda>target k out. (True, (Some target, k) # out)\<rparr>"

definition key_a :: "(nat, unit) terminal_key" where
  "key_a = new_key 97 ()"

definition holding_a :: "(nat, unit, (text option \<times> (nat, unit) terminal_key) list) input_app" where
  "holding_a = \<lparr>input_leases = insert_forwarded (lease_key_of 0 key_a) [1] key_a [],
     pending_url_click_sources = {}, outside = []\<rparr>"

lemma lease_key_a [simp]: "lease_key_of s (with_kind kind key_a) = (s, Semantic 97)"
    "lease_key_of s key_a = (s, Semantic 97)"
  by (simp_all add: lease_key_of_def identity_def key_a_def new_key_def with_kind_def)


section \<open>Consumed keys\<close>

text \<open>Repeats of one key, in a row.\<close>

fun handle_repeats :: "('c, 'm, 'a) key_ops \<Rightarrow> input_source_id \<Rightarrow> ('c, 'm) terminal_key list \<Rightarrow>
    ('c, 'm, 'a) input_app \<Rightarrow> ('c, 'm, 'a) input_app" where
  "handle_repeats ops s [] app = app"
| "handle_repeats ops s (k # ks) app = handle_repeats ops s ks (snd (handle_raw_key ops s k app))"

lemma suppressed_repeat:
  assumes "hm_get (input_leases app) (lease_key_of s k) = Some (Consumed SuppressRepeats)"
    and "key_kind k = KeyRepeat"
  shows "handle_raw_key ops s k app = (False, app)"
  using assms by (simp add: handle_raw_key_def normalize_press_def plan_repeat_def execute_repeat_plan_def)

lemma suppressed_repeats:
  assumes "hm_get (input_leases app) lk = Some (Consumed SuppressRepeats)"
    and "\<forall>k \<in> set ks. key_kind k = KeyRepeat \<and> lease_key_of s k = lk"
  shows "handle_repeats ops s ks app = app"
  using assms by (induction ks) (simp_all add: suppressed_repeat)

text \<open>A consumed key reaches nothing else: once the interface has consumed a key and is in
  another context than the one that consumed it, or has been, no number of repeats does anything;
  only the lease remembers it, until the key is pressed again or its source goes away.\<close>

theorem consumed_key_reaches_nothing_else:
  assumes "hm_get (input_leases app) lk = Some (Consumed disposition)"
    and "\<And>ctx. disposition = ReprocessRepeats ctx \<Longrightarrow> input_context ops (outside app) \<noteq> Some ctx"
    and "\<forall>k \<in> set ks. key_kind k = KeyRepeat \<and> lease_key_of s k = lk" "ks \<noteq> []"
  shows "outside (handle_repeats ops s ks app) = outside app
    \<and> hm_get (input_leases (handle_repeats ops s ks app)) j =
        (if j = lk then Some (Consumed SuppressRepeats) else hm_get (input_leases app) j)"
proof (cases disposition)
  case (ReprocessRepeats ctx)
  obtain k rest where ks: "ks = k # rest" using assms(4) by (cases ks) auto
  let ?app = "app\<lparr>input_leases := insert_consumed lk SuppressRepeats (input_leases app)\<rparr>"
  have "handle_raw_key ops s k app = (False, ?app)"
    using assms(1-3) ReprocessRepeats ks
    by (auto simp: handle_raw_key_def normalize_press_def plan_repeat_def execute_repeat_plan_def)
  moreover have "handle_repeats ops s rest ?app = ?app"
    using assms(3) ks by (intro suppressed_repeats) (auto simp: insert_consumed_def hm_simps)
  ultimately show ?thesis using ks by (simp add: insert_consumed_def hm_simps)
next
  case SuppressRepeats
  then show ?thesis using suppressed_repeats [of app lk ks s] assms(1,3) by simp
qed

theorem consumed_key_reaches_nothing_else_witness:
  "outside (handle_repeats logging_ops 0 [with_kind KeyRepeat key_a, with_kind KeyRepeat key_a]
     \<lparr>input_leases = [((0, Semantic 97), Consumed (ReprocessRepeats (PopupContext [7])))],
       pending_url_click_sources = {}, outside = []\<rparr>) = []"
  using consumed_key_reaches_nothing_else [of "\<lparr>input_leases =
        [((0, Semantic 97), Consumed (ReprocessRepeats (PopupContext [7])))],
       pending_url_click_sources = {}, outside = []\<rparr>"
      "(0, Semantic 97)" "ReprocessRepeats (PopupContext [7])" logging_ops
      "[with_kind KeyRepeat key_a, with_kind KeyRepeat key_a]" 0]
  by (auto simp: logging_ops_def)

section \<open>Sources and terminals that go away\<close>

lemma remove_keys_get:
  "hm_get (snd (remove_keys lks leases)) lk = (if lk \<in> set lks then None else hm_get leases lk)"
  by (induction lks leases rule: remove_keys.induct)
    (auto simp: remove_forwarded_def Let_def hm_simps split: prod.splits)

lemma remove_keys_found:
  "distinct lks \<Longrightarrow> fst (remove_keys lks leases) = List.map_filter (\<lambda>lk. forwarded_of (hm_get leases lk)) lks"
proof (induction lks arbitrary: leases)
  case (Cons lk lks)
  have "List.map_filter (\<lambda>j. forwarded_of (hm_get (hm_remove lk leases) j)) lks
      = List.map_filter (\<lambda>j. forwarded_of (hm_get leases j)) lks"
    using Cons.prems by (induction lks) (auto simp: List.map_filter_simps hm_simps split: option.splits)
  moreover have "fst (remove_keys lks (hm_remove lk leases))
      = List.map_filter (\<lambda>j. forwarded_of (hm_get (hm_remove lk leases) j)) lks"
    using Cons by simp
  ultimately show ?case
    by (cases "remove_keys lks (hm_remove lk leases)")
      (simp add: remove_forwarded_def Let_def List.map_filter_simps split: option.splits)
qed (simp add: List.map_filter_simps)

lemma map_filter_entries:
  assumes "hm_wf leases"
  shows "List.map_filter (\<lambda>lk. forwarded_of (hm_get leases lk)) (filter p (map fst leases))
    = List.map_filter (\<lambda>(lk, lease). if p lk then forwarded_of (Some lease) else None) leases"
proof -
  have "List.map_filter (\<lambda>lk. forwarded_of (hm_get leases lk)) (filter p (map fst xs))
      = List.map_filter (\<lambda>(lk, lease). if p lk then forwarded_of (Some lease) else None) xs"
    if "set xs \<subseteq> set leases" for xs
    using that
  proof (induction xs)
    case (Cons x xs)
    obtain lk lease where x: "x = (lk, lease)" by (cases x)
    have "hm_get leases lk = Some lease" using Cons.prems x assms by (simp add: hm_get_eq_Some_iff)
    then show ?case using Cons x by (auto simp: List.map_filter_simps split: option.splits)
  qed (simp add: List.map_filter_simps)
  then show ?thesis by simp
qed

lemma fold_forward_outside:
  "outside (fold (\<lambda>lease. snd \<circ> forward_terminal_key_to_target ops (t lease) (k lease)) ls app)
     = fold (\<lambda>lease out. snd (forward_key ops (t lease) (k lease) out)) ls (outside app)"
  "input_leases (fold (\<lambda>lease. snd \<circ> forward_terminal_key_to_target ops (t lease) (k lease)) ls app)
     = input_leases app"
  "pending_url_click_sources
     (fold (\<lambda>lease. snd \<circ> forward_terminal_key_to_target ops (t lease) (k lease)) ls app)
     = pending_url_click_sources app"
  by (induction ls arbitrary: app)
    (simp_all add: forward_terminal_key_to_target_def Let_def split: prod.splits)

text \<open>A source that goes away leaves no key pressed: each key it had forwarded is released,
  once, at the terminal that got it, every lease of the source is gone, as is its pending
  click on a link, and the leases and clicks of all other sources are as they were.\<close>

theorem lost_source_releases_its_keys:
  assumes "hm_wf (input_leases app)" "app' = release_input_source ops s app"
  shows "outside app' = fold (\<lambda>lease out. snd (forward_key ops (lease_target lease)
             (with_kind KeyRelease (lease_key lease)) out))
           (List.map_filter (\<lambda>(lk, lease). if fst lk = s then forwarded_of (Some lease) else None)
             (input_leases app)) (outside app)
    \<and> pending_url_click_sources app' = pending_url_click_sources app - {s}
    \<and> (\<forall>lk. hm_get (input_leases app') lk = (if fst lk = s then None else hm_get (input_leases app) lk))"
proof -
  let ?lks = "filter (\<lambda>lk. fst lk = s) (map fst (input_leases app))"
  obtain pressed rest where r: "remove_source s (input_leases app) = (pressed, rest)" by fastforce
  have "pressed = List.map_filter (\<lambda>(lk, lease). if fst lk = s then forwarded_of (Some lease) else None)
      (input_leases app)"
    using r assms(1) remove_keys_found [of ?lks "input_leases app"]
      map_filter_entries [OF assms(1), of "\<lambda>lk. fst lk = s"]
    by (simp add: remove_source_def hm_wf_def)
  moreover have "hm_get rest lk = (if fst lk = s then None else hm_get (input_leases app) lk)" for lk
    using r remove_keys_get [of ?lks "input_leases app" lk]
    by (auto simp: remove_source_def hm_get_None_iff)
  ultimately show ?thesis
    using assms(2) by (simp add: release_input_source_def r fold_forward_outside)
qed

theorem lost_source_releases_its_keys_witness:
  "outside (release_input_source logging_ops 0 holding_a) = [(Some [1], with_kind KeyRelease key_a)]"
  using lost_source_releases_its_keys [of holding_a _ logging_ops 0, OF _ refl]
  by (simp add: holding_a_def insert_forwarded_def hm_insert_def hm_wf_def logging_ops_def
      List.map_filter_simps)

end
