(* ===== verification/Public_Ids.thy ===== *)
theory Public_Ids
  imports Rust_Text
begin

text \<open>
  Public identifiers, \<open>src/workspace.rs\<close> 99--168, \<open>src/terminal/id.rs\<close>: numbers of workspaces,
  tabs and panes are written with 32 digits and no zero, so that every number has one spelling.
  A \<open>usize\<close> has 64 bits. The counters \<open>NEXT_WORKSPACE_ID\<close> and \<open>NEXT_TERMINAL_ID\<close> are passed
  explicitly, and so is the clock.
\<close>

type_synonym usize = u64

definition checked_add_usize :: "usize \<Rightarrow> usize \<Rightarrow> usize option" where
  "checked_add_usize a b = (if unat a + unat b < 2 ^ 64 then Some (a + b) else None)"

definition checked_mul_usize :: "usize \<Rightarrow> usize \<Rightarrow> usize option" where
  "checked_mul_usize a b = (if unat a * unat b < 2 ^ 64 then Some (a * b) else None)"

section \<open>Numbers\<close>

definition PUBLIC_ID_ALPHABET :: "text" where
  "PUBLIC_ID_ALPHABET = lit ''123456789ABCDEFGHJKMNPQRSTVWXYZ0''"

lemma unat_digits:
  assumes "(value :: usize) > 0"
  shows "unat ((value - 1) div 32) = (unat value - 1) div 32" "unat ((value - 1) mod 32) = (unat value - 1) mod 32"
  using assms by (simp_all add: unat_div unat_mod unat_minus_one unat_gt_0 word_neq_0_conv)

text \<open>The loop pushes the digits from the last to the first.\<close>

function encode_digits :: "usize \<Rightarrow> text \<Rightarrow> text" where
  "encode_digits value encoded =
     (if value > 0
      then encode_digits ((value - 1) div 32) (encoded @ [PUBLIC_ID_ALPHABET ! unat ((value - 1) mod 32)])
      else encoded)"
  by pat_completeness auto

termination
  by (relation "measure (unat \<circ> fst)")
    (auto simp: unat_digits word_less_nat_alt)

declare encode_digits.simps [simp del]

definition encode_public_number :: "usize \<Rightarrow> text" where
  "encode_public_number value =
     (if value = 0 then lit ''0'' else rev (encode_digits value []))"

text \<open>\<open>Iterator::position\<close>.\<close>

fun index_of :: "'a \<Rightarrow> 'a list \<Rightarrow> nat option" where
  "index_of x [] = None"
| "index_of x (y # ys) = (if y = x then Some 0 else map_option Suc (index_of x ys))"

definition decode_digit :: "usize \<Rightarrow> uchar \<Rightarrow> usize option" where
  "decode_digit decoded ch =
     (case index_of ch PUBLIC_ID_ALPHABET of
        None \<Rightarrow> None
      | Some digit \<Rightarrow>
          (case checked_mul_usize decoded 32 of
             None \<Rightarrow> None
           | Some shifted \<Rightarrow> checked_add_usize shifted (of_nat digit + 1)))"

fun decode_loop :: "usize \<Rightarrow> text \<Rightarrow> usize option" where
  "decode_loop decoded [] = Some decoded"
| "decode_loop decoded (ch # chs) =
     (case decode_digit decoded ch of None \<Rightarrow> None | Some d \<Rightarrow> decode_loop d chs)"

definition decode_public_number :: "text \<Rightarrow> usize option" where
  "decode_public_number value = decode_loop 0 value"

section \<open>Identifiers\<close>

definition public_workspace_number :: "text \<Rightarrow> usize option" where
  "public_workspace_number i = Option.bind (strip_prefix i (lit ''w'')) decode_public_number"

definition public_pane_id_for_number :: "text \<Rightarrow> usize \<Rightarrow> text" where
  "public_pane_id_for_number workspace_id pane_number =
     workspace_id @ lit '':p'' @ encode_public_number pane_number"

definition public_tab_id_for_number :: "text \<Rightarrow> usize \<Rightarrow> text" where
  "public_tab_id_for_number workspace_id tab_number =
     workspace_id @ lit '':t'' @ encode_public_number tab_number"

definition generate_workspace_id :: "u64 \<Rightarrow> text \<times> u64" where
  "generate_workspace_id next_id = (lit ''w'' @ encode_public_number next_id, next_id + 1)"

text \<open>\<open>Iterator::max\<close>, and the reservation; nobody else changes the counter meanwhile.\<close>

fun list_max :: "u64 list \<Rightarrow> u64 option" where
  "list_max [] = None"
| "list_max (x # xs) = Some (fold max xs x)"

definition reserve_workspace_ids :: "text list \<Rightarrow> u64 \<Rightarrow> u64" where
  "reserve_workspace_ids ids current =
     (case Option.bind (list_max (List.map_filter public_workspace_number ids))
             (\<lambda>m. checked_add_usize m 1) of
        None \<Rightarrow> current
      | Some nxt \<Rightarrow> if current < nxt then nxt else current)"

text \<open>\<open>TerminalId::alloc\<close>: the microseconds and the counter in hexadecimal, without a separator.\<close>

fun hex_digit :: "nat \<Rightarrow> uchar" where
  "hex_digit d = (if d < 10 then 48 + d else 87 + d)"

fun to_hex :: "nat \<Rightarrow> text" where
  "to_hex n = (if n < 16 then [hex_digit n] else to_hex (n div 16) @ [hex_digit (n mod 16)])"

declare to_hex.simps [simp del]

definition terminal_id_alloc :: "nat \<Rightarrow> u64 \<Rightarrow> text \<times> u64" where
  "terminal_id_alloc micros next_id =
     (lit ''term_'' @ to_hex micros @ to_hex (unat next_id), next_id + 1)"

section \<open>Every number has one spelling\<close>

lemma encode_digits_acc: "encode_digits v (xs @ acc) = xs @ encode_digits v acc"
proof (induction v acc arbitrary: xs rule: encode_digits.induct)
  case (1 v acc)
  then show ?case
    by (cases "v > 0") (simp_all add: encode_digits.simps [of v])
qed

lemma encode_digits_step:
  "v > 0 \<Longrightarrow> rev (encode_digits v []) =
     rev (encode_digits ((v - 1) div 32) []) @ [PUBLIC_ID_ALPHABET ! unat ((v - 1) mod 32)]"
  using encode_digits_acc [of "(v - 1) div 32" "[PUBLIC_ID_ALPHABET ! unat ((v - 1) mod 32)]" "[]"]
  by (simp add: encode_digits.simps [of v])

lemma encode_digits_0 [simp]: "encode_digits 0 [] = []"
  by (simp add: encode_digits.simps)

lemma decode_loop_append:
  "decode_loop d (xs @ ys) = Option.bind (decode_loop d xs) (\<lambda>e. decode_loop e ys)"
  by (induction xs arbitrary: d) (simp_all split: option.split)

lemma index_of_nth: "distinct xs \<Longrightarrow> i < length xs \<Longrightarrow> index_of (xs ! i) xs = Some i"
proof (induction xs arbitrary: i)
  case (Cons x xs)
  then show ?case by (cases i) auto
qed simp

lemma index_of_Some: "index_of x xs = Some i \<Longrightarrow> i < length xs \<and> xs ! i = x"
  by (induction xs arbitrary: i) (auto split: if_splits)

lemma alphabet: "length PUBLIC_ID_ALPHABET = 32" "distinct PUBLIC_ID_ALPHABET"
  by (simp_all add: PUBLIC_ID_ALPHABET_def lit_def)

lemma decode_digit_Some:
  "decode_digit d c = Some e \<longleftrightarrow> (\<exists>i < 32. PUBLIC_ID_ALPHABET ! i = c \<and> unat e = unat d * 32 + i + 1)"
  (is "?l \<longleftrightarrow> ?r")
proof -
  have step: "decode_digit d c = Some e \<longleftrightarrow> unat e = unat d * 32 + i + 1"
    if i: "i < 32" "index_of c PUBLIC_ID_ALPHABET = Some i" for i
  proof (cases "unat d * 32 + i + 1 < 2 ^ 64")
    case True
    have n: "unat (of_nat i + 1 :: u64) = i + 1" using i(1) by (simp add: unat_word_ariths unat_of_nat)
    have m: "unat (d * 32) = unat d * 32" using True by (simp add: unat_word_ariths)
    have "unat (d * 32 + (of_nat i + 1)) = unat d * 32 + i + 1"
      using True n m by (simp only: unat_word_ariths) simp
    then show ?thesis
      using i(2) True n m
      by (auto simp: decode_digit_def checked_mul_usize_def checked_add_usize_def word_unat_eq_iff)
  next
    case False
    have n: "unat (of_nat i + 1 :: u64) = i + 1" using i(1) by (simp add: unat_word_ariths unat_of_nat)
    have m: "unat (d * 32) = unat d * 32" if "unat d * 32 < 2 ^ 64" using that by (simp add: unat_word_ariths)
    have "unat e < 2 ^ 64" using unsigned_less [of e, where ?'a = nat] by simp
    then have "unat e \<noteq> unat d * 32 + i + 1" using False by linarith
    moreover have "decode_digit d c = None"
      using i(2) False n m by (auto simp: decode_digit_def checked_mul_usize_def checked_add_usize_def)
    ultimately show ?thesis by simp
  qed
  show ?thesis
  proof
    assume l: ?l
    then obtain i where i: "index_of c PUBLIC_ID_ALPHABET = Some i"
      by (auto simp: decode_digit_def split: option.splits)
    have "i < 32" "PUBLIC_ID_ALPHABET ! i = c" using index_of_Some [OF i] by (simp_all add: alphabet)
    then show ?r using l step i by blast
  next
    assume ?r
    then obtain i where "i < 32" "PUBLIC_ID_ALPHABET ! i = c" "unat e = unat d * 32 + i + 1" by blast
    then show ?l using step index_of_nth [OF alphabet(2), of i] by (auto simp: alphabet)
  qed
qed

lemma decode_encode_digits: "decode_loop 0 (rev (encode_digits v [])) = Some v"
proof (induction v rule: measure_induct_rule [of unat])
  case (less v)
  show ?case
  proof (cases "v > 0")
    case True
    have "decode_loop 0 (rev (encode_digits ((v - 1) div 32) [])) = Some ((v - 1) div 32)"
      using True by (intro less) (simp add: unat_digits word_less_nat_alt)
    moreover have "decode_digit ((v - 1) div 32) (PUBLIC_ID_ALPHABET ! unat ((v - 1) mod 32)) = Some v"
      unfolding decode_digit_Some unat_digits [OF True]
      using True div_mult_mod_eq [of "unat v - 1" 32]
      by (intro exI [of _ "(unat v - 1) mod 32"]) (auto simp: word_less_nat_alt)
    ultimately show ?thesis using True by (simp add: encode_digits_step decode_loop_append)
  qed (simp add: word_gt_0)
qed

lemma encode_decode_digits: "decode_loop 0 s = Some v \<Longrightarrow> rev (encode_digits v []) = s \<and> (v = 0 \<longleftrightarrow> s = [])"
proof (induction s arbitrary: v rule: rev_induct)
  case (snoc c s)
  then obtain d where d: "decode_loop 0 s = Some d" "decode_digit d c = Some v"
    by (auto simp: decode_loop_append bind_eq_Some_conv split: option.splits)
  then obtain i where i: "i < 32" "PUBLIC_ID_ALPHABET ! i = c" "unat v = unat d * 32 + i + 1"
    by (auto simp: decode_digit_Some)
  then have v: "v > 0" by (simp add: word_less_nat_alt)
  have "unat ((v - 1) div 32) = unat d" "unat ((v - 1) mod 32) = i"
    using i by (simp_all add: unat_digits [OF v])
  then have "(v - 1) div 32 = d" "unat ((v - 1) mod 32) = i" by (simp_all add: word_unat_eq_iff)
  then show ?case using encode_digits_step [OF v] snoc.IH [OF d(1)] i(2) v by auto
qed simp

lemma decode_encode: "v \<noteq> 0 \<Longrightarrow> decode_public_number (encode_public_number v) = Some v"
  by (simp add: decode_public_number_def encode_public_number_def decode_encode_digits)

lemma encode_decode:
  "decode_public_number s = Some v \<Longrightarrow> s \<noteq> [] \<Longrightarrow> v \<noteq> 0 \<and> encode_public_number v = s"
  using encode_decode_digits [of s v] by (simp add: decode_public_number_def encode_public_number_def)

lemma encode_inject: "v \<noteq> 0 \<Longrightarrow> w \<noteq> 0 \<Longrightarrow> encode_public_number v = encode_public_number w \<longleftrightarrow> v = w"
  by (metis decode_encode option.inject)

lemma encode_alphabet: "set (encode_public_number v) \<subseteq> set PUBLIC_ID_ALPHABET"
proof -
  have "set (rev (encode_digits v [])) \<subseteq> set PUBLIC_ID_ALPHABET"
  proof (induction v rule: measure_induct_rule [of unat])
    case (less v)
    show ?case
    proof (cases "v > 0")
      case True
      have "set (rev (encode_digits ((v - 1) div 32) [])) \<subseteq> set PUBLIC_ID_ALPHABET"
        using True by (intro less) (simp add: unat_digits word_less_nat_alt)
      moreover have "PUBLIC_ID_ALPHABET ! unat ((v - 1) mod 32) \<in> set PUBLIC_ID_ALPHABET"
        using True by (intro nth_mem) (simp add: unat_digits alphabet)
      ultimately show ?thesis unfolding encode_digits_step [OF True] by simp
    qed (simp add: word_gt_0)
  qed
  moreover have "set (lit ''0'') \<subseteq> set PUBLIC_ID_ALPHABET"
    unfolding PUBLIC_ID_ALPHABET_def lit_def by simp
  ultimately show ?thesis by (simp add: encode_public_number_def)
qed

section \<open>Fresh identifiers\<close>

lemma list_max_ge: "list_max xs = Some m \<Longrightarrow> x \<in> set xs \<Longrightarrow> x \<le> m"
proof (cases xs)
  case (Cons y ys)
  have *: "z \<le> fold max zs z \<and> (\<forall>w \<in> set zs. w \<le> fold max zs z)" for z :: u64 and zs
  proof (induction zs arbitrary: z)
    case (Cons w zs)
    from this [of "max w z"] show ?case by auto
  qed simp
  assume "list_max xs = Some m" "x \<in> set xs"
  then show ?thesis using * [of y ys] Cons by auto
qed simp

text \<open>A microsecond clock of the years 1978 to 2112 has thirteen hexadecimal digits.\<close>

definition clock_in_range :: "nat \<Rightarrow> bool" where
  "clock_in_range micros \<longleftrightarrow> 16 ^ 12 \<le> micros \<and> micros < 16 ^ 13"

lemma length_to_hex: "16 ^ k \<le> n \<Longrightarrow> n < 16 ^ Suc k \<Longrightarrow> length (to_hex n) = Suc k"
proof (induction k arbitrary: n)
  case 0
  then show ?case by (simp add: to_hex.simps)
next
  case (Suc k)
  have "16 ^ k \<le> n div 16" "n div 16 < 16 ^ Suc k"
    using Suc.prems by (simp_all add: less_eq_div_iff_mult_less_eq div_less_iff_less_mult ac_simps)
  moreover have "\<not> n < 16" using Suc.prems(1) by (simp add: not_less) (metis mult.commute mult_le_mono1 nat_mult_1 one_le_numeral one_le_power order_trans)
  ultimately show ?case using Suc.IH by (simp add: to_hex.simps [of n])
qed

lemma hex_digit_inject: "a < 16 \<Longrightarrow> b < 16 \<Longrightarrow> hex_digit a = hex_digit b \<longleftrightarrow> a = b"
  by (auto split: if_splits)

declare hex_digit.simps [simp del]

lemma to_hex_nonempty [simp]: "to_hex n \<noteq> []" "[] \<noteq> to_hex n"
  by (simp_all add: to_hex.simps [of n])

lemma to_hex_inject: "to_hex m = to_hex n \<Longrightarrow> m = n"
proof (induction m arbitrary: n rule: less_induct)
  case (less m)
  have last: "m mod 16 = n mod 16"
    using arg_cong [OF less.prems, of last] by (auto simp: to_hex.simps [of m] to_hex.simps [of n] hex_digit_inject split: if_splits)
  have butlast: "butlast (to_hex m) = butlast (to_hex n)" using less.prems by simp
  show ?case
  proof (cases "m < 16")
    case True
    then have "n < 16" using butlast by (auto simp: to_hex.simps [of m] to_hex.simps [of n] split: if_splits)
    then show ?thesis using True last by simp
  next
    case False
    then have n: "\<not> n < 16" using butlast by (auto simp: to_hex.simps [of m] to_hex.simps [of n] split: if_splits)
    then have "to_hex (m div 16) = to_hex (n div 16)" using False butlast by (simp add: to_hex.simps [of m] to_hex.simps [of n])
    then have "m div 16 = n div 16" using less.IH [of "m div 16" "n div 16"] False by simp
    then show ?thesis using last by (metis div_mult_mod_eq)
  qed
qed

lemma terminal_ids_differ:
  assumes "clock_in_range m" "clock_in_range n" "i \<noteq> j"
  shows "fst (terminal_id_alloc m i) \<noteq> fst (terminal_id_alloc n j)"
proof
  assume eq: "fst (terminal_id_alloc m i) = fst (terminal_id_alloc n j)"
  have "length (to_hex m) = length (to_hex n)"
    using assms(1,2) length_to_hex [of 12] by (simp add: clock_in_range_def)
  then have "to_hex (unat i) = to_hex (unat j)" using eq by (simp add: terminal_id_alloc_def)
  then show False using to_hex_inject [of "unat i" "unat j"] assms(3) by (simp add: word_unat_eq_iff)
qed

end
