(* ===== verification/Tabs.thy ===== *)
theory Tabs
  imports Layout Public_Ids Terminal_Lifecycle "HOL-Library.Monad_Syntax"
begin

text \<open>
  A tab, \<open>src/workspace/tab.rs\<close>: a layout, the state of each of its panes, and the pane that
  stands for the tab. Starting a process is the parameter \<open>spawn\<close>: what it answers for a pane, a
  directory, a command and an environment; the sizes, the theme and the channels it also gets are
  handed through unread and are part of the function. The three global counters are the record
  \<open>allocators\<close>. An outer \<open>None\<close> is the panic of \<open>close_focused\<close>.
\<close>

section \<open>Data\<close>

record allocators =
  next_pane_id :: u32
  next_terminal_id :: u64
  next_workspace_id :: u64

record pane_state =
  attached_terminal_id :: "text"
  seen :: bool

definition new_pane_state :: "text \<Rightarrow> pane_state" where
  "new_pane_state i = \<lparr>attached_terminal_id = i, seen = True\<rparr>"

record moved_pane =
  mp_pane_id :: pane_id
  mp_pane_state :: pane_state

record 'r new_pane =
  np_pane_id :: pane_id
  np_terminal :: terminal_state
  np_runtime :: 'r

datatype pane_launch_identity = Inherit | Managed "text" "text" "text" | OmitPane

record pane_launch_env =
  extra :: "(text \<times> text) list"
  launch_identity :: pane_launch_identity

definition from_extra :: "(text \<times> text) list \<Rightarrow> pane_launch_env" where
  "from_extra ex = \<lparr>extra = ex, launch_identity = Inherit\<rparr>"

definition with_identity :: "text \<Rightarrow> text \<Rightarrow> text \<Rightarrow> pane_launch_env \<Rightarrow> pane_launch_env" where
  "with_identity w t p env = env\<lparr>launch_identity := Managed w t p\<rparr>"

datatype split_command = ShellCommand "text" pane_launch_env | ArgvCommand "text list" pane_launch_env

datatype launch = DefaultShell | RunShell "text" | RunArgv "text list"

record spawn_request =
  sr_pane :: pane_id
  sr_cwd :: "text"
  sr_launch :: launch
  sr_env :: pane_launch_env

type_synonym ('e, 'r) spawner = "spawn_request \<Rightarrow> 'e + 'r"

record tab =
  tab_custom_name :: "text option"
  tab_number :: usize
  root_pane :: pane_id
  tab_layout :: tile_layout
  tab_panes :: "(pane_id, pane_state) hashmap"
  zoomed :: bool

section \<open>Construction\<close>

definition alloc_terminal :: "nat \<Rightarrow> allocators \<Rightarrow> text \<times> allocators" where
  "alloc_terminal micros al =
     (let (i, nxt) = terminal_id_alloc micros (next_terminal_id al) in (i, al\<lparr>next_terminal_id := nxt\<rparr>))"

definition launched_terminal :: "text \<Rightarrow> text \<Rightarrow> text list option \<Rightarrow> terminal_state" where
  "launched_terminal i dir args =
     (case args of Some av \<Rightarrow> with_launch_argv av (new_terminal i dir) | None \<Rightarrow> new_terminal i dir)"

definition new_tab ::
    "('e, 'r) spawner \<Rightarrow> nat \<Rightarrow> usize \<Rightarrow> text \<Rightarrow> pane_launch_env \<Rightarrow> text list option \<Rightarrow> allocators \<Rightarrow>
     ('e + tab \<times> terminal_state \<times> 'r) \<times> allocators" where
  "new_tab spawn micros number initial_cwd env args al =
     (let (layout, root_id, nxt) = new_layout (next_pane_id al);
          al1 = al\<lparr>next_pane_id := nxt\<rparr>
      in case spawn \<lparr>sr_pane = root_id, sr_cwd = initial_cwd,
                     sr_launch = (case args of Some av \<Rightarrow> RunArgv av | None \<Rightarrow> DefaultShell),
                     sr_env = env\<rparr> of
           Inl err \<Rightarrow> (Inl err, al1)
         | Inr runtime \<Rightarrow>
             let (terminal_id, al2) = alloc_terminal micros al1
             in (Inr (\<lparr>tab_custom_name = None, tab_number = number, root_pane = root_id, tab_layout = layout,
                       tab_panes = hm_insert root_id (new_pane_state terminal_id) [], zoomed = False\<rparr>,
                      launched_terminal terminal_id initial_cwd args, runtime), al2))"

definition from_existing_pane :: "usize \<Rightarrow> text option \<Rightarrow> moved_pane \<Rightarrow> tab" where
  "from_existing_pane number custom_name moved =
     \<lparr>tab_custom_name = custom_name, tab_number = number, root_pane = mp_pane_id moved,
      tab_layout = \<lparr>tree_root = Pane (mp_pane_id moved), focus = mp_pane_id moved\<rparr>,
      tab_panes = hm_insert (mp_pane_id moved) (mp_pane_state moved) [], zoomed = False\<rparr>"

section \<open>Operations\<close>

definition set_tab_name :: "text \<Rightarrow> tab \<Rightarrow> tab" where
  "set_tab_name name t = t\<lparr>tab_custom_name := Some name\<rparr>"

text \<open>A split allocates the pane before the process is started and takes it back when that fails.\<close>

definition split_layout :: "direction \<Rightarrow> f32 option \<Rightarrow> u32 \<Rightarrow> tile_layout \<Rightarrow> pane_id \<times> u32 \<times> tile_layout" where
  "split_layout d ratio next_id l =
     (case ratio of
        Some r \<Rightarrow> split_focused_with_ratio d r next_id l
      | None \<Rightarrow> split_focused d next_id l)"

definition split_spawn_request ::
    "pane_id \<Rightarrow> text \<Rightarrow> pane_launch_env \<Rightarrow> split_command option \<Rightarrow> spawn_request" where
  "split_spawn_request new_id actual_cwd env command =
     (case command of
        Some (ShellCommand c env') \<Rightarrow>
          \<lparr>sr_pane = new_id, sr_cwd = actual_cwd, sr_launch = RunShell c, sr_env = env'\<rparr>
      | Some (ArgvCommand av env') \<Rightarrow>
          \<lparr>sr_pane = new_id, sr_cwd = actual_cwd, sr_launch = RunArgv av, sr_env = env'\<rparr>
      | None \<Rightarrow> \<lparr>sr_pane = new_id, sr_cwd = actual_cwd, sr_launch = DefaultShell, sr_env = env\<rparr>)"

definition split_tab ::
    "('e, 'r) spawner \<Rightarrow> nat \<Rightarrow> text \<Rightarrow> direction \<Rightarrow> f32 option \<Rightarrow> text option \<Rightarrow> pane_launch_env \<Rightarrow>
     split_command option \<Rightarrow> allocators \<Rightarrow> tab \<Rightarrow> (('e + 'r new_pane) \<times> allocators \<times> tab) option" where
  "split_tab spawn micros current_dir d ratio dir env command al t =
     (let previous_focus = focus (tab_layout t);
          (new_id, nxt, layout) = split_layout d ratio (next_pane_id al) (tab_layout t);
          al1 = al\<lparr>next_pane_id := nxt\<rparr>;
          actual_cwd = unwrap_or dir current_dir;
          launch_argv = (case command of Some (ArgvCommand av _) \<Rightarrow> Some av | _ \<Rightarrow> None)
      in case spawn (split_spawn_request new_id actual_cwd env command) of
           Inl err \<Rightarrow>
             (case close_focused layout of
                None \<Rightarrow> None
              | Some (_, layout1) \<Rightarrow>
                  Some (Inl err, al1, t\<lparr>tab_layout := focus_pane previous_focus layout1\<rparr>))
         | Inr runtime \<Rightarrow>
             let (terminal_id, al2) = alloc_terminal micros al1
             in Some (Inr \<lparr>np_pane_id = new_id, np_terminal = launched_terminal terminal_id actual_cwd launch_argv,
                           np_runtime = runtime\<rparr>, al2,
                      t\<lparr>tab_layout := layout, tab_panes := hm_insert new_id (new_pane_state terminal_id) (tab_panes t),
                        zoomed := False\<rparr>))"

definition promoted_root_if_needed :: "pane_id \<Rightarrow> tab \<Rightarrow> pane_id option" where
  "promoted_root_if_needed closing t =
     (if root_pane t \<noteq> closing then None
      else find (\<lambda>i. i \<noteq> closing) (pane_ids (tab_layout t)))"

definition close_in_layout :: "pane_id \<Rightarrow> tile_layout \<Rightarrow> tile_layout option" where
  "close_in_layout i l =
     (if focus l = i then map_option snd (close_focused l)
      else map_option (\<lambda>(_, l1). focus_pane (focus l) l1) (close_focused (focus_pane i l)))"

definition take_pane_from_tab :: "pane_id \<Rightarrow> tab \<Rightarrow> (moved_pane option \<times> tab) option" where
  "take_pane_from_tab i t =
     (if \<not> hm_contains (tab_panes t) i then Some (None, t)
      else do {
        t1 \<leftarrow> (if pane_count (tab_layout t) > 1 then
                 let next_root = promoted_root_if_needed i t
                 in map_option (\<lambda>l. t\<lparr>tab_layout := l, root_pane := unwrap_or next_root (root_pane t)\<rparr>)
                      (close_in_layout i (tab_layout t))
               else Some t);
        Some (case hm_get (tab_panes t1) i of
                None \<Rightarrow> (None, t1)
              | Some st \<Rightarrow> (Some \<lparr>mp_pane_id = i, mp_pane_state = st\<rparr>,
                           t1\<lparr>tab_panes := hm_remove i (tab_panes t1), zoomed := False\<rparr>))
      })"

definition insert_existing_pane ::
    "pane_id \<Rightarrow> moved_pane \<Rightarrow> direction \<Rightarrow> f32 \<Rightarrow> tab \<Rightarrow> (moved_pane + pane_id) \<times> tab" where
  "insert_existing_pane target moved d ratio t =
     (let (ok, layout) = insert_pane_near target (mp_pane_id moved) d ratio (tab_layout t);
          t1 = t\<lparr>tab_layout := layout\<rparr>
      in if \<not> ok then (Inl moved, t1)
         else (Inr (mp_pane_id moved),
               t1\<lparr>tab_panes := hm_insert (mp_pane_id moved) (mp_pane_state moved) (tab_panes t1), zoomed := False\<rparr>))"

definition detach_pane :: "pane_id \<Rightarrow> tab \<Rightarrow> ((pane_id \<times> text) option \<times> tab) option" where
  "detach_pane i t =
     (if pane_count (tab_layout t) \<le> 1 then Some (None, t)
      else
        let next_root = promoted_root_if_needed i t
        in do {
          layout \<leftarrow> close_in_layout i (tab_layout t);
          let t1 = t\<lparr>tab_layout := layout\<rparr>;
          Some (case hm_get (tab_panes t1) i of
                  None \<Rightarrow> (None, t1)
                | Some st \<Rightarrow>
                    (Some (i, attached_terminal_id st),
                     t1\<lparr>tab_panes := hm_remove i (tab_panes t1), zoomed := False,
                        root_pane := unwrap_or next_root (root_pane t1)\<rparr>))
        })"

definition tab_terminal_id :: "pane_id \<Rightarrow> tab \<Rightarrow> text option" where
  "tab_terminal_id i t = map_option attached_terminal_id (hm_get (tab_panes t) i)"

text \<open>The directory of a pane: what its process answers, or what its terminal was started with.\<close>

definition cwd_for_pane ::
    "(text \<Rightarrow> text option) \<Rightarrow> (text, terminal_state) hashmap \<Rightarrow> pane_id \<Rightarrow> tab \<Rightarrow> text option" where
  "cwd_for_pane runtime_cwd terminals i t = do {
     terminal_id \<leftarrow> tab_terminal_id i t;
     or_else (runtime_cwd terminal_id) (map_option cwd (hm_get terminals terminal_id))
   }"

end
