(* ===== verification/Workspaces.thy ===== *)
theory Workspaces
  imports Tabs
begin

text \<open>
  A workspace, \<open>src/workspace.rs\<close>: a list of tabs, the active one, and the public numbers of
  its tabs and panes. What git answers about a directory (\<open>discover_workspace_git_identity\<close>,
  \<open>git_branch\<close>) is read from disk and is the parameter \<open>git\<close>. An outer \<open>None\<close> is a panic.
\<close>

section \<open>Data\<close>

record worktree_space_membership =
  wt_key :: "text"
  wt_label :: "text"
  repo_root :: "text"
  checkout_path :: "text"
  is_linked_worktree :: bool

record 'g workspace =
  ws_id :: "text"
  custom_name :: "text option"
  identity_cwd :: "text"
  cached_identity_cwd :: "text"
  cached_auto_label :: "text"
  cached_git_status_key :: "text"
  cached_git_branch :: "text option"
  cached_git_ahead_behind :: "(usize \<times> usize) option"
  cached_git_space :: "'g option"
  worktree_space :: "worktree_space_membership option"
  ws_metadata_tokens :: metadata_tokens
  metadata_token_sequences :: "(text, u64) hashmap"
  public_pane_numbers :: "(pane_id, usize) hashmap"
  next_public_pane_number :: usize
  next_public_tab_number :: usize
  tabs :: "tab list"
  active_tab :: nat

record 'g git_answers =
  discover_workspace_git_identity :: "text \<Rightarrow> 'g option \<times> text \<times> text"
  git_branch :: "text \<Rightarrow> text option"

text \<open>\<open>Vec::remove\<close> and \<open>Vec::insert\<close> within bounds, and \<open>Iterator::position\<close> is \<open>position\<close>.\<close>

definition vec_remove :: "nat \<Rightarrow> 'a list \<Rightarrow> 'a list" where
  "vec_remove i xs = take i xs @ drop (Suc i) xs"

definition vec_insert :: "nat \<Rightarrow> 'a \<Rightarrow> 'a list \<Rightarrow> 'a list" where
  "vec_insert i x xs = take i xs @ x # drop i xs"

definition vec_get :: "'a list \<Rightarrow> nat \<Rightarrow> 'a option" where
  "vec_get xs i = (if i < length xs then Some (xs ! i) else None)"

section \<open>Queries\<close>

definition active_tab_of :: "'g workspace \<Rightarrow> tab option" where
  "active_tab_of w = vec_get (tabs w) (active_tab w)"

definition find_tab_index_for_pane :: "pane_id \<Rightarrow> 'g workspace \<Rightarrow> nat option" where
  "find_tab_index_for_pane i w = position (\<lambda>t. hm_contains (tab_panes t) i) (tabs w)"

fun find_map_tab :: "(tab \<Rightarrow> 'a option) \<Rightarrow> tab list \<Rightarrow> 'a option" where
  "find_map_tab f [] = None"
| "find_map_tab f (t # ts) = (case f t of None \<Rightarrow> find_map_tab f ts | Some x \<Rightarrow> Some x)"

definition ws_pane_state :: "pane_id \<Rightarrow> 'g workspace \<Rightarrow> pane_state option" where
  "ws_pane_state i w = find_map_tab (\<lambda>t. hm_get (tab_panes t) i) (tabs w)"

definition ws_terminal_id :: "pane_id \<Rightarrow> 'g workspace \<Rightarrow> text option" where
  "ws_terminal_id i w = find_map_tab (tab_terminal_id i) (tabs w)"

definition focused_pane_id :: "'g workspace \<Rightarrow> pane_id option" where
  "focused_pane_id w = map_option (\<lambda>t. focus (tab_layout t)) (active_tab_of w)"

definition public_pane_number :: "pane_id \<Rightarrow> 'g workspace \<Rightarrow> usize option" where
  "public_pane_number i w = hm_get (public_pane_numbers w) i"

definition public_tab_number :: "nat \<Rightarrow> 'g workspace \<Rightarrow> usize option" where
  "public_tab_number idx w = map_option tab_number (vec_get (tabs w) idx)"

definition launch_env_for_new_pane ::
    "'g workspace \<Rightarrow> usize \<Rightarrow> usize \<Rightarrow> (text \<times> text) list \<Rightarrow> pane_launch_env" where
  "launch_env_for_new_pane w tab_nr pane_nr extra_env =
     with_identity (ws_id w) (public_tab_id_for_number (ws_id w) tab_nr)
       (public_pane_id_for_number (ws_id w) pane_nr) (from_extra extra_env)"

section \<open>The books of public numbers\<close>

definition register_new_pane_with_number :: "pane_id \<Rightarrow> usize \<Rightarrow> 'g workspace \<Rightarrow> 'g workspace" where
  "register_new_pane_with_number i number w =
     w\<lparr>public_pane_numbers := hm_insert i number (public_pane_numbers w),
       next_public_pane_number := max (next_public_pane_number w) (number + 1)\<rparr>"

definition unregister_pane :: "pane_id \<Rightarrow> 'g workspace \<Rightarrow> 'g workspace" where
  "unregister_pane i w = w\<lparr>public_pane_numbers := hm_remove i (public_pane_numbers w)\<rparr>"

definition register_moved_pane :: "pane_id \<Rightarrow> 'g workspace \<Rightarrow> 'g workspace" where
  "register_moved_pane i w =
     (if hm_contains (public_pane_numbers w) i then w
      else register_new_pane_with_number i (next_public_pane_number w) w)"

section \<open>Construction\<close>

definition workspace_of_tab ::
    "'g git_answers \<Rightarrow> text \<Rightarrow> text option \<Rightarrow> text \<Rightarrow> tab \<Rightarrow> 'g workspace" where
  "workspace_of_tab git i label dir t =
     (let (space, auto_label, status_key) = discover_workspace_git_identity git dir
      in \<lparr>ws_id = i, custom_name = label, identity_cwd = dir, cached_identity_cwd = dir,
          cached_auto_label = auto_label, cached_git_status_key = status_key,
          cached_git_branch = git_branch git dir, cached_git_ahead_behind = None,
          cached_git_space = space, worktree_space = None, ws_metadata_tokens = \<lparr>entries = []\<rparr>,
          metadata_token_sequences = [], public_pane_numbers = hm_insert (root_pane t) 1 [],
          next_public_pane_number = 2, next_public_tab_number = 2, tabs = [t], active_tab = 0\<rparr>)"

definition alloc_workspace :: "allocators \<Rightarrow> text \<times> allocators" where
  "alloc_workspace al =
     (let (i, nxt) = generate_workspace_id (next_workspace_id al) in (i, al\<lparr>next_workspace_id := nxt\<rparr>))"

definition workspace_from_existing_pane ::
    "'g git_answers \<Rightarrow> text option \<Rightarrow> text option \<Rightarrow> text \<Rightarrow> moved_pane \<Rightarrow> allocators \<Rightarrow>
     'g workspace \<times> allocators" where
  "workspace_from_existing_pane git label tab_label dir moved al =
     (let (i, al1) = alloc_workspace al
      in (workspace_of_tab git i label dir (from_existing_pane 1 tab_label moved), al1))"

definition new_workspace ::
    "('e, 'r) spawner \<Rightarrow> 'g git_answers \<Rightarrow> nat \<Rightarrow> text \<Rightarrow> text list option \<Rightarrow> (text \<times> text) list \<Rightarrow>
     allocators \<Rightarrow> ('e + 'g workspace \<times> terminal_state \<times> 'r) \<times> allocators" where
  "new_workspace spawn git micros initial_cwd args extra_env al =
     (let (i, al1) = alloc_workspace al;
          env = with_identity i (public_tab_id_for_number i 1) (public_pane_id_for_number i 1)
                  (from_extra extra_env)
      in case new_tab spawn micros 1 initial_cwd env args al1 of
           (Inl err, al2) \<Rightarrow> (Inl err, al2)
         | (Inr (t, terminal, runtime), al2) \<Rightarrow>
             (Inr (workspace_of_tab git i None initial_cwd t, terminal, runtime), al2))"

section \<open>Tabs\<close>

definition active_after_removal :: "nat \<Rightarrow> 'g workspace \<Rightarrow> 'g workspace" where
  "active_after_removal removed w =
     (if active_tab w \<ge> length (tabs w) then w\<lparr>active_tab := length (tabs w) - 1\<rparr>
      else if removed \<le> active_tab w \<and> active_tab w > 0 then w\<lparr>active_tab := active_tab w - 1\<rparr>
      else w)"

definition adjust_active_tab_after_removal :: "nat \<Rightarrow> 'g workspace \<Rightarrow> 'g workspace" where
  "adjust_active_tab_after_removal removed w =
     (if tabs w = [] then w\<lparr>active_tab := 0\<rparr> else active_after_removal removed w)"

definition switch_tab :: "nat \<Rightarrow> 'g workspace \<Rightarrow> 'g workspace" where
  "switch_tab idx w =
     (if idx < length (tabs w)
      then w\<lparr>active_tab := idx,
             tabs := (tabs w)[idx := (tabs w ! idx)\<lparr>tab_panes :=
               hm_map_values (\<lambda>_ p. p\<lparr>seen := True\<rparr>) (tab_panes (tabs w ! idx))\<rparr>]\<rparr>
      else w)"

definition create_tab ::
    "('e, 'r) spawner \<Rightarrow> nat \<Rightarrow> text \<Rightarrow> text list option \<Rightarrow> (text \<times> text) list \<Rightarrow> allocators \<Rightarrow>
     'g workspace \<Rightarrow> (('e + nat \<times> terminal_state \<times> 'r) \<times> allocators \<times> 'g workspace) option" where
  "create_tab spawn micros dir args extra_env al w =
     (let number = next_public_tab_number w;
          w1 = w\<lparr>next_public_tab_number := number + 1\<rparr>;
          pane_nr = next_public_pane_number w1;
          env = launch_env_for_new_pane w1 number pane_nr extra_env
      in case active_tab_of w1 of
           None \<Rightarrow> None
         | Some _ \<Rightarrow>
             Some (case new_tab spawn micros number dir env args al of
               (Inl err, al1) \<Rightarrow> (Inl err, al1, w1)
             | (Inr (t, terminal, runtime), al1) \<Rightarrow>
                 let w2 = register_new_pane_with_number (root_pane t) pane_nr w1;
                     w3 = w2\<lparr>tabs := tabs w2 @ [t]\<rparr>
                 in (Inr (length (tabs w3) - 1, terminal, runtime), al1, w3)))"

definition close_tab :: "nat \<Rightarrow> 'g workspace \<Rightarrow> bool \<times> 'g workspace" where
  "close_tab idx w =
     (if length (tabs w) \<le> 1 \<or> idx \<ge> length (tabs w) then (False, w)
      else
        let t = tabs w ! idx;
            w1 = w\<lparr>tabs := vec_remove idx (tabs w)\<rparr>;
            w2 = fold unregister_pane (map fst (tab_panes t)) w1
        in (True, active_after_removal idx w2))"

definition move_tab :: "nat \<Rightarrow> nat \<Rightarrow> 'g workspace \<Rightarrow> bool \<times> 'g workspace" where
  "move_tab source_idx insert_idx w =
     (if source_idx \<ge> length (tabs w) \<or> insert_idx > length (tabs w) then (False, w)
      else
        let target_idx = min (if source_idx < insert_idx then insert_idx - 1 else insert_idx)
              (length (tabs w) - 1)
        in if source_idx = target_idx then (False, w)
           else
             let active_root = map_option root_pane (vec_get (tabs w) (active_tab w));
                 t = tabs w ! source_idx;
                 ts = vec_insert target_idx t (vec_remove source_idx (tabs w))
             in (True, w\<lparr>tabs := ts, active_tab := unwrap_or
                   (Option.bind active_root (\<lambda>r. position (\<lambda>t. root_pane t = r) ts)) target_idx\<rparr>))"

section \<open>Panes\<close>

definition split_pane ::
    "('e, 'r) spawner \<Rightarrow> nat \<Rightarrow> text \<Rightarrow> pane_id \<Rightarrow> direction \<Rightarrow> f32 option \<Rightarrow> text option \<Rightarrow>
     (text \<times> text) list \<Rightarrow> bool \<Rightarrow> text list option \<Rightarrow> allocators \<Rightarrow> 'g workspace \<Rightarrow>
     (('e + nat \<times> 'r new_pane) option \<times> allocators \<times> 'g workspace) option" where
  "split_pane spawn micros current_dir i d ratio dir extra_env focus_new_pane args al w =
     (case find_tab_index_for_pane i w of
        None \<Rightarrow> Some (None, al, w)
      | Some idx \<Rightarrow>
          let pane_nr = next_public_pane_number w;
              env = launch_env_for_new_pane w (tab_number (tabs w ! idx)) pane_nr extra_env;
              t = tabs w ! idx;
              previous_focus = focus (tab_layout t);
              t1 = t\<lparr>tab_layout := focus_pane i (tab_layout t)\<rparr>
          in (case split_tab spawn micros current_dir d ratio dir env
                    (map_option (\<lambda>av. ArgvCommand av env) args) al t1 of
                None \<Rightarrow> None
              | Some (Inl err, al1, t2) \<Rightarrow>
                  Some (Some (Inl err), al1, w\<lparr>tabs := (tabs w)[idx :=
                    t2\<lparr>tab_layout := focus_pane previous_focus (tab_layout t2)\<rparr>]\<rparr>)
              | Some (Inr new, al1, t2) \<Rightarrow>
                  let t3 = (if focus_new_pane then t2
                            else t2\<lparr>tab_layout := focus_pane previous_focus (tab_layout t2)\<rparr>)
                  in Some (Some (Inr (idx, new)), al1,
                       register_new_pane_with_number (np_pane_id new) pane_nr
                         (w\<lparr>tabs := (tabs w)[idx := t3]\<rparr>))))"

definition split_focused_command ::
    "('e, 'r) spawner \<Rightarrow> nat \<Rightarrow> text \<Rightarrow> direction \<Rightarrow> text option \<Rightarrow> text \<Rightarrow> (text \<times> text) list \<Rightarrow>
     allocators \<Rightarrow> 'g workspace \<Rightarrow> (('e + 'r new_pane) \<times> allocators \<times> 'g workspace) option" where
  "split_focused_command spawn micros current_dir d dir command extra_env al w =
     (case active_tab_of w of
        None \<Rightarrow> None
      | Some t \<Rightarrow>
          let pane_nr = next_public_pane_number w;
              env = launch_env_for_new_pane w (tab_number t) pane_nr extra_env
          in (case split_tab spawn micros current_dir d None dir env (Some (ShellCommand command env)) al t of
                None \<Rightarrow> None
              | Some (Inl err, al1, t1) \<Rightarrow> Some (Inl err, al1, w\<lparr>tabs := (tabs w)[active_tab w := t1]\<rparr>)
              | Some (Inr new, al1, t1) \<Rightarrow>
                  Some (Inr new, al1, register_new_pane_with_number (np_pane_id new) pane_nr
                    (w\<lparr>tabs := (tabs w)[active_tab w := t1]\<rparr>))))"

text \<open>The result says whether the workspace should close.\<close>

definition ws_remove_pane :: "pane_id \<Rightarrow> 'g workspace \<Rightarrow> (bool \<times> 'g workspace) option" where
  "ws_remove_pane i w =
     (case find_tab_index_for_pane i w of
        None \<Rightarrow> Some (False, w)
      | Some idx \<Rightarrow>
          if pane_count (tab_layout (tabs w ! idx)) \<le> 1 then
            if length (tabs w) \<le> 1 then Some (True, w)
            else Some (False, active_after_removal idx
                   (unregister_pane i (w\<lparr>tabs := vec_remove idx (tabs w)\<rparr>)))
          else do {
            (detached, t) \<leftarrow> detach_pane i (tabs w ! idx);
            let w1 = w\<lparr>tabs := (tabs w)[idx := t]\<rparr>;
            Some (False, case detached of Some (removed, _) \<Rightarrow> unregister_pane removed w1 | None \<Rightarrow> w1)
          })"

text \<open>\<open>close_pane\<close> is the same code with the same \<open>detach_pane\<close> behind it.\<close>

definition ws_close_pane :: "pane_id \<Rightarrow> 'g workspace \<Rightarrow> (bool \<times> 'g workspace) option" where
  "ws_close_pane i w = ws_remove_pane i w"

record taken_pane =
  tk_moved :: moved_pane
  removed_tab_idx :: "nat option"
  workspace_empty :: bool

definition take_pane_for_move :: "pane_id \<Rightarrow> 'g workspace \<Rightarrow> (taken_pane option \<times> 'g workspace) option" where
  "take_pane_for_move i w =
     (case find_tab_index_for_pane i w of
        None \<Rightarrow> Some (None, w)
      | Some idx \<Rightarrow>
          if pane_count (tab_layout (tabs w ! idx)) \<le> 1 then do {
            let w1 = w\<lparr>tabs := vec_remove idx (tabs w)\<rparr>;
            (moved, _) \<leftarrow> take_pane_from_tab i (tabs w ! idx);
            Some (case moved of
                    None \<Rightarrow> (None, w1)
                  | Some m \<Rightarrow>
                      let w2 = adjust_active_tab_after_removal idx w1
                      in (Some \<lparr>tk_moved = m, removed_tab_idx = Some idx,
                                workspace_empty = (tabs w2 = [])\<rparr>, w2))
          }
          else do {
            (moved, t) \<leftarrow> take_pane_from_tab i (tabs w ! idx);
            Some (map_option (\<lambda>m. \<lparr>tk_moved = m, removed_tab_idx = None, workspace_empty = False\<rparr>) moved,
                  w\<lparr>tabs := (tabs w)[idx := t]\<rparr>)
          })"

definition insert_moved_pane_into_tab ::
    "nat \<Rightarrow> pane_id \<Rightarrow> moved_pane \<Rightarrow> direction \<Rightarrow> f32 \<Rightarrow> 'g workspace \<Rightarrow>
     (moved_pane + pane_id) \<times> 'g workspace" where
  "insert_moved_pane_into_tab idx target moved d ratio w =
     (if idx \<ge> length (tabs w) then (Inl moved, w)
      else
        let (res, t) = insert_existing_pane target moved d ratio (tabs w ! idx);
            w1 = w\<lparr>tabs := (tabs w)[idx := t]\<rparr>
        in case res of
             Inl m \<Rightarrow> (Inl m, w1)
           | Inr _ \<Rightarrow> (Inr (mp_pane_id moved), register_moved_pane (mp_pane_id moved) w1))"

definition create_tab_from_existing_pane ::
    "moved_pane \<Rightarrow> text option \<Rightarrow> 'g workspace \<Rightarrow> nat \<times> 'g workspace" where
  "create_tab_from_existing_pane moved label w =
     (let number = next_public_tab_number w;
          w1 = w\<lparr>next_public_tab_number := number + 1\<rparr>;
          t = from_existing_pane number label moved;
          w2 = register_moved_pane (mp_pane_id moved) w1;
          w3 = w2\<lparr>tabs := tabs w2 @ [t]\<rparr>
      in (length (tabs w3) - 1, w3))"

definition ws_set_custom_name :: "text \<Rightarrow> 'g workspace \<Rightarrow> 'g workspace" where
  "ws_set_custom_name name w = w\<lparr>custom_name := Some name\<rparr>"

section \<open>The state a workspace shows\<close>

definition pane_attention_priority :: "agent_state \<Rightarrow> bool \<Rightarrow> nat" where
  "pane_attention_priority st was_seen =
     (case (st, was_seen) of
        (Blocked, _) \<Rightarrow> 4 | (Idle, False) \<Rightarrow> 3 | (Working, _) \<Rightarrow> 2 | (Idle, True) \<Rightarrow> 1 | (Unknown, _) \<Rightarrow> 0)"

text \<open>\<open>Iterator::max_by_key\<close>: the last of the elements with the greatest key.\<close>

fun max_by_key :: "('a \<Rightarrow> nat) \<Rightarrow> 'a list \<Rightarrow> 'a option" where
  "max_by_key f [] = None"
| "max_by_key f (x # xs) =
     (case max_by_key f xs of None \<Rightarrow> Some x | Some y \<Rightarrow> if f y < f x then Some x else Some y)"

definition aggregate_state :: "(text, terminal_state) hashmap \<Rightarrow> 'g workspace \<Rightarrow> agent_state \<times> bool" where
  "aggregate_state terminals w =
     unwrap_or (max_by_key (\<lambda>(st, was_seen). pane_attention_priority st was_seen)
       (List.map_filter (\<lambda>p. map_option (\<lambda>t. (ts_state t, seen p))
          (hm_get terminals (attached_terminal_id p)))
         (concat (map (\<lambda>t. hm_values (tab_panes t)) (tabs w))))) (Unknown, True)"

end
