(* ===== verification/Sessions.thy ===== *)
theory Sessions
  imports Workspaces
begin

text \<open>
  The workspaces of a session: what an identifier of the API means (\<open>src/app/ids.rs\<close>), and the
  request that moves a pane to another tab or workspace (\<open>handle_pane_move\<close> and
  \<open>recover_failed_pane_move\<close> of \<open>src/app/api/panes.rs\<close>). Of the state of the application the
  record \<open>session\<close> has what the two read and write; the animation, the focus history, the session
  file, the events and the text of the response are left out. An outer \<open>None\<close> is a panic.
\<close>

section \<open>Texts\<close>

text \<open>\<open>str::rsplit_once\<close> splits at the last occurrence.\<close>

definition rsplit_once :: "text \<Rightarrow> text \<Rightarrow> (text \<times> text) option" where
  "rsplit_once t pat =
     map_option (\<lambda>i. (take i t, drop (i + length pat) t))
       (find (\<lambda>i. starts_with (drop i t) pat) (rev [0..<Suc (length t)]))"

definition parse_u32 :: "text \<Rightarrow> u32 option" where
  "parse_u32 t = map_option of_nat (parse_unsigned (2 ^ 32) t)"

definition checked_pred :: "nat \<Rightarrow> nat option" where
  "checked_pred n = (if n = 0 then None else Some (n - 1))"

section \<open>Sessions\<close>

record 'g session =
  workspaces :: "'g workspace list"
  active :: "nat option"
  selected :: nat
  pane_id_aliases :: "(u32, pane_id) hashmap"
  public_pane_id_aliases :: "(text, pane_id) hashmap"

fun find_pane_from :: "nat \<Rightarrow> pane_id \<Rightarrow> 'g workspace list \<Rightarrow> (nat \<times> pane_state) option" where
  "find_pane_from k i [] = None"
| "find_pane_from k i (w # ws) =
     (case ws_pane_state i w of Some p \<Rightarrow> Some (k, p) | None \<Rightarrow> find_pane_from (Suc k) i ws)"

definition find_pane :: "pane_id \<Rightarrow> 'g session \<Rightarrow> (nat \<times> pane_state) option" where
  "find_pane i s = find_pane_from 0 i (workspaces s)"

definition public_tab_id :: "nat \<Rightarrow> nat \<Rightarrow> 'g session \<Rightarrow> text option" where
  "public_tab_id ws_idx tab_idx s = do {
     w \<leftarrow> vec_get (workspaces s) ws_idx;
     n \<leftarrow> public_tab_number tab_idx w;
     Some (public_tab_id_for_number (ws_id w) n)
   }"

definition public_pane_id :: "nat \<Rightarrow> pane_id \<Rightarrow> 'g session \<Rightarrow> text option" where
  "public_pane_id ws_idx i s = do {
     w \<leftarrow> vec_get (workspaces s) ws_idx;
     n \<leftarrow> public_pane_number i w;
     Some (public_pane_id_for_number (ws_id w) n)
   }"

text \<open>A legacy number is not compared with the number of workspaces.\<close>

definition parse_workspace_id :: "text \<Rightarrow> 'g session \<Rightarrow> nat option" where
  "parse_workspace_id i s =
     or_else (position (\<lambda>w. ws_id w = i) (workspaces s))
       (or_else (do { r \<leftarrow> strip_prefix i (lit ''w_''); n \<leftarrow> parse_usize r; checked_pred n })
         (do { n \<leftarrow> parse_usize i; checked_pred n }))"

definition tab_exists :: "nat \<Rightarrow> nat \<Rightarrow> 'g session \<Rightarrow> (nat \<times> nat) option" where
  "tab_exists ws_idx tab_idx s = do {
     w \<leftarrow> vec_get (workspaces s) ws_idx;
     _ \<leftarrow> vec_get (tabs w) tab_idx;
     Some (ws_idx, tab_idx)
   }"

definition parse_tab_id :: "text \<Rightarrow> 'g session \<Rightarrow> (nat \<times> nat) option" where
  "parse_tab_id i s =
     (case strip_prefix i (lit ''t_'') of
        Some rest \<Rightarrow> do {
          (ws_raw, tab_raw) \<leftarrow> rsplit_once rest (lit ''_'');
          ws_idx \<leftarrow> parse_workspace_id ws_raw s;
          n \<leftarrow> parse_usize tab_raw;
          tab_idx \<leftarrow> checked_pred n;
          tab_exists ws_idx tab_idx s
        }
      | None \<Rightarrow> do {
          (ws_raw, tab_raw) \<leftarrow> rsplit_once i (lit '':'');
          ws_idx \<leftarrow> parse_workspace_id ws_raw s;
          tab_idx \<leftarrow> (case strip_prefix tab_raw (lit ''t'') of
              Some encoded \<Rightarrow> do {
                number \<leftarrow> decode_public_number encoded;
                w \<leftarrow> vec_get (workspaces s) ws_idx;
                position (\<lambda>t. tab_number t = number) (tabs w)
              }
            | None \<Rightarrow> do { n \<leftarrow> parse_usize tab_raw; checked_pred n });
          tab_exists ws_idx tab_idx s
        })"

definition resolve_raw_pane_id :: "u32 \<Rightarrow> 'g session \<Rightarrow> pane_id option" where
  "resolve_raw_pane_id raw s =
     (case hm_get (pane_id_aliases s) raw of
        Some alias \<Rightarrow> map_option (\<lambda>_. alias) (find_pane alias s)
      | None \<Rightarrow> if find_pane raw s \<noteq> None then Some raw else None)"

definition pane_with_number :: "nat \<Rightarrow> usize \<Rightarrow> 'g session \<Rightarrow> (nat \<times> pane_id) option" where
  "pane_with_number ws_idx number s = do {
     w \<leftarrow> vec_get (workspaces s) ws_idx;
     e \<leftarrow> find (\<lambda>(_, n). n = number) (public_pane_numbers w);
     Some (ws_idx, fst e)
   }"

definition parse_pane_id :: "text \<Rightarrow> 'g session \<Rightarrow> (nat \<times> pane_id) option" where
  "parse_pane_id i s =
     (case hm_get (public_pane_id_aliases s) i of
        Some alias \<Rightarrow> map_option (\<lambda>(ws_idx, _). (ws_idx, alias)) (find_pane alias s)
      | None \<Rightarrow>
          (case strip_prefix i (lit ''p_'') of
             Some rest \<Rightarrow>
               (case rsplit_once rest (lit ''_'') of
                  Some (ws_raw, pane_raw) \<Rightarrow> do {
                    ws_idx \<leftarrow> parse_workspace_id ws_raw s;
                    raw \<leftarrow> parse_u32 pane_raw;
                    p \<leftarrow> resolve_raw_pane_id raw s;
                    w \<leftarrow> vec_get (workspaces s) ws_idx;
                    _ \<leftarrow> ws_pane_state p w;
                    Some (ws_idx, p)
                  }
                | None \<Rightarrow> do {
                    raw \<leftarrow> parse_u32 rest;
                    p \<leftarrow> resolve_raw_pane_id raw s;
                    map_option (\<lambda>(ws_idx, _). (ws_idx, p)) (find_pane p s)
                  })
           | None \<Rightarrow>
               (case rsplit_once i (lit '':p'') of
                  Some (ws_raw, number_raw) \<Rightarrow> do {
                    ws_idx \<leftarrow> parse_workspace_id ws_raw s;
                    number \<leftarrow> decode_public_number number_raw;
                    pane_with_number ws_idx number s
                  }
                | None \<Rightarrow> do {
                    (ws_raw, number_raw) \<leftarrow> rsplit_once i (lit ''-'');
                    ws_idx \<leftarrow> parse_workspace_id ws_raw s;
                    n \<leftarrow> parse_usize number_raw;
                    pane_with_number ws_idx (of_nat n) s
                  })))"

definition parse_current_public_pane_id :: "text \<Rightarrow> 'g session \<Rightarrow> (nat \<times> pane_id) option" where
  "parse_current_public_pane_id i s = do {
     (ws_idx, p) \<leftarrow> parse_pane_id i s;
     if public_pane_id ws_idx p s = Some i then Some (ws_idx, p) else None
   }"

section \<open>Moving a pane\<close>

datatype pane_move_destination =
    ToTab "text" "text option" direction "f32 option"
  | ToNewTab "text option" "text option"
  | ToNewWorkspace "text option" "text option"

datatype resolved_destination =
    ExistingTab "text" pane_id direction f32 bool
  | NewTab "text" "text option"
  | NewWorkspace "text option" "text option"

datatype move_refusal =
    PaneNotFound | TabNotFound | TargetPaneNotFound | WorkspaceNotFound | PaneMoveFailed | SameTab | ZoomedTab

record recovery_context =
  source_ws_idx :: nat
  previous_workspace_id :: "text"
  previous_workspace_label :: "text option"
  previous_tab_label :: "text option"
  previous_worktree_space :: "worktree_space_membership option"
  previous_identity_cwd :: "text"

definition public_workspace_id :: "nat \<Rightarrow> 'g session \<Rightarrow> text option" where
  "public_workspace_id ws_idx s = map_option ws_id (vec_get (workspaces s) ws_idx)"

definition set_workspace :: "nat \<Rightarrow> 'g workspace \<Rightarrow> 'g session \<Rightarrow> 'g session" where
  "set_workspace k w s = s\<lparr>workspaces := (workspaces s)[k := w]\<rparr>"

text \<open>Where the pane is to go; the second \<open>None\<close> of a new tab is the index of a workspace that
  does not exist.\<close>

definition resolve_destination ::
    "nat \<Rightarrow> nat \<Rightarrow> text \<Rightarrow> pane_move_destination \<Rightarrow> 'g session \<Rightarrow>
     (move_refusal + resolved_destination) option" where
  "resolve_destination src_ws src_tab prev_ws_id dest s =
     (case dest of
        ToTab tab_id target_pane d ratio \<Rightarrow>
          Some (case parse_tab_id tab_id s of
            None \<Rightarrow> Inl TabNotFound
          | Some (tw, tt) \<Rightarrow>
              if src_ws = tw \<and> src_tab = tt then Inl SameTab
              else if zoomed (tabs (workspaces s ! tw) ! tt) then Inl ZoomedTab
              else
                (let target = (case target_pane of
                     Some raw \<Rightarrow>
                       (case parse_pane_id raw s of
                          None \<Rightarrow> None
                        | Some (pw, p) \<Rightarrow>
                            if pw \<noteq> tw \<or> find_tab_index_for_pane p (workspaces s ! pw) \<noteq> Some tt
                            then None else Some p)
                   | None \<Rightarrow> Some (focus (tab_layout (tabs (workspaces s ! tw) ! tt))))
                 in case target of
                      None \<Rightarrow> Inl TargetPaneNotFound
                    | Some p \<Rightarrow>
                        (case public_tab_id tw tt s of
                           None \<Rightarrow> Inl TabNotFound
                         | Some target_id \<Rightarrow>
                             Inr (ExistingTab target_id p d (unwrap_or ratio f32_half) (src_ws \<noteq> tw)))))
      | ToNewTab workspace_id label \<Rightarrow>
          (case workspace_id of
             Some i \<Rightarrow>
               (case parse_workspace_id i s of
                  None \<Rightarrow> Some (Inl WorkspaceNotFound)
                | Some k \<Rightarrow> map_option (\<lambda>target. Inr (NewTab target label)) (public_workspace_id k s))
           | None \<Rightarrow> Some (Inr (NewTab prev_ws_id label)))
      | ToNewWorkspace label tab_label \<Rightarrow> Some (Inr (NewWorkspace label tab_label)))"

fun crosses_workspaces :: "text \<Rightarrow> resolved_destination \<Rightarrow> bool" where
  "crosses_workspaces prev_ws_id (ExistingTab _ _ _ _ cross) = cross"
| "crosses_workspaces prev_ws_id (NewTab i _) = (i \<noteq> prev_ws_id)"
| "crosses_workspaces prev_ws_id (NewWorkspace _ _) = True"

text \<open>An emptied workspace is closed when the pane leaves it.\<close>

definition close_emptied_workspace :: "nat \<Rightarrow> 'g session \<Rightarrow> 'g session" where
  "close_emptied_workspace k s =
     (let s1 = s\<lparr>workspaces := vec_remove k (workspaces s)\<rparr>; n = length (workspaces s1)
      in if n = 0 then s1\<lparr>active := None, selected := 0\<rparr>
         else s1\<lparr>active := (case active s of
                    Some a \<Rightarrow> Some (if a = k then min k (n - 1) else if a > k then a - 1 else a)
                  | None \<Rightarrow> None),
                selected := (if selected s = k then min k (n - 1)
                             else if selected s > k then selected s - 1 else selected s)\<rparr>)"

definition recover_failed_pane_move ::
    "'g git_answers \<Rightarrow> recovery_context \<Rightarrow> moved_pane \<Rightarrow> allocators \<Rightarrow> 'g session \<Rightarrow> allocators \<times> 'g session" where
  "recover_failed_pane_move git ctx moved al s =
     (case parse_workspace_id (previous_workspace_id ctx) s of
        Some k \<Rightarrow>
          (al, set_workspace k (snd (create_tab_from_existing_pane moved (previous_tab_label ctx) (workspaces s ! k))) s)
      | None \<Rightarrow>
          let (w, al1) = workspace_from_existing_pane git (previous_workspace_label ctx) (previous_tab_label ctx)
                (previous_identity_cwd ctx) moved al;
              w1 = w\<lparr>ws_id := previous_workspace_id ctx, worktree_space := previous_worktree_space ctx\<rparr>;
              k = min (source_ws_idx ctx) (length (workspaces s))
          in (al1, s\<lparr>active := map_option (\<lambda>a. if a \<ge> k then a + 1 else a) (active s),
                    selected := (if selected s \<ge> k \<and> workspaces s \<noteq> [] then selected s + 1 else selected s),
                    workspaces := vec_insert k w1 (workspaces s)\<rparr>))"

text \<open>The pane in its new place: the workspace, the tab, and whether the move had to be undone.\<close>

definition place_moved_pane ::
    "'g git_answers \<Rightarrow> text \<Rightarrow> recovery_context \<Rightarrow> bool \<Rightarrow> moved_pane \<Rightarrow> resolved_destination \<Rightarrow> allocators \<Rightarrow>
     'g session \<Rightarrow> (move_refusal + nat \<times> nat \<times> pane_id) \<times> allocators \<times> 'g session" where
  "place_moved_pane git new_cwd ctx focus_pane_there moved dest al s =
     (case dest of
        ExistingTab tab_id target d ratio cross \<Rightarrow>
          (case parse_tab_id tab_id s of
             None \<Rightarrow> (Inl PaneMoveFailed, recover_failed_pane_move git ctx moved al s)
           | Some (tw, tt) \<Rightarrow>
               let previous_target_focus = focus (tab_layout (tabs (workspaces s ! tw) ! tt));
                   (res, w) = insert_moved_pane_into_tab tt target moved d ratio (workspaces s ! tw);
                   s1 = set_workspace tw w s
               in (case res of
                    Inl m \<Rightarrow> (Inl PaneMoveFailed, recover_failed_pane_move git ctx m al s1)
                  | Inr p \<Rightarrow>
                      let t = tabs w ! tt;
                          w1 = (if focus_pane_there then w
                                else w\<lparr>tabs := (tabs w)[tt := t\<lparr>tab_layout :=
                                  focus_pane previous_target_focus (tab_layout t)\<rparr>]\<rparr>)
                      in (Inr (tw, tt, p), al, set_workspace tw w1 s1)))
      | NewTab i label \<Rightarrow>
          (case parse_workspace_id i s of
             None \<Rightarrow> (Inl PaneMoveFailed, recover_failed_pane_move git ctx moved al s)
           | Some tw \<Rightarrow>
               let (tt, w) = create_tab_from_existing_pane moved label (workspaces s ! tw)
               in (Inr (tw, tt, mp_pane_id moved), al, set_workspace tw w s))
      | NewWorkspace label tab_label \<Rightarrow>
          let (w, al1) = workspace_from_existing_pane git label tab_label new_cwd moved al;
              s1 = s\<lparr>workspaces := workspaces s @ [w]\<rparr>
          in (Inr (length (workspaces s1) - 1, 0, mp_pane_id moved), al1, s1))"

definition show_tab :: "nat \<Rightarrow> nat \<Rightarrow> 'g session \<Rightarrow> 'g session" where
  "show_tab tw tt s =
     (if tw \<ge> length (workspaces s) \<or> tt \<ge> length (tabs (workspaces s ! tw)) then s
      else set_workspace tw (switch_tab tt (workspaces s ! tw)) (s\<lparr>active := Some tw, selected := tw\<rparr>))"

text \<open>The request. \<open>terminals\<close> and \<open>current_dir\<close> give the directory of a new workspace.\<close>

definition take_for_move ::
    "nat \<Rightarrow> pane_id \<Rightarrow> text \<Rightarrow> bool \<Rightarrow> 'g session \<Rightarrow> (taken_pane option \<times> 'g session) option" where
  "take_for_move k i prev_pane_id cross s = do {
     (taken, w) \<leftarrow> take_pane_for_move i (workspaces s ! k);
     let s1 = set_workspace k w s;
     Some (case taken of
       None \<Rightarrow> (None, s1)
     | Some t \<Rightarrow>
         let s2 = (if cross then (set_workspace k (unregister_pane i w) s1)
                     \<lparr>public_pane_id_aliases := hm_insert prev_pane_id i (public_pane_id_aliases s1)\<rparr> else s1);
             s3 = (if workspace_empty t \<and> cross then close_emptied_workspace k s2 else s2)
         in (Some t, s3))
   }"

definition move_to ::
    "'g git_answers \<Rightarrow> (text, terminal_state) hashmap \<Rightarrow> text \<Rightarrow> nat \<Rightarrow> nat \<Rightarrow> pane_id \<Rightarrow> text \<Rightarrow> text \<Rightarrow>
     resolved_destination \<Rightarrow> bool \<Rightarrow> allocators \<Rightarrow> 'g session \<Rightarrow>
     ((move_refusal + nat \<times> nat \<times> pane_id) \<times> allocators \<times> 'g session) option" where
  "move_to git terminals current_dir k tab_idx i prev_pane_id terminal_id r take_focus al s =
     (let w = workspaces s ! k;
          ctx = \<lparr>source_ws_idx = k, previous_workspace_id = ws_id w,
                 previous_workspace_label = custom_name w, previous_tab_label = tab_custom_name (tabs w ! tab_idx),
                 previous_worktree_space = worktree_space w, previous_identity_cwd = identity_cwd w\<rparr>;
          new_cwd = (case hm_get terminals terminal_id of Some ts \<Rightarrow> cwd ts | None \<Rightarrow> current_dir)
      in (case take_for_move k i prev_pane_id (crosses_workspaces (ws_id w) r) s of
            None \<Rightarrow> None
          | Some (None, s1) \<Rightarrow> Some (Inl PaneMoveFailed, al, s1)
          | Some (Some tk, s1) \<Rightarrow>
              Some (case place_moved_pane git new_cwd ctx take_focus (tk_moved tk) r al s1 of
                (Inl refusal, al1, s2) \<Rightarrow> (Inl refusal, al1, s2)
              | (Inr (tw, tt, p), al1, s2) \<Rightarrow>
                  let s3 = (if take_focus \<or> active s2 = None then show_tab tw tt s2 else s2)
                  in (Inr (tw, tt, p), al1, s3\<lparr>pane_id_aliases := hm_remove p (pane_id_aliases s3)\<rparr>))))"

definition handle_pane_move ::
    "'g git_answers \<Rightarrow> (text, terminal_state) hashmap \<Rightarrow> text \<Rightarrow> text \<Rightarrow> pane_move_destination \<Rightarrow> bool \<Rightarrow>
     allocators \<Rightarrow> 'g session \<Rightarrow> ((move_refusal + nat \<times> nat \<times> pane_id) \<times> allocators \<times> 'g session) option" where
  "handle_pane_move git terminals current_dir pane_ref dest take_focus al s =
     (case parse_pane_id pane_ref s of
        None \<Rightarrow> Some (Inl PaneNotFound, al, s)
      | Some (k, i) \<Rightarrow>
          (case find_tab_index_for_pane i (workspaces s ! k) of
             None \<Rightarrow> Some (Inl PaneNotFound, al, s)
           | Some tab_idx \<Rightarrow>
               if public_tab_id k tab_idx s = None then Some (Inl TabNotFound, al, s)
               else
                 (case tab_terminal_id i (tabs (workspaces s ! k) ! tab_idx) of
                    None \<Rightarrow> Some (Inl PaneNotFound, al, s)
                  | Some terminal_id \<Rightarrow>
                      if zoomed (tabs (workspaces s ! k) ! tab_idx) then Some (Inl ZoomedTab, al, s)
                      else
                        (case resolve_destination k tab_idx (ws_id (workspaces s ! k)) dest s of
                           None \<Rightarrow> None
                         | Some (Inl refusal) \<Rightarrow> Some (Inl refusal, al, s)
                         | Some (Inr r) \<Rightarrow>
                             move_to git terminals current_dir k tab_idx i
                               (unwrap_or (public_pane_id k i s) pane_ref) terminal_id r take_focus al s))))"

end
