(* ===== verification/Session_Actions.thy ===== *)
theory Session_Actions
  imports Sessions
begin

text \<open>
  What happens to the workspaces of a session when one is shown, moved or closed and when a
  process ends (\<open>src/app/actions.rs\<close>), with the terminals that are attached to the panes. A
  terminal whose last pane goes is handed over for shutdown. As in \<open>Sessions\<close> the animation,
  the scroll offsets, copy mode, plugin panes and the logging are left out, and an outer
  \<open>None\<close> is a panic.
\<close>

section \<open>Focus\<close>

definition current_pane_focus_target :: "'g session \<Rightarrow> (text \<times> pane_id) option" where
  "current_pane_focus_target s = do {
     ws_idx \<leftarrow> active s;
     w \<leftarrow> vec_get (workspaces s) ws_idx;
     i \<leftarrow> focused_pane_id w;
     Some (ws_id w, i)
   }"

definition switch_workspace :: "nat \<Rightarrow> 'g session \<Rightarrow> 'g session" where
  "switch_workspace idx s =
     (if idx < length (workspaces s)
      then set_workspace idx (switch_tab (active_tab (workspaces s ! idx)) (workspaces s ! idx))
             (s\<lparr>active := Some idx, selected := idx\<rparr>)
      else s)"

definition set_tab :: "nat \<Rightarrow> nat \<Rightarrow> tab \<Rightarrow> 'g session \<Rightarrow> 'g session" where
  "set_tab ws_idx tab_idx t s =
     set_workspace ws_idx ((workspaces s ! ws_idx)\<lparr>tabs := (tabs (workspaces s ! ws_idx))[tab_idx := t]\<rparr>) s"

definition get_tab :: "nat \<Rightarrow> nat \<Rightarrow> 'g session \<Rightarrow> tab option" where
  "get_tab ws_idx tab_idx s = Option.bind (vec_get (workspaces s) ws_idx) (\<lambda>w. vec_get (tabs w) tab_idx)"

definition focus_pane_in_workspace :: "nat \<Rightarrow> pane_id \<Rightarrow> 'g session \<Rightarrow> bool \<times> 'g session" where
  "focus_pane_in_workspace ws_idx i s =
     (case vec_get (workspaces s) ws_idx of
        None \<Rightarrow> (False, s)
      | Some w \<Rightarrow>
          (case find_tab_index_for_pane i w of
             None \<Rightarrow> (False, s)
           | Some tab_idx \<Rightarrow>
               if current_pane_focus_target s = Some (ws_id w, i) then (False, s)
               else
                 let s1 = show_tab ws_idx tab_idx s
                 in (case get_tab ws_idx tab_idx s1 of
                       None \<Rightarrow> (False, s1)
                     | Some t \<Rightarrow>
                         (True, set_tab ws_idx tab_idx (t\<lparr>tab_layout := focus_pane i (tab_layout t)\<rparr>) s1))))"

definition mark_active_tab_seen :: "'g session \<Rightarrow> bool \<times> 'g session" where
  "mark_active_tab_seen s =
     (case active s of
        None \<Rightarrow> (False, s)
      | Some ws_idx \<Rightarrow>
          (case Option.bind (vec_get (workspaces s) ws_idx) active_tab_of of
             None \<Rightarrow> (False, s)
           | Some t \<Rightarrow>
               (list_ex (\<lambda>p. \<not> seen p) (hm_values (tab_panes t)),
                set_tab ws_idx (active_tab (workspaces s ! ws_idx))
                  (t\<lparr>tab_panes := hm_map_values (\<lambda>_ p. p\<lparr>seen := True\<rparr>) (tab_panes t)\<rparr>) s)))"

section \<open>Zoom\<close>

datatype pane_zoom_command = ZoomToggle | ZoomOn | ZoomOff

datatype pane_zoom_noop_reason = SinglePane | AlreadyZoomed | AlreadyUnzoomed

record pane_zoom_outcome =
  zoom_changed :: bool
  zoom_focus_changed :: bool
  zoom_reason :: "pane_zoom_noop_reason option"
  zoom_result :: bool

definition apply_pane_zoom ::
    "nat \<Rightarrow> pane_id \<Rightarrow> pane_zoom_command \<Rightarrow> 'g session \<Rightarrow> pane_zoom_outcome option \<times> 'g session" where
  "apply_pane_zoom ws_idx i command s =
     (case Option.bind (vec_get (workspaces s) ws_idx) (find_tab_index_for_pane i) of
        None \<Rightarrow> (None, s)
      | Some tab_idx \<Rightarrow>
          let (focus_changed, s1) = focus_pane_in_workspace ws_idx i s
          in (case get_tab ws_idx tab_idx s1 of
                None \<Rightarrow> (None, s1)
              | Some t \<Rightarrow>
                  if pane_count (tab_layout t) \<le> 1
                  then (Some \<lparr>zoom_changed = False, zoom_focus_changed = focus_changed,
                              zoom_reason = Some SinglePane, zoom_result = zoomed t\<rparr>, s1)
                  else
                    let desired = (case command of ZoomToggle \<Rightarrow> \<not> zoomed t | ZoomOn \<Rightarrow> True | ZoomOff \<Rightarrow> False);
                        reason = (if command = ZoomOn \<and> zoomed t then Some AlreadyZoomed
                                  else if command = ZoomOff \<and> \<not> zoomed t then Some AlreadyUnzoomed
                                  else None)
                    in if reason \<noteq> None
                       then (Some \<lparr>zoom_changed = False, zoom_focus_changed = focus_changed,
                                   zoom_reason = reason, zoom_result = zoomed t\<rparr>, s1)
                       else (Some \<lparr>zoom_changed = True, zoom_focus_changed = focus_changed,
                                   zoom_reason = None, zoom_result = desired\<rparr>,
                             set_tab ws_idx tab_idx (t\<lparr>zoomed := desired\<rparr>) s1)))"

section \<open>The order of the workspaces\<close>

definition index_of_workspace :: "text \<Rightarrow> 'g workspace list \<Rightarrow> nat option" where
  "index_of_workspace i ws = position (\<lambda>w. ws_id w = i) ws"

text \<open>The active and the selected workspace are found again by identifier.\<close>

definition follow_by_id :: "text option \<Rightarrow> text option \<Rightarrow> 'g session \<Rightarrow> 'g session" where
  "follow_by_id active_id selected_id s =
     s\<lparr>active := Option.bind active_id (\<lambda>i. index_of_workspace i (workspaces s)),
       selected := unwrap_or (Option.bind selected_id (\<lambda>i. index_of_workspace i (workspaces s))) 0\<rparr>"

definition selected_workspace_id :: "'g session \<Rightarrow> text option" where
  "selected_workspace_id s = map_option ws_id (vec_get (workspaces s) (selected s))"

text \<open>Indexing with an active workspace that is not there is a panic.\<close>

definition active_workspace_id :: "'g session \<Rightarrow> text option option" where
  "active_workspace_id s =
     (case active s of
        None \<Rightarrow> Some None
      | Some a \<Rightarrow> map_option (\<lambda>w. Some (ws_id w)) (vec_get (workspaces s) a))"

definition move_workspace :: "nat \<Rightarrow> nat \<Rightarrow> 'g session \<Rightarrow> (bool \<times> 'g session) option" where
  "move_workspace source_idx insert_idx s =
     (if source_idx \<ge> length (workspaces s) \<or> insert_idx > length (workspaces s) then Some (False, s)
      else
        let target_idx = (if source_idx < insert_idx then insert_idx - 1 else insert_idx)
        in if source_idx = target_idx then Some (False, s)
           else do {
             active_id \<leftarrow> active_workspace_id s;
             let w = workspaces s ! source_idx;
             let ws = vec_insert target_idx w (vec_remove source_idx (workspaces s));
             Some (True, follow_by_id active_id (selected_workspace_id s) (s\<lparr>workspaces := ws\<rparr>))
           })"

definition desired_order :: "text list \<Rightarrow> text option \<Rightarrow> 'g session \<Rightarrow> text list" where
  "desired_order moved before s =
     (let rest = filter (\<lambda>i. i \<notin> set moved) (map ws_id (workspaces s));
          insert_idx = unwrap_or (Option.bind before (\<lambda>i. position (\<lambda>c. c = i) rest)) (length rest)
      in take insert_idx rest @ moved @ drop insert_idx rest)"

definition desired_positions :: "text list \<Rightarrow> (text, nat) hashmap" where
  "desired_positions ids = fold (\<lambda>(k, i) m. hm_insert i k m) (enumerate 0 ids) []"

definition move_workspace_block ::
    "text list \<Rightarrow> text option \<Rightarrow> 'g session \<Rightarrow> (bool \<times> 'g session) option" where
  "move_workspace_block moved before s =
     (let known = (\<lambda>i. list_ex (\<lambda>w. ws_id w = i) (workspaces s))
      in if moved = [] \<or> \<not> distinct moved \<or> \<not> list_all known moved
            \<or> (case before of Some i \<Rightarrow> i \<in> set moved \<or> \<not> known i | None \<Rightarrow> False)
         then Some (False, s)
         else
           let desired = desired_order moved before s
           in if map ws_id (workspaces s) = desired then Some (False, s)
              else do {
                active_id \<leftarrow> active_workspace_id s;
                let positions = desired_positions desired;
                let ws = sort_key (\<lambda>w. unwrap_or (hm_get positions (ws_id w)) (2 ^ 64 - 1)) (workspaces s);
                Some (True, follow_by_id active_id (selected_workspace_id s) (s\<lparr>workspaces := ws\<rparr>))
              })"

section \<open>Terminals\<close>

record 'g app =
  app_session :: "'g session"
  terminals :: "(text, terminal_state) hashmap"
  terminal_runtime_shutdowns :: "text list"
  runtimes_shut_down :: "text list"

definition tab_terminal_ids :: "tab \<Rightarrow> text list" where
  "tab_terminal_ids t = map attached_terminal_id (hm_values (tab_panes t))"

definition terminal_ids_for_workspace :: "nat \<Rightarrow> 'g session \<Rightarrow> text list" where
  "terminal_ids_for_workspace ws_idx s =
     (case vec_get (workspaces s) ws_idx of
        None \<Rightarrow> [] | Some w \<Rightarrow> concat (map tab_terminal_ids (tabs w)))"

definition terminal_ids_for_tab :: "nat \<Rightarrow> nat \<Rightarrow> 'g session \<Rightarrow> text list" where
  "terminal_ids_for_tab ws_idx tab_idx s =
     (case get_tab ws_idx tab_idx s of None \<Rightarrow> [] | Some t \<Rightarrow> tab_terminal_ids t)"

definition terminal_id_for_pane :: "nat \<Rightarrow> pane_id \<Rightarrow> 'g session \<Rightarrow> text option" where
  "terminal_id_for_pane ws_idx i s =
     map_option attached_terminal_id (Option.bind (vec_get (workspaces s) ws_idx) (ws_pane_state i))"

definition still_attached :: "text \<Rightarrow> 'g workspace list \<Rightarrow> bool" where
  "still_attached tid ws =
     list_ex (\<lambda>w. list_ex (\<lambda>t. list_ex (\<lambda>p. attached_terminal_id p = tid) (hm_values (tab_panes t))) (tabs w)) ws"

definition remove_unattached_terminal_id :: "text \<Rightarrow> 'g app \<Rightarrow> 'g app" where
  "remove_unattached_terminal_id tid a =
     (if still_attached tid (workspaces (app_session a)) then a
      else
        let a1 = a\<lparr>terminals := hm_remove tid (terminals a)\<rparr>
        in if hm_contains (terminals a) tid \<and> tid \<notin> set (terminal_runtime_shutdowns a)
           then a1\<lparr>terminal_runtime_shutdowns := terminal_runtime_shutdowns a @ [tid]\<rparr> else a1)"

text \<open>The runtimes whose shutdown was requested are shut down; \<open>runtimes_shut_down\<close> logs them.\<close>

definition shutdown_detached_terminal_runtimes :: "'g app \<Rightarrow> 'g app" where
  "shutdown_detached_terminal_runtimes a =
     a\<lparr>runtimes_shut_down := runtimes_shut_down a @ terminal_runtime_shutdowns a, terminal_runtime_shutdowns := []\<rparr>"

definition remove_unattached_terminal_ids :: "text list \<Rightarrow> 'g app \<Rightarrow> 'g app" where
  "remove_unattached_terminal_ids tids a = fold remove_unattached_terminal_id tids a"

section \<open>Closing\<close>

definition group_key :: "'g workspace \<Rightarrow> text option" where
  "group_key w = (case worktree_space w of
     Some space \<Rightarrow> if is_linked_worktree space then None else Some (wt_key space) | None \<Rightarrow> None)"

definition in_group :: "text \<Rightarrow> 'g workspace \<Rightarrow> bool" where
  "in_group key w = (case worktree_space w of Some member \<Rightarrow> wt_key member = key | None \<Rightarrow> False)"

definition workspace_close_would_close_worktree_group :: "nat \<Rightarrow> 'g session \<Rightarrow> bool" where
  "workspace_close_would_close_worktree_group ws_idx s =
     (case Option.bind (vec_get (workspaces s) ws_idx) group_key of
        None \<Rightarrow> False
      | Some key \<Rightarrow> length (filter (in_group key) (workspaces s)) \<ge> 2)"

text \<open>The confirmation itself is asked in another mode of the program.\<close>

definition confirm_implicit_worktree_group_close :: "bool \<Rightarrow> nat \<Rightarrow> 'g session \<Rightarrow> bool \<times> 'g session" where
  "confirm_implicit_worktree_group_close confirm_close ws_idx s =
     (if confirm_close \<and> workspace_close_would_close_worktree_group ws_idx s
      then (True, s\<lparr>selected := ws_idx\<rparr>) else (False, s))"

definition close_pane_would_close_workspace :: "nat \<Rightarrow> pane_id \<Rightarrow> 'g session \<Rightarrow> bool" where
  "close_pane_would_close_workspace ws_idx i s =
     (case vec_get (workspaces s) ws_idx of
        None \<Rightarrow> False
      | Some w \<Rightarrow>
          (case find_tab_index_for_pane i w of
             None \<Rightarrow> False
           | Some tab_idx \<Rightarrow> pane_count (tab_layout (tabs w ! tab_idx)) \<le> 1 \<and> length (tabs w) \<le> 1))"

definition close_indices :: "'g session \<Rightarrow> nat list" where
  "close_indices s =
     (case Option.bind (vec_get (workspaces s) (selected s)) group_key of
        None \<Rightarrow> [selected s]
      | Some key \<Rightarrow>
          let group = filter (\<lambda>k. in_group key (workspaces s ! k)) [0..<length (workspaces s)]
          in if length group \<ge> 2 then group else [selected s])"

text \<open>\<open>Vec::remove\<close> panics out of bounds.\<close>

fun remove_indices :: "nat list \<Rightarrow> 'a list \<Rightarrow> 'a list option" where
  "remove_indices [] xs = Some xs"
| "remove_indices (k # ks) xs = (if k < length xs then remove_indices ks (vec_remove k xs) else None)"

definition close_selected_workspace :: "'g app \<Rightarrow> 'g app option" where
  "close_selected_workspace a =
     (let s = app_session a in
      if workspaces s = [] then Some a
      else do {
        let ks = close_indices s;
        let tids = concat (map (\<lambda>k. terminal_ids_for_workspace k s) ks);
        let active_id = map_option ws_id (Option.bind (active s) (vec_get (workspaces s)));
        ws \<leftarrow> remove_indices (rev ks) (workspaces s);
        let s1 = s\<lparr>workspaces := ws\<rparr>;
        let a1 = remove_unattached_terminal_ids tids (a\<lparr>app_session := s1\<rparr>);
        Some (a1\<lparr>app_session :=
          (if ws = [] then s1\<lparr>active := None, selected := 0\<rparr>
           else
             let sel = (case Option.bind active_id (\<lambda>i. index_of_workspace i ws) of
                   Some k \<Rightarrow> k | None \<Rightarrow> selected s);
                 sel1 = (if sel \<ge> length ws then length ws - 1 else sel)
             in s1\<lparr>active := Some sel1, selected := sel1\<rparr>)\<rparr>)
      })"

text \<open>The process of a pane has ended. Only here are the aliases of the pane dropped.\<close>

definition drop_aliases :: "pane_id \<Rightarrow> 'g session \<Rightarrow> 'g session" where
  "drop_aliases i s =
     s\<lparr>pane_id_aliases := hm_retain (\<lambda>_ alias. alias \<noteq> i) (pane_id_aliases s),
       public_pane_id_aliases := hm_retain (\<lambda>_ alias. alias \<noteq> i) (public_pane_id_aliases s)\<rparr>"

definition forget_workspace :: "nat \<Rightarrow> 'g session \<Rightarrow> 'g session" where
  "forget_workspace ws_idx s =
     (let active_id = map_option ws_id (Option.bind (active s) (vec_get (workspaces s)));
          ws = vec_remove ws_idx (workspaces s);
          s1 = s\<lparr>workspaces := ws\<rparr>
      in if ws = [] then s1\<lparr>active := None, selected := 0\<rparr>
         else
           let a1 = (case Option.bind active_id (\<lambda>i. index_of_workspace i ws) of
                 Some k \<Rightarrow> Some k | None \<Rightarrow> active s);
               a2 = map_option (\<lambda>k. if k \<ge> length ws then length ws - 1 else k) a1;
               sel = (case Option.bind (selected_workspace_id s) (\<lambda>i. index_of_workspace i ws) of
                 Some k \<Rightarrow> k | None \<Rightarrow> selected s)
           in s1\<lparr>active := a2, selected := (if sel \<ge> length ws then length ws - 1 else sel)\<rparr>)"

definition handle_pane_died :: "pane_id \<Rightarrow> 'g app \<Rightarrow> 'g app option" where
  "handle_pane_died i a =
     (let s = app_session a in
      case position (\<lambda>w. find_tab_index_for_pane i w \<noteq> None) (workspaces s) of
        None \<Rightarrow> Some a
      | Some ws_idx \<Rightarrow> do {
          let pane_tid = terminal_id_for_pane ws_idx i s;
          let ws_tids = terminal_ids_for_workspace ws_idx s;
          let s1 = drop_aliases i s;
          (close_it, w) \<leftarrow> ws_remove_pane i (workspaces s1 ! ws_idx);
          let s2 = set_workspace ws_idx w s1;
          Some (if close_it
                then remove_unattached_terminal_ids ws_tids (a\<lparr>app_session := forget_workspace ws_idx s2\<rparr>)
                else remove_unattached_terminal_ids (case pane_tid of Some tid \<Rightarrow> [tid] | None \<Rightarrow> [])
                       (a\<lparr>app_session := s2\<rparr>))
        })"

end
