(* ===== verification/Session_Requests.thy ===== *)
theory Session_Requests
  imports Session_Actions "HOL-Library.List_Lexorder"
begin

text \<open>
  The requests of the API that change the workspaces: \<open>src/app/api/workspaces.rs\<close>,
  \<open>src/app/api/tabs.rs\<close>, the pane requests of \<open>src/app/api/panes.rs\<close>, the environment of a
  launch (\<open>src/app/api/env.rs\<close>) and \<open>create_workspace_with_launch_env\<close> of
  \<open>src/app/creation.rs\<close>. The directory a process is started in when the request names none comes
  from the configuration and the running processes; it is an argument. A request answers with a
  refusal or with the place it acted on; the text of the response and the events are left out.
\<close>

section \<open>The environment of a launch\<close>

fun check_env_entries :: "(text \<times> text) list \<Rightarrow> bool" where
  "check_env_entries [] = True"
| "check_env_entries ((key, v) # es) =
     (if key = [] then False
      else if 61 \<in> set key then False
      else if 0 \<in> set key then False
      else if 0 \<in> set v then False
      else check_env_entries es)"

text \<open>\<open>None\<close> is the refusal \<open>invalid_env\<close>.\<close>

definition normalize_launch_env :: "(text, text) hashmap \<Rightarrow> (text \<times> text) list option" where
  "normalize_launch_env env = (if check_env_entries env then Some (sort_key fst env) else None)"

section \<open>Answers\<close>

datatype 'e refusal =
    NoWorkspace | NoTab | NoPane | InvalidEnv | IndexOutOfBounds | ConfirmationRequired
  | EmptyBlock | RepeatedInBlock | BeforeInBlock | TabCloseFailed | LaunchFailed 'e

section \<open>Workspaces\<close>

definition register_terminal :: "terminal_state \<Rightarrow> 'g app \<Rightarrow> 'g app" where
  "register_terminal t a = a\<lparr>terminals := hm_insert (ts_id t) t (terminals a)\<rparr>"

definition remove_alias_shadowed_by_new_pane :: "pane_id \<Rightarrow> 'g session \<Rightarrow> 'g session" where
  "remove_alias_shadowed_by_new_pane i s = s\<lparr>pane_id_aliases := hm_remove i (pane_id_aliases s)\<rparr>"

definition create_workspace_with_launch_env ::
    "('e, 'r) spawner \<Rightarrow> 'g git_answers \<Rightarrow> nat \<Rightarrow> text \<Rightarrow> bool \<Rightarrow> (text \<times> text) list \<Rightarrow> allocators \<Rightarrow> 'g app \<Rightarrow>
     ('e + nat) \<times> allocators \<times> 'g app" where
  "create_workspace_with_launch_env spawn git micros dir take_focus extra_env al a =
     (case new_workspace spawn git micros dir None extra_env al of
        (Inl err, al1) \<Rightarrow> (Inl err, al1, a)
      | (Inr (w, terminal, runtime), al1) \<Rightarrow>
          let s = app_session a;
              s1 = s\<lparr>workspaces := workspaces s @ [w]\<rparr>;
              idx = length (workspaces s1) - 1;
              s2 = remove_alias_shadowed_by_new_pane (root_pane (tabs w ! 0)) s1;
              s3 = (if take_focus \<or> active s2 = None then switch_workspace idx s2 else s2)
          in (Inr idx, al1, register_terminal terminal (a\<lparr>app_session := s3\<rparr>)))"

definition handle_workspace_create ::
    "('e, 'r) spawner \<Rightarrow> 'g git_answers \<Rightarrow> nat \<Rightarrow> text \<Rightarrow> bool \<Rightarrow> (text, text) hashmap \<Rightarrow> text option \<Rightarrow>
     allocators \<Rightarrow> 'g app \<Rightarrow> ('e refusal + nat) \<times> allocators \<times> 'g app" where
  "handle_workspace_create spawn git micros dir take_focus env label al a =
     (case normalize_launch_env env of
        None \<Rightarrow> (Inl InvalidEnv, al, a)
      | Some extra_env \<Rightarrow>
          (case create_workspace_with_launch_env spawn git micros dir take_focus extra_env al a of
             (Inl err, al1, a1) \<Rightarrow> (Inl (LaunchFailed err), al1, a1)
           | (Inr idx, al1, a1) \<Rightarrow>
               (Inr idx, al1,
                case label of
                  None \<Rightarrow> a1
                | Some name \<Rightarrow>
                    a1\<lparr>app_session := set_workspace idx
                      (ws_set_custom_name name (workspaces (app_session a1) ! idx)) (app_session a1)\<rparr>)))"

text \<open>The workspace a request names; the number of a legacy identifier is checked here.\<close>

definition named_workspace :: "text \<Rightarrow> 'g session \<Rightarrow> nat option" where
  "named_workspace i s =
     (case parse_workspace_id i s of
        None \<Rightarrow> None | Some k \<Rightarrow> if k < length (workspaces s) then Some k else None)"

definition handle_workspace_focus :: "text \<Rightarrow> 'g session \<Rightarrow> ('e refusal + nat) \<times> 'g session" where
  "handle_workspace_focus i s =
     (case named_workspace i s of
        None \<Rightarrow> (Inl NoWorkspace, s) | Some k \<Rightarrow> (Inr k, switch_workspace k s))"

definition handle_workspace_rename :: "text \<Rightarrow> text \<Rightarrow> 'g session \<Rightarrow> ('e refusal + nat) \<times> 'g session" where
  "handle_workspace_rename i label s =
     (case named_workspace i s of
        None \<Rightarrow> (Inl NoWorkspace, s)
      | Some k \<Rightarrow> (Inr k, set_workspace k (ws_set_custom_name label (workspaces s ! k)) s))"

definition handle_workspace_move ::
    "text \<Rightarrow> nat \<Rightarrow> 'g session \<Rightarrow> (('e refusal + bool) \<times> 'g session) option" where
  "handle_workspace_move i insert_index s =
     (case named_workspace i s of
        None \<Rightarrow> Some (Inl NoWorkspace, s)
      | Some k \<Rightarrow>
          if insert_index > length (workspaces s) then Some (Inl IndexOutOfBounds, s)
          else map_option (\<lambda>(moved, s1). (Inr moved, s1)) (move_workspace k insert_index s))"

fun block_ids :: "text list \<Rightarrow> text list \<Rightarrow> 'g session \<Rightarrow> 'e refusal + text list" where
  "block_ids [] found s = Inr found"
| "block_ids (r # rs) found s =
     (case named_workspace r s of
        None \<Rightarrow> Inl NoWorkspace
      | Some k \<Rightarrow>
          let i = ws_id (workspaces s ! k)
          in if i \<in> set found then Inl RepeatedInBlock else block_ids rs (found @ [i]) s)"

definition block_before :: "text option \<Rightarrow> text list \<Rightarrow> 'g session \<Rightarrow> 'e refusal + text option" where
  "block_before before found s =
     (case before of
        None \<Rightarrow> Inr None
      | Some r \<Rightarrow>
          (case named_workspace r s of
             None \<Rightarrow> Inl NoWorkspace
           | Some k \<Rightarrow>
               let i = ws_id (workspaces s ! k)
               in if i \<in> set found then Inl BeforeInBlock else Inr (Some i)))"

definition handle_workspace_move_block ::
    "text list \<Rightarrow> text option \<Rightarrow> 'g session \<Rightarrow> (('e refusal + bool) \<times> 'g session) option" where
  "handle_workspace_move_block requested before s =
     (if requested = [] then Some (Inl EmptyBlock, s)
      else case block_ids requested [] s of
        Inl why \<Rightarrow> Some (Inl why, s)
      | Inr found \<Rightarrow>
          (case block_before before found s of
             Inl why \<Rightarrow> Some (Inl why, s)
           | Inr before_id \<Rightarrow>
               map_option (\<lambda>(moved, s1). (Inr moved, s1)) (move_workspace_block found before_id s)))"

definition close_workspace_at :: "nat \<Rightarrow> 'g app \<Rightarrow> 'g app option" where
  "close_workspace_at k a = close_selected_workspace (a\<lparr>app_session := (app_session a)\<lparr>selected := k\<rparr>\<rparr>)"

definition handle_workspace_close :: "text \<Rightarrow> 'g app \<Rightarrow> (('e refusal + nat) \<times> 'g app) option" where
  "handle_workspace_close i a =
     (case named_workspace i (app_session a) of
        None \<Rightarrow> Some (Inl NoWorkspace, a)
      | Some k \<Rightarrow> map_option (\<lambda>a1. (Inr k, shutdown_detached_terminal_runtimes a1)) (close_workspace_at k a))"

section \<open>Tabs\<close>

definition tab_create_target :: "text option \<Rightarrow> 'g session \<Rightarrow> nat option" where
  "tab_create_target workspace_id s =
     (case workspace_id of Some i \<Rightarrow> parse_workspace_id i s | None \<Rightarrow> active s)"

text \<open>A workspace index that is too large is the error \<open>workspace disappeared\<close>, here
  \<open>NoWorkspace\<close>; \<open>dir\<close> is the directory, given or resolved.\<close>

definition handle_tab_create ::
    "('e, 'r) spawner \<Rightarrow> nat \<Rightarrow> text option \<Rightarrow> text \<Rightarrow> bool \<Rightarrow> text option \<Rightarrow> (text, text) hashmap \<Rightarrow>
     allocators \<Rightarrow> 'g app \<Rightarrow> (('e refusal + nat \<times> nat) \<times> allocators \<times> 'g app) option" where
  "handle_tab_create spawn micros workspace_id dir take_focus label env al a =
     (case tab_create_target workspace_id (app_session a) of
        None \<Rightarrow> Some (Inl NoWorkspace, al, a)
      | Some ws_idx \<Rightarrow>
          (case normalize_launch_env env of
             None \<Rightarrow> Some (Inl InvalidEnv, al, a)
           | Some extra_env \<Rightarrow>
               (case vec_get (workspaces (app_session a)) ws_idx of
                  None \<Rightarrow> Some (Inl NoWorkspace, al, a)
                | Some w \<Rightarrow>
                    (case create_tab spawn micros dir None extra_env al w of
                       None \<Rightarrow> None
                     | Some (Inl err, al1, w1) \<Rightarrow>
                         Some (Inl (LaunchFailed err), al1, a\<lparr>app_session := set_workspace ws_idx w1 (app_session a)\<rparr>)
                     | Some (Inr (tab_idx, terminal, runtime), al1, w1) \<Rightarrow>
                         let s1 = remove_alias_shadowed_by_new_pane (root_pane (tabs w1 ! tab_idx))
                               (set_workspace ws_idx w1 (app_session a));
                             s2 = (case label of None \<Rightarrow> s1
                               | Some name \<Rightarrow> set_tab ws_idx tab_idx (set_tab_name name (tabs w1 ! tab_idx)) s1);
                             s3 = (if take_focus then show_tab ws_idx tab_idx s2 else s2)
                         in Some (Inr (ws_idx, tab_idx), al1, register_terminal terminal (a\<lparr>app_session := s3\<rparr>))))))"

definition handle_tab_focus :: "text \<Rightarrow> 'g session \<Rightarrow> ('e refusal + nat \<times> nat) \<times> 'g session" where
  "handle_tab_focus i s =
     (case parse_tab_id i s of
        None \<Rightarrow> (Inl NoTab, s) | Some (k, t) \<Rightarrow> (Inr (k, t), show_tab k t s))"

definition handle_tab_rename :: "text \<Rightarrow> text \<Rightarrow> 'g session \<Rightarrow> ('e refusal + nat \<times> nat) \<times> 'g session" where
  "handle_tab_rename i label s =
     (case parse_tab_id i s of
        None \<Rightarrow> (Inl NoTab, s)
      | Some (k, t) \<Rightarrow>
          (case get_tab k t s of
             None \<Rightarrow> (Inl NoTab, s)
           | Some tb \<Rightarrow> (Inr (k, t), set_tab k t (set_tab_name label tb) s)))"

definition handle_tab_move :: "text \<Rightarrow> nat \<Rightarrow> 'g session \<Rightarrow> ('e refusal + bool) \<times> 'g session" where
  "handle_tab_move i insert_index s =
     (case parse_tab_id i s of
        None \<Rightarrow> (Inl NoTab, s)
      | Some (k, t) \<Rightarrow>
          (case vec_get (workspaces s) k of
             None \<Rightarrow> (Inl NoTab, s)
           | Some w \<Rightarrow>
               if insert_index > length (tabs w) then (Inl IndexOutOfBounds, s)
               else let (moved, w1) = move_tab t insert_index w in (Inr moved, set_workspace k w1 s)))"

definition handle_tab_close ::
    "bool \<Rightarrow> text \<Rightarrow> 'g app \<Rightarrow> (('e refusal + nat \<times> nat) \<times> 'g app) option" where
  "handle_tab_close confirm_close i a =
     (let s = app_session a in
      case parse_tab_id i s of
        None \<Rightarrow> Some (Inl NoTab, a)
      | Some (k, t) \<Rightarrow>
          (case vec_get (workspaces s) k of
             None \<Rightarrow> Some (Inl NoTab, a)
           | Some w \<Rightarrow>
               let tids = terminal_ids_for_tab k t s
               in if length (tabs w) \<le> 1 then
                    (let (asked, s1) = confirm_implicit_worktree_group_close confirm_close k s
                     in if asked then Some (Inl ConfirmationRequired, a\<lparr>app_session := s1\<rparr>)
                        else map_option (\<lambda>a1. (Inr (k, t), shutdown_detached_terminal_runtimes a1)) (close_workspace_at k a))
                  else
                    (let (closed, w1) = close_tab t w
                     in if \<not> closed then Some (Inl TabCloseFailed, a)
                        else Some (Inr (k, t), shutdown_detached_terminal_runtimes (remove_unattached_terminal_ids tids
                               (a\<lparr>app_session := set_workspace k w1 s\<rparr>))))))"

section \<open>Panes\<close>

definition resolve_optional_pane :: "text option \<Rightarrow> 'g session \<Rightarrow> (nat \<times> pane_id) option" where
  "resolve_optional_pane pane_ref s =
     (case pane_ref of
        Some r \<Rightarrow> parse_pane_id r s
      | None \<Rightarrow> do {
          k \<leftarrow> active s;
          w \<leftarrow> vec_get (workspaces s) k;
          i \<leftarrow> focused_pane_id w;
          Some (k, i)
        })"

definition split_target :: "text option \<Rightarrow> text option \<Rightarrow> 'g session \<Rightarrow> (nat \<times> pane_id) option" where
  "split_target target_pane workspace_id s =
     (case target_pane of
        Some r \<Rightarrow> parse_pane_id r s
      | None \<Rightarrow>
          (case workspace_id of
             Some i \<Rightarrow> do {
               k \<leftarrow> parse_workspace_id i s;
               w \<leftarrow> vec_get (workspaces s) k;
               p \<leftarrow> focused_pane_id w;
               Some (k, p)
             }
           | None \<Rightarrow> resolve_optional_pane None s))"

definition handle_pane_split ::
    "('e, 'r) spawner \<Rightarrow> nat \<Rightarrow> text \<Rightarrow> text option \<Rightarrow> text option \<Rightarrow> direction \<Rightarrow> f32 option \<Rightarrow> text \<Rightarrow>
     bool \<Rightarrow> (text, text) hashmap \<Rightarrow> allocators \<Rightarrow> 'g app \<Rightarrow>
     (('e refusal + nat \<times> nat \<times> pane_id) \<times> allocators \<times> 'g app) option" where
  "handle_pane_split spawn micros here target_pane workspace_id d ratio dir take_focus env al a =
     (let s = app_session a in
      case split_target target_pane workspace_id s of
        None \<Rightarrow> Some (Inl NoPane, al, a)
      | Some (k, i) \<Rightarrow>
          (case normalize_launch_env env of
             None \<Rightarrow> Some (Inl InvalidEnv, al, a)
           | Some extra_env \<Rightarrow>
               (case vec_get (workspaces s) k of
                  None \<Rightarrow> Some (Inl NoPane, al, a)
                | Some w \<Rightarrow>
                    (case split_pane spawn micros here i d ratio (Some dir) extra_env take_focus None al w of
                       None \<Rightarrow> None
                     | Some (None, al1, w1) \<Rightarrow>
                         Some (Inl NoPane, al1, a\<lparr>app_session := set_workspace k w1 s\<rparr>)
                     | Some (Some (Inl err), al1, w1) \<Rightarrow>
                         Some (Inl (LaunchFailed err), al1, a\<lparr>app_session := set_workspace k w1 s\<rparr>)
                     | Some (Some (Inr (tab_idx, new)), al1, w1) \<Rightarrow>
                         let s1 = set_workspace k w1 s;
                             s2 = (if take_focus then show_tab k tab_idx s1 else s1);
                             s3 = remove_alias_shadowed_by_new_pane (np_pane_id new) s2
                         in Some (Inr (k, tab_idx, np_pane_id new), al1,
                              register_terminal (np_terminal new) (a\<lparr>app_session := s3\<rparr>))))))"

definition handle_pane_focus :: "text \<Rightarrow> 'g session \<Rightarrow> ('e refusal + nat \<times> pane_id) \<times> 'g session" where
  "handle_pane_focus r s =
     (case parse_pane_id r s of
        None \<Rightarrow> (Inl NoPane, s)
      | Some (k, i) \<Rightarrow>
          if find_tab_index_for_pane i (workspaces s ! k) = None then (Inl NoPane, s)
          else (Inr (k, i), snd (mark_active_tab_seen (snd (focus_pane_in_workspace k i s)))))"

definition handle_pane_zoom ::
    "text option \<Rightarrow> pane_zoom_command \<Rightarrow> 'g session \<Rightarrow> ('e refusal + pane_zoom_outcome) \<times> 'g session" where
  "handle_pane_zoom pane_ref command s =
     (case resolve_optional_pane pane_ref s of
        None \<Rightarrow> (Inl NoPane, s)
      | Some (k, i) \<Rightarrow>
          if find_tab_index_for_pane i (workspaces s ! k) = None \<or> public_pane_id k i s = None
          then (Inl NoPane, s)
          else (case apply_pane_zoom k i command s of
                  (None, s1) \<Rightarrow> (Inl NoPane, s1)
                | (Some outcome, s1) \<Rightarrow> (Inr outcome, s1)))"

definition close_pane ::
    "bool \<Rightarrow> text \<Rightarrow> 'g app \<Rightarrow> (('e refusal + nat \<times> pane_id) \<times> 'g app) option" where
  "close_pane confirm_close r a =
     (let s = app_session a in
      case parse_pane_id r s of
        None \<Rightarrow> Some (Inl NoPane, a)
      | Some (k, i) \<Rightarrow>
          if public_pane_id k i s = None then Some (Inl NoPane, a)
          else
            let (asked, s1) = (if close_pane_would_close_workspace k i s
                  then confirm_implicit_worktree_group_close confirm_close k s else (False, s))
            in if asked then Some (Inl ConfirmationRequired, a\<lparr>app_session := s1\<rparr>)
               else do {
                 let tid = terminal_id_for_pane k i s;
                 (close_it, w) \<leftarrow> ws_close_pane i (workspaces s ! k);
                 let a1 = a\<lparr>app_session := set_workspace k w s\<rparr>;
                 a2 \<leftarrow> (if close_it then close_workspace_at k a1
                       else Some (remove_unattached_terminal_ids (case tid of Some t \<Rightarrow> [t] | None \<Rightarrow> []) a1));
                 Some (Inr (k, i), shutdown_detached_terminal_runtimes a2)
               })"

text \<open>The move of a pane, over the whole state.\<close>

definition app_pane_move ::
    "'g git_answers \<Rightarrow> text \<Rightarrow> text \<Rightarrow> pane_move_destination \<Rightarrow> bool \<Rightarrow> allocators \<Rightarrow> 'g app \<Rightarrow>
     ((move_refusal + nat \<times> nat \<times> pane_id) \<times> allocators \<times> 'g app) option" where
  "app_pane_move git here r dest take_focus al a =
     map_option (\<lambda>(res, al1, s1). (res, al1, a\<lparr>app_session := s1\<rparr>))
       (handle_pane_move git (terminals a) here r dest take_focus al (app_session a))"

end
