(* ===== verification/Tab_Invariant.thy ===== *)
theory Tab_Invariant
  imports Workspaces Layout_Properties
begin

text \<open>
  The invariant of a tab: its layout is well formed, its panes are exactly those of the layout,
  and its root pane is one of them; and what each operation of \<open>Tabs\<close> does to the panes. The
  collection \<open>tab_simps\<close> holds how the abbreviations below read after an update.
\<close>

named_theorems tab_simps "reading a tab after an update"

section \<open>Layouts\<close>

definition layout_wf :: "tile_layout \<Rightarrow> bool" where
  "layout_wf l \<longleftrightarrow> distinct (pane_ids l) \<and> focus l \<in> set (pane_ids l) \<and> ratios_ok (tree_root l)"

lemma layout_ok_wf: "layout_ok (n, l) \<longleftrightarrow> layout_wf l \<and> (\<forall>i \<in> set (pane_ids l). i < n)"
  by (auto simp: layout_ok_def layout_wf_def)

lemma pane_count_ids: "pane_count l = length (pane_ids l)"
  by (simp add: pane_count_def pane_ids_def count_panes_ids)

lemma pane_ids_focus [simp]: "pane_ids (l\<lparr>focus := i\<rparr>) = pane_ids l"
  by (simp add: pane_ids_def)

lemma focus_pane_facts [simp]:
  "pane_ids (focus_pane i l) = pane_ids l"
  "tree_root (focus_pane i l) = tree_root l"
  "focus (focus_pane i l) = (if i \<in> set (pane_ids l) then i else focus l)"
  by (simp_all add: focus_pane_def)

lemma focus_pane_wf [simp]: "layout_wf l \<Longrightarrow> layout_wf (focus_pane i l)"
  by (auto simp: layout_wf_def)

lemma ids_not_Nil [simp]: "pane_ids l \<noteq> []"
  by (simp add: pane_ids_def)

lemma close_focused_facts:
  assumes "layout_wf l" "1 < length (pane_ids l)"
  obtains l' where "close_focused l = Some (True, l')" "layout_wf l'"
    "pane_ids l' = filter (\<lambda>i. i \<noteq> focus l) (pane_ids l)"
proof -
  have d: "distinct (pane_ids l)" "focus l \<in> set (pane_ids l)" and r: "ratios_ok (tree_root l)"
    using assms(1) by (simp_all add: layout_wf_def)
  obtain k m where k: "k < length (pane_ids l)" "pane_ids l ! k = focus l"
    and m: "remove_pane (tree_root l) (focus l) = Some m" "ids_of m = filter (\<lambda>i. i \<noteq> focus l) (pane_ids l)"
    and e: "close_focused l = Some (True, \<lparr>tree_root = m,
       focus = (if k + 1 < length (pane_ids l) then pane_ids l ! (k + 1) else pane_ids l ! (k - 1))\<rparr>)"
    by (rule close_focused_eq [OF d assms(2)])
  show ?thesis
    using that [OF e] neighbour_other [OF d(1) k(1) assms(2)] d(1) m remove_ratios [OF r m(1)] k(2)
    by (auto simp: layout_wf_def pane_ids_def)
qed

lemma close_in_layout_facts:
  assumes "layout_wf l" "1 < length (pane_ids l)" "i \<in> set (pane_ids l)"
  obtains l' where "close_in_layout i l = Some l'" "layout_wf l'"
    "pane_ids l' = filter (\<lambda>j. j \<noteq> i) (pane_ids l)" "focus l \<noteq> i \<Longrightarrow> focus l' = focus l"
proof (cases "focus l = i")
  case True
  obtain l' where "close_focused l = Some (True, l')" "layout_wf l'"
      "pane_ids l' = filter (\<lambda>i. i \<noteq> focus l) (pane_ids l)"
    by (rule close_focused_facts [OF assms(1,2)])
  then show ?thesis using that [of l'] True by (simp add: close_in_layout_def)
next
  case False
  obtain l' where "close_focused (focus_pane i l) = Some (True, l')" "layout_wf l'"
      "pane_ids l' = filter (\<lambda>j. j \<noteq> i) (pane_ids l)"
    by (rule close_focused_facts [of "focus_pane i l"]) (use assms in auto)
  then show ?thesis
    using that [of "focus_pane (focus l) l'"] False assms(1)
    by (simp add: close_in_layout_def layout_wf_def)
qed

lemma split_layout_eq:
  "split_layout d ratio n l = (n, n + 1, \<lparr>tree_root = split_at (tree_root l) (focus l) d n
     (valid_split_ratio (unwrap_or ratio f32_half)), focus = n\<rparr>)"
  by (simp add: split_layout_def split_focused_def split_focused_with_ratio_def pane_id_alloc_def
      split: option.split)

lemma split_node_facts:
  assumes "layout_wf l" "t \<in> set (pane_ids l)" "n \<notin> set (pane_ids l)"
  shows "layout_wf \<lparr>tree_root = split_at (tree_root l) t d n (valid_split_ratio r), focus = n\<rparr>"
    "set (pane_ids \<lparr>tree_root = split_at (tree_root l) t d n (valid_split_ratio r), focus = n\<rparr>)
       = insert n (set (pane_ids l))"
  using assms split_ids_facts [of "pane_ids l" t n]
  by (auto simp: layout_wf_def pane_ids_def ids split_at_ratios valid_ratio_unit)

text \<open>A split that is taken back leaves the layout as it was.\<close>

lemma split_close_restores:
  assumes "layout_wf l" "n \<notin> set (pane_ids l)" "split_layout d ratio n l = (i, n', l')"
  obtains l'' where "close_focused l' = Some (True, l'')" "focus_pane (focus l) l'' = l"
proof -
  have l': "l' = \<lparr>tree_root = split_at (tree_root l) (focus l) d n (valid_split_ratio (unwrap_or ratio f32_half)), focus = n\<rparr>"
    using assms(3) by (auto simp: split_layout_eq)
  have foc: "focus l \<in> set (pane_ids l)" using assms(1) by (simp add: layout_wf_def)
  have f: "layout_wf l'" "set (pane_ids l') = insert n (set (pane_ids l))"
    unfolding l' by (rule split_node_facts [OF assms(1) foc assms(2)])+
  have "card {n, focus l} \<le> card (set (pane_ids l'))" using f(2) foc by (intro card_mono) auto
  moreover have "n \<noteq> focus l" using assms(2) foc by auto
  ultimately have "1 < length (pane_ids l')" using card_length [of "pane_ids l'"] by simp
  then obtain k m where e: "remove_pane (tree_root l') (focus l') = Some m"
      "close_focused l' = Some (True, \<lparr>tree_root = m,
       focus = (if k + 1 < length (pane_ids l') then pane_ids l' ! (k + 1) else pane_ids l' ! (k - 1))\<rparr>)"
    using close_focused_eq [of l'] f(1) by (metis layout_wf_def)
  have "remove_pane (tree_root l') (focus l') = Some (tree_root l)"
    using assms(2) \<open>n \<noteq> focus l\<close> by (simp add: l' remove_split_at pane_ids_def)
  then have "m = tree_root l" using e(1) by simp
  then show ?thesis
    using that [OF e(2)] foc by (simp add: focus_pane_def pane_ids_def)
qed

section \<open>Tabs\<close>

abbreviation tab_ids :: "tab \<Rightarrow> pane_id list" where
  "tab_ids t \<equiv> pane_ids (tab_layout t)"

definition tab_ok :: "tab \<Rightarrow> bool" where
  "tab_ok t \<longleftrightarrow> layout_wf (tab_layout t) \<and> hm_wf (tab_panes t)
     \<and> fst ` set (tab_panes t) = set (tab_ids t) \<and> root_pane t \<in> set (tab_ids t)"

lemma tab_ok_panes:
  assumes "tab_ok t"
  shows "hm_contains (tab_panes t) i \<longleftrightarrow> i \<in> set (tab_ids t)"
    "(\<exists>st. hm_get (tab_panes t) i = Some st) \<longleftrightarrow> i \<in> set (tab_ids t)"
  using assms hm_get_None_iff [of "tab_panes t" i] by (auto simp: tab_ok_def hm_contains_iff)

lemma keys_insert: "fst ` set (hm_insert k v m) = insert k (fst ` set m)"
  by (auto simp: hm_simps simp flip: dom_hm_get split: if_splits)

lemma keys_remove: "fst ` set (hm_remove k m) = fst ` set m - {k}"
  by (auto simp: hm_simps simp flip: dom_hm_get split: if_splits)

lemma keys_map_values [simp]: "fst ` set (hm_map_values f m) = fst ` set m"
  by (force simp: hm_map_values_def image_iff)

lemma from_existing_pane_ok: "tab_ok (from_existing_pane n name m)"
  by (simp add: tab_ok_def from_existing_pane_def layout_wf_def pane_ids_def keys_insert)

lemma new_tab_cases:
  assumes "new_tab spawn micros number dir env args al = (res, al')"
  obtains (failed) err where "res = Inl err" "al' = al\<lparr>next_pane_id := next_pane_id al + 1\<rparr>"
  | (started) t terminal runtime tid where
      "res = Inr (t, terminal, runtime)" "tab_ok t" "tab_number t = number"
      "tab_ids t = [next_pane_id al]" "root_pane t = next_pane_id al"
      "tid = fst (terminal_id_alloc micros (next_terminal_id al))"
      "tab_panes t = [(next_pane_id al, new_pane_state tid)]"
      "terminal = launched_terminal tid dir args"
      "al' = al\<lparr>next_pane_id := next_pane_id al + 1, next_terminal_id := next_terminal_id al + 1\<rparr>"
proof -
  let ?tid = "fst (terminal_id_alloc micros (next_terminal_id al))"
  let ?l = "\<lparr>tree_root = Pane (next_pane_id al), focus = next_pane_id al\<rparr>"
  let ?t = "\<lparr>tab_custom_name = None, tab_number = number, root_pane = next_pane_id al, tab_layout = ?l,
    tab_panes = [(next_pane_id al, new_pane_state ?tid)], zoomed = False\<rparr>"
  have "tab_ok ?t" by (simp add: tab_ok_def layout_wf_def pane_ids_def)
  moreover have "(\<exists>err. res = Inl err \<and> al' = al\<lparr>next_pane_id := next_pane_id al + 1\<rparr>)
    \<or> (\<exists>runtime. res = Inr (?t, launched_terminal ?tid dir args, runtime)
        \<and> al' = al\<lparr>next_pane_id := next_pane_id al + 1, next_terminal_id := next_terminal_id al + 1\<rparr>)"
    using assms
    by (auto simp: new_tab_def new_layout_def pane_id_alloc_def alloc_terminal_def terminal_id_alloc_def
        hm_insert_def Let_def split: sum.splits prod.splits)
  ultimately show ?thesis
    using failed started [of ?t "launched_terminal ?tid dir args" _ ?tid] by (auto simp: pane_ids_def)
qed

text \<open>A split either adds the new pane, or, when its process does not start, leaves the tab as it was.\<close>

lemma launched_terminal_id: "ts_id (launched_terminal i dir args) = i"
  by (simp add: launched_terminal_def new_terminal_def with_launch_argv_def split: option.split)

lemma split_tab_cases:
  assumes "tab_ok t" "next_pane_id al \<notin> set (tab_ids t)"
  obtains (failed) err where
      "split_tab spawn micros here d ratio dir env command al t
        = Some (Inl err, al\<lparr>next_pane_id := next_pane_id al + 1\<rparr>, t)"
  | (started) new t' tid where
      "split_tab spawn micros here d ratio dir env command al t
        = Some (Inr new, al\<lparr>next_pane_id := next_pane_id al + 1, next_terminal_id := next_terminal_id al + 1\<rparr>, t')"
      "np_pane_id new = next_pane_id al" "tid = fst (terminal_id_alloc micros (next_terminal_id al))"
      "ts_id (np_terminal new) = tid" "tab_ok t'" "tab_number t' = tab_number t" "root_pane t' = root_pane t"
      "set (tab_ids t') = insert (next_pane_id al) (set (tab_ids t))"
      "focus (tab_layout t') = next_pane_id al"
      "tab_panes t' = hm_insert (next_pane_id al) (new_pane_state tid) (tab_panes t)"
      "tab_custom_name t' = tab_custom_name t" "\<not> zoomed t'"
proof -
  let ?n = "next_pane_id al" and ?tid = "fst (terminal_id_alloc micros (next_terminal_id al))"
  let ?al = "al\<lparr>next_pane_id := next_pane_id al + 1\<rparr>"
  have wf: "layout_wf (tab_layout t)" using assms(1) by (simp add: tab_ok_def)
  obtain l where l: "split_layout d ratio ?n (tab_layout t) = (?n, ?n + 1, l)"
      "l = \<lparr>tree_root = split_at (tree_root (tab_layout t)) (focus (tab_layout t)) d ?n
         (valid_split_ratio (unwrap_or ratio f32_half)), focus = ?n\<rparr>"
    by (simp add: split_layout_eq)
  have foc: "focus (tab_layout t) \<in> set (tab_ids t)" using wf by (simp add: layout_wf_def)
  have lwf: "layout_wf l" "set (pane_ids l) = insert ?n (set (tab_ids t))"
    unfolding l(2) by (rule split_node_facts [OF wf foc assms(2)])+
  obtain l2 where l2: "close_focused l = Some (True, l2)" "focus_pane (focus (tab_layout t)) l2 = tab_layout t"
    by (rule split_close_restores [OF wf assms(2) l(1)])
  show ?thesis
  proof (cases "spawn (split_spawn_request ?n (unwrap_or dir here) env command)")
    case (Inl err)
    then show ?thesis using failed [of err] by (simp add: split_tab_def l(1) l2)
  next
    case (Inr runtime)
    let ?args = "case command of Some (ArgvCommand av _) \<Rightarrow> Some av | _ \<Rightarrow> None"
    let ?new = "\<lparr>np_pane_id = ?n, np_terminal = launched_terminal ?tid (unwrap_or dir here) ?args, np_runtime = runtime\<rparr>"
    let ?t = "t\<lparr>tab_layout := l, tab_panes := hm_insert ?n (new_pane_state ?tid) (tab_panes t), zoomed := False\<rparr>"
    have "split_tab spawn micros here d ratio dir env command al t
        = Some (Inr ?new, ?al\<lparr>next_terminal_id := next_terminal_id al + 1\<rparr>, ?t)"
      using Inr by (simp add: split_tab_def l(1) alloc_terminal_def terminal_id_alloc_def)
    moreover have "tab_ok ?t"
      using assms(1) lwf by (auto simp: tab_ok_def keys_insert)
    moreover have "ts_id (np_terminal ?new) = ?tid"
      by (simp add: launched_terminal_id)
    ultimately show ?thesis using started [of ?new ?t ?tid] lwf l(2) by simp
  qed
qed

lemma promoted_root:
  assumes "tab_ok t" "1 < length (tab_ids t)" "i \<in> set (tab_ids t)"
  shows "unwrap_or (promoted_root_if_needed i t) (root_pane t) \<in> set (tab_ids t) - {i}"
proof (cases "root_pane t = i")
  case True
  have d: "distinct (tab_ids t)" using assms(1) by (simp add: tab_ok_def layout_wf_def)
  have "\<exists>j \<in> set (tab_ids t). j \<noteq> i"
  proof (rule ccontr)
    assume "\<not> ?thesis"
    then have "set (tab_ids t) \<subseteq> {i}" by auto
    then have "card (set (tab_ids t)) \<le> 1" using card_mono [of "{i}" "set (tab_ids t)"] by simp
    then show False using distinct_card [OF d] assms(2) by simp
  qed
  then obtain j where "find (\<lambda>j. j \<noteq> i) (tab_ids t) = Some j"
    using find_None_iff [of "\<lambda>j. j \<noteq> i" "tab_ids t"] by (cases "find (\<lambda>j. j \<noteq> i) (tab_ids t)") auto
  then show ?thesis
    using True find_Some_iff [of "\<lambda>j. j \<noteq> i" "tab_ids t" j]
    by (auto simp: promoted_root_if_needed_def)
next
  case False
  then show ?thesis using assms(1) by (simp add: promoted_root_if_needed_def tab_ok_def)
qed

text \<open>Taking a pane out of a tab that has others, to close it or to move it.\<close>

definition tab_without :: "pane_id \<Rightarrow> tab \<Rightarrow> tab \<Rightarrow> bool" where
  "tab_without i t t' \<longleftrightarrow> tab_ok t' \<and> tab_number t' = tab_number t \<and> tab_custom_name t' = tab_custom_name t
     \<and> tab_ids t' = filter (\<lambda>j. j \<noteq> i) (tab_ids t) \<and> tab_panes t' = hm_remove i (tab_panes t)
     \<and> (focus (tab_layout t) \<noteq> i \<longrightarrow> focus (tab_layout t') = focus (tab_layout t))
     \<and> (root_pane t \<noteq> i \<longrightarrow> root_pane t' = root_pane t)"

lemma removed_pane_ok:
  assumes "tab_ok t" "1 < length (tab_ids t)" "i \<in> set (tab_ids t)" "close_in_layout i (tab_layout t) = Some l"
  shows "tab_without i t (t\<lparr>tab_layout := l, tab_panes := hm_remove i (tab_panes t), zoomed := False,
    root_pane := unwrap_or (promoted_root_if_needed i t) (root_pane t)\<rparr>)"
proof -
  have "layout_wf (tab_layout t)" using assms(1) by (simp add: tab_ok_def)
  from close_in_layout_facts [OF this assms(2,3)] assms(4)
  have l: "layout_wf l" "pane_ids l = filter (\<lambda>j. j \<noteq> i) (tab_ids t)"
      "focus (tab_layout t) \<noteq> i \<Longrightarrow> focus l = focus (tab_layout t)"
    by (metis option.inject)+
  then show ?thesis
    using assms(1) promoted_root [OF assms(1-3)]
    by (auto simp: tab_without_def tab_ok_def keys_remove) (auto simp: promoted_root_if_needed_def)
qed

lemma closes_in_layout:
  assumes "tab_ok t" "1 < length (tab_ids t)" "i \<in> set (tab_ids t)"
  obtains l where "close_in_layout i (tab_layout t) = Some l"
  using assms close_in_layout_facts [of "tab_layout t" i] by (auto simp: tab_ok_def)

lemma detach_pane_ok:
  assumes "tab_ok t" "1 < length (tab_ids t)" "i \<in> set (tab_ids t)"
  obtains st t' where "hm_get (tab_panes t) i = Some st" "tab_without i t t'"
    "detach_pane i t = Some (Some (i, attached_terminal_id st), t')" "\<not> zoomed t'"
proof -
  obtain l where l: "close_in_layout i (tab_layout t) = Some l" by (rule closes_in_layout [OF assms])
  obtain st where "hm_get (tab_panes t) i = Some st" using assms(3) tab_ok_panes(2) [OF assms(1)] by blast
  then show ?thesis
    using that [OF _ removed_pane_ok [OF assms l]] l assms(2)
    by (simp add: detach_pane_def pane_count_ids)
qed

lemma take_pane_ok:
  assumes "tab_ok t" "1 < length (tab_ids t)" "i \<in> set (tab_ids t)"
  obtains st t' where "hm_get (tab_panes t) i = Some st" "tab_without i t t'"
    "take_pane_from_tab i t = Some (Some \<lparr>mp_pane_id = i, mp_pane_state = st\<rparr>, t')" "\<not> zoomed t'"
proof -
  obtain l where l: "close_in_layout i (tab_layout t) = Some l" by (rule closes_in_layout [OF assms])
  obtain st where st: "hm_get (tab_panes t) i = Some st" using assms(3) tab_ok_panes(2) [OF assms(1)] by blast
  let ?t = "t\<lparr>tab_layout := l, tab_panes := hm_remove i (tab_panes t), zoomed := False,
    root_pane := unwrap_or (promoted_root_if_needed i t) (root_pane t)\<rparr>"
  have "?t = t\<lparr>tab_layout := l, root_pane := unwrap_or (promoted_root_if_needed i t) (root_pane t),
      tab_panes := hm_remove i (tab_panes t), zoomed := False\<rparr>" by simp
  then show ?thesis
    using that [OF st removed_pane_ok [OF assms l]] l assms(2) st
    by (simp add: take_pane_from_tab_def pane_count_ids hm_contains_iff)
qed

lemma take_last_pane:
  assumes "tab_ok t" "length (tab_ids t) \<le> 1" "i \<in> set (tab_ids t)"
  obtains st t' where "hm_get (tab_panes t) i = Some st"
    "take_pane_from_tab i t = Some (Some \<lparr>mp_pane_id = i, mp_pane_state = st\<rparr>, t')"
proof -
  obtain st where "hm_get (tab_panes t) i = Some st" using assms(3) tab_ok_panes(2) [OF assms(1)] by blast
  then show ?thesis
    using that assms(2) by (simp add: take_pane_from_tab_def pane_count_ids hm_contains_iff)
qed

lemma insert_existing_pane_ok:
  assumes "tab_ok t" "target \<in> set (tab_ids t)" "mp_pane_id m \<notin> set (tab_ids t)"
  obtains t' where "insert_existing_pane target m d r t = (Inr (mp_pane_id m), t')" "tab_ok t'"
    "tab_number t' = tab_number t" "root_pane t' = root_pane t" "tab_custom_name t' = tab_custom_name t"
    "set (tab_ids t') = insert (mp_pane_id m) (set (tab_ids t))" "focus (tab_layout t') = mp_pane_id m"
    "tab_panes t' = hm_insert (mp_pane_id m) (mp_pane_state m) (tab_panes t)" "\<not> zoomed t'"
proof -
  let ?l = "\<lparr>tree_root = split_at (tree_root (tab_layout t)) target d (mp_pane_id m) (valid_split_ratio r),
    focus = mp_pane_id m\<rparr>"
  let ?t = "t\<lparr>tab_layout := ?l, tab_panes := hm_insert (mp_pane_id m) (mp_pane_state m) (tab_panes t), zoomed := False\<rparr>"
  have wf: "layout_wf (tab_layout t)" using assms(1) by (simp add: tab_ok_def)
  have "target \<noteq> mp_pane_id m" using assms(2,3) by auto
  then have "insert_existing_pane target m d r t = (Inr (mp_pane_id m), ?t)"
    using assms(2,3) by (simp add: insert_existing_pane_def insert_pane_near_def)
  then show ?thesis
    using that [of ?t] assms(1) split_node_facts [OF wf assms(2,3)] by (auto simp: tab_ok_def keys_insert)
qed

text \<open>Operations on the layout alone, as long as they keep its panes.\<close>

lemma tab_layout_update_ok:
  "tab_ok t \<Longrightarrow> layout_wf l \<Longrightarrow> set (pane_ids l) = set (tab_ids t) \<Longrightarrow> tab_ok (t\<lparr>tab_layout := l\<rparr>)"
  by (simp add: tab_ok_def)

lemma tab_ok_frame [simp]:
  "tab_ok (t\<lparr>zoomed := z\<rparr>) = tab_ok t" "tab_ok (t\<lparr>tab_custom_name := name\<rparr>) = tab_ok t"
  "tab_ok (t\<lparr>tab_panes := hm_map_values f (tab_panes t)\<rparr>) = tab_ok t"
  by (simp_all add: tab_ok_def)

lemma refocus_ok [simp]: "tab_ok t \<Longrightarrow> tab_ok (t\<lparr>tab_layout := focus_pane i (tab_layout t)\<rparr>)"
  by (simp add: tab_ok_def)

end
