(* ===== verification/Workspace_Invariant.thy ===== *)
theory Workspace_Invariant
  imports Tab_Invariant "HOL-Library.Multiset"
begin

text \<open>
  The invariant of a workspace, which the program states for its tests in
  \<open>assert_invariants_for_test\<close>: tabs with distinct numbers and disjoint panes, an active tab, and
  public pane numbers for exactly the live panes; every operation of \<open>Workspaces\<close> keeps it. While
  a pane is being moved its number is still booked: \<open>ws_core P\<close> allows for the panes in \<open>P\<close>.
\<close>

section \<open>Vectors\<close>

lemma vec_split:
  assumes "k < length xs"
  obtains ys x zs where "xs = ys @ x # zs" "xs ! k = x" "length ys = k" "vec_remove k xs = ys @ zs"
    "\<And>x'. xs[k := x'] = ys @ x' # zs"
proof -
  have "xs = take k xs @ xs ! k # drop (Suc k) xs" by (rule id_take_nth_drop [OF assms])
  then show ?thesis
    using that [of "take k xs" "xs ! k" "drop (Suc k) xs"] assms by (simp add: vec_remove_def upd_conv_take_nth_drop)
qed

lemma position_SomeD: "position p xs = Some k \<Longrightarrow> k < length xs \<and> p (xs ! k)"
proof (induction xs arbitrary: k)
  case (Cons x xs)
  show ?case
  proof (cases "p x")
    case True
    then show ?thesis using Cons.prems by (simp add: position_def split: if_splits)
  next
    case False
    then have "position p xs = Some (k - 1) \<and> 0 < k"
      using Cons.prems by (auto simp: position_def split: if_splits)
    then show ?thesis using Cons.IH [of "k - 1"] False by (cases k) auto
  qed
qed (simp add: position_def)

lemma position_None_iff: "position p xs = None \<longleftrightarrow> (\<forall>x \<in> set xs. \<not> p x)"
  by (auto simp: position_def list_ex_iff)

lemma mset_move: "k < length xs \<Longrightarrow> mset (vec_insert j (xs ! k) (vec_remove k xs)) = mset xs"
proof -
  assume "k < length xs"
  then obtain ys x zs where e: "xs = ys @ x # zs" "xs ! k = x" "vec_remove k xs = ys @ zs" by (metis vec_split)
  have "mset (vec_insert j x (ys @ zs)) = add_mset x (mset (ys @ zs))"
    unfolding vec_insert_def by (metis append_take_drop_id mset.simps(2) mset_append union_mset_add_mset_right)
  then show ?thesis unfolding e(2,3) by (simp add: e(1))
qed

section \<open>Tabs of a workspace\<close>

definition tabs_ok :: "tab list \<Rightarrow> usize \<Rightarrow> bool" where
  "tabs_ok ts nxt \<longleftrightarrow> nxt \<noteq> 0 \<and> (\<forall>t \<in> set ts. tab_ok t \<and> tab_number t \<noteq> 0 \<and> tab_number t < nxt)
     \<and> distinct (map tab_number ts) \<and> distinct (concat (map tab_ids ts))"

lemma next_usize:
  assumes "unat (n :: usize) < 2 ^ 64 - 1"
  shows "n < n + 1" "n + 1 \<noteq> 0" "max n (n + 1) = n + 1"
proof -
  have u: "unat (n + 1) = unat n + 1" using assms by (simp add: unat_word_ariths)
  then show l: "n < n + 1" by (simp add: word_less_nat_alt)
  show "n + 1 \<noteq> 0" using u by auto
  show "max n (n + 1) = n + 1" using l by (simp add: max_def)
qed

lemma tabs_ok_replace:
  assumes "tabs_ok (xs @ t # ys) n" "tab_ok t'" "tab_number t' = tab_number t"
    "set (tab_ids t') \<inter> set (concat (map tab_ids (xs @ ys))) = {}"
  shows "tabs_ok (xs @ t' # ys) n"
proof -
  have "distinct (tab_ids t')" using assms(2) by (simp add: tab_ok_def layout_wf_def)
  moreover have "set (tab_ids t') \<inter> set (concat (map tab_ids xs)) = {}"
      "set (tab_ids t') \<inter> set (concat (map tab_ids ys)) = {}"
    using assms(4) by auto
  ultimately have "distinct (concat (map tab_ids (xs @ t' # ys)))"
    using assms(1) unfolding tabs_ok_def map_append list.map concat_append concat.simps distinct_append set_append
    by blast
  then show ?thesis using assms(1-3) by (simp add: tabs_ok_def)
qed

lemma tabs_ok_disjoint:
  "tabs_ok (xs @ t # ys) n \<Longrightarrow> set (tab_ids t) \<inter> set (concat (map tab_ids (xs @ ys))) = {}"
  unfolding tabs_ok_def map_append list.map concat_append concat.simps distinct_append set_append by blast

lemma tabs_ok_remove: "tabs_ok (xs @ t # ys) n \<Longrightarrow> tabs_ok (xs @ ys) n"
  by (auto simp: tabs_ok_def)

lemma tabs_ok_append:
  assumes "tabs_ok ts n" "unat n < 2 ^ 64 - 1" "tab_ok t" "tab_number t = n"
    "set (tab_ids t) \<inter> set (concat (map tab_ids ts)) = {}"
  shows "tabs_ok (ts @ [t]) (n + 1)"
proof -
  note n = next_usize [OF assms(2)]
  have "\<forall>u \<in> set ts. tab_number u < n" using assms(1) by (simp add: tabs_ok_def)
  then have "\<forall>u \<in> set ts. tab_number u < n + 1" "n \<notin> tab_number ` set ts" using n(1) by (auto intro: less_trans)
  then show ?thesis using assms n by (auto simp: tabs_ok_def tab_ok_def layout_wf_def)
qed

lemma tabs_ok_mset:
  assumes "mset ts = mset us"
  shows "tabs_ok ts n = tabs_ok us n"
proof -
  have "mset (concat (map tab_ids ts)) = mset (concat (map tab_ids us))"
    using assms by (simp add: mset_concat flip: sum_mset_sum_list mset_map) (simp add: assms)
  then have "distinct (concat (map tab_ids ts)) = distinct (concat (map tab_ids us))"
    by (rule mset_eq_imp_distinct_iff)
  moreover have "distinct (map tab_number ts) = distinct (map tab_number us)"
    using assms by (intro mset_eq_imp_distinct_iff) simp
  ultimately show ?thesis using mset_eq_setD [OF assms] by (simp add: tabs_ok_def)
qed

section \<open>Public numbers\<close>

definition numbers_ok :: "(pane_id, usize) hashmap \<Rightarrow> usize \<Rightarrow> bool" where
  "numbers_ok m nxt \<longleftrightarrow> nxt \<noteq> 0 \<and> hm_wf m \<and> (\<forall>i n. hm_get m i = Some n \<longrightarrow> n \<noteq> 0 \<and> n < nxt)
     \<and> (\<forall>i j n. hm_get m i = Some n \<longrightarrow> hm_get m j = Some n \<longrightarrow> i = j)"

lemma numbers_ok_insert:
  assumes "numbers_ok m n" "unat n < 2 ^ 64 - 1"
  shows "numbers_ok (hm_insert i n m) (n + 1)"
proof -
  note n = next_usize [OF assms(2)]
  have "j < n + 1" if "j < n" for j using that n(1) by (rule less_trans)
  then show ?thesis using assms(1) n by (auto simp: numbers_ok_def hm_simps)
qed

lemma numbers_ok_remove: "numbers_ok m n \<Longrightarrow> numbers_ok (hm_remove i m) n"
  by (auto simp: numbers_ok_def hm_simps split: if_splits)

section \<open>Workspaces\<close>

definition ws_panes :: "'g workspace \<Rightarrow> pane_id list" where
  "ws_panes w = concat (map tab_ids (tabs w))"

definition ws_core :: "pane_id set \<Rightarrow> 'g workspace \<Rightarrow> bool" where
  "ws_core P w \<longleftrightarrow> tabs_ok (tabs w) (next_public_tab_number w)
     \<and> numbers_ok (public_pane_numbers w) (next_public_pane_number w)
     \<and> fst ` set (public_pane_numbers w) = set (ws_panes w) \<union> P \<and> P \<inter> set (ws_panes w) = {}"

definition ws_ok :: "'g workspace \<Rightarrow> bool" where
  "ws_ok w \<longleftrightarrow> ws_core {} w \<and> active_tab w < length (tabs w)"

definition ws_room :: "'g workspace \<Rightarrow> bool" where
  "ws_room w \<longleftrightarrow> unat (next_public_tab_number w) < 2 ^ 64 - 1 \<and> unat (next_public_pane_number w) < 2 ^ 64 - 1"

text \<open>The terminals of the panes, and of a hash map of panes.\<close>

definition pane_terminals :: "(pane_id, pane_state) hashmap \<Rightarrow> (pane_id \<times> text) set" where
  "pane_terminals m = (\<lambda>(i, p). (i, attached_terminal_id p)) ` set m"

definition ws_terminals :: "'g workspace \<Rightarrow> (pane_id \<times> text) set" where
  "ws_terminals w = (\<Union>t \<in> set (tabs w). pane_terminals (tab_panes t))"

lemma pane_terminals_iff:
  "hm_wf m \<Longrightarrow> (i, x) \<in> pane_terminals m \<longleftrightarrow> (\<exists>p. hm_get m i = Some p \<and> attached_terminal_id p = x)"
  by (force simp: pane_terminals_def hm_get_eq_Some_iff image_iff)

lemma pane_terminals_insert:
  "hm_wf m \<Longrightarrow> i \<notin> fst ` set m \<Longrightarrow>
     pane_terminals (hm_insert i p m) = insert (i, attached_terminal_id p) (pane_terminals m)"
  by (intro set_eqI) (auto simp: pane_terminals_iff hm_simps hm_get_None_iff [symmetric] split: if_splits)

lemma pane_terminals_remove:
  "hm_wf m \<Longrightarrow> pane_terminals (hm_remove i m) = {e \<in> pane_terminals m. fst e \<noteq> i}"
  by (intro set_eqI) (auto simp: pane_terminals_iff hm_simps split: if_splits)

lemma pane_terminals_seen:
  "(\<And>i p. attached_terminal_id (f i p) = attached_terminal_id p) \<Longrightarrow>
     pane_terminals (hm_map_values f m) = pane_terminals m"
  by (simp add: pane_terminals_def hm_map_values_def image_image case_prod_beta')

lemma pane_terminals_keys: "fst ` pane_terminals m = fst ` set m"
  by (force simp: pane_terminals_def image_iff)

lemma ws_frame [simp]:
  "ws_panes (w\<lparr>public_pane_numbers := a\<rparr>) = ws_panes w" "ws_panes (w\<lparr>next_public_pane_number := n\<rparr>) = ws_panes w"
  "ws_panes (w\<lparr>next_public_tab_number := n\<rparr>) = ws_panes w" "ws_panes (w\<lparr>active_tab := k\<rparr>) = ws_panes w"
  "ws_panes (w\<lparr>custom_name := name\<rparr>) = ws_panes w"
  "ws_terminals (w\<lparr>public_pane_numbers := a\<rparr>) = ws_terminals w"
  "ws_terminals (w\<lparr>next_public_pane_number := n\<rparr>) = ws_terminals w"
  "ws_terminals (w\<lparr>next_public_tab_number := n\<rparr>) = ws_terminals w"
  "ws_terminals (w\<lparr>active_tab := k\<rparr>) = ws_terminals w" "ws_terminals (w\<lparr>custom_name := name\<rparr>) = ws_terminals w"
  by (simp_all add: ws_panes_def ws_terminals_def)

lemma tab_in_ws: "k < length (tabs w) \<Longrightarrow> set (tab_ids (tabs w ! k)) \<subseteq> set (ws_panes w)"
  using nth_mem [of k "tabs w"] by (auto simp: ws_panes_def simp del: nth_mem)

lemma find_tab_facts:
  assumes "\<forall>t \<in> set (tabs w). tab_ok t" "find_tab_index_for_pane i w = Some idx"
  shows "idx < length (tabs w)" "i \<in> set (tab_ids (tabs w ! idx))"
proof -
  have p: "idx < length (tabs w) \<and> hm_contains (tab_panes (tabs w ! idx)) i"
    using assms(2) by (auto simp: find_tab_index_for_pane_def dest: position_SomeD)
  then show "idx < length (tabs w)" by simp
  have "tab_ok (tabs w ! idx)" using assms(1) p by simp
  then show "i \<in> set (tab_ids (tabs w ! idx))" using p tab_ok_panes(1) by blast
qed

lemma find_tab_None:
  assumes "\<forall>t \<in> set (tabs w). tab_ok t"
  shows "find_tab_index_for_pane i w = None \<longleftrightarrow> i \<notin> set (ws_panes w)"
  using assms tab_ok_panes(1)
  by (auto simp: find_tab_index_for_pane_def position_None_iff ws_panes_def)

end
