(* ===== verification/Workspace_Ops.thy ===== *)
theory Workspace_Ops
  imports Workspace_Invariant
begin

text \<open>
  What each operation of a workspace does to its panes, their terminals and their numbers, and
  that it keeps the invariant: \<open>ws_grown\<close> for the operations that add a pane, \<open>ws_shrunk\<close> for
  those that remove some, \<open>ws_same\<close> for those that move the focus or the tabs about.
\<close>

definition ws_grown :: "pane_id \<Rightarrow> text \<Rightarrow> 'g workspace \<Rightarrow> 'g workspace \<Rightarrow> bool" where
  "ws_grown i tid w w' \<longleftrightarrow> ws_ok w' \<and> set (ws_panes w') = insert i (set (ws_panes w))
     \<and> ws_terminals w' = insert (i, tid) (ws_terminals w) \<and> ws_id w' = ws_id w
     \<and> public_pane_numbers w' = hm_insert i (next_public_pane_number w) (public_pane_numbers w)
     \<and> next_public_pane_number w' = next_public_pane_number w + 1"

definition ws_shrunk :: "pane_id set \<Rightarrow> 'g workspace \<Rightarrow> 'g workspace \<Rightarrow> bool" where
  "ws_shrunk S w w' \<longleftrightarrow> ws_ok w' \<and> set (ws_panes w') = set (ws_panes w) - S
     \<and> ws_terminals w' = {e \<in> ws_terminals w. fst e \<notin> S} \<and> ws_id w' = ws_id w
     \<and> (\<forall>j. hm_get (public_pane_numbers w') j = (if j \<in> S then None else hm_get (public_pane_numbers w) j))
     \<and> next_public_pane_number w' = next_public_pane_number w"

definition ws_same :: "'g workspace \<Rightarrow> 'g workspace \<Rightarrow> bool" where
  "ws_same w w' \<longleftrightarrow> ws_ok w' \<and> set (ws_panes w') = set (ws_panes w) \<and> ws_terminals w' = ws_terminals w
     \<and> ws_id w' = ws_id w \<and> public_pane_numbers w' = public_pane_numbers w
     \<and> next_public_pane_number w' = next_public_pane_number w"

lemma ws_same_refl: "ws_ok w \<Longrightarrow> ws_same w w"
  by (simp add: ws_same_def)

lemma ws_okD:
  assumes "ws_ok w"
  shows "ws_core {} w" "active_tab w < length (tabs w)" "\<forall>t \<in> set (tabs w). tab_ok t"
    "tabs_ok (tabs w) (next_public_tab_number w)"
    "numbers_ok (public_pane_numbers w) (next_public_pane_number w)"
    "fst ` set (public_pane_numbers w) = set (ws_panes w)"
  using assms by (simp_all add: ws_ok_def ws_core_def tabs_ok_def)

section \<open>A tab is replaced\<close>

lemma replace_tab_same:
  assumes "ws_ok w" "k < length (tabs w)" "tab_ok t'" "tab_number t' = tab_number (tabs w ! k)"
    "set (tab_ids t') = set (tab_ids (tabs w ! k))"
    "pane_terminals (tab_panes t') = pane_terminals (tab_panes (tabs w ! k))"
  shows "ws_same w (w\<lparr>tabs := (tabs w)[k := t']\<rparr>)"
proof -
  obtain xs t ys where e: "tabs w = xs @ t # ys" "tabs w ! k = t" "(tabs w)[k := t'] = xs @ t' # ys"
    using vec_split [OF assms(2)] by metis
  note t' = assms(3-6) [unfolded e(2)]
  have ok: "tabs_ok (xs @ t # ys) (next_public_tab_number w)" using ws_okD(4) [OF assms(1)] e(1) by simp
  have "tabs_ok (xs @ t' # ys) (next_public_tab_number w)"
    by (rule tabs_ok_replace [OF ok t'(1,2)]) (use tabs_ok_disjoint [OF ok] t'(3) in auto)
  moreover have "active_tab w < length (xs @ t' # ys)" using ws_okD(2) [OF assms(1)] e(1) by simp
  ultimately show ?thesis
    unfolding ws_same_def e(3) using ws_okD(5,6) [OF assms(1)] t'(3,4)
    by (simp add: ws_ok_def ws_core_def ws_panes_def ws_terminals_def e(1))
qed

lemma replace_tab_grown:
  assumes "ws_ok w" "k < length (tabs w)" "i \<notin> set (ws_panes w)" "ws_room w"
    "tab_ok t'" "tab_number t' = tab_number (tabs w ! k)"
    "set (tab_ids t') = insert i (set (tab_ids (tabs w ! k)))"
    "tab_panes t' = hm_insert i p (tab_panes (tabs w ! k))"
  shows "ws_grown i (attached_terminal_id p) w
    (register_new_pane_with_number i (next_public_pane_number w) (w\<lparr>tabs := (tabs w)[k := t']\<rparr>))"
proof -
  obtain xs t ys where e: "tabs w = xs @ t # ys" "tabs w ! k = t" "(tabs w)[k := t'] = xs @ t' # ys"
    using vec_split [OF assms(2)] by metis
  note t' = assms(5-8) [unfolded e(2)]
  have ok: "tabs_ok (xs @ t # ys) (next_public_tab_number w)" using ws_okD(4) [OF assms(1)] e(1) by simp
  have i: "i \<notin> set (concat (map tab_ids (xs @ t # ys)))" using assms(3) e(1) by (simp add: ws_panes_def)
  have tabs': "tabs_ok (xs @ t' # ys) (next_public_tab_number w)"
    by (rule tabs_ok_replace [OF ok t'(1,2)]) (use tabs_ok_disjoint [OF ok] t'(3) i in auto)
  have tok: "tab_ok t" using ok by (simp add: tabs_ok_def)
  have "pane_terminals (tab_panes t') = insert (i, attached_terminal_id p) (pane_terminals (tab_panes t))"
    unfolding t'(4) using tok i by (intro pane_terminals_insert) (auto simp: tab_ok_def)
  then have t: "ws_terminals (w\<lparr>tabs := xs @ t' # ys\<rparr>) = insert (i, attached_terminal_id p) (ws_terminals w)"
    by (simp add: ws_terminals_def e(1))
  have p: "set (ws_panes (w\<lparr>tabs := xs @ t' # ys\<rparr>)) = insert i (set (ws_panes w))"
    using t'(3) by (simp add: ws_panes_def e(1))
  have room: "unat (next_public_pane_number w) < 2 ^ 64 - 1" using assms(4) by (simp add: ws_room_def)
  have "active_tab w < length (xs @ t' # ys)" using ws_okD(2) [OF assms(1)] e(1) by simp
  moreover have "numbers_ok (hm_insert i (next_public_pane_number w) (public_pane_numbers w))
      (next_public_pane_number w + 1)"
    by (rule numbers_ok_insert [OF ws_okD(5) [OF assms(1)] room])
  ultimately show ?thesis
    unfolding ws_grown_def e(3) using tabs' p t next_usize(3) [OF room] ws_okD(6) [OF assms(1)]
    by (simp add: ws_ok_def ws_core_def register_new_pane_with_number_def keys_insert)
qed

lemma tab_terminals_keys: "tab_ok t \<Longrightarrow> e \<in> pane_terminals (tab_panes t) \<Longrightarrow> fst e \<in> set (tab_ids t)"
  using pane_terminals_keys [of "tab_panes t"] by (auto simp: tab_ok_def)

lemma replace_tab_shrunk:
  assumes "ws_ok w" "k < length (tabs w)" "tab_without i (tabs w ! k) t'" "i \<in> set (tab_ids (tabs w ! k))"
  defines "w' \<equiv> w\<lparr>tabs := (tabs w)[k := t']\<rparr>"
  shows "ws_shrunk {i} w (unregister_pane i w')" "ws_core {i} w'" "set (ws_panes w') = set (ws_panes w) - {i}"
    "ws_terminals w' = {e \<in> ws_terminals w. fst e \<noteq> i}" "active_tab w' < length (tabs w')"
proof -
  obtain xs t ys where e: "tabs w = xs @ t # ys" "tabs w ! k = t" "(tabs w)[k := t'] = xs @ t' # ys"
    using vec_split [OF assms(2)] by metis
  note it = assms(4) [unfolded e(2)]
  have ok: "tabs_ok (xs @ t # ys) (next_public_tab_number w)" using ws_okD(4) [OF assms(1)] e(1) by simp
  have t': "tab_ok t'" "tab_number t' = tab_number t" "tab_ids t' = filter (\<lambda>j. j \<noteq> i) (tab_ids t)"
      "tab_panes t' = hm_remove i (tab_panes t)"
    using assms(3) e(2) by (simp_all add: tab_without_def)
  have tabs': "tabs_ok (xs @ t' # ys) (next_public_tab_number w)"
    by (rule tabs_ok_replace [OF ok t'(1,2)]) (use tabs_ok_disjoint [OF ok] t'(3) in auto)
  have i: "i \<notin> set (tab_ids u)" if "u \<in> set xs \<union> set ys" for u
    using tabs_ok_disjoint [OF ok] it that by auto
  have tok: "tab_ok t" and uok: "tab_ok u" if "u \<in> set xs \<union> set ys" for u
    using ok that by (auto simp: tabs_ok_def)
  have tok: "tab_ok t" using ok by (simp add: tabs_ok_def)
  show p: "set (ws_panes w') = set (ws_panes w) - {i}"
    unfolding w'_def e(3) using t'(3) i by (auto simp: ws_panes_def e(1))
  have "pane_terminals (tab_panes t') = {e \<in> pane_terminals (tab_panes t). fst e \<noteq> i}"
    unfolding t'(4) using tok by (intro pane_terminals_remove) (simp add: tab_ok_def)
  moreover have "fst e \<noteq> i" if "e \<in> pane_terminals (tab_panes u)" "u \<in> set xs \<union> set ys" for e u
    using tab_terminals_keys [OF uok [OF that(2)] that(1)] i [OF that(2)] by auto
  ultimately show t: "ws_terminals w' = {e \<in> ws_terminals w. fst e \<noteq> i}"
    unfolding w'_def e(3) by (auto simp: ws_terminals_def e(1))
  show len: "active_tab w' < length (tabs w')" using ws_okD(2) [OF assms(1)] by (simp add: w'_def)
  have iw: "i \<in> set (ws_panes w)" using it by (simp add: ws_panes_def e(1))
  show core: "ws_core {i} w'"
    using ws_okD(5,6) [OF assms(1)] tabs' p iw unfolding w'_def e(3) by (auto simp: ws_core_def)
  show "ws_shrunk {i} w (unregister_pane i w')"
    using core len p t numbers_ok_remove [OF ws_okD(5) [OF assms(1)]] ws_okD(6) [OF assms(1)]
    by (simp add: ws_shrunk_def ws_ok_def ws_core_def unregister_pane_def keys_remove hm_simps w'_def
        ws_panes_def ws_terminals_def)
qed

section \<open>A tab is removed\<close>

lemma remove_tab_core:
  assumes "ws_ok w" "k < length (tabs w)"
  defines "w' \<equiv> w\<lparr>tabs := vec_remove k (tabs w)\<rparr>"
  shows "ws_core (set (tab_ids (tabs w ! k))) w'" "set (ws_panes w') = set (ws_panes w) - set (tab_ids (tabs w ! k))"
    "ws_terminals w' = {e \<in> ws_terminals w. fst e \<notin> set (tab_ids (tabs w ! k))}"
proof -
  obtain xs t ys where e: "tabs w = xs @ t # ys" "tabs w ! k = t" "vec_remove k (tabs w) = xs @ ys"
    using vec_split [OF assms(2)] by metis
  have ok: "tabs_ok (xs @ t # ys) (next_public_tab_number w)" using ws_okD(4) [OF assms(1)] e(1) by simp
  have dis: "set (tab_ids u) \<inter> set (tab_ids t) = {}" if "u \<in> set xs \<union> set ys" for u
    using tabs_ok_disjoint [OF ok] that by auto
  have uok: "tab_ok u" if "u \<in> insert t (set xs \<union> set ys)" for u using ok that by (auto simp: tabs_ok_def)
  show p: "set (ws_panes w') = set (ws_panes w) - set (tab_ids (tabs w ! k))"
    unfolding w'_def e(2,3) using dis by (auto simp: ws_panes_def e(1))
  have "fst e \<notin> set (tab_ids t)" if "e \<in> pane_terminals (tab_panes u)" "u \<in> set xs \<union> set ys" for e u
    using tab_terminals_keys [OF uok that(1)] dis [OF that(2)] that(2) by auto
  moreover have "fst e \<in> set (tab_ids t)" if "e \<in> pane_terminals (tab_panes t)" for e
    using tab_terminals_keys [OF uok that] by simp
  ultimately show "ws_terminals w' = {e \<in> ws_terminals w. fst e \<notin> set (tab_ids (tabs w ! k))}"
    unfolding w'_def e(2,3) by (auto simp: ws_terminals_def e(1))
  have "set (tab_ids t) \<subseteq> set (ws_panes w)" by (auto simp: ws_panes_def e(1))
  then show "ws_core (set (tab_ids (tabs w ! k))) w'"
    using ws_okD(5,6) [OF assms(1)] tabs_ok_remove [OF ok] p unfolding w'_def e(2,3) by (auto simp: ws_core_def)
qed

lemma unregister_fold:
  "tabs (fold unregister_pane is w) = tabs w" "ws_id (fold unregister_pane is w) = ws_id w"
  "active_tab (fold unregister_pane is w) = active_tab w"
  "next_public_tab_number (fold unregister_pane is w) = next_public_tab_number w"
  "next_public_pane_number (fold unregister_pane is w) = next_public_pane_number w"
  "hm_get (public_pane_numbers (fold unregister_pane is w)) j =
     (if j \<in> set is then None else hm_get (public_pane_numbers w) j)"
  "numbers_ok (public_pane_numbers w) n \<Longrightarrow> numbers_ok (public_pane_numbers (fold unregister_pane is w)) n"
  by (induction "is" arbitrary: w) (simp_all add: unregister_pane_def hm_simps numbers_ok_remove)

lemma active_after_removal_simps [simp]:
  "tabs (active_after_removal k w) = tabs w" "ws_id (active_after_removal k w) = ws_id w"
  "public_pane_numbers (active_after_removal k w) = public_pane_numbers w"
  "next_public_pane_number (active_after_removal k w) = next_public_pane_number w"
  "next_public_tab_number (active_after_removal k w) = next_public_tab_number w"
  "tabs w \<noteq> [] \<Longrightarrow> active_tab (active_after_removal k w) < length (tabs w)"
  by (auto simp: active_after_removal_def)

lemma tabs_removed: "k < length (tabs w) \<Longrightarrow> length (vec_remove k (tabs w)) = length (tabs w) - 1"
  by (simp add: vec_remove_def)

lemma remove_tab_shrunk:
  assumes "ws_ok w" "k < length (tabs w)" "1 < length (tabs w)"
    "set is = set (tab_ids (tabs w ! k))"
  shows "ws_shrunk (set is) w
    (active_after_removal k (fold unregister_pane is (w\<lparr>tabs := vec_remove k (tabs w)\<rparr>)))"
proof -
  let ?w = "w\<lparr>tabs := vec_remove k (tabs w)\<rparr>" and ?u = "fold unregister_pane is (w\<lparr>tabs := vec_remove k (tabs w)\<rparr>)"
  note core = remove_tab_core [OF assms(1,2)]
  have ne: "vec_remove k (tabs w) \<noteq> []" using tabs_removed [OF assms(2)] assms(3) by auto
  have keys: "fst ` set (public_pane_numbers ?u) = set (ws_panes ?w)"
  proof -
    have "hm_get (public_pane_numbers w) j \<noteq> None \<longleftrightarrow> j \<in> set (ws_panes ?w) \<union> set is" for j
    proof -
      have "dom (hm_get (public_pane_numbers w)) = set (ws_panes ?w) \<union> set is"
        using core(1) assms(4) by (simp add: ws_core_def dom_hm_get)
      then show ?thesis by (metis domIff)
    qed
    then have "hm_get (public_pane_numbers ?u) j \<noteq> None \<longleftrightarrow> j \<in> set (ws_panes ?w)" for j
      using core(2) assms(4) by (simp add: unregister_fold)
    then show ?thesis unfolding dom_hm_get [symmetric] dom_def by simp
  qed
  have "ws_ok (active_after_removal k ?u)"
    using core(1) keys ne active_after_removal_simps(6) [of ?u k]
    by (simp add: ws_ok_def ws_core_def unregister_fold ws_panes_def)
  then show ?thesis
    using core(2,3) assms(4)
    by (simp add: ws_shrunk_def unregister_fold ws_panes_def ws_terminals_def)
qed

section \<open>The operations\<close>

lemma switch_tab_same: "ws_ok w \<Longrightarrow> ws_same w (switch_tab k w)"
proof (cases "k < length (tabs w)")
  case True
  assume ok: "ws_ok w"
  let ?t = "(tabs w ! k)\<lparr>tab_panes := hm_map_values (\<lambda>_ p. p\<lparr>seen := True\<rparr>) (tab_panes (tabs w ! k))\<rparr>"
  have "tab_ok (tabs w ! k)" using ws_okD(3) [OF ok] True by simp
  then have "ws_same w (w\<lparr>tabs := (tabs w)[k := ?t]\<rparr>)"
    by (intro replace_tab_same [OF ok True]) (simp_all add: pane_terminals_seen)
  then show ?thesis
    using True by (simp add: switch_tab_def ws_same_def ws_ok_def ws_core_def ws_panes_def ws_terminals_def)
qed (simp add: switch_tab_def ws_same_refl)

lemma close_tab_cases:
  assumes "ws_ok w"
  obtains "close_tab k w = (False, w)"
  | w' where "close_tab k w = (True, w')" "k < length (tabs w)" "ws_shrunk (set (tab_ids (tabs w ! k))) w w'"
proof (cases "k < length (tabs w) \<and> 1 < length (tabs w)")
  case True
  have "tab_ok (tabs w ! k)" using ws_okD(3) [OF assms] True by simp
  then have keys: "set (map fst (tab_panes (tabs w ! k))) = set (tab_ids (tabs w ! k))" by (simp add: tab_ok_def)
  from remove_tab_shrunk [OF assms _ _ keys] True show ?thesis
    using that(2) keys by (simp add: close_tab_def Let_def not_le)
next
  case False
  then have "close_tab k w = (False, w)" by (auto simp: close_tab_def)
  then show ?thesis by (rule that(1))
qed

lemma move_tab_same:
  assumes "ws_ok w"
  shows "ws_same w (snd (move_tab k j w))"
proof -
  let ?target = "min (if k < j then j - 1 else j) (length (tabs w) - 1)"
  let ?ts = "vec_insert ?target (tabs w ! k) (vec_remove k (tabs w))"
  consider "snd (move_tab k j w) = w"
    | a where "k < length (tabs w)" "snd (move_tab k j w) = w\<lparr>tabs := ?ts, active_tab := a\<rparr>" "a < length ?ts"
  proof (cases "k \<ge> length (tabs w) \<or> j > length (tabs w) \<or> k = ?target")
    case True
    then have "snd (move_tab k j w) = w" by (elim disjE) (simp_all add: move_tab_def Let_def)
    then show ?thesis by (rule that(1))
  next
    case False
    let ?a = "unwrap_or (Option.bind (map_option root_pane (vec_get (tabs w) (active_tab w)))
      (\<lambda>r. position (\<lambda>t. root_pane t = r) ?ts)) ?target"
    have len: "length ?ts = length (tabs w)"
      using mset_move [of k "tabs w" ?target] False by (metis not_le size_mset)
    moreover have "?a < length ?ts"
    proof -
      have "?target < length ?ts" unfolding len using False by (auto simp: min_def not_le)
      then show ?thesis
        by (auto simp: unwrap_or_def split: option.split dest!: position_SomeD) (auto simp: bind_eq_Some_conv dest!: position_SomeD)
    qed
    moreover have "snd (move_tab k j w) = w\<lparr>tabs := ?ts, active_tab := ?a\<rparr>"
      using False by (simp add: move_tab_def Let_def)
    ultimately show ?thesis using that(2) [of ?a] False by simp
  qed
  then show ?thesis
  proof cases
    case 1
    then show ?thesis using assms by (simp add: ws_same_refl)
  next
    case (2 a)
    have m: "mset ?ts = mset (tabs w)" by (rule mset_move [OF 2(1)])
    then have s: "set ?ts = set (tabs w)" by (rule mset_eq_setD)
    show ?thesis
      using ws_okD [OF assms] 2 s tabs_ok_mset [OF m, of "next_public_tab_number w"]
      by (simp add: ws_same_def ws_ok_def ws_core_def ws_panes_def ws_terminals_def)
  qed
qed

lemma rename_same: "ws_ok w \<Longrightarrow> ws_same w (ws_set_custom_name name w)"
  by (simp add: ws_set_custom_name_def ws_same_def ws_ok_def ws_core_def)

lemma remove_pane_cases:
  assumes "ws_ok w"
  obtains (absent) "ws_remove_pane i w = Some (False, w)" "i \<notin> set (ws_panes w)"
  | (last) "ws_remove_pane i w = Some (True, w)" "set (ws_panes w) = {i}"
  | (removed) w' where "ws_remove_pane i w = Some (False, w')" "i \<in> set (ws_panes w)" "ws_shrunk {i} w w'"
proof (cases "find_tab_index_for_pane i w")
  case None
  then have "ws_remove_pane i w = Some (False, w)" by (simp add: ws_remove_pane_def)
  then show ?thesis using absent find_tab_None [OF ws_okD(3) [OF assms], of i] None by simp
next
  case (Some k)
  note k = find_tab_facts [OF ws_okD(3) [OF assms] Some]
  have tok: "tab_ok (tabs w ! k)" using ws_okD(3) [OF assms] k(1) by simp
  have mem: "i \<in> set (ws_panes w)" using k by (auto simp: ws_panes_def)
  show ?thesis
  proof (cases "1 < length (tab_ids (tabs w ! k))")
    case True
    obtain st :: pane_state and t where t: "tab_without i (tabs w ! k) t"
        "detach_pane i (tabs w ! k) = Some (Some (i, attached_terminal_id st), t)"
      by (rule detach_pane_ok [OF tok True k(2)]) blast
    then have "ws_remove_pane i w = Some (False, unregister_pane i (w\<lparr>tabs := (tabs w)[k := t]\<rparr>))"
      using Some True by (simp add: ws_remove_pane_def pane_count_ids)
    then show ?thesis using removed replace_tab_shrunk(1) [OF assms k(1) t(1) k(2)] mem by blast
  next
    case False
    then have one: "tab_ids (tabs w ! k) = [i]"
      using k(2) by (cases "tab_ids (tabs w ! k)") auto
    show ?thesis
    proof (cases "1 < length (tabs w)")
      case True
      have eq: "ws_remove_pane i w = Some (False, active_after_removal k
          (fold unregister_pane [i] (w\<lparr>tabs := vec_remove k (tabs w)\<rparr>)))"
        using Some False True by (simp add: ws_remove_pane_def pane_count_ids)
      have "ws_shrunk (set [i]) w (active_after_removal k
          (fold unregister_pane [i] (w\<lparr>tabs := vec_remove k (tabs w)\<rparr>)))"
        by (rule remove_tab_shrunk [OF assms k(1) True]) (simp add: one)
      then have "ws_shrunk {i} w (active_after_removal k
          (fold unregister_pane [i] (w\<lparr>tabs := vec_remove k (tabs w)\<rparr>)))"
        by (simp only: list.set)
      then show ?thesis by (rule removed [OF eq mem])
    next
      case no: False
      then obtain t where t: "tabs w = [t]" using k(1) by (cases "tabs w") auto
      have eq: "ws_remove_pane i w = Some (True, w)"
        using Some False no by (simp add: ws_remove_pane_def pane_count_ids)
      have "set (ws_panes w) = {i}" using one k(1) by (simp add: ws_panes_def t)
      then show ?thesis by (rule last [OF eq])
    qed
  qed
qed

end
