(* ===== verification/Workspace_Moves.thy ===== *)
theory Workspace_Moves
  imports Workspace_Ops
begin

text \<open>
  Operations that bring a pane into a workspace: new workspaces, new tabs, splits, and the two
  halves of a move. \<open>ws_holding i w w1\<close> describes the workspace a pane was taken from before its
  number is given up.
\<close>

section \<open>New panes\<close>

lemma register_simps [simp]:
  "tabs (register_new_pane_with_number i n w) = tabs w" "ws_id (register_new_pane_with_number i n w) = ws_id w"
  "active_tab (register_new_pane_with_number i n w) = active_tab w"
  "next_public_tab_number (register_new_pane_with_number i n w) = next_public_tab_number w"
  "public_pane_numbers (register_new_pane_with_number i n w) = hm_insert i n (public_pane_numbers w)"
  "next_public_pane_number (register_new_pane_with_number i n w) = max (next_public_pane_number w) (n + 1)"
  by (simp_all add: register_new_pane_with_number_def)

lemma workspace_of_tab_ok:
  assumes "tab_ok t" "tab_number t = 1" "tab_ids t = [root_pane t]"
  shows "ws_ok (workspace_of_tab git i label dir t)" "ws_id (workspace_of_tab git i label dir t) = i"
    "ws_panes (workspace_of_tab git i label dir t) = [root_pane t]"
    "ws_terminals (workspace_of_tab git i label dir t) = pane_terminals (tab_panes t)"
    "public_pane_numbers (workspace_of_tab git i label dir t) = [(root_pane t, 1)]"
    "next_public_pane_number (workspace_of_tab git i label dir t) = 2"
    "tabs (workspace_of_tab git i label dir t) = [t]"
  using assms
  by (auto simp: workspace_of_tab_def ws_ok_def ws_core_def tabs_ok_def numbers_ok_def ws_panes_def
      ws_terminals_def hm_insert_def split: prod.split)

text \<open>A new tab at the end, with a pane that is registered or becomes so.\<close>

lemma append_tab_ok:
  assumes "ws_core P w" "P \<subseteq> {i}" "i \<notin> set (ws_panes w)" "ws_room w" "active_tab w \<le> length (tabs w)"
    "tab_ok t" "tab_number t = next_public_tab_number w" "tab_ids t = [i]"
  defines "w' \<equiv> (register_moved_pane i (w\<lparr>next_public_tab_number := next_public_tab_number w + 1\<rparr>))
    \<lparr>tabs := tabs w @ [t]\<rparr>"
  shows "ws_ok w'" "set (ws_panes w') = insert i (set (ws_panes w))"
    "ws_terminals w' = ws_terminals w \<union> pane_terminals (tab_panes t)"
proof -
  have room: "unat (next_public_tab_number w) < 2 ^ 64 - 1" "unat (next_public_pane_number w) < 2 ^ 64 - 1"
    using assms(4) by (simp_all add: ws_room_def)
  show p: "set (ws_panes w') = insert i (set (ws_panes w))" using assms(8) by (simp add: ws_panes_def w'_def)
  show "ws_terminals w' = ws_terminals w \<union> pane_terminals (tab_panes t)"
    by (auto simp: ws_terminals_def w'_def)
  have "tabs_ok (tabs w @ [t]) (next_public_tab_number w + 1)"
    by (rule tabs_ok_append [OF _ room(1) assms(6,7)])
      (use assms(1,3,8) in \<open>auto simp: ws_core_def ws_panes_def\<close>)
  moreover have keys: "hm_contains (public_pane_numbers w) i \<longleftrightarrow> i \<in> P"
    using assms(1,3) by (auto simp: ws_core_def hm_contains_iff hm_get_None_iff)
  moreover have "numbers_ok (hm_insert i (next_public_pane_number w) (public_pane_numbers w))
      (next_public_pane_number w + 1)"
    using assms(1) by (intro numbers_ok_insert [OF _ room(2)]) (simp add: ws_core_def)
  ultimately show "ws_ok w'"
    using assms(1,2,5) p next_usize(3) [OF room(2)]
    by (cases "i \<in> P") (auto simp: ws_ok_def ws_core_def w'_def register_moved_pane_def keys_insert)
qed

lemma create_tab_cases:
  assumes "ws_ok w" "ws_room w" "next_pane_id al \<notin> set (ws_panes w)"
  obtains (failed) err where "create_tab spawn micros dir args ex al w
      = Some (Inl err, al\<lparr>next_pane_id := next_pane_id al + 1\<rparr>,
          w\<lparr>next_public_tab_number := next_public_tab_number w + 1\<rparr>)"
      "ws_same w (w\<lparr>next_public_tab_number := next_public_tab_number w + 1\<rparr>)"
  | (started) terminal runtime w' tid where "create_tab spawn micros dir args ex al w
      = Some (Inr (length (tabs w), terminal, runtime),
          al\<lparr>next_pane_id := next_pane_id al + 1, next_terminal_id := next_terminal_id al + 1\<rparr>, w')"
      "tid = fst (terminal_id_alloc micros (next_terminal_id al))" "ws_grown (next_pane_id al) tid w w'"
      "active_tab w' = active_tab w" "ts_id terminal = tid" "length (tabs w') = Suc (length (tabs w))"
proof -
  let ?w = "w\<lparr>next_public_tab_number := next_public_tab_number w + 1\<rparr>"
  let ?env = "launch_env_for_new_pane ?w (next_public_tab_number w) (next_public_pane_number w) ex"
  have room: "unat (next_public_tab_number w) < 2 ^ 64 - 1" "unat (next_public_pane_number w) < 2 ^ 64 - 1"
    using assms(2) by (simp_all add: ws_room_def)
  have act: "active_tab_of ?w = Some (tabs w ! active_tab w)"
    using ws_okD(2) [OF assms(1)] by (simp add: active_tab_of_def vec_get_def)
  obtain res al' where n: "new_tab spawn micros (next_public_tab_number w) dir ?env args al = (res, al')" by fastforce
  then show ?thesis
  proof (cases rule: new_tab_cases)
    case (failed err)
    have "n < next_public_tab_number w + 1" if "n < next_public_tab_number w" for n
      using that next_usize(1) [OF room(1)] by (rule less_trans)
    then have "ws_same w ?w"
      using ws_okD [OF assms(1)] next_usize(2) [OF room(1)]
      by (auto simp: ws_same_def ws_ok_def ws_core_def tabs_ok_def)
    moreover have "create_tab spawn micros dir args ex al w
        = Some (Inl err, al\<lparr>next_pane_id := next_pane_id al + 1\<rparr>, ?w)"
      using n failed act by (simp add: create_tab_def Let_def)
    ultimately show ?thesis using that(1) by blast
  next
    case (started t terminal runtime tid)
    have c: "ws_core {} w" "active_tab w \<le> length (tabs w)" using ws_okD(1,2) [OF assms(1)] by simp_all
    have abs: "hm_contains (public_pane_numbers w) (next_pane_id al) = False"
      using ws_okD(6) [OF assms(1)] assms(3) by (auto simp: hm_contains_iff hm_get_None_iff)
    note ok = append_tab_ok [OF c(1) empty_subsetI assms(3,2) c(2) started(2,3,4)]
    let ?w' = "(register_new_pane_with_number (next_pane_id al) (next_public_pane_number w) ?w)\<lparr>tabs := tabs w @ [t]\<rparr>"
    have eq: "(register_moved_pane (next_pane_id al) ?w)\<lparr>tabs := tabs w @ [t]\<rparr> = ?w'"
      using abs by (simp add: register_moved_pane_def)
    have "ws_grown (next_pane_id al) tid w ?w'"
      using ok started(5,7) next_usize(3) [OF room(2)] unfolding eq
      by (simp add: ws_grown_def pane_terminals_def new_pane_state_def)
    moreover have "create_tab spawn micros dir args ex al w
      = Some (Inr (length (tabs w), terminal, runtime),
          al\<lparr>next_pane_id := next_pane_id al + 1, next_terminal_id := next_terminal_id al + 1\<rparr>, ?w')"
      using n started act by (simp add: create_tab_def Let_def)
    ultimately show ?thesis using that(2) started(6,8) by (simp add: launched_terminal_id)
  qed
qed

lemma new_workspace_cases:
  assumes "new_workspace spawn git micros dir args ex al = (res, al')"
  obtains (failed) err where "res = Inl err"
      "al' = al\<lparr>next_workspace_id := next_workspace_id al + 1, next_pane_id := next_pane_id al + 1\<rparr>"
  | (started) w terminal runtime tid where "res = Inr (w, terminal, runtime)"
      "al' = al\<lparr>next_workspace_id := next_workspace_id al + 1, next_pane_id := next_pane_id al + 1,
             next_terminal_id := next_terminal_id al + 1\<rparr>"
      "tid = fst (terminal_id_alloc micros (next_terminal_id al))"
      "ws_ok w" "ws_id w = fst (generate_workspace_id (next_workspace_id al))"
      "ws_panes w = [next_pane_id al]" "ws_terminals w = {(next_pane_id al, tid)}"
      "public_pane_numbers w = [(next_pane_id al, 1)]" "next_public_pane_number w = 2"
      "ts_id terminal = tid"
proof -
  obtain gid where g: "generate_workspace_id (next_workspace_id al) = (gid, next_workspace_id al + 1)"
    by (simp add: generate_workspace_id_def)
  let ?al = "al\<lparr>next_workspace_id := next_workspace_id al + 1\<rparr>"
  let ?env = "with_identity gid (public_tab_id_for_number gid 1) (public_pane_id_for_number gid 1) (from_extra ex)"
  have "(case new_tab spawn micros 1 dir ?env args ?al of
           (Inl err, al2) \<Rightarrow> (Inl err, al2)
         | (Inr (t, terminal, runtime), al2) \<Rightarrow>
             (Inr (workspace_of_tab git gid None dir t, terminal, runtime), al2)) = (res, al')"
    using assms by (simp add: new_workspace_def alloc_workspace_def g)
  moreover obtain r al2 where n: "new_tab spawn micros 1 dir ?env args ?al = (r, al2)" by fastforce
  ultimately have e: "(case (r, al2) of (Inl err, al2) \<Rightarrow> (Inl err, al2)
         | (Inr (t, terminal, runtime), al2) \<Rightarrow>
             (Inr (workspace_of_tab git gid None dir t, terminal, runtime), al2)) = (res, al')" by simp
  from n show ?thesis
  proof (cases rule: new_tab_cases)
    case (failed err)
    then show ?thesis using e that(1) [of err] by simp
  next
    case (started t terminal runtime tid)
    have "tab_ids t = [root_pane t]" using started(4,5) by simp
    note ok = workspace_of_tab_ok [OF started(2,3) this, of git gid None dir]
    then show ?thesis
      using e started g that(2) [of "workspace_of_tab git gid None dir t" terminal runtime tid]
      by (simp add: pane_terminals_def new_pane_state_def launched_terminal_id)
  qed
qed

text \<open>A split that fails, wherever it fails, leaves the workspace as it was.\<close>

lemma split_pane_cases:
  assumes "ws_ok w" "ws_room w" "next_pane_id al \<notin> set (ws_panes w)"
  obtains (absent) "split_pane spawn micros here i d ratio dir ex foc args al w = Some (None, al, w)"
      "i \<notin> set (ws_panes w)"
  | (failed) err where "split_pane spawn micros here i d ratio dir ex foc args al w
      = Some (Some (Inl err), al\<lparr>next_pane_id := next_pane_id al + 1\<rparr>, w)" "i \<in> set (ws_panes w)"
  | (started) k new w' tid where "split_pane spawn micros here i d ratio dir ex foc args al w
      = Some (Some (Inr (k, new)),
          al\<lparr>next_pane_id := next_pane_id al + 1, next_terminal_id := next_terminal_id al + 1\<rparr>, w')"
      "np_pane_id new = next_pane_id al" "tid = fst (terminal_id_alloc micros (next_terminal_id al))"
      "ts_id (np_terminal new) = tid" "ws_grown (next_pane_id al) tid w w'" "i \<in> set (ws_panes w)"
      "active_tab w' = active_tab w"
proof (cases "find_tab_index_for_pane i w")
  case None
  then have "split_pane spawn micros here i d ratio dir ex foc args al w = Some (None, al, w)"
    by (simp add: split_pane_def)
  then show ?thesis using absent find_tab_None [OF ws_okD(3) [OF assms(1)], of i] None by simp
next
  case (Some k)
  note k = find_tab_facts [OF ws_okD(3) [OF assms(1)] Some]
  let ?t = "tabs w ! k"
  let ?t1 = "?t\<lparr>tab_layout := focus_pane i (tab_layout ?t)\<rparr>"
  let ?env = "launch_env_for_new_pane w (tab_number ?t) (next_public_pane_number w) ex"
  let ?cmd = "map_option (\<lambda>av. ArgvCommand av ?env) args"
  have tok: "tab_ok ?t" using ws_okD(3) [OF assms(1)] k(1) by simp
  have mem: "i \<in> set (ws_panes w)" using k by (auto simp: ws_panes_def)
  have "set (tab_ids ?t) \<subseteq> set (ws_panes w)" using k(1) by (rule tab_in_ws)
  then have new: "next_pane_id al \<notin> set (tab_ids ?t1)" using assms(3) by auto
  have foc: "focus (tab_layout ?t) \<in> set (tab_ids ?t)" using tok by (simp add: tab_ok_def layout_wf_def)
  from refocus_ok [OF tok] new show ?thesis
  proof (cases rule: split_tab_cases [where spawn = spawn and micros = micros and here = here and d = d
        and ratio = ratio and dir = dir and env = ?env and command = ?cmd])
    case (failed err)
    have "focus_pane (focus (tab_layout ?t)) (focus_pane i (tab_layout ?t)) = tab_layout ?t"
      using foc by (simp add: focus_pane_def)
    then have "?t1\<lparr>tab_layout := focus_pane (focus (tab_layout ?t)) (tab_layout ?t1)\<rparr> = ?t" by simp
    then have "split_pane spawn micros here i d ratio dir ex foc args al w
        = Some (Some (Inl err), al\<lparr>next_pane_id := next_pane_id al + 1\<rparr>, w)"
      using Some failed by (simp add: split_pane_def Let_def)
    then show ?thesis using that(2) mem by blast
  next
    case (started new t' tid)
    let ?t2 = "if foc then t' else t'\<lparr>tab_layout := focus_pane (focus (tab_layout ?t)) (tab_layout t')\<rparr>"
    let ?w = "register_new_pane_with_number (next_pane_id al) (next_public_pane_number w) (w\<lparr>tabs := (tabs w)[k := ?t2]\<rparr>)"
    have "split_pane spawn micros here i d ratio dir ex foc args al w
      = Some (Some (Inr (k, new)),
          al\<lparr>next_pane_id := next_pane_id al + 1, next_terminal_id := next_terminal_id al + 1\<rparr>, ?w)"
      using Some started(1,2) by (simp add: split_pane_def Let_def)
    moreover have "ws_grown (next_pane_id al) (attached_terminal_id (new_pane_state tid)) w ?w"
      using started(5,6,8,10)
      by (intro replace_tab_grown [OF assms(1) k(1) assms(3,2)]) simp_all
    moreover have "attached_terminal_id (new_pane_state tid) = tid" by (simp add: new_pane_state_def)
    ultimately show ?thesis using that(3) started(2,3,4) mem by simp
  qed
qed

lemma split_focused_command_cases:
  assumes "ws_ok w" "ws_room w" "next_pane_id al \<notin> set (ws_panes w)"
  obtains (failed) err where "split_focused_command spawn micros here d dir command ex al w
      = Some (Inl err, al\<lparr>next_pane_id := next_pane_id al + 1\<rparr>, w)"
  | (started) new w' tid where "split_focused_command spawn micros here d dir command ex al w
      = Some (Inr new, al\<lparr>next_pane_id := next_pane_id al + 1, next_terminal_id := next_terminal_id al + 1\<rparr>, w')"
      "np_pane_id new = next_pane_id al" "tid = fst (terminal_id_alloc micros (next_terminal_id al))"
      "ws_grown (next_pane_id al) tid w w'"
proof -
  let ?k = "active_tab w" and ?t = "tabs w ! active_tab w"
  let ?env = "launch_env_for_new_pane w (tab_number ?t) (next_public_pane_number w) ex"
  have k: "?k < length (tabs w)" by (rule ws_okD(2) [OF assms(1)])
  then have act: "active_tab_of w = Some ?t" by (simp add: active_tab_of_def vec_get_def)
  have tok: "tab_ok ?t" using ws_okD(3) [OF assms(1)] k by simp
  have "set (tab_ids ?t) \<subseteq> set (ws_panes w)" using k by (rule tab_in_ws)
  then have new: "next_pane_id al \<notin> set (tab_ids ?t)" using assms(3) by auto
  from tok new show ?thesis
  proof (cases rule: split_tab_cases [where spawn = spawn and micros = micros and here = here and d = d
        and ratio = None and dir = dir and env = ?env and command = "Some (ShellCommand command ?env)"])
    case (failed err)
    then have "split_focused_command spawn micros here d dir command ex al w
        = Some (Inl err, al\<lparr>next_pane_id := next_pane_id al + 1\<rparr>, w)"
      using act by (simp add: split_focused_command_def Let_def)
    then show ?thesis by (rule that(1))
  next
    case (started new t' tid)
    let ?w = "register_new_pane_with_number (next_pane_id al) (next_public_pane_number w) (w\<lparr>tabs := (tabs w)[?k := t']\<rparr>)"
    have "split_focused_command spawn micros here d dir command ex al w
      = Some (Inr new, al\<lparr>next_pane_id := next_pane_id al + 1, next_terminal_id := next_terminal_id al + 1\<rparr>, ?w)"
      using act started(1,2) by (simp add: split_focused_command_def Let_def)
    moreover have "ws_grown (next_pane_id al) (attached_terminal_id (new_pane_state tid)) w ?w"
      using started(5,6,8,10) by (intro replace_tab_grown [OF assms(1) k assms(3,2)]) simp_all
    moreover have "attached_terminal_id (new_pane_state tid) = tid" by (simp add: new_pane_state_def)
    ultimately show ?thesis using that(2) started(2,3) by simp
  qed
qed

section \<open>The two halves of a move\<close>

definition ws_holding :: "pane_id \<Rightarrow> 'g workspace \<Rightarrow> 'g workspace \<Rightarrow> bool" where
  "ws_holding i w w1 \<longleftrightarrow> ws_core {i} w1 \<and> set (ws_panes w1) = set (ws_panes w) - {i}
     \<and> ws_terminals w1 = {e \<in> ws_terminals w. fst e \<noteq> i} \<and> ws_id w1 = ws_id w
     \<and> public_pane_numbers w1 = public_pane_numbers w
     \<and> next_public_pane_number w1 = next_public_pane_number w
     \<and> next_public_tab_number w1 = next_public_tab_number w
     \<and> (if tabs w1 = [] then active_tab w1 = 0 else active_tab w1 < length (tabs w1))"

lemma ws_terminals_get:
  assumes "ws_ok w" "k < length (tabs w)" "hm_get (tab_panes (tabs w ! k)) i = Some p"
  shows "(i, attached_terminal_id p) \<in> ws_terminals w"
proof -
  have "hm_wf (tab_panes (tabs w ! k))" using ws_okD(3) [OF assms(1)] assms(2) by (simp add: tab_ok_def)
  then have "(i, attached_terminal_id p) \<in> pane_terminals (tab_panes (tabs w ! k))"
    using assms(3) by (auto simp: pane_terminals_iff)
  then show ?thesis using assms(2) by (auto simp: ws_terminals_def)
qed

lemma take_pane_for_move_facts:
  assumes "ws_ok w" "find_tab_index_for_pane i w = Some k"
  obtains tk w1 p where "take_pane_for_move i w = Some (Some tk, w1)"
    "tk_moved tk = \<lparr>mp_pane_id = i, mp_pane_state = p\<rparr>" "hm_get (tab_panes (tabs w ! k)) i = Some p"
    "ws_holding i w w1" "workspace_empty tk \<longleftrightarrow> tabs w1 = []"
    "if length (tab_ids (tabs w ! k)) \<le> 1 then tabs w1 = vec_remove k (tabs w)
     else \<exists>t'. tab_without i (tabs w ! k) t' \<and> tabs w1 = (tabs w)[k := t']"
proof -
  note k = find_tab_facts [OF ws_okD(3) [OF assms(1)] assms(2)]
  have tok: "tab_ok (tabs w ! k)" using ws_okD(3) [OF assms(1)] k(1) by simp
  show ?thesis
  proof (cases "1 < length (tab_ids (tabs w ! k))")
    case True
    obtain p :: pane_state and t' where t: "hm_get (tab_panes (tabs w ! k)) i = Some p"
        "tab_without i (tabs w ! k) t'"
        "take_pane_from_tab i (tabs w ! k) = Some (Some \<lparr>mp_pane_id = i, mp_pane_state = p\<rparr>, t')"
      by (rule take_pane_ok [OF tok True k(2)]) blast
    let ?w = "w\<lparr>tabs := (tabs w)[k := t']\<rparr>"
    note sh = replace_tab_shrunk [OF assms(1) k(1) t(2) k(2)]
    have "ws_holding i w ?w" using sh(2-5) k(1) by (auto simp: ws_holding_def)
    moreover have "take_pane_for_move i w = Some (Some \<lparr>tk_moved = \<lparr>mp_pane_id = i, mp_pane_state = p\<rparr>,
        removed_tab_idx = None, workspace_empty = False\<rparr>, ?w)"
      using assms(2) True t(3) by (simp add: take_pane_for_move_def pane_count_ids)
    ultimately show ?thesis using that t(1,2) True k(1) by fastforce
  next
    case False
    obtain p :: pane_state and t' where t: "hm_get (tab_panes (tabs w ! k)) i = Some p"
        "take_pane_from_tab i (tabs w ! k) = Some (Some \<lparr>mp_pane_id = i, mp_pane_state = p\<rparr>, t')"
      by (rule take_last_pane [OF tok _ k(2)]) (use False in auto)
    have one: "set (tab_ids (tabs w ! k)) = {i}" using False k(2) by (cases "tab_ids (tabs w ! k)") auto
    let ?w = "adjust_active_tab_after_removal k (w\<lparr>tabs := vec_remove k (tabs w)\<rparr>)"
    note core = remove_tab_core [OF assms(1) k(1), unfolded one]
    have simps: "tabs ?w = vec_remove k (tabs w)" "ws_id ?w = ws_id w"
        "public_pane_numbers ?w = public_pane_numbers w" "next_public_pane_number ?w = next_public_pane_number w"
        "next_public_tab_number ?w = next_public_tab_number w"
        "if tabs ?w = [] then active_tab ?w = 0 else active_tab ?w < length (tabs ?w)"
      using active_after_removal_simps(6) [of "w\<lparr>tabs := vec_remove k (tabs w)\<rparr>" k]
      by (simp_all add: adjust_active_tab_after_removal_def)
    have "ws_holding i w ?w"
      using core simps by (simp add: ws_holding_def ws_core_def ws_panes_def ws_terminals_def)
    moreover have "take_pane_for_move i w = Some (Some \<lparr>tk_moved = \<lparr>mp_pane_id = i, mp_pane_state = p\<rparr>,
        removed_tab_idx = Some k, workspace_empty = (tabs ?w = [])\<rparr>, ?w)"
      using assms(2) False t(2) by (simp add: take_pane_for_move_def pane_count_ids Let_def)
    ultimately show ?thesis using that t(1) False simps(1) by simp
  qed
qed

lemma unregister_holding:
  assumes "ws_holding i w w1" "tabs w1 \<noteq> []"
  shows "ws_shrunk {i} w (unregister_pane i w1)"
proof -
  note h = assms(1) [unfolded ws_holding_def ws_core_def]
  have "numbers_ok (public_pane_numbers w1) (next_public_pane_number w1)" using h by blast
  from numbers_ok_remove [OF this, of i]
  have n: "numbers_ok (hm_remove i (public_pane_numbers w1)) (next_public_pane_number w1)" .
  have keys: "fst ` set (hm_remove i (public_pane_numbers w1)) = set (ws_panes w1)"
    unfolding keys_remove using h by blast
  have "ws_ok (unregister_pane i w1)"
    using h n keys assms(2) by (elim conjE) (simp add: ws_ok_def ws_core_def unregister_pane_def)
  then show ?thesis using h by (simp add: ws_shrunk_def unregister_pane_def hm_simps)
qed

text \<open>Putting the pane into a tab that is there, and into a tab of its own.\<close>

lemma insert_moved_pane_facts:
  assumes "ws_core P w" "P \<subseteq> {mp_pane_id m}" "mp_pane_id m \<notin> set (ws_panes w)" "ws_room w"
    "active_tab w < length (tabs w)" "k < length (tabs w)" "target \<in> set (tab_ids (tabs w ! k))"
  obtains w' where "insert_moved_pane_into_tab k target m d r w = (Inr (mp_pane_id m), w')" "ws_ok w'"
    "set (ws_panes w') = insert (mp_pane_id m) (set (ws_panes w))"
    "ws_terminals w' = insert (mp_pane_id m, attached_terminal_id (mp_pane_state m)) (ws_terminals w)"
    "ws_id w' = ws_id w" "mp_pane_id m \<in> set (tab_ids (tabs w' ! k))" "k < length (tabs w')"
    "public_pane_numbers w' = (if P = {} then hm_insert (mp_pane_id m) (next_public_pane_number w) (public_pane_numbers w)
       else public_pane_numbers w)"
    "next_public_pane_number w' = (if P = {} then next_public_pane_number w + 1 else next_public_pane_number w)"
proof -
  let ?i = "mp_pane_id m"
  obtain xs t ys where e: "tabs w = xs @ t # ys" "tabs w ! k = t" "length xs = k" "\<And>x. (tabs w)[k := x] = xs @ x # ys"
    using vec_split [OF assms(6)] by metis
  have ok: "tabs_ok (xs @ t # ys) (next_public_tab_number w)" using assms(1) e(1) by (simp add: ws_core_def)
  have tok: "tab_ok t" using ok by (simp add: tabs_ok_def)
  have i: "?i \<notin> set (concat (map tab_ids (xs @ t # ys)))" using assms(3) e(1) by (simp add: ws_panes_def)
  obtain t' where t': "insert_existing_pane target m d r t = (Inr ?i, t')" "tab_ok t'" "tab_number t' = tab_number t"
      "set (tab_ids t') = insert ?i (set (tab_ids t))"
      "tab_panes t' = hm_insert ?i (mp_pane_state m) (tab_panes t)"
    by (rule insert_existing_pane_ok [OF tok, of target m d r]) (use assms(7) e(2) i in auto)
  let ?w = "register_moved_pane ?i (w\<lparr>tabs := xs @ t' # ys\<rparr>)"
  have tabs': "tabs_ok (xs @ t' # ys) (next_public_tab_number w)"
    by (rule tabs_ok_replace [OF ok t'(2,3)]) (use tabs_ok_disjoint [OF ok] t'(4) i in auto)
  have "pane_terminals (tab_panes t') = insert (?i, attached_terminal_id (mp_pane_state m)) (pane_terminals (tab_panes t))"
    unfolding t'(5) using tok i by (intro pane_terminals_insert) (auto simp: tab_ok_def)
  then have tm: "ws_terminals (w\<lparr>tabs := xs @ t' # ys\<rparr>)
      = insert (?i, attached_terminal_id (mp_pane_state m)) (ws_terminals w)"
    by (simp add: ws_terminals_def e(1))
  have p: "set (ws_panes (w\<lparr>tabs := xs @ t' # ys\<rparr>)) = insert ?i (set (ws_panes w))"
    using t'(4) by (simp add: ws_panes_def e(1))
  have room: "unat (next_public_pane_number w) < 2 ^ 64 - 1" using assms(4) by (simp add: ws_room_def)
  have num: "numbers_ok (hm_insert ?i (next_public_pane_number w) (public_pane_numbers w)) (next_public_pane_number w + 1)"
    using assms(1) by (intro numbers_ok_insert [OF _ room]) (simp add: ws_core_def)
  have keys: "hm_contains (public_pane_numbers w) ?i \<longleftrightarrow> P \<noteq> {}"
    using assms(1-3) by (auto simp: ws_core_def hm_contains_iff hm_get_None_iff)
  have act: "active_tab w < length (xs @ t' # ys)" using assms(5) e(1) by simp
  have eq: "insert_moved_pane_into_tab k target m d r w = (Inr ?i, ?w)"
    using assms(6) t'(1) e(2,4) by (simp add: insert_moved_pane_into_tab_def)
  have ok: "ws_ok ?w"
  proof (cases "P = {}")
    case True
    then show ?thesis
      using assms(1) tabs' p act num next_usize(3) [OF room] keys
      by (simp add: ws_ok_def ws_core_def register_moved_pane_def keys_insert register_new_pane_with_number_def)
  next
    case False
    then have "P = {?i}" using assms(2) by auto
    then show ?thesis using assms(1) tabs' p act keys by (auto simp: ws_ok_def ws_core_def register_moved_pane_def)
  qed
  have fr: "ws_panes ?w = ws_panes (w\<lparr>tabs := xs @ t' # ys\<rparr>)" "ws_terminals ?w = ws_terminals (w\<lparr>tabs := xs @ t' # ys\<rparr>)"
      "ws_id ?w = ws_id w" "tabs ?w = xs @ t' # ys"
      "public_pane_numbers ?w = (if P = {} then hm_insert ?i (next_public_pane_number w) (public_pane_numbers w)
        else public_pane_numbers w)"
      "next_public_pane_number ?w = (if P = {} then next_public_pane_number w + 1 else next_public_pane_number w)"
    using keys next_usize(3) [OF room]
    by (simp_all add: register_moved_pane_def register_new_pane_with_number_def)
  show ?thesis
    using that [OF eq ok] p tm fr t'(4) e(3) by (simp add: nth_append)
qed

end
