(* ===== verification/Session_Ids.thy ===== *)
theory Session_Ids
  imports Sessions Workspace_Moves
begin

text \<open>
  Public identifiers mean what they name: in a session whose workspaces have generated, distinct
  identifiers, the public identifier of a tab or a pane is read back as that tab or pane.
\<close>

section \<open>Splitting at the last separator\<close>

lemma find_append_None: "find p xs = None \<Longrightarrow> find p (xs @ ys) = find p ys"
  by (induction xs) (auto split: if_splits)

lemma find_rev_upt_last:
  assumes "k \<le> n" "p k" "\<And>j. k < j \<Longrightarrow> j \<le> n \<Longrightarrow> \<not> p j"
  shows "find p (rev [0..<Suc n]) = Some k"
proof -
  have "[0..<Suc n] = [0..<k] @ k # [Suc k..<Suc n]"
    using assms(1) upt_add_eq_append [of 0 k "Suc n - k"] upt_conv_Cons [of k "Suc n"] by simp
  then have "rev [0..<Suc n] = rev [Suc k..<Suc n] @ k # rev [0..<k]" by simp
  moreover have "find p (rev [Suc k..<Suc n]) = None"
    using assms(3) by (auto simp: find_None_iff)
  ultimately show ?thesis using assms(2) by (simp add: find_append_None)
qed

lemma starts_with_Cons: "starts_with t (c # cs) \<longleftrightarrow> t \<noteq> [] \<and> hd t = c \<and> starts_with (tl t) cs"
  by (cases t) (auto simp: starts_with_def)

text \<open>The separator starts with a character that the rest does not contain.\<close>

lemma rsplit_once_last:
  assumes "c \<notin> set cs" "c \<notin> set rest"
  shows "rsplit_once (pre @ (c # cs) @ rest) (c # cs) = Some (pre, rest)"
proof -
  let ?t = "pre @ (c # cs) @ rest"
  have "find (\<lambda>i. starts_with (drop i ?t) (c # cs)) (rev [0..<Suc (length ?t)]) = Some (length pre)"
  proof (rule find_rev_upt_last)
    show "starts_with (drop (length pre) ?t) (c # cs)" by (simp add: starts_with_def)
  next
    fix j
    assume j: "length pre < j" "j \<le> length ?t"
    then have "set (drop j ?t) \<subseteq> set (cs @ rest)"
    proof -
      have "drop j ?t = drop (j - length pre - 1) (cs @ rest)"
        using j(1) by (simp add: drop_Cons' )
      then show ?thesis using set_drop_subset [of "j - length pre - 1" "cs @ rest"] by simp
    qed
    then have "c \<notin> set (drop j ?t)" using assms by auto
    then show "\<not> starts_with (drop j ?t) (c # cs)"
      unfolding starts_with_Cons using hd_in_set [of "drop j ?t"] by metis
  qed simp
  then show ?thesis by (simp add: rsplit_once_def)
qed

section \<open>Generated identifiers\<close>

definition generated_id :: "u64 \<Rightarrow> text" where
  "generated_id n = fst (generate_workspace_id n)"

lemma generated_id_eq: "generated_id n = lit ''w'' @ encode_public_number n"
  by (simp add: generated_id_def generate_workspace_id_def)

lemma generated_id_inject: "m \<noteq> 0 \<Longrightarrow> n \<noteq> 0 \<Longrightarrow> generated_id m = generated_id n \<longleftrightarrow> m = n"
  by (simp add: generated_id_eq encode_inject)

lemma alphabet_excludes:
  "58 \<notin> set PUBLIC_ID_ALPHABET" "112 \<notin> set PUBLIC_ID_ALPHABET" "116 \<notin> set PUBLIC_ID_ALPHABET"
  "95 \<notin> set PUBLIC_ID_ALPHABET"
  unfolding PUBLIC_ID_ALPHABET_def lit_def by simp_all

lemma encode_excludes:
  "58 \<notin> set (encode_public_number n)" "112 \<notin> set (encode_public_number n)"
  "116 \<notin> set (encode_public_number n)" "95 \<notin> set (encode_public_number n)"
  using encode_alphabet [of n] alphabet_excludes by auto

lemma pane_id_split:
  "rsplit_once (public_pane_id_for_number w n) (lit '':p'') = Some (w, encode_public_number n)"
  using rsplit_once_last [of 58 "[112]" "encode_public_number n" w] encode_excludes [of n]
  by (simp add: public_pane_id_for_number_def lit_def)

lemma tab_id_split:
  "rsplit_once (public_tab_id_for_number w n) (lit '':'') = Some (w, lit ''t'' @ encode_public_number n)"
  using rsplit_once_last [of 58 "[]" "116 # encode_public_number n" w] encode_excludes [of n]
  by (simp add: public_tab_id_for_number_def lit_def)

lemma generated_prefix:
  "strip_prefix (public_pane_id_for_number (generated_id m) n) (lit ''p_'') = None"
  "strip_prefix (public_tab_id_for_number (generated_id m) n) (lit ''t_'') = None"
  by (simp_all add: generated_id_eq public_pane_id_for_number_def public_tab_id_for_number_def
      strip_prefix_def starts_with_def lit_def)

lemma pane_id_inject:
  assumes "m \<noteq> 0" "n \<noteq> 0" "public_pane_id_for_number v m = public_pane_id_for_number w n"
  shows "v = w" "m = n"
proof -
  have "(v, encode_public_number m) = (w, encode_public_number n)"
    using pane_id_split [of v m] pane_id_split [of w n] assms(3) by simp
  then show "v = w" "m = n" using encode_inject assms(1,2) by auto
qed

section \<open>Reading identifiers back\<close>

lemma position_unique:
  assumes "k < length xs" "p (xs ! k)" "\<And>j. j < length xs \<Longrightarrow> p (xs ! j) \<Longrightarrow> j = k"
  shows "position p xs = Some k"
proof (cases "position p xs")
  case None
  then show ?thesis using assms(1,2) by (auto simp: position_None_iff)
next
  case (Some j)
  then show ?thesis using assms(3) by (auto dest: position_SomeD)
qed

lemma position_distinct:
  "distinct (map f xs) \<Longrightarrow> k < length xs \<Longrightarrow> position (\<lambda>x. f x = f (xs ! k)) xs = Some k"
  by (rule position_unique) (auto simp: distinct_conv_nth)

lemma parse_workspace_id_own:
  "distinct (map ws_id (workspaces s)) \<Longrightarrow> k < length (workspaces s) \<Longrightarrow>
     parse_workspace_id (ws_id (workspaces s ! k)) s = Some k"
  by (simp add: parse_workspace_id_def position_distinct)

lemma parse_tab_id_own:
  assumes "distinct (map ws_id (workspaces s))" "k < length (workspaces s)"
    "ws_id (workspaces s ! k) = generated_id m"
    "distinct (map tab_number (tabs (workspaces s ! k)))" "t < length (tabs (workspaces s ! k))"
    "tab_number (tabs (workspaces s ! k) ! t) \<noteq> 0"
  shows "parse_tab_id (public_tab_id_for_number (ws_id (workspaces s ! k))
    (tab_number (tabs (workspaces s ! k) ! t))) s = Some (k, t)"
proof -
  have "strip_prefix (lit ''t'' @ e) (lit ''t'') = Some e" for e
    by (simp add: strip_prefix_def starts_with_def)
  then show ?thesis
    using generated_prefix(2) [of m] tab_id_split parse_workspace_id_own [OF assms(1,2)]
      decode_encode [OF assms(6)] position_distinct [OF assms(4,5)] assms(2,5)
    by (simp add: parse_tab_id_def assms(3) vec_get_def tab_exists_def)
qed

lemma pane_with_number_own:
  assumes "k < length (workspaces s)" "numbers_ok (public_pane_numbers (workspaces s ! k)) nxt"
    "public_pane_number i (workspaces s ! k) = Some n"
  shows "pane_with_number k n s = Some (k, i)"
proof -
  let ?m = "public_pane_numbers (workspaces s ! k)"
  have wf: "hm_wf ?m" and inj: "\<And>i j n. hm_get ?m i = Some n \<Longrightarrow> hm_get ?m j = Some n \<Longrightarrow> i = j"
    using assms(2) by (simp_all add: numbers_ok_def)
  have i: "hm_get ?m i = Some n" using assms(3) by (simp add: public_pane_number_def)
  then have "(i, n) \<in> set ?m" using wf by (simp add: hm_get_eq_Some_iff)
  then have "find (\<lambda>(_, x). x = n) ?m \<noteq> None" by (auto simp: find_None_iff)
  then obtain j x where f: "find (\<lambda>(_, x). x = n) ?m = Some (j, x)" by auto
  then have "(j, x) \<in> set ?m" "x = n" by (auto simp: find_Some_iff dest: nth_mem)
  then have "hm_get ?m j = Some n" using wf by (simp add: hm_get_eq_Some_iff)
  then have "j = i" using inj i by blast
  then show ?thesis using f assms(1) by (simp add: pane_with_number_def vec_get_def)
qed

lemma parse_pane_id_own:
  assumes "distinct (map ws_id (workspaces s))" "k < length (workspaces s)"
    "ws_id (workspaces s ! k) = generated_id m"
    "numbers_ok (public_pane_numbers (workspaces s ! k)) nxt" "public_pane_number i (workspaces s ! k) = Some n"
    "hm_get (public_pane_id_aliases s) (public_pane_id_for_number (ws_id (workspaces s ! k)) n) = None"
  shows "parse_pane_id (public_pane_id_for_number (ws_id (workspaces s ! k)) n) s = Some (k, i)"
proof -
  have n: "n \<noteq> 0" using assms(4,5) by (auto simp: numbers_ok_def public_pane_number_def)
  show ?thesis
    using generated_prefix(1) [of m] pane_id_split parse_workspace_id_own [OF assms(1,2)]
      decode_encode [OF n] pane_with_number_own [OF assms(2,4,5)] assms(6)
    by (simp add: parse_pane_id_def assms(3))
qed

text \<open>Whatever an identifier is read as is there.\<close>

lemma find_pane_from_Some:
  "find_pane_from k i ws = Some (j, p) \<Longrightarrow>
     \<exists>l. j = k + l \<and> l < length ws \<and> ws_pane_state i (ws ! l) = Some p"
proof (induction ws arbitrary: k)
  case (Cons w ws)
  show ?case
  proof (cases "ws_pane_state i w")
    case None
    then obtain l where "j = Suc k + l" "l < length ws" "ws_pane_state i (ws ! l) = Some p"
      using Cons by fastforce
    then show ?thesis by (intro exI [of _ "Suc l"]) simp
  next
    case (Some q)
    then show ?thesis using Cons.prems by auto
  qed
qed simp

lemma find_pane_Some:
  "find_pane i s = Some (k, p) \<Longrightarrow> k < length (workspaces s) \<and> ws_pane_state i (workspaces s ! k) = Some p"
  using find_pane_from_Some [of 0 i "workspaces s" k p] by (auto simp: find_pane_def)

lemma parse_tab_id_there:
  "parse_tab_id i s = Some (k, t) \<Longrightarrow> k < length (workspaces s) \<and> t < length (tabs (workspaces s ! k))"
  by (auto simp: parse_tab_id_def tab_exists_def vec_get_def bind_eq_Some_conv split: option.splits if_splits prod.splits)

lemma parse_pane_id_there: "parse_pane_id r s = Some (k, i) \<Longrightarrow> k < length (workspaces s)"
  by (auto simp: parse_pane_id_def pane_with_number_def vec_get_def bind_eq_Some_conv
      split: option.splits if_splits prod.splits dest!: find_pane_Some)

end
