(* ===== verification/Session_Invariant.thy ===== *)
theory Session_Invariant
  imports Session_Ids
begin

text \<open>
  The invariant of a session: every workspace keeps its own, workspaces have generated and
  distinct identifiers, no pane is in two workspaces, no terminal is attached to two panes,
  everything was allocated before, and no alias of a moved pane hides a live pane. The lemmas
  below say when a change of one workspace keeps it.
\<close>

section \<open>Allocators\<close>

definition room :: "allocators \<Rightarrow> bool" where
  "room al \<longleftrightarrow> unat (next_pane_id al) < 2 ^ 32 - 1 \<and> unat (next_terminal_id al) < 2 ^ 64 - 1
     \<and> unat (next_workspace_id al) < 2 ^ 64 - 1"

definition al_le :: "allocators \<Rightarrow> allocators \<Rightarrow> bool" where
  "al_le al al' \<longleftrightarrow> next_pane_id al \<le> next_pane_id al' \<and> next_terminal_id al \<le> next_terminal_id al'
     \<and> next_workspace_id al \<le> next_workspace_id al'"

definition allocated_terminal :: "allocators \<Rightarrow> text \<Rightarrow> bool" where
  "allocated_terminal al x \<longleftrightarrow>
     (\<exists>micros c. clock_in_range micros \<and> c < next_terminal_id al \<and> x = fst (terminal_id_alloc micros c))"

lemma al_le_refl [simp]: "al_le al al"
  by (simp add: al_le_def)

lemma room_less:
  assumes "room al"
  shows "next_pane_id al < next_pane_id al + 1" "next_terminal_id al < next_terminal_id al + 1"
    "next_workspace_id al < next_workspace_id al + 1"
  using assms next_id_less [of "next_pane_id al"] next_usize(1) [of "next_terminal_id al"]
    next_usize(1) [of "next_workspace_id al"]
  by (simp_all add: room_def)

lemma allocated_mono: "allocated_terminal al x \<Longrightarrow> al_le al al' \<Longrightarrow> allocated_terminal al' x"
  unfolding allocated_terminal_def al_le_def using order_less_le_trans by blast

lemma fresh_terminal:
  assumes "clock_in_range micros" "allocated_terminal al x"
  shows "x \<noteq> fst (terminal_id_alloc micros (next_terminal_id al))"
  using assms terminal_ids_differ by (fastforce simp: allocated_terminal_def)

section \<open>Sessions\<close>

definition session_terminals :: "'g session \<Rightarrow> (pane_id \<times> text) set" where
  "session_terminals s = (\<Union>w \<in> set (workspaces s). ws_terminals w)"

definition alias_ok :: "allocators \<Rightarrow> 'g workspace list \<Rightarrow> text \<Rightarrow> bool" where
  "alias_ok al ws key \<longleftrightarrow> (\<exists>m n. key = public_pane_id_for_number (generated_id m) n \<and> m \<noteq> 0 \<and> n \<noteq> 0
     \<and> m < next_workspace_id al
     \<and> (\<forall>w \<in> set ws. ws_id w = generated_id m \<longrightarrow>
          n < next_public_pane_number w \<and> (\<forall>i. public_pane_number i w \<noteq> Some n)))"

definition session_ok :: "allocators \<times> 'g session \<Rightarrow> bool" where
  "session_ok st \<longleftrightarrow> (case st of (al, s) \<Rightarrow>
     next_workspace_id al \<noteq> 0
     \<and> (\<forall>w \<in> set (workspaces s). ws_ok w)
     \<and> distinct (map ws_id (workspaces s))
     \<and> (\<forall>w \<in> set (workspaces s). \<exists>m. m \<noteq> 0 \<and> m < next_workspace_id al \<and> ws_id w = generated_id m)
     \<and> (\<forall>v \<in> set (workspaces s). \<forall>w \<in> set (workspaces s). ws_id v \<noteq> ws_id w \<longrightarrow>
          set (ws_panes v) \<inter> set (ws_panes w) = {})
     \<and> (\<forall>w \<in> set (workspaces s). \<forall>i \<in> set (ws_panes w). i < next_pane_id al)
     \<and> (\<forall>e \<in> session_terminals s. \<forall>f \<in> session_terminals s. snd e = snd f \<longrightarrow> fst e = fst f)
     \<and> (\<forall>e \<in> session_terminals s. allocated_terminal al (snd e))
     \<and> (\<forall>key. hm_get (public_pane_id_aliases s) key \<noteq> None \<longrightarrow> alias_ok al (workspaces s) key))"

lemma session_okD:
  assumes "session_ok (al, s)"
  shows "next_workspace_id al \<noteq> 0" "\<And>w. w \<in> set (workspaces s) \<Longrightarrow> ws_ok w"
    "distinct (map ws_id (workspaces s))"
    "\<And>w. w \<in> set (workspaces s) \<Longrightarrow> \<exists>m. m \<noteq> 0 \<and> m < next_workspace_id al \<and> ws_id w = generated_id m"
    "\<And>v w. v \<in> set (workspaces s) \<Longrightarrow> w \<in> set (workspaces s) \<Longrightarrow> ws_id v \<noteq> ws_id w \<Longrightarrow>
       set (ws_panes v) \<inter> set (ws_panes w) = {}"
    "\<And>w i. w \<in> set (workspaces s) \<Longrightarrow> i \<in> set (ws_panes w) \<Longrightarrow> i < next_pane_id al"
    "\<And>e f. e \<in> session_terminals s \<Longrightarrow> f \<in> session_terminals s \<Longrightarrow> snd e = snd f \<Longrightarrow> fst e = fst f"
    "\<And>e. e \<in> session_terminals s \<Longrightarrow> allocated_terminal al (snd e)"
    "\<And>key. hm_get (public_pane_id_aliases s) key \<noteq> None \<Longrightarrow> alias_ok al (workspaces s) key"
  using assms unfolding session_ok_def prod.case by blast+

lemma session_okI:
  assumes "next_workspace_id al \<noteq> 0" "\<And>w. w \<in> set (workspaces s) \<Longrightarrow> ws_ok w"
    "distinct (map ws_id (workspaces s))"
    "\<And>w. w \<in> set (workspaces s) \<Longrightarrow> \<exists>m. m \<noteq> 0 \<and> m < next_workspace_id al \<and> ws_id w = generated_id m"
    "\<And>v w. v \<in> set (workspaces s) \<Longrightarrow> w \<in> set (workspaces s) \<Longrightarrow> ws_id v \<noteq> ws_id w \<Longrightarrow>
       set (ws_panes v) \<inter> set (ws_panes w) = {}"
    "\<And>w i. w \<in> set (workspaces s) \<Longrightarrow> i \<in> set (ws_panes w) \<Longrightarrow> i < next_pane_id al"
    "\<And>e f. e \<in> session_terminals s \<Longrightarrow> f \<in> session_terminals s \<Longrightarrow> snd e = snd f \<Longrightarrow> fst e = fst f"
    "\<And>e. e \<in> session_terminals s \<Longrightarrow> allocated_terminal al (snd e)"
    "\<And>key. hm_get (public_pane_id_aliases s) key \<noteq> None \<Longrightarrow> alias_ok al (workspaces s) key"
  shows "session_ok (al, s)"
  unfolding session_ok_def prod.case
  by (intro conjI ballI allI impI) (rule assms; assumption)+

lemma alias_ok_mono: "alias_ok al ws key \<Longrightarrow> al_le al al' \<Longrightarrow> alias_ok al' ws key"
  unfolding alias_ok_def al_le_def using order_less_le_trans by blast

lemma session_mono:
  assumes "session_ok (al, s)" "al_le al al'"
  shows "session_ok (al', s)"
proof -
  note ok = session_okD [OF assms(1)]
  have le: "next_workspace_id al \<le> next_workspace_id al'" "next_pane_id al \<le> next_pane_id al'"
    using assms(2) by (simp_all add: al_le_def)
  show ?thesis
  proof (rule session_okI)
    show "next_workspace_id al' \<noteq> 0" using ok(1) le(1) by auto
    show "\<exists>m. m \<noteq> 0 \<and> m < next_workspace_id al' \<and> ws_id w = generated_id m" if "w \<in> set (workspaces s)" for w
      using ok(4) [OF that] le(1) order_less_le_trans by blast
    show "i < next_pane_id al'" if "w \<in> set (workspaces s)" "i \<in> set (ws_panes w)" for w i
      using ok(6) [OF that] le(2) by (rule order_less_le_trans)
    show "allocated_terminal al' (snd e)" if "e \<in> session_terminals s" for e
      using ok(8) [OF that] assms(2) by (rule allocated_mono)
    show "alias_ok al' (workspaces s) key" if "hm_get (public_pane_id_aliases s) key \<noteq> None" for key
      using ok(9) [OF that] assms(2) by (rule alias_ok_mono)
  qed (rule ok; assumption)+
qed

text \<open>Only the workspaces and the aliases of public identifiers matter.\<close>

lemma session_ok_frame:
  "workspaces s' = workspaces s \<Longrightarrow> public_pane_id_aliases s' = public_pane_id_aliases s \<Longrightarrow>
     session_ok (al, s') = session_ok (al, s)"
  unfolding session_ok_def prod.case session_terminals_def by (simp only:)

section \<open>A workspace changes\<close>

text \<open>The pane and the terminal a workspace may gain: none, or one that is nowhere else.\<close>

definition available :: "allocators \<Rightarrow> 'g session \<Rightarrow> pane_id \<Rightarrow> text \<Rightarrow> bool" where
  "available al s i tid \<longleftrightarrow> i < next_pane_id al \<and> (\<forall>w \<in> set (workspaces s). i \<notin> set (ws_panes w))
     \<and> allocated_terminal al tid \<and> (\<forall>e \<in> session_terminals s. snd e \<noteq> tid)"

definition gains :: "allocators \<Rightarrow> 'g session \<Rightarrow> (pane_id \<times> text) set \<Rightarrow> bool" where
  "gains al s M \<longleftrightarrow> M = {} \<or> (\<exists>i tid. M = {(i, tid)} \<and> available al s i tid)"

definition numbers_advance :: "'g workspace \<Rightarrow> 'g workspace \<Rightarrow> bool" where
  "numbers_advance w w' \<longleftrightarrow> next_public_pane_number w \<le> next_public_pane_number w'
     \<and> (\<forall>i n. public_pane_number i w' = Some n \<longrightarrow>
          n < next_public_pane_number w \<longrightarrow> public_pane_number i w = Some n)"

lemma session_replace:
  assumes "session_ok (al, s)" "k < length (workspaces s)" "ws_ok w'" "ws_id w' = ws_id (workspaces s ! k)"
    "gains al s M" "set (ws_panes w') \<subseteq> set (ws_panes (workspaces s ! k)) \<union> fst ` M"
    "ws_terminals w' \<subseteq> ws_terminals (workspaces s ! k) \<union> M"
    "numbers_advance (workspaces s ! k) w'"
  shows "session_ok (al, set_workspace k w' s)"
proof -
  note ok = session_okD [OF assms(1)]
  obtain xs w ys where v: "workspaces s = xs @ w # ys" "workspaces s ! k = w" "(workspaces s)[k := w'] = xs @ w' # ys"
    using vec_split [OF assms(2)] by metis
  have "workspaces (set_workspace k w' s) = xs @ w' # ys" using v(3) by (simp add: set_workspace_def)
  note e = v(1,2) this
  note w' = assms(4,6-8) [unfolded e(2)]
  let ?s = "set_workspace k w' s"
  have T: "session_terminals s = ws_terminals w \<union> (\<Union>u \<in> set xs \<union> set ys. ws_terminals u)"
    by (auto simp: session_terminals_def e(1))
  have T': "session_terminals ?s \<subseteq> session_terminals s \<union> M"
    using w'(3) unfolding T by (auto simp: session_terminals_def e(3))
  have fresh: "i \<notin> set (ws_panes u)" if "i \<in> fst ` M" "u \<in> set (workspaces s)" for i u
    using assms(5) that by (auto simp: gains_def available_def)
  have other: "ws_id u \<noteq> ws_id w" if "u \<in> set xs \<union> set ys" for u
  proof -
    have "ws_id w \<notin> ws_id ` set xs" "ws_id w \<notin> ws_id ` set ys" using ok(3) unfolding e(1) by simp_all
    then show ?thesis using that by (metis UnE imageI)
  qed
  have "set (ws_panes u) \<inter> set (ws_panes w') = {}" if "u \<in> set xs \<union> set ys" for u
  proof -
    have "set (ws_panes u) \<inter> set (ws_panes w) = {}" using ok(5) [of u w] other [OF that] that by (simp add: e(1))
    moreover have "set (ws_panes u) \<inter> fst ` M = {}" using fresh [of _ u] that by (auto simp: e(1))
    ultimately show ?thesis using w'(2) by blast
  qed
  then have apart: "set (ws_panes u) \<inter> set (ws_panes v) = {}"
    if "u \<in> set (xs @ w' # ys)" "v \<in> set (xs @ w' # ys)" "ws_id u \<noteq> ws_id v" for u v
    using that ok(5) [of u v] w'(1) by (auto simp: e(1))
  have origin: "a \<in> session_terminals s \<union> M" if "a \<in> session_terminals ?s" for a using that T' by auto
  show ?thesis
  proof (rule session_okI)
    show "i < next_pane_id al" if "u \<in> set (workspaces ?s)" "i \<in> set (ws_panes u)" for u i
    proof (cases "u \<in> set xs \<union> set ys")
      case True
      then show ?thesis using ok(6) [of u i] that(2) by (simp add: e(1))
    next
      case False
      then have "i \<in> set (ws_panes w) \<union> fst ` M" using that w'(2) by (auto simp: e(3))
      then show ?thesis using ok(6) [of w i] assms(5) by (auto simp: e(1) gains_def available_def)
    qed
    show "fst a = fst b" if "a \<in> session_terminals ?s" "b \<in> session_terminals ?s" "snd a = snd b" for a b
    proof -
      have "a \<in> session_terminals s \<union> M" "b \<in> session_terminals s \<union> M" using that(1,2) origin by blast+
      moreover have "M = {} \<or> (\<exists>i tid. M = {(i, tid)} \<and> (\<forall>e \<in> session_terminals s. snd e \<noteq> tid))"
        using assms(5) unfolding gains_def available_def by blast
      ultimately show ?thesis using ok(7) [of a b] that(3) by auto
    qed
    show "allocated_terminal al (snd a)" if "a \<in> session_terminals ?s" for a
      using origin [OF that] assms(5) ok(8) [of a] by (auto simp: gains_def available_def)
    show "alias_ok al (workspaces ?s) key" if hid: "hm_get (public_pane_id_aliases ?s) key \<noteq> None" for key
    proof -
      have "hm_get (public_pane_id_aliases s) key \<noteq> None" using hid by (simp add: set_workspace_def)
      then obtain m n where a: "key = public_pane_id_for_number (generated_id m) n" "m \<noteq> 0" "n \<noteq> 0"
          "m < next_workspace_id al"
          "\<And>u. u \<in> set (workspaces s) \<Longrightarrow> ws_id u = generated_id m \<Longrightarrow>
            n < next_public_pane_number u \<and> (\<forall>i. public_pane_number i u \<noteq> Some n)"
        using ok(9) unfolding alias_ok_def by blast
      have "n < next_public_pane_number u \<and> (\<forall>i. public_pane_number i u \<noteq> Some n)"
        if "u \<in> set (workspaces ?s)" "ws_id u = generated_id m" for u
      proof (cases "u \<in> set xs \<union> set ys")
        case True
        then show ?thesis using a(5) [of u] that(2) by (simp add: e(1))
      next
        case False
        then have "u = w'" using that(1) by (simp add: e(3))
        moreover have "n < next_public_pane_number w \<and> (\<forall>i. public_pane_number i w \<noteq> Some n)"
          using a(5) [of w] w'(1) that(2) \<open>u = w'\<close> by (simp add: e(1))
        ultimately show ?thesis using w'(4) unfolding numbers_advance_def by (meson order_less_le_trans)
      qed
      then show ?thesis unfolding alias_ok_def using a(1-4) by blast
    qed
    show "distinct (map ws_id (workspaces ?s))" using ok(3) w'(1) by (simp add: e(1,3))
    show "\<exists>m. m \<noteq> 0 \<and> m < next_workspace_id al \<and> ws_id u = generated_id m" if "u \<in> set (workspaces ?s)" for u
      using that ok(4) [of w] ok(4) [of u] w'(1) by (auto simp: e(1,3))
    show "ws_ok u" if "u \<in> set (workspaces ?s)" for u
      using that ok(2) [of u] assms(3) by (auto simp: e(1,3))
    show "next_workspace_id al \<noteq> 0" by (rule ok(1))
    show "set (ws_panes v) \<inter> set (ws_panes u) = {}"
      if "v \<in> set (workspaces ?s)" "u \<in> set (workspaces ?s)" "ws_id v \<noteq> ws_id u" for v u
      using apart [of v u] that by (simp add: e(3))
  qed
qed

lemma advance_same: "ws_same w w' \<Longrightarrow> numbers_advance w w'"
  by (simp add: ws_same_def numbers_advance_def public_pane_number_def)

lemma advance_shrunk: "ws_shrunk S w w' \<Longrightarrow> numbers_advance w w'"
  by (simp add: ws_shrunk_def numbers_advance_def public_pane_number_def)

lemma advance_grown:
  assumes "ws_room w" "ws_grown i tid w w'"
  shows "numbers_advance w w'"
proof -
  have "next_public_pane_number w < next_public_pane_number w + 1"
    using assms(1) by (intro next_usize(1)) (simp add: ws_room_def)
  then show ?thesis
    using assms(2) by (auto simp: ws_grown_def numbers_advance_def public_pane_number_def hm_simps)
qed

lemma session_same:
  assumes "session_ok (al, s)" "k < length (workspaces s)" "ws_same (workspaces s ! k) w'"
  shows "session_ok (al, set_workspace k w' s)"
  using assms(3) advance_same [OF assms(3)]
  by (intro session_replace [OF assms(1,2), where M = "{}"]) (simp_all add: ws_same_def gains_def)

lemma session_shrunk:
  assumes "session_ok (al, s)" "k < length (workspaces s)" "ws_shrunk S (workspaces s ! k) w'"
  shows "session_ok (al, set_workspace k w' s)"
  using assms(3) advance_shrunk [OF assms(3)]
  by (intro session_replace [OF assms(1,2), where M = "{}"]) (auto simp: ws_shrunk_def gains_def)

lemma session_grown:
  assumes "session_ok (al, s)" "k < length (workspaces s)" "ws_room (workspaces s ! k)" "available al s i tid"
    "ws_grown i tid (workspaces s ! k) w'"
  shows "session_ok (al, set_workspace k w' s)"
  using assms(4,5) advance_grown [OF assms(3,5)]
  by (intro session_replace [OF assms(1,2), where M = "{(i, tid)}"]) (auto simp: ws_grown_def gains_def)

text \<open>A pane and a terminal that were just allocated.\<close>

lemma fresh_available:
  assumes "session_ok (al, s)" "room al" "clock_in_range micros"
    "next_pane_id al' = next_pane_id al + 1" "next_terminal_id al' = next_terminal_id al + 1"
  shows "available al' s (next_pane_id al) (fst (terminal_id_alloc micros (next_terminal_id al)))"
proof -
  note ok = session_okD [OF assms(1)]
  have "allocated_terminal al' (fst (terminal_id_alloc micros (next_terminal_id al)))"
    unfolding allocated_terminal_def using assms(3,5) room_less(2) [OF assms(2)] by auto
  moreover have "next_pane_id al \<notin> set (ws_panes w)" if "w \<in> set (workspaces s)" for w
    using ok(6) [OF that, of "next_pane_id al"] by auto
  moreover have "snd e \<noteq> fst (terminal_id_alloc micros (next_terminal_id al))" if "e \<in> session_terminals s" for e
    using fresh_terminal [OF assms(3) ok(8) [OF that]] .
  ultimately show ?thesis using assms(4) room_less(1) [OF assms(2)] by (simp add: available_def)
qed

section \<open>Workspaces come and go\<close>

lemma session_append:
  assumes "session_ok (al, s)" "ws_ok w" "ws_id w = generated_id m" "m \<noteq> 0" "m < next_workspace_id al"
    "\<And>u. u \<in> set (workspaces s) \<Longrightarrow> ws_id u \<noteq> ws_id w"
    "available al s i tid" "ws_panes w = [i]" "ws_terminals w = {(i, tid)}"
    "\<And>key n. hm_get (public_pane_id_aliases s) key \<noteq> None \<Longrightarrow> key = public_pane_id_for_number (ws_id w) n \<Longrightarrow> n = 0"
  shows "session_ok (al, s\<lparr>workspaces := workspaces s @ [w]\<rparr>)"
proof -
  note ok = session_okD [OF assms(1)]
  let ?s = "s\<lparr>workspaces := workspaces s @ [w]\<rparr>"
  have T: "session_terminals ?s = insert (i, tid) (session_terminals s)"
    using assms(9) by (auto simp: session_terminals_def)
  have av: "i < next_pane_id al" "\<And>u. u \<in> set (workspaces s) \<Longrightarrow> i \<notin> set (ws_panes u)"
      "allocated_terminal al tid" "\<And>e. e \<in> session_terminals s \<Longrightarrow> snd e \<noteq> tid"
    using assms(7) unfolding available_def by blast+
  show ?thesis
  proof (rule session_okI)
    show "ws_ok u" if "u \<in> set (workspaces ?s)" for u using that ok(2) [of u] assms(2) by auto
    show "distinct (map ws_id (workspaces ?s))" 
    proof -
      have "ws_id w \<notin> ws_id ` set (workspaces s)" using assms(6) by (metis imageE)
      then show ?thesis using ok(3) by simp
    qed
    show "\<exists>m. m \<noteq> 0 \<and> m < next_workspace_id al \<and> ws_id u = generated_id m" if "u \<in> set (workspaces ?s)" for u
      using that ok(4) [of u] assms(3-5) by auto
    show "set (ws_panes u) \<inter> set (ws_panes v) = {}"
      if "u \<in> set (workspaces ?s)" "v \<in> set (workspaces ?s)" "ws_id u \<noteq> ws_id v" for u v
      using that ok(5) [of u v] av(2) [of u] av(2) [of v] assms(8) by auto
    show "j < next_pane_id al" if "u \<in> set (workspaces ?s)" "j \<in> set (ws_panes u)" for u j
      using that ok(6) [of u j] av(1) assms(8) by auto
    show "fst e = fst f" if "e \<in> session_terminals ?s" "f \<in> session_terminals ?s" "snd e = snd f" for e f
      using that ok(7) [of e f] av(4) [of e] av(4) [of f] unfolding T by auto
    show "allocated_terminal al (snd e)" if "e \<in> session_terminals ?s" for e
      using that ok(8) [of e] av(3) unfolding T by auto
    show "alias_ok al (workspaces ?s) key" if hid: "hm_get (public_pane_id_aliases ?s) key \<noteq> None" for key
    proof -
      have h: "hm_get (public_pane_id_aliases s) key \<noteq> None" using hid by simp
      then obtain m' n where a: "key = public_pane_id_for_number (generated_id m') n" "m' \<noteq> 0" "n \<noteq> 0"
          "m' < next_workspace_id al"
          "\<And>u. u \<in> set (workspaces s) \<Longrightarrow> ws_id u = generated_id m' \<Longrightarrow>
            n < next_public_pane_number u \<and> (\<forall>i. public_pane_number i u \<noteq> Some n)"
        using ok(9) unfolding alias_ok_def by blast
      have "ws_id w \<noteq> generated_id m'"
      proof
        assume "ws_id w = generated_id m'"
        then have "key = public_pane_id_for_number (ws_id w) n" using a(1) by (simp only:)
        from assms(10) [OF h this] show False using a(3) by contradiction
      qed
      then have "n < next_public_pane_number u \<and> (\<forall>i. public_pane_number i u \<noteq> Some n)"
        if "u \<in> set (workspaces ?s)" "ws_id u = generated_id m'" for u
        using that a(5) [of u] by (cases "u = w") auto
      then show ?thesis unfolding alias_ok_def using a(1-4) by blast
    qed
  qed (rule ok(1))
qed

lemma session_remove:
  assumes "session_ok (al, s)" "k < length (workspaces s)"
  shows "session_ok (al, s\<lparr>workspaces := vec_remove k (workspaces s)\<rparr>)"
proof -
  note ok = session_okD [OF assms(1)]
  let ?s = "s\<lparr>workspaces := vec_remove k (workspaces s)\<rparr>"
  obtain xs w ys where e: "workspaces s = xs @ w # ys" "vec_remove k (workspaces s) = xs @ ys"
    using vec_split [OF assms(2)] by metis
  have sub: "u \<in> set (workspaces s)" if "u \<in> set (workspaces ?s)" for u using that e by auto
  have T: "e \<in> session_terminals s" if "e \<in> session_terminals ?s" for e
    using that sub by (auto simp: session_terminals_def)
  show ?thesis
  proof (rule session_okI)
    show "distinct (map ws_id (workspaces ?s))" using ok(3) e by simp
    show "alias_ok al (workspaces ?s) key" if hid: "hm_get (public_pane_id_aliases ?s) key \<noteq> None" for key
      using ok(9) [of key] hid sub unfolding alias_ok_def by (simp, blast)
    show "ws_ok u" if "u \<in> set (workspaces ?s)" for u by (rule ok(2) [OF sub [OF that]])
    show "\<exists>m. m \<noteq> 0 \<and> m < next_workspace_id al \<and> ws_id u = generated_id m" if "u \<in> set (workspaces ?s)" for u
      by (rule ok(4) [OF sub [OF that]])
    show "set (ws_panes u) \<inter> set (ws_panes v) = {}"
      if "u \<in> set (workspaces ?s)" "v \<in> set (workspaces ?s)" "ws_id u \<noteq> ws_id v" for u v
      by (rule ok(5) [OF sub [OF that(1)] sub [OF that(2)] that(3)])
    show "j < next_pane_id al" if "u \<in> set (workspaces ?s)" "j \<in> set (ws_panes u)" for u j
      by (rule ok(6) [OF sub [OF that(1)] that(2)])
    show "fst a = fst b" if "a \<in> session_terminals ?s" "b \<in> session_terminals ?s" "snd a = snd b" for a b
      by (rule ok(7) [OF T [OF that(1)] T [OF that(2)] that(3)])
    show "allocated_terminal al (snd a)" if "a \<in> session_terminals ?s" for a
      by (rule ok(8) [OF T [OF that]])
  qed (rule ok(1))
qed

lemma session_alias:
  assumes "session_ok (al, s)" "alias_ok al (workspaces s) key"
  shows "session_ok (al, s\<lparr>public_pane_id_aliases := hm_insert key i (public_pane_id_aliases s)\<rparr>)"
proof -
  note ok = session_okD [OF assms(1)]
  let ?s = "s\<lparr>public_pane_id_aliases := hm_insert key i (public_pane_id_aliases s)\<rparr>"
  have T: "session_terminals ?s = session_terminals s" by (simp add: session_terminals_def)
  show ?thesis
  proof (rule session_okI)
    show "alias_ok al (workspaces ?s) j" if "hm_get (public_pane_id_aliases ?s) j \<noteq> None" for j
      using that ok(9) [of j] assms(2) by (cases "j = key") (simp_all add: hm_simps)
    show "ws_ok u" if "u \<in> set (workspaces ?s)" for u using that by (simp add: ok(2))
    show "\<exists>m. m \<noteq> 0 \<and> m < next_workspace_id al \<and> ws_id u = generated_id m" if "u \<in> set (workspaces ?s)" for u
      using that by (simp add: ok(4))
    show "set (ws_panes u) \<inter> set (ws_panes v) = {}"
      if "u \<in> set (workspaces ?s)" "v \<in> set (workspaces ?s)" "ws_id u \<noteq> ws_id v" for u v
      using that by (simp add: ok(5))
    show "j < next_pane_id al" if "u \<in> set (workspaces ?s)" "j \<in> set (ws_panes u)" for u j
      using that(1) ok(6) [OF _ that(2)] by simp
    show "fst a = fst b" if "a \<in> session_terminals ?s" "b \<in> session_terminals ?s" "snd a = snd b" for a b
      using that(1,2) ok(7) [OF _ _ that(3)] unfolding T by blast
    show "allocated_terminal al (snd a)" if "a \<in> session_terminals ?s" for a
      using that ok(8) unfolding T by blast
    show "distinct (map ws_id (workspaces ?s))" using ok(3) by simp
  qed (rule ok(1))
qed

end
