(* ===== verification/Session_Moves.thy ===== *)
theory Session_Moves
  imports Session_Invariant
begin

text \<open>
  Moving a pane, half by half: taking it leaves the rest of the session in order with the pane in
  hand, and there is always a place to put it, so the move is never undone halfway.
\<close>

section \<open>Terminals of a session\<close>

lemma set_workspace_simps [simp]:
  "workspaces (set_workspace k w s) = (workspaces s)[k := w]"
  "active (set_workspace k w s) = active s" "selected (set_workspace k w s) = selected s"
  "pane_id_aliases (set_workspace k w s) = pane_id_aliases s"
  "public_pane_id_aliases (set_workspace k w s) = public_pane_id_aliases s"
  "set_workspace k v (set_workspace k w s) = set_workspace k v s"
  by (simp_all add: set_workspace_def)

lemma set_workspace_terminals:
  assumes "k < length (workspaces s)"
  shows "ws_terminals w' = insert e (ws_terminals (workspaces s ! k)) \<Longrightarrow>
      session_terminals (set_workspace k w' s) = insert e (session_terminals s)"
    "ws_terminals w' = ws_terminals (workspaces s ! k) \<Longrightarrow>
      session_terminals (set_workspace k w' s) = session_terminals s"
proof -
  obtain xs w ys where e: "workspaces s = xs @ w # ys" "workspaces s ! k = w" "(workspaces s)[k := w'] = xs @ w' # ys"
    using vec_split [OF assms] by metis
  show "session_terminals (set_workspace k w' s) = insert e (session_terminals s)"
    if "ws_terminals w' = insert e (ws_terminals (workspaces s ! k))"
    unfolding session_terminals_def set_workspace_simps e(3) using that [unfolded e(2)] by (auto simp: e(1))
  show "session_terminals (set_workspace k w' s) = session_terminals s"
    if "ws_terminals w' = ws_terminals (workspaces s ! k)"
    unfolding session_terminals_def set_workspace_simps e(3) using that [unfolded e(2)] by (auto simp: e(1))
qed

lemma ws_terminals_keys: "ws_ok w \<Longrightarrow> fst ` ws_terminals w = set (ws_panes w)"
proof -
  assume "ws_ok w"
  then have "fst ` pane_terminals (tab_panes t) = set (tab_ids t)" if "t \<in> set (tabs w)" for t
    using ws_okD(3) [of w] that by (simp add: pane_terminals_keys tab_ok_def)
  then show ?thesis by (simp add: ws_terminals_def ws_panes_def image_UN)
qed

text \<open>A workspace that loses panes: no other workspace has them.\<close>

lemma session_terminals_shrunk:
  assumes "session_ok (al, s)" "k < length (workspaces s)" "P \<subseteq> set (ws_panes (workspaces s ! k))"
    "ws_terminals w' = {e \<in> ws_terminals (workspaces s ! k). fst e \<notin> P}"
  shows "session_terminals (set_workspace k w' s) = {e \<in> session_terminals s. fst e \<notin> P}"
proof -
  note ok = session_okD [OF assms(1)]
  obtain xs w ys where e: "workspaces s = xs @ w # ys" "workspaces s ! k = w" "(workspaces s)[k := w'] = xs @ w' # ys"
    using vec_split [OF assms(2)] by metis
  have w: "w \<in> set (workspaces s)" by (simp add: e(1))
  have other: "fst a \<notin> P" if "u \<in> set xs \<union> set ys" "a \<in> ws_terminals u" for u a
  proof -
    have "ws_id w \<notin> ws_id ` (set xs \<union> set ys)" using ok(3) unfolding e(1) by auto
    then have ne: "ws_id u \<noteq> ws_id w" using that(1) by (metis imageI)
    have u: "u \<in> set (workspaces s)" using that(1) by (auto simp: e(1))
    have "fst a \<in> set (ws_panes u)" using ws_terminals_keys [OF ok(2) [OF u]] that(2) by blast
    then show ?thesis using ok(5) [OF u w ne] assms(3) unfolding e(2) by blast
  qed
  show ?thesis
    unfolding session_terminals_def set_workspace_simps e(3) using other assms(4) [unfolded e(2)] by (auto simp: e(1))
qed

section \<open>Putting a pane down\<close>

definition destination_ok :: "'g session \<Rightarrow> resolved_destination \<Rightarrow> bool" where
  "destination_ok s r = (case r of
       ExistingTab i target d ratio cross \<Rightarrow>
         (\<exists>k t. k < length (workspaces s) \<and> t < length (tabs (workspaces s ! k))
            \<and> i = public_tab_id_for_number (ws_id (workspaces s ! k)) (tab_number (tabs (workspaces s ! k) ! t))
            \<and> target \<in> set (tab_ids (tabs (workspaces s ! k) ! t)))
     | NewTab i label \<Rightarrow> (\<exists>k < length (workspaces s). i = ws_id (workspaces s ! k))
     | NewWorkspace label tab_label \<Rightarrow> True)"

text \<open>Moving the focus inside a tab of a workspace.\<close>

lemma refocus_same:
  assumes "ws_ok w" "k < length (tabs w)"
  shows "ws_same w (w\<lparr>tabs := (tabs w)[k := (tabs w ! k)\<lparr>tab_layout := focus_pane i (tab_layout (tabs w ! k))\<rparr>]\<rparr>)"
proof -
  have "tab_ok (tabs w ! k)" using ws_okD(3) [OF assms(1)] assms(2) by simp
  then show ?thesis by (intro replace_tab_same [OF assms]) simp_all
qed

lemma create_tab_from_existing_facts:
  assumes "ws_core P w" "P \<subseteq> {mp_pane_id m}" "mp_pane_id m \<notin> set (ws_panes w)" "ws_room w"
    "active_tab w \<le> length (tabs w)"
  obtains w' where "create_tab_from_existing_pane m label w = (length (tabs w), w')" "ws_ok w'"
    "set (ws_panes w') = insert (mp_pane_id m) (set (ws_panes w))"
    "ws_terminals w' = insert (mp_pane_id m, attached_terminal_id (mp_pane_state m)) (ws_terminals w)"
    "ws_id w' = ws_id w" "length (tabs w') = Suc (length (tabs w))"
    "tab_ids (tabs w' ! length (tabs w)) = [mp_pane_id m]" "tab_custom_name (tabs w' ! length (tabs w)) = label"
    "public_pane_numbers w' = (if P = {} then hm_insert (mp_pane_id m) (next_public_pane_number w) (public_pane_numbers w)
       else public_pane_numbers w)"
    "next_public_pane_number w' = (if P = {} then next_public_pane_number w + 1 else next_public_pane_number w)"
proof -
  let ?i = "mp_pane_id m" and ?t = "from_existing_pane (next_public_tab_number w) label m"
  let ?w = "(register_moved_pane ?i (w\<lparr>next_public_tab_number := next_public_tab_number w + 1\<rparr>))\<lparr>tabs := tabs w @ [?t]\<rparr>"
  have t: "tab_ok ?t" "tab_number ?t = next_public_tab_number w" "tab_ids ?t = [?i]"
    by (rule from_existing_pane_ok) (simp_all add: from_existing_pane_def pane_ids_def)
  note ok = append_tab_ok [OF assms(1-5) t]
  have tm: "pane_terminals (tab_panes ?t) = {(?i, attached_terminal_id (mp_pane_state m))}"
    by (simp add: from_existing_pane_def pane_terminals_def hm_insert_def)
  have keys: "hm_contains (public_pane_numbers w) ?i \<longleftrightarrow> P \<noteq> {}"
    using assms(1-3) by (auto simp: ws_core_def hm_contains_iff hm_get_None_iff)
  have room: "unat (next_public_pane_number w) < 2 ^ 64 - 1" using assms(4) by (simp add: ws_room_def)
  have eq: "create_tab_from_existing_pane m label w = (length (tabs w), ?w)"
    by (simp add: create_tab_from_existing_pane_def register_moved_pane_def Let_def)
  show ?thesis
  proof (rule that [OF eq ok(1,2)])
    show "ws_terminals ?w = insert (?i, attached_terminal_id (mp_pane_state m)) (ws_terminals w)"
      using ok(3) tm by simp
    show "public_pane_numbers ?w = (if P = {} then hm_insert ?i (next_public_pane_number w) (public_pane_numbers w)
       else public_pane_numbers w)"
      "next_public_pane_number ?w = (if P = {} then next_public_pane_number w + 1 else next_public_pane_number w)"
      using keys next_usize(3) [OF room] by (simp_all add: register_moved_pane_def)
    show "tab_ids (tabs ?w ! length (tabs w)) = [?i]" using t(3) by simp
    show "tab_custom_name (tabs ?w ! length (tabs w)) = label" by (simp add: from_existing_pane_def)
    show "ws_id ?w = ws_id w" "length (tabs ?w) = Suc (length (tabs w))" by (simp_all add: register_moved_pane_def)
  qed
qed

end
