(* ===== verification/Session_Transfer.thy ===== *)
theory Session_Transfer
  imports Session_Moves
begin

text \<open>
  The request that moves a pane, put together: where the destination is, taking the pane out of its
  workspace and putting it into the other one. Nothing that follows the taking of the pane can
  fail, so the way back (\<open>recover_failed_pane_move\<close>) is never taken.
\<close>

section \<open>Destinations\<close>

lemma resolve_destination_cases:
  assumes "resolve_destination k tk prev dest s = Some (Inr r)" "prev = ws_id (workspaces s ! k)"
    "k < length (workspaces s)" "\<forall>w \<in> set (workspaces s). ws_ok w"
  obtains (tab) tw tt target d ratio where
      "r = ExistingTab (public_tab_id_for_number (ws_id (workspaces s ! tw))
         (tab_number (tabs (workspaces s ! tw) ! tt))) target d ratio (k \<noteq> tw)"
      "tw < length (workspaces s)" "tt < length (tabs (workspaces s ! tw))"
      "target \<in> set (tab_ids (tabs (workspaces s ! tw) ! tt))" "\<not> (k = tw \<and> tk = tt)"
  | (new_tab) tw label where "r = NewTab (ws_id (workspaces s ! tw)) label" "tw < length (workspaces s)"
  | (new_workspace) label tab_label where "r = NewWorkspace label tab_label"
proof (cases dest)
  case (ToTab tab_id target_pane d ratio)
  obtain tw tt where p: "parse_tab_id tab_id s = Some (tw, tt)"
    using assms(1) ToTab by (cases "parse_tab_id tab_id s") (auto simp: resolve_destination_def)
  note there = parse_tab_id_there [OF p]
  have tok: "tab_ok (tabs (workspaces s ! tw) ! tt)"
    using ws_okD(3) [OF bspec [OF assms(4)], of "workspaces s ! tw"] there by simp
  from assms(1) have "public_tab_id tw tt s \<noteq> None"
    by (auto simp: resolve_destination_def ToTab p Let_def split: option.splits if_splits prod.splits)
  then have pid: "public_tab_id tw tt s = Some (public_tab_id_for_number (ws_id (workspaces s ! tw))
      (tab_number (tabs (workspaces s ! tw) ! tt)))"
    using there by (simp add: public_tab_id_def public_tab_number_def vec_get_def)
  obtain q where q: "r = ExistingTab (public_tab_id_for_number (ws_id (workspaces s ! tw))
      (tab_number (tabs (workspaces s ! tw) ! tt))) q d (unwrap_or ratio f32_half) (k \<noteq> tw)"
      "\<not> (k = tw \<and> tk = tt)"
      "q = focus (tab_layout (tabs (workspaces s ! tw) ! tt)) \<or> find_tab_index_for_pane q (workspaces s ! tw) = Some tt"
    using assms(1)
    by (auto simp: resolve_destination_def ToTab p Let_def pid split: option.splits if_splits prod.splits)
  have "focus (tab_layout (tabs (workspaces s ! tw) ! tt)) \<in> set (tab_ids (tabs (workspaces s ! tw) ! tt))"
    using tok by (simp add: tab_ok_def layout_wf_def)
  moreover have "q \<in> set (tab_ids (tabs (workspaces s ! tw) ! tt))"
    if "find_tab_index_for_pane q (workspaces s ! tw) = Some tt"
    using find_tab_facts(2) [OF ws_okD(3) [OF bspec [OF assms(4)]] that] there by simp
  ultimately show ?thesis using tab [OF q(1) _ _ _ q(2)] there q(3) by blast
next
  case (ToNewTab workspace_id label)
  show ?thesis
  proof (cases workspace_id)
    case None
    then show ?thesis using assms(1-3) ToNewTab by (auto simp: resolve_destination_def intro: new_tab)
  next
    case (Some i)
    obtain tw where "parse_workspace_id i s = Some tw"
      using assms(1) ToNewTab Some by (cases "parse_workspace_id i s") (auto simp: resolve_destination_def)
    then show ?thesis using assms(1) ToNewTab Some new_tab
      by (auto simp: resolve_destination_def public_workspace_id_def vec_get_def split: if_splits)
  qed
next
  case (ToNewWorkspace label tab_label)
  then show ?thesis using assms(1) by (auto simp: resolve_destination_def intro: new_workspace)
qed

section \<open>Taking the pane across workspaces\<close>

lemma unregister_empty_ids: "ws_id (unregister_pane i w) = ws_id w"
  by (simp add: unregister_pane_def)

lemma vec_remove_update: "k < length xs \<Longrightarrow> vec_remove k (xs[k := x]) = vec_remove k xs"
  by (simp add: vec_remove_def)

lemma close_emptied_workspace_eq:
  "workspaces (close_emptied_workspace k s) = vec_remove k (workspaces s)"
  "public_pane_id_aliases (close_emptied_workspace k s) = public_pane_id_aliases s"
  "pane_id_aliases (close_emptied_workspace k s) = pane_id_aliases s"
  by (simp_all add: close_emptied_workspace_def Let_def)

lemma registered_number:
  assumes "ws_ok w" "i \<in> set (ws_panes w)"
  obtains n where "public_pane_number i w = Some n" "n \<noteq> 0" "n < next_public_pane_number w"
proof -
  have "hm_get (public_pane_numbers w) i \<noteq> None"
    using ws_okD(6) [OF assms(1)] assms(2) by (simp add: hm_get_None_iff)
  then show ?thesis using that ws_okD(5) [OF assms(1)] by (auto simp: public_pane_number_def numbers_ok_def)
qed

lemma alias_of_registered:
  assumes "session_ok (al, s)" "k < length (workspaces s)" "public_pane_number i (workspaces s ! k) = Some n"
    "\<And>w. w \<in> set ws \<Longrightarrow> ws_id w = ws_id (workspaces s ! k) \<Longrightarrow> ws_shrunk {i} (workspaces s ! k) w"
  shows "alias_ok al ws (public_pane_id_for_number (ws_id (workspaces s ! k)) n)"
proof -
  note ok = session_okD [OF assms(1)]
  let ?w = "workspaces s ! k"
  have w: "?w \<in> set (workspaces s)" using assms(2) by simp
  obtain m where m: "m \<noteq> 0" "m < next_workspace_id al" "ws_id ?w = generated_id m" using ok(4) [OF w] by blast
  note numbers = ws_okD(5) [OF ok(2) [OF w], unfolded numbers_ok_def]
  have n: "n \<noteq> 0" "n < next_public_pane_number ?w" using numbers assms(3) by (auto simp: public_pane_number_def)
  have "n < next_public_pane_number u \<and> (\<forall>j. public_pane_number j u \<noteq> Some n)"
    if "u \<in> set ws" "ws_id u = generated_id m" for u
  proof -
    have sh: "ws_shrunk {i} ?w u" using assms(4) that m(3) by simp
    have only: "j = i" if "public_pane_number j u = Some n" for j
    proof (rule ccontr)
      assume "j \<noteq> i"
      then have "hm_get (public_pane_numbers ?w) j = Some n"
        using sh that unfolding ws_shrunk_def public_pane_number_def by (auto split: if_splits)
      moreover have "hm_get (public_pane_numbers ?w) i = Some n" using assms(3) by (simp add: public_pane_number_def)
      ultimately show False using numbers \<open>j \<noteq> i\<close> by blast
    qed
    have "public_pane_number i u = None" using sh by (simp add: ws_shrunk_def public_pane_number_def)
    then have "public_pane_number j u \<noteq> Some n" for j using only [of j] by (cases "j = i") auto
    moreover have "next_public_pane_number u = next_public_pane_number ?w" using sh by (simp add: ws_shrunk_def)
    ultimately show ?thesis using n(2) by simp
  qed
  then show ?thesis unfolding alias_ok_def
    by (intro exI [of _ m] exI [of _ n]) (use m n(1) in simp)
qed

lemma take_across:
  assumes "session_ok (al, s)" "k < length (workspaces s)" "find_tab_index_for_pane i (workspaces s ! k) = Some t"
    "public_pane_number i (workspaces s ! k) = Some n"
    "key = public_pane_id_for_number (ws_id (workspaces s ! k)) n"
  obtains tk s1 p where "take_for_move k i key True s = Some (Some tk, s1)"
    "tk_moved tk = \<lparr>mp_pane_id = i, mp_pane_state = p\<rparr>" "(i, attached_terminal_id p) \<in> session_terminals s"
    "session_ok (al, s1)" "session_terminals s1 = {e \<in> session_terminals s. fst e \<noteq> i}"
    "available al s1 i (attached_terminal_id p)"
    "public_pane_id_aliases s1 = hm_insert key i (public_pane_id_aliases s)" "pane_id_aliases s1 = pane_id_aliases s"
    "\<forall>u \<in> set (workspaces s). ws_id u \<noteq> ws_id (workspaces s ! k) \<longrightarrow> u \<in> set (workspaces s1)"
    "\<forall>u \<in> set (workspaces s1). u \<in> set (workspaces s) \<or> ws_shrunk {i} (workspaces s ! k) u"
proof -
  note ok = session_okD [OF assms(1)]
  let ?w = "workspaces s ! k"
  have w: "?w \<in> set (workspaces s)" using assms(2) by simp
  obtain tk w1 p where tk: "take_pane_for_move i ?w = Some (Some tk, w1)"
    "tk_moved tk = \<lparr>mp_pane_id = i, mp_pane_state = p\<rparr>" "hm_get (tab_panes (tabs ?w ! t)) i = Some p"
    "ws_holding i ?w w1" "workspace_empty tk \<longleftrightarrow> tabs w1 = []"
    using take_pane_for_move_facts [OF ok(2) [OF w] assms(3)] by metis
  note t = find_tab_facts [OF ws_okD(3) [OF ok(2) [OF w]] assms(3)]
  have tid: "(i, attached_terminal_id p) \<in> ws_terminals ?w" by (rule ws_terminals_get [OF ok(2) [OF w] t(1) tk(3)])
  then have T: "(i, attached_terminal_id p) \<in> session_terminals s" using w by (auto simp: session_terminals_def)
  have i: "i \<in> set (ws_panes ?w)" using t tab_in_ws by blast
  let ?u = "unregister_pane i w1"
  let ?s2 = "(set_workspace k ?u s)\<lparr>public_pane_id_aliases := hm_insert key i (public_pane_id_aliases s)\<rparr>"
  define s3 where "s3 = (if tabs w1 = [] then close_emptied_workspace k ?s2 else ?s2)"
  have take: "take_for_move k i key True s = Some (Some tk, s3)"
    by (simp add: take_for_move_def s3_def tk(1,5) Let_def)
  have terms: "ws_terminals ?u = {e \<in> ws_terminals ?w. fst e \<noteq> i}"
    using tk(4) by (simp add: ws_holding_def unregister_pane_def)
  have split: "\<exists>xs ys. workspaces s = xs @ ?w # ys \<and> (workspaces s)[k := ?u] = xs @ ?u # ys \<and> vec_remove k (workspaces s) = xs @ ys"
    using vec_split [OF assms(2)] by metis
  then obtain xs ys where e: "workspaces s = xs @ ?w # ys" "(workspaces s)[k := ?u] = xs @ ?u # ys"
      "vec_remove k (workspaces s) = xs @ ys" by blast
  have other: "ws_id u \<noteq> ws_id ?w" if "u \<in> set xs \<union> set ys" for u
  proof -
    have "distinct (map ws_id (xs @ ?w # ys))" using ok(3) e(1) by metis
    then have "ws_id ?w \<notin> ws_id ` (set xs \<union> set ys)" by auto
    then show ?thesis using that by (metis imageI)
  qed
  have members: "u \<in> set (workspaces s) \<longleftrightarrow> u = ?w \<or> u \<in> set xs \<union> set ys" for u
    using arg_cong [OF e(1), of set] by auto
  have vr: "vec_remove k (xs @ ?u # ys) = xs @ ys" using vec_remove_update [OF assms(2), of ?u] e(2,3) by metis
  have ws3: "workspaces s3 = (if tabs w1 = [] then xs @ ys else xs @ ?u # ys)"
    by (simp add: s3_def close_emptied_workspace_eq e(2) vr)
  have al3: "public_pane_id_aliases s3 = hm_insert key i (public_pane_id_aliases s)" "pane_id_aliases s3 = pane_id_aliases s"
    by (simp_all add: s3_def close_emptied_workspace_eq)
  have shrunk: "tabs w1 \<noteq> [] \<Longrightarrow> ws_shrunk {i} ?w ?u" by (rule unregister_holding [OF tk(4)])
  have sub: "u \<in> set (workspaces s) \<or> ws_shrunk {i} ?w u" if "u \<in> set (workspaces s3)" for u
    using that shrunk members [of u] unfolding ws3 by (auto split: if_splits)
  have hid: "alias_ok al (workspaces s3) (public_pane_id_for_number (ws_id ?w) n)"
  proof (rule alias_of_registered [OF assms(1,2,4)])
    fix u assume u: "u \<in> set (workspaces s3)" "ws_id u = ws_id ?w"
    then have "u \<notin> set xs \<union> set ys" using other by metis
    then show "ws_shrunk {i} ?w u" using u(1) shrunk unfolding ws3 by (auto split: if_splits)
  qed
  let ?s4 = "s\<lparr>workspaces := workspaces s3\<rparr>"
  have four: "session_ok (al, ?s4)"
  proof (cases "tabs w1 = []")
    case True
    then show ?thesis using session_remove [OF assms(1,2)] unfolding ws3 e(3) by simp
  next
    case False
    have "session_ok (al, set_workspace k ?u s)" by (rule session_shrunk [OF assms(1,2) shrunk [OF False]])
    then show ?thesis using False unfolding ws3 set_workspace_def e(2) by simp
  qed
  have "session_ok (al, ?s4\<lparr>public_pane_id_aliases := hm_insert key i (public_pane_id_aliases ?s4)\<rparr>)"
    by (rule session_alias [OF four]) (use hid in \<open>simp add: assms(5)\<close>)
  then have three: "session_ok (al, s3)"
    by (rule session_ok_frame [THEN iffD1, rotated 2]) (simp_all add: al3)
  have gone: "i \<notin> set (ws_panes u)" if "u \<in> set xs \<union> set ys" for u
    using ok(5) [of u ?w] w other [OF that] members [of u] that i by blast
  have keys: "fst a \<noteq> i" if "u \<in> set xs \<union> set ys" "a \<in> ws_terminals u" for u a
  proof -
    have "ws_ok u" using members [of u] that(1) ok(2) by blast
    then have "fst a \<in> set (ws_panes u)" using ws_terminals_keys that(2) by blast
    then show ?thesis using gone [OF that(1)] by metis
  qed
  have ST: "session_terminals s = ws_terminals ?w \<union> (\<Union>u \<in> set xs \<union> set ys. ws_terminals u)"
    unfolding session_terminals_def using members by auto
  have none: "tabs w1 = [] \<Longrightarrow> {e \<in> ws_terminals ?w. fst e \<noteq> i} = {}"
    using terms by (simp add: ws_terminals_def unregister_pane_def)
  have T3: "session_terminals s3 = {e \<in> session_terminals s. fst e \<noteq> i}"
  proof (cases "tabs w1 = []")
    case True
    then have "session_terminals s3 = (\<Union>u \<in> set xs \<union> set ys. ws_terminals u)"
      unfolding session_terminals_def ws3 by (simp add: UN_Un)
    then show ?thesis using none [OF True] keys unfolding ST by blast
  next
    case False
    then have "session_terminals s3 = ws_terminals ?u \<union> (\<Union>u \<in> set xs \<union> set ys. ws_terminals u)"
      unfolding session_terminals_def ws3 by auto
    then show ?thesis using terms keys unfolding ST by blast
  qed
  have av: "available al s3 i (attached_terminal_id p)"
    unfolding available_def
  proof (intro conjI ballI)
    show "i < next_pane_id al" by (rule ok(6) [OF w i])
    show "allocated_terminal al (attached_terminal_id p)" using ok(8) [OF T] by simp
    show "snd e \<noteq> attached_terminal_id p" if "e \<in> session_terminals s3" for e
      using that ok(7) [OF _ T, of e] unfolding T3 by auto
    show "i \<notin> set (ws_panes u)" if "u \<in> set (workspaces s3)" for u
      using that gone shrunk unfolding ws3 by (auto simp: ws_shrunk_def split: if_splits)
  qed
  show ?thesis
  proof (rule that [OF take tk(2) T three T3 av al3])
    show "\<forall>u \<in> set (workspaces s). ws_id u \<noteq> ws_id ?w \<longrightarrow> u \<in> set (workspaces s3)"
      using members unfolding ws3 by (auto split: if_splits)
    show "\<forall>u \<in> set (workspaces s3). u \<in> set (workspaces s) \<or> ws_shrunk {i} ?w u" using sub by blast
  qed
qed

section \<open>Putting it down\<close>

definition ws_received :: "pane_id set \<Rightarrow> pane_id \<Rightarrow> text \<Rightarrow> 'g workspace \<Rightarrow> 'g workspace \<Rightarrow> bool" where
  "ws_received P i tid w w' \<longleftrightarrow> ws_ok w' \<and> set (ws_panes w') = insert i (set (ws_panes w))
     \<and> ws_terminals w' = insert (i, tid) (ws_terminals w) \<and> ws_id w' = ws_id w
     \<and> public_pane_numbers w' = (if P = {} then hm_insert i (next_public_pane_number w) (public_pane_numbers w)
         else public_pane_numbers w)
     \<and> next_public_pane_number w' = (if P = {} then next_public_pane_number w + 1 else next_public_pane_number w)"

lemma received_grown: "ws_received {} i tid w w' \<Longrightarrow> ws_grown i tid w w'"
  by (simp add: ws_received_def ws_grown_def)

lemma received_same: "ws_received P i tid w w' \<Longrightarrow> ws_same w' w'' \<Longrightarrow> ws_received P i tid w w''"
  unfolding ws_received_def ws_same_def by simp

lemma ws_terminals_function:
  assumes "ws_ok w" "(i, x) \<in> ws_terminals w" "(i, y) \<in> ws_terminals w"
  shows "x = y"
proof -
  obtain t u where t: "t \<in> set (tabs w)" "(i, x) \<in> pane_terminals (tab_panes t)"
      "u \<in> set (tabs w)" "(i, y) \<in> pane_terminals (tab_panes u)"
    using assms(2,3) by (auto simp: ws_terminals_def)
  note ok = ws_okD(3,4) [OF assms(1)]
  have "tab_ok t" "tab_ok u" using ok(1) t(1,3) by blast+
  then have it: "i \<in> set (tab_ids t)" "i \<in> set (tab_ids u)" and wf: "hm_wf (tab_panes t)"
    using tab_terminals_keys [of t "(i, x)"] tab_terminals_keys [of u "(i, y)"] t(2,4) by (auto simp: tab_ok_def)
  have "t = u"
  proof (rule ccontr)
    assume ne: "t \<noteq> u"
    obtain xs ys where e: "tabs w = xs @ t # ys" using t(1) split_list by metis
    have "set (tab_ids t) \<inter> set (concat (map tab_ids (xs @ ys))) = {}"
      using tabs_ok_disjoint [of xs t ys] ok(2) e by metis
    moreover have "u \<in> set (xs @ ys)" using t(3) ne unfolding e by simp
    ultimately show False using it by fastforce
  qed
  then show ?thesis using t(2,4) wf by (auto simp: pane_terminals_iff)
qed

lemma session_terminals_function:
  assumes "session_ok (al, s)" "(i, x) \<in> session_terminals s" "(i, y) \<in> session_terminals s"
  shows "x = y"
proof -
  note ok = session_okD [OF assms(1)]
  obtain v w where v: "v \<in> set (workspaces s)" "(i, x) \<in> ws_terminals v" "w \<in> set (workspaces s)" "(i, y) \<in> ws_terminals w"
    using assms(2,3) by (auto simp: session_terminals_def)
  have "i \<in> set (ws_panes v)" "i \<in> set (ws_panes w)"
    using ws_terminals_keys [OF ok(2) [OF v(1)]] ws_terminals_keys [OF ok(2) [OF v(3)]] v(2,4) by force+
  then have "ws_id v = ws_id w" using ok(5) [OF v(1,3)] by blast
  then have "v = w" using ok(3) v(1,3) by (metis distinct_map inj_onD)
  then show ?thesis using ws_terminals_function [OF ok(2) [OF v(1)] v(2)] v(4) by simp
qed

lemma insert_back:
  fixes i :: 'a and x :: 'b
  assumes "(i, x) \<in> T" "\<And>y. (i, y) \<in> T \<Longrightarrow> x = y"
  shows "insert (i, x) {e \<in> T. fst e \<noteq> i} = T"
proof (rule set_eqI)
  fix e :: "'a \<times> 'b"
  obtain a b where e: "e = (a, b)" by fastforce
  have "b = x" if "a = i" "e \<in> T" using assms(2) [of b] that e by simp
  then show "e \<in> insert (i, x) {e \<in> T. fst e \<noteq> i} \<longleftrightarrow> e \<in> T" using assms(1) e by (cases "a = i") auto
qed

text \<open>A pane that comes back to the workspace it was taken from.\<close>

lemma received_back:
  assumes "ws_ok w" "ws_holding i w w1" "ws_received {i} i tid w1 w2" "(i, tid) \<in> ws_terminals w" "i \<in> set (ws_panes w)"
  shows "ws_same w w2"
proof -
  have "insert (i, tid) {e \<in> ws_terminals w. fst e \<noteq> i} = ws_terminals w"
    by (rule insert_back [OF assms(4) ws_terminals_function [OF assms(1,4)]])
  moreover have "insert i (set (ws_panes w) - {i}) = set (ws_panes w)" using assms(5) by blast
  ultimately show ?thesis using assms(2,3) unfolding ws_holding_def ws_received_def ws_same_def by simp
qed

lemma place_in_tab:
  assumes "distinct (map ws_id (workspaces s))" "k < length (workspaces s)" "workspaces s ! k = w"
    "ws_id w = generated_id m" "ws_core P w" "P \<subseteq> {i}" "i \<notin> set (ws_panes w)" "ws_room w"
    "active_tab w < length (tabs w)" "t < length (tabs w)" "target \<in> set (tab_ids (tabs w ! t))"
  obtains w2 where "place_moved_pane git dir ctx foc \<lparr>mp_pane_id = i, mp_pane_state = p\<rparr>
      (ExistingTab (public_tab_id_for_number (ws_id w) (tab_number (tabs w ! t))) target d ratio cross) al s
      = (Inr (k, t, i), al, set_workspace k w2 s)"
    "ws_received P i (attached_terminal_id p) w w2" "t < length (tabs w2)" "i \<in> set (tab_ids (tabs w2 ! t))"
proof -
  let ?m = "\<lparr>mp_pane_id = i, mp_pane_state = p\<rparr>"
  have tok: "tabs_ok (tabs w) (next_public_tab_number w)" using assms(5) by (simp add: ws_core_def)
  have "tab_number (tabs w ! t) \<noteq> 0" using tok assms(10) by (simp add: tabs_ok_def)
  then have parse: "parse_tab_id (public_tab_id_for_number (ws_id w) (tab_number (tabs w ! t))) s = Some (k, t)"
    using parse_tab_id_own [OF assms(1,2), of m t] assms(3,4,10) tok by (simp add: tabs_ok_def)
  obtain w' where w': "insert_moved_pane_into_tab t target ?m d ratio w = (Inr i, w')" "ws_ok w'"
    "set (ws_panes w') = insert i (set (ws_panes w))"
    "ws_terminals w' = insert (i, attached_terminal_id p) (ws_terminals w)"
    "ws_id w' = ws_id w" "i \<in> set (tab_ids (tabs w' ! t))" "t < length (tabs w')"
    "public_pane_numbers w' = (if P = {} then hm_insert i (next_public_pane_number w) (public_pane_numbers w)
       else public_pane_numbers w)"
    "next_public_pane_number w' = (if P = {} then next_public_pane_number w + 1 else next_public_pane_number w)"
    by (rule insert_moved_pane_facts [of P w ?m t target d ratio, unfolded moved_pane.simps, OF assms(5-11)])
  let ?f = "focus (tab_layout (tabs w ! t))"
  let ?w2 = "if foc then w' else w'\<lparr>tabs := (tabs w')[t := (tabs w' ! t)\<lparr>tab_layout :=
    focus_pane ?f (tab_layout (tabs w' ! t))\<rparr>]\<rparr>"
  have same: "ws_same w' ?w2"
  proof (cases foc)
    case True
    then show ?thesis using ws_same_refl [OF w'(2)] by simp
  next
    case False
    then show ?thesis using refocus_same [OF w'(2,7)] by simp
  qed
  show ?thesis
  proof (rule that)
    show "place_moved_pane git dir ctx foc ?m
        (ExistingTab (public_tab_id_for_number (ws_id w) (tab_number (tabs w ! t))) target d ratio cross) al s
        = (Inr (k, t, i), al, set_workspace k ?w2 s)"
      by (simp add: place_moved_pane_def parse assms(3) w'(1) Let_def)
    have "ws_received P i (attached_terminal_id p) w w'" using w'(2-5,8,9) by (simp add: ws_received_def)
    then show "ws_received P i (attached_terminal_id p) w ?w2" by (rule received_same [OF _ same])
    show "t < length (tabs ?w2)" "i \<in> set (tab_ids (tabs ?w2 ! t))" using w'(6,7) by simp_all
  qed
qed

lemma place_in_new_tab:
  assumes "distinct (map ws_id (workspaces s))" "k < length (workspaces s)" "workspaces s ! k = w"
    "ws_core P w" "P \<subseteq> {i}" "i \<notin> set (ws_panes w)" "ws_room w" "active_tab w \<le> length (tabs w)"
  obtains w2 t where "place_moved_pane git dir ctx foc \<lparr>mp_pane_id = i, mp_pane_state = p\<rparr> (NewTab (ws_id w) label) al s
      = (Inr (k, t, i), al, set_workspace k w2 s)"
    "ws_received P i (attached_terminal_id p) w w2" "t < length (tabs w2)" "i \<in> set (tab_ids (tabs w2 ! t))"
proof -
  let ?m = "\<lparr>mp_pane_id = i, mp_pane_state = p\<rparr>"
  have parse: "parse_workspace_id (ws_id w) s = Some k" using parse_workspace_id_own [OF assms(1,2)] assms(3) by simp
  obtain w' where w': "create_tab_from_existing_pane ?m label w = (length (tabs w), w')" "ws_ok w'"
    "set (ws_panes w') = insert i (set (ws_panes w))"
    "ws_terminals w' = insert (i, attached_terminal_id p) (ws_terminals w)"
    "ws_id w' = ws_id w" "length (tabs w') = Suc (length (tabs w))" "tab_ids (tabs w' ! length (tabs w)) = [i]"
    "public_pane_numbers w' = (if P = {} then hm_insert i (next_public_pane_number w) (public_pane_numbers w)
       else public_pane_numbers w)"
    "next_public_pane_number w' = (if P = {} then next_public_pane_number w + 1 else next_public_pane_number w)"
    by (rule create_tab_from_existing_facts [of P w ?m label, unfolded moved_pane.simps, OF assms(4-8)])
  show ?thesis
  proof (rule that)
    show "place_moved_pane git dir ctx foc ?m (NewTab (ws_id w) label) al s
        = (Inr (k, length (tabs w), i), al, set_workspace k w' s)"
      by (simp add: place_moved_pane_def parse assms(3) w'(1))
    show "ws_received P i (attached_terminal_id p) w w'" using w'(2-5,8,9) by (simp add: ws_received_def)
    show "length (tabs w) < length (tabs w')" "i \<in> set (tab_ids (tabs w' ! length (tabs w)))" using w'(6,7) by simp_all
  qed
qed

end
