(* ===== verification/Session_Pane_Move.thy ===== *)
theory Session_Pane_Move
  imports Session_Transfer
begin

text \<open>
  The whole request: where a pane is after it was moved, that its old public identifier still means
  it, and that a request that is let through keeps the invariant, every pane and every terminal.
\<close>

section \<open>Where a pane is\<close>

definition pane_at :: "pane_id \<Rightarrow> nat \<Rightarrow> nat \<Rightarrow> 'g session \<Rightarrow> bool" where
  "pane_at i tw tt s \<longleftrightarrow> tw < length (workspaces s) \<and> tt < length (tabs (workspaces s ! tw))
     \<and> i \<in> set (tab_ids (tabs (workspaces s ! tw) ! tt))"

definition pane_named :: "text \<Rightarrow> pane_id \<Rightarrow> 'g session \<Rightarrow> bool" where
  "pane_named key i s \<longleftrightarrow> hm_get (public_pane_id_aliases s) key = Some i
     \<or> (\<exists>k n. k < length (workspaces s) \<and> public_pane_number i (workspaces s ! k) = Some n
          \<and> key = public_pane_id_for_number (ws_id (workspaces s ! k)) n)"

lemma find_map_tab_None: "find_map_tab f ts = None \<longleftrightarrow> (\<forall>t \<in> set ts. f t = None)"
  by (induction ts) (auto split: option.splits)

lemma ws_pane_state_None: "ws_ok w \<Longrightarrow> ws_pane_state i w = None \<longleftrightarrow> i \<notin> set (ws_panes w)"
proof -
  assume "ws_ok w"
  then have "hm_get (tab_panes t) i = None \<longleftrightarrow> i \<notin> set (tab_ids t)" if "t \<in> set (tabs w)" for t
    using ws_okD(3) [of w] that tab_ok_panes(1) [of t i] by (simp add: hm_contains_iff hm_get_None_iff)
  then show ?thesis by (auto simp: ws_pane_state_def find_map_tab_None ws_panes_def)
qed

lemma find_pane_from_None: "find_pane_from k i ws = None \<longleftrightarrow> (\<forall>w \<in> set ws. ws_pane_state i w = None)"
  by (induction ws arbitrary: k) (auto split: option.splits)

lemma session_unique:
  assumes "session_ok (al, s)" "j < length (workspaces s)" "k < length (workspaces s)"
    "i \<in> set (ws_panes (workspaces s ! j))" "i \<in> set (ws_panes (workspaces s ! k))"
  shows "j = k"
proof -
  note ok = session_okD [OF assms(1)]
  have "ws_id (workspaces s ! j) = ws_id (workspaces s ! k)"
    using ok(5) [of "workspaces s ! j" "workspaces s ! k"] assms(2-5) by (meson disjoint_iff nth_mem)
  then show ?thesis using ok(3) assms(2,3) by (metis distinct_conv_nth length_map nth_map)
qed

lemma find_pane_there:
  assumes "session_ok (al, s)" "k < length (workspaces s)" "i \<in> set (ws_panes (workspaces s ! k))"
  shows "\<exists>p. find_pane i s = Some (k, p)"
proof (cases "find_pane i s")
  case None
  then have "ws_pane_state i (workspaces s ! k) = None"
    using assms(2) by (simp add: find_pane_def find_pane_from_None)
  then show ?thesis using ws_pane_state_None [OF session_okD(2) [OF assms(1)]] assms(2,3) by simp
next
  case (Some e)
  obtain j p where e: "e = (j, p)" by fastforce
  have j: "j < length (workspaces s)" "ws_pane_state i (workspaces s ! j) = Some p"
    using find_pane_Some Some e by metis+
  then have "i \<in> set (ws_panes (workspaces s ! j))"
    using ws_pane_state_None [OF session_okD(2) [OF assms(1)], of "workspaces s ! j" i] by auto
  then show ?thesis using session_unique [OF assms(1) j(1) assms(2) _ assms(3)] Some e by blast
qed

lemma pane_named_parses:
  assumes "session_ok (al, s)" "pane_named key i s" "k < length (workspaces s)" "i \<in> set (ws_panes (workspaces s ! k))"
  shows "parse_pane_id key s = Some (k, i)"
proof (cases "hm_get (public_pane_id_aliases s) key")
  case (Some j)
  note ok = session_okD [OF assms(1)]
  have "j = i"
  proof (rule ccontr)
    assume "j \<noteq> i"
    then obtain k' n where kn: "k' < length (workspaces s)" "public_pane_number i (workspaces s ! k') = Some n"
        "key = public_pane_id_for_number (ws_id (workspaces s ! k')) n"
      using assms(2) Some by (auto simp: pane_named_def)
    have w: "workspaces s ! k' \<in> set (workspaces s)" using kn(1) by simp
    have n: "n \<noteq> 0" using ws_okD(5) [OF ok(2) [OF w]] kn(2) by (auto simp: numbers_ok_def public_pane_number_def)
    obtain m n' where a: "key = public_pane_id_for_number (generated_id m) n'" "n' \<noteq> 0"
        "\<And>u. u \<in> set (workspaces s) \<Longrightarrow> ws_id u = generated_id m \<Longrightarrow> (\<forall>i. public_pane_number i u \<noteq> Some n')"
      using ok(9) [of key] Some unfolding alias_ok_def by blast
    have "ws_id (workspaces s ! k') = generated_id m" "n = n'"
      using pane_id_inject [OF n a(2)] kn(3) a(1) by metis+
    then show False using a(3) [OF w] kn(2) by blast
  qed
  then show ?thesis using find_pane_there [OF assms(1,3,4)] Some by (auto simp: parse_pane_id_def)
next
  case None
  note ok = session_okD [OF assms(1)]
  obtain k' n where kn: "k' < length (workspaces s)" "public_pane_number i (workspaces s ! k') = Some n"
      "key = public_pane_id_for_number (ws_id (workspaces s ! k')) n"
    using assms(2) None by (auto simp: pane_named_def)
  have w: "workspaces s ! k' \<in> set (workspaces s)" using kn(1) by simp
  have "i \<in> set (ws_panes (workspaces s ! k'))"
    using ws_okD(6) [OF ok(2) [OF w]] kn(2)
    by (metis hm_get_None_iff option.distinct(1) public_pane_number_def)
  then have k: "k' = k" using session_unique [OF assms(1) kn(1) assms(3)] assms(4) by blast
  obtain m where "ws_id (workspaces s ! k') = generated_id m" using ok(4) [OF w] by blast
  then show ?thesis
    using parse_pane_id_own [OF ok(3) kn(1) _ ws_okD(5) [OF ok(2) [OF w]] kn(2)] None kn(3) k by simp
qed

section \<open>Afterwards\<close>

text \<open>What a move has to leave behind, up to the step that shows the tab.\<close>

definition moved_well ::
    "allocators \<Rightarrow> 'g session \<Rightarrow> text \<Rightarrow> pane_id \<Rightarrow> allocators \<Rightarrow> nat \<Rightarrow> nat \<Rightarrow> 'g session \<Rightarrow> bool" where
  "moved_well al s key i al' tw tt s' \<longleftrightarrow> session_ok (al', s') \<and> al_le al al' \<and> pane_at i tw tt s'
     \<and> session_terminals s' = session_terminals s \<and> pane_named key i s'"

lemma pane_named_same:
  assumes "ws_same (workspaces s ! k) w" "pane_named key i s"
  shows "pane_named key i (set_workspace k w s)"
proof -
  have eq: "public_pane_number i (workspaces (set_workspace k w s) ! j) = public_pane_number i (workspaces s ! j)"
    "ws_id (workspaces (set_workspace k w s) ! j) = ws_id (workspaces s ! j)" if "j < length (workspaces s)" for j
    using assms(1) that by (cases "j = k"; simp add: ws_same_def public_pane_number_def)+
  show ?thesis using assms(2) eq unfolding pane_named_def by auto
qed

lemma show_tab_well:
  assumes "moved_well al s key i al' tw tt s2"
  shows "moved_well al s key i al' tw tt (show_tab tw tt s2)"
proof -
  let ?s = "s2\<lparr>active := Some tw, selected := tw\<rparr>" and ?w = "switch_tab tt (workspaces s2 ! tw)"
  have at: "tw < length (workspaces s2)" "tt < length (tabs (workspaces s2 ! tw))"
      "i \<in> set (tab_ids (tabs (workspaces s2 ! tw) ! tt))" and ok: "session_ok (al', s2)"
      and named: "pane_named key i s2"
    using assms by (simp_all add: moved_well_def pane_at_def)
  have e: "show_tab tw tt s2 = set_workspace tw ?w ?s" using at by (simp add: show_tab_def)
  have same: "ws_same (workspaces s2 ! tw) ?w" using session_okD(2) [OF ok] at(1) by (simp add: switch_tab_same)
  have "session_ok (al', set_workspace tw ?w s2)" by (rule session_same [OF ok at(1) same])
  then have "session_ok (al', show_tab tw tt s2)"
    unfolding e by (rule session_ok_frame [THEN iffD1, rotated 2]) simp_all
  moreover have "session_terminals (show_tab tw tt s2) = session_terminals s2"
    unfolding e using set_workspace_terminals(2) [of tw ?s ?w] at(1) same
    by (simp add: ws_same_def session_terminals_def)
  moreover have "pane_at i tw tt (show_tab tw tt s2)"
    unfolding e pane_at_def using at by (simp add: switch_tab_def)
  moreover have "pane_named key i (show_tab tw tt s2)"
    unfolding e by (rule pane_named_same) (use at(1) same named in \<open>simp_all add: pane_named_def\<close>)
  ultimately show ?thesis using assms by (simp add: moved_well_def)
qed

lemma moved_well_frame:
  "workspaces s'' = workspaces s' \<Longrightarrow> public_pane_id_aliases s'' = public_pane_id_aliases s' \<Longrightarrow>
     moved_well al s key i al' tw tt s' \<Longrightarrow> moved_well al s key i al' tw tt s''"
  unfolding moved_well_def pane_at_def pane_named_def session_terminals_def
  by (metis session_ok_frame)

text \<open>The pane goes from one workspace to another.\<close>

lemma landed_across:
  assumes "session_ok (al, s1)" "k < length (workspaces s1)" "ws_room (workspaces s1 ! k)"
    "available al s1 i tid" "ws_received {} i tid (workspaces s1 ! k) w2"
    "t < length (tabs w2)" "i \<in> set (tab_ids (tabs w2 ! t))"
    "hm_get (public_pane_id_aliases s1) key = Some i"
    "session_terminals s1 = {e \<in> session_terminals s. fst e \<noteq> i}" "session_ok (al, s)"
    "(i, tid) \<in> session_terminals s"
  shows "moved_well al s key i al k t (set_workspace k w2 s1)"
proof -
  have "session_ok (al, set_workspace k w2 s1)"
    by (rule session_grown [OF assms(1-4) received_grown [OF assms(5)]])
  moreover have "session_terminals (set_workspace k w2 s1) = insert (i, tid) (session_terminals s1)"
    using set_workspace_terminals(1) [OF assms(2)] assms(5) by (simp add: ws_received_def)
  moreover have "insert (i, tid) {e \<in> session_terminals s. fst e \<noteq> i} = session_terminals s"
    by (rule insert_back [OF assms(11) session_terminals_function [OF assms(10,11)]])
  ultimately show ?thesis
    unfolding moved_well_def pane_at_def pane_named_def using assms(2,6-9) by simp
qed

text \<open>The pane stays in its workspace.\<close>

lemma landed_within:
  assumes "session_ok (al, s)" "k < length (workspaces s)" "ws_same (workspaces s ! k) w2"
    "t < length (tabs w2)" "i \<in> set (tab_ids (tabs w2 ! t))"
    "public_pane_number i (workspaces s ! k) = Some n"
  shows "moved_well al s (public_pane_id_for_number (ws_id (workspaces s ! k)) n) i al k t (set_workspace k w2 s)"
proof -
  have "session_ok (al, set_workspace k w2 s)" by (rule session_same [OF assms(1-3)])
  moreover have "session_terminals (set_workspace k w2 s) = session_terminals s"
    using set_workspace_terminals(2) [OF assms(2)] assms(3) by (simp add: ws_same_def)
  moreover have "pane_named (public_pane_id_for_number (ws_id (workspaces s ! k)) n) i (set_workspace k w2 s)"
    unfolding pane_named_def using assms(2,3,6)
    by (intro disjI2 exI [of _ k] exI [of _ n]) (simp add: ws_same_def public_pane_number_def)
  ultimately show ?thesis unfolding moved_well_def pane_at_def using assms(2,4,5) by simp
qed

text \<open>A workspace with a new identifier at the end.\<close>

lemma append_fresh_workspace:
  assumes "session_ok (al, s)" "room al" "ws_ok w" "ws_id w = generated_id (next_workspace_id al)"
    "available al' s i tid" "ws_panes w = [i]" "ws_terminals w = {(i, tid)}"
    "next_workspace_id al' = next_workspace_id al + 1" "al_le al al'"
  shows "session_ok (al', s\<lparr>workspaces := workspaces s @ [w]\<rparr>)"
proof -
  note ok = session_okD [OF assms(1)]
  have inj: "m = next_workspace_id al" if "generated_id m = ws_id w" "m \<noteq> 0" for m
    using that assms(4) generated_id_inject ok(1) by metis
  have less: "next_workspace_id al < next_workspace_id al'" using room_less(3) [OF assms(2)] assms(8) by simp
  show ?thesis
  proof (rule session_append [OF session_mono [OF assms(1,9)] assms(3,4) ok(1) less _ assms(5-7)])
    show "ws_id u \<noteq> ws_id w" if "u \<in> set (workspaces s)" for u
      using ok(4) [OF that] inj by (metis less_irrefl)
    show "n = 0" if key: "hm_get (public_pane_id_aliases s) key \<noteq> None" "key = public_pane_id_for_number (ws_id w) n" for key n
    proof (rule ccontr)
      assume n: "n \<noteq> 0"
      obtain m n' where a: "key = public_pane_id_for_number (generated_id m) n'" "m \<noteq> 0" "n' \<noteq> 0" "m < next_workspace_id al"
        using ok(9) [OF key(1)] unfolding alias_ok_def by blast
      have "ws_id w = generated_id m" using pane_id_inject(1) [OF n a(3)] key(2) a(1) by metis
      then show False using inj [of m] a(2,4) by simp
    qed
  qed
qed

section \<open>A move that is let through\<close>

lemma distinct_ids_nth: "distinct (map ws_id ws) \<Longrightarrow> j < length ws \<Longrightarrow> k < length ws \<Longrightarrow> ws_id (ws ! j) = ws_id (ws ! k) \<longleftrightarrow> j = k"
  using nth_eq_iff_index_eq [of "map ws_id ws" j k] by simp

lemma set_workspace_ids:
  "k < length (workspaces s) \<Longrightarrow> ws_id w = ws_id (workspaces s ! k) \<Longrightarrow>
     map ws_id ((workspaces s)[k := w]) = map ws_id (workspaces s)"
  by (intro nth_equalityI) (auto simp: nth_list_update)

text \<open>A tab other than the one the pane is taken from keeps its place among its siblings.\<close>

lemma same_tab_after_taking:
  assumes "tabs_ok (tabs w) n" "ka < length (tabs w)" "t < length (tabs w)" "t \<noteq> ka"
    "if b then tabs w1 = vec_remove ka (tabs w) else \<exists>t'. tab_without i (tabs w ! ka) t' \<and> tabs w1 = (tabs w)[ka := t']"
  obtains t1 where "t1 < length (tabs w1)" "tabs w1 ! t1 = tabs w ! t"
proof (cases b)
  case False
  then show ?thesis using that [of t] assms(3-5) by auto
next
  case True
  then have e: "tabs w1 = vec_remove ka (tabs w)" using assms(5) by simp
  show ?thesis
  proof (cases "t < ka")
    case True
    then show ?thesis using that [of t] assms(2,3) e by (simp add: vec_remove_def nth_append)
  next
    case False
    then show ?thesis using that [of "t - 1"] assms(2-4) e by (simp add: vec_remove_def nth_append min_def)
  qed
qed

lemma move_within:
  assumes "session_ok (al, s)" "k < length (workspaces s)" "ws_room (workspaces s ! k)"
    "find_tab_index_for_pane i (workspaces s ! k) = Some ka" "public_pane_number i (workspaces s ! k) = Some n"
    "(\<exists>t target d ratio. r = ExistingTab (public_tab_id_for_number (ws_id (workspaces s ! k))
         (tab_number (tabs (workspaces s ! k) ! t))) target d ratio False
         \<and> t < length (tabs (workspaces s ! k)) \<and> t \<noteq> ka \<and> target \<in> set (tab_ids (tabs (workspaces s ! k) ! t)))
     \<or> (\<exists>label. r = NewTab (ws_id (workspaces s ! k)) label)"
  obtains tk s1 tt s2 where "take_for_move k i key False s = Some (Some tk, s1)"
    "place_moved_pane git dir ctx foc (tk_moved tk) r al s1 = (Inr (k, tt, i), al, s2)"
    "moved_well al s (public_pane_id_for_number (ws_id (workspaces s ! k)) n) i al k tt s2"
proof -
  note ok = session_okD [OF assms(1)]
  let ?w = "workspaces s ! k"
  have w: "?w \<in> set (workspaces s)" using assms(2) by simp
  note wok = ok(2) [OF w]
  note ka = find_tab_facts [OF ws_okD(3) [OF wok] assms(4)]
  obtain m where m: "ws_id ?w = generated_id m" using ok(4) [OF w] by blast
  obtain tk w1 p where tk: "take_pane_for_move i ?w = Some (Some tk, w1)"
    "tk_moved tk = \<lparr>mp_pane_id = i, mp_pane_state = p\<rparr>" "hm_get (tab_panes (tabs ?w ! ka)) i = Some p"
    "ws_holding i ?w w1" and left: "if length (tab_ids (tabs ?w ! ka)) \<le> 1 then tabs w1 = vec_remove ka (tabs ?w)
     else \<exists>t'. tab_without i (tabs ?w ! ka) t' \<and> tabs w1 = (tabs ?w)[ka := t']"
    by (rule take_pane_for_move_facts [OF wok assms(4)])
  let ?s1 = "set_workspace k w1 s"
  have take: "take_for_move k i key False s = Some (Some tk, ?s1)" by (simp add: take_for_move_def tk(1) Let_def)
  note h = tk(4) [unfolded ws_holding_def]
  have core: "ws_core {i} w1" and id1: "ws_id w1 = ws_id ?w" and out: "i \<notin> set (ws_panes w1)" and room1: "ws_room w1"
      and act: "if tabs w1 = [] then active_tab w1 = 0 else active_tab w1 < length (tabs w1)"
    using h assms(3) by (simp_all add: ws_room_def)
  have ids: "distinct (map ws_id (workspaces ?s1))" "k < length (workspaces ?s1)" "workspaces ?s1 ! k = w1"
    using ok(3) assms(2) by (simp_all add: set_workspace_ids [OF assms(2) id1])
  have term_in: "(i, attached_terminal_id p) \<in> ws_terminals ?w" by (rule ws_terminals_get [OF wok ka(1) tk(3)])
  have inside: "i \<in> set (ws_panes ?w)" using ka tab_in_ws by blast
  have good: "moved_well al s (public_pane_id_for_number (ws_id ?w) n) i al k tt (set_workspace k w2 s)"
    if "ws_received {i} i (attached_terminal_id p) w1 w2" "tt < length (tabs w2)" "i \<in> set (tab_ids (tabs w2 ! tt))" for w2 tt
    by (rule landed_within [OF assms(1,2) received_back [OF wok tk(4) that(1) term_in inside] that(2,3) assms(5)])
  from assms(6) show ?thesis
  proof (elim disjE exE conjE)
    fix t target d ratio
    assume r: "r = ExistingTab (public_tab_id_for_number (ws_id ?w) (tab_number (tabs ?w ! t))) target d ratio False"
      and t: "t < length (tabs ?w)" "t \<noteq> ka" "target \<in> set (tab_ids (tabs ?w ! t))"
    obtain t1 where t1: "t1 < length (tabs w1)" "tabs w1 ! t1 = tabs ?w ! t"
      by (rule same_tab_after_taking [OF ws_okD(4) [OF wok] ka(1) t(1,2) left])
    have a: "active_tab w1 < length (tabs w1)" using act t1(1) by (auto split: if_splits)
    obtain w2 where "place_moved_pane git dir ctx foc \<lparr>mp_pane_id = i, mp_pane_state = p\<rparr>
        (ExistingTab (public_tab_id_for_number (ws_id w1) (tab_number (tabs w1 ! t1))) target d ratio False) al ?s1
        = (Inr (k, t1, i), al, set_workspace k w2 ?s1)"
      "ws_received {i} i (attached_terminal_id p) w1 w2" "t1 < length (tabs w2)" "i \<in> set (tab_ids (tabs w2 ! t1))"
      by (rule place_in_tab [OF ids _ core subset_refl out room1 a t1(1)]) (use m id1 t(3) t1(2) in auto)
    then show ?thesis by (intro that [OF take _ good]) (simp_all add: r id1 t1(2) tk(2))
  next
    fix label assume r: "r = NewTab (ws_id ?w) label"
    have a: "active_tab w1 \<le> length (tabs w1)" using act by (auto split: if_splits)
    obtain w2 t where "place_moved_pane git dir ctx foc \<lparr>mp_pane_id = i, mp_pane_state = p\<rparr> (NewTab (ws_id w1) label) al ?s1
        = (Inr (k, t, i), al, set_workspace k w2 ?s1)"
      "ws_received {i} i (attached_terminal_id p) w1 w2" "t < length (tabs w2)" "i \<in> set (tab_ids (tabs w2 ! t))"
      by (rule place_in_new_tab [OF ids core subset_refl out room1 a])
    then show ?thesis by (intro that [OF take _ good]) (simp_all add: r id1 tk(2))
  qed
qed

lemma move_across:
  assumes "session_ok (al, s)" "k < length (workspaces s)" "\<forall>w \<in> set (workspaces s). ws_room w"
    "find_tab_index_for_pane i (workspaces s ! k) = Some ka" "public_pane_number i (workspaces s ! k) = Some n"
    "tw < length (workspaces s)" "tw \<noteq> k"
    "(\<exists>t target d ratio. r = ExistingTab (public_tab_id_for_number (ws_id (workspaces s ! tw))
         (tab_number (tabs (workspaces s ! tw) ! t))) target d ratio True
         \<and> t < length (tabs (workspaces s ! tw)) \<and> target \<in> set (tab_ids (tabs (workspaces s ! tw) ! t)))
     \<or> (\<exists>label. r = NewTab (ws_id (workspaces s ! tw)) label)"
  defines "key \<equiv> public_pane_id_for_number (ws_id (workspaces s ! k)) n"
  obtains tk s1 j tt s2 where "take_for_move k i key True s = Some (Some tk, s1)"
    "place_moved_pane git dir ctx foc (tk_moved tk) r al s1 = (Inr (j, tt, i), al, s2)"
    "moved_well al s key i al j tt s2"
proof -
  note ok = session_okD [OF assms(1)]
  let ?u = "workspaces s ! tw"
  have u: "?u \<in> set (workspaces s)" using assms(6) by simp
  obtain tk s1 p where take: "take_for_move k i key True s = Some (Some tk, s1)"
    "tk_moved tk = \<lparr>mp_pane_id = i, mp_pane_state = p\<rparr>" "(i, attached_terminal_id p) \<in> session_terminals s"
    "session_ok (al, s1)" "session_terminals s1 = {e \<in> session_terminals s. fst e \<noteq> i}"
    "available al s1 i (attached_terminal_id p)"
    "public_pane_id_aliases s1 = hm_insert key i (public_pane_id_aliases s)" "pane_id_aliases s1 = pane_id_aliases s"
    "\<forall>u \<in> set (workspaces s). ws_id u \<noteq> ws_id (workspaces s ! k) \<longrightarrow> u \<in> set (workspaces s1)"
    "\<forall>u \<in> set (workspaces s1). u \<in> set (workspaces s) \<or> ws_shrunk {i} (workspaces s ! k) u"
    by (rule take_across [OF assms(1,2,4,5) refl, folded key_def])
  have "ws_id ?u \<noteq> ws_id (workspaces s ! k)" using distinct_ids_nth [OF ok(3) assms(6,2)] assms(7) by simp
  then have "?u \<in> set (workspaces s1)" using take(9) u by blast
  then obtain j where j: "j < length (workspaces s1)" "workspaces s1 ! j = ?u" by (metis in_set_conv_nth)
  note ok1 = session_okD [OF take(4)]
  obtain m where m: "ws_id ?u = generated_id m" using ok(4) [OF u] by blast
  have core: "ws_core {} ?u" and act: "active_tab ?u < length (tabs ?u)" using ws_okD(1,2) [OF ok(2) [OF u]] by simp_all
  have out: "i \<notin> set (ws_panes ?u)" using take(6) j unfolding available_def by (metis nth_mem)
  have room1: "ws_room ?u" using assms(3) u by blast
  have named: "hm_get (public_pane_id_aliases s1) key = Some i" unfolding take(7) by (simp add: hm_simps)
  have good: "moved_well al s key i al j tt (set_workspace j w2 s1)"
    if "ws_received {} i (attached_terminal_id p) ?u w2" "tt < length (tabs w2)" "i \<in> set (tab_ids (tabs w2 ! tt))" for w2 tt
    by (rule landed_across [OF take(4) j(1) _ take(6) _ that(2,3) named take(5) assms(1) take(3)])
      (use j(2) room1 that(1) in simp_all)
  from assms(8) show ?thesis
  proof (elim disjE exE conjE)
    fix t target d ratio
    assume r: "r = ExistingTab (public_tab_id_for_number (ws_id ?u) (tab_number (tabs ?u ! t))) target d ratio True"
      and t: "t < length (tabs ?u)" "target \<in> set (tab_ids (tabs ?u ! t))"
    obtain w2 where "place_moved_pane git dir ctx foc \<lparr>mp_pane_id = i, mp_pane_state = p\<rparr>
        (ExistingTab (public_tab_id_for_number (ws_id ?u) (tab_number (tabs ?u ! t))) target d ratio True) al s1
        = (Inr (j, t, i), al, set_workspace j w2 s1)"
      "ws_received {} i (attached_terminal_id p) ?u w2" "t < length (tabs w2)" "i \<in> set (tab_ids (tabs w2 ! t))"
      by (rule place_in_tab [OF ok1(3) j m core empty_subsetI out room1 act t])
    then show ?thesis by (intro that [OF take(1) _ good]) (simp_all add: r take(2))
  next
    fix label assume r: "r = NewTab (ws_id ?u) label"
    obtain w2 t where "place_moved_pane git dir ctx foc \<lparr>mp_pane_id = i, mp_pane_state = p\<rparr> (NewTab (ws_id ?u) label) al s1
        = (Inr (j, t, i), al, set_workspace j w2 s1)"
      "ws_received {} i (attached_terminal_id p) ?u w2" "t < length (tabs w2)" "i \<in> set (tab_ids (tabs w2 ! t))"
      by (rule place_in_new_tab [OF ok1(3) j core empty_subsetI out room1 less_imp_le [OF act]])
    then show ?thesis by (intro that [OF take(1) _ good]) (simp_all add: r take(2))
  qed
qed

lemma workspace_from_existing_facts:
  assumes "workspace_from_existing_pane git label tab_label dir \<lparr>mp_pane_id = i, mp_pane_state = p\<rparr> al = (w, al')"
  shows "al' = al\<lparr>next_workspace_id := next_workspace_id al + 1\<rparr>" "ws_ok w" "ws_id w = generated_id (next_workspace_id al)"
    "ws_panes w = [i]" "ws_terminals w = {(i, attached_terminal_id p)}" "length (tabs w) = 1" "tab_ids (tabs w ! 0) = [i]"
proof -
  let ?t = "from_existing_pane 1 tab_label \<lparr>mp_pane_id = i, mp_pane_state = p\<rparr>"
  have t: "tab_ok ?t" "tab_number ?t = 1" "tab_ids ?t = [i]"
    by (rule from_existing_pane_ok) (simp_all add: from_existing_pane_def pane_ids_def)
  have root: "root_pane ?t = i" by (simp add: from_existing_pane_def)
  have tm: "pane_terminals (tab_panes ?t) = {(i, attached_terminal_id p)}"
    by (simp add: from_existing_pane_def pane_terminals_def hm_insert_def)
  have w: "w = workspace_of_tab git (generated_id (next_workspace_id al)) label dir ?t"
      "al' = al\<lparr>next_workspace_id := next_workspace_id al + 1\<rparr>"
    using assms by (auto simp: workspace_from_existing_pane_def alloc_workspace_def generate_workspace_id_def generated_id_def)
  have "tab_ids ?t = [root_pane ?t]" unfolding root by (rule t(3))
  note facts = workspace_of_tab_ok [OF t(1,2) this, of git "generated_id (next_workspace_id al)" label dir]
  show "al' = al\<lparr>next_workspace_id := next_workspace_id al + 1\<rparr>" by (rule w(2))
  show "ws_ok w" "ws_id w = generated_id (next_workspace_id al)" unfolding w(1) by (rule facts(1), rule facts(2))
  show "ws_panes w = [i]" unfolding w(1) using facts(3) root by simp
  show "ws_terminals w = {(i, attached_terminal_id p)}" unfolding w(1) using facts(4) tm by simp
  have "tabs w = [?t]" unfolding w(1) by (rule facts(7))
  then show "length (tabs w) = 1" "tab_ids (tabs w ! 0) = [i]" using t(3) by simp_all
qed

lemma move_to_workspace:
  assumes "session_ok (al, s)" "k < length (workspaces s)" "room al"
    "find_tab_index_for_pane i (workspaces s ! k) = Some ka" "public_pane_number i (workspaces s ! k) = Some n"
  defines "key \<equiv> public_pane_id_for_number (ws_id (workspaces s ! k)) n"
  obtains tk s1 j al' s2 where "take_for_move k i key True s = Some (Some tk, s1)"
    "place_moved_pane git dir ctx foc (tk_moved tk) (NewWorkspace label tab_label) al s1 = (Inr (j, 0, i), al', s2)"
    "moved_well al s key i al' j 0 s2"
proof -
  obtain tk s1 p where take: "take_for_move k i key True s = Some (Some tk, s1)"
    "tk_moved tk = \<lparr>mp_pane_id = i, mp_pane_state = p\<rparr>" "(i, attached_terminal_id p) \<in> session_terminals s"
    "session_ok (al, s1)" "session_terminals s1 = {e \<in> session_terminals s. fst e \<noteq> i}"
    "available al s1 i (attached_terminal_id p)"
    "public_pane_id_aliases s1 = hm_insert key i (public_pane_id_aliases s)" "pane_id_aliases s1 = pane_id_aliases s"
    "\<forall>u \<in> set (workspaces s). ws_id u \<noteq> ws_id (workspaces s ! k) \<longrightarrow> u \<in> set (workspaces s1)"
    "\<forall>u \<in> set (workspaces s1). u \<in> set (workspaces s) \<or> ws_shrunk {i} (workspaces s ! k) u"
    by (rule take_across [OF assms(1,2,4,5) refl, folded key_def])
  obtain w al' where w: "workspace_from_existing_pane git label tab_label dir \<lparr>mp_pane_id = i, mp_pane_state = p\<rparr> al = (w, al')"
    by fastforce
  note f = workspace_from_existing_facts [OF w]
  let ?s2 = "s1\<lparr>workspaces := workspaces s1 @ [w]\<rparr>"
  have le: "al_le al al'" using room_less(3) [OF assms(3)] by (simp add: f(1) al_le_def)
  have av: "available al' s1 i (attached_terminal_id p)"
    using take(6) allocated_mono [OF _ le] by (simp add: available_def f(1))
  have ok2: "session_ok (al', ?s2)"
    by (rule append_fresh_workspace [OF take(4) assms(3) f(2,3) av f(4,5) _ le]) (simp add: f(1))
  have "session_terminals ?s2 = insert (i, attached_terminal_id p) (session_terminals s1)"
    using f(5) by (auto simp: session_terminals_def)
  then have terms: "session_terminals ?s2 = session_terminals s"
    using insert_back [OF take(3) session_terminals_function [OF assms(1) take(3)]] by (simp add: take(5))
  have "hm_get (public_pane_id_aliases ?s2) key = Some i" using take(7) by (simp add: hm_simps)
  then have "pane_named key i ?s2" by (simp add: pane_named_def)
  then have good: "moved_well al s key i al' (length (workspaces s1)) 0 ?s2"
    using ok2 le terms f(6,7) by (simp add: moved_well_def pane_at_def)
  show ?thesis by (rule that [OF take(1) _ good]) (simp add: place_moved_pane_def take(2) w)
qed

section \<open>The request\<close>

lemma move_to_facts:
  assumes "session_ok (al, s)" "k < length (workspaces s)" "room al" "\<forall>w \<in> set (workspaces s). ws_room w"
    "find_tab_index_for_pane i (workspaces s ! k) = Some ka" "public_pane_number i (workspaces s ! k) = Some n"
    "resolve_destination k ka (ws_id (workspaces s ! k)) dest s = Some (Inr r)"
  defines "key \<equiv> public_pane_id_for_number (ws_id (workspaces s ! k)) n"
  obtains tw tt al' s' where
    "move_to git terminals here k ka i key tid r foc al s = Some (Inr (tw, tt, i), al', s')"
    "moved_well al s key i al' tw tt s'"
proof -
  note ok = session_okD [OF assms(1)]
  let ?w = "workspaces s ! k"
  let ?dir = "case hm_get terminals tid of Some ts \<Rightarrow> cwd ts | None \<Rightarrow> here"
  let ?ctx = "\<lparr>source_ws_idx = k, previous_workspace_id = ws_id ?w, previous_workspace_label = custom_name ?w,
    previous_tab_label = tab_custom_name (tabs ?w ! ka), previous_worktree_space = worktree_space ?w,
    previous_identity_cwd = identity_cwd ?w\<rparr>"
  have all: "\<forall>w \<in> set (workspaces s). ws_ok w" using ok(2) by blast
  have "\<exists>tk s1 tw tt al' s2. take_for_move k i key (crosses_workspaces (ws_id ?w) r) s = Some (Some tk, s1)
     \<and> place_moved_pane git ?dir ?ctx foc (tk_moved tk) r al s1 = (Inr (tw, tt, i), al', s2)
     \<and> moved_well al s key i al' tw tt s2"
  proof (cases rule: resolve_destination_cases [OF assms(7) refl assms(2) all, case_names tab new_tab new_workspace])
    case (tab tw tt target d ratio)
    show ?thesis
    proof (cases "tw = k")
      case True
      show ?thesis
        by (rule move_within [OF assms(1,2) _ assms(5,6), where r = r and git = git and dir = ?dir and ctx = ?ctx and foc = foc and key = key])
          (use tab True assms(2,4) in \<open>auto simp: key_def\<close>)
    next
      case False
      show ?thesis
        by (rule move_across [OF assms(1,2,4,5,6) tab(2) False, where r = r and git = git and dir = ?dir and ctx = ?ctx and foc = foc, folded key_def])
          (use tab False in auto)
    qed
  next
    case (new_tab tw label)
    show ?thesis
    proof (cases "tw = k")
      case True
      show ?thesis
        by (rule move_within [OF assms(1,2) _ assms(5,6), where r = r and git = git and dir = ?dir and ctx = ?ctx and foc = foc and key = key])
          (use new_tab True assms(2,4) in \<open>auto simp: key_def\<close>)
    next
      case False
      then have ne: "ws_id (workspaces s ! tw) \<noteq> ws_id ?w" using distinct_ids_nth [OF ok(3) new_tab(2) assms(2)] by simp
      show ?thesis
        by (rule move_across [OF assms(1,2,4,5,6) new_tab(2) False, where r = r and git = git and dir = ?dir and ctx = ?ctx and foc = foc, folded key_def])
          (use new_tab ne in auto)
    qed
  next
    case (new_workspace label tab_label)
    show ?thesis
      by (rule move_to_workspace [OF assms(1-3,5,6), where git = git and dir = ?dir and ctx = ?ctx and foc = foc and label = label and tab_label = tab_label, folded key_def])
        (use new_workspace in auto)
  qed
  then obtain tk s1 tw tt al' s2 where m: "take_for_move k i key (crosses_workspaces (ws_id ?w) r) s = Some (Some tk, s1)"
     "place_moved_pane git ?dir ?ctx foc (tk_moved tk) r al s1 = (Inr (tw, tt, i), al', s2)"
     "moved_well al s key i al' tw tt s2" by blast
  let ?s3 = "if foc \<or> active s2 = None then show_tab tw tt s2 else s2"
  have "moved_well al s key i al' tw tt ?s3" using m(3) show_tab_well [OF m(3)] by simp
  then have "moved_well al s key i al' tw tt (?s3\<lparr>pane_id_aliases := hm_remove i (pane_id_aliases ?s3)\<rparr>)"
    by (rule moved_well_frame [rotated 2]) simp_all
  moreover have "move_to git terminals here k ka i key tid r foc al s
      = Some (Inr (tw, tt, i), al', ?s3\<lparr>pane_id_aliases := hm_remove i (pane_id_aliases ?s3)\<rparr>)"
    unfolding move_to_def Let_def m(1) option.case prod.case m(2) sum.case by (rule refl)
  ultimately show ?thesis by (rule that [rotated])
qed

lemma handle_pane_move_cases:
  assumes "session_ok (al, s)" "room al" "\<forall>w \<in> set (workspaces s). ws_room w"
  obtains (refused) why where "handle_pane_move git terminals here pane_ref dest foc al s = Some (Inl why, al, s)"
  | (missing_workspace) i label k where "handle_pane_move git terminals here pane_ref dest foc al s = None"
      "dest = ToNewTab (Some i) label" "parse_workspace_id i s = Some k" "length (workspaces s) \<le> k"
  | (moved) k i n tw tt al' s' where
      "handle_pane_move git terminals here pane_ref dest foc al s = Some (Inr (tw, tt, i), al', s')"
      "parse_pane_id pane_ref s = Some (k, i)" "k < length (workspaces s)"
      "public_pane_number i (workspaces s ! k) = Some n"
      "moved_well al s (public_pane_id_for_number (ws_id (workspaces s ! k)) n) i al' tw tt s'"
proof (cases "parse_pane_id pane_ref s")
  case None
  then show ?thesis by (intro refused) (simp add: handle_pane_move_def)
next
  case (Some e)
  obtain k i where p: "parse_pane_id pane_ref s = Some (k, i)" using Some by (cases e) simp
  note ok = session_okD [OF assms(1)]
  let ?w = "workspaces s ! k"
  have k: "k < length (workspaces s)" by (rule parse_pane_id_there [OF p])
  then have w: "?w \<in> set (workspaces s)" by simp
  show ?thesis
  proof (cases "find_tab_index_for_pane i ?w")
    case None
    then show ?thesis by (intro refused) (simp add: handle_pane_move_def p)
  next
    case (Some ka)
    note ka = find_tab_facts [OF ws_okD(3) [OF ok(2) [OF w]] Some]
    have inside: "i \<in> set (ws_panes ?w)" using ka tab_in_ws by blast
    obtain n where n: "public_pane_number i ?w = Some n" by (rule registered_number [OF ok(2) [OF w] inside])
    have pid: "public_pane_id k i s = Some (public_pane_id_for_number (ws_id ?w) n)"
      using k n by (simp add: public_pane_id_def vec_get_def)
    show ?thesis
    proof (cases "public_tab_id k ka s = None \<or> tab_terminal_id i (tabs ?w ! ka) = None \<or> zoomed (tabs ?w ! ka)")
      case True
      then show ?thesis using refused
        by (cases "public_tab_id k ka s"; cases "tab_terminal_id i (tabs ?w ! ka)") (simp_all add: handle_pane_move_def p Some)
    next
      case False
      then obtain tid where tid: "tab_terminal_id i (tabs ?w ! ka) = Some tid" by auto
      have eq: "handle_pane_move git terminals here pane_ref dest foc al s
        = (case resolve_destination k ka (ws_id ?w) dest s of
             None \<Rightarrow> None | Some (Inl refusal) \<Rightarrow> Some (Inl refusal, al, s)
           | Some (Inr r) \<Rightarrow> move_to git terminals here k ka i (public_pane_id_for_number (ws_id ?w) n) tid r foc al s)"
        using False by (auto simp: handle_pane_move_def p Some tid pid split: option.splits sum.splits)
      show ?thesis
      proof (cases "resolve_destination k ka (ws_id ?w) dest s")
        case None
        obtain i label j where "dest = ToNewTab (Some i) label" "parse_workspace_id i s = Some j"
            "public_workspace_id j s = None"
          using None by (auto simp: resolve_destination_def split: pane_move_destination.splits option.splits)
        moreover have "handle_pane_move git terminals here pane_ref dest foc al s = None" by (simp add: eq None)
        ultimately show ?thesis by (intro missing_workspace) (auto simp: public_workspace_id_def vec_get_def split: if_splits)
      next
        case (Some res)
        show ?thesis
        proof (cases res)
          case (Inl why)
          then show ?thesis by (intro refused) (simp add: eq Some)
        next
          case (Inr r)
          have r: "resolve_destination k ka (ws_id ?w) dest s = Some (Inr r)" using Some Inr by simp
          obtain tw tt al' s' where mv:
            "move_to git terminals here k ka i (public_pane_id_for_number (ws_id ?w) n) tid r foc al s
               = Some (Inr (tw, tt, i), al', s')"
            "moved_well al s (public_pane_id_for_number (ws_id ?w) n) i al' tw tt s'"
            by (rule move_to_facts [OF assms(1) k assms(2,3) \<open>find_tab_index_for_pane i ?w = Some ka\<close> n r])
          have "handle_pane_move git terminals here pane_ref dest foc al s = Some (Inr (tw, tt, i), al', s')"
            by (simp add: eq r mv(1))
          from moved [OF this p k n mv(2)] show ?thesis .
        qed
      qed
    qed
  qed
qed

end
