(* ===== verification/App_Invariant.thy ===== *)
theory App_Invariant
  imports Session_Requests Session_Pane_Move
begin

text \<open>
  The invariant of the whole: the session is in order, the active and the selected workspace
  are there, the recorded terminals are exactly the attached ones, and a terminal that was
  handed over for shutdown is attached to no pane. The lemmas say which
  changes of the session keep it: those that keep the panes, those that add one with its
  terminal, and those after which the terminals that are no longer attached are removed.
\<close>

section \<open>The invariant\<close>

definition cursor_ok :: "'g session \<Rightarrow> bool" where
  "cursor_ok s \<longleftrightarrow>
     (if workspaces s = [] then active s = None \<and> selected s = 0
      else (\<exists>k. active s = Some k \<and> k < length (workspaces s)) \<and> selected s < length (workspaces s))"

text \<open>The terminals that were detached: their shutdown is requested or done.\<close>

definition handed :: "'g app \<Rightarrow> text set" where
  "handed a = set (terminal_runtime_shutdowns a) \<union> set (runtimes_shut_down a)"

lemma handed_session [simp]: "handed (a\<lparr>app_session := s\<rparr>) = handed a" "handed (a\<lparr>terminals := ts\<rparr>) = handed a"
  "handed (shutdown_detached_terminal_runtimes a) = handed a"
  by (auto simp: handed_def shutdown_detached_terminal_runtimes_def)

definition app_ok :: "allocators \<times> 'g app \<Rightarrow> bool" where
  "app_ok st \<longleftrightarrow> (case st of (al, a) \<Rightarrow>
     session_ok (al, app_session a) \<and> cursor_ok (app_session a) \<and> hm_wf (terminals a)
     \<and> fst ` set (terminals a) = snd ` session_terminals (app_session a)
     \<and> (\<forall>t \<in> handed a. allocated_terminal al t \<and> t \<notin> snd ` session_terminals (app_session a)))"

lemma app_okD:
  assumes "app_ok (al, a)"
  shows "session_ok (al, app_session a)" "cursor_ok (app_session a)" "hm_wf (terminals a)"
    "fst ` set (terminals a) = snd ` session_terminals (app_session a)"
    "\<forall>t \<in> handed a. allocated_terminal al t \<and> t \<notin> snd ` session_terminals (app_session a)"
  using assms by (simp_all add: app_ok_def)

lemma app_shutdown [simp]: "app_ok (al, shutdown_detached_terminal_runtimes a) = app_ok (al, a)"
  unfolding app_ok_def prod.case handed_session by (simp add: shutdown_detached_terminal_runtimes_def)

section \<open>Changes that keep the panes\<close>

definition kept :: "allocators \<Rightarrow> 'g session \<Rightarrow> 'g session \<Rightarrow> bool" where
  "kept al s s' \<longleftrightarrow> session_ok (al, s') \<and> cursor_ok s' \<and> session_terminals s' = session_terminals s"

lemma kept_refl: "session_ok (al, s) \<Longrightarrow> cursor_ok s \<Longrightarrow> kept al s s"
  by (simp add: kept_def)

lemma kept_trans: "kept al s s1 \<Longrightarrow> kept al s1 s2 \<Longrightarrow> kept al s s2"
  by (simp add: kept_def)

lemma app_kept:
  "app_ok (al, a) \<Longrightarrow> kept al (app_session a) s' \<Longrightarrow> app_ok (al, a\<lparr>app_session := s'\<rparr>)"
  by (simp add: app_ok_def kept_def)

lemma app_mono: "app_ok (al, a) \<Longrightarrow> al_le al al' \<Longrightarrow> app_ok (al', a)"
  by (auto simp: app_ok_def intro: session_mono allocated_mono)

text \<open>A workspace is replaced by one with the same panes.\<close>

lemma kept_workspace:
  assumes "session_ok (al, s)" "cursor_ok s" "k < length (workspaces s)" "ws_same (workspaces s ! k) w"
  shows "kept al s (set_workspace k w s)"
proof -
  have "session_terminals (set_workspace k w s) = session_terminals s"
    using set_workspace_terminals(2) [OF assms(3)] assms(4) by (simp add: ws_same_def)
  moreover have "cursor_ok (set_workspace k w s)"
    using assms(2,3) by (auto simp: cursor_ok_def split: if_splits)
  ultimately show ?thesis using session_same [OF assms(1,3,4)] by (simp add: kept_def)
qed

lemma kept_show:
  assumes "session_ok (al, s)" "cursor_ok s"
  shows "kept al s (show_tab k t s)" "kept al s (switch_workspace k s)"
proof -
  have go: "kept al s (set_workspace k (switch_tab t (workspaces s ! k)) (s\<lparr>active := Some k, selected := k\<rparr>))"
    if k: "k < length (workspaces s)" for t
  proof -
    let ?s = "s\<lparr>active := Some k, selected := k\<rparr>"
    have "session_ok (al, ?s)" using assms(1) by (rule session_ok_frame [THEN iffD1, rotated 2]) simp_all
    moreover have "cursor_ok ?s" using k by (auto simp: cursor_ok_def)
    moreover have "ws_same (workspaces s ! k) (switch_tab t (workspaces s ! k))"
      using session_okD(2) [OF assms(1)] k by (simp add: switch_tab_same)
    ultimately have "kept al ?s (set_workspace k (switch_tab t (workspaces s ! k)) ?s)"
      by (intro kept_workspace) (simp_all add: k)
    then show ?thesis by (simp add: kept_def session_terminals_def)
  qed
  show "kept al s (show_tab k t s)" using go kept_refl [OF assms] by (simp add: show_tab_def)
  show "kept al s (switch_workspace k s)" using go kept_refl [OF assms] by (simp add: switch_workspace_def)
qed

lemma get_tab_Some:
  "get_tab k t s = Some tb \<longleftrightarrow> k < length (workspaces s) \<and> t < length (tabs (workspaces s ! k)) \<and> tb = tabs (workspaces s ! k) ! t"
  by (auto simp: get_tab_def vec_get_def bind_eq_Some_conv)

lemma kept_tab:
  assumes "session_ok (al, s)" "cursor_ok s" "get_tab k t s = Some tb"
    "tab_ok tb \<Longrightarrow> tab_ok tb'" "tab_number tb' = tab_number tb" "set (tab_ids tb') = set (tab_ids tb)"
    "pane_terminals (tab_panes tb') = pane_terminals (tab_panes tb)"
  shows "kept al s (set_tab k t tb' s)"
proof -
  have k: "k < length (workspaces s)" "t < length (tabs (workspaces s ! k))" "tb = tabs (workspaces s ! k) ! t"
    using assms(3) by (simp_all add: get_tab_Some)
  have w: "ws_ok (workspaces s ! k)" using session_okD(2) [OF assms(1)] k(1) by simp
  have "tab_ok tb" using ws_okD(3) [OF w] k(2,3) by simp
  then have "ws_same (workspaces s ! k) ((workspaces s ! k)\<lparr>tabs := (tabs (workspaces s ! k))[t := tb']\<rparr>)"
    using assms(4-7) k(3) by (intro replace_tab_same [OF w k(2)]) simp_all
  then show ?thesis unfolding set_tab_def by (rule kept_workspace [OF assms(1,2) k(1)])
qed

lemma kept_focus:
  assumes "session_ok (al, s)" "cursor_ok s"
  shows "kept al s (snd (focus_pane_in_workspace k i s))"
proof -
  have "kept al s (set_tab k t (tb\<lparr>tab_layout := focus_pane i (tab_layout tb)\<rparr>) (show_tab k t s))"
    if tb: "get_tab k t (show_tab k t s) = Some tb" for t tb
  proof (rule kept_trans [OF kept_show(1) [OF assms, of k t]])
    have "session_ok (al, show_tab k t s)" "cursor_ok (show_tab k t s)"
      using kept_show(1) [OF assms, of k t] by (simp_all add: kept_def)
    then show "kept al (show_tab k t s) (set_tab k t (tb\<lparr>tab_layout := focus_pane i (tab_layout tb)\<rparr>) (show_tab k t s))"
      by (rule kept_tab [OF _ _ tb]) (simp_all add: tab_ok_def)
  qed
  then show ?thesis
    using kept_refl [OF assms] kept_show(1) [OF assms]
    by (auto simp: focus_pane_in_workspace_def Let_def split: option.split)
qed

lemma kept_seen:
  assumes "session_ok (al, s)" "cursor_ok s"
  shows "kept al s (snd (mark_active_tab_seen s))"
proof -
  have "kept al s (set_tab k t (tb\<lparr>tab_panes := hm_map_values (\<lambda>_ p. p\<lparr>seen := True\<rparr>) (tab_panes tb)\<rparr>) s)"
    if "get_tab k t s = Some tb" for k t tb
    by (rule kept_tab [OF assms that]) (simp_all add: tab_ok_def pane_terminals_seen)
  then show ?thesis
    using kept_refl [OF assms]
    by (auto simp: mark_active_tab_seen_def active_tab_of_def get_tab_def vec_get_def split: option.split bind_splits if_splits)
qed

lemma kept_zoom:
  assumes "session_ok (al, s)" "cursor_ok s" "apply_pane_zoom k i command s = (outcome, s')"
  shows "kept al s s'"
proof -
  let ?s1 = "snd (focus_pane_in_workspace k i s)"
  have one: "kept al s ?s1" by (rule kept_focus [OF assms(1,2)])
  then have ok1: "session_ok (al, ?s1)" "cursor_ok ?s1" by (simp_all add: kept_def)
  have two: "kept al s (set_tab k t (tb\<lparr>zoomed := z\<rparr>) ?s1)" if "get_tab k t ?s1 = Some tb" for t tb z
    by (rule kept_trans [OF one kept_tab [OF ok1 that]]) (simp_all add: tab_ok_def)
  have "s' = s \<or> s' = ?s1 \<or> (\<exists>t tb z. get_tab k t ?s1 = Some tb \<and> s' = set_tab k t (tb\<lparr>zoomed := z\<rparr>) ?s1)"
  proof (cases "Option.bind (vec_get (workspaces s) k) (find_tab_index_for_pane i)")
    case None
    then show ?thesis using assms(3) by (simp add: apply_pane_zoom_def)
  next
    case (Some t)
    obtain fc s1 where f: "focus_pane_in_workspace k i s = (fc, s1)" by fastforce
    note e = assms(3) [unfolded apply_pane_zoom_def Some option.case f Let_def prod.case]
    show ?thesis
    proof (cases "get_tab k t s1")
      case None
      then show ?thesis using e f by simp
    next
      case (Some tb)
      then have "s' = s1 \<or> (\<exists>z. s' = set_tab k t (tb\<lparr>zoomed := z\<rparr>) s1)" using e by (auto split: if_splits)
      then show ?thesis using f Some by auto
    qed
  qed
  then show ?thesis using kept_refl [OF assms(1,2)] one two by blast
qed

section \<open>The order of the workspaces\<close>

lemma session_permuted:
  assumes "session_ok (al, s)" "mset ws = mset (workspaces s)"
  shows "session_ok (al, s\<lparr>workspaces := ws\<rparr>)" "session_terminals (s\<lparr>workspaces := ws\<rparr>) = session_terminals s"
proof -
  have set: "set ws = set (workspaces s)" using assms(2) by (rule mset_eq_setD)
  then show T: "session_terminals (s\<lparr>workspaces := ws\<rparr>) = session_terminals s" by (simp add: session_terminals_def)
  have "mset (map ws_id ws) = mset (map ws_id (workspaces s))" using assms(2) by simp
  then have "distinct (map ws_id ws) = distinct (map ws_id (workspaces s))" by (rule mset_eq_imp_distinct_iff)
  then have d: "distinct (map ws_id (workspaces (s\<lparr>workspaces := ws\<rparr>)))" using session_okD(3) [OF assms(1)] by simp
  have al: "alias_ok al ws key = alias_ok al (workspaces s) key" for key by (simp only: alias_ok_def set)
  note ok = session_okD [OF assms(1)]
  have sel: "workspaces (s\<lparr>workspaces := ws\<rparr>) = ws"
    "public_pane_id_aliases (s\<lparr>workspaces := ws\<rparr>) = public_pane_id_aliases s" by simp_all
  show "session_ok (al, s\<lparr>workspaces := ws\<rparr>)"
    by (rule session_okI [OF ok(1) _ d]) (unfold sel set al T, (rule ok; assumption)+)
qed

lemma index_of_member: "w \<in> set ws \<Longrightarrow> \<exists>k. index_of_workspace (ws_id w) ws = Some k \<and> k < length ws \<and> ws_id (ws ! k) = ws_id w"
proof -
  assume "w \<in> set ws"
  then have "index_of_workspace (ws_id w) ws \<noteq> None" by (auto simp: index_of_workspace_def position_None_iff)
  then show ?thesis by (auto simp: index_of_workspace_def dest: position_SomeD)
qed

lemma index_of_less: "index_of_workspace i ws = Some k \<Longrightarrow> k < length ws"
  by (auto simp: index_of_workspace_def dest: position_SomeD)

lemma kept_reordered:
  assumes "session_ok (al, s)" "cursor_ok s" "mset ws = mset (workspaces s)" "active_workspace_id s = Some active_id"
  shows "kept al s (follow_by_id active_id selected_id (s\<lparr>workspaces := ws\<rparr>))"
proof -
  note p = session_permuted [OF assms(1,3)]
  have set: "set ws = set (workspaces s)" and len: "length ws = length (workspaces s)"
    using assms(3) by (auto dest: mset_eq_setD mset_eq_length)
  have sel: "unwrap_or (Option.bind selected_id (\<lambda>i. index_of_workspace i ws)) 0 < length ws" if "ws \<noteq> []"
    using that index_of_less by (cases "Option.bind selected_id (\<lambda>i. index_of_workspace i ws)") (auto simp: bind_eq_Some_conv)
  have "cursor_ok (follow_by_id active_id selected_id (s\<lparr>workspaces := ws\<rparr>))"
  proof (cases "ws = []")
    case True
    then show ?thesis using assms(2,4) len
      by (auto simp: cursor_ok_def follow_by_id_def active_workspace_id_def index_of_workspace_def position_def split: option.splits bind_splits)
  next
    case False
    then obtain k where k: "active s = Some k" "k < length (workspaces s)" using assms(2) len by (auto simp: cursor_ok_def split: if_splits)
    then have "active_id = Some (ws_id (workspaces s ! k))" "workspaces s ! k \<in> set ws"
      using assms(4) set by (simp_all add: active_workspace_id_def vec_get_def)
    then show ?thesis using index_of_member [of "workspaces s ! k" ws] sel [OF False] False
      by (auto simp: cursor_ok_def follow_by_id_def)
  qed
  moreover have "session_ok (al, follow_by_id active_id selected_id (s\<lparr>workspaces := ws\<rparr>))"
    using p(1) by (rule session_ok_frame [THEN iffD1, rotated 2]) (simp_all add: follow_by_id_def)
  moreover have "session_terminals (follow_by_id active_id selected_id (s\<lparr>workspaces := ws\<rparr>)) = session_terminals s"
    using p(2) by (simp add: session_terminals_def follow_by_id_def)
  ultimately show ?thesis by (simp add: kept_def)
qed

text \<open>Neither order panics: the active workspace is there.\<close>

lemma active_id_there: "cursor_ok s \<Longrightarrow> \<exists>i. active_workspace_id s = Some i"
  by (auto simp: cursor_ok_def active_workspace_id_def vec_get_def split: if_splits option.split)

lemma kept_move_workspace:
  assumes "session_ok (al, s)" "cursor_ok s"
  obtains moved s' where "move_workspace j k s = Some (moved, s')" "kept al s s'"
proof -
  obtain i where i: "active_workspace_id s = Some i" using active_id_there [OF assms(2)] by blast
  let ?t = "if j < k then k - 1 else k"
  let ?s = "follow_by_id i (selected_workspace_id s) (s\<lparr>workspaces := vec_insert ?t (workspaces s ! j) (vec_remove j (workspaces s))\<rparr>)"
  have "kept al s ?s" if "j < length (workspaces s)"
    by (rule kept_reordered [OF assms mset_move [OF that] i])
  moreover have "move_workspace j k s = Some (False, s) \<or> (j < length (workspaces s) \<and> move_workspace j k s = Some (True, ?s))"
    using i by (simp add: move_workspace_def Let_def)
  ultimately show ?thesis using that kept_refl [OF assms] by blast
qed

lemma kept_move_block:
  assumes "session_ok (al, s)" "cursor_ok s"
  obtains moved s' where "move_workspace_block ids before s = Some (moved, s')" "kept al s s'"
proof -
  obtain i where i: "active_workspace_id s = Some i" using active_id_there [OF assms(2)] by blast
  let ?f = "\<lambda>w. unwrap_or (hm_get (desired_positions (desired_order ids before s)) (ws_id w)) (2 ^ 64 - 1)"
  let ?s = "follow_by_id i (selected_workspace_id s) (s\<lparr>workspaces := sort_key ?f (workspaces s)\<rparr>)"
  have "kept al s ?s" by (rule kept_reordered [OF assms _ i]) simp
  moreover have "move_workspace_block ids before s = Some (False, s) \<or> move_workspace_block ids before s = Some (True, ?s)"
    using i by (simp add: move_workspace_block_def Let_def)
  ultimately show ?thesis using that kept_refl [OF assms] by blast
qed

end
