(* ===== verification/App_Closing.thy ===== *)
theory App_Closing
  imports App_Invariant
begin

text \<open>
  Closing panes, tabs and workspaces, and starting new ones: the recorded terminals stay exactly
  the attached ones, and a terminal that is detached is handed over for shutdown.
\<close>

section \<open>Detached terminals\<close>

lemma still_attached_iff: "still_attached tid (workspaces s) \<longleftrightarrow> tid \<in> snd ` session_terminals s"
  unfolding still_attached_def session_terminals_def ws_terminals_def pane_terminals_def hm_values_def
  by (force simp: list_ex_iff image_iff)

lemma remove_unattached_id:
  "app_session (remove_unattached_terminal_id tid a) = app_session a"
  "hm_wf (terminals a) \<Longrightarrow> hm_wf (terminals (remove_unattached_terminal_id tid a))"
  "fst ` set (terminals (remove_unattached_terminal_id tid a))
     = fst ` set (terminals a) - ({tid} - snd ` session_terminals (app_session a))"
  by (cases "tid \<in> snd ` session_terminals (app_session a)"; cases "tid \<in> fst ` set (terminals a)";
      simp add: remove_unattached_terminal_id_def Let_def still_attached_iff keys_remove hm_contains_iff hm_get_None_iff;
      blast?)+

lemma remove_unattached_handed:
  "handed (remove_unattached_terminal_id tid a) = handed a
     \<union> ({tid} - snd ` session_terminals (app_session a)) \<inter> fst ` set (terminals a)"
  by (cases "tid \<in> snd ` session_terminals (app_session a)"; cases "tid \<in> fst ` set (terminals a)";
      cases "tid \<in> set (terminal_runtime_shutdowns a)";
      simp add: remove_unattached_terminal_id_def Let_def still_attached_iff hm_contains_iff hm_get_None_iff handed_def)
    auto

lemma remove_unattached_simps [simp]:
  "remove_unattached_terminal_ids [] a = a"
  "remove_unattached_terminal_ids (t # ts) a = remove_unattached_terminal_ids ts (remove_unattached_terminal_id t a)"
  by (simp_all add: remove_unattached_terminal_ids_def)

lemma remove_unattached_session [simp]: "app_session (remove_unattached_terminal_ids tids a) = app_session a"
  by (induction tids arbitrary: a) (simp_all add: remove_unattached_id)

lemma remove_unattached_wf: "hm_wf (terminals a) \<Longrightarrow> hm_wf (terminals (remove_unattached_terminal_ids tids a))"
  by (induction tids arbitrary: a) (simp_all add: remove_unattached_id)

lemma remove_unattached_keys:
  "fst ` set (terminals (remove_unattached_terminal_ids tids a))
     = fst ` set (terminals a) - (set tids - snd ` session_terminals (app_session a))"
proof (induction tids arbitrary: a)
  case (Cons t ts)
  show ?case unfolding remove_unattached_simps Cons remove_unattached_id by auto
qed simp

lemma remove_unattached_shutdowns:
  "handed (remove_unattached_terminal_ids tids a) = handed a
     \<union> (set tids - snd ` session_terminals (app_session a)) \<inter> fst ` set (terminals a)"
proof (induction tids arbitrary: a)
  case (Cons t ts)
  show ?case unfolding remove_unattached_simps Cons remove_unattached_handed remove_unattached_id by auto
qed simp

text \<open>Panes go, their terminals are named: what is left is again exactly what is attached.\<close>

lemma app_shrinks:
  assumes "app_ok (al, a)" "session_ok (al, s')" "cursor_ok s'" "session_terminals s' \<subseteq> session_terminals (app_session a)"
    "snd ` session_terminals (app_session a) \<subseteq> snd ` session_terminals s' \<union> set tids"
    "session_terminals s1 = session_terminals s'"
  shows "app_ok (al, (remove_unattached_terminal_ids tids (a\<lparr>app_session := s1\<rparr>))\<lparr>app_session := s'\<rparr>)"
proof -
  note ok = app_okD [OF assms(1)]
  have sub: "snd ` session_terminals s' \<subseteq> snd ` session_terminals (app_session a)" using assms(4) by (rule image_mono)
  then have keys: "snd ` session_terminals (app_session a) - (set tids - snd ` session_terminals s') = snd ` session_terminals s'"
    using assms(5) by blast
  have "\<forall>t \<in> handed a \<union> (set tids - snd ` session_terminals s') \<inter> snd ` session_terminals (app_session a).
      allocated_terminal al t \<and> t \<notin> snd ` session_terminals s'"
  proof (rule ballI, erule UnE)
    fix t
    assume "t \<in> handed a"
    then show "allocated_terminal al t \<and> t \<notin> snd ` session_terminals s'" using ok(5) sub by blast
  next
    fix t
    assume t: "t \<in> (set tids - snd ` session_terminals s') \<inter> snd ` session_terminals (app_session a)"
    then obtain e where "e \<in> session_terminals (app_session a)" "t = snd e" by blast
    then show "allocated_terminal al t \<and> t \<notin> snd ` session_terminals s'" using session_okD(8) [OF ok(1)] t by simp
  qed
  then show ?thesis
    using assms(2,3,6) ok(3,4) keys by (simp add: app_ok_def remove_unattached_keys remove_unattached_wf remove_unattached_shutdowns)
qed

lemma app_shrinks_to:
  assumes "app_ok (al, a)" "session_ok (al, s')" "cursor_ok s'" "session_terminals s' \<subseteq> session_terminals (app_session a)"
    "snd ` session_terminals (app_session a) \<subseteq> snd ` session_terminals s' \<union> set tids"
  shows "app_ok (al, remove_unattached_terminal_ids tids (a\<lparr>app_session := s'\<rparr>))"
proof -
  let ?r = "remove_unattached_terminal_ids tids (a\<lparr>app_session := s'\<rparr>)"
  have "app_session ?r = s'" by simp
  then have r: "?r\<lparr>app_session := s'\<rparr> = ?r" by (metis app.surjective app.update_convs(1) app.select_convs(1))
  show ?thesis using app_shrinks [OF assms refl] unfolding r .
qed

text \<open>A pane with a new terminal.\<close>

lemma app_grows:
  assumes "app_ok (al, a)" "session_ok (al', s')" "cursor_ok s'" "ts_id t = tid"
    "session_terminals s' = insert (i, tid) (session_terminals (app_session a))"
    "al_le al al'" "clock_in_range micros" "tid = fst (terminal_id_alloc micros (next_terminal_id al))"
  shows "app_ok (al', register_terminal t (a\<lparr>app_session := s'\<rparr>))"
proof -
  note ok = app_okD [OF assms(1)]
  have "allocated_terminal al' x \<and> x \<noteq> tid \<and> x \<notin> snd ` session_terminals (app_session a)"
    if "x \<in> handed a" for x
    using that ok(5) allocated_mono [OF _ assms(6)] fresh_terminal [OF assms(7)] unfolding assms(8) by blast
  then show ?thesis using assms(2-5) ok(3,4) by (simp add: app_ok_def register_terminal_def keys_insert)
qed

section \<open>Workspaces are closed\<close>

lemma remove_indices_facts:
  assumes "sorted_wrt (>) ks" "\<forall>k \<in> set ks. k < length xs"
  obtains ys where "remove_indices ks xs = Some ys" "mset ys + mset (map ((!) xs) ks) = mset xs"
    "length ys = length xs - length ks"
  using assms
proof (induction ks arbitrary: xs thesis)
  case Nil
  then show ?case by simp
next
  case (Cons k ks)
  have k: "k < length xs" and less: "\<forall>j \<in> set ks. j < k" and sorted: "sorted_wrt (>) ks" using Cons.prems(2,3) by simp_all
  have below: "vec_remove k xs ! j = xs ! j" if "j \<in> set ks" for j
    using less that k by (simp add: vec_remove_def nth_append)
  have len: "length (vec_remove k xs) = length xs - 1" using k by (simp add: vec_remove_def)
  then have bound: "\<forall>j \<in> set ks. j < length (vec_remove k xs)" using less k by auto
  obtain ys where ys: "remove_indices ks (vec_remove k xs) = Some ys"
      "mset ys + mset (map ((!) (vec_remove k xs)) ks) = mset (vec_remove k xs)"
      "length ys = length (vec_remove k xs) - length ks"
    using Cons.IH [OF _ sorted bound] by blast
  have "map ((!) (vec_remove k xs)) ks = map ((!) xs) ks" using below by simp
  moreover have "add_mset (xs ! k) (mset (vec_remove k xs)) = mset xs"
    by (rule vec_split [OF k]) auto
  ultimately have "mset ys + mset (map ((!) xs) (k # ks)) = mset xs" using ys(2) by (metis list.simps(9) mset.simps(2) union_mset_add_mset_right)
  then show ?case using Cons.prems(1) [of ys] ys(1,3) k len by simp
qed

lemma session_remove_indices:
  "session_ok (al, s\<lparr>workspaces := xs\<rparr>) \<Longrightarrow> remove_indices ks xs = Some ys \<Longrightarrow> session_ok (al, s\<lparr>workspaces := ys\<rparr>)"
proof (induction ks arbitrary: xs)
  case (Cons k ks)
  have k: "k < length xs" and r: "remove_indices ks (vec_remove k xs) = Some ys" using Cons.prems(2) by (auto split: if_splits)
  have "session_ok (al, s\<lparr>workspaces := vec_remove k xs\<rparr>)" using session_remove [OF Cons.prems(1), of k] k by simp
  then show ?case using Cons.IH r by blast
qed simp

lemma close_indices_facts:
  assumes "selected s < length (workspaces s)"
  shows "sorted_wrt (>) (rev (close_indices s))" "\<forall>k \<in> set (close_indices s). k < length (workspaces s)" "close_indices s \<noteq> []"
proof -
  let ?g = "\<lambda>key. filter (\<lambda>k. in_group key (workspaces s ! k)) [0..<length (workspaces s)]"
  have "close_indices s = [selected s] \<or> (\<exists>key. close_indices s = ?g key \<and> ?g key \<noteq> [])"
    unfolding close_indices_def Let_def by (auto split: option.split bind_splits)
  moreover have "sorted_wrt (<) (?g key)" for key by (intro sorted_wrt_filter) simp
  moreover have "sorted_wrt (>) (rev ks) = sorted_wrt (<) ks" for ks :: "nat list" by (simp add: sorted_wrt_rev)
  moreover have "\<forall>k \<in> set (?g key). k < length (workspaces s)" for key by simp
  ultimately show "sorted_wrt (>) (rev (close_indices s))" "\<forall>k \<in> set (close_indices s). k < length (workspaces s)" "close_indices s \<noteq> []"
    using assms by (metis (no_types, lifting) sorted_wrt1, metis empty_iff empty_set set_ConsD, metis list.distinct(1))
qed

lemma ws_terminal_ids: "set (concat (map tab_terminal_ids (tabs w))) = snd ` ws_terminals w"
  by (force simp: tab_terminal_ids_def ws_terminals_def pane_terminals_def hm_values_def image_iff)

lemma terminal_ids_for_workspace_set:
  "k < length (workspaces s) \<Longrightarrow> set (terminal_ids_for_workspace k s) = snd ` ws_terminals (workspaces s ! k)"
  unfolding terminal_ids_for_workspace_def vec_get_def using ws_terminal_ids by simp

lemma close_selected_facts:
  assumes "app_ok (al, a)"
  obtains a' where "close_selected_workspace a = Some a'" "app_ok (al, a')"
    "set (workspaces (app_session a')) \<subseteq> set (workspaces (app_session a))"
proof (cases "workspaces (app_session a) = []")
  case True
  then show ?thesis using that [of a] assms by (simp add: close_selected_workspace_def)
next
  case False
  note ok = app_okD [OF assms]
  let ?s = "app_session a" and ?ks = "close_indices (app_session a)"
  let ?tids = "concat (map (\<lambda>k. terminal_ids_for_workspace k ?s) ?ks)"
  have sel: "selected ?s < length (workspaces ?s)" using ok(2) False by (simp add: cursor_ok_def)
  note ks = close_indices_facts [OF sel]
  have bound: "\<forall>k \<in> set (rev ?ks). k < length (workspaces ?s)" using ks(2) by simp
  obtain ws where ws: "remove_indices (rev ?ks) (workspaces ?s) = Some ws"
      "mset ws + mset (map ((!) (workspaces ?s)) (rev ?ks)) = mset (workspaces ?s)"
    by (rule remove_indices_facts [OF ks(1) bound])
  have "set ws \<union> set (map ((!) (workspaces ?s)) (rev ?ks)) = set (workspaces ?s)"
    using arg_cong [OF ws(2), of set_mset] by (simp only: set_mset_union set_mset_mset)
  then have members: "set (workspaces ?s) = set ws \<union> (!) (workspaces ?s) ` set ?ks" by simp
  let ?a1 = "remove_unattached_terminal_ids ?tids (a\<lparr>app_session := ?s\<lparr>workspaces := ws\<rparr>\<rparr>)"
  let ?new = "if ws = [] then ?s\<lparr>workspaces := ws, active := None, selected := 0\<rparr>
     else let sel = (case Option.bind (map_option ws_id (Option.bind (active ?s) (vec_get (workspaces ?s))))
                (\<lambda>i. index_of_workspace i ws) of Some k \<Rightarrow> k | None \<Rightarrow> selected ?s);
              sel1 = (if sel \<ge> length ws then length ws - 1 else sel)
          in ?s\<lparr>workspaces := ws, active := Some sel1, selected := sel1\<rparr>"
  have eq: "close_selected_workspace a = Some (?a1\<lparr>app_session := ?new\<rparr>)"
    using False ws(1) by (simp add: close_selected_workspace_def Let_def)
  have tids: "set ?tids = (\<Union>k \<in> set ?ks. snd ` ws_terminals (workspaces ?s ! k))"
    using ks(2) terminal_ids_for_workspace_set [of _ ?s] by auto
  have st: "session_terminals (?s\<lparr>workspaces := ws\<rparr>) = (\<Union>w \<in> set ws. ws_terminals w)"
    by (simp add: session_terminals_def)
  have all: "session_terminals ?s = session_terminals (?s\<lparr>workspaces := ws\<rparr>)
      \<union> (\<Union>k \<in> set ?ks. ws_terminals (workspaces ?s ! k))"
    unfolding st unfolding session_terminals_def members by auto
  have rem: "session_ok (al, ?s\<lparr>workspaces := ws\<rparr>)"
    by (rule session_remove_indices [OF _ ws(1)]) (use ok(1) in simp)
  have "session_terminals ?new = session_terminals (?s\<lparr>workspaces := ws\<rparr>)"
    by (simp add: session_terminals_def Let_def)
  moreover have "session_ok (al, ?new)"
    using rem by (rule session_ok_frame [THEN iffD1, rotated 2]) (simp_all add: Let_def)
  moreover have "cursor_ok ?new" by (simp add: cursor_ok_def Let_def)
  moreover have "snd ` session_terminals ?s \<subseteq> snd ` session_terminals (?s\<lparr>workspaces := ws\<rparr>) \<union> set ?tids"
    unfolding tids all by (simp only: image_Un image_UN)
  moreover have "session_terminals (?s\<lparr>workspaces := ws\<rparr>) \<subseteq> session_terminals ?s" unfolding all by blast
  ultimately have "app_ok (al, ?a1\<lparr>app_session := ?new\<rparr>)" by (intro app_shrinks [OF assms]) simp_all
  moreover have "set (workspaces (app_session (?a1\<lparr>app_session := ?new\<rparr>))) \<subseteq> set (workspaces ?s)"
    unfolding members by (simp add: Let_def)
  ultimately show ?thesis using that [OF eq] by blast
qed

lemma close_workspace_at_facts:
  assumes "app_ok (al, a)" "k < length (workspaces (app_session a))"
  obtains a' where "close_workspace_at k a = Some a'" "app_ok (al, a')"
    "set (workspaces (app_session a')) \<subseteq> set (workspaces (app_session a))"
proof -
  note ok = app_okD [OF assms(1)]
  let ?s = "(app_session a)\<lparr>selected := k\<rparr>"
  have "session_ok (al, ?s)" using ok(1) by (rule session_ok_frame [THEN iffD1, rotated 2]) simp_all
  moreover have "cursor_ok ?s" using ok(2) assms(2) by (auto simp: cursor_ok_def split: if_splits)
  moreover have "session_terminals ?s = session_terminals (app_session a)" by (simp add: session_terminals_def)
  ultimately have "app_ok (al, a\<lparr>app_session := ?s\<rparr>)" using ok(3-5) by (simp add: app_ok_def)
  from close_selected_facts [OF this] that show ?thesis by (auto simp: close_workspace_at_def)
qed

end
