(* ===== verification/App_Requests.thy ===== *)
theory App_Requests
  imports App_Closing
begin

text \<open>
  Every request keeps the invariant of the whole and none of them panics, whatever is asked for,
  with one exception in \<open>app_pane_move\<close>.
\<close>

section \<open>Requests that keep the panes\<close>

lemma named_workspace_less: "named_workspace i s = Some k \<Longrightarrow> k < length (workspaces s)"
  by (auto simp: named_workspace_def split: option.splits if_splits)

lemma kept_rename:
  assumes "session_ok (al, s)" "cursor_ok s" "k < length (workspaces s)"
  shows "kept al s (set_workspace k (ws_set_custom_name name (workspaces s ! k)) s)"
  using session_okD(2) [OF assms(1)] assms(3) by (intro kept_workspace [OF assms]) (simp add: rename_same)

lemma workspace_focus_kept:
  assumes "session_ok (al, s)" "cursor_ok s" "handle_workspace_focus i s = (res, s')"
  shows "kept al s s'"
  using assms(3) kept_refl [OF assms(1,2)] kept_show(2) [OF assms(1,2)]
  by (auto simp: handle_workspace_focus_def split: option.splits)

lemma workspace_rename_kept:
  assumes "session_ok (al, s)" "cursor_ok s" "handle_workspace_rename i label s = (res, s')"
  shows "kept al s s'"
  using assms(3) kept_refl [OF assms(1,2)] kept_rename [OF assms(1,2)]
  by (auto simp: handle_workspace_rename_def dest: named_workspace_less split: option.splits)

lemma workspace_move_kept:
  assumes "session_ok (al, s)" "cursor_ok s"
  obtains res s' where "handle_workspace_move i j s = Some (res, s')" "kept al s s'"
proof (cases "named_workspace i s")
  case None
  then show ?thesis using that kept_refl [OF assms] by (simp add: handle_workspace_move_def)
next
  case (Some k)
  obtain moved s' where "move_workspace k j s = Some (moved, s')" "kept al s s'" by (rule kept_move_workspace [OF assms])
  then show ?thesis
    using Some that [of "Inl IndexOutOfBounds" s] that [of "Inr moved" s'] kept_refl [OF assms]
    by (cases "j > length (workspaces s)") (simp_all add: handle_workspace_move_def)
qed

lemma workspace_move_block_kept:
  assumes "session_ok (al, s)" "cursor_ok s"
  obtains res s' where "handle_workspace_move_block requested before s = Some (res, s')" "kept al s s'"
proof -
  have r: "kept al s s" by (rule kept_refl [OF assms])
  show ?thesis
  proof (cases "requested = []")
    case True
    then show ?thesis using that r by (simp add: handle_workspace_move_block_def)
  next
    case ne: False
    show ?thesis
    proof (cases "block_ids requested [] s :: 'b refusal + text list")
      case (Inl why)
      then show ?thesis using ne that [of "Inl why" s] r by (simp add: handle_workspace_move_block_def)
    next
      case found: (Inr found)
      show ?thesis
      proof (cases "block_before before found s :: 'b refusal + text option")
        case (Inl why)
        then show ?thesis using ne found that [of "Inl why" s] r by (simp add: handle_workspace_move_block_def)
      next
        case (Inr before_id)
        obtain moved s' where "move_workspace_block found before_id s = Some (moved, s')" "kept al s s'"
          by (rule kept_move_block [OF assms])
        then show ?thesis using ne found Inr that [of "Inr moved" s'] by (simp add: handle_workspace_move_block_def)
      qed
    qed
  qed
qed

lemma tab_focus_kept:
  assumes "session_ok (al, s)" "cursor_ok s" "handle_tab_focus i s = (res, s')"
  shows "kept al s s'"
  using assms(3) kept_refl [OF assms(1,2)] kept_show(1) [OF assms(1,2)]
  by (auto simp: handle_tab_focus_def split: option.splits)

lemma set_tab_name_kept:
  "session_ok (al, s) \<Longrightarrow> cursor_ok s \<Longrightarrow> get_tab k t s = Some tb \<Longrightarrow> kept al s (set_tab k t (set_tab_name name tb) s)"
  by (rule kept_tab) (simp_all add: set_tab_name_def tab_ok_def)

lemma tab_rename_kept:
  assumes "session_ok (al, s)" "cursor_ok s" "handle_tab_rename i label s = (res, s')"
  shows "kept al s s'"
  using assms(3) kept_refl [OF assms(1,2)] set_tab_name_kept [OF assms(1,2)]
  by (auto simp: handle_tab_rename_def split: option.splits)

lemma tab_move_kept:
  assumes "session_ok (al, s)" "cursor_ok s" "handle_tab_move i j s = (res, s')"
  shows "kept al s s'"
proof -
  have "kept al s (set_workspace k (snd (move_tab t j (workspaces s ! k))) s)" if "k < length (workspaces s)" for k t
    using session_okD(2) [OF assms(1)] that by (intro kept_workspace [OF assms(1,2) that]) (simp add: move_tab_same)
  then show ?thesis
    using assms(3) kept_refl [OF assms(1,2)]
    by (auto simp: handle_tab_move_def vec_get_def case_prod_beta' Let_def split: option.splits if_splits)
qed

lemma pane_focus_kept:
  assumes "session_ok (al, s)" "cursor_ok s" "handle_pane_focus r s = (res, s')"
  shows "kept al s s'"
proof -
  have "kept al s (snd (mark_active_tab_seen (snd (focus_pane_in_workspace k i s))))" for k i
    using kept_focus [OF assms(1,2), of k i] kept_seen by (intro kept_trans [OF kept_focus [OF assms(1,2)]]) (auto simp: kept_def)
  then show ?thesis
    using assms(3) kept_refl [OF assms(1,2)] by (auto simp: handle_pane_focus_def split: option.splits if_splits)
qed

lemma pane_zoom_kept:
  assumes "session_ok (al, s)" "cursor_ok s" "handle_pane_zoom r command s = (res, s')"
  shows "kept al s s'"
  using assms(3) kept_refl [OF assms(1,2)] kept_zoom [OF assms(1,2)]
  by (auto simp: handle_pane_zoom_def split: option.splits if_splits prod.splits)

section \<open>Closing\<close>

lemma shrunk_workspace:
  assumes "session_ok (al, s)" "cursor_ok s" "k < length (workspaces s)" "ws_shrunk P (workspaces s ! k) w"
    "P \<subseteq> set (ws_panes (workspaces s ! k))"
  shows "session_ok (al, set_workspace k w s)" "cursor_ok (set_workspace k w s)"
    "session_terminals (set_workspace k w s) = {e \<in> session_terminals s. fst e \<notin> P}"
proof -
  show "session_ok (al, set_workspace k w s)" by (rule session_shrunk [OF assms(1,3,4)])
  show "cursor_ok (set_workspace k w s)" using assms(2,3) by (auto simp: cursor_ok_def split: if_splits)
  show "session_terminals (set_workspace k w s) = {e \<in> session_terminals s. fst e \<notin> P}"
    by (rule session_terminals_shrunk [OF assms(1,3,5)]) (use assms(4) in \<open>simp add: ws_shrunk_def\<close>)
qed

lemma terminal_in_workspace:
  assumes "session_ok (al, s)" "k < length (workspaces s)" "i \<in> set (ws_panes (workspaces s ! k))" "(i, tid) \<in> session_terminals s"
  shows "(i, tid) \<in> ws_terminals (workspaces s ! k)"
proof -
  note ok = session_okD [OF assms(1)]
  obtain w where w: "w \<in> set (workspaces s)" "(i, tid) \<in> ws_terminals w" using assms(4) by (auto simp: session_terminals_def)
  then obtain j where j: "j < length (workspaces s)" "workspaces s ! j = w" by (metis in_set_conv_nth)
  have "i \<in> set (ws_panes w)" using ws_terminals_keys [OF ok(2) [OF w(1)]] w(2) by force
  then have "j = k" using session_unique [OF assms(1) j(1) assms(2)] j(2) assms(3) by simp
  then show ?thesis using w(2) j(2) by simp
qed

lemma terminal_ids_for_tab_set:
  "get_tab k t s = Some tb \<Longrightarrow> set (terminal_ids_for_tab k t s) = snd ` pane_terminals (tab_panes tb)"
  by (force simp: terminal_ids_for_tab_def tab_terminal_ids_def pane_terminals_def hm_values_def image_iff)

lemma tab_terminal:
  assumes "ws_ok w" "t < length (tabs w)" "i \<in> set (tab_ids (tabs w ! t))" "(i, tid) \<in> ws_terminals w"
  shows "(i, tid) \<in> pane_terminals (tab_panes (tabs w ! t))"
proof -
  have "tab_ok (tabs w ! t)" using ws_okD(3) [OF assms(1)] assms(2) by simp
  then obtain p where "hm_get (tab_panes (tabs w ! t)) i = Some p" "hm_wf (tab_panes (tabs w ! t))"
    using assms(3) tab_ok_panes(2) [of "tabs w ! t" i] by (auto simp: tab_ok_def)
  then have "(i, attached_terminal_id p) \<in> pane_terminals (tab_panes (tabs w ! t))" by (auto simp: pane_terminals_iff)
  moreover have "(i, attached_terminal_id p) \<in> ws_terminals w"
    using calculation assms(2) by (auto simp: ws_terminals_def)
  ultimately show ?thesis using ws_terminals_function [OF assms(1,4)] by metis
qed

lemma confirm_kept:
  assumes "session_ok (al, s)" "cursor_ok s" "k < length (workspaces s)"
    "confirm_implicit_worktree_group_close confirm k s = (asked, s')"
  shows "kept al s s'"
proof -
  have "session_ok (al, s\<lparr>selected := k\<rparr>)" using assms(1) by (rule session_ok_frame [THEN iffD1, rotated 2]) simp_all
  moreover have "cursor_ok (s\<lparr>selected := k\<rparr>)" using assms(2,3) by (auto simp: cursor_ok_def split: if_splits)
  ultimately show ?thesis using assms kept_refl [OF assms(1,2)]
    by (auto simp: confirm_implicit_worktree_group_close_def kept_def session_terminals_def split: if_splits)
qed

lemma tab_close_kept:
  assumes "app_ok (al, a)"
  obtains res a' where "handle_tab_close confirm i a = Some (res, a')" "app_ok (al, a')"
proof -
  note ok = app_okD [OF assms]
  let ?s = "app_session a"
  show ?thesis
  proof (cases "parse_tab_id i ?s")
    case None
    then show ?thesis using that assms by (simp add: handle_tab_close_def)
  next
    case (Some e)
    obtain k t where p: "parse_tab_id i ?s = Some (k, t)" using Some by (cases e) simp
    note there = parse_tab_id_there [OF p]
    let ?w = "workspaces ?s ! k"
    have get: "vec_get (workspaces ?s) k = Some ?w" using there by (simp add: vec_get_def)
    have wok: "ws_ok ?w" using session_okD(2) [OF ok(1)] there by simp
    show ?thesis
    proof (cases "length (tabs ?w) \<le> 1")
      case True
      obtain asked s1 where c: "confirm_implicit_worktree_group_close confirm k ?s = (asked, s1)" by fastforce
      have s1: "app_ok (al, a\<lparr>app_session := s1\<rparr>)"
        by (rule app_kept [OF assms confirm_kept [OF ok(1,2) _ c]]) (use there in simp)
      obtain a' where "close_workspace_at k a = Some a'" "app_ok (al, a')"
        using close_workspace_at_facts [OF assms] there by metis
      then show ?thesis using that [OF _ s1, of "Inl ConfirmationRequired"] that [of "Inr (k, t)" "shutdown_detached_terminal_runtimes a'"] p get True c
        by (cases asked) (simp_all add: handle_tab_close_def)
    next
      case False
      from wok show ?thesis
      proof (cases rule: close_tab_cases [where k = t])
        case 1
        then show ?thesis using that [OF _ assms] p get False by (simp add: handle_tab_close_def)
      next
        case (2 w')
        let ?P = "set (tab_ids (tabs ?w ! t))" and ?tids = "terminal_ids_for_tab k t ?s"
        have sub: "?P \<subseteq> set (ws_panes ?w)" by (rule tab_in_ws [OF 2(2)])
        have kl: "k < length (workspaces ?s)" using there by simp
        note sh = shrunk_workspace [OF ok(1,2) kl 2(3) sub]
        have g: "get_tab k t ?s = Some (tabs ?w ! t)" using there by (simp add: get_tab_Some)
        have "app_ok (al, remove_unattached_terminal_ids ?tids (a\<lparr>app_session := set_workspace k w' ?s\<rparr>))"
        proof (rule app_shrinks_to [OF assms sh(1,2)])
          show "session_terminals (set_workspace k w' ?s) \<subseteq> session_terminals ?s" unfolding sh(3) by blast
          show "snd ` session_terminals ?s \<subseteq> snd ` session_terminals (set_workspace k w' ?s) \<union> set ?tids"
          proof
            fix x assume "x \<in> snd ` session_terminals ?s"
            then obtain j where j: "(j, x) \<in> session_terminals ?s" by auto
            show "x \<in> snd ` session_terminals (set_workspace k w' ?s) \<union> set ?tids"
            proof (cases "j \<in> ?P")
              case True
              then have "j \<in> set (ws_panes ?w)" using sub by blast
              then have "(j, x) \<in> ws_terminals ?w" by (rule terminal_in_workspace [OF ok(1) kl _ j])
              then have "(j, x) \<in> pane_terminals (tab_panes (tabs ?w ! t))" by (rule tab_terminal [OF wok 2(2) True])
              then show ?thesis unfolding terminal_ids_for_tab_set [OF g] by force
            next
              case False
              then show ?thesis unfolding sh(3) using j by force
            qed
          qed
        qed
        then show ?thesis using that p get False 2(1) by (simp add: handle_tab_close_def Let_def)
      qed
    qed
  qed
qed

lemma find_map_tab_Some: "find_map_tab f ts = Some x \<Longrightarrow> \<exists>t \<in> set ts. f t = Some x"
  by (induction ts) (auto split: option.splits)

lemma ws_pane_state_terminal:
  assumes "ws_ok w" "ws_pane_state i w = Some p"
  shows "(i, attached_terminal_id p) \<in> ws_terminals w"
proof -
  obtain t where t: "t \<in> set (tabs w)" "hm_get (tab_panes t) i = Some p"
    using find_map_tab_Some [OF assms(2) [unfolded ws_pane_state_def]] by blast
  then have "hm_wf (tab_panes t)" using ws_okD(3) [OF assms(1)] by (simp add: tab_ok_def)
  then have "(i, attached_terminal_id p) \<in> pane_terminals (tab_panes t)" using pane_terminals_iff t(2) by blast
  then show ?thesis using t(1) unfolding ws_terminals_def by blast
qed

text \<open>A pane that is removed is the only one its terminal was attached to.\<close>

lemma terminal_id_of_pane:
  assumes "session_ok (al, s)" "k < length (workspaces s)" "(i, tid) \<in> session_terminals s"
    "i \<in> set (ws_panes (workspaces s ! k))"
  shows "terminal_id_for_pane k i s = Some tid"
proof -
  have w: "ws_ok (workspaces s ! k)" using session_okD(2) [OF assms(1)] assms(2) by simp
  obtain p where p: "ws_pane_state i (workspaces s ! k) = Some p" using ws_pane_state_None [OF w] assms(4) by auto
  have "(i, attached_terminal_id p) \<in> ws_terminals (workspaces s ! k)" by (rule ws_pane_state_terminal [OF w p])
  then have "attached_terminal_id p = tid"
    using ws_terminals_function [OF w] terminal_in_workspace [OF assms(1,2,4,3)] by metis
  then show ?thesis using p assms(2) by (simp add: terminal_id_for_pane_def vec_get_def)
qed

lemma removed_pane_app:
  assumes "app_ok (al, a)" "session_ok (al, s)" "cursor_ok s" "session_terminals s = session_terminals (app_session a)"
    "k < length (workspaces s)" "ws_shrunk {i} (workspaces s ! k) w" "i \<in> set (ws_panes (workspaces s ! k))"
  shows "app_ok (al, remove_unattached_terminal_ids (case terminal_id_for_pane k i s of Some t \<Rightarrow> [t] | None \<Rightarrow> [])
    (a\<lparr>app_session := set_workspace k w s\<rparr>))"
proof -
  note sh = shrunk_workspace [OF assms(2,3,5,6)]
  have sub: "{i} \<subseteq> set (ws_panes (workspaces s ! k))" using assms(7) by simp
  show ?thesis
  proof (rule app_shrinks_to [OF assms(1) sh(1) [OF sub] sh(2) [OF sub]], unfold assms(4) [symmetric] sh(3) [OF sub])
    show "snd ` session_terminals s \<subseteq> snd ` {e \<in> session_terminals s. fst e \<notin> {i}}
        \<union> set (case terminal_id_for_pane k i s of Some t \<Rightarrow> [t] | None \<Rightarrow> [])"
    proof
      fix x assume "x \<in> snd ` session_terminals s"
      then obtain j where j: "(j, x) \<in> session_terminals s" by auto
      show "x \<in> snd ` {e \<in> session_terminals s. fst e \<notin> {i}} \<union> set (case terminal_id_for_pane k i s of Some t \<Rightarrow> [t] | None \<Rightarrow> [])"
      proof (cases "j = i")
        case True
        then have "(i, x) \<in> session_terminals s" using j by simp
        from terminal_id_of_pane [OF assms(2,5) this assms(7)] show ?thesis by simp
      next
        case False
        then show ?thesis using j by force
      qed
    qed
  qed blast
qed

lemma pane_close_kept:
  assumes "app_ok (al, a)"
  obtains res a' where "close_pane confirm r a = Some (res, a')" "app_ok (al, a')"
proof -
  note ok = app_okD [OF assms]
  let ?s = "app_session a"
  show ?thesis
  proof (cases "parse_pane_id r ?s")
    case None
    then show ?thesis using that assms by (simp add: close_pane_def)
  next
    case (Some e)
    obtain k i where p: "parse_pane_id r ?s = Some (k, i)" using Some by (cases e) simp
    have k: "k < length (workspaces ?s)" by (rule parse_pane_id_there [OF p])
    let ?w = "workspaces ?s ! k"
    have wok: "ws_ok ?w" using session_okD(2) [OF ok(1)] k by simp
    obtain asked s1 where c: "(if close_pane_would_close_workspace k i ?s
        then confirm_implicit_worktree_group_close confirm k ?s else (False, ?s)) = (asked, s1)" by fastforce
    then have "kept al ?s s1"
      using confirm_kept [OF ok(1,2) k] kept_refl [OF ok(1,2)] by (auto split: if_splits)
    then have s1: "app_ok (al, a\<lparr>app_session := s1\<rparr>)" by (rule app_kept [OF assms])
    show ?thesis
    proof (cases "public_pane_id k i ?s = None \<or> asked")
      case True
      then show ?thesis using that [OF _ assms, of "Inl NoPane"] that [OF _ s1, of "Inl ConfirmationRequired"] p c
        by (cases "public_pane_id k i ?s") (simp_all add: close_pane_def Let_def)
    next
      case False
      then obtain n where pub: "public_pane_id k i ?s = Some n" "\<not> asked" by auto
      then have "hm_get (public_pane_numbers ?w) i \<noteq> None"
        using k by (auto simp: public_pane_id_def vec_get_def public_pane_number_def split: bind_splits)
      then have inside: "i \<in> set (ws_panes ?w)" using ws_okD(6) [OF wok] by (simp add: hm_get_None_iff)
      from wok show ?thesis
      proof (cases rule: remove_pane_cases [where i = i])
        case absent
        then show ?thesis using inside by simp
      next
        case last
        obtain a' where "close_workspace_at k a = Some a'" "app_ok (al, a')"
          by (rule close_workspace_at_facts [OF assms k])
        moreover have same: "a\<lparr>app_session := set_workspace k ?w ?s\<rparr> = a" by (simp add: set_workspace_def)
        ultimately show ?thesis using that [of "Inr (k, i)" "shutdown_detached_terminal_runtimes a'"] p c pub last(1)
          by (simp add: close_pane_def ws_close_pane_def Let_def same)
      next
        case (removed w')
        from removed_pane_app [OF assms ok(1,2) refl k removed(3) inside] show ?thesis
          using that p c pub removed(1) by (simp add: close_pane_def ws_close_pane_def Let_def)
      qed
    qed
  qed
qed

lemma drop_aliases_simps [simp]:
  "workspaces (drop_aliases i s) = workspaces s" "active (drop_aliases i s) = active s"
  "selected (drop_aliases i s) = selected s" "session_terminals (drop_aliases i s) = session_terminals s"
  "cursor_ok (drop_aliases i s) = cursor_ok s" "terminal_id_for_pane k j (drop_aliases i s) = terminal_id_for_pane k j s"
  by (simp_all add: drop_aliases_def session_terminals_def cursor_ok_def terminal_id_for_pane_def)

lemma drop_aliases_ok:
  assumes "session_ok (al, s)"
  shows "session_ok (al, drop_aliases i s)"
proof -
  note ok = session_okD [OF assms]
  have fewer: "hm_get (public_pane_id_aliases s) key \<noteq> None" if "hm_get (public_pane_id_aliases (drop_aliases i s)) key \<noteq> None" for key
    using that by (auto simp: drop_aliases_def hm_retain_def hm_get_None_iff)
  have d: "distinct (map ws_id (workspaces (drop_aliases i s)))" using ok(3) by simp
  show ?thesis
  proof (rule session_okI [OF ok(1) _ d], unfold drop_aliases_simps)
    show "alias_ok al (workspaces s) key" if "hm_get (public_pane_id_aliases (drop_aliases i s)) key \<noteq> None" for key
      by (rule ok(9) [OF fewer [OF that]])
  qed (rule ok; assumption)+
qed

lemma forget_workspace_facts:
  assumes "session_ok (al, s)" "cursor_ok s" "k < length (workspaces s)"
  shows "session_ok (al, forget_workspace k s)" "cursor_ok (forget_workspace k s)"
    "session_terminals (forget_workspace k s) \<subseteq> session_terminals s"
    "session_terminals s \<subseteq> session_terminals (forget_workspace k s) \<union> ws_terminals (workspaces s ! k)"
proof -
  have ws: "workspaces (forget_workspace k s) = vec_remove k (workspaces s)"
    "public_pane_id_aliases (forget_workspace k s) = public_pane_id_aliases s"
    by (simp_all add: forget_workspace_def Let_def)
  show "session_ok (al, forget_workspace k s)"
    using session_remove [OF assms(1,3)] by (rule session_ok_frame [THEN iffD1, rotated 2]) (simp_all add: ws)
  obtain xs w ys where e: "workspaces s = xs @ w # ys" "workspaces s ! k = w" "vec_remove k (workspaces s) = xs @ ys"
    using vec_split [OF assms(3)] by metis
  show "session_terminals (forget_workspace k s) \<subseteq> session_terminals s"
    unfolding session_terminals_def ws e(3) by (auto simp: e(1))
  show "session_terminals s \<subseteq> session_terminals (forget_workspace k s) \<union> ws_terminals (workspaces s ! k)"
    unfolding session_terminals_def ws e(2,3) by (auto simp: e(1))
  show "cursor_ok (forget_workspace k s)"
  proof (cases "vec_remove k (workspaces s) = []")
    case True
    then show ?thesis by (simp add: cursor_ok_def forget_workspace_def Let_def)
  next
    case False
    obtain j where "active s = Some j" using assms(2,3) by (auto simp: cursor_ok_def split: if_splits)
    then have "\<exists>x. (case Option.bind (map_option ws_id (Option.bind (active s) (vec_get (workspaces s))))
        (\<lambda>i. index_of_workspace i (vec_remove k (workspaces s))) of Some k \<Rightarrow> Some k | None \<Rightarrow> active s) = Some x"
      by (simp split: option.split)
    then obtain x where x: "(case Option.bind (map_option ws_id (Option.bind (active s) (vec_get (workspaces s))))
        (\<lambda>i. index_of_workspace i (vec_remove k (workspaces s))) of Some k \<Rightarrow> Some k | None \<Rightarrow> active s) = Some x" by blast
    let ?n = "length (vec_remove k (workspaces s))"
    have "active (forget_workspace k s) = Some (if x \<ge> ?n then ?n - 1 else x)"
      using False x by (simp add: forget_workspace_def Let_def)
    moreover have "selected (forget_workspace k s) < ?n" using False by (simp add: forget_workspace_def Let_def)
    ultimately show ?thesis using False by (simp add: cursor_ok_def ws)
  qed
qed

lemma pane_died_kept:
  assumes "app_ok (al, a)"
  obtains a' where "handle_pane_died i a = Some a'" "app_ok (al, a')"
proof -
  note ok = app_okD [OF assms]
  let ?s = "app_session a" and ?s1 = "drop_aliases i (app_session a)"
  show ?thesis
  proof (cases "position (\<lambda>w. find_tab_index_for_pane i w \<noteq> None) (workspaces ?s)")
    case None
    then show ?thesis using that assms by (simp add: handle_pane_died_def)
  next
    case (Some k)
    from position_SomeD [OF Some] have k: "k < length (workspaces ?s)" and f: "find_tab_index_for_pane i (workspaces ?s ! k) \<noteq> None"
      by auto
    let ?w = "workspaces ?s ! k"
    have wok: "ws_ok ?w" using session_okD(2) [OF ok(1)] k by simp
    have inside: "i \<in> set (ws_panes ?w)" using f find_tab_None [OF ws_okD(3) [OF wok], of i] by simp
    have s1: "session_ok (al, ?s1)" "cursor_ok ?s1" "session_terminals ?s1 = session_terminals ?s" "k < length (workspaces ?s1)"
      using drop_aliases_ok [OF ok(1)] ok(2) k by simp_all
    from wok show ?thesis
    proof (cases rule: remove_pane_cases [where i = i])
      case absent
      then show ?thesis using inside by simp
    next
      case last
      have same: "set_workspace k ?w ?s1 = ?s1" by (simp add: set_workspace_def drop_aliases_def)
      note fw = forget_workspace_facts [OF s1(1,2,4)]
      let ?a' = "remove_unattached_terminal_ids (terminal_ids_for_workspace k ?s) (a\<lparr>app_session := forget_workspace k ?s1\<rparr>)"
      have "app_ok (al, ?a')"
      proof (rule app_shrinks_to [OF assms fw(1,2)])
        show "session_terminals (forget_workspace k ?s1) \<subseteq> session_terminals ?s" using fw(3) s1(3) by simp
        have "session_terminals ?s \<subseteq> session_terminals (forget_workspace k ?s1) \<union> ws_terminals ?w" using fw(4) by simp
        from image_mono [OF this, of snd]
        show "snd ` session_terminals ?s \<subseteq> snd ` session_terminals (forget_workspace k ?s1) \<union> set (terminal_ids_for_workspace k ?s)"
          unfolding terminal_ids_for_workspace_set [OF k] image_Un .
      qed
      moreover have "handle_pane_died i a = Some ?a'"
        using Some last(1) by (simp add: handle_pane_died_def Let_def same)
      ultimately show ?thesis using that by blast
    next
      case (removed w')
      from removed_pane_app [OF assms s1(1,2,3,4), of i w'] removed(3) inside show ?thesis
        using that Some removed(1) by (simp add: handle_pane_died_def Let_def)
    qed
  qed
qed

end
