(* ===== verification/App_Starts.thy ===== *)
theory App_Starts
  imports App_Requests
begin

text \<open>
  Requests that start a process, and the move of a pane: each keeps the invariant, whether the
  process starts or not. Identifiers come from counters that have not wrapped round.
\<close>

section \<open>Counters\<close>

lemma al_steps:
  assumes "room al"
  shows "al_le al (al\<lparr>next_pane_id := next_pane_id al + 1\<rparr>)"
    "al_le al (al\<lparr>next_pane_id := next_pane_id al + 1, next_terminal_id := next_terminal_id al + 1\<rparr>)"
    "al_le al (al\<lparr>next_workspace_id := next_workspace_id al + 1\<rparr>)"
    "al_le al (al\<lparr>next_workspace_id := next_workspace_id al + 1, next_pane_id := next_pane_id al + 1\<rparr>)"
    "al_le al (al\<lparr>next_workspace_id := next_workspace_id al + 1, next_pane_id := next_pane_id al + 1,
       next_terminal_id := next_terminal_id al + 1\<rparr>)"
  using room_less [OF assms, THEN less_imp_le] by (simp_all add: al_le_def)

lemma fresh_pane: "session_ok (al, s) \<Longrightarrow> w \<in> set (workspaces s) \<Longrightarrow> next_pane_id al \<notin> set (ws_panes w)"
  using session_okD(6) [of al s w "next_pane_id al"] by blast

lemma remove_alias_kept:
  "kept al s (remove_alias_shadowed_by_new_pane i s) \<longleftrightarrow> kept al s s"
proof -
  have "session_ok (al, remove_alias_shadowed_by_new_pane i s) = session_ok (al, s)"
    by (rule session_ok_frame) (simp_all add: remove_alias_shadowed_by_new_pane_def)
  then show ?thesis
    by (simp add: kept_def remove_alias_shadowed_by_new_pane_def cursor_ok_def session_terminals_def)
qed

section \<open>Workspaces\<close>

lemma workspace_start_kept:
  assumes "app_ok (al, a)" "room al" "clock_in_range micros"
    "create_workspace_with_launch_env spawn git micros dir foc ex al a = (res, al', a')"
  shows "app_ok (al', a')" "\<And>k. res = Inr k \<Longrightarrow> k < length (workspaces (app_session a'))"
proof -
  note ok = app_okD [OF assms(1)]
  let ?s = "app_session a"
  obtain r al1 where n: "new_workspace spawn git micros dir None ex al = (r, al1)" by fastforce
  then have "app_ok (al', a') \<and> (\<forall>k. res = Inr k \<longrightarrow> k < length (workspaces (app_session a')))"
  proof (cases rule: new_workspace_cases)
    case (failed err)
    then have "al' = al\<lparr>next_workspace_id := next_workspace_id al + 1, next_pane_id := next_pane_id al + 1\<rparr>" "a' = a" "res = Inl err"
      using assms(4) n by (auto simp: create_workspace_with_launch_env_def)
    then show ?thesis using app_mono [OF assms(1) al_steps(4) [OF assms(2)]] by simp
  next
    case (started w terminal runtime tid)
    let ?i = "next_pane_id al"
    let ?s1 = "?s\<lparr>workspaces := workspaces ?s @ [w]\<rparr>"
    let ?s2 = "remove_alias_shadowed_by_new_pane (root_pane (tabs w ! 0)) ?s1"
    let ?s3 = "if foc \<or> active ?s2 = None then switch_workspace (length (workspaces ?s)) ?s2 else ?s2"
    have al1: "al_le al al1" unfolding started(2) by (rule al_steps(5) [OF assms(2)])
    have av: "available al1 ?s ?i tid"
      unfolding started(3) by (rule fresh_available [OF ok(1) assms(2,3)]) (simp_all add: started(2))
    have gid: "ws_id w = generated_id (next_workspace_id al)" using started(5) by (simp add: generated_id_def)
    have s1: "session_ok (al1, ?s1)"
      by (rule append_fresh_workspace [OF ok(1) assms(2) started(4) gid av started(6,7) _ al1]) (simp add: started(2))
    have T: "session_terminals ?s1 = insert (?i, tid) (session_terminals ?s)"
      using started(7) by (auto simp: session_terminals_def)
    have e: "res = Inr (length (workspaces ?s))" "al' = al1" "a' = register_terminal terminal (a\<lparr>app_session := ?s3\<rparr>)"
      using assms(4) n started(1) by (auto simp: create_workspace_with_launch_env_def Let_def)
    have s2: "session_ok (al1, ?s2)"
      using s1 by (rule session_ok_frame [THEN iffD1, rotated 2]) (simp_all add: remove_alias_shadowed_by_new_pane_def)
    have T2: "session_terminals ?s2 = session_terminals ?s1"
      by (simp add: session_terminals_def remove_alias_shadowed_by_new_pane_def)
    have s3: "session_ok (al1, ?s3) \<and> cursor_ok ?s3 \<and> session_terminals ?s3 = session_terminals ?s2
        \<and> length (workspaces ?s3) = Suc (length (workspaces ?s))"
    proof (cases "foc \<or> active ?s2 = None")
      case True
      let ?f = "?s2\<lparr>active := Some (length (workspaces ?s)), selected := length (workspaces ?s)\<rparr>"
      have f: "session_ok (al1, ?f)" using s2 by (rule session_ok_frame [THEN iffD1, rotated 2]) simp_all
      have "cursor_ok ?f" by (simp add: cursor_ok_def remove_alias_shadowed_by_new_pane_def)
      then have "kept al1 ?f (switch_workspace (length (workspaces ?s)) ?f)" by (rule kept_show(2) [OF f])
      moreover have "switch_workspace (length (workspaces ?s)) ?f = switch_workspace (length (workspaces ?s)) ?s2"
        by (simp add: switch_workspace_def remove_alias_shadowed_by_new_pane_def)
      ultimately show ?thesis using True
        by (simp add: kept_def session_terminals_def switch_workspace_def remove_alias_shadowed_by_new_pane_def)
    next
      case False
      have "active ?s2 = active ?s" "workspaces ?s2 = workspaces ?s1" "selected ?s2 = selected ?s"
        by (simp_all add: remove_alias_shadowed_by_new_pane_def)
      then show ?thesis using False s2 ok(2) by (auto simp: cursor_ok_def split: if_splits)
    qed
    have "app_ok (al', a')"
      unfolding e(2,3) by (rule app_grows [OF assms(1) _ _ started(10) _ al1 assms(3) started(3)]) (use s3 T T2 in auto)
    then show ?thesis using s3 e by (simp add: register_terminal_def)
  qed
  then show "app_ok (al', a')" "\<And>k. res = Inr k \<Longrightarrow> k < length (workspaces (app_session a'))" by blast+
qed

lemma workspace_create_kept:
  assumes "app_ok (al, a)" "room al" "clock_in_range micros"
    "handle_workspace_create spawn git micros dir foc env label al a = (res, al', a')"
  shows "app_ok (al', a')"
proof (cases "normalize_launch_env env")
  case None
  then show ?thesis using assms(1,4) by (simp add: handle_workspace_create_def)
next
  case (Some ex)
  obtain r al1 a1 where c: "create_workspace_with_launch_env spawn git micros dir foc ex al a = (r, al1, a1)"
    by (metis prod.exhaust)
  note k = workspace_start_kept [OF assms(1-3) c]
  note s1 = app_okD [OF k(1)]
  show ?thesis
  proof (cases r)
    case (Inl err)
    then show ?thesis using assms(4) k(1) Some c by (simp add: handle_workspace_create_def)
  next
    case (Inr j)
    have "app_ok (al1, a1\<lparr>app_session := set_workspace j (ws_set_custom_name name (workspaces (app_session a1) ! j)) (app_session a1)\<rparr>)" for name
      by (rule app_kept [OF k(1) kept_rename [OF s1(1,2) k(2) [OF Inr]]])
    then show ?thesis using assms(4) k(1) Some c Inr by (auto simp: handle_workspace_create_def split: option.splits)
  qed
qed

section \<open>Tabs and splits\<close>

text \<open>A workspace that gained a pane; what is shown afterwards keeps the panes.\<close>

lemma grown_app:
  assumes "app_ok (al, a)" "room al" "clock_in_range micros" "k < length (workspaces (app_session a))"
    "ws_room (workspaces (app_session a) ! k)"
    "ws_grown (next_pane_id al) (fst (terminal_id_alloc micros (next_terminal_id al))) (workspaces (app_session a) ! k) w"
    "al' = al\<lparr>next_pane_id := next_pane_id al + 1, next_terminal_id := next_terminal_id al + 1\<rparr>"
    "ts_id t = fst (terminal_id_alloc micros (next_terminal_id al))"
    "kept al' (set_workspace k w (app_session a)) (set_workspace k w (app_session a)) \<Longrightarrow> kept al' (set_workspace k w (app_session a)) s'"
  shows "app_ok (al', register_terminal t (a\<lparr>app_session := s'\<rparr>))"
proof -
  note ok = app_okD [OF assms(1)]
  let ?s = "app_session a" and ?tid = "fst (terminal_id_alloc micros (next_terminal_id al))"
  have av: "available al' ?s (next_pane_id al) ?tid"
    by (rule fresh_available [OF ok(1) assms(2,3)]) (simp_all add: assms(7))
  have le: "al_le al al'" unfolding assms(7) by (rule al_steps(2) [OF assms(2)])
  have g: "session_ok (al', set_workspace k w ?s)"
    by (rule session_grown [OF session_mono [OF ok(1) le] assms(4,5) av assms(6)])
  have c: "cursor_ok (set_workspace k w ?s)" using ok(2) assms(4) by (auto simp: cursor_ok_def split: if_splits)
  have kept: "kept al' (set_workspace k w ?s) s'" by (rule assms(9)) (rule kept_refl [OF g c])
  have "session_terminals (set_workspace k w ?s) = insert (next_pane_id al, ?tid) (session_terminals ?s)"
    using set_workspace_terminals(1) [OF assms(4)] assms(6) by (simp add: ws_grown_def)
  then show ?thesis using kept by (intro app_grows [OF assms(1) _ _ assms(8) _ le assms(3) refl]) (auto simp: kept_def)
qed

lemma tab_create_kept:
  assumes "app_ok (al, a)" "room al" "clock_in_range micros" "\<forall>w \<in> set (workspaces (app_session a)). ws_room w"
  obtains res al' a' where "handle_tab_create spawn micros i dir foc label env al a = Some (res, al', a')" "app_ok (al', a')"
proof -
  note ok = app_okD [OF assms(1)]
  let ?s = "app_session a"
  show ?thesis
  proof (cases "\<exists>k ex. tab_create_target i ?s = Some k \<and> normalize_launch_env env = Some ex \<and> k < length (workspaces ?s)")
    case False
    then have "\<exists>why. handle_tab_create spawn micros i dir foc label env al a = Some (Inl why, al, a)"
      by (auto simp: handle_tab_create_def vec_get_def split: option.split)
    then show ?thesis using that assms(1) by blast
  next
    case True
    then obtain k ex where t: "tab_create_target i ?s = Some k" "normalize_launch_env env = Some ex" "k < length (workspaces ?s)"
      by blast
    let ?w = "workspaces ?s ! k"
    have w: "?w \<in> set (workspaces ?s)" using t(3) by simp
    have get: "vec_get (workspaces ?s) k = Some ?w" using t(3) by (simp add: vec_get_def)
    have wok: "ws_ok ?w" by (rule session_okD(2) [OF ok(1) w])
    have room: "ws_room ?w" using assms(4) w by blast
    from wok room fresh_pane [OF ok(1) w] show ?thesis
    proof (cases rule: create_tab_cases [where spawn = spawn and micros = micros and dir = dir and args = None and ex = ex])
      case (failed err)
      have le: "al_le al (al\<lparr>next_pane_id := next_pane_id al + 1\<rparr>)" by (rule al_steps(1) [OF assms(2)])
      note ok' = app_okD [OF app_mono [OF assms(1) le]]
      have "app_ok (al\<lparr>next_pane_id := next_pane_id al + 1\<rparr>, a\<lparr>app_session := set_workspace k
          (?w\<lparr>next_public_tab_number := next_public_tab_number ?w + 1\<rparr>) ?s\<rparr>)"
        by (rule app_kept [OF app_mono [OF assms(1) le] kept_workspace [OF ok'(1,2) t(3) failed(2)]])
      then show ?thesis using that t get failed(1) by (simp add: handle_tab_create_def)
    next
      case (started terminal runtime w' tid)
      let ?al = "al\<lparr>next_pane_id := next_pane_id al + 1, next_terminal_id := next_terminal_id al + 1\<rparr>"
      let ?s0 = "set_workspace k w' ?s" and ?t = "length (tabs ?w)"
      let ?s1 = "remove_alias_shadowed_by_new_pane (root_pane (tabs w' ! ?t)) ?s0"
      let ?s2 = "case label of None \<Rightarrow> ?s1 | Some name \<Rightarrow> set_tab k ?t (set_tab_name name (tabs w' ! ?t)) ?s1"
      let ?s3 = "if foc then show_tab k ?t ?s2 else ?s2"
      have ws1: "workspaces ?s1 = workspaces ?s0" by (simp add: remove_alias_shadowed_by_new_pane_def)
      have g: "get_tab k ?t ?s1 = Some (tabs w' ! ?t)" using t(3) started(6) by (simp add: get_tab_Some ws1)
      have "kept ?al ?s0 ?s3" if "kept ?al ?s0 ?s0"
      proof -
        have one: "kept ?al ?s0 ?s1" using that by (simp add: remove_alias_kept)
        have two: "kept ?al ?s0 ?s2"
        proof (cases label)
          case (Some name)
          have "session_ok (?al, ?s1)" "cursor_ok ?s1" using one by (simp_all add: kept_def)
          from kept_trans [OF one set_tab_name_kept [OF this g]] show ?thesis using Some by simp
        qed (use one in simp)
        then have "session_ok (?al, ?s2)" "cursor_ok ?s2" by (simp_all add: kept_def)
        then show ?thesis using two kept_trans [OF two kept_show(1)] by simp
      qed
      then have "app_ok (?al, register_terminal terminal (a\<lparr>app_session := ?s3\<rparr>))"
        by (intro grown_app [OF assms(1-3) t(3) room started(3) [unfolded started(2)] refl])
          (use started(2,5) in simp_all)
      moreover have "handle_tab_create spawn micros i dir foc label env al a
          = Some (Inr (k, ?t), ?al, register_terminal terminal (a\<lparr>app_session := ?s3\<rparr>))"
        using t get started(1) by (simp add: handle_tab_create_def Let_def)
      ultimately show ?thesis using that by blast
    qed
  qed
qed
lemma pane_split_kept:
  assumes "app_ok (al, a)" "room al" "clock_in_range micros" "\<forall>w \<in> set (workspaces (app_session a)). ws_room w"
  obtains res al' a' where "handle_pane_split spawn micros here target i d ratio dir foc env al a = Some (res, al', a')"
    "app_ok (al', a')"
proof -
  note ok = app_okD [OF assms(1)]
  let ?s = "app_session a"
  show ?thesis
  proof (cases "\<exists>k j ex. split_target target i ?s = Some (k, j) \<and> normalize_launch_env env = Some ex \<and> k < length (workspaces ?s)")
    case False
    then have "\<exists>why. handle_pane_split spawn micros here target i d ratio dir foc env al a = Some (Inl why, al, a)"
      by (auto simp: handle_pane_split_def vec_get_def Let_def split: option.split)
    then show ?thesis using that assms(1) by blast
  next
    case True
    then obtain k j ex where t: "split_target target i ?s = Some (k, j)" "normalize_launch_env env = Some ex" "k < length (workspaces ?s)"
      by blast
    let ?w = "workspaces ?s ! k"
    have w: "?w \<in> set (workspaces ?s)" using t(3) by simp
    have get: "vec_get (workspaces ?s) k = Some ?w" using t(3) by (simp add: vec_get_def)
    have wok: "ws_ok ?w" by (rule session_okD(2) [OF ok(1) w])
    have room: "ws_room ?w" using assms(4) w by blast
    have same: "a\<lparr>app_session := set_workspace k ?w ?s\<rparr> = a" by (simp add: set_workspace_def)
    from wok room fresh_pane [OF ok(1) w] show ?thesis
    proof (cases rule: split_pane_cases [where spawn = spawn and micros = micros and here = here and i = j and d = d
        and ratio = ratio and dir = "Some dir" and foc = foc and args = None and ex = ex])
      case absent
      then show ?thesis using that [OF _ assms(1)] t get same by (simp add: handle_pane_split_def Let_def)
    next
      case (failed err)
      have "app_ok (al\<lparr>next_pane_id := next_pane_id al + 1\<rparr>, a)"
        by (rule app_mono [OF assms(1) al_steps(1) [OF assms(2)]])
      then show ?thesis using that t get failed(1) same by (simp add: handle_pane_split_def Let_def)
    next
      case (started tab_idx new w' tid)
      let ?al = "al\<lparr>next_pane_id := next_pane_id al + 1, next_terminal_id := next_terminal_id al + 1\<rparr>"
      let ?s1 = "set_workspace k w' ?s"
      let ?s2 = "if foc then show_tab k tab_idx ?s1 else ?s1"
      let ?s3 = "remove_alias_shadowed_by_new_pane (np_pane_id new) ?s2"
      have "kept ?al ?s1 ?s3" if one: "kept ?al ?s1 ?s1"
      proof -
        have ok1: "session_ok (?al, ?s1)" "cursor_ok ?s1" using one by (simp_all add: kept_def)
        have two: "kept ?al ?s1 ?s2" using one kept_show(1) [OF ok1, of k tab_idx] by (cases foc) simp_all
        then have "kept ?al ?s2 ?s2" by (auto simp: kept_def)
        then have "kept ?al ?s2 ?s3" by (simp only: remove_alias_kept)
        with two show ?thesis by (rule kept_trans)
      qed
      then have "app_ok (?al, register_terminal (np_terminal new) (a\<lparr>app_session := ?s3\<rparr>))"
        by (intro grown_app [OF assms(1-3) t(3) room started(5) [unfolded started(3)] refl])
          (use started(3,4) in simp_all)
      moreover have "handle_pane_split spawn micros here target i d ratio dir foc env al a
          = Some (Inr (k, tab_idx, np_pane_id new), ?al, register_terminal (np_terminal new) (a\<lparr>app_session := ?s3\<rparr>))"
        using t get started(1) by (simp add: handle_pane_split_def Let_def)
      ultimately show ?thesis using that by blast
    qed
  qed
qed

section \<open>Moving a pane\<close>

lemma cursor_cong:
  assumes "active s' = active s" "selected s' = selected s" "length (workspaces s') = length (workspaces s)"
  shows "cursor_ok s' = cursor_ok s"
proof -
  have "workspaces s' = [] \<longleftrightarrow> workspaces s = []" using assms(3) by (metis length_0_conv)
  then show ?thesis using assms by (simp add: cursor_ok_def)
qed

lemma close_emptied_cursor:
  assumes "cursor_ok s" "k < length (workspaces s)"
  shows "cursor_ok (close_emptied_workspace k s)"
proof (cases "vec_remove k (workspaces s) = []")
  case True
  then show ?thesis by (simp add: cursor_ok_def close_emptied_workspace_def Let_def)
next
  case False
  let ?n = "length (vec_remove k (workspaces s))"
  obtain a where a: "active s = Some a" "a < length (workspaces s)" "selected s < length (workspaces s)"
    using assms by (auto simp: cursor_ok_def split: if_splits)
  have n: "?n = length (workspaces s) - 1" "0 < ?n" using assms(2) False by (simp add: vec_remove_def, simp)
  have below: "(if j = k then min k (?n - 1) else if k < j then j - 1 else j) < ?n" if "j < length (workspaces s)" for j
    using that n assms(2) by auto
  have "active (close_emptied_workspace k s) = Some (if a = k then min k (?n - 1) else if k < a then a - 1 else a)"
    "selected (close_emptied_workspace k s)
       = (if selected s = k then min k (?n - 1) else if k < selected s then selected s - 1 else selected s)"
    "workspaces (close_emptied_workspace k s) = vec_remove k (workspaces s)"
    using False a(1) by (simp_all add: close_emptied_workspace_def Let_def)
  then show ?thesis using below [OF a(2)] below [OF a(3)] False by (simp add: cursor_ok_def)
qed

lemma take_for_move_cursor:
  assumes "take_for_move k i key cross s = Some (Some tk, s1)" "cursor_ok s" "k < length (workspaces s)"
  shows "cursor_ok s1"
proof -
  obtain w where w: "take_pane_for_move i (workspaces s ! k) = Some (Some tk, w)"
    using assms(1) by (auto simp: take_for_move_def bind_eq_Some_conv Let_def split: option.splits prod.splits)
  define s2 where "s2 = (if cross then (set_workspace k (unregister_pane i w) (set_workspace k w s))
       \<lparr>public_pane_id_aliases := hm_insert key i (public_pane_id_aliases (set_workspace k w s))\<rparr> else set_workspace k w s)"
  have e: "s1 = (if workspace_empty tk \<and> cross then close_emptied_workspace k s2 else s2)"
    using assms(1) by (auto simp: take_for_move_def w Let_def s2_def)
  have c2: "cursor_ok s2" using assms(2) cursor_cong [of s2 s] by (simp add: s2_def)
  have k2: "k < length (workspaces s2)" using assms(3) by (simp add: s2_def)
  show ?thesis unfolding e using c2 close_emptied_cursor [OF c2 k2] by simp
qed

lemma place_cursor:
  assumes "place_moved_pane git dir ctx foc m r al s = (Inr (tw, tt, i), al', s')"
  shows "active s' = active s" "selected s' = selected s" "length (workspaces s) \<le> length (workspaces s')"
  using assms
  by (auto simp: place_moved_pane_def Let_def split: resolved_destination.splits option.splits sum.splits prod.splits)

lemma move_cursor:
  assumes "handle_pane_move git ts here r dest foc al s = Some (Inr (tw, tt, i), al', s')" "session_ok (al, s)" "cursor_ok s"
    "pane_at i tw tt s'"
  shows "cursor_ok s'"
proof -
  have at: "tw < length (workspaces s')" "tt < length (tabs (workspaces s' ! tw))" using assms(4) by (simp_all add: pane_at_def)
  obtain k j ka tid rd key where m: "parse_pane_id r s = Some (k, j)"
      "move_to git ts here k ka j key tid rd foc al s = Some (Inr (tw, tt, i), al', s')"
    using assms(1) by (auto simp: handle_pane_move_def Let_def split: option.splits prod.splits sum.splits if_splits)
  have k: "k < length (workspaces s)" by (rule parse_pane_id_there [OF m(1)])
  obtain tk s1 where t: "take_for_move k j key (crosses_workspaces (ws_id (workspaces s ! k)) rd) s = Some (Some tk, s1)"
    using m(2) by (auto simp: move_to_def Let_def split: option.splits prod.splits)
  obtain dir ctx s2 where p: "place_moved_pane git dir ctx foc (tk_moved tk) rd al s1 = (Inr (tw, tt, i), al', s2)"
      and s': "s' = (let s3 = (if foc \<or> active s2 = None then show_tab tw tt s2 else s2)
                  in s3\<lparr>pane_id_aliases := hm_remove i (pane_id_aliases s3)\<rparr>)"
    using m(2) by (auto simp: move_to_def Let_def t split: option.splits prod.splits sum.splits if_splits)
  have c1: "cursor_ok s1" by (rule take_for_move_cursor [OF t assms(3) k])
  note pc = place_cursor [OF p]
  let ?s3 = "if foc \<or> active s2 = None then show_tab tw tt s2 else s2"
  have ws: "workspaces s' = workspaces ?s3" by (simp add: s' Let_def)
  have "cursor_ok ?s3"
  proof (cases "foc \<or> active s2 = None")
    case True
    have "tw < length (workspaces s2) \<and> tt < length (tabs (workspaces s2 ! tw))"
    proof (rule ccontr)
      assume out: "\<not> ?thesis"
      then have "workspaces s' = workspaces s2" using ws True by (auto simp: show_tab_def)
      then show False using at out by simp
    qed
    then show ?thesis using True by (auto simp: show_tab_def cursor_ok_def)
  next
    case False
    then show ?thesis using c1 pc by (auto simp: cursor_ok_def split: if_splits)
  qed
  then show ?thesis by (simp add: s' Let_def cursor_ok_def)
qed

text \<open>A move either panics, because a workspace was asked for that does not exist, or keeps all.\<close>

lemma pane_move_kept:
  assumes "app_ok (al, a)" "room al" "\<forall>w \<in> set (workspaces (app_session a)). ws_room w"
    "app_pane_move git here r dest foc al a = Some (res, al', a')"
  shows "app_ok (al', a')"
proof -
  note ok = app_okD [OF assms(1)]
  obtain s' where h: "handle_pane_move git (terminals a) here r dest foc al (app_session a) = Some (res, al', s')"
      and a': "a' = a\<lparr>app_session := s'\<rparr>"
    using assms(4) by (auto simp: app_pane_move_def)
  from ok(1) assms(2,3) show ?thesis
  proof (cases rule: handle_pane_move_cases [where git = git and terminals = "terminals a" and here = here and pane_ref = r
      and dest = dest and foc = foc])
    case (refused why)
    then show ?thesis using h a' assms(1) by simp
  next
    case (missing_workspace i label k)
    then show ?thesis using h by simp
  next
    case (moved k i n tw tt al1 s1)
    then have e: "al1 = al'" "s1 = s'" "res = Inr (tw, tt, i)" using h by simp_all
    have w: "session_ok (al', s')" "pane_at i tw tt s'" "session_terminals s' = session_terminals (app_session a)" "al_le al al'"
      using moved(5) by (simp_all add: moved_well_def e)
    have "cursor_ok s'" by (rule move_cursor [OF h [unfolded e(3)] ok(1,2) w(2)])
    moreover have "\<forall>t \<in> handed a. allocated_terminal al' t \<and> t \<notin> snd ` session_terminals s'"
      using ok(5) allocated_mono [OF _ w(4)] unfolding w(3) by blast
    ultimately show ?thesis using w ok(3,4) by (simp add: app_ok_def a')
  qed
qed

end
