(* ===== verification/App_Machine.thy ===== *)
theory App_Machine
  imports App_Starts
begin

text \<open>
  The requests of the API and the end of a process as the steps of a machine that starts with no
  workspace. Whatever the requests are, the invariant holds: a fourth interpretation of
  \<open>invariant\<close>. The runtimes of detached terminals are shut down at any time, as the event loop
  does. The guards say that no counter has wrapped round and that the clock stays in the
  range in which terminal identifiers have sixteen digits.
\<close>

definition initial_allocators :: allocators where
  "initial_allocators = \<lparr>next_pane_id = 1, next_terminal_id = 1, next_workspace_id = 1\<rparr>"

definition initial_app :: "'g app" where
  "initial_app =
     \<lparr>app_session = \<lparr>workspaces = [], active = None, selected = 0, pane_id_aliases = [], public_pane_id_aliases = []\<rparr>,
      terminals = [], terminal_runtime_shutdowns = [], runtimes_shut_down = []\<rparr>"

definition app_init :: "allocators \<times> 'g app \<Rightarrow> bool" where
  "app_init st \<longleftrightarrow> st = (initial_allocators, initial_app)"

definition all_room :: "'g app \<Rightarrow> bool" where
  "all_room a \<longleftrightarrow> (\<forall>w \<in> set (workspaces (app_session a)). ws_room w)"

inductive app_step ::
    "('e, 'r) spawner \<Rightarrow> 'g git_answers \<Rightarrow> allocators \<times> 'g app \<Rightarrow> allocators \<times> 'g app \<Rightarrow> bool"
  for spawn :: "('e, 'r) spawner" and git :: "'g git_answers" where
  workspace_created: "room al \<Longrightarrow> clock_in_range micros \<Longrightarrow>
     handle_workspace_create spawn git micros dir foc env label al a = (res, al', a') \<Longrightarrow>
     app_step spawn git (al, a) (al', a')"
| workspace_focused: "handle_workspace_focus i (app_session a) = (res :: 'e refusal + nat, s') \<Longrightarrow>
     app_step spawn git (al, a) (al, a\<lparr>app_session := s'\<rparr>)"
| workspace_renamed: "handle_workspace_rename i label (app_session a) = (res :: 'e refusal + nat, s') \<Longrightarrow>
     app_step spawn git (al, a) (al, a\<lparr>app_session := s'\<rparr>)"
| workspace_moved: "handle_workspace_move i idx (app_session a) = Some (res :: 'e refusal + bool, s') \<Longrightarrow>
     app_step spawn git (al, a) (al, a\<lparr>app_session := s'\<rparr>)"
| workspace_block_moved: "handle_workspace_move_block ids before (app_session a) = Some (res :: 'e refusal + bool, s') \<Longrightarrow>
     app_step spawn git (al, a) (al, a\<lparr>app_session := s'\<rparr>)"
| workspace_closed: "handle_workspace_close i a = Some (res :: 'e refusal + nat, a') \<Longrightarrow>
     app_step spawn git (al, a) (al, a')"
| tab_created: "room al \<Longrightarrow> clock_in_range micros \<Longrightarrow> all_room a \<Longrightarrow>
     handle_tab_create spawn micros ws dir foc label env al a = Some (res, al', a') \<Longrightarrow>
     app_step spawn git (al, a) (al', a')"
| tab_focused: "handle_tab_focus i (app_session a) = (res :: 'e refusal + nat \<times> nat, s') \<Longrightarrow>
     app_step spawn git (al, a) (al, a\<lparr>app_session := s'\<rparr>)"
| tab_renamed: "handle_tab_rename i label (app_session a) = (res :: 'e refusal + nat \<times> nat, s') \<Longrightarrow>
     app_step spawn git (al, a) (al, a\<lparr>app_session := s'\<rparr>)"
| tab_moved: "handle_tab_move i idx (app_session a) = (res :: 'e refusal + bool, s') \<Longrightarrow>
     app_step spawn git (al, a) (al, a\<lparr>app_session := s'\<rparr>)"
| tab_closed: "handle_tab_close confirm i a = Some (res :: 'e refusal + nat \<times> nat, a') \<Longrightarrow>
     app_step spawn git (al, a) (al, a')"
| pane_split: "room al \<Longrightarrow> clock_in_range micros \<Longrightarrow> all_room a \<Longrightarrow>
     handle_pane_split spawn micros here target ws d ratio dir foc env al a = Some (res, al', a') \<Longrightarrow>
     app_step spawn git (al, a) (al', a')"
| pane_focused: "handle_pane_focus r (app_session a) = (res :: 'e refusal + nat \<times> pane_id, s') \<Longrightarrow>
     app_step spawn git (al, a) (al, a\<lparr>app_session := s'\<rparr>)"
| pane_zoomed: "handle_pane_zoom ref command (app_session a) = (res :: 'e refusal + pane_zoom_outcome, s') \<Longrightarrow>
     app_step spawn git (al, a) (al, a\<lparr>app_session := s'\<rparr>)"
| pane_closed: "close_pane confirm r a = Some (res :: 'e refusal + nat \<times> pane_id, a') \<Longrightarrow>
     app_step spawn git (al, a) (al, a')"
| runtimes_stopped: "app_step spawn git (al, a) (al, shutdown_detached_terminal_runtimes a)"
| pane_died: "handle_pane_died i a = Some a' \<Longrightarrow> app_step spawn git (al, a) (al, a')"
| pane_moved: "room al \<Longrightarrow> all_room a \<Longrightarrow>
     app_pane_move git here r dest foc al a = Some (res, al', a') \<Longrightarrow>
     app_step spawn git (al, a) (al', a')"

lemma workspace_close_kept:
  assumes "app_ok (al, a)"
  obtains res a' where "handle_workspace_close i a = Some (res, a')" "app_ok (al, a')"
proof (cases "named_workspace i (app_session a)")
  case None
  then show ?thesis using that assms by (simp add: handle_workspace_close_def)
next
  case (Some k)
  obtain a' where "close_workspace_at k a = Some a'" "app_ok (al, a')"
    by (rule close_workspace_at_facts [OF assms named_workspace_less [OF Some]])
  then show ?thesis using that Some by (simp add: handle_workspace_close_def)
qed

lemma initial_ok: "app_ok (initial_allocators, initial_app)"
  by (simp add: app_ok_def session_ok_def cursor_ok_def initial_allocators_def initial_app_def session_terminals_def
      hm_wf_def hm_get_def handed_def)

lemma step_ok: "app_step spawn git st st' \<Longrightarrow> app_ok st \<Longrightarrow> app_ok st'"
proof (induction rule: app_step.induct)
  case (workspace_created al micros dir foc env label a res al' a')
  show ?case by (rule workspace_create_kept [OF workspace_created(4,1,2,3)])
next
  case (workspace_focused i a res s' al)
  note ok = app_okD [OF workspace_focused(2)]
  show ?case by (rule app_kept [OF workspace_focused(2) workspace_focus_kept [OF ok(1,2) workspace_focused(1)]])
next
  case (workspace_renamed i label a res s' al)
  note ok = app_okD [OF workspace_renamed(2)]
  show ?case by (rule app_kept [OF workspace_renamed(2) workspace_rename_kept [OF ok(1,2) workspace_renamed(1)]])
next
  case (workspace_moved i idx a res s' al)
  note ok = app_okD [OF workspace_moved(2)]
  from workspace_move_kept [OF ok(1,2)] have "kept al (app_session a) s'"
    using workspace_moved(1) by (metis option.inject prod.inject)
  then show ?case by (rule app_kept [OF workspace_moved(2)])
next
  case (workspace_block_moved ids before a res s' al)
  note ok = app_okD [OF workspace_block_moved(2)]
  from workspace_move_block_kept [OF ok(1,2)] have "kept al (app_session a) s'"
    using workspace_block_moved(1) by (metis option.inject prod.inject)
  then show ?case by (rule app_kept [OF workspace_block_moved(2)])
next
  case (workspace_closed i a res a' al)
  from workspace_close_kept [OF this(2)] show ?case using workspace_closed(1) by (metis option.inject prod.inject)
next
  case (tab_created al micros a ws dir foc label env res al' a')
  from tab_create_kept [OF this(5,1,2) this(3) [unfolded all_room_def]] show ?case
    using tab_created(4) by (metis option.inject prod.inject)
next
  case (tab_focused i a res s' al)
  note ok = app_okD [OF tab_focused(2)]
  show ?case by (rule app_kept [OF tab_focused(2) tab_focus_kept [OF ok(1,2) tab_focused(1)]])
next
  case (tab_renamed i label a res s' al)
  note ok = app_okD [OF tab_renamed(2)]
  show ?case by (rule app_kept [OF tab_renamed(2) tab_rename_kept [OF ok(1,2) tab_renamed(1)]])
next
  case (tab_moved i idx a res s' al)
  note ok = app_okD [OF tab_moved(2)]
  show ?case by (rule app_kept [OF tab_moved(2) tab_move_kept [OF ok(1,2) tab_moved(1)]])
next
  case (tab_closed confirm i a res a' al)
  from tab_close_kept [OF this(2)] show ?case using tab_closed(1) by (metis option.inject prod.inject)
next
  case (pane_split al micros a here target ws d ratio dir foc env res al' a')
  from pane_split_kept [OF this(5,1,2) this(3) [unfolded all_room_def]] show ?case
    using pane_split(4) by (metis option.inject prod.inject)
next
  case (pane_focused r a res s' al)
  note ok = app_okD [OF pane_focused(2)]
  show ?case by (rule app_kept [OF pane_focused(2) pane_focus_kept [OF ok(1,2) pane_focused(1)]])
next
  case (pane_zoomed ref command a res s' al)
  note ok = app_okD [OF pane_zoomed(2)]
  show ?case by (rule app_kept [OF pane_zoomed(2) pane_zoom_kept [OF ok(1,2) pane_zoomed(1)]])
next
  case (pane_closed confirm r a res a' al)
  from pane_close_kept [OF this(2)] show ?case using pane_closed(1) by (metis option.inject prod.inject)
next
  case (runtimes_stopped al a)
  then show ?case by simp
next
  case (pane_died i a a' al)
  from pane_died_kept [OF this(2)] show ?case using pane_died(1) by (metis option.inject)
next
  case (pane_moved al a here r dest foc res al' a')
  from pane_move_kept [OF this(4,1) this(2) [unfolded all_room_def] this(3)] show ?case .
qed

interpretation app: invariant app_init "app_step spawn git" app_ok for spawn git
  by unfold_locales (auto simp: app_init_def initial_ok intro: step_ok)

end
