(* ===== verification/App_Assertions.thy ===== *)
theory App_Assertions
  imports App_Machine
begin

text \<open>
  What the tests of the program assert of a state: \<open>assert_invariants_for_test\<close> of
  \<open>src/workspace.rs\<close> and of \<open>src/app/state.rs\<close>, as far as the parts of the state that the model
  has are concerned. A set that is built while the code walks over a collection, with an assertion
  that each element is new, says that the elements are distinct. The assertions about the two
  tables of aliases are a definition of their own.
\<close>

definition max_number :: "usize list \<Rightarrow> usize" where
  "max_number ns = fold (\<lambda>n m. max m n) ns 0"

definition tab_assertions :: "(pane_id, usize) hashmap \<Rightarrow> tab \<Rightarrow> bool" where
  "tab_assertions numbers t \<longleftrightarrow>
     0 < tab_number t
     \<and> hm_contains (tab_panes t) (root_pane t)
     \<and> distinct (pane_ids (tab_layout t))
     \<and> focus (tab_layout t) \<in> set (pane_ids (tab_layout t))
     \<and> set (pane_ids (tab_layout t)) = set (map fst (tab_panes t))
     \<and> list_all (\<lambda>(i, _). hm_contains numbers i) (tab_panes t)"

definition live_panes :: "'g workspace \<Rightarrow> (pane_id \<times> pane_state) list" where
  "live_panes w = concat (map tab_panes (tabs w))"

definition workspace_assertions :: "'g workspace \<Rightarrow> bool" where
  "workspace_assertions w \<longleftrightarrow>
     tabs w \<noteq> []
     \<and> active_tab w < length (tabs w)
     \<and> list_all (tab_assertions (public_pane_numbers w)) (tabs w)
     \<and> distinct (map tab_number (tabs w))
     \<and> distinct (map fst (live_panes w))
     \<and> distinct (map (\<lambda>(_, p). attached_terminal_id p) (live_panes w))
     \<and> 0 < next_public_tab_number w
     \<and> max_number (map tab_number (tabs w)) < next_public_tab_number w
     \<and> set (map fst (public_pane_numbers w)) = set (map fst (live_panes w))
     \<and> list_all (\<lambda>(_, n). 0 < n) (public_pane_numbers w)
     \<and> distinct (map snd (public_pane_numbers w))
     \<and> 0 < next_public_pane_number w
     \<and> max_number (map snd (public_pane_numbers w)) < next_public_pane_number w"

definition app_assertions :: "'g app \<Rightarrow> bool" where
  "app_assertions a \<longleftrightarrow>
     (let s = app_session a; live = concat (map live_panes (workspaces s))
      in if workspaces s = [] then active s = None \<and> selected s = 0
         else selected s < length (workspaces s)
           \<and> (case active s of Some k \<Rightarrow> k < length (workspaces s) | None \<Rightarrow> False)
           \<and> distinct (map ws_id (workspaces s))
           \<and> list_all workspace_assertions (workspaces s)
           \<and> distinct (map fst live)
           \<and> distinct (map (\<lambda>(_, p). attached_terminal_id p) live)
           \<and> list_all (\<lambda>(_, p). hm_contains (terminals a) (attached_terminal_id p)) live)"

definition alias_assertions :: "'g session \<Rightarrow> bool" where
  "alias_assertions s \<longleftrightarrow>
     (let live = map fst (concat (map live_panes (workspaces s)))
      in if workspaces s = [] then pane_id_aliases s = [] \<and> public_pane_id_aliases s = []
         else list_all (\<lambda>(_, i). i \<in> set live) (pane_id_aliases s)
           \<and> list_all (\<lambda>(_, i). i \<in> set live) (public_pane_id_aliases s))"

section \<open>The invariant gives the assertions\<close>

lemma distinct_concat_keyed:
  assumes "\<forall>x \<in> set xs. distinct (f x)" "distinct (map k xs)"
    "\<forall>x \<in> set xs. \<forall>y \<in> set xs. k x \<noteq> k y \<longrightarrow> set (f x) \<inter> set (f y) = {}"
  shows "distinct (concat (map f xs))"
  using assms
proof (induction xs)
  case (Cons x xs)
  then have "set (f x) \<inter> set (f y) = {}" if "y \<in> set xs" for y using that by force
  then show ?case using Cons by auto
qed simp

lemma distinct_concat_same:
  assumes "\<forall>x \<in> set xs. distinct (f x) \<and> set (f x) = set (g x)" "distinct (concat (map g xs))"
  shows "distinct (concat (map f xs))"
  using assms by (induction xs) auto

lemma max_number_less: "max_number ns < n \<longleftrightarrow> 0 < (n :: usize) \<and> (\<forall>m \<in> set ns. m < n)"
proof -
  have "fold (\<lambda>n m. max m n) ns k < n \<longleftrightarrow> k < n \<and> (\<forall>m \<in> set ns. m < n)" for k
    by (induction ns arbitrary: k) auto
  then show ?thesis by (simp add: max_number_def)
qed

lemma live_panes_facts:
  assumes "ws_ok w"
  shows "distinct (map fst (live_panes w))" "set (map fst (live_panes w)) = set (ws_panes w)"
    "ws_terminals w = (\<lambda>(i, p). (i, attached_terminal_id p)) ` set (live_panes w)"
proof -
  have t: "\<forall>t \<in> set (tabs w). distinct (map fst (tab_panes t)) \<and> set (map fst (tab_panes t)) = set (tab_ids t)"
    using ws_okD(3) [OF assms] by (auto simp: tab_ok_def hm_wf_def)
  have "distinct (concat (map tab_ids (tabs w)))" using ws_okD(4) [OF assms] by (simp add: tabs_ok_def)
  from distinct_concat_same [OF t this] show "distinct (map fst (live_panes w))"
    by (simp add: live_panes_def map_concat comp_def)
  show "set (map fst (live_panes w)) = set (ws_panes w)"
    using t by (simp add: live_panes_def ws_panes_def image_UN)
  show "ws_terminals w = (\<lambda>(i, p). (i, attached_terminal_id p)) ` set (live_panes w)"
    by (auto simp: ws_terminals_def pane_terminals_def live_panes_def)
qed

lemma distinct_terminals:
  assumes "distinct (map fst ps)" "\<forall>e \<in> set ps. \<forall>f \<in> set ps. g e = g f \<longrightarrow> fst e = fst f"
  shows "distinct (map g ps)"
proof -
  have d: "distinct ps" "inj_on fst (set ps)" using assms(1) by (simp_all add: distinct_map)
  have "inj_on g (set ps)" by (rule inj_onI) (use assms(2) inj_onD [OF d(2)] in blast)
  with d(1) show ?thesis by (simp add: distinct_map)
qed

lemma distinct_attached:
  assumes "distinct (map fst ps)" "T = (\<lambda>(i, p). (i, attached_terminal_id p)) ` set ps"
    "\<forall>e \<in> T. \<forall>f \<in> T. snd e = snd f \<longrightarrow> fst e = fst f"
  shows "distinct (map (\<lambda>(_, p). attached_terminal_id p) ps)"
proof (rule distinct_terminals [OF assms(1)], intro ballI impI)
  fix e f
  assume "e \<in> set ps" "f \<in> set ps" and same: "(case e of (_, p) \<Rightarrow> attached_terminal_id p) = (case f of (_, p) \<Rightarrow> attached_terminal_id p)"
  then have "(fst e, attached_terminal_id (snd e)) \<in> T" "(fst f, attached_terminal_id (snd f)) \<in> T"
    unfolding assms(2) by (auto simp: case_prod_beta')
  with assms(3) same show "fst e = fst f" by (simp add: case_prod_beta') (metis fst_conv snd_conv)
qed

lemma numbers_ok_facts:
  assumes "numbers_ok m nxt"
  shows "list_all (\<lambda>(_, n). 0 < n) m" "distinct (map snd m)" "\<forall>n \<in> set (map snd m). n < nxt"
proof -
  have m: "distinct (map fst m)" "\<And>i n. (i, n) \<in> set m \<longleftrightarrow> hm_get m i = Some n"
    using assms by (simp_all add: numbers_ok_def hm_wf_def hm_get_eq_Some_iff)
  show "distinct (map snd m)" by (rule distinct_terminals [OF m(1)]) (use assms m(2) in \<open>auto simp: numbers_ok_def\<close>)
  show "list_all (\<lambda>(_, n). 0 < n) m" "\<forall>n \<in> set (map snd m). n < nxt"
    using assms m(2) by (auto simp: numbers_ok_def list_all_iff word_neq_0_conv)
qed

lemma ws_ok_assertions:
  assumes "ws_ok w"
    "\<And>e f. e \<in> ws_terminals w \<Longrightarrow> f \<in> ws_terminals w \<Longrightarrow> snd e = snd f \<Longrightarrow> fst e = fst f"
  shows "workspace_assertions w"
proof -
  note live = live_panes_facts [OF assms(1)]
  have tabs: "list_all (tab_assertions (public_pane_numbers w)) (tabs w)"
  proof (unfold list_all_iff, rule ballI)
    fix t
    assume t: "t \<in> set (tabs w)"
    then have ok: "tab_ok t" "0 < tab_number t"
      using ws_okD(4) [OF assms(1)] by (auto simp: tabs_ok_def word_neq_0_conv)
    have "\<forall>e \<in> set (tab_panes t). fst e \<in> set (ws_panes w)"
      using t imageI [of _ "set (tab_panes t)" fst] ok(1) by (auto simp: ws_panes_def tab_ok_def)
    then have "\<forall>e \<in> set (tab_panes t). hm_contains (public_pane_numbers w) (fst e)"
      using ws_okD(6) [OF assms(1)] by (simp add: hm_contains_iff hm_get_None_iff)
    then show "tab_assertions (public_pane_numbers w) t"
      using ok by (auto simp: tab_assertions_def tab_ok_def layout_wf_def list_all_iff tab_ok_panes(1) [OF ok(1)])
  qed
  have "distinct (map (\<lambda>(_, p). attached_terminal_id p) (live_panes w))"
    by (rule distinct_attached [OF live(1,3)]) (use assms(2) in blast)
  moreover note numbers_ok_facts [OF ws_okD(5) [OF assms(1)]]
  moreover have "distinct (map tab_number (tabs w))" "0 < next_public_tab_number w" "0 < next_public_pane_number w"
      "\<forall>n \<in> set (map tab_number (tabs w)). n < next_public_tab_number w"
    using ws_okD(4,5) [OF assms(1)] by (auto simp: tabs_ok_def numbers_ok_def word_neq_0_conv)
  moreover have "set (map fst (public_pane_numbers w)) = set (map fst (live_panes w))"
    using ws_okD(6) [OF assms(1)] live(2) by simp
  ultimately show ?thesis
    unfolding workspace_assertions_def max_number_less using tabs live(1) ws_okD(2) [OF assms(1)] by auto
qed

lemma app_ok_assertions:
  assumes "app_ok (al, a)"
  shows "app_assertions a"
proof -
  let ?s = "app_session a"
  let ?live = "concat (map live_panes (workspaces ?s))"
  note app = app_okD [OF assms] and ok = session_okD [OF app_okD(1) [OF assms]]
  have sub: "ws_terminals w \<subseteq> session_terminals ?s" if "w \<in> set (workspaces ?s)" for w
    using that by (auto simp: session_terminals_def)
  have all: "session_terminals ?s = (\<lambda>(i, p). (i, attached_terminal_id p)) ` set ?live"
    using live_panes_facts(3) [OF ok(2)] by (auto simp: session_terminals_def)
  have "distinct (concat (map (\<lambda>w. map fst (live_panes w)) (workspaces ?s)))"
    by (rule distinct_concat_keyed [where k = ws_id])
      (use live_panes_facts(1,2) [OF ok(2)] ok(3,5) in auto)
  then have panes: "distinct (map fst ?live)" by (simp add: map_concat comp_def)
  have tids: "distinct (map (\<lambda>(_, p). attached_terminal_id p) ?live)"
    by (rule distinct_attached [OF panes all]) (use ok(7) in blast)
  have "hm_contains (terminals a) (attached_terminal_id p)" if "(i, p) \<in> set ?live" for i p
    using that app(4) all by (force simp: hm_contains_iff hm_get_None_iff image_iff)
  moreover have "workspace_assertions w" if "w \<in> set (workspaces ?s)" for w
    by (rule ws_ok_assertions [OF ok(2) [OF that]]) (use ok(7) sub [OF that] in blast)
  ultimately show ?thesis
    using app(2) ok(3) panes tids by (cases "workspaces ?s = []") (auto simp: app_assertions_def Let_def cursor_ok_def list_all_iff)
qed

end
