(* ===== verification/App_Answers.thy ===== *)
theory App_Answers
  imports App_Assertions
begin

text \<open>
  What the answer of a request says about the state it leaves: a refused split changes nothing, no
  request loses a terminal, the order after a block of workspaces is moved, and what the
  identifiers of panes and tabs parse to.
\<close>

section \<open>Refused splits\<close>

lemma pane_split_refused:
  assumes "app_ok (al, a)" "\<forall>w \<in> set (workspaces (app_session a)). ws_room w"
    "handle_pane_split spawn micros here target i d ratio dir foc env al a = Some (Inl why, al', a')"
  shows "a' = a \<and> next_terminal_id al' = next_terminal_id al"
proof -
  note ok = app_okD [OF assms(1)]
  let ?s = "app_session a"
  show ?thesis
  proof (cases "\<exists>k j ex. split_target target i ?s = Some (k, j) \<and> normalize_launch_env env = Some ex \<and> k < length (workspaces ?s)")
    case False
    then show ?thesis using assms(3)
      by (auto simp: handle_pane_split_def vec_get_def Let_def split: option.splits if_splits)
  next
    case True
    then obtain k j ex where t: "split_target target i ?s = Some (k, j)" "normalize_launch_env env = Some ex" "k < length (workspaces ?s)"
      by blast
    let ?w = "workspaces ?s ! k"
    have w: "?w \<in> set (workspaces ?s)" using t(3) by simp
    have get: "vec_get (workspaces ?s) k = Some ?w" using t(3) by (simp add: vec_get_def)
    have same: "a\<lparr>app_session := set_workspace k ?w ?s\<rparr> = a" by (simp add: set_workspace_def)
    have room: "ws_room ?w" using assms(2) w by blast
    from session_okD(2) [OF ok(1) w] room fresh_pane [OF ok(1) w] show ?thesis
      by (cases rule: split_pane_cases [where spawn = spawn and micros = micros and here = here and i = j and d = d
          and ratio = ratio and dir = "Some dir" and foc = foc and args = None and ex = ex])
        (use assms(3) t get same in \<open>auto simp: handle_pane_split_def Let_def\<close>)
  qed
qed

section \<open>Terminals are handed over\<close>

definition handed_over :: "'g app \<Rightarrow> 'g app \<Rightarrow> bool" where
  "handed_over a a' \<longleftrightarrow> handed a \<subseteq> handed a' \<and> fst ` set (terminals a) \<subseteq> fst ` set (terminals a') \<union> handed a'"

lemma handed_over_session [simp]: "handed_over a (a'\<lparr>app_session := s\<rparr>) = handed_over a a'"
  "handed_over (a\<lparr>app_session := s\<rparr>) a' = handed_over a a'"
  "handed_over a (shutdown_detached_terminal_runtimes a') = handed_over a a'"
  unfolding handed_over_def handed_session by (simp_all add: shutdown_detached_terminal_runtimes_def)

lemma handed_over_refl [simp]: "handed_over a a"
  by (simp add: handed_over_def)

lemma handed_over_remove [simp]: "handed_over a (remove_unattached_terminal_ids tids a)"
  by (auto simp: handed_over_def remove_unattached_keys remove_unattached_shutdowns)

lemma handed_over_remove_session [simp]: "handed_over a (remove_unattached_terminal_ids tids (a\<lparr>app_session := s\<rparr>))"
  by (rule handed_over_session(2) [THEN iffD1, OF handed_over_remove])

lemma handed_over_remove_one [simp]: "handed_over a (remove_unattached_terminal_id t (a\<lparr>app_session := s\<rparr>))"
  using handed_over_remove_session [of a "[t]" s] by (simp only: remove_unattached_simps)

lemma handed_over_register [simp]: "handed_over a (register_terminal t (a\<lparr>app_session := s\<rparr>))"
  by (auto simp: handed_over_def register_terminal_def keys_insert)

lemma close_selected_hands_over: "close_selected_workspace a = Some a' \<Longrightarrow> handed_over a a'"
  by (auto simp: close_selected_workspace_def Let_def bind_eq_Some_conv split: if_splits)

lemma close_at_hands_over: "close_workspace_at k a = Some a' \<Longrightarrow> handed_over a a'"
  using close_selected_hands_over [of "a\<lparr>app_session := (app_session a)\<lparr>selected := k\<rparr>\<rparr>" a']
  by (simp add: close_workspace_at_def)

lemma close_at_session_hands_over: "close_workspace_at k (a\<lparr>app_session := s\<rparr>) = Some a' \<Longrightarrow> handed_over a a'"
  using close_at_hands_over [of k "a\<lparr>app_session := s\<rparr>" a'] by simp

lemma workspace_create_hands_over:
  "handle_workspace_create spawn git micros dir foc env label al a = (res, al', a') \<Longrightarrow> handed_over a a'"
  by (auto simp: handle_workspace_create_def create_workspace_with_launch_env_def Let_def
      split: option.splits sum.splits prod.splits)

lemma tab_create_hands_over:
  "handle_tab_create spawn micros ws dir foc label env al a = Some (res, al', a') \<Longrightarrow> handed_over a a'"
  by (auto simp: handle_tab_create_def Let_def split: option.splits sum.splits prod.splits)

lemma pane_split_hands_over:
  "handle_pane_split spawn micros here target ws d ratio dir foc env al a = Some (res, al', a') \<Longrightarrow> handed_over a a'"
  by (auto simp: handle_pane_split_def Let_def split: option.splits sum.splits prod.splits)

lemma tab_close_hands_over: "handle_tab_close confirm i a = Some (res, a') \<Longrightarrow> handed_over a a'"
  by (auto simp: handle_tab_close_def Let_def close_at_hands_over split: option.splits prod.splits if_splits)

lemma close_pane_hands_over: "close_pane confirm r a = Some (res, a') \<Longrightarrow> handed_over a a'"
  by (auto simp: close_pane_def Let_def bind_eq_Some_conv close_at_session_hands_over
      split: option.splits prod.splits if_splits)

lemma pane_died_hands_over: "handle_pane_died i a = Some a' \<Longrightarrow> handed_over a a'"
  by (auto simp: handle_pane_died_def Let_def bind_eq_Some_conv split: option.splits prod.splits if_splits)

lemma step_hands_over: "app_step spawn git st st' \<Longrightarrow> handed_over (snd st) (snd st')"
  by (induction rule: app_step.induct)
    (auto simp: app_pane_move_def handle_workspace_close_def workspace_create_hands_over tab_create_hands_over pane_split_hands_over
      tab_close_hands_over close_pane_hands_over pane_died_hands_over close_at_hands_over split: option.splits)

section \<open>The order after a block is moved\<close>

lemma positions_fold_other:
  "i \<notin> set ids \<Longrightarrow> hm_get (fold (\<lambda>(k, i) m. hm_insert i k m) (enumerate n ids) m) i = hm_get m i"
  by (induction ids arbitrary: n m) (auto simp: hm_simps)

lemma positions_fold:
  "distinct ids \<Longrightarrow> k < length ids \<Longrightarrow>
     hm_get (fold (\<lambda>(k, i) m. hm_insert i k m) (enumerate n ids) m) (ids ! k) = Some (n + k)"
proof (induction ids arbitrary: n m k)
  case (Cons i ids)
  then show ?case by (cases k) (simp_all add: positions_fold_other hm_simps)
qed simp

lemma desired_positions_nth:
  "distinct ids \<Longrightarrow> k < length ids \<Longrightarrow> hm_get (desired_positions ids) (ids ! k) = Some k"
  unfolding desired_positions_def using positions_fold [of ids k 0 "[]"] by simp

lemma desired_order_facts:
  assumes "distinct (map ws_id (workspaces s))" "distinct moved" "set moved \<subseteq> ws_id ` set (workspaces s)"
  shows "distinct (desired_order moved before s)" "set (desired_order moved before s) = ws_id ` set (workspaces s)"
proof -
  define rest where "rest = filter (\<lambda>i. i \<notin> set moved) (map ws_id (workspaces s))"
  obtain n where n: "desired_order moved before s = take n rest @ moved @ drop n rest"
    by (simp add: desired_order_def Let_def rest_def)
  have d: "distinct rest" "set moved \<inter> set rest = {}" unfolding rest_def using assms(1) by auto
  have "distinct (take n rest @ drop n rest)" using d(1) by simp
  then have "set (take n rest) \<inter> set (drop n rest) = {}" by (simp only: distinct_append)
  then show "distinct (desired_order moved before s)"
    unfolding n using d assms(2) by (auto dest: in_set_takeD in_set_dropD)
  have "set (take n rest) \<union> set (drop n rest) = set rest" by (metis append_take_drop_id set_append)
  then have "set (desired_order moved before s) = set moved \<union> set rest" unfolding n by auto
  then show "set (desired_order moved before s) = ws_id ` set (workspaces s)"
    unfolding rest_def using assms(3) by auto
qed

lemma sorted_by_position:
  assumes "distinct order" "set order = ws_id ` set ws" "distinct (map ws_id ws)"
  shows "map ws_id (sort_key (\<lambda>w. unwrap_or (hm_get (desired_positions order) (ws_id w)) dflt) ws) = order"
proof -
  define g where "g i = unwrap_or (hm_get (desired_positions order) i) dflt" for i
  have g: "g (order ! k) = k" if "k < length order" for k
    using desired_positions_nth [OF assms(1) that] by (simp add: g_def)
  have pos: "map g order = [0..<length order]" by (rule nth_equalityI) (simp_all add: g)
  define l where "l = map ws_id (sort_key (\<lambda>w. g (ws_id w)) ws)"
  have set: "set l = set order" using assms(2) by (simp add: l_def)
  have inj: "inj_on g (set order)" using pos distinct_map [of g order] by simp
  have "mset l = mset (map ws_id ws)" by (simp add: l_def)
  then have "distinct l" using assms(3) mset_eq_imp_distinct_iff by blast
  then have d: "distinct (map g l)" using inj set by (simp add: distinct_map)
  have "sorted (map (\<lambda>w. g (ws_id w)) (sort_key (\<lambda>w. g (ws_id w)) ws))" by (rule sorted_sort_key)
  then have s: "sorted (map g l)" by (simp add: l_def comp_def)
  have "l = order"
    by (rule map_sorted_distinct_set_unique [of g]) (use set inj d s pos in simp_all)
  then show ?thesis by (simp only: l_def g_def)
qed

lemma follow_by_id_same:
  assumes "active_workspace_id s = Some i" "set (map ws_id ws) = set (map ws_id (workspaces s))"
  shows "active_workspace_id (follow_by_id i (selected_workspace_id s) (s\<lparr>workspaces := ws\<rparr>)) = Some i"
proof -
  have "\<exists>k. index_of_workspace x ws = Some k \<and> k < length ws \<and> ws_id (ws ! k) = x" if "x \<in> set (map ws_id ws)" for x
    using that index_of_member by auto
  moreover have "x \<in> set (map ws_id ws)" if "i = Some x" for x
    using assms that by (auto simp: active_workspace_id_def vec_get_def split: option.splits if_splits)
  ultimately show ?thesis
    by (cases i) (force simp: follow_by_id_def active_workspace_id_def vec_get_def)+
qed

lemma moved_block_order:
  assumes "distinct (map ws_id (workspaces s))" "move_workspace_block moved before s = Some (True, s')"
  shows "map ws_id (workspaces s') = desired_order moved before s" "mset (workspaces s') = mset (workspaces s)"
    "active_workspace_id s' = active_workspace_id s"
proof -
  let ?f = "\<lambda>w. unwrap_or (hm_get (desired_positions (desired_order moved before s)) (ws_id w)) (2 ^ 64 - 1)"
  have known: "distinct moved" "set moved \<subseteq> ws_id ` set (workspaces s)"
    using assms(2) by (auto simp: move_workspace_block_def Let_def list_all_iff list_ex_iff split: if_splits)
  obtain i where i: "active_workspace_id s = Some i"
      "s' = follow_by_id i (selected_workspace_id s) (s\<lparr>workspaces := sort_key ?f (workspaces s)\<rparr>)"
    using assms(2) by (auto simp: move_workspace_block_def Let_def bind_eq_Some_conv split: if_splits)
  have ws: "workspaces s' = sort_key ?f (workspaces s)" by (simp add: i(2) follow_by_id_def)
  show "map ws_id (workspaces s') = desired_order moved before s"
    unfolding ws by (rule sorted_by_position [OF desired_order_facts [OF assms(1) known] assms(1)])
  show "mset (workspaces s') = mset (workspaces s)" unfolding ws by simp
  show "active_workspace_id s' = active_workspace_id s"
    unfolding i by (rule follow_by_id_same [OF i(1)]) simp
qed

section \<open>Identifiers\<close>

lemma own_ids_parse:
  assumes "session_ok (al, s)" "k < length (workspaces s)" "t < length (tabs (workspaces s ! k))"
    "i \<in> set (tab_ids (tabs (workspaces s ! k) ! t))"
  obtains tab_text pane_text where
    "public_tab_id k t s = Some tab_text" "parse_tab_id tab_text s = Some (k, t)"
    "public_pane_id k i s = Some pane_text" "parse_pane_id pane_text s = Some (k, i)"
proof -
  let ?w = "workspaces s ! k"
  note ok = session_okD [OF assms(1)]
  have w: "?w \<in> set (workspaces s)" using assms(2) by simp
  note wok = ws_okD [OF ok(2) [OF w]]
  obtain m where m: "ws_id ?w = generated_id m" using ok(4) [OF w] by blast
  have "distinct (map tab_number (tabs ?w))" "tab_number (tabs ?w ! t) \<noteq> 0"
    using wok(4) assms(3) by (simp_all add: tabs_ok_def)
  note tab = parse_tab_id_own [OF ok(3) assms(2) m this(1) assms(3) this(2)]
  have i: "i \<in> set (ws_panes ?w)" using tab_in_ws [OF assms(3)] assms(4) by blast
  then obtain n where n: "public_pane_number i ?w = Some n"
    using wok(6) hm_get_None_iff [of "public_pane_numbers ?w" i] by (auto simp: public_pane_number_def)
  have "pane_named (public_pane_id_for_number (ws_id ?w) n) i s"
    unfolding pane_named_def using assms(2) n by blast
  note pane = pane_named_parses [OF assms(1) this assms(2) i]
  show ?thesis
    by (rule that [OF _ tab _ pane])
      (use assms(2,3) n in \<open>simp_all add: public_tab_id_def public_pane_id_def public_tab_number_def vec_get_def\<close>)
qed

end
