(* ===== verification/App_Responses.thy ===== *)
theory App_Responses
  imports App_Answers
begin

text \<open>
  What a request answers, \<open>tab_info\<close>, \<open>pane_info\<close> (here \<open>api_pane_info\<close>), \<open>workspace_info\<close> and the creation results of
  \<open>src/app/creation.rs\<close>, and the requests of \<open>src/app/api/\<close> with their answers. An answer is
  read from the state the request leaves; where the code unwraps a part that may be missing, or
  indexes the workspaces without a check, the outer \<open>None\<close> is the panic. Left out of the answers
  are the label of a workspace and the directories of a pane, which depend on the running
  processes, and the tokens.
\<close>

section \<open>What an answer shows\<close>

datatype agent_status = StatusIdle | StatusWorking | StatusBlocked | StatusDone | StatusUnknown

definition pane_agent_status :: "agent_state \<Rightarrow> bool \<Rightarrow> agent_status" where
  "pane_agent_status st was_seen =
     (case (st, was_seen) of
        (Idle, False) \<Rightarrow> StatusDone | (Idle, True) \<Rightarrow> StatusIdle | (Working, _) \<Rightarrow> StatusWorking
      | (Blocked, _) \<Rightarrow> StatusBlocked | (Unknown, _) \<Rightarrow> StatusUnknown)"

definition tab_attention_priority :: "agent_state \<Rightarrow> bool \<Rightarrow> nat" where
  "tab_attention_priority st was_seen =
     (case (st, was_seen) of
        (Blocked, _) \<Rightarrow> 4 | (Idle, False) \<Rightarrow> 3 | (Working, _) \<Rightarrow> 2 | (Idle, True) \<Rightarrow> 1 | (Unknown, _) \<Rightarrow> 0)"

fun decimal :: "nat \<Rightarrow> text" where
  "decimal n = (if n < 10 then [48 + n] else decimal (n div 10) @ [48 + n mod 10])"

definition tab_display_name :: "nat \<Rightarrow> 'g workspace \<Rightarrow> text option" where
  "tab_display_name t w =
     map_option (\<lambda>tb. unwrap_or (tab_custom_name tb) (decimal (t + 1))) (vec_get (tabs w) t)"

record api_tab =
  shown_tab_id :: "text"
  shown_tab_workspace :: "text"
  shown_tab_number :: usize
  shown_tab_label :: "text"
  shown_tab_focused :: bool
  shown_tab_panes :: nat
  shown_tab_status :: agent_status

definition tab_info :: "nat \<Rightarrow> nat \<Rightarrow> 'g app \<Rightarrow> api_tab option" where
  "tab_info k t a = do {
     w \<leftarrow> vec_get (workspaces (app_session a)) k;
     tb \<leftarrow> vec_get (tabs w) t;
     let (st, was_seen) = unwrap_or (max_by_key (\<lambda>(st, was_seen). tab_attention_priority st was_seen)
         (List.map_filter (\<lambda>p. map_option (\<lambda>ts. (ts_state ts, seen p)) (hm_get (terminals a) (attached_terminal_id p)))
           (hm_values (tab_panes tb)))) (Unknown, True);
     tab_text \<leftarrow> public_tab_id k t (app_session a);
     ws_text \<leftarrow> public_workspace_id k (app_session a);
     label \<leftarrow> tab_display_name t w;
     Some \<lparr>shown_tab_id = tab_text, shown_tab_workspace = ws_text, shown_tab_number = tab_number tb,
           shown_tab_label = label, shown_tab_focused = (active (app_session a) = Some k \<and> active_tab w = t),
           shown_tab_panes = length (tab_panes tb), shown_tab_status = pane_agent_status st was_seen\<rparr>
   }"

record api_pane =
  shown_pane_id :: "text"
  shown_terminal_id :: "text"
  shown_pane_workspace :: "text"
  shown_pane_tab :: "text"
  shown_pane_focused :: bool
  shown_pane_label :: "text option"
  shown_pane_agent :: "text option"
  shown_pane_status :: agent_status

definition api_pane_info :: "nat \<Rightarrow> pane_id \<Rightarrow> 'g app \<Rightarrow> api_pane option" where
  "api_pane_info k i a = do {
     w \<leftarrow> vec_get (workspaces (app_session a)) k;
     p \<leftarrow> ws_pane_state i w;
     t \<leftarrow> hm_get (terminals a) (attached_terminal_id p);
     tab_idx \<leftarrow> find_tab_index_for_pane i w;
     pane_text \<leftarrow> public_pane_id k i (app_session a);
     ws_text \<leftarrow> public_workspace_id k (app_session a);
     tab_text \<leftarrow> public_tab_id k tab_idx (app_session a);
     Some \<lparr>shown_pane_id = pane_text, shown_terminal_id = ts_id t, shown_pane_workspace = ws_text,
           shown_pane_tab = tab_text,
           shown_pane_focused = (active (app_session a) = Some k \<and> active_tab w = tab_idx \<and> focused_pane_id w = Some i),
           shown_pane_label = manual_label t, shown_pane_agent = effective_agent_label t,
           shown_pane_status = pane_agent_status (ts_state t) (seen p)\<rparr>
   }"

record api_workspace =
  shown_workspace_id :: "text"
  shown_workspace_number :: nat
  shown_workspace_focused :: bool
  shown_workspace_panes :: nat
  shown_workspace_tabs :: nat
  shown_active_tab :: "text"
  shown_workspace_status :: agent_status

text \<open>\<open>None\<close> is the index out of bounds.\<close>

definition workspace_info :: "nat \<Rightarrow> 'g app \<Rightarrow> api_workspace option" where
  "workspace_info k a = do {
     w \<leftarrow> vec_get (workspaces (app_session a)) k;
     let (st, was_seen) = aggregate_state (terminals a) w;
     Some \<lparr>shown_workspace_id = ws_id w, shown_workspace_number = k + 1,
           shown_workspace_focused = (active (app_session a) = Some k),
           shown_workspace_panes = length (public_pane_numbers w), shown_workspace_tabs = length (tabs w),
           shown_active_tab = unwrap_or (public_tab_id k (active_tab w) (app_session a))
             (public_tab_id_for_number (ws_id w) (of_nat (active_tab w) + 1)),
           shown_workspace_status = pane_agent_status st was_seen\<rparr>
   }"

definition root_pane_info :: "nat \<Rightarrow> nat \<Rightarrow> 'g app \<Rightarrow> api_pane option" where
  "root_pane_info k t a = do {
     w \<leftarrow> vec_get (workspaces (app_session a)) k;
     tb \<leftarrow> vec_get (tabs w) t;
     api_pane_info k (root_pane tb) a
   }"

definition tab_created_result :: "nat \<Rightarrow> nat \<Rightarrow> 'g app \<Rightarrow> (api_tab \<times> api_pane) option" where
  "tab_created_result k t a = do { tab \<leftarrow> tab_info k t a; pane \<leftarrow> root_pane_info k t a; Some (tab, pane) }"

definition workspace_created_result :: "nat \<Rightarrow> 'g app \<Rightarrow> (api_workspace \<times> api_tab \<times> api_pane) option" where
  "workspace_created_result k a = do {
     w \<leftarrow> workspace_info k a;
     tab \<leftarrow> tab_info k 0 a;
     pane \<leftarrow> root_pane_info k 0 a;
     Some (w, tab, pane)
   }"

section \<open>The requests with their answers\<close>

definition answer_workspace_create ::
    "('e, 'r) spawner \<Rightarrow> 'g git_answers \<Rightarrow> nat \<Rightarrow> text \<Rightarrow> bool \<Rightarrow> (text, text) hashmap \<Rightarrow> text option \<Rightarrow> allocators \<Rightarrow>
     'g app \<Rightarrow> (('e refusal + api_workspace \<times> api_tab \<times> api_pane) \<times> allocators \<times> 'g app) option" where
  "answer_workspace_create spawn git micros dir take_focus env label al a =
     (case handle_workspace_create spawn git micros dir take_focus env label al a of
        (Inl why, al1, a1) \<Rightarrow> Some (Inl why, al1, a1)
      | (Inr k, al1, a1) \<Rightarrow> map_option (\<lambda>made. (Inr made, al1, a1)) (workspace_created_result k a1))"

definition answer_workspace_focus :: "text \<Rightarrow> 'g app \<Rightarrow> (('e refusal + api_workspace) \<times> 'g app) option" where
  "answer_workspace_focus i a =
     (case handle_workspace_focus i (app_session a) of
        (Inl why, s1) \<Rightarrow> Some (Inl why, a\<lparr>app_session := s1\<rparr>)
      | (Inr k, s1) \<Rightarrow>
          let a1 = a\<lparr>app_session := s1\<rparr> in map_option (\<lambda>info. (Inr info, a1)) (workspace_info k a1))"

definition answer_workspace_rename :: "text \<Rightarrow> text \<Rightarrow> 'g app \<Rightarrow> (('e refusal + api_workspace) \<times> 'g app) option" where
  "answer_workspace_rename i label a =
     (case handle_workspace_rename i label (app_session a) of
        (Inl why, s1) \<Rightarrow> Some (Inl why, a\<lparr>app_session := s1\<rparr>)
      | (Inr k, s1) \<Rightarrow>
          let a1 = a\<lparr>app_session := s1\<rparr> in do {
            _ \<leftarrow> public_workspace_id k s1;
            info \<leftarrow> workspace_info k a1;
            Some (Inr info, a1)
          })"

definition answer_workspace_move ::
    "text \<Rightarrow> nat \<Rightarrow> 'g session \<Rightarrow> (('e refusal + bool) \<times> 'g session) option" where
  "answer_workspace_move i insert_index s =
     (case named_workspace i s of
        None \<Rightarrow> Some (Inl NoWorkspace, s)
      | Some k \<Rightarrow>
          if insert_index > length (workspaces s) then Some (Inl IndexOutOfBounds, s)
          else do { _ \<leftarrow> public_workspace_id k s; handle_workspace_move i insert_index s })"

definition answer_workspace_close :: "text \<Rightarrow> 'g app \<Rightarrow> (('e refusal + api_workspace) \<times> 'g app) option" where
  "answer_workspace_close i a =
     (case named_workspace i (app_session a) of
        None \<Rightarrow> Some (Inl NoWorkspace, a)
      | Some k \<Rightarrow> do {
          _ \<leftarrow> public_workspace_id k (app_session a);
          info \<leftarrow> workspace_info k a;
          (res, a1) \<leftarrow> handle_workspace_close i a;
          Some (case res of Inl why \<Rightarrow> Inl why | Inr _ \<Rightarrow> Inr info, a1)
        })"

definition answer_tab_create ::
    "('e, 'r) spawner \<Rightarrow> nat \<Rightarrow> text option \<Rightarrow> text \<Rightarrow> bool \<Rightarrow> text option \<Rightarrow> (text, text) hashmap \<Rightarrow>
     allocators \<Rightarrow> 'g app \<Rightarrow> (('e refusal + api_tab \<times> api_pane) \<times> allocators \<times> 'g app) option" where
  "answer_tab_create spawn micros workspace_id dir take_focus label env al a = do {
     (res, al1, a1) \<leftarrow> handle_tab_create spawn micros workspace_id dir take_focus label env al a;
     (case res of
        Inl why \<Rightarrow> Some (Inl why, al1, a1)
      | Inr (k, t) \<Rightarrow> map_option (\<lambda>made. (Inr made, al1, a1)) (tab_created_result k t a1))
   }"

definition answer_tab_focus :: "text \<Rightarrow> 'g app \<Rightarrow> (('e refusal + api_tab) \<times> 'g app) option" where
  "answer_tab_focus i a =
     (case handle_tab_focus i (app_session a) of
        (Inl why, s1) \<Rightarrow> Some (Inl why, a\<lparr>app_session := s1\<rparr>)
      | (Inr (k, t), s1) \<Rightarrow>
          let a1 = a\<lparr>app_session := s1\<rparr> in map_option (\<lambda>info. (Inr info, a1)) (tab_info k t a1))"

definition answer_tab_rename :: "text \<Rightarrow> text \<Rightarrow> 'g app \<Rightarrow> (('e refusal + api_tab) \<times> 'g app) option" where
  "answer_tab_rename i label a =
     (case parse_tab_id i (app_session a) of
        None \<Rightarrow> Some (Inl NoTab, a)
      | Some (k, _) \<Rightarrow> do {
          _ \<leftarrow> vec_get (workspaces (app_session a)) k;
          (case handle_tab_rename i label (app_session a) of
             (Inl why, s1) \<Rightarrow> Some (Inl why, a\<lparr>app_session := s1\<rparr>)
           | (Inr (k, t), s1) \<Rightarrow>
               let a1 = a\<lparr>app_session := s1\<rparr> in do {
                 _ \<leftarrow> public_tab_id k t s1;
                 _ \<leftarrow> public_workspace_id k s1;
                 info \<leftarrow> tab_info k t a1;
                 Some (Inr info, a1)
               })
        })"

definition answer_tab_move :: "text \<Rightarrow> nat \<Rightarrow> 'g app \<Rightarrow> (('e refusal + bool) \<times> 'g app) option" where
  "answer_tab_move i insert_index a =
     (case handle_tab_move i insert_index (app_session a) of
        (Inl why, s1) \<Rightarrow> Some (Inl why, a\<lparr>app_session := s1\<rparr>)
      | (Inr moved, s1) \<Rightarrow> do {
          (k, _) \<leftarrow> parse_tab_id i (app_session a);
          _ \<leftarrow> public_workspace_id k (app_session a);
          Some (Inr moved, a\<lparr>app_session := s1\<rparr>)
        })"

definition answer_tab_close ::
    "bool \<Rightarrow> text \<Rightarrow> 'g app \<Rightarrow> (('e refusal + nat \<times> nat) \<times> 'g app) option" where
  "answer_tab_close confirm_close i a =
     (case parse_tab_id i (app_session a) of
        None \<Rightarrow> Some (Inl NoTab, a)
      | Some (k, t) \<Rightarrow>
          if public_tab_id k t (app_session a) = None then Some (Inl NoTab, a)
          else do { _ \<leftarrow> public_workspace_id k (app_session a); handle_tab_close confirm_close i a })"

definition answer_pane_split ::
    "('e, 'r) spawner \<Rightarrow> nat \<Rightarrow> text \<Rightarrow> text option \<Rightarrow> text option \<Rightarrow> direction \<Rightarrow> f32 option \<Rightarrow> text \<Rightarrow>
     bool \<Rightarrow> (text, text) hashmap \<Rightarrow> allocators \<Rightarrow> 'g app \<Rightarrow>
     (('e refusal + api_pane) \<times> allocators \<times> 'g app) option" where
  "answer_pane_split spawn micros here target_pane workspace_id d ratio dir take_focus env al a = do {
     (res, al1, a1) \<leftarrow> handle_pane_split spawn micros here target_pane workspace_id d ratio dir take_focus env al a;
     (case res of
        Inl why \<Rightarrow> Some (Inl why, al1, a1)
      | Inr (k, _, i) \<Rightarrow> map_option (\<lambda>info. (Inr info, al1, a1)) (api_pane_info k i a1))
   }"

definition answer_pane_focus :: "text \<Rightarrow> 'g app \<Rightarrow> (('e refusal + api_pane) \<times> 'g app) option" where
  "answer_pane_focus r a =
     (case parse_pane_id r (app_session a) of
        None \<Rightarrow> Some (Inl NoPane, a)
      | Some (k, _) \<Rightarrow> do {
          _ \<leftarrow> vec_get (workspaces (app_session a)) k;
          Some (case handle_pane_focus r (app_session a) of
             (Inl why, s1) \<Rightarrow> (Inl why, a\<lparr>app_session := s1\<rparr>)
           | (Inr (k, i), s1) \<Rightarrow>
               let a1 = a\<lparr>app_session := s1\<rparr>
               in (case api_pane_info k i a1 of None \<Rightarrow> Inl NoPane | Some info \<Rightarrow> Inr info, a1))
        })"

definition answer_pane_zoom ::
    "text option \<Rightarrow> pane_zoom_command \<Rightarrow> 'g app \<Rightarrow> (('e refusal + pane_zoom_outcome) \<times> 'g app) option" where
  "answer_pane_zoom pane_ref command a =
     (case resolve_optional_pane pane_ref (app_session a) of
        None \<Rightarrow> Some (Inl NoPane, a)
      | Some (k, _) \<Rightarrow> do {
          _ \<leftarrow> vec_get (workspaces (app_session a)) k;
          (case handle_pane_zoom pane_ref command (app_session a) of
             (res, s1) \<Rightarrow> Some (res, a\<lparr>app_session := s1\<rparr>))
        })"

definition answer_pane_close :: "bool \<Rightarrow> text \<Rightarrow> 'g app \<Rightarrow> (('e refusal + nat \<times> pane_id) \<times> 'g app) option" where
  "answer_pane_close confirm_close r a =
     (case parse_pane_id r (app_session a) of
        None \<Rightarrow> Some (Inl NoPane, a)
      | Some (k, i) \<Rightarrow>
          if public_pane_id k i (app_session a) = None then Some (Inl NoPane, a)
          else do { _ \<leftarrow> public_workspace_id k (app_session a); close_pane confirm_close r a })"

definition answer_pane_move ::
    "'g git_answers \<Rightarrow> text \<Rightarrow> text \<Rightarrow> pane_move_destination \<Rightarrow> bool \<Rightarrow> allocators \<Rightarrow> 'g app \<Rightarrow>
     ((move_refusal + api_pane) \<times> allocators \<times> 'g app) option" where
  "answer_pane_move git here r dest take_focus al a =
     (case parse_pane_id r (app_session a) of
        None \<Rightarrow> Some (Inl PaneNotFound, al, a)
      | Some (k, _) \<Rightarrow> do {
          _ \<leftarrow> vec_get (workspaces (app_session a)) k;
          (res, al1, a1) \<leftarrow> app_pane_move git here r dest take_focus al a;
          (case res of
             Inl why \<Rightarrow> Some (Inl why, al1, a1)
           | Inr (tw, _, i) \<Rightarrow> do {
               _ \<leftarrow> public_workspace_id tw (app_session a1);
               Some (case api_pane_info tw i a1 of None \<Rightarrow> Inl PaneMoveFailed | Some info \<Rightarrow> Inr info, al1, a1)
             })
        })"

section \<open>The parts are there\<close>

lemma tab_info_there:
  assumes "k < length (workspaces (app_session a))" "t < length (tabs (workspaces (app_session a) ! k))"
  shows "tab_info k t a \<noteq> None"
  using assms
  by (simp add: tab_info_def public_tab_id_def public_tab_number_def public_workspace_id_def tab_display_name_def
      vec_get_def split_beta Let_def)

lemma workspace_info_there: "k < length (workspaces (app_session a)) \<Longrightarrow> workspace_info k a \<noteq> None"
  by (simp add: workspace_info_def vec_get_def split_beta Let_def)

lemma public_workspace_id_there: "k < length (workspaces s) \<Longrightarrow> public_workspace_id k s \<noteq> None"
  by (simp add: public_workspace_id_def vec_get_def)

lemma pane_info_there:
  assumes "app_ok (al, a)" "k < length (workspaces (app_session a))"
    "i \<in> set (ws_panes (workspaces (app_session a) ! k))"
  shows "api_pane_info k i a \<noteq> None"
proof -
  note ok = app_okD [OF assms(1)]
  let ?w = "workspaces (app_session a) ! k"
  have w: "?w \<in> set (workspaces (app_session a))" using assms(2) by simp
  note wok = ws_okD [OF session_okD(2) [OF ok(1) w]]
  obtain t where t: "find_tab_index_for_pane i ?w = Some t"
    using find_tab_None [OF wok(3), of i] assms(3) by (cases "find_tab_index_for_pane i ?w") auto
  note at = find_tab_facts [OF wok(3) t]
  obtain p where p: "ws_pane_state i ?w = Some p"
    using ws_pane_state_None [OF session_okD(2) [OF ok(1) w], of i] assms(3) by (cases "ws_pane_state i ?w") auto
  have "(i, attached_terminal_id p) \<in> session_terminals (app_session a)"
    using ws_pane_state_terminal [OF session_okD(2) [OF ok(1) w] p] w by (auto simp: session_terminals_def)
  then have "attached_terminal_id p \<in> fst ` set (terminals a)" unfolding ok(4) by force
  then obtain ts where ts: "hm_get (terminals a) (attached_terminal_id p) = Some ts"
    using hm_get_None_iff [of "terminals a" "attached_terminal_id p"] by auto
  obtain tab_text pane_text where "public_tab_id k t (app_session a) = Some tab_text"
      "public_pane_id k i (app_session a) = Some pane_text"
    by (rule own_ids_parse [OF ok(1) assms(2) at])
  then show ?thesis
    using p ts t assms(2) by (simp add: api_pane_info_def public_workspace_id_def vec_get_def)
qed

lemma root_pane_info_there:
  assumes "app_ok (al, a)" "k < length (workspaces (app_session a))"
    "t < length (tabs (workspaces (app_session a) ! k))"
  shows "root_pane_info k t a \<noteq> None"
proof -
  let ?w = "workspaces (app_session a) ! k"
  have "ws_ok ?w" using session_okD(2) [OF app_okD(1) [OF assms(1)]] assms(2) by simp
  note wok = ws_okD(3) [OF this]
  have "tab_ok (tabs ?w ! t)" using wok assms(3) by simp
  then have "root_pane (tabs ?w ! t) \<in> set (ws_panes ?w)"
    using tab_in_ws [OF assms(3)] by (auto simp: tab_ok_def)
  then show ?thesis using pane_info_there [OF assms(1,2)] assms(2,3) by (simp add: root_pane_info_def vec_get_def)
qed

lemma tab_created_there:
  assumes "app_ok (al, a)" "k < length (workspaces (app_session a))"
    "t < length (tabs (workspaces (app_session a) ! k))"
  shows "tab_created_result k t a \<noteq> None"
  using tab_info_there [OF assms(2,3)] root_pane_info_there [OF assms] by (auto simp: tab_created_result_def)

text \<open>How many tabs each workspace has.\<close>

definition outline :: "'g session \<Rightarrow> nat list" where
  "outline s = map (\<lambda>w. length (tabs w)) (workspaces s)"

lemma outline_there:
  "k < length (workspaces s) \<and> t < length (tabs (workspaces s ! k)) \<longleftrightarrow> k < length (outline s) \<and> t < outline s ! k"
  by (auto simp: outline_def)

lemma outline_set [simp]:
  "outline (set_workspace k w s) = (outline s)[k := length (tabs w)]"
  by (simp add: outline_def set_workspace_def map_update)

lemma outline_frame [simp]:
  "outline (s\<lparr>active := x\<rparr>) = outline s" "outline (s\<lparr>selected := y\<rparr>) = outline s"
  "outline (remove_alias_shadowed_by_new_pane i s) = outline s"
  by (simp_all add: outline_def remove_alias_shadowed_by_new_pane_def)

lemma outline_own: "(outline s)[k := length (tabs (workspaces s ! k))] = outline s"
  by (cases "k < length (workspaces s)") (simp_all add: outline_def list_update_same_conv list_update_beyond)

lemma switch_tab_length [simp]: "length (tabs (switch_tab t w)) = length (tabs w)"
  by (simp add: switch_tab_def)

lemma outline_kept [simp]:
  "outline (show_tab k t s) = outline s" "outline (switch_workspace k s) = outline s"
  "outline (set_tab k t tb s) = outline s"
  by (simp_all add: show_tab_def switch_workspace_def set_tab_def outline_own)

section \<open>No answer fails\<close>

lemma tab_create_made:
  assumes "app_ok (al, a)" "room al" "clock_in_range micros" "\<forall>w \<in> set (workspaces (app_session a)). ws_room w"
    "handle_tab_create spawn micros i dir foc label env al a = Some (Inr (k, t), al', a')"
  shows "k < length (workspaces (app_session a')) \<and> t < length (tabs (workspaces (app_session a') ! k))"
proof -
  note ok = app_okD [OF assms(1)]
  let ?s = "app_session a"
  obtain ex where t: "tab_create_target i ?s = Some k" "normalize_launch_env env = Some ex" "k < length (workspaces ?s)"
    using assms(5)
    by (auto simp: handle_tab_create_def vec_get_def Let_def split: option.splits if_splits sum.splits prod.splits)
  let ?w = "workspaces ?s ! k"
  have w: "?w \<in> set (workspaces ?s)" using t(3) by simp
  have get: "vec_get (workspaces ?s) k = Some ?w" using t(3) by (simp add: vec_get_def)
  have "ws_ok ?w" "ws_room ?w" using session_okD(2) [OF ok(1) w] assms(4) w by blast+
  from this fresh_pane [OF ok(1) w] show ?thesis
  proof (cases rule: create_tab_cases [where spawn = spawn and micros = micros and dir = dir and args = None and ex = ex])
    case (failed err)
    then show ?thesis using assms(5) t get by (simp add: handle_tab_create_def)
  next
    case (started terminal runtime w' tid)
    have "t = length (tabs ?w) \<and> outline (app_session a') = (outline ?s)[k := length (tabs w')]"
      using assms(5) t get started(1)
      by (auto simp: handle_tab_create_def Let_def register_terminal_def split: option.splits)
    then show ?thesis using started(6) t(3) unfolding outline_there by (simp add: outline_def)
  qed
qed

lemma workspace_create_made:
  assumes "handle_workspace_create spawn git micros dir foc env label al a = (Inr k, al', a')"
  shows "k < length (workspaces (app_session a'))"
proof -
  obtain ex r al1 a1 where c: "normalize_launch_env env = Some ex"
      "create_workspace_with_launch_env spawn git micros dir foc ex al a = (Inr k, al1, a1)"
    using assms by (auto simp: handle_workspace_create_def split: option.splits prod.splits sum.splits)
  have "length (outline (app_session a1)) = Suc k"
    using c(2) by (auto simp: create_workspace_with_launch_env_def Let_def register_terminal_def
        split: prod.splits sum.splits) (simp_all add: outline_def)
  then have "k < length (outline (app_session a1))" by simp
  moreover have "length (outline (app_session a')) = length (outline (app_session a1))"
    using assms c by (auto simp: handle_workspace_create_def split: option.splits)
  ultimately show ?thesis by (simp add: outline_def)
qed

lemma pane_split_made:
  assumes "app_ok (al, a)" "room al" "clock_in_range micros" "\<forall>w \<in> set (workspaces (app_session a)). ws_room w"
    "handle_pane_split spawn micros here target ws d ratio dir foc env al a = Some (Inr (k, t, i), al', a')"
  shows "k < length (workspaces (app_session a')) \<and> i \<in> set (ws_panes (workspaces (app_session a') ! k))"
proof -
  note ok = app_okD [OF assms(1)]
  let ?s = "app_session a"
  obtain j ex where t: "split_target target ws ?s = Some (k, j)" "normalize_launch_env env = Some ex" "k < length (workspaces ?s)"
    using assms(5)
    by (auto simp: handle_pane_split_def vec_get_def Let_def split: option.splits if_splits sum.splits prod.splits)
  let ?w = "workspaces ?s ! k"
  have w: "?w \<in> set (workspaces ?s)" using t(3) by simp
  have get: "vec_get (workspaces ?s) k = Some ?w" using t(3) by (simp add: vec_get_def)
  have room: "ws_room ?w" using assms(4) w by blast
  from session_okD(2) [OF ok(1) w] room fresh_pane [OF ok(1) w] show ?thesis
  proof (cases rule: split_pane_cases [where spawn = spawn and micros = micros and here = here and i = j and d = d
          and ratio = ratio and dir = "Some dir" and foc = foc and args = None and ex = ex])
    case (started t' new w' tid)
    let ?s1 = "set_workspace k w' ?s"
    have i: "i = np_pane_id new" and ses: "app_session a' = remove_alias_shadowed_by_new_pane (np_pane_id new)
        (if foc then show_tab k t' ?s1 else ?s1)"
      using assms(5) t get started(1) by (auto simp: handle_pane_split_def Let_def register_terminal_def)
    have w': "ws_ok w'" "np_pane_id new \<in> set (ws_panes w')"
      using started(2,5) by (simp_all add: ws_grown_def)
    have "set (ws_panes (workspaces (show_tab k t' ?s1) ! k)) = set (ws_panes w')"
      using t(3) switch_tab_same [OF w'(1), of t'] by (simp add: show_tab_def set_workspace_def ws_same_def)
    moreover have "length (workspaces (show_tab k t' ?s1)) = length (workspaces ?s)"
      by (simp add: show_tab_def set_workspace_def)
    ultimately show ?thesis
      using t(3) w'(2) by (simp add: ses i remove_alias_shadowed_by_new_pane_def set_workspace_def)
  qed (use assms(5) t get in \<open>simp_all add: handle_pane_split_def Let_def\<close>)
qed

lemma answered: "x = Some y \<Longrightarrow> x \<noteq> None"
  by simp

lemma bind_there: "x \<noteq> None \<Longrightarrow> (Option.bind x (\<lambda>_. y) = None) = (y = None)"
  by (cases x) auto

lemma answers_there:
  fixes a :: "'g app"
  assumes "app_ok (al, a)"
  shows "(answer_workspace_focus i a :: (('e refusal + api_workspace) \<times> 'g app) option) \<noteq> None"
    "(answer_workspace_rename i label a :: (('e refusal + api_workspace) \<times> 'g app) option) \<noteq> None"
    "(answer_workspace_move i idx (app_session a) :: (('e refusal + bool) \<times> 'g session) option) \<noteq> None"
    "(answer_workspace_close i a :: (('e refusal + api_workspace) \<times> 'g app) option) \<noteq> None"
    "(answer_tab_focus i a :: (('e refusal + api_tab) \<times> 'g app) option) \<noteq> None"
    "(answer_tab_rename i label a :: (('e refusal + api_tab) \<times> 'g app) option) \<noteq> None"
    "(answer_tab_move i idx a :: (('e refusal + bool) \<times> 'g app) option) \<noteq> None"
    "(answer_tab_close confirm i a :: (('e refusal + nat \<times> nat) \<times> 'g app) option) \<noteq> None"
    "(answer_pane_focus i a :: (('e refusal + api_pane) \<times> 'g app) option) \<noteq> None"
    "(answer_pane_zoom r command a :: (('e refusal + pane_zoom_outcome) \<times> 'g app) option) \<noteq> None"
    "(answer_pane_close confirm i a :: (('e refusal + nat \<times> pane_id) \<times> 'g app) option) \<noteq> None"
proof -
  note ok = app_okD [OF assms]
  let ?s = "app_session a"
  have same: "workspace_info k (a\<lparr>app_session := s\<rparr>) \<noteq> None \<and> public_workspace_id k s \<noteq> None"
    if "k < length (workspaces ?s)" "outline s = outline ?s" for k s
  proof -
    have "length (workspaces s) = length (workspaces ?s)"
      using arg_cong [OF that(2), of length] by (simp add: outline_def)
    then show ?thesis
      using that(1) workspace_info_there [of k "a\<lparr>app_session := s\<rparr>"] public_workspace_id_there [of k s] by simp
  qed
  have tab: "tab_info k t (a\<lparr>app_session := s\<rparr>) \<noteq> None \<and> public_tab_id k t s \<noteq> None"
    if "k < length (workspaces ?s)" "t < length (tabs (workspaces ?s ! k))" "outline s = outline ?s" for k t s
  proof -
    have "k < length (workspaces s) \<and> t < length (tabs (workspaces s ! k))"
      using that outline_there by metis
    then show ?thesis using tab_info_there [of k "a\<lparr>app_session := s\<rparr>" t]
      by (simp add: public_tab_id_def public_tab_number_def vec_get_def)
  qed
  show "(answer_workspace_focus i a :: (('e refusal + api_workspace) \<times> 'g app) option) \<noteq> None"
  proof (cases "named_workspace i ?s")
    case (Some k)
    then show ?thesis using same [OF named_workspace_less [OF Some], of "switch_workspace k ?s"]
      by (auto simp: answer_workspace_focus_def handle_workspace_focus_def)
  qed (simp add: answer_workspace_focus_def handle_workspace_focus_def)
  show "(answer_workspace_rename i label a :: (('e refusal + api_workspace) \<times> 'g app) option) \<noteq> None"
  proof (cases "named_workspace i ?s")
    case (Some k)
    let ?s1 = "set_workspace k (ws_set_custom_name label (workspaces ?s ! k)) ?s"
    have "outline ?s1 = outline ?s" by (simp add: ws_set_custom_name_def outline_own)
    then show ?thesis using Some same [OF named_workspace_less [OF Some], of ?s1]
      by (auto simp: answer_workspace_rename_def handle_workspace_rename_def Let_def)
  qed (simp add: answer_workspace_rename_def handle_workspace_rename_def)
  have move: "(handle_workspace_move i idx ?s :: (('e refusal + bool) \<times> 'g session) option) \<noteq> None"
    by (rule workspace_move_kept [OF ok(1,2)], erule answered)
  show "(answer_workspace_move i idx ?s :: (('e refusal + bool) \<times> 'g session) option) \<noteq> None"
  proof (cases "named_workspace i ?s")
    case (Some k)
    then show ?thesis using move public_workspace_id_there [OF named_workspace_less [OF Some]]
      by (simp add: answer_workspace_move_def bind_there del: not_None_eq)
  qed (simp add: answer_workspace_move_def)
  show "(answer_workspace_close i a :: (('e refusal + api_workspace) \<times> 'g app) option) \<noteq> None"
  proof (cases "named_workspace i ?s")
    case (Some k)
    obtain res a' where "(handle_workspace_close i a :: (('e refusal + nat) \<times> 'g app) option) = Some (res, a')"
      by (rule workspace_close_kept [OF assms])
    then show ?thesis
      using Some public_workspace_id_there [OF named_workspace_less [OF Some]] workspace_info_there [OF named_workspace_less [OF Some]]
      by (auto simp: answer_workspace_close_def)
  qed (simp add: answer_workspace_close_def)
  show "(answer_tab_focus i a :: (('e refusal + api_tab) \<times> 'g app) option) \<noteq> None"
  proof (cases "parse_tab_id i ?s")
    case (Some e)
    obtain k t where e: "e = (k, t)" by (cases e)
    then have "k < length (workspaces ?s)" "t < length (tabs (workspaces ?s ! k))"
      using parse_tab_id_there [of i ?s k t] Some by simp_all
    then show ?thesis using Some e tab [of k t "show_tab k t ?s"]
      by (auto simp: answer_tab_focus_def handle_tab_focus_def)
  qed (simp add: answer_tab_focus_def handle_tab_focus_def)
  show "(answer_tab_rename i label a :: (('e refusal + api_tab) \<times> 'g app) option) \<noteq> None"
  proof (cases "parse_tab_id i ?s")
    case (Some e)
    obtain k t where e: "e = (k, t)" by (cases e)
    then have b: "k < length (workspaces ?s)" "t < length (tabs (workspaces ?s ! k))"
      using parse_tab_id_there [of i ?s k t] Some by simp_all
    let ?s1 = "set_tab k t (set_tab_name label (tabs (workspaces ?s ! k) ! t)) ?s"
    have "outline ?s1 = outline ?s" by simp
    then show ?thesis using Some e b tab [of k t ?s1] same [of k ?s1]
      by (auto simp: answer_tab_rename_def handle_tab_rename_def get_tab_def vec_get_def Let_def)
  qed (simp add: answer_tab_rename_def)
  show "(answer_tab_move i idx a :: (('e refusal + bool) \<times> 'g app) option) \<noteq> None"
  proof (cases "parse_tab_id i ?s")
    case (Some e)
    obtain k t where e: "e = (k, t)" by (cases e)
    then have "k < length (workspaces ?s)" using parse_tab_id_there [of i ?s k t] Some by simp
    then show ?thesis using Some e public_workspace_id_there [of k ?s]
      by (auto simp: answer_tab_move_def handle_tab_move_def vec_get_def Let_def split_beta)
  qed (simp add: answer_tab_move_def handle_tab_move_def)
  have tab_close: "(handle_tab_close confirm i a :: (('e refusal + nat \<times> nat) \<times> 'g app) option) \<noteq> None"
    by (rule tab_close_kept [OF assms], erule answered)
  show "(answer_tab_close confirm i a :: (('e refusal + nat \<times> nat) \<times> 'g app) option) \<noteq> None"
  proof (cases "parse_tab_id i ?s")
    case (Some e)
    obtain k t where e: "e = (k, t)" by (cases e)
    then have "k < length (workspaces ?s)" using parse_tab_id_there [of i ?s k t] Some by simp
    then show ?thesis using Some e tab_close public_workspace_id_there [of k ?s]
      by (simp add: answer_tab_close_def bind_there del: not_None_eq)
  qed (simp add: answer_tab_close_def)
  show "(answer_pane_focus i a :: (('e refusal + api_pane) \<times> 'g app) option) \<noteq> None"
  proof (cases "parse_pane_id i ?s")
    case (Some e)
    obtain k j where e: "e = (k, j)" by (cases e)
    then have "k < length (workspaces ?s)" using parse_pane_id_there [of i ?s k j] Some by simp
    then show ?thesis using Some e by (simp add: answer_pane_focus_def vec_get_def)
  qed (simp add: answer_pane_focus_def)
  show "(answer_pane_zoom r command a :: (('e refusal + pane_zoom_outcome) \<times> 'g app) option) \<noteq> None"
  proof (cases "resolve_optional_pane r ?s")
    case (Some e)
    obtain k j where e: "e = (k, j)" by (cases e)
    have "k < length (workspaces ?s)"
      using Some e parse_pane_id_there
      by (auto simp: resolve_optional_pane_def vec_get_def bind_eq_Some_conv split: option.splits if_splits)
    then show ?thesis using Some e by (simp add: answer_pane_zoom_def vec_get_def split: prod.split)
  qed (simp add: answer_pane_zoom_def)
  have pane_close: "(close_pane confirm i a :: (('e refusal + nat \<times> pane_id) \<times> 'g app) option) \<noteq> None"
    by (rule pane_close_kept [OF assms], erule answered)
  show "(answer_pane_close confirm i a :: (('e refusal + nat \<times> pane_id) \<times> 'g app) option) \<noteq> None"
  proof (cases "parse_pane_id i ?s")
    case (Some e)
    obtain k j where e: "e = (k, j)" by (cases e)
    then have "k < length (workspaces ?s)" using parse_pane_id_there [of i ?s k j] Some by simp
    then show ?thesis using Some e pane_close public_workspace_id_there [of k ?s]
      by (simp add: answer_pane_close_def bind_there del: not_None_eq)
  qed (simp add: answer_pane_close_def)
qed

lemma starts_there:
  fixes a :: "'g app"
  assumes "app_ok (al, a)" "room al" "clock_in_range micros" "\<forall>w \<in> set (workspaces (app_session a)). ws_room w"
  shows "answer_workspace_create spawn git micros dir foc env label al a \<noteq> None"
    "answer_tab_create spawn micros ws dir foc label env al a \<noteq> None"
    "answer_pane_split spawn micros here target ws d ratio dir foc env al a \<noteq> None"
proof -
  obtain res al' a' where c: "handle_workspace_create spawn git micros dir foc env label al a = (res, al', a')"
    by (metis prod.exhaust)
  note app' = workspace_create_kept [OF assms(1-3) c]
  show "answer_workspace_create spawn git micros dir foc env label al a \<noteq> None"
  proof (cases res)
    case (Inr k)
    have k: "k < length (workspaces (app_session a'))" by (rule workspace_create_made [OF c [unfolded Inr]])
    then have "ws_ok (workspaces (app_session a') ! k)" using session_okD(2) [OF app_okD(1) [OF app']] by simp
    then have t: "0 < length (tabs (workspaces (app_session a') ! k))" using ws_okD(2) by (metis gr_implies_not0 not_gr0)
    from workspace_info_there [OF k] tab_info_there [OF k t] root_pane_info_there [OF app' k t]
    show ?thesis by (auto simp: answer_workspace_create_def c Inr workspace_created_result_def)
  qed (simp add: answer_workspace_create_def c)
  show "answer_tab_create spawn micros ws dir foc label env al a \<noteq> None"
  proof (rule tab_create_kept [OF assms, where spawn = spawn and i = ws and dir = dir and foc = foc and label = label and env = env])
    fix res al' a'
    assume c: "handle_tab_create spawn micros ws dir foc label env al a = Some (res, al', a')" "app_ok (al', a')"
    show ?thesis
    proof (cases res)
      case (Inr e)
      obtain k t where e: "e = (k, t)" by (cases e)
      have "tab_created_result k t a' \<noteq> None"
        using tab_create_made [OF assms c(1) [unfolded Inr e]] tab_created_there [OF c(2)] by blast
      then show ?thesis by (auto simp: answer_tab_create_def c Inr e)
    qed (simp add: answer_tab_create_def c)
  qed
  show "answer_pane_split spawn micros here target ws d ratio dir foc env al a \<noteq> None"
  proof (rule pane_split_kept [OF assms, where spawn = spawn and here = here and target = target and i = ws and d = d
        and ratio = ratio and dir = dir and foc = foc and env = env])
    fix res al' a'
    assume c: "handle_pane_split spawn micros here target ws d ratio dir foc env al a = Some (res, al', a')" "app_ok (al', a')"
    show ?thesis
    proof (cases res)
      case (Inr e)
      obtain k t i where e: "e = (k, t, i)" by (cases e)
      have "api_pane_info k i a' \<noteq> None"
        using pane_split_made [OF assms c(1) [unfolded Inr e]] pane_info_there [OF c(2)] by blast
      then show ?thesis by (auto simp: answer_pane_split_def c Inr e)
    qed (simp add: answer_pane_split_def c)
  qed
qed

lemma moves_there:
  fixes a :: "'g app"
  assumes "app_ok (al, a)" "room al" "\<forall>w \<in> set (workspaces (app_session a)). ws_room w"
  shows "answer_pane_move git here r dest foc al a = None \<longrightarrow>
    (\<exists>m new_label k. dest = ToNewTab (Some m) new_label \<and> parse_workspace_id m (app_session a) = Some k
       \<and> length (workspaces (app_session a)) \<le> k)"
proof (cases "parse_pane_id r (app_session a)")
  case None
  then show ?thesis by (simp add: answer_pane_move_def)
next
  case (Some e)
  obtain k i where e: "parse_pane_id r (app_session a) = Some (k, i)" using Some by (cases e) simp
  have k: "vec_get (workspaces (app_session a)) k \<noteq> None" using parse_pane_id_there [OF e] by (simp add: vec_get_def)
  from app_okD(1) [OF assms(1)] assms(2,3) show ?thesis
  proof (cases rule: handle_pane_move_cases [where git = git and terminals = "terminals a" and here = here
      and pane_ref = r and dest = dest and foc = foc])
    case (refused why)
    then show ?thesis using e k by (auto simp: answer_pane_move_def app_pane_move_def)
  next
    case (missing_workspace m new_label j)
    then show ?thesis by blast
  next
    case (moved k' j n tw tt al' s')
    then have "public_workspace_id tw s' \<noteq> None"
      by (intro public_workspace_id_there) (simp add: moved_well_def pane_at_def)
    then show ?thesis using e k moved(1) by (auto simp: answer_pane_move_def app_pane_move_def)
  qed
qed

end
