(* ===== verification/App_Aliases.thy ===== *)
theory App_Aliases
  imports App_Answers
begin

text \<open>
  The table of the identifiers that panes had before they were moved to another workspace, when
  such a pane is closed through the API: the pane goes and its old identifier stays.
\<close>

section \<open>A closed pane is gone\<close>

lemma selected_is_closed: "selected s < length (workspaces s) \<Longrightarrow> selected s \<in> set (close_indices s)"
  by (auto simp: close_indices_def Let_def vec_get_def group_key_def in_group_def bind_eq_Some_conv
      split: option.split bind_splits if_splits)

lemma closed_workspace_is_gone:
  assumes "app_ok (al, a)" "k < length (workspaces (app_session a))" "close_workspace_at k a = Some a'"
  shows "workspaces (app_session a) ! k \<notin> set (workspaces (app_session a'))"
proof
  let ?s = "(app_session a)\<lparr>selected := k\<rparr>" and ?ws = "workspaces (app_session a)"
  assume stays: "?ws ! k \<in> set (workspaces (app_session a'))"
  have sel: "selected ?s < length (workspaces ?s)" using assms(2) by simp
  note ks = close_indices_facts [OF sel]
  obtain ws where ws: "remove_indices (rev (close_indices ?s)) ?ws = Some ws"
      "mset ws + mset (map ((!) ?ws) (rev (close_indices ?s))) = mset ?ws"
    using remove_indices_facts [OF ks(1), of ?ws] ks(2) by auto
  have "?ws \<noteq> []" using assms(2) by auto
  then have "workspaces (app_session a') = ws"
    using assms(3) ws(1)
    by (auto simp: close_workspace_at_def close_selected_workspace_def Let_def)
  then have "?ws ! k \<in> set ws" using stays by simp
  moreover have "?ws ! k \<in> set (map ((!) ?ws) (rev (close_indices ?s)))"
    using selected_is_closed [OF sel] by simp
  moreover have "mset (ws @ map ((!) ?ws) (rev (close_indices ?s))) = mset ?ws" using ws(2) by simp
  then have "distinct (ws @ map ((!) ?ws) (rev (close_indices ?s)))"
    using mset_eq_imp_distinct_iff session_okD(3) [OF app_okD(1) [OF assms(1)]] unfolding distinct_map by blast
  ultimately show False unfolding distinct_append by blast
qed

lemma close_at_aliases:
  "close_workspace_at k a = Some a' \<Longrightarrow>
     public_pane_id_aliases (app_session a') = public_pane_id_aliases (app_session a)"
  by (auto simp: close_workspace_at_def close_selected_workspace_def Let_def bind_eq_Some_conv
      split: if_splits)

lemma closed_pane_is_gone:
  assumes "app_ok (al, a)" "close_pane confirm r a = Some (Inr (k, i), a')"
  shows "\<forall>w \<in> set (workspaces (app_session a')). i \<notin> set (ws_panes w)"
    "public_pane_id_aliases (app_session a') = public_pane_id_aliases (app_session a)"
proof -
  note ok = app_okD [OF assms(1)]
  let ?s = "app_session a" and ?w = "workspaces (app_session a) ! k"
  have p: "parse_pane_id r ?s = Some (k, i)" "public_pane_id k i ?s \<noteq> None"
    using assms(2) by (auto simp: close_pane_def Let_def bind_eq_Some_conv split: option.splits prod.splits if_splits)
  have k: "k < length (workspaces ?s)" by (rule parse_pane_id_there [OF p(1)])
  have wok: "ws_ok ?w" using session_okD(2) [OF ok(1)] k by simp
  have "hm_get (public_pane_numbers ?w) i \<noteq> None"
    using k p(2) by (auto simp: public_pane_id_def vec_get_def public_pane_number_def split: bind_splits)
  then have inside: "i \<in> set (ws_panes ?w)" using ws_okD(6) [OF wok] by (simp add: hm_get_None_iff)
  have only: "w = ?w" if "w \<in> set (workspaces ?s)" "i \<in> set (ws_panes w)" for w
    using that session_unique [OF ok(1) _ k _ inside] by (metis in_set_conv_nth)
  from wok have "(\<forall>w \<in> set (workspaces (app_session a')). i \<notin> set (ws_panes w))
      \<and> public_pane_id_aliases (app_session a') = public_pane_id_aliases ?s"
  proof (cases rule: remove_pane_cases [where i = i])
    case absent
    then show ?thesis using inside by simp
  next
    case last
    have same: "a\<lparr>app_session := set_workspace k ?w ?s\<rparr> = a" by (simp add: set_workspace_def)
    obtain a1 where a1: "close_workspace_at k a = Some a1" "a' = shutdown_detached_terminal_runtimes a1"
      using assms(2) p last(1)
      by (auto simp: close_pane_def ws_close_pane_def Let_def bind_eq_Some_conv same split: prod.splits if_splits)
    obtain a2 where "close_workspace_at k a = Some a2" "set (workspaces (app_session a2)) \<subseteq> set (workspaces ?s)"
      by (rule close_workspace_at_facts [OF assms(1) k])
    then have "set (workspaces (app_session a1)) \<subseteq> set (workspaces ?s)" using a1(1) by simp
    then have "i \<notin> set (ws_panes w)" if "w \<in> set (workspaces (app_session a1))" for w
      using closed_workspace_is_gone [OF assms(1) k a1(1)] only that by blast
    then show ?thesis using close_at_aliases [OF a1(1)] by (simp add: a1(2) shutdown_detached_terminal_runtimes_def)
  next
    case (removed w')
    have ses: "app_session a' = set_workspace k w' ?s"
      using assms(2) p removed(1)
      by (auto simp: close_pane_def ws_close_pane_def Let_def bind_eq_Some_conv shutdown_detached_terminal_runtimes_def
          split: prod.splits if_splits)
    have "i \<notin> set (ws_panes w)" if "w \<in> set (workspaces (set_workspace k w' ?s))" for w
    proof -
      have "w \<in> set ((workspaces ?s)[k := w'])" using that by (simp add: set_workspace_def)
      then obtain j where j: "j < length (workspaces ?s)" "(workspaces ?s)[k := w'] ! j = w"
        unfolding in_set_conv_nth by auto
      show ?thesis
      proof (cases "j = k")
        case True
        then show ?thesis using j removed(3) by (simp add: ws_shrunk_def)
      next
        case False
        then show ?thesis using j session_unique [OF ok(1) j(1) k _ inside] by auto
      qed
    qed
    then show ?thesis by (simp add: ses set_workspace_def)
  qed
  then show "\<forall>w \<in> set (workspaces (app_session a')). i \<notin> set (ws_panes w)"
    "public_pane_id_aliases (app_session a') = public_pane_id_aliases ?s" by blast+
qed

lemma gone_alias_breaks_assertions:
  assumes "session_ok (al, s)" "hm_get (public_pane_id_aliases s) old = Some i"
    "\<forall>w \<in> set (workspaces s). i \<notin> set (ws_panes w)"
  shows "\<not> alias_assertions s"
proof -
  have known: "(old, i) \<in> set (public_pane_id_aliases s)"
    using assms(2) by (induction "public_pane_id_aliases s") (auto simp: hm_get_def dest: map_of_SomeD)
  have "i \<notin> set (map fst (concat (map live_panes (workspaces s))))"
  proof
    assume "i \<in> set (map fst (concat (map live_panes (workspaces s))))"
    then obtain w t where w: "w \<in> set (workspaces s)" "t \<in> set (tabs w)" "i \<in> fst ` set (tab_panes t)"
      by (auto simp: live_panes_def)
    then have "i \<in> set (tab_ids t)" using ws_okD(3) [OF session_okD(2) [OF assms(1)]] by (auto simp: tab_ok_def)
    then show False using w assms(3) by (auto simp: ws_panes_def)
  qed
  then show ?thesis using known unfolding alias_assertions_def Let_def by (auto simp: list_all_iff split: if_splits)
qed

text \<open>A pane that is now in another workspace than its old identifier says is found by that
  identifier in the table only.\<close>

lemma moved_away_alias:
  assumes "session_ok (al, s)" "pane_named (public_pane_id_for_number gid n) i s" "pane_at i tw tt s"
    "ws_id (workspaces s ! tw) \<noteq> gid"
  shows "hm_get (public_pane_id_aliases s) (public_pane_id_for_number gid n) = Some i"
proof (rule ccontr)
  assume "hm_get (public_pane_id_aliases s) (public_pane_id_for_number gid n) \<noteq> Some i"
  then obtain j m where j: "j < length (workspaces s)" "public_pane_number i (workspaces s ! j) = Some m"
      "public_pane_id_for_number gid n = public_pane_id_for_number (ws_id (workspaces s ! j)) m"
    using assms(2) by (auto simp: pane_named_def)
  then have gid: "gid = ws_id (workspaces s ! j)" using pane_id_split [of gid n] pane_id_split by (metis option.inject prod.inject)
  have wok: "ws_ok (workspaces s ! j)" using session_okD(2) [OF assms(1)] j(1) by simp
  have "hm_get (public_pane_numbers (workspaces s ! j)) i \<noteq> None"
    using j(2) by (simp add: public_pane_number_def)
  then have "i \<in> set (ws_panes (workspaces s ! j))" using ws_okD(6) [OF wok] by (simp add: hm_get_None_iff)
  moreover have at: "tw < length (workspaces s)" "i \<in> set (ws_panes (workspaces s ! tw))"
    using assms(3) tab_in_ws by (auto simp: pane_at_def)
  ultimately have "j = tw" using session_unique [OF assms(1) j(1) at(1)] by blast
  then show False using gid assms(4) by simp
qed

lemma move_leaves_alias:
  assumes "app_ok (al, a)" "room al" "\<forall>w \<in> set (workspaces (app_session a)). ws_room w"
    "app_pane_move git here r dest foc al a = Some (Inr (tw, tt, i), al1, a1)"
    "parse_pane_id r (app_session a) = Some (k, j)" "public_pane_id k j (app_session a) = Some earlier_id"
    "ws_id (workspaces (app_session a1) ! tw) \<noteq> ws_id (workspaces (app_session a) ! k)"
  shows "hm_get (public_pane_id_aliases (app_session a1)) earlier_id = Some i"
proof -
  obtain s1 where h: "handle_pane_move git (terminals a) here r dest foc al (app_session a) = Some (Inr (tw, tt, i), al1, s1)"
      and a1: "a1 = a\<lparr>app_session := s1\<rparr>"
    using assms(4) by (auto simp: app_pane_move_def)
  from app_okD(1) [OF assms(1)] assms(2,3) show ?thesis
  proof (cases rule: handle_pane_move_cases [where git = git and terminals = "terminals a" and here = here
      and pane_ref = r and dest = dest and foc = foc])
    case (moved k' j' n tw' tt' al2 s2)
    then have e: "k' = k" "j' = i" "j = i" "tw' = tw" "tt' = tt" "al2 = al1" "s2 = s1" using h assms(5) by simp_all
    note well = moved(5) [unfolded e moved_well_def]
    have id: "earlier_id = public_pane_id_for_number (ws_id (workspaces (app_session a) ! k)) n"
      using assms(6) moved(3,4) e by (simp add: public_pane_id_def vec_get_def)
    show ?thesis
      using moved_away_alias [of al1 s1 "ws_id (workspaces (app_session a) ! k)" n i tw tt] well assms(7) by (simp add: id a1)
  qed (use h in simp_all)
qed

end
