(* ===== verification/App_Scenario.thy ===== *)
theory App_Scenario
  imports App_Machine "HOL-Library.Code_Target_Nat"
begin

text \<open>
  A short session that the witnesses use: a workspace is created, its pane is split, a second
  workspace is created, and a tab is opened in it. Each state is written out, and the code's
  handlers are evaluated once to show that they lead from one to the next.
\<close>

definition demo_spawn :: "(unit, unit) spawner" where
  "demo_spawn = (\<lambda>_. Inr ())"

definition demo_git :: "unit git_answers" where
  "demo_git = \<lparr>discover_workspace_git_identity = (\<lambda>_. (None, [], [])), git_branch = (\<lambda>_. None)\<rparr>"

definition demo_clock :: nat where
  "demo_clock = 1700000000000000"

definition demo_tid :: "nat \<Rightarrow> text" where
  "demo_tid n = lit ''term_60a24181e4000'' @ [48 + of_nat n]"

definition demo_terminal :: "nat \<Rightarrow> text \<Rightarrow> text \<times> terminal_state" where
  "demo_terminal n dir = (demo_tid n, new_terminal (demo_tid n) dir)"

definition demo_plain_tab :: "usize \<Rightarrow> nat \<Rightarrow> tab" where
  "demo_plain_tab number p =
     \<lparr>tab_custom_name = None, tab_number = number, root_pane = of_nat p,
      tab_layout = \<lparr>tree_root = Pane (of_nat p), focus = of_nat p\<rparr>,
      tab_panes = [(of_nat p, new_pane_state (demo_tid p))], zoomed = False\<rparr>"

definition demo_split_tab :: tab where
  "demo_split_tab = (demo_plain_tab 1 1)
     \<lparr>tab_layout := \<lparr>tree_root = Split Horizontal (Fin (1 / 2)) (Pane 1) (Pane 2), focus = 1\<rparr>,
      tab_panes := [(1, new_pane_state (demo_tid 1)), (2, new_pane_state (demo_tid 2))]\<rparr>"

definition demo_ws :: "text \<Rightarrow> text \<Rightarrow> text option \<Rightarrow> (pane_id, usize) hashmap \<Rightarrow> tab list \<Rightarrow> unit workspace" where
  "demo_ws i dir name numbers ts =
     \<lparr>ws_id = i, custom_name = name, identity_cwd = dir, cached_identity_cwd = dir, cached_auto_label = [],
      cached_git_status_key = [], cached_git_branch = None, cached_git_ahead_behind = None, cached_git_space = None,
      worktree_space = None, ws_metadata_tokens = \<lparr>entries = []\<rparr>, metadata_token_sequences = [],
      public_pane_numbers = numbers, next_public_pane_number = of_nat (length numbers) + 1,
      next_public_tab_number = of_nat (length ts) + 1, tabs = ts, active_tab = length ts - 1\<rparr>"

definition demo_app :: "unit workspace list \<Rightarrow> (text \<times> terminal_state) list \<Rightarrow> unit app" where
  "demo_app ws ts =
     \<lparr>app_session = \<lparr>workspaces = ws, active = Some (length ws - 1), selected = length ws - 1, pane_id_aliases = [],
        public_pane_id_aliases = []\<rparr>, terminals = ts, terminal_runtime_shutdowns = [], runtimes_shut_down = []\<rparr>"

definition demo_first_ws :: "unit workspace" where
  "demo_first_ws = demo_ws (lit ''w1'') (lit ''/a'') None [(1, 1), (2, 2)] [demo_split_tab]"

definition demo_allocated :: "u32 \<Rightarrow> u64 \<Rightarrow> allocators" where
  "demo_allocated n w = \<lparr>next_pane_id = n, next_terminal_id = ucast n, next_workspace_id = w\<rparr>"

definition demo_workspace :: "allocators \<times> unit app" where
  "demo_workspace = (demo_allocated 2 2,
     demo_app [demo_ws (lit ''w1'') (lit ''/a'') None [(1, 1)] [demo_plain_tab 1 1]] [demo_terminal 1 (lit ''/a'')])"

definition demo_split :: "allocators \<times> unit app" where
  "demo_split = (demo_allocated 3 2,
     demo_app [demo_first_ws] [demo_terminal 1 (lit ''/a''), demo_terminal 2 (lit ''/a'')])"

definition demo_second :: "allocators \<times> unit app" where
  "demo_second = (demo_allocated 4 3,
     demo_app [demo_first_ws, demo_ws (lit ''w2'') (lit ''/b'') (Some (lit ''b'')) [(3, 1)] [demo_plain_tab 1 3]]
       [demo_terminal 1 (lit ''/a''), demo_terminal 2 (lit ''/a''), demo_terminal 3 (lit ''/b'')])"

definition demo_tab :: "allocators \<times> unit app" where
  "demo_tab = (demo_allocated 5 3,
     demo_app [demo_first_ws, demo_ws (lit ''w2'') (lit ''/b'') (Some (lit ''b'')) [(3, 1), (4, 2)]
         [demo_plain_tab 1 3, demo_plain_tab 2 4]]
       [demo_terminal 1 (lit ''/a''), demo_terminal 2 (lit ''/a''), demo_terminal 3 (lit ''/b''),
        demo_terminal 4 (lit ''/b'')])"

lemma demo_room:
  "room initial_allocators" "clock_in_range demo_clock" "room (fst demo_workspace)" "all_room (snd demo_workspace)"
  "room (fst demo_split)" "room (fst demo_second)" "all_room (snd demo_second)" "room (fst demo_tab)"
  "all_room (snd demo_tab)"
  by code_simp+

lemma demo_workspace_answer:
  "handle_workspace_create demo_spawn demo_git demo_clock (lit ''/a'') True [] None initial_allocators initial_app
   = (Inr 0 :: unit refusal + nat, fst demo_workspace, snd demo_workspace)"
  by code_simp

lemma demo_split_answer:
  "handle_pane_split demo_spawn demo_clock (lit ''/'') (Some (lit ''w1:p1'')) None Horizontal None (lit ''/a'') False []
     (fst demo_workspace) (snd demo_workspace) = Some (Inr (0, 0, 2), fst demo_split, snd demo_split)"
  by code_simp

lemma demo_second_answer:
  "handle_workspace_create demo_spawn demo_git demo_clock (lit ''/b'') True [] (Some (lit ''b''))
     (fst demo_split) (snd demo_split) = (Inr 1 :: unit refusal + nat, fst demo_second, snd demo_second)"
  by code_simp

lemma demo_tab_answer:
  "handle_tab_create demo_spawn demo_clock (Some (lit ''w2'')) (lit ''/b'') True None []
     (fst demo_second) (snd demo_second) = Some (Inr (1, 1), fst demo_tab, snd demo_tab)"
  by code_simp

lemma demo_reachable:
  "reachable app_init (app_step demo_spawn demo_git) demo_workspace"
  "reachable app_init (app_step demo_spawn demo_git) demo_split"
  "reachable app_init (app_step demo_spawn demo_git) demo_second"
  "reachable app_init (app_step demo_spawn demo_git) demo_tab"
proof -
  let ?R = "reachable app_init (app_step demo_spawn demo_git)"
  have start: "?R (initial_allocators, initial_app)"
    by (rule reachable.start) (simp add: app_init_def)
  have w: "?R (fst demo_workspace, snd demo_workspace)"
    by (rule reachable.step [OF start workspace_created [OF demo_room(1,2) demo_workspace_answer]])
  have s: "?R (fst demo_split, snd demo_split)"
    by (rule reachable.step [OF w pane_split [OF demo_room(3,2,4) demo_split_answer]])
  have n: "?R (fst demo_second, snd demo_second)"
    by (rule reachable.step [OF s workspace_created [OF demo_room(5,2) demo_second_answer]])
  have t: "?R (fst demo_tab, snd demo_tab)"
    by (rule reachable.step [OF n tab_created [OF demo_room(6,2,7) demo_tab_answer]])
  from w s n t show "?R demo_workspace" "?R demo_split" "?R demo_second" "?R demo_tab" by simp_all
qed

text \<open>The first pane of the second workspace goes to the first one, and is closed there.\<close>

definition demo_moved :: "allocators \<times> unit app" where
  "demo_moved =
     (case app_pane_move demo_git (lit ''/'') (lit ''w2:p1'') (ToTab (lit ''w1:t1'') None Horizontal None) False
        (fst demo_tab) (snd demo_tab) of Some (_, st) \<Rightarrow> st | None \<Rightarrow> demo_tab)"

definition demo_closed :: "allocators \<times> unit app" where
  "demo_closed = (let (al, a) = demo_moved in
     (al, case close_pane False (lit ''w2:p1'') a :: ((unit refusal + nat \<times> pane_id) \<times> unit app) option of
        Some (_, a') \<Rightarrow> a' | None \<Rightarrow> a))"

lemma demo_moved_answer:
  "\<exists>res. app_pane_move demo_git (lit ''/'') (lit ''w2:p1'') (ToTab (lit ''w1:t1'') None Horizontal None) False
     (fst demo_tab) (snd demo_tab) = Some (res, demo_moved)"
proof -
  have "app_pane_move demo_git (lit ''/'') (lit ''w2:p1'') (ToTab (lit ''w1:t1'') None Horizontal None) False
     (fst demo_tab) (snd demo_tab) \<noteq> None" by code_simp
  then show ?thesis by (auto simp: demo_moved_def)
qed

lemma demo_closed_reachable:
  "reachable app_init (app_step demo_spawn demo_git) demo_moved"
  "reachable app_init (app_step demo_spawn demo_git) demo_closed"
proof -
  let ?R = "reachable app_init (app_step demo_spawn demo_git)"
  obtain res where move: "app_pane_move demo_git (lit ''/'') (lit ''w2:p1'') (ToTab (lit ''w1:t1'') None Horizontal None)
      False (fst demo_tab) (snd demo_tab) = Some (res, fst demo_moved, snd demo_moved)"
    using demo_moved_answer by auto
  have t: "?R (fst demo_tab, snd demo_tab)" using demo_reachable(4) by simp
  have m: "?R (fst demo_moved, snd demo_moved)"
    by (rule reachable.step [OF t pane_moved [OF demo_room(8,9) move]])
  have "?R demo_closed"
  proof (cases "close_pane False (lit ''w2:p1'') (snd demo_moved) :: ((unit refusal + nat \<times> pane_id) \<times> unit app) option")
    case None
    then have "demo_closed = (fst demo_moved, snd demo_moved)" by (simp add: demo_closed_def case_prod_beta')
    then show ?thesis using m by (simp only:)
  next
    case (Some e)
    then obtain r a' where c: "close_pane False (lit ''w2:p1'') (snd demo_moved) = Some (r :: unit refusal + nat \<times> pane_id, a')"
      by (cases e) simp
    then have "demo_closed = (fst demo_moved, a')" by (simp add: demo_closed_def case_prod_beta')
    then show ?thesis using reachable.step [OF m pane_closed [OF c]] by (simp only:)
  qed
  then show "?R demo_moved" "?R demo_closed" using m by simp_all
qed

end
