(* ===== verification/App_Claims.thy ===== *)
theory App_Claims
  imports App_Responses App_Aliases App_Scenario
begin

text \<open>
  The properties of the workspaces, tabs and panes of a session, of the identifiers the API gives
  them and of the requests that change them, each with a witness at the short session of
  \<open>App_Scenario\<close>.
\<close>

lemma reachable_ok: "reachable app_init (app_step spawn git) st \<Longrightarrow> app_ok st"
  by (rule app.reachable_inv)

section \<open>The state\<close>

text \<open>C1. Whatever requests arrive and whichever processes end, the state satisfies what the tests of
  the program assert of it: identifiers are distinct, the active and the selected workspace exist,
  the panes of a layout are exactly the panes of its tab, no pane and no terminal is in two places,
  public numbers are positive, distinct and below the next one. The recorded terminals are exactly
  the attached ones, and no attached terminal is to be shut down or was shut down.
\<close>

theorem reachable_assertions:
  assumes "reachable app_init (app_step spawn git) (al, a)"
  shows "app_assertions a \<and> dom (hm_get (terminals a)) = snd ` session_terminals (app_session a)
    \<and> (set (terminal_runtime_shutdowns a) \<union> set (runtimes_shut_down a)) \<inter> dom (hm_get (terminals a)) = {}"
  using app_ok_assertions [OF reachable_ok [OF assms]] app_okD(4,5) [OF reachable_ok [OF assms]]
  unfolding dom_hm_get handed_def by blast

theorem reachable_assertions_witness:
  "app_assertions (snd demo_closed) \<and> dom (hm_get (terminals (snd demo_closed))) = snd ` session_terminals (app_session (snd demo_closed))
    \<and> (set (terminal_runtime_shutdowns (snd demo_closed)) \<union> set (runtimes_shut_down (snd demo_closed))) \<inter> dom (hm_get (terminals (snd demo_closed))) = {}"
  by (rule reachable_assertions [of demo_spawn demo_git "fst demo_closed"]) (simp add: demo_closed_reachable(2))

text \<open>C8. A terminal is never lost: if it was recorded before a request or the end of a process, then
  it is recorded afterwards, or its runtime is to be shut down or was; and what is to be shut down
  stays so until it is.
\<close>

theorem no_terminal_is_lost:
  assumes "app_step spawn git (al, a) (al', a')"
  shows "dom (hm_get (terminals a)) \<subseteq> dom (hm_get (terminals a'))
      \<union> set (terminal_runtime_shutdowns a') \<union> set (runtimes_shut_down a')
    \<and> set (terminal_runtime_shutdowns a) \<union> set (runtimes_shut_down a)
        \<subseteq> set (terminal_runtime_shutdowns a') \<union> set (runtimes_shut_down a')"
  using step_hands_over [OF assms] by (auto simp: handed_over_def handed_def dom_hm_get)

theorem no_terminal_is_lost_witness:
  "dom (hm_get (terminals (snd demo_workspace))) \<subseteq>
     dom (hm_get (terminals (snd demo_split))) \<union> set (terminal_runtime_shutdowns (snd demo_split))
       \<union> set (runtimes_shut_down (snd demo_split))"
  using no_terminal_is_lost [OF pane_split [OF demo_room(3,2,4) demo_split_answer]] by blast

section \<open>Moving a pane\<close>

text \<open>C2. A pane that is moved is in the tab the answer names; every pane keeps its terminal and none
  appears or goes; the identifier the pane had before still means the pane, at its new place.
\<close>

theorem moved_pane_arrives:
  assumes "reachable app_init (app_step spawn git) (al, a)" "room al" "all_room a"
    "app_pane_move git here r dest foc al a = Some (Inr (tw, tt, i), al', a')"
  shows "\<exists>k old_id. parse_pane_id r (app_session a) = Some (k, i) \<and> public_pane_id k i (app_session a) = Some old_id
    \<and> pane_at i tw tt (app_session a') \<and> parse_pane_id old_id (app_session a') = Some (tw, i)
    \<and> session_terminals (app_session a') = session_terminals (app_session a) \<and> terminals a' = terminals a"
proof -
  note ok = app_okD [OF reachable_ok [OF assms(1)]]
  obtain s' where h: "handle_pane_move git (terminals a) here r dest foc al (app_session a) = Some (Inr (tw, tt, i), al', s')"
      and a': "a' = a\<lparr>app_session := s'\<rparr>"
    using assms(4) by (auto simp: app_pane_move_def)
  from ok(1) assms(2) assms(3) [unfolded all_room_def] show ?thesis
  proof (cases rule: handle_pane_move_cases [where git = git and terminals = "terminals a" and here = here
      and pane_ref = r and dest = dest and foc = foc])
    case (moved k j n tw' tt' al2 s2)
    then have e: "j = i" "tw' = tw" "tt' = tt" "al2 = al'" "s2 = s'" using h by simp_all
    note well = moved(5) [unfolded e moved_well_def]
    from well have at: "tw < length (workspaces s')" "i \<in> set (ws_panes (workspaces s' ! tw))"
      using tab_in_ws by (auto simp: pane_at_def)
    have "parse_pane_id (public_pane_id_for_number (ws_id (workspaces (app_session a) ! k)) n) s' = Some (tw, i)"
      using well at by (intro pane_named_parses) auto
    then show ?thesis using moved(2-4) e(1) well a' by (simp add: public_pane_id_def vec_get_def)
  qed (use h in simp_all)
qed

lemma demo_moved_result:
  "app_pane_move demo_git (lit ''/'') (lit ''w2:p1'') (ToTab (lit ''w1:t1'') None Horizontal None) False
     (fst demo_tab) (snd demo_tab) = Some (Inr (0, 0, 3), fst demo_moved, snd demo_moved)"
  by code_simp

theorem moved_pane_arrives_witness:
  "parse_pane_id (lit ''w2:p1'') (app_session (snd demo_tab)) = Some (1, 3)
    \<and> parse_pane_id (lit ''w2:p1'') (app_session (snd demo_moved)) = Some (0, 3)
    \<and> session_terminals (app_session (snd demo_moved)) = session_terminals (app_session (snd demo_tab))"
proof -
  have "reachable app_init (app_step demo_spawn demo_git) (fst demo_tab, snd demo_tab)" by (simp add: demo_reachable)
  from moved_pane_arrives [OF this demo_room(8,9) demo_moved_result]
  have s: "session_terminals (app_session (snd demo_moved)) = session_terminals (app_session (snd demo_tab))" by blast
  have "parse_pane_id (lit ''w2:p1'') (app_session (snd demo_tab)) = Some (1, 3)"
    "parse_pane_id (lit ''w2:p1'') (app_session (snd demo_moved)) = Some (0, 3)" by code_simp+
  with s show ?thesis by blast
qed

text \<open>C14. A move of a pane that is refused, for whatever reason, changes nothing.\<close>

theorem refused_move_changes_nothing:
  assumes "reachable app_init (app_step spawn git) (al, a)" "room al" "all_room a"
    "app_pane_move git here r dest foc al a = Some (Inl why, al', a')"
  shows "al' = al \<and> a' = a"
proof -
  note ok = app_okD [OF reachable_ok [OF assms(1)]]
  obtain s' where h: "handle_pane_move git (terminals a) here r dest foc al (app_session a) = Some (Inl why, al', s')"
      and a': "a' = a\<lparr>app_session := s'\<rparr>"
    using assms(4) by (auto simp: app_pane_move_def)
  from ok(1) assms(2) assms(3) [unfolded all_room_def] show ?thesis
    by (cases rule: handle_pane_move_cases [where git = git and terminals = "terminals a" and here = here
        and pane_ref = r and dest = dest and foc = foc]) (use h a' in simp_all)
qed

theorem refused_move_changes_nothing_witness:
  "\<exists>st'. app_pane_move demo_git (lit ''/'') (lit ''w2:p1'') (ToTab (lit ''w2:t1'') None Horizontal None) False
     (fst demo_tab) (snd demo_tab) = Some (Inl SameTab, st') \<and> st' = demo_tab"
proof -
  have refused: "app_pane_move demo_git (lit ''/'') (lit ''w2:p1'') (ToTab (lit ''w2:t1'') None Horizontal None) False
     (fst demo_tab) (snd demo_tab) = Some (Inl SameTab, fst demo_tab, snd demo_tab)" by code_simp
  have "reachable app_init (app_step demo_spawn demo_git) (fst demo_tab, snd demo_tab)" by (simp add: demo_reachable)
  from refused_move_changes_nothing [OF this demo_room(8,9) refused] refused show ?thesis by auto
qed

section \<open>Panics\<close>



text \<open>C37. That case does panic: the move of a pane of a tab that is not zoomed, to a new tab of a
  workspace whose legacy number names no workspace, indexes the workspaces out of bounds.
\<close>

theorem move_to_a_missing_workspace_panics:
  assumes "parse_pane_id r (app_session a) = Some (k, i)"
    "find_tab_index_for_pane i (workspaces (app_session a) ! k) = Some t"
    "public_tab_id k t (app_session a) \<noteq> None" "tab_terminal_id i (tabs (workspaces (app_session a) ! k) ! t) \<noteq> None"
    "\<not> zoomed (tabs (workspaces (app_session a) ! k) ! t)"
    "parse_workspace_id m (app_session a) = Some j" "length (workspaces (app_session a)) \<le> j"
  shows "app_pane_move git here r (ToNewTab (Some m) label) foc al a = None"
proof -
  obtain tid tab_text where "tab_terminal_id i (tabs (workspaces (app_session a) ! k) ! t) = Some tid"
      "public_tab_id k t (app_session a) = Some tab_text"
    using assms(3,4) by auto
  moreover have "public_workspace_id j (app_session a) = None" using assms(7) by (simp add: public_workspace_id_def vec_get_def)
  ultimately show ?thesis
    using assms(1,2,5,6) by (simp add: app_pane_move_def handle_pane_move_def resolve_destination_def)
qed

theorem move_to_a_missing_workspace_panics_witness:
  "reachable app_init (app_step demo_spawn demo_git) demo_workspace \<and>
    app_pane_move demo_git (lit ''/'') (lit ''w1:p1'') (ToNewTab (Some (lit ''99'')) None) False
     (fst demo_workspace) (snd demo_workspace) = None"
proof -
  have "parse_pane_id (lit ''w1:p1'') (app_session (snd demo_workspace)) = Some (0, 1)"
    "find_tab_index_for_pane 1 (workspaces (app_session (snd demo_workspace)) ! 0) = Some 0"
    "public_tab_id 0 0 (app_session (snd demo_workspace)) \<noteq> None"
    "tab_terminal_id 1 (tabs (workspaces (app_session (snd demo_workspace)) ! 0) ! 0) \<noteq> None"
    "\<not> zoomed (tabs (workspaces (app_session (snd demo_workspace)) ! 0) ! 0)"
    "parse_workspace_id (lit ''99'') (app_session (snd demo_workspace)) = Some 98"
    "length (workspaces (app_session (snd demo_workspace))) \<le> 98"
    by code_simp+
  from move_to_a_missing_workspace_panics [OF this] show ?thesis using demo_reachable(1) by blast
qed

text \<open>C38. The assertion that every alias of a pane names a live pane can fail. A pane is moved to
  another workspace and then closed through the API, under whatever identifier: the pane is gone
  from every workspace, the identifier it had before the move is still in the table, and the
  assertion of the tests about aliases no longer holds.
\<close>

theorem closed_pane_leaves_its_alias:
  assumes "reachable app_init (app_step spawn git) (al, a)" "room al" "all_room a"
    "app_pane_move git here r dest foc al a = Some (Inr (tw, tt, i), al1, a1)"
    "parse_pane_id r (app_session a) = Some (k, j)" "public_pane_id k j (app_session a) = Some earlier_id"
    "ws_id (workspaces (app_session a1) ! tw) \<noteq> ws_id (workspaces (app_session a) ! k)"
    "close_pane confirm r' a1 = Some (Inr (k', i) :: 'e refusal + nat \<times> pane_id, a2)"
  shows "hm_get (public_pane_id_aliases (app_session a2)) earlier_id = Some i
    \<and> (\<forall>w \<in> set (workspaces (app_session a2)). i \<notin> set (ws_panes w))
    \<and> \<not> alias_assertions (app_session a2)"
proof -
  note app = reachable_ok [OF assms(1)]
  note room = assms(3) [unfolded all_room_def]
  have app1: "app_ok (al1, a1)" by (rule pane_move_kept [OF app assms(2) room assms(4)])
  obtain res x where "close_pane confirm r' a1 = Some (res :: 'e refusal + nat \<times> pane_id, x)" "app_ok (al1, x)"
    by (rule pane_close_kept [OF app1])
  then have app2: "app_ok (al1, a2)" using assms(8) by simp
  have "hm_get (public_pane_id_aliases (app_session a1)) earlier_id = Some i"
    by (rule move_leaves_alias [OF app assms(2) room assms(4-7)])
  moreover note closed_pane_is_gone [OF app1 assms(8)]
  ultimately show ?thesis using gone_alias_breaks_assertions [OF app_okD(1) [OF app2]] by simp
qed

theorem closed_pane_leaves_its_alias_witness:
  "hm_get (public_pane_id_aliases (app_session (snd demo_closed))) (lit ''w2:p1'') = Some 3
    \<and> \<not> alias_assertions (app_session (snd demo_closed))"
proof -
  have t: "reachable app_init (app_step demo_spawn demo_git) (fst demo_tab, snd demo_tab)" by (simp add: demo_reachable)
  have ids: "parse_pane_id (lit ''w2:p1'') (app_session (snd demo_tab)) = Some (1, 3)"
    "public_pane_id 1 3 (app_session (snd demo_tab)) = Some (lit ''w2:p1'')"
    "ws_id (workspaces (app_session (snd demo_moved)) ! 0) \<noteq> ws_id (workspaces (app_session (snd demo_tab)) ! 1)" by code_simp+
  let ?run = "close_pane False (lit ''w2:p1'') (snd demo_moved) :: ((unit refusal + nat \<times> pane_id) \<times> unit app) option"
  have "map_option fst ?run = Some (Inr (0, 3))" by code_simp
  then have "?run = Some (Inr (0, 3), snd demo_closed)"
    by (auto simp: demo_closed_def case_prod_beta')
  from closed_pane_leaves_its_alias [OF t demo_room(8,9) demo_moved_result ids this] show ?thesis by blast
qed

section \<open>Refusals and orders\<close>

text \<open>A split that is refused, because the pane is not there, the environment is not valid or the
  process cannot be started, leaves the whole state as it was: the layout that was already split is
  put back. No terminal identifier is used up.
\<close>

theorem refused_split_changes_nothing:
  assumes "reachable app_init (app_step spawn git) (al, a)" "all_room a"
    "handle_pane_split start_process micros here target ws d ratio dir foc env al a = Some (Inl why, al', a')"
  shows "a' = a \<and> next_terminal_id al' = next_terminal_id al"
  by (rule pane_split_refused [OF reachable_ok [OF assms(1)] assms(2) [unfolded all_room_def] assms(3)])

theorem refused_split_changes_nothing_witness:
  "\<exists>al'. handle_pane_split (\<lambda>_. Inl ''no shell'' :: string + unit) demo_clock (lit ''/'') (Some (lit ''w1:p1'')) None Horizontal
     None (lit ''/a'') False [] (fst demo_workspace) (snd demo_workspace)
     = Some (Inl (LaunchFailed ''no shell''), al', snd demo_workspace)"
proof -
  let ?run = "handle_pane_split (\<lambda>_. Inl ''no shell'' :: string + unit) demo_clock (lit ''/'') (Some (lit ''w1:p1'')) None Horizontal
     None (lit ''/a'') False [] (fst demo_workspace) (snd demo_workspace)"
  have "map_option fst ?run = Some (Inl (LaunchFailed ''no shell''))" by code_simp
  then obtain al' a' where run: "?run = Some (Inl (LaunchFailed ''no shell''), al', a')" by auto
  have "reachable app_init (app_step demo_spawn demo_git) (fst demo_workspace, snd demo_workspace)" by (simp add: demo_reachable)
  from refused_split_changes_nothing [OF this demo_room(4) run] run show ?thesis by blast
qed

text \<open>What a block of requested identifiers names.\<close>

lemma block_ids_name:
  "(block_ids rs found s :: 'e refusal + text list) = Inr ids \<Longrightarrow> \<exists>moved. ids = found @ moved
     \<and> map (\<lambda>r. map_option (\<lambda>k. ws_id (workspaces s ! k)) (named_workspace r s)) rs = map Some moved"
proof (induction rs arbitrary: found)
  case (Cons r rs)
  then obtain k where k: "named_workspace r s = Some k"
      "(block_ids rs (found @ [ws_id (workspaces s ! k)]) s :: 'e refusal + text list) = Inr ids"
    by (auto simp: Let_def split: option.splits if_splits)
  from Cons.IH [OF k(2)] k(1) show ?case by auto
qed simp

lemma desired_order_split:
  assumes "rest = filter (\<lambda>i. i \<notin> set moved) (map ws_id (workspaces s))"
    "\<forall>i. before = Some i \<longrightarrow> i \<in> set rest"
  obtains pre post where "desired_order moved before s = pre @ moved @ post" "pre @ post = rest"
    "case before of None \<Rightarrow> post = [] | Some i \<Rightarrow> \<exists>more. post = i # more"
proof (cases before)
  case None
  then show ?thesis using that [of rest "[]"] by (simp add: desired_order_def Let_def flip: assms(1))
next
  case (Some i)
  then have "i \<in> set rest" using assms(2) by simp
  then obtain n where n: "position (\<lambda>c. c = i) rest = Some n"
    using position_None_iff [of "\<lambda>c. c = i" rest] by (cases "position (\<lambda>c. c = i) rest") auto
  then have "n < length rest" "rest ! n = i" using position_SomeD [OF n] by simp_all
  then have "drop n rest = i # drop (Suc n) rest" using Cons_nth_drop_Suc [of n rest] by simp
  then have "case before of None \<Rightarrow> drop n rest = [] | Some i \<Rightarrow> \<exists>more. drop n rest = i # more"
    using Some by simp
  moreover have "desired_order moved before s = take n rest @ moved @ drop n rest"
    using n Some by (simp add: desired_order_def Let_def flip: assms(1))
  ultimately show ?thesis using that append_take_drop_id by blast
qed

text \<open>C20. When a block of workspaces is moved, the workspaces the request names follow one another in
  the order of the request; directly after them comes the workspace the request names to put them
  before, or nothing when it names none; the other workspaces keep their order around them. No
  workspace is lost or changed, and the active workspace is the same one.
\<close>

theorem moved_block_is_in_order:
  assumes "reachable app_init (app_step spawn git) (al, a)"
    "handle_workspace_move_block ids before (app_session a) = (Some (Inr True, s') :: (('e refusal + bool) \<times> 'g session) option)"
  shows "\<exists>pre moved post. map ws_id (workspaces s') = pre @ moved @ post
    \<and> map (\<lambda>r. map_option (\<lambda>k. ws_id (workspaces (app_session a) ! k)) (named_workspace r (app_session a))) ids = map Some moved
    \<and> pre @ post = filter (\<lambda>i. i \<notin> set moved) (map ws_id (workspaces (app_session a)))
    \<and> (case before of
         None \<Rightarrow> post = []
       | Some r \<Rightarrow> \<exists>k more. named_workspace r (app_session a) = Some k \<and> post = ws_id (workspaces (app_session a) ! k) # more)
    \<and> mset (workspaces s') = mset (workspaces (app_session a))
    \<and> active_workspace_id s' = active_workspace_id (app_session a)"
proof -
  let ?s = "app_session a"
  note ok = session_okD [OF app_okD(1) [OF reachable_ok [OF assms(1)]]]
  obtain moved before_id where m: "(block_ids ids [] ?s :: 'e refusal + text list) = Inr moved"
      "(block_before before moved ?s :: 'e refusal + text option) = Inr before_id"
      "move_workspace_block moved before_id ?s = Some (True, s')"
    using assms(2) by (auto simp: handle_workspace_move_block_def split: if_splits sum.splits option.splits)
  have b: "case before of None \<Rightarrow> before_id = None
      | Some r \<Rightarrow> \<exists>k. named_workspace r ?s = Some k \<and> before_id = Some (ws_id (workspaces ?s ! k))
          \<and> ws_id (workspaces ?s ! k) \<notin> set moved"
    using m(2) by (auto simp: block_before_def Let_def split: option.splits if_splits)
  define rest where "rest = filter (\<lambda>i. i \<notin> set moved) (map ws_id (workspaces ?s))"
  have "\<forall>i. before_id = Some i \<longrightarrow> i \<in> set rest"
    using b by (auto simp: rest_def dest: named_workspace_less split: option.splits)
  then obtain pre post where d: "desired_order moved before_id ?s = pre @ moved @ post" "pre @ post = rest"
      "case before_id of None \<Rightarrow> post = [] | Some i \<Rightarrow> \<exists>more. post = i # more"
    using desired_order_split [OF rest_def] by metis
  note order = moved_block_order [OF ok(3) m(3)]
  have "case before of None \<Rightarrow> post = []
      | Some r \<Rightarrow> \<exists>k more. named_workspace r ?s = Some k \<and> post = ws_id (workspaces ?s ! k) # more"
    using b d(3) by (auto split: option.splits)
  moreover have "map (\<lambda>r. map_option (\<lambda>k. ws_id (workspaces ?s ! k)) (named_workspace r ?s)) ids = map Some moved"
    using block_ids_name [OF m(1)] by simp
  ultimately show ?thesis using order d(1) d(2) [unfolded rest_def] by metis
qed

theorem moved_block_is_in_order_witness:
  "\<exists>s'. (handle_workspace_move_block [lit ''w2''] (Some (lit ''w1'')) (app_session (snd demo_tab))
       = (Some (Inr True, s') :: ((unit refusal + bool) \<times> unit session) option))
    \<and> map ws_id (workspaces s') = [lit ''w2'', lit ''w1''] \<and> active_workspace_id s' = active_workspace_id (app_session (snd demo_tab))"
proof -
  let ?s = "app_session (snd demo_tab)"
  let ?run = "handle_workspace_move_block [lit ''w2''] (Some (lit ''w1'')) (app_session (snd demo_tab)) ::
    ((unit refusal + bool) \<times> unit session) option"
  have "map_option fst ?run = Some (Inr True)" by code_simp
  then obtain s' where run: "?run = Some (Inr True, s')" by auto
  have "reachable app_init (app_step demo_spawn demo_git) (fst demo_tab, snd demo_tab)" by (simp add: demo_reachable)
  from moved_block_is_in_order [OF this run]
  obtain pre moved post where m: "map ws_id (workspaces s') = pre @ moved @ post"
      "map (\<lambda>r. map_option (\<lambda>k. ws_id (workspaces ?s ! k)) (named_workspace r ?s)) [lit ''w2''] = map Some moved"
      "pre @ post = filter (\<lambda>i. i \<notin> set moved) (map ws_id (workspaces ?s))"
      "case Some (lit ''w1'') of None \<Rightarrow> post = []
       | Some r \<Rightarrow> \<exists>k more. named_workspace r ?s = Some k \<and> post = ws_id (workspaces ?s ! k) # more"
      "active_workspace_id s' = active_workspace_id ?s" by blast
  have c: "named_workspace (lit ''w2'') ?s = Some 1" "named_workspace (lit ''w1'') ?s = Some 0"
    "map ws_id (workspaces ?s) = [lit ''w1'', lit ''w2'']" "ws_id (workspaces ?s ! 0) = lit ''w1''"
    "ws_id (workspaces ?s ! 1) = lit ''w2''" "lit ''w1'' \<noteq> lit ''w2''" by code_simp+
  have w2: "moved = [lit ''w2'']" using m(2) c(1,5) by (cases moved) auto
  then have "pre @ post = [lit ''w1'']" using m(3) c(3,6) by simp
  then have "pre = [] \<and> post = [lit ''w1'']" using m(4) c(2,4) by (auto simp: append_eq_Cons_conv)
  then show ?thesis using m(1,5) run w2 by simp
qed

section \<open>Identifiers and environments\<close>

text \<open>C15. In a reachable state the identifier the API gives a tab, and the one it gives a pane, parse
  back to that tab and that pane, whatever was moved, closed or renamed before.
\<close>

theorem public_ids_parse_back:
  assumes "reachable app_init (app_step spawn git) (al, a)" "k < length (workspaces (app_session a))"
    "t < length (tabs (workspaces (app_session a) ! k))" "i \<in> set (tab_ids (tabs (workspaces (app_session a) ! k) ! t))"
  shows "\<exists>tab_text pane_text. public_tab_id k t (app_session a) = Some tab_text
    \<and> parse_tab_id tab_text (app_session a) = Some (k, t)
    \<and> public_pane_id k i (app_session a) = Some pane_text
    \<and> parse_pane_id pane_text (app_session a) = Some (k, i)"
  using own_ids_parse [OF app_okD(1) [OF reachable_ok [OF assms(1)]] assms(2-4)] by metis

theorem public_ids_parse_back_witness:
  "parse_tab_id (lit ''w1:t1'') (app_session (snd demo_moved)) = Some (0, 0)
    \<and> parse_pane_id (lit ''w1:p3'') (app_session (snd demo_moved)) = Some (0, 3)"
proof -
  have "reachable app_init (app_step demo_spawn demo_git) (fst demo_moved, snd demo_moved)" by (simp add: demo_closed_reachable)
  moreover have "0 < length (workspaces (app_session (snd demo_moved)))"
    "0 < length (tabs (workspaces (app_session (snd demo_moved)) ! 0))"
    "3 \<in> set (tab_ids (tabs (workspaces (app_session (snd demo_moved)) ! 0) ! 0))" by code_simp+
  ultimately obtain tab_text pane_text where p: "public_tab_id 0 0 (app_session (snd demo_moved)) = Some tab_text"
      "parse_tab_id tab_text (app_session (snd demo_moved)) = Some (0, 0)"
      "public_pane_id 0 3 (app_session (snd demo_moved)) = Some pane_text"
      "parse_pane_id pane_text (app_session (snd demo_moved)) = Some (0, 3)"
    using public_ids_parse_back by metis
  have "public_tab_id 0 0 (app_session (snd demo_moved)) = Some (lit ''w1:t1'')"
    "public_pane_id 0 3 (app_session (snd demo_moved)) = Some (lit ''w1:p3'')" by code_simp+
  with p show ?thesis by simp
qed

text \<open>Public numbers and their texts correspond one to one: a text is read as the positive number
  v exactly when it is the text that is written for v, for every 64-bit v.
\<close>

theorem public_numbers_round_trip:
  assumes "v \<noteq> 0"
  shows "decode_public_number t = Some v \<longleftrightarrow> t = encode_public_number v"
proof
  assume d: "decode_public_number t = Some v"
  then have "t \<noteq> []" using assms by (auto simp: decode_public_number_def split: if_splits)
  with d show "t = encode_public_number v" using encode_decode by blast
qed (simp add: decode_encode [OF assms])

theorem public_numbers_round_trip_witness:
  "decode_public_number (lit ''11'') = Some 33 \<and> encode_public_number 33 = lit ''11''"
proof -
  have e: "encode_public_number 33 = lit ''11''" by code_simp
  with public_numbers_round_trip [of 33 "lit ''11''"] show ?thesis by simp
qed

text \<open>The environment of a launch that is accepted is well formed, names no variable twice, is
  sorted by name, holds exactly the requested variables, and does not depend on the order in which
  the hash map of the request lists them; the others are refused in every order.
\<close>

theorem launch_env_is_normal:
  assumes "hm_wf env" "mset env' = mset env"
  shows "normalize_launch_env env' = normalize_launch_env env
    \<and> (\<forall>es. normalize_launch_env env = Some es \<longrightarrow>
         sorted (map fst es) \<and> distinct (map fst es) \<and> mset es = mset env
         \<and> (\<forall>(key, v) \<in> set es. key \<noteq> [] \<and> 61 \<notin> set key \<and> 0 \<notin> set key \<and> 0 \<notin> set v))"
proof -
  have check: "check_env_entries es = (\<forall>(key, v) \<in> set es. key \<noteq> [] \<and> 61 \<notin> set key \<and> 0 \<notin> set key \<and> 0 \<notin> set v)" for es
    by (induction es rule: check_env_entries.induct) auto
  have set: "set env' = set env" by (rule mset_eq_setD [OF assms(2)])
  have "distinct (map fst env)" using assms(1) by (simp add: hm_wf_def)
  moreover from this have "inj_on fst (set env)" by (simp add: distinct_map)
  ultimately have "sort_key fst env' = sort_key fst env"
    using assms(2) by (intro sort_key_inj_key_eq) (simp_all add: set)
  then have "normalize_launch_env env' = normalize_launch_env env" by (simp add: normalize_launch_env_def check set)
  moreover have "distinct (map fst (sort_key fst env))" using \<open>distinct (map fst env)\<close>
    by (metis mset_eq_imp_distinct_iff mset_map mset_sort)
  ultimately show ?thesis by (auto simp: normalize_launch_env_def check)
qed

theorem launch_env_is_normal_witness:
  "normalize_launch_env [(lit ''B'', lit ''2''), (lit ''A'', lit ''1'')] = Some [(lit ''A'', lit ''1''), (lit ''B'', lit ''2'')]"
proof -
  have "normalize_launch_env [(lit ''B'', lit ''2''), (lit ''A'', lit ''1'')]
      = normalize_launch_env [(lit ''A'', lit ''1''), (lit ''B'', lit ''2'')]"
    using launch_env_is_normal [of "[(lit ''A'', lit ''1''), (lit ''B'', lit ''2'')]" "[(lit ''B'', lit ''2''), (lit ''A'', lit ''1'')]"]
    by (simp add: hm_wf_def)
  moreover have "normalize_launch_env [(lit ''A'', lit ''1''), (lit ''B'', lit ''2'')] = Some [(lit ''A'', lit ''1''), (lit ''B'', lit ''2'')]"
    by code_simp
  ultimately show ?thesis by simp
qed

end
