(* ===== verification/Title_Policy.thy ===== *)
theory Title_Policy
  imports Agent_Resume Metadata_Tokens "HOL-Library.Monad_Syntax"
begin

text \<open>
  The titles of the agents, as the title synchronisation finds them: \<open>src/title_sync/policy.rs\<close>,
  \<open>src/title_sync/orchestration.rs\<close> and \<open>src/title_sync/readers.rs\<close>. What the files and the
  database of the agents hold is the record \<open>title_files\<close>, in which a row of JSON has the fields
  the readers look at; the job in front of a shell is the function \<open>job\<close>; \<open>lower\<close> is
  \<open>str::to_lowercase\<close>, of which nothing is assumed.
\<close>

section \<open>Input\<close>

record agent_session =
  as_agent :: "text option"
  as_kind :: "text option"
  as_value :: "text option"

record process_input =
  process_name :: "text"
  process_argv :: "text list"

record pane_input =
  input_pane_id :: "text"
  input_agent :: "text option"
  input_session :: "agent_session option"
  input_cwd :: "text option"
  input_foreground_cwd :: "text option"
  input_label :: "text option"
  input_terminal_title :: "text option"
  input_terminal_title_stripped :: "text option"
  input_shell_pid :: "u32 option"
  input_processes :: "process_input list"

record ownership =
  own_session :: "text option"
  own_title :: "text"

datatype rename_decision = Clear | Manual | Noop | Rename

definition agent_identity :: "pane_input \<Rightarrow> text option" where
  "agent_identity p = or_else (input_agent p) (Option.bind (input_session p) as_agent)"

definition has_agent_identity :: "pane_input \<Rightarrow> bool" where
  "has_agent_identity p \<longleftrightarrow> agent_identity p \<noteq> None"

definition session_key :: "pane_input \<Rightarrow> text option" where
  "session_key p = do {
     s \<leftarrow> input_session p;
     v \<leftarrow> as_value s;
     agent \<leftarrow> or_else (input_agent p) (as_agent s);
     Some (agent @ lit '':'' @ unwrap_or (as_kind s) [] @ lit '':'' @ v)
   }"

section \<open>Titles without control characters\<close>

definition trim_end :: "text \<Rightarrow> text" where
  "trim_end t = trim_end_matches is_whitespace t"

fun join_words :: "text list \<Rightarrow> text" where
  "join_words [] = []"
| "join_words [w] = w"
| "join_words (w # ws) = w @ [32] @ join_words ws"

text \<open>The longest prefix that has at most so many bytes, which is where a cut that moves back to
  a boundary of a character ends.\<close>

fun take_bytes :: "nat \<Rightarrow> text \<Rightarrow> text" where
  "take_bytes n [] = []"
| "take_bytes n (c # cs) = (if len_utf8 c \<le> n then c # take_bytes (n - len_utf8 c) cs else [])"

definition blank_control :: "uchar \<Rightarrow> uchar" where
  "blank_control c = (if c \<le> 31 \<or> c = 127 then 32 else c)"

definition sanitize_title :: "text option \<Rightarrow> nat \<Rightarrow> text option" where
  "sanitize_title raw max_bytes =
     (case raw of
        None \<Rightarrow> None
      | Some v \<Rightarrow>
          let value = join_words (split_whitespace (map blank_control v))
          in if value = [] then None
             else let cut = trim_end (take_bytes (min (str_len value) max_bytes) value)
                  in then_some (cut \<noteq> []) cut)"

definition rename_decision :: "pane_input \<Rightarrow> text option \<Rightarrow> ownership option \<Rightarrow> rename_decision" where
  "rename_decision p desired previous =
     (let current = sanitize_title (input_label p) 200
      in if current \<noteq> None \<and> map_option own_title previous \<noteq> current then Manual
         else if desired = None \<and> current \<noteq> None \<and> map_option own_title previous = current
           \<and> Option.bind previous own_session \<noteq> session_key p then Clear
         else if desired = None \<or> desired = current then Noop
         else Rename)"

section \<open>The file a title is remembered in\<close>

definition utf8_bytes :: "uchar \<Rightarrow> nat list" where
  "utf8_bytes c =
     (if c < 128 then [c]
      else if c < 2048 then [192 + c div 64, 128 + c mod 64]
      else if c < 65536 then [224 + c div 4096, 128 + c div 64 mod 64, 128 + c mod 64]
      else [240 + c div 262144, 128 + c div 4096 mod 64, 128 + c div 64 mod 64, 128 + c mod 64])"

definition is_ascii_alphanumeric :: "nat \<Rightarrow> bool" where
  "is_ascii_alphanumeric b \<longleftrightarrow> 48 \<le> b \<and> b \<le> 57 \<or> 65 \<le> b \<and> b \<le> 90 \<or> 97 \<le> b \<and> b \<le> 122"

definition upper_hex :: "nat \<Rightarrow> uchar" where
  "upper_hex d = (if d < 10 then 48 + d else 55 + d)"

definition encode_byte :: "nat \<Rightarrow> text" where
  "encode_byte b =
     (if is_ascii_alphanumeric b \<or> b \<in> set (lit ''-_.!~*'' @ [39] @ lit ''()'') then [b]
      else [37, upper_hex (b div 16), upper_hex (b mod 16)])"

definition ownership_file :: "text \<Rightarrow> text" where
  "ownership_file i = concat (map encode_byte (concat (map utf8_bytes i))) @ lit ''.json''"

type_synonym ownership_store = "(text, ownership) hashmap"

definition read_ownership :: "ownership_store \<Rightarrow> text \<Rightarrow> ownership option" where
  "read_ownership st i = hm_get st (ownership_file i)"

definition write_ownership :: "text \<Rightarrow> ownership \<Rightarrow> ownership_store \<Rightarrow> ownership_store" where
  "write_ownership i state st = hm_insert (ownership_file i) state st"

definition clear_ownership :: "text \<Rightarrow> ownership_store \<Rightarrow> ownership_store" where
  "clear_ownership i st = hm_remove (ownership_file i) st"

section \<open>The readers\<close>

record claude_row =
  cr_session_id :: "text option"
  cr_type :: "text option"
  cr_custom_title :: "text option"
  cr_ai_title :: "text option"

record codex_row =
  xr_id :: "text option"
  xr_thread_name :: "text option"

record kimi_row =
  kr_session_id :: "text option"
  kr_session_dir :: "text option"

record kimi_wire_row =
  kw_type :: "text option"
  kw_origin_kind :: "text option"
  kw_texts :: "text option list"

record 'e title_files =
  claude_transcript :: "text \<Rightarrow> ('e + claude_row list) option"
  codex_index :: "'e + codex_row list"
  kimi_index :: "'e + kimi_row list"
  trusted_child :: "text \<Rightarrow> text option"
  kimi_state_title :: "text \<Rightarrow> text option"
  kimi_wire :: "text \<Rightarrow> 'e + kimi_wire_row list"
  opencode_session_title :: "text \<Rightarrow> ('e + text option) option"

definition claude_step :: "text \<Rightarrow> claude_row \<Rightarrow> text option \<times> bool \<Rightarrow> text option \<times> bool" where
  "claude_step i row acc =
     (let (title, custom) = acc
      in if cr_session_id row \<noteq> None \<and> cr_session_id row \<noteq> Some i then acc
         else if cr_type row = Some (lit ''custom-title'') then (sanitize_title (cr_custom_title row) 200, True)
         else if cr_type row = Some (lit ''ai-title'') \<and> \<not> custom then (sanitize_title (cr_ai_title row) 200, custom)
         else acc)"

definition claude_title :: "'e title_files \<Rightarrow> text \<Rightarrow> 'e + text option" where
  "claude_title fs i =
     (case claude_transcript fs i of
        None \<Rightarrow> Inr None
      | Some (Inl err) \<Rightarrow> Inl err
      | Some (Inr rows) \<Rightarrow> Inr (fst (fold (claude_step i) rows (None, False))))"

definition is_ascii_hexdigit :: "nat \<Rightarrow> bool" where
  "is_ascii_hexdigit b \<longleftrightarrow> 48 \<le> b \<and> b \<le> 57 \<or> 65 \<le> b \<and> b \<le> 70 \<or> 97 \<le> b \<and> b \<le> 102"

definition is_session_id :: "text \<Rightarrow> bool" where
  "is_session_id v \<longleftrightarrow> list_all2 (\<lambda>part n. length part = n \<and> list_all is_ascii_hexdigit part)
     (split_on (\<lambda>c. c = 45) v) [8, 4, 4, 4, 12]"

definition resume_argument :: "process_input \<Rightarrow> text option" where
  "resume_argument p =
     (if process_name p \<noteq> lit ''codex'' then None
      else case dropWhile (\<lambda>a. a \<noteq> lit ''resume'') (process_argv p) of
        _ # candidate # _ \<Rightarrow> then_some (is_session_id candidate) candidate
      | _ \<Rightarrow> None)"

fun first_resume :: "process_input list \<Rightarrow> text option" where
  "first_resume [] = None"
| "first_resume (p # ps) = (case resume_argument p of Some i \<Rightarrow> Some i | None \<Rightarrow> first_resume ps)"

definition resume_session_id :: "(u32 \<Rightarrow> foreground_job option) \<Rightarrow> pane_input \<Rightarrow> text option" where
  "resume_session_id job p =
     first_resume
       (if input_processes p = [] then
          (case Option.bind (input_shell_pid p) job of
             None \<Rightarrow> []
           | Some j \<Rightarrow> map (\<lambda>q. \<lparr>process_name = proc_name q, process_argv = unwrap_or (argv q) []\<rparr>) (processes j))
        else input_processes p)"

definition codex_title ::
    "'e title_files \<Rightarrow> (u32 \<Rightarrow> foreground_job option) \<Rightarrow> text option \<Rightarrow> pane_input \<Rightarrow> 'e + text option" where
  "codex_title fs job session_id p =
     (case or_else session_id (resume_session_id job p) of
        None \<Rightarrow> Inr None
      | Some i \<Rightarrow>
          (case codex_index fs of
             Inl err \<Rightarrow> Inl err
           | Inr rows \<Rightarrow>
               Inr (fold (\<lambda>row title. if xr_id row = Some i then sanitize_title (xr_thread_name row) 200 else title)
                      rows None)))"

definition kimi_prompt :: "kimi_wire_row \<Rightarrow> text option \<Rightarrow> text option" where
  "kimi_prompt row first_prompt =
     (if first_prompt \<noteq> None \<or> kw_type row \<noteq> Some (lit ''turn.prompt'') \<or> kw_origin_kind row \<noteq> Some (lit ''user'')
      then first_prompt
      else Option.bind (Option.bind (find (\<lambda>t. t \<noteq> None) (kw_texts row)) (\<lambda>t. t)) (\<lambda>t. sanitize_title (Some t) 80))"

definition kimi_title :: "'e title_files \<Rightarrow> text \<Rightarrow> 'e + text option" where
  "kimi_title fs i =
     (case kimi_index fs of
        Inl err \<Rightarrow> Inl err
      | Inr rows \<Rightarrow>
          (case Option.bind (fold (\<lambda>row dir. if kr_session_id row = Some i then kr_session_dir row else dir) rows None)
                  (trusted_child fs) of
             None \<Rightarrow> Inr None
           | Some dir \<Rightarrow>
               (case sanitize_title (kimi_state_title fs dir) 200 of
                  Some title \<Rightarrow> Inr (Some title)
                | None \<Rightarrow>
                    (case kimi_wire fs dir of
                       Inl err \<Rightarrow> Inl err
                     | Inr wire \<Rightarrow> Inr (fold kimi_prompt wire None)))))"

definition opencode_title :: "'e title_files \<Rightarrow> text \<Rightarrow> 'e + text option" where
  "opencode_title fs i =
     (case opencode_session_title fs i of
        None \<Rightarrow> Inr None
      | Some (Inl err) \<Rightarrow> Inl err
      | Some (Inr title) \<Rightarrow> Inr (Option.bind title (\<lambda>t. sanitize_title (Some t) 200)))"

section \<open>The title of a pane\<close>

text \<open>\<open>Path::file_name\<close> on Unix: the last component, unless it is \<open>..\<close>.\<close>

definition file_name :: "text \<Rightarrow> text option" where
  "file_name path =
     (case rev (filter (\<lambda>c. c \<noteq> [] \<and> c \<noteq> lit ''.'') (split_on (\<lambda>c. c = 47) path)) of
        [] \<Rightarrow> None | c # _ \<Rightarrow> if c = lit ''..'' then None else Some c)"

definition without_decoration :: "text \<Rightarrow> text" where
  "without_decoration t =
     (case t of
        c # cs \<Rightarrow> if c = 10035 \<or> c = 10018 \<or> c = 183 \<or> c = 8230 then trim_start cs else t
      | [] \<Rightarrow> t)"

definition without_opencode_prefix :: "text \<Rightarrow> text" where
  "without_opencode_prefix t =
     (if eq_ignore_ascii_case (take 2 t) (lit ''oc'')
      then (case strip_prefix (trim_start (drop 2 t)) (lit ''|'') of Some r \<Rightarrow> trim_start r | None \<Rightarrow> t)
      else t)"

definition terminal_title_of :: "(text \<Rightarrow> text) \<Rightarrow> pane_input \<Rightarrow> text \<Rightarrow> text option" where
  "terminal_title_of lower p agent = do {
     raw \<leftarrow> or_else (input_terminal_title_stripped p) (input_terminal_title p);
     title \<leftarrow> sanitize_title (Some (without_opencode_prefix (without_decoration (trim raw)))) 200;
     if lower title = agent \<or> lower title = agent @ lit '' code'' then None
     else then_some (Option.bind (or_else (input_foreground_cwd p) (input_cwd p)) file_name \<noteq> Some title) title
   }"

definition durable_title ::
    "'e title_files \<Rightarrow> (u32 \<Rightarrow> foreground_job option) \<Rightarrow> text \<Rightarrow> text option \<Rightarrow> pane_input \<Rightarrow>
     ('e + text option) option" where
  "durable_title fs job agent session_id p =
     (if agent = lit ''claude'' then map_option (claude_title fs) session_id
      else if agent = lit ''codex'' then Some (codex_title fs job session_id p)
      else if agent = lit ''kimi'' then map_option (kimi_title fs) session_id
      else if agent = lit ''opencode'' then map_option (opencode_title fs) session_id
      else None)"

definition title_for_pane ::
    "'e title_files \<Rightarrow> (u32 \<Rightarrow> foreground_job option) \<Rightarrow> (text \<Rightarrow> text) \<Rightarrow> pane_input \<Rightarrow> text option" where
  "title_for_pane fs job lower p = do {
     identity \<leftarrow> or_else (input_agent p) (Option.bind (input_session p) as_agent);
     let agent = lower identity;
     let session_id = Option.bind (opt_filter (\<lambda>s. as_kind s = Some (lit ''id'')) (input_session p)) as_value;
     case durable_title fs job agent session_id p of
       Some (Inr (Some title)) \<Rightarrow> Some title
     | _ \<Rightarrow> terminal_title_of lower p agent
   }"

end
