(* ===== verification/Title_Sync.thy ===== *)
theory Title_Sync
  imports Title_Policy Session_Requests
begin

text \<open>
  The title synchronisation: the worker and the engine of \<open>src/title_sync/engine.rs\<close>, and what
  \<open>src/app/title_sync.rs\<close> and \<open>src/app/pane_label.rs\<close> do with the titles that come back. The
  worker reads titles while the application goes on; so a result carries what was expected of the
  pane, and is dropped when that has changed. What a runtime knows of its processes is the record
  \<open>runtime_answers\<close>. The messages to the worker are lists of \<open>work\<close>.
\<close>

section \<open>What is read of a pane\<close>

record runtime_answers =
  answered_cwd :: "text \<Rightarrow> text option"
  answered_foreground_cwd :: "text \<Rightarrow> text option"
  answered_child_pid :: "text \<Rightarrow> u32 option"

definition terminal_agent_session_info :: "terminal_state \<Rightarrow> agent_session option" where
  "terminal_agent_session_info t =
     map_option (\<lambda>(_, agent, k, v). \<lparr>as_agent = Some agent,
         as_kind = Some (case k of Id \<Rightarrow> lit ''id'' | Path \<Rightarrow> lit ''path''), as_value = Some v\<rparr>)
       (current_session_identity t)"

text \<open>The fields of \<open>pane_info\<close> that the input has.\<close>

definition title_sync_input :: "runtime_answers \<Rightarrow> nat \<Rightarrow> pane_id \<Rightarrow> 'g app \<Rightarrow> pane_input option" where
  "title_sync_input rt ws_idx i a = do {
     w \<leftarrow> vec_get (workspaces (app_session a)) ws_idx;
     p \<leftarrow> ws_pane_state i w;
     t \<leftarrow> hm_get (terminals a) (attached_terminal_id p);
     tab_idx \<leftarrow> find_tab_index_for_pane i w;
     pub \<leftarrow> public_pane_id ws_idx i (app_session a);
     _ \<leftarrow> public_tab_id ws_idx tab_idx (app_session a);
     Some \<lparr>input_pane_id = pub, input_agent = effective_agent_label t,
           input_session = terminal_agent_session_info t,
           input_cwd = cwd_for_pane (answered_cwd rt) (terminals a) i (tabs w ! tab_idx),
           input_foreground_cwd = Option.bind (tab_terminal_id i (tabs w ! tab_idx)) (answered_foreground_cwd rt),
           input_label = manual_label t, input_terminal_title = terminal_title t,
           input_terminal_title_stripped = terminal_title_stripped t,
           input_shell_pid = answered_child_pid rt (attached_terminal_id p), input_processes = []\<rparr>
   }"

definition title_sync_inputs :: "runtime_answers \<Rightarrow> 'g app \<Rightarrow> pane_input list" where
  "title_sync_inputs rt a =
     concat (map (\<lambda>k. concat (map (\<lambda>t.
         List.map_filter (\<lambda>i. title_sync_input rt k i a) (pane_ids (tab_layout t)))
       (tabs (workspaces (app_session a) ! k)))) [0..<length (workspaces (app_session a))])"

section \<open>The label of a pane\<close>

text \<open>The generation of the state that the engine watches goes with the application. The result
  says whether the pane is there.\<close>

type_synonym 'g titled = "u64 \<times> 'g app"

definition mark_title_sync_dirty :: "'g titled \<Rightarrow> 'g titled" where
  "mark_title_sync_dirty st = (fst st + 1, snd st)"

definition mutate_pane_label ::
    "runtime_answers \<Rightarrow> nat \<Rightarrow> pane_id \<Rightarrow> text option \<Rightarrow> 'g titled \<Rightarrow> bool \<times> 'g titled" where
  "mutate_pane_label rt ws_idx i label st =
     (let a = snd st;
          l = Option.bind label (\<lambda>x. then_some (trim x \<noteq> []) (trim x))
      in case Option.bind (vec_get (workspaces (app_session a)) ws_idx) (ws_terminal_id i) of
           None \<Rightarrow> (False, st)
         | Some tid \<Rightarrow>
             (case hm_get (terminals a) tid of
                None \<Rightarrow> (False, st)
              | Some t \<Rightarrow>
                  let st1 = (if manual_label t = l then st
                        else mark_title_sync_dirty (fst st, a\<lparr>terminals := hm_insert tid
                          (case l of Some x \<Rightarrow> set_manual_label x t | None \<Rightarrow> clear_manual_label t) (terminals a)\<rparr>))
                  in (title_sync_input rt ws_idx i (snd st1) \<noteq> None, st1)))"

section \<open>The worker\<close>

record resolved_pane =
  rp_pane_id :: "text"
  expected_session :: "text option"
  expected_agent :: "text option"
  expected_label :: "text option"
  had_agent :: bool
  desired_title :: "text option"
  previous_ownership :: "ownership option"

record ownership_mutation =
  om_pane_id :: "text"
  om_state :: "ownership option"

datatype work = Resolve u64 "pane_input list" | Persist "ownership_mutation list" | Shutdown

definition resolve_pane :: "(pane_input \<Rightarrow> text option) \<Rightarrow> ownership_store \<Rightarrow> pane_input \<Rightarrow> resolved_pane" where
  "resolve_pane title store p =
     \<lparr>rp_pane_id = input_pane_id p, expected_session = session_key p, expected_agent = agent_identity p,
      expected_label = sanitize_title (input_label p) 200, had_agent = has_agent_identity p,
      desired_title = (if has_agent_identity p then title p else None),
      previous_ownership = read_ownership store (input_pane_id p)\<rparr>"

definition resolve_panes :: "(pane_input \<Rightarrow> text option) \<Rightarrow> ownership_store \<Rightarrow> pane_input list \<Rightarrow> resolved_pane list" where
  "resolve_panes title store ps = map (resolve_pane title store) ps"

text \<open>A file that cannot be written is reported in the log: \<open>ok\<close> says which writes succeed.\<close>

definition persist_one :: "(ownership_mutation \<Rightarrow> bool) \<Rightarrow> ownership_mutation \<Rightarrow> ownership_store \<Rightarrow> ownership_store" where
  "persist_one ok m store =
     (if \<not> ok m then store
      else case om_state m of
        Some state \<Rightarrow> write_ownership (om_pane_id m) state store
      | None \<Rightarrow> clear_ownership (om_pane_id m) store)"

definition persist :: "(ownership_mutation \<Rightarrow> bool) \<Rightarrow> ownership_mutation list \<Rightarrow> ownership_store \<Rightarrow> ownership_store" where
  "persist ok ms store = fold (persist_one ok) ms store"

section \<open>The result is applied\<close>

definition still_as_expected :: "resolved_pane \<Rightarrow> pane_input \<Rightarrow> bool" where
  "still_as_expected r current \<longleftrightarrow> session_key current = expected_session r
     \<and> agent_identity current = expected_agent r \<and> sanitize_title (input_label current) 200 = expected_label r"

definition forget_ownership :: "resolved_pane \<Rightarrow> ownership_mutation list" where
  "forget_ownership r = [\<lparr>om_pane_id = rp_pane_id r, om_state = None\<rparr>]"

definition own_label :: "resolved_pane \<Rightarrow> pane_input \<Rightarrow> text \<Rightarrow> ownership_mutation list" where
  "own_label r current title =
     [\<lparr>om_pane_id = rp_pane_id r, om_state = Some \<lparr>own_session = session_key current, own_title = title\<rparr>\<rparr>]"

definition apply_decision ::
    "runtime_answers \<Rightarrow> nat \<Rightarrow> pane_id \<Rightarrow> pane_input \<Rightarrow> resolved_pane \<Rightarrow> 'g titled \<Rightarrow> ownership_mutation list \<times> 'g titled" where
  "apply_decision rt ws_idx i current r st =
     (case rename_decision current (desired_title r) (previous_ownership r) of
        Manual \<Rightarrow> (forget_ownership r, st)
      | Clear \<Rightarrow> (forget_ownership r, snd (mutate_pane_label rt ws_idx i None st))
      | Rename \<Rightarrow>
          (case desired_title r of
             None \<Rightarrow> ([], st)
           | Some title \<Rightarrow>
               let (there, st1) = mutate_pane_label rt ws_idx i (Some title) st
               in (if there then own_label r current title else [], st1))
      | Noop \<Rightarrow>
          (case (desired_title r, previous_ownership r) of
             (Some title, Some previous) \<Rightarrow>
               (if own_title previous = unwrap_or (input_label current) [] then own_label r current title else [], st)
           | _ \<Rightarrow> ([], st)))"

definition apply_resolved ::
    "runtime_answers \<Rightarrow> resolved_pane \<Rightarrow> 'g titled \<Rightarrow> ownership_mutation list \<times> 'g titled" where
  "apply_resolved rt r st =
     (case parse_pane_id (rp_pane_id r) (app_session (snd st)) of
        None \<Rightarrow> ([], st)
      | Some (ws_idx, i) \<Rightarrow>
          (case title_sync_input rt ws_idx i (snd st) of
             None \<Rightarrow> ([], st)
           | Some current \<Rightarrow>
               if \<not> still_as_expected r current then ([], st)
               else if \<not> had_agent r \<or> \<not> has_agent_identity current then
                 (forget_ownership r,
                  if map_option own_title (previous_ownership r) = sanitize_title (input_label current) 200
                  then snd (mutate_pane_label rt ws_idx i None st) else st)
               else apply_decision rt ws_idx i current r st))"

fun apply_title_sync_results ::
    "runtime_answers \<Rightarrow> resolved_pane list \<Rightarrow> 'g titled \<Rightarrow> ownership_mutation list \<times> 'g titled" where
  "apply_title_sync_results rt [] st = ([], st)"
| "apply_title_sync_results rt (r # rs) st =
     (let (ms, st1) = apply_resolved rt r st; (ms', st2) = apply_title_sync_results rt rs st1
      in (ms @ ms', st2))"

text \<open>A round with nothing in between: the worker resolves all panes, the results are applied, the
  worker writes what they change.\<close>

definition sync_round ::
    "runtime_answers \<Rightarrow> (pane_input \<Rightarrow> text option) \<Rightarrow> (ownership_mutation \<Rightarrow> bool) \<Rightarrow>
     'g titled \<times> ownership_store \<Rightarrow> 'g titled \<times> ownership_store" where
  "sync_round rt title ok s =
     (let (st, store) = s;
          (ms, st1) = apply_title_sync_results rt (resolve_panes title store (title_sync_inputs rt (snd st))) st
      in (st1, persist ok ms store))"

section \<open>The engine\<close>

record title_sync_engine =
  sender :: bool
  interval :: duration
  next_tick :: instant
  observed_generation :: u64
  in_flight :: bool
  pending_resolution :: bool

definition start_engine :: "bool \<Rightarrow> duration \<Rightarrow> instant \<Rightarrow> title_sync_engine" where
  "start_engine enabled every now =
     \<lparr>sender = enabled, interval = every, next_tick = now, observed_generation = 0, in_flight = False,
      pending_resolution = False\<rparr>"

text \<open>\<open>alive\<close>: the worker still receives.\<close>

definition start_resolution ::
    "bool \<Rightarrow> u64 \<Rightarrow> pane_input list \<Rightarrow> title_sync_engine \<Rightarrow> work list \<times> title_sync_engine" where
  "start_resolution alive generation inputs e =
     (if \<not> sender e then ([], e)
      else if alive then ([Resolve generation inputs], e\<lparr>in_flight := True, pending_resolution := False\<rparr>)
      else ([], e))"

definition poll ::
    "bool \<Rightarrow> u64 \<Rightarrow> pane_input list \<Rightarrow> instant \<Rightarrow> title_sync_engine \<Rightarrow> work list \<times> title_sync_engine" where
  "poll alive generation inputs now e =
     (if \<not> sender e then ([], e)
      else if \<not> (now \<ge> next_tick e \<or> generation \<noteq> observed_generation e) then ([], e)
      else
        let e1 = e\<lparr>next_tick := now + interval e, observed_generation := generation\<rparr>
        in if in_flight e1 then ([], e1\<lparr>pending_resolution := True\<rparr>)
           else start_resolution alive generation inputs e1)"

definition complete ::
    "bool \<Rightarrow> u64 \<Rightarrow> pane_input list \<Rightarrow> u64 \<Rightarrow> ownership_mutation list \<Rightarrow> title_sync_engine \<Rightarrow>
     work list \<times> title_sync_engine" where
  "complete alive current inputs generation mutations e =
     (let sent = (if sender e \<and> alive then [Persist mutations] else []);
          e1 = e\<lparr>in_flight := False\<rparr>
      in if pending_resolution e1 \<or> current \<noteq> generation
         then (let (more, e2) = start_resolution alive current inputs (e1\<lparr>observed_generation := current\<rparr>)
               in (sent @ more, e2))
         else (sent, e1))"

end
