(* ===== verification/Title_Facts.thy ===== *)
theory Title_Facts
  imports Title_Sync App_Answers
begin

text \<open>
  Titles are words with one space between them, ownership files have names of their own, and a
  change of a label touches nothing else.
\<close>

section \<open>Words\<close>

definition word_ok :: "text \<Rightarrow> bool" where
  "word_ok w \<longleftrightarrow> w \<noteq> [] \<and> (\<forall>c \<in> set w. \<not> is_whitespace c \<and> 31 < c \<and> c \<noteq> 127)"

definition worded :: "text \<Rightarrow> bool" where
  "worded t \<longleftrightarrow> (\<exists>ws. ws \<noteq> [] \<and> (\<forall>w \<in> set ws. word_ok w) \<and> t = join_words ws)"

lemma space_is_white [simp]: "is_whitespace 32"
  by (simp add: is_whitespace_def)

lemma join_words_Cons: "ws \<noteq> [] \<Longrightarrow> join_words (w # ws) = w @ 32 # join_words ws"
  by (cases ws) simp_all

lemma split_on_append: "\<forall>c \<in> set w. \<not> p c \<Longrightarrow> p c \<Longrightarrow> split_on p (w @ c # r) = w # split_on p r"
  by (induction w) simp_all

lemma word_white: "word_ok w \<Longrightarrow> \<forall>c \<in> set w. \<not> is_whitespace c"
  by (simp add: word_ok_def)

lemma split_join: "\<forall>w \<in> set ws. word_ok w \<Longrightarrow> split_whitespace (join_words ws) = ws"
proof (induction ws)
  case (Cons w ws)
  have w: "word_ok w" "w \<noteq> []" using Cons.prems by (simp_all add: word_ok_def)
  show ?case
  proof (cases "ws = []")
    case True
    then show ?thesis using w split_on_id [OF word_white [OF w(1)]] by (simp add: split_whitespace_def)
  next
    case False
    then show ?thesis
      using Cons w split_on_append [OF word_white [OF w(1)], of 32 "join_words ws"]
      by (simp add: join_words_Cons split_whitespace_def)
  qed
qed (simp add: split_whitespace_def)

lemma join_chars: "\<forall>w \<in> set ws. word_ok w \<Longrightarrow> c \<in> set (join_words ws) \<Longrightarrow> 31 < c \<and> c \<noteq> 127 \<and> (is_whitespace c \<longrightarrow> c = 32)"
  by (induction ws rule: join_words.induct) (auto simp: word_ok_def)

lemma worded_blank: "worded t \<Longrightarrow> map blank_control t = t"
  unfolding worded_def by (intro map_idI) (auto simp: blank_control_def dest!: join_chars)

lemma worded_split: "worded t \<Longrightarrow> join_words (split_whitespace t) = t"
  unfolding worded_def using split_join by auto

lemma split_words_ok:
  assumes "w \<in> set (split_whitespace (map blank_control v))"
  shows "word_ok w"
proof -
  have w: "w \<noteq> []" "w \<in> set (split_on is_whitespace (map blank_control v))"
    using assms by (simp_all add: split_whitespace_def)
  have sub: "set w \<subseteq> set t" if "w \<in> set (split_on p t)" for p t
    using that by (induction t arbitrary: w) (fastforce split: if_splits list.splits)+
  have "blank_control c \<noteq> 127 \<and> 31 < blank_control c" for c by (simp add: blank_control_def)
  then have "\<forall>c \<in> set w. 31 < c \<and> c \<noteq> 127" using sub [OF w(2)] by auto
  then show ?thesis using w split_on_pieces [OF w(2)] by (simp add: word_ok_def)
qed

section \<open>Cuts\<close>

lemma trim_end_append: "trim_end (a @ b) = (if trim_end b = [] then trim_end a else a @ trim_end b)"
  by (simp add: trim_end_def trim_end_matches_def dropWhile_append)

lemma trim_end_id: "\<forall>c \<in> set t. \<not> is_whitespace c \<Longrightarrow> trim_end t = t"
  by (cases t rule: rev_cases) (simp_all add: trim_end_def trim_end_matches_def)

lemma trim_end_space: "trim_end [32] = []"
  by (simp add: trim_end_def trim_end_matches_def)

lemma str_len_append [simp]: "str_len (a @ b) = str_len a + str_len b"
  by (simp add: str_len_def)

lemma take_bytes_prefix: "\<exists>k. take_bytes n t = take k t"
proof (induction n t rule: take_bytes.induct)
  case (2 n c cs)
  then show ?case by (cases "len_utf8 c \<le> n") (auto intro: exI [of _ "Suc _"] exI [of _ 0])
qed simp

lemma take_bytes_len: "str_len (take_bytes n t) \<le> n"
  by (induction n t rule: take_bytes.induct) (auto simp: str_len_def)

lemma take_bytes_all: "str_len t \<le> n \<Longrightarrow> take_bytes n t = t"
  by (induction n t rule: take_bytes.induct) (auto simp: str_len_def)

lemma trim_end_len: "str_len (trim_end t) \<le> str_len t"
proof -
  have "rev t = takeWhile is_whitespace (rev t) @ dropWhile is_whitespace (rev t)" by simp
  then have "t = trim_end t @ rev (takeWhile is_whitespace (rev t))"
    unfolding trim_end_def trim_end_matches_def by (metis rev_append rev_rev_ident)
  then show ?thesis by (metis le_add1 str_len_append)
qed

lemma prefix_worded:
  assumes "\<forall>w \<in> set ws. word_ok w" "trim_end (take k (join_words ws)) \<noteq> []"
  shows "worded (trim_end (take k (join_words ws)))"
  using assms
proof (induction ws arbitrary: k)
  case (Cons w ws)
  have w: "word_ok w" using Cons.prems by simp
  have one: "worded (trim_end (take k w))" if "trim_end (take k w) \<noteq> []" for k
  proof -
    have "trim_end (take k w) = take k w" using w by (intro trim_end_id) (auto simp: word_ok_def dest: in_set_takeD)
    moreover have "word_ok (take k w)" using w that \<open>trim_end (take k w) = take k w\<close> by (auto simp: word_ok_def dest: in_set_takeD)
    ultimately show ?thesis unfolding worded_def by (intro exI [of _ "[take k w]"]) simp
  qed
  show ?case
  proof (cases "ws = [] \<or> k \<le> length w")
    case True
    then have "take k (join_words (w # ws)) = take k w" by (cases ws) auto
    then show ?thesis using one Cons.prems(2) by simp
  next
    case False
    then obtain j where k: "k = length w + Suc j" using less_iff_Suc_add by (metis add_Suc_right not_le)
    let ?p = "take j (join_words ws)"
    have t: "take k (join_words (w # ws)) = (w @ [32]) @ ?p" using False k by (simp add: join_words_Cons)
    show ?thesis
    proof (cases "trim_end ?p = []")
      case True
      then have "trim_end (take k (join_words (w # ws))) = trim_end (take (length w) w)"
        unfolding t trim_end_append by (simp add: trim_end_space)
      then show ?thesis using one Cons.prems(2) by metis
    next
      case nonempty: False
      then obtain us where us: "us \<noteq> []" "\<forall>u \<in> set us. word_ok u" "trim_end ?p = join_words us"
        using Cons by (force simp: worded_def)
      have "trim_end (take k (join_words (w # ws))) = join_words (w # us)"
        unfolding t trim_end_append using nonempty us by (simp add: join_words_Cons)
      then show ?thesis using us w unfolding worded_def by (intro exI [of _ "w # us"]) auto
    qed
  qed
qed (simp add: trim_end_def trim_end_matches_def)

lemma worded_ends:
  assumes "worded t"
  shows "t \<noteq> []" "\<not> is_whitespace (hd t)" "\<not> is_whitespace (last t)"
proof -
  obtain ws where ws: "ws \<noteq> []" "\<forall>w \<in> set ws. word_ok w" "t = join_words ws" using assms by (auto simp: worded_def)
  have "join_words ws \<noteq> [] \<and> \<not> is_whitespace (hd (join_words ws)) \<and> \<not> is_whitespace (last (join_words ws))"
    using ws(1,2) by (induction ws rule: join_words.induct) (auto simp: word_ok_def hd_append)
  then show "t \<noteq> []" "\<not> is_whitespace (hd t)" "\<not> is_whitespace (last t)" using ws(3) by simp_all
qed

lemma worded_trim:
  assumes "worded t"
  shows "trim_end t = t" "trim t = t"
proof -
  note e = worded_ends [OF assms]
  have "dropWhile is_whitespace (rev t) = rev t" "dropWhile is_whitespace t = t"
    using e by (simp_all add: dropWhile_eq_self_iff hd_rev)
  then show "trim_end t = t" "trim t = t"
    by (simp_all add: trim_end_def trim_def trim_matches_def trim_start_matches_def trim_end_matches_def)
qed

lemma sanitize_worded:
  assumes "sanitize_title raw n = Some t"
  shows "worded t" "str_len t \<le> n"
proof -
  obtain v where v: "raw = Some v" using assms by (auto simp: sanitize_title_def split: option.splits)
  let ?ws = "split_whitespace (map blank_control v)"
  let ?cut = "take_bytes (min (str_len (join_words ?ws)) n) (join_words ?ws)"
  have t: "t = trim_end ?cut" "t \<noteq> []"
    using assms v by (auto simp: sanitize_title_def Let_def then_some_eq split: if_splits)
  obtain k where "?cut = take k (join_words ?ws)" using take_bytes_prefix by blast
  then show "worded t" using prefix_worded [of ?ws k] split_words_ok t by simp
  show "str_len t \<le> n" using trim_end_len [of ?cut] take_bytes_len [of _ "join_words ?ws"] unfolding t(1)
    by (meson le_trans min.cobounded2)
qed

lemma sanitize_fixed: "worded t \<Longrightarrow> str_len t \<le> n \<Longrightarrow> sanitize_title (Some t) n = Some t"
  using worded_ends(1) [of t]
  by (simp add: sanitize_title_def worded_blank worded_split worded_trim take_bytes_all then_some_eq Let_def)

lemma sanitize_again: "sanitize_title raw n = Some t \<Longrightarrow> n \<le> m \<Longrightarrow> sanitize_title (Some t) m = Some t"
  using sanitize_worded [of raw n t] by (intro sanitize_fixed) simp_all

end
