(* ===== verification/Title_Files.thy ===== *)
theory Title_Files
  imports Title_Policy
begin

text \<open>
  Every pane identifier has an ownership file of its own: UTF-8 and the encoding of bytes can both
  be read back from the left.
\<close>

section \<open>UTF-8\<close>

definition utf8_char :: "nat list \<Rightarrow> uchar \<times> nat list" where
  "utf8_char bs =
     (let b = (\<lambda>k. bs ! k - 128)
      in if hd bs < 128 then (hd bs, drop 1 bs)
         else if hd bs < 224 then ((hd bs - 192) * 64 + b 1, drop 2 bs)
         else if hd bs < 240 then ((hd bs - 224) * 4096 + b 1 * 64 + b 2, drop 3 bs)
         else ((hd bs - 240) * 262144 + b 1 * 4096 + b 2 * 64 + b 3, drop 4 bs))"

text \<open>Scalar values, those a character can have.\<close>

definition scalars :: "text \<Rightarrow> bool" where
  "scalars t \<longleftrightarrow> (\<forall>c \<in> set t. c < 1114112)"

lemma digits: "(c::nat) div 64 * 64 + c mod 64 = c" "(c::nat) div 4096 * 64 + c div 64 mod 64 = c div 64"
    "(c::nat) div 262144 * 64 + c div 4096 mod 64 = c div 4096"
proof -
  show "c div 64 * 64 + c mod 64 = c" by simp
  have "c div 4096 = c div 64 div 64" "c div 262144 = c div 4096 div 64" by (simp_all flip: div_mult2_eq)
  then show "c div 4096 * 64 + c div 64 mod 64 = c div 64" "c div 262144 * 64 + c div 4096 mod 64 = c div 4096"
    by (simp_all only: div_mult_mod_eq)
qed

lemma digits_all:
  "(c::nat) div 4096 * 4096 + c div 64 mod 64 * 64 + c mod 64 = c"
  "(c::nat) div 262144 * 262144 + c div 4096 mod 64 * 4096 + c div 64 mod 64 * 64 + c mod 64 = c"
  using digits [of c] by linarith+

lemma utf8_read:
  assumes "c < 1114112"
  shows "utf8_char (utf8_bytes c @ r) = (c, r)"
proof -
  consider "c < 128" | "\<not> c < 128" "c < 2048" | "\<not> c < 2048" "c < 65536" | "\<not> c < 65536" by linarith
  then show ?thesis
  proof cases
    case 2
    then have "c div 64 < 32" by (simp add: less_mult_imp_div_less)
    then show ?thesis using 2 digits(1) [of c] by (simp add: utf8_char_def utf8_bytes_def)
  next
    case 3
    then have "c div 4096 < 16" by (simp add: less_mult_imp_div_less)
    then show ?thesis using 3 digits_all(1) [of c] by (simp add: utf8_char_def utf8_bytes_def)
  next
    case 4
    then show ?thesis using digits_all(2) [of c] by (simp add: utf8_char_def utf8_bytes_def)
  qed (simp add: utf8_char_def utf8_bytes_def)
qed

lemma utf8_not_Nil [simp]: "utf8_bytes c \<noteq> []"
  by (simp add: utf8_bytes_def)

lemma utf8_small:
  assumes "c < 1114112" "b \<in> set (utf8_bytes c)"
  shows "b < 256"
proof -
  have m: "(n::nat) mod 64 < 64" for n by simp
  consider "c < 128" | "\<not> c < 128" "c < 2048" | "\<not> c < 2048" "c < 65536" | "\<not> c < 65536" by linarith
  then show ?thesis
  proof cases
    case 2
    then have "c div 64 < 32" by (simp add: less_mult_imp_div_less)
    then show ?thesis using 2 assms(2) m [of c] by (auto simp: utf8_bytes_def)
  next
    case 3
    then have "c div 4096 < 16" by (simp add: less_mult_imp_div_less)
    then show ?thesis using 3 assms(2) m [of c] m [of "c div 64"] by (auto simp: utf8_bytes_def)
  next
    case 4
    have "c div 262144 < 5" using assms(1) by (simp add: less_mult_imp_div_less)
    then show ?thesis using 4 assms(2) m [of c] m [of "c div 64"] m [of "c div 4096"] by (auto simp: utf8_bytes_def)
  qed (use assms in \<open>simp add: utf8_bytes_def\<close>)
qed

lemma read_back:
  assumes "\<And>x r. ok x \<Longrightarrow> read (code x @ r) = (x, r)" "\<And>x. code x \<noteq> []"
    "\<forall>x \<in> set xs. ok x" "\<forall>y \<in> set ys. ok y" "concat (map code xs) = concat (map code ys)"
  shows "xs = ys"
  using assms(3-5)
proof (induction xs arbitrary: ys)
  case Nil
  then show ?case using assms(2) by (cases ys) auto
next
  case (Cons x xs)
  obtain y ys' where ys: "ys = y # ys'" using Cons.prems(3) assms(2) by (cases ys) auto
  have "read (code x @ concat (map code xs)) = read (code y @ concat (map code ys'))"
    using Cons.prems(3) ys by simp
  then have "x = y \<and> concat (map code xs) = concat (map code ys')"
    using assms(1) Cons.prems(1,2) ys by simp
  then show ?case using Cons.IH [of ys'] Cons.prems(1,2) ys by simp
qed

section \<open>Bytes\<close>

definition hex_value :: "uchar \<Rightarrow> nat" where
  "hex_value c = (if c < 58 then c - 48 else c - 55)"

definition encoded_byte :: "text \<Rightarrow> nat \<times> text" where
  "encoded_byte t = (if hd t = 37 then (hex_value (t ! 1) * 16 + hex_value (t ! 2), drop 3 t) else (hd t, tl t))"

lemma hex_upper: "d < 16 \<Longrightarrow> hex_value (upper_hex d) = d"
  by (simp add: hex_value_def upper_hex_def)

lemma safe_not_percent: "is_ascii_alphanumeric b \<or> b \<in> set (lit ''-_.!~*'' @ [39] @ lit ''()'') \<Longrightarrow> b \<noteq> 37 \<and> b \<noteq> 47"
  by (auto simp: is_ascii_alphanumeric_def lit_def)

lemma encode_read: "b < 256 \<Longrightarrow> encoded_byte (encode_byte b @ r) = (b, r)"
proof -
  assume b: "b < 256"
  show ?thesis
  proof (cases "is_ascii_alphanumeric b \<or> b \<in> set (lit ''-_.!~*'' @ [39] @ lit ''()'')")
    case True
    then show ?thesis using safe_not_percent [OF True] by (auto simp: encode_byte_def encoded_byte_def)
  next
    case False
    have "b div 16 < 16" using b by (simp add: less_mult_imp_div_less)
    then have "hex_value (upper_hex (b div 16)) * 16 + hex_value (upper_hex (b mod 16)) = b"
      by (simp add: hex_upper)
    then show ?thesis using False by (auto simp: encode_byte_def encoded_byte_def)
  qed
qed

lemma encode_not_Nil: "encode_byte b \<noteq> []"
  by (simp add: encode_byte_def)

lemma encode_no_slash: "b < 256 \<Longrightarrow> 47 \<notin> set (encode_byte b)"
proof -
  assume "b < 256"
  have "upper_hex d \<noteq> 47" for d by (simp add: upper_hex_def)
  then show ?thesis using safe_not_percent [of b] by (auto simp: encode_byte_def)
qed

lemma ownership_file_inj: "scalars i \<Longrightarrow> scalars j \<Longrightarrow> ownership_file i = ownership_file j \<Longrightarrow> i = j"
proof -
  assume s: "scalars i" "scalars j" and e: "ownership_file i = ownership_file j"
  let ?bytes = "\<lambda>t. concat (map utf8_bytes t)"
  have "\<forall>b \<in> set (?bytes i). b < 256" "\<forall>b \<in> set (?bytes j). b < 256"
    using s utf8_small by (auto simp: scalars_def)
  moreover have "concat (map encode_byte (?bytes i)) = concat (map encode_byte (?bytes j))"
    using e by (simp add: ownership_file_def)
  ultimately have "?bytes i = ?bytes j"
    using read_back [where ok = "\<lambda>b. b < 256" and code = encode_byte, OF encode_read encode_not_Nil] by blast
  with s show "i = j"
    using read_back [where ok = "\<lambda>c. c < 1114112" and code = utf8_bytes, OF utf8_read utf8_not_Nil]
    unfolding scalars_def by blast
qed

lemma ownership_file_no_slash: "scalars i \<Longrightarrow> 47 \<notin> set (ownership_file i)"
  using encode_no_slash utf8_small by (fastforce simp: ownership_file_def scalars_def lit_def)

end
