(* ===== verification/Title_Panes.thy ===== *)
theory Title_Panes
  imports Title_Facts Title_Files
begin

text \<open>
  What a change of one label does: the inputs of the other panes stay, and that of the pane gets
  the label. On this rests the account of a result that is applied: the new label and the changes
  of the ownership files are functions of the result and of the input.
\<close>

section \<open>Labels\<close>

definition relabel :: "text \<Rightarrow> text option \<Rightarrow> 'g app \<Rightarrow> 'g app" where
  "relabel tid l a =
     (case hm_get (terminals a) tid of
        None \<Rightarrow> a | Some t \<Rightarrow> a\<lparr>terminals := hm_insert tid (t\<lparr>manual_label := l\<rparr>) (terminals a)\<rparr>)"

lemma relabel_session [simp]: "app_session (relabel tid l a) = app_session a"
  by (simp add: relabel_def split: option.split)

lemma relabel_get:
  "hm_get (terminals (relabel tid l a)) x =
     (if x = tid then map_option (\<lambda>t. t\<lparr>manual_label := l\<rparr>) (hm_get (terminals a) x) else hm_get (terminals a) x)"
  by (auto simp: relabel_def hm_simps split: option.split)

lemma agent_facts_label [simp]:
  "effective_agent_label (t\<lparr>manual_label := l\<rparr>) = effective_agent_label t"
  "terminal_agent_session_info (t\<lparr>manual_label := l\<rparr>) = terminal_agent_session_info t"
  "terminal_title_stripped (t\<lparr>manual_label := l\<rparr>) = terminal_title_stripped t"
  by (simp_all add: terminal_title_stripped_def effective_agent_label_def terminal_agent_session_info_def current_session_identity_def
      hook_authority_is_effective_def[abs_def] opt_filter_def)

lemma ws_terminal_state: "ws_terminal_id i w = map_option attached_terminal_id (ws_pane_state i w)"
proof -
  have "find_map_tab (tab_terminal_id i) ts = map_option attached_terminal_id (find_map_tab (\<lambda>t. hm_get (tab_panes t) i) ts)" for ts
    by (induction ts) (auto simp: tab_terminal_id_def split: option.split)
  then show ?thesis by (simp add: ws_terminal_id_def ws_pane_state_def)
qed

definition pane_terminal :: "nat \<Rightarrow> pane_id \<Rightarrow> 'g session \<Rightarrow> text option" where
  "pane_terminal k i s = Option.bind (vec_get (workspaces s) k) (ws_terminal_id i)"

lemma input_facts:
  assumes "title_sync_input rt k i a = Some p"
  obtains tid t where "pane_terminal k i (app_session a) = Some tid" "hm_get (terminals a) tid = Some t"
    "manual_label t = input_label p" "public_pane_id k i (app_session a) = Some (input_pane_id p)"
  using assms that by (auto simp: title_sync_input_def bind_eq_Some_conv pane_terminal_def ws_terminal_state)

lemma input_relabel:
  "title_sync_input rt k i (relabel tid l a) =
     map_option (\<lambda>p. if pane_terminal k i (app_session a) = Some tid then p\<lparr>input_label := l\<rparr> else p)
       (title_sync_input rt k i a)"
proof -
  have cwd: "map_option cwd (hm_get (terminals (relabel tid l a)) x) = map_option cwd (hm_get (terminals a) x)" for x
    by (simp add: relabel_get option.map_comp comp_def)
  show ?thesis
  proof (cases "vec_get (workspaces (app_session a)) k")
    case None
    then show ?thesis by (simp add: title_sync_input_def)
  next
    case w: (Some w)
    show ?thesis
    proof (cases "ws_pane_state i w")
      case None
      then show ?thesis using w by (simp add: title_sync_input_def)
    next
      case p: (Some p)
      then show ?thesis using w
        by (cases "hm_get (terminals a) (attached_terminal_id p)")
          (auto simp: title_sync_input_def relabel_get cwd cwd_for_pane_def pane_terminal_def ws_terminal_state
            split: bind_splits)
    qed
  qed
qed

text \<open>What \<open>mutate_pane_label\<close> does with a label that is trimmed already.\<close>

definition plain_label :: "text option \<Rightarrow> bool" where
  "plain_label l \<longleftrightarrow> (\<forall>x. l = Some x \<longrightarrow> x \<noteq> [] \<and> trim x = x)"

lemma mutate_plain:
  assumes "title_sync_input rt k i a = Some p" "plain_label l"
    "pane_terminal k i (app_session a) = Some tid"
  shows "mutate_pane_label rt k i l (g, a) =
     (True, if input_label p = l then (g, a) else (g + 1, relabel tid l a))"
proof -
  obtain t where t: "hm_get (terminals a) tid = Some t" "manual_label t = input_label p"
    using input_facts [OF assms(1)] assms(3) by (metis option.inject)
  have l: "Option.bind l (\<lambda>x. then_some (trim x \<noteq> []) (trim x)) = l"
    using assms(2) by (cases l) (simp_all add: plain_label_def then_some_eq)
  have set: "(case l of None \<Rightarrow> clear_manual_label t | Some x \<Rightarrow> set_manual_label x t) = t\<lparr>manual_label := l\<rparr>"
    using assms(2) by (cases l)
      (simp_all add: plain_label_def set_manual_label_def clear_manual_label_def then_some_eq Let_def)
  have there: "title_sync_input rt k i (relabel tid l a) \<noteq> None" using assms(1) by (simp add: input_relabel)
  show ?thesis
    using assms(3) t l there assms(1)
    by (auto simp: mutate_pane_label_def pane_terminal_def Let_def set mark_title_sync_dirty_def relabel_def)
qed

lemma mutate_relabels:
  "snd (mutate_pane_label rt k i l (g, a)) = (g, a)
   \<or> (\<exists>tid l'. pane_terminal k i (app_session a) = Some tid
        \<and> snd (mutate_pane_label rt k i l (g, a)) = (g + 1, relabel tid l' a))"
proof (cases "pane_terminal k i (app_session a)")
  case None
  then show ?thesis by (simp add: mutate_pane_label_def pane_terminal_def Let_def)
next
  case tid: (Some tid)
  have set: "\<exists>l'. (case l of None \<Rightarrow> clear_manual_label t | Some x \<Rightarrow> set_manual_label x t) = t\<lparr>manual_label := l'\<rparr>" for l t
    by (cases l) (auto simp: set_manual_label_def clear_manual_label_def Let_def)
  show ?thesis
  proof (cases "hm_get (terminals a) tid")
    case None
    then show ?thesis using tid by (simp add: mutate_pane_label_def pane_terminal_def Let_def)
  next
    case (Some t)
    let ?l = "Option.bind l (\<lambda>x. then_some (trim x \<noteq> []) (trim x))"
    obtain l' where "(case ?l of None \<Rightarrow> clear_manual_label t | Some x \<Rightarrow> set_manual_label x t) = t\<lparr>manual_label := l'\<rparr>"
      using set by blast
    then have "mutate_pane_label rt k i l (g, a) =
        (let st1 = if manual_label t = ?l then (g, a) else (g + 1, relabel tid l' a)
         in (title_sync_input rt k i (snd st1) \<noteq> None, st1))"
      using tid Some by (simp add: mutate_pane_label_def pane_terminal_def mark_title_sync_dirty_def relabel_def Let_def)
    then show ?thesis using tid by (auto simp: Let_def)
  qed
qed

section \<open>A label somebody gave is kept\<close>

lemma decision_manual:
  "sanitize_title (input_label p) 200 = Some l \<Longrightarrow> map_option own_title previous \<noteq> Some l \<Longrightarrow>
     rename_decision p desired previous = Manual"
  by (simp add: rename_decision_def)

lemma apply_resolved_keeps:
  assumes "hm_get (terminals a) tid = Some t" "sanitize_title (manual_label t) 200 = Some l"
    "map_option own_title (previous_ownership r) \<noteq> Some l"
  shows "hm_get (terminals (snd (snd (apply_resolved rt r (g, a))))) tid = Some t"
proof (cases "parse_pane_id (rp_pane_id r) (app_session a)")
  case None
  then show ?thesis using assms(1) by (simp add: apply_resolved_def)
next
  case (Some ki)
  obtain k i where ki: "parse_pane_id (rp_pane_id r) (app_session a) = Some (k, i)" using Some by (cases ki) simp
  have other: "hm_get (terminals (snd (snd (mutate_pane_label rt k i l' (g, a))))) tid = Some t"
    if "pane_terminal k i (app_session a) \<noteq> Some tid" for l'
    using mutate_relabels [of rt k i l' g a] that assms(1) by (auto simp: relabel_get)
  show ?thesis
  proof (cases "title_sync_input rt k i a")
    case None
    then show ?thesis using ki assms(1) by (simp add: apply_resolved_def)
  next
    case p: (Some p)
    obtain tid' t' where f: "pane_terminal k i (app_session a) = Some tid'" "hm_get (terminals a) tid' = Some t'"
        "manual_label t' = input_label p" using input_facts [OF p] by metis
    show ?thesis
    proof (cases "tid' = tid")
      case True
      then have "sanitize_title (input_label p) 200 = Some l" using f assms(1,2) by simp
      then show ?thesis using ki p assms(1,3) decision_manual [OF _ assms(3)]
        by (auto simp: apply_resolved_def apply_decision_def)
    next
      case False
      then show ?thesis using other f(1) ki p assms(1)
        by (auto simp: apply_resolved_def apply_decision_def Let_def
            split: rename_decision.split option.split prod.split) (metis snd_conv)+
    qed
  qed
qed

lemma apply_results_keep:
  "hm_get (terminals (snd st)) tid = Some t \<Longrightarrow> sanitize_title (manual_label t) 200 = Some l \<Longrightarrow>
     \<forall>r \<in> set rs. map_option own_title (previous_ownership r) \<noteq> Some l \<Longrightarrow>
     hm_get (terminals (snd (snd (apply_title_sync_results rt rs st)))) tid = Some t"
proof (induction rs arbitrary: st)
  case (Cons r rs)
  obtain g a where st: "st = (g, a)" by (cases st)
  have "hm_get (terminals (snd (snd (apply_resolved rt r st)))) tid = Some t"
    unfolding st by (rule apply_resolved_keeps [of a tid t l r]) (use Cons.prems st in simp, rule Cons.prems(2), use Cons.prems(3) in simp)
  then show ?case using Cons.IH [of "snd (apply_resolved rt r st)"] Cons.prems by (simp add: split_beta Let_def)
qed simp

end
