(* ===== verification/Title_Round.thy ===== *)
theory Title_Round
  imports Title_Panes
begin

text \<open>
  A round of the title synchronisation: every pane is resolved, the results are applied, and the
  changes of the ownership files are written. A result that is applied acts on its pane alone, and a
  second round finds nothing to do.
\<close>

section \<open>One pane\<close>

definition new_label :: "resolved_pane \<Rightarrow> pane_input \<Rightarrow> text option" where
  "new_label r p =
     (if \<not> had_agent r \<or> \<not> has_agent_identity p then
        (if map_option own_title (previous_ownership r) = sanitize_title (input_label p) 200 then None else input_label p)
      else case rename_decision p (desired_title r) (previous_ownership r) of
        Clear \<Rightarrow> None | Rename \<Rightarrow> desired_title r | _ \<Rightarrow> input_label p)"

definition new_ownership :: "resolved_pane \<Rightarrow> pane_input \<Rightarrow> ownership_mutation list" where
  "new_ownership r p =
     (if \<not> had_agent r \<or> \<not> has_agent_identity p then forget_ownership r
      else case rename_decision p (desired_title r) (previous_ownership r) of
        Manual \<Rightarrow> forget_ownership r
      | Clear \<Rightarrow> forget_ownership r
      | Rename \<Rightarrow> (case desired_title r of None \<Rightarrow> [] | Some title \<Rightarrow> own_label r p title)
      | Noop \<Rightarrow>
          (case (desired_title r, previous_ownership r) of
             (Some title, Some previous) \<Rightarrow>
               if own_title previous = unwrap_or (input_label p) [] then own_label r p title else []
           | _ \<Rightarrow> []))"

lemma resolve_expected [simp]: "still_as_expected (resolve_pane title store p) p"
  by (simp add: still_as_expected_def resolve_pane_def)

lemma apply_resolved_plain:
  assumes "title_sync_input rt k i a = Some p" "parse_pane_id (rp_pane_id r) (app_session a) = Some (k, i)"
    "still_as_expected r p" "plain_label (desired_title r)" "pane_terminal k i (app_session a) = Some tid"
  shows "apply_resolved rt r (g, a) =
    (new_ownership r p, if new_label r p = input_label p then (g, a) else (g + 1, relabel tid (new_label r p) a))"
proof -
  note m = mutate_plain [OF assms(1) _ assms(5), of _ g]
  have none: "plain_label None" by (simp add: plain_label_def)
  have some: "rename_decision p None prev \<noteq> Rename" for prev by (simp add: rename_decision_def Let_def)
  show ?thesis
  proof (cases "\<not> had_agent r \<or> \<not> has_agent_identity p")
    case True
    then show ?thesis using assms(1-3) m [OF none] by (auto simp: apply_resolved_def new_label_def new_ownership_def)
  next
    case False
    then have "apply_resolved rt r (g, a) = apply_decision rt k i p r (g, a)"
      using assms(1-3) by (simp add: apply_resolved_def)
    then show ?thesis
    proof (cases "rename_decision p (desired_title r) (previous_ownership r)")
      case Rename
      then obtain d where "desired_title r = Some d" using some by (cases "desired_title r") auto
      then show ?thesis using Rename False m [OF assms(4)] \<open>apply_resolved rt r (g, a) = _\<close>
        by (simp add: apply_decision_def new_label_def new_ownership_def)
    qed (use False m [OF none] in \<open>auto simp: apply_decision_def new_label_def new_ownership_def split: option.split\<close>)
  qed
qed

text \<open>The ownership a pane has after its changes are written.\<close>

definition owned_after :: "ownership_mutation list \<Rightarrow> ownership option \<Rightarrow> ownership option" where
  "owned_after ms prev = (if ms = [] then prev else om_state (last ms))"

definition clean_title :: "text option \<Rightarrow> bool" where
  "clean_title l \<longleftrightarrow> (\<forall>x. l = Some x \<longrightarrow> sanitize_title (Some x) 200 = Some x)"

definition blank_label :: "text option \<Rightarrow> bool" where
  "blank_label l \<longleftrightarrow> l \<noteq> None \<and> sanitize_title l 200 = None"

lemma sanitize_None [simp]: "sanitize_title None n = None"
  by (simp add: sanitize_title_def)

lemma identity_label [simp]:
  "has_agent_identity (p\<lparr>input_label := l\<rparr>) = has_agent_identity p"
  "agent_identity (p\<lparr>input_label := l\<rparr>) = agent_identity p"
  "session_key (p\<lparr>input_label := l\<rparr>) = session_key p"
  by (simp_all add: has_agent_identity_def agent_identity_def session_key_def)

text \<open>Once a result was applied and its changes written, the next one changes nothing.\<close>

lemma pane_settles:
  assumes "clean_title (desired_title r)" "\<not> blank_label (input_label p)"
    "had_agent r = has_agent_identity p"
    "p' = p\<lparr>input_label := new_label r p\<rparr>" "previous_ownership r' = owned_after (new_ownership r p) (previous_ownership r)"
    "had_agent r' = had_agent r" "desired_title r' = desired_title r"
  shows "new_label r' p' = input_label p'" "owned_after (new_ownership r' p') (previous_ownership r') = previous_ownership r'"
proof -
  note defs = new_label_def new_ownership_def owned_after_def forget_ownership_def own_label_def
  have blank: "input_label p = None" if "sanitize_title (input_label p) 200 = None"
    using assms(2) that by (auto simp: blank_label_def)
  have "new_label r' p' = input_label p' \<and> owned_after (new_ownership r' p') (previous_ownership r') = previous_ownership r'"
  proof (cases "has_agent_identity p")
    case False
    then show ?thesis using assms(3-7) blank by (auto simp: defs)
  next
    case True
    show ?thesis
    proof (cases "rename_decision p (desired_title r) (previous_ownership r)")
      case Clear
      then have "desired_title r = None" by (auto simp: rename_decision_def Let_def split: if_splits)
      then show ?thesis using Clear True assms(3-7) by (simp add: defs rename_decision_def)
    next
      case Manual
      then have "sanitize_title (input_label p) 200 \<noteq> None" by (auto simp: rename_decision_def Let_def split: if_splits)
      then obtain l where "sanitize_title (input_label p) 200 = Some l" by blast
      then show ?thesis using Manual True assms(3-7) by (simp add: defs rename_decision_def)
    next
      case Rename
      then obtain d where d: "desired_title r = Some d" by (auto simp: rename_decision_def Let_def split: if_splits)
      then show ?thesis using Rename True assms(1,3-7) by (simp add: defs rename_decision_def clean_title_def)
    next
      case Noop
      show ?thesis
      proof (cases "desired_title r")
        case None
        then show ?thesis using Noop True assms(3-7) by (simp add: defs rename_decision_def Let_def)
      next
        case d: (Some d)
        have c: "sanitize_title (input_label p) 200 = Some d"
          using Noop d by (auto simp: rename_decision_def Let_def split: if_splits)
        then obtain a where a: "previous_ownership r = Some a" "own_title a = d"
          using Noop by (auto simp: rename_decision_def Let_def split: if_splits)
        show ?thesis using d c a True assms(3-7) by (simp add: defs rename_decision_def)
      qed
    qed
  qed
  then show "new_label r' p' = input_label p'" "owned_after (new_ownership r' p') (previous_ownership r') = previous_ownership r'"
    by simp_all
qed

lemma mutations_name: "m \<in> set (new_ownership r p) \<Longrightarrow> om_pane_id m = rp_pane_id r"
  by (auto simp: new_ownership_def forget_ownership_def own_label_def split: rename_decision.splits option.splits if_splits)

section \<open>All panes\<close>

definition pane_positions :: "'g session \<Rightarrow> (nat \<times> pane_id) list" where
  "pane_positions s =
     concat (map (\<lambda>k. map (Pair k) (ws_panes (workspaces s ! k))) [0..<length (workspaces s)])"

lemma map_filter_concat: "List.map_filter f (concat xs) = concat (map (List.map_filter f) xs)"
  by (induction xs) (auto simp: List.map_filter_def)

lemma title_sync_inputs_positions:
  "title_sync_inputs rt a = List.map_filter (\<lambda>(k, i). title_sync_input rt k i a) (pane_positions (app_session a))"
proof -
  have "List.map_filter (\<lambda>(k, i). title_sync_input rt k i a) (map (Pair k) xs) = List.map_filter (\<lambda>i. title_sync_input rt k i a) xs"
    for k xs by (induction xs) (auto simp: List.map_filter_simps split: option.split)
  then show ?thesis
    by (simp add: title_sync_inputs_def pane_positions_def map_filter_concat ws_panes_def comp_def)
qed

text \<open>What the invariant says of a list of panes: the public identifier of each means it, and no two
  have the same terminal.\<close>

definition apart :: "'g session \<Rightarrow> (nat \<times> pane_id) list \<Rightarrow> bool" where
  "apart s ps \<longleftrightarrow> distinct ps
     \<and> (\<forall>k i x. (k, i) \<in> set ps \<longrightarrow> public_pane_id k i s = Some x \<longrightarrow> parse_pane_id x s = Some (k, i) \<and> scalars x)
     \<and> (\<forall>k i k' i' x. (k, i) \<in> set ps \<longrightarrow> (k', i') \<in> set ps \<longrightarrow> pane_terminal k i s = Some x \<longrightarrow>
          pane_terminal k' i' s = Some x \<longrightarrow> k = k' \<and> i = i')"

lemma alphabet_scalars: "c \<in> set (encode_public_number v) \<Longrightarrow> c < 128"
proof -
  have "\<forall>c \<in> set PUBLIC_ID_ALPHABET. c < 128" by (simp add: PUBLIC_ID_ALPHABET_def lit_def)
  then show "c \<in> set (encode_public_number v) \<Longrightarrow> c < 128" using encode_alphabet [of v] by blast
qed

lemma pane_id_scalars: "scalars (public_pane_id_for_number (generated_id m) n)"
  using alphabet_scalars by (fastforce simp: scalars_def public_pane_id_for_number_def generated_id_eq lit_def)

lemma ws_terminal_member:
  assumes "ws_ok w" "ws_terminal_id i w = Some x"
  shows "(i, x) \<in> ws_terminals w"
proof -
  have "\<exists>t \<in> set ts. \<exists>p. hm_get (tab_panes t) i = Some p \<and> attached_terminal_id p = x"
    if "find_map_tab (tab_terminal_id i) ts = Some x" for ts
    using that by (induction ts) (auto simp: tab_terminal_id_def split: option.splits)
  then obtain t p where t: "t \<in> set (tabs w)" "hm_get (tab_panes t) i = Some p" "attached_terminal_id p = x"
    using assms(2) unfolding ws_terminal_id_def by blast
  then obtain n where "n < length (tabs w)" "tabs w ! n = t" by (auto simp: in_set_conv_nth)
  then show ?thesis using ws_terminals_get [OF assms(1), of n i p] t by simp
qed

lemma positions_apart:
  assumes "session_ok (al, s)"
  shows "apart s (pane_positions s)"
proof -
  note ok = session_okD [OF assms]
  have pos: "k < length (workspaces s)" "i \<in> set (ws_panes (workspaces s ! k))" if "(k, i) \<in> set (pane_positions s)" for k i
    using that by (auto simp: pane_positions_def)
  have d: "distinct (ws_panes (workspaces s ! k))" if "k < length (workspaces s)" for k
    using ws_okD(4) [OF ok(2) [of "workspaces s ! k"]] that by (simp add: tabs_ok_def ws_panes_def)
  have "distinct (concat (map (\<lambda>k. map (Pair k) (ws_panes (workspaces s ! k))) ks))"
    if "distinct ks" "\<forall>k \<in> set ks. k < length (workspaces s)" for ks
    using that by (induction ks) (auto simp: distinct_map d inj_on_def)
  then have "distinct (pane_positions s)" by (simp add: pane_positions_def)
  moreover have "parse_pane_id x s = Some (k, i) \<and> scalars x" if "(k, i) \<in> set (pane_positions s)" "public_pane_id k i s = Some x" for k i x
  proof -
    note p = pos [OF that(1)] and named = that(2)
    obtain n where n: "public_pane_number i (workspaces s ! k) = Some n" "x = public_pane_id_for_number (ws_id (workspaces s ! k)) n"
      using named p(1) by (auto simp: public_pane_id_def vec_get_def bind_eq_Some_conv)
    then have "pane_named x i s" using p(1) by (auto simp: pane_named_def)
    moreover obtain m where "ws_id (workspaces s ! k) = generated_id m" using ok(4) [of "workspaces s ! k"] p(1) by auto
    ultimately show ?thesis using pane_named_parses [OF assms _ p] n(2) by (simp add: pane_id_scalars)
  qed
  moreover have "k = k' \<and> i = i'" if "(k, i) \<in> set (pane_positions s)" "(k', i') \<in> set (pane_positions s)"
      "pane_terminal k i s = Some x" "pane_terminal k' i' s = Some x" for k i k' i' x
  proof -
    note p = pos [OF that(1)] pos [OF that(2)]
    have w: "ws_ok (workspaces s ! k)" "ws_ok (workspaces s ! k')" using ok(2) p(1,3) by simp_all
    have "(i, x) \<in> ws_terminals (workspaces s ! k)" "(i', x) \<in> ws_terminals (workspaces s ! k')"
      using that(3,4) p(1,3) w by (auto simp: pane_terminal_def vec_get_def intro: ws_terminal_member)
    then have "(i, x) \<in> session_terminals s" "(i', x) \<in> session_terminals s"
      using p(1,3) by (auto simp: session_terminals_def)
    then have i: "i = i'" using ok(7) [of "(i, x)" "(i', x)"] by simp
    have "ws_id (workspaces s ! k) = ws_id (workspaces s ! k')"
      using ok(5) [of "workspaces s ! k" "workspaces s ! k'"] p i by auto
    then have "k = k'" using ok(3) p(1,3) by (simp add: distinct_conv_nth) metis
    then show ?thesis using i by simp
  qed
  ultimately show ?thesis unfolding apart_def by blast
qed

end
