(* ===== verification/Title_Settles.thy ===== *)
theory Title_Settles
  imports Title_Round
begin

text \<open>
  The whole round: all panes are resolved against one state, and applied one after the other.
\<close>

section \<open>All results\<close>

definition ownership_changes ::
    "runtime_answers \<Rightarrow> (pane_input \<Rightarrow> text option) \<Rightarrow> ownership_store \<Rightarrow> 'g app \<Rightarrow> nat \<times> pane_id \<Rightarrow> ownership_mutation list" where
  "ownership_changes rt title store a ki =
     (case title_sync_input rt (fst ki) (snd ki) a of
        None \<Rightarrow> [] | Some p \<Rightarrow> new_ownership (resolve_pane title store p) p)"

definition inputs_at :: "runtime_answers \<Rightarrow> (nat \<times> pane_id) list \<Rightarrow> 'g app \<Rightarrow> pane_input list" where
  "inputs_at rt ps a = List.map_filter (\<lambda>(k, i). title_sync_input rt k i a) ps"

lemma inputs_at_Cons:
  "inputs_at rt ((k, i) # ps) a =
     (case title_sync_input rt k i a of None \<Rightarrow> inputs_at rt ps a | Some p \<Rightarrow> p # inputs_at rt ps a)"
  by (simp add: inputs_at_def List.map_filter_simps split: option.split)

lemma changes_at:
  "title_sync_input rt k i a = None \<Longrightarrow> ownership_changes rt title store a (k, i) = []"
  "title_sync_input rt k i a = Some p \<Longrightarrow>
     ownership_changes rt title store a (k, i) = new_ownership (resolve_pane title store p) p"
  by (simp_all add: ownership_changes_def)

lemma inputs_at_cong:
  "(\<And>k i. (k, i) \<in> set ps \<Longrightarrow> title_sync_input rt k i a' = title_sync_input rt k i a) \<Longrightarrow> inputs_at rt ps a' = inputs_at rt ps a"
  by (induction ps) (auto simp: inputs_at_Cons inputs_at_def List.map_filter_simps split: option.split)

lemma clean_plain: "clean_title l \<Longrightarrow> plain_label l"
  by (auto simp: clean_title_def plain_label_def dest!: sanitize_worded(1) dest: worded_ends(1) worded_trim(2))

lemma apply_one:
  assumes "apart (app_session a) ps" "(k, i) \<in> set ps" "title_sync_input rt k i a = Some p"
    "clean_title (title p)"
  obtains g' a' where "apply_resolved rt (resolve_pane title store p) (g, a) = (new_ownership (resolve_pane title store p) p, (g', a'))"
    "app_session a' = app_session a"
    "title_sync_input rt k i a' = Some (p\<lparr>input_label := new_label (resolve_pane title store p) p\<rparr>)"
    "\<And>j x. (j, x) \<in> set ps \<Longrightarrow> (j, x) \<noteq> (k, i) \<Longrightarrow> title_sync_input rt j x a' = title_sync_input rt j x a"
    "new_label (resolve_pane title store p) p = input_label p \<Longrightarrow> (g', a') = (g, a)"
proof -
  let ?r = "resolve_pane title store p" and ?s = "app_session a"
  obtain tid t where f: "pane_terminal k i ?s = Some tid" "public_pane_id k i ?s = Some (input_pane_id p)"
    using input_facts [OF assms(3)] by metis
  have "parse_pane_id (rp_pane_id ?r) ?s = Some (k, i)"
    using assms(1,2) f(2) by (simp add: apart_def resolve_pane_def)
  moreover have "plain_label (desired_title ?r)"
    using clean_plain [OF assms(4)] by (simp add: resolve_pane_def plain_label_def)
  ultimately have ap: "apply_resolved rt ?r (g, a) =
      (new_ownership ?r p, if new_label ?r p = input_label p then (g, a) else (g + 1, relabel tid (new_label ?r p) a))"
    by (intro apply_resolved_plain [OF assms(3)] f(1)) simp_all
  have other: "title_sync_input rt j x (relabel tid l a) = title_sync_input rt j x a" if "(j, x) \<in> set ps" "(j, x) \<noteq> (k, i)" for j x l
  proof -
    have "pane_terminal j x ?s \<noteq> Some tid" using assms(1,2) f(1) that unfolding apart_def by blast
    then show ?thesis by (simp add: input_relabel option.map_ident)
  qed
  show thesis
  proof (cases "new_label ?r p = input_label p")
    case True
    then show thesis using that [of g a] ap assms(3) by simp
  next
    case False
    then show thesis using that [of "g + 1" "relabel tid (new_label ?r p) a"] ap assms(3) f(1) other by (simp add: input_relabel)
  qed
qed

definition applied_at ::
    "runtime_answers \<Rightarrow> (pane_input \<Rightarrow> text option) \<Rightarrow> ownership_store \<Rightarrow> (nat \<times> pane_id) list \<Rightarrow> (nat \<times> pane_id) list \<Rightarrow>
     'g titled \<Rightarrow> 'g titled \<Rightarrow> bool" where
  "applied_at rt title store qs ps st st' \<longleftrightarrow>
     app_session (snd st') = app_session (snd st)
     \<and> (\<forall>k i. (k, i) \<in> set ps \<longrightarrow> title_sync_input rt k i (snd st') =
          map_option (\<lambda>p. p\<lparr>input_label := new_label (resolve_pane title store p) p\<rparr>) (title_sync_input rt k i (snd st)))
     \<and> (\<forall>k i. (k, i) \<in> set qs \<longrightarrow> (k, i) \<notin> set ps \<longrightarrow> title_sync_input rt k i (snd st') = title_sync_input rt k i (snd st))
     \<and> ((\<forall>k i p. (k, i) \<in> set ps \<longrightarrow> title_sync_input rt k i (snd st) = Some p \<longrightarrow>
            new_label (resolve_pane title store p) p = input_label p) \<longrightarrow> st' = st)"

lemma apply_all:
  assumes "apart (app_session a) qs" "distinct ps" "set ps \<subseteq> set qs" "\<And>p. clean_title (title p)"
  shows "\<exists>st'. apply_title_sync_results rt (resolve_panes title store (inputs_at rt ps a)) (g, a) =
       (concat (map (ownership_changes rt title store a) ps), st') \<and> applied_at rt title store qs ps (g, a) st'"
  using assms(1-3)
proof (induction ps arbitrary: g a)
  case Nil
  show ?case by (simp add: inputs_at_def List.map_filter_simps resolve_panes_def applied_at_def)
next
  case (Cons ki ps)
  obtain k i where ki: "ki = (k, i)" by (cases ki)
  have d: "(k, i) \<notin> set ps" "distinct ps" "set ps \<subseteq> set qs" "(k, i) \<in> set qs" using Cons.prems(2,3) ki by auto
  show ?case
  proof (cases "title_sync_input rt k i a")
    case None
    obtain st' where r: "apply_title_sync_results rt (resolve_panes title store (inputs_at rt ps a)) (g, a) =
         (concat (map (ownership_changes rt title store a) ps), st')" "applied_at rt title store qs ps (g, a) st'"
      using Cons.IH [OF Cons.prems(1) d(2,3), of g] by blast
    have "applied_at rt title store qs (ki # ps) (g, a) st'"
      using r(2) None d ki by (auto simp: applied_at_def)
    then show ?thesis using r(1) None by (simp add: ki inputs_at_Cons changes_at)
  next
    case (Some p)
    obtain g1 a1 where one: "apply_resolved rt (resolve_pane title store p) (g, a) = (new_ownership (resolve_pane title store p) p, (g1, a1))"
      "app_session a1 = app_session a"
      "title_sync_input rt k i a1 = Some (p\<lparr>input_label := new_label (resolve_pane title store p) p\<rparr>)"
      "\<And>j x. (j, x) \<in> set qs \<Longrightarrow> (j, x) \<noteq> (k, i) \<Longrightarrow> title_sync_input rt j x a1 = title_sync_input rt j x a"
      "new_label (resolve_pane title store p) p = input_label p \<Longrightarrow> (g1, a1) = (g, a)"
      by (rule apply_one [OF Cons.prems(1) d(4) Some assms(4), where g = g and store = store]) (rule that, assumption+)
    have same: "title_sync_input rt j x a1 = title_sync_input rt j x a" if "(j, x) \<in> set ps" for j x
      using one(4) that d by blast
    have changes: "map (ownership_changes rt title store a1) ps = map (ownership_changes rt title store a) ps"
      using same by (auto simp: ownership_changes_def)
    have inputs: "inputs_at rt ps a1 = inputs_at rt ps a" by (rule inputs_at_cong) (rule same)
    obtain st' where r: "apply_title_sync_results rt (resolve_panes title store (inputs_at rt ps a)) (g1, a1) =
         (concat (map (ownership_changes rt title store a) ps), st')" "applied_at rt title store qs ps (g1, a1) st'"
      using Cons.IH [of a1 g1] Cons.prems(1) d(2,3) one(2) changes inputs by auto
    have "applied_at rt title store qs (ki # ps) (g, a) st'"
      unfolding applied_at_def
    proof (intro conjI allI impI)
      show "app_session (snd st') = app_session (snd (g, a))" using r(2) one(2) by (simp add: applied_at_def)
      show "title_sync_input rt j x (snd st') =
          map_option (\<lambda>p. p\<lparr>input_label := new_label (resolve_pane title store p) p\<rparr>) (title_sync_input rt j x (snd (g, a)))"
        if "(j, x) \<in> set (ki # ps)" for j x
      proof (cases "(j, x) \<in> set ps")
        case True
        then show ?thesis using r(2) same by (simp add: applied_at_def)
      next
        case False
        then have "j = k" "x = i" using that ki by simp_all
        then show ?thesis using r(2) d(1,4) one(3) Some by (simp add: applied_at_def)
      qed
      show "title_sync_input rt j x (snd st') = title_sync_input rt j x (snd (g, a))"
        if "(j, x) \<in> set qs" "(j, x) \<notin> set (ki # ps)" for j x
        using that r(2) one(4) [of j x] ki by (simp add: applied_at_def)
      show "st' = (g, a)"
        if all: "\<forall>j x p. (j, x) \<in> set (ki # ps) \<longrightarrow> title_sync_input rt j x (snd (g, a)) = Some p \<longrightarrow>
          new_label (resolve_pane title store p) p = input_label p"
      proof -
        have "(g1, a1) = (g, a)" using one(5) all Some ki by simp
        then show ?thesis using r(2) all by (simp add: applied_at_def)
      qed
    qed
    then show ?thesis using r(1) Some one(1) by (simp add: ki inputs_at_Cons changes_at resolve_panes_def)
  qed
qed

section \<open>The files\<close>

definition all_written :: "ownership_mutation \<Rightarrow> bool" where
  "all_written m = True"

lemma read_persist_one:
  "scalars x \<Longrightarrow> scalars (om_pane_id m) \<Longrightarrow>
     read_ownership (persist_one all_written m store) x = (if om_pane_id m = x then om_state m else read_ownership store x)"
  using ownership_file_inj
  by (auto simp: persist_one_def all_written_def read_ownership_def write_ownership_def clear_ownership_def hm_simps
      split: option.splits)

lemma read_persist:
  "scalars x \<Longrightarrow> \<forall>m \<in> set ms. scalars (om_pane_id m) \<Longrightarrow>
     read_ownership (persist all_written ms store) x =
       owned_after (filter (\<lambda>m. om_pane_id m = x) ms) (read_ownership store x)"
  by (induction ms rule: rev_induct) (auto simp: persist_def read_persist_one owned_after_def)

lemma hm_insert_same: "hm_get m k = Some v \<Longrightarrow> hm_insert k v m = m"
  unfolding hm_get_def hm_insert_def by (induction m) (auto split: if_splits)

lemma persist_same:
  "read_ownership store (om_pane_id m) = om_state m \<Longrightarrow> persist_one all_written m store = store"
  unfolding persist_one_def all_written_def read_ownership_def write_ownership_def clear_ownership_def
  by (auto simp: hm_remove_absent hm_insert_same split: option.splits)

lemma persist_all_same:
  "\<forall>m \<in> set ms. read_ownership store (om_pane_id m) = om_state m \<Longrightarrow> persist all_written ms store = store"
  by (induction ms) (simp_all add: persist_def persist_same)

lemma one_change: "new_ownership r p = [] \<or> (\<exists>m. new_ownership r p = [m] \<and> om_pane_id m = rp_pane_id r)"
  by (auto simp: new_ownership_def forget_ownership_def own_label_def split: rename_decision.splits option.splits)

lemma changes_named:
  assumes "apart (app_session a) qs" "(k, i) \<in> set qs" "m \<in> set (ownership_changes rt title store a (k, i))"
  shows "public_pane_id k i (app_session a) = Some (om_pane_id m)" "scalars (om_pane_id m)"
proof -
  obtain p where p: "title_sync_input rt k i a = Some p" using assms(3) by (cases "title_sync_input rt k i a") (auto simp: changes_at)
  have "om_pane_id m = input_pane_id p"
    using mutations_name [of m] assms(3) changes_at(2) [OF p] by (simp add: resolve_pane_def)
  then show "public_pane_id k i (app_session a) = Some (om_pane_id m)" using input_facts [OF p] by metis
  then show "scalars (om_pane_id m)" using assms(1,2) by (auto simp: apart_def)
qed

text \<open>The changes of one pane are exactly those under its name.\<close>

lemma changes_of_pane:
  assumes "apart (app_session a) qs" "distinct ps" "set ps \<subseteq> set qs" "(k, i) \<in> set qs"
    "public_pane_id k i (app_session a) = Some x"
  shows "filter (\<lambda>m. om_pane_id m = x) (concat (map (ownership_changes rt title store a) ps)) =
    (if (k, i) \<in> set ps then ownership_changes rt title store a (k, i) else [])"
  using assms(2,3)
proof (induction ps)
  case (Cons ji ps)
  obtain j n where ji: "ji = (j, n)" by (cases ji)
  have in_q: "(j, n) \<in> set qs" using Cons.prems(2) ji by simp
  have rest: "filter (\<lambda>m. om_pane_id m = x) (concat (map (ownership_changes rt title store a) ps)) =
      (if (k, i) \<in> set ps then ownership_changes rt title store a (k, i) else [])"
    using Cons by simp
  show ?case
  proof (cases "(j, n) = (k, i)")
    case True
    have "\<forall>m \<in> set (ownership_changes rt title store a (k, i)). om_pane_id m = x"
      using changes_named(1) [OF assms(1,4)] assms(5) by auto
    then show ?thesis using True ji rest Cons.prems(1) by simp
  next
    case False
    have "om_pane_id m \<noteq> x" if "m \<in> set (ownership_changes rt title store a (j, n))" for m
    proof
      assume "om_pane_id m = x"
      then have "public_pane_id j n (app_session a) = Some x" using changes_named(1) [OF assms(1) in_q that] by simp
      then have "parse_pane_id x (app_session a) = Some (j, n)" "parse_pane_id x (app_session a) = Some (k, i)"
        using assms(1,4,5) in_q unfolding apart_def by blast+
      then show False using False by simp
    qed
    then have "filter (\<lambda>m. om_pane_id m = x) (ownership_changes rt title store a (j, n)) = []" by (simp add: filter_empty_conv)
    then show ?thesis using False ji rest by auto
  qed
qed simp

section \<open>The second round\<close>

lemma resolve_same:
  "resolve_pane title store (p\<lparr>input_label := l\<rparr>) =
     (resolve_pane title store p)\<lparr>expected_label := sanitize_title l 200,
       desired_title := (if has_agent_identity p then title (p\<lparr>input_label := l\<rparr>) else None)\<rparr>"
  by (simp add: resolve_pane_def)

lemma round_settles:
  assumes "session_ok (al, app_session a)" "\<And>p. clean_title (title p)" "\<And>p l. title (p\<lparr>input_label := l\<rparr>) = title p"
    "\<forall>t \<in> ran (hm_get (terminals a)). \<not> blank_label (manual_label t)"
  shows "sync_round rt title all_written (sync_round rt title all_written ((g, a), store)) =
    sync_round rt title all_written ((g, a), store)"
proof -
  let ?s = "app_session a"
  define ps where "ps = pane_positions ?s"
  have ap: "apart ?s ps" and d: "distinct ps" using positions_apart [OF assms(1)] by (simp_all add: ps_def apart_def)
  define ms where "ms = concat (map (ownership_changes rt title store a) ps)"
  have inputs: "title_sync_inputs rt b = inputs_at rt ps b" if "app_session b = ?s" for b
    using that by (simp add: title_sync_inputs_positions inputs_at_def ps_def)
  obtain st1 where st1: "apply_title_sync_results rt (resolve_panes title store (inputs_at rt ps a)) (g, a) = (ms, st1)"
      "applied_at rt title store ps ps (g, a) st1"
    using apply_all [where title = title, OF ap d subset_refl assms(2), where rt = rt and store = store and g = g] by (auto simp: ms_def)
  define store1 where "store1 = persist all_written ms store"
  have first: "sync_round rt title all_written ((g, a), store) = (st1, store1)"
    using st1(1) inputs [of a] by (simp add: sync_round_def store1_def)
  obtain g1 a1 where g1: "st1 = (g1, a1)" by (cases st1)
  have s1: "app_session a1 = ?s" using st1(2) g1 by (simp add: applied_at_def)
  obtain st2 where st2: "apply_title_sync_results rt (resolve_panes title store1 (inputs_at rt ps a1)) (g1, a1) =
       (concat (map (ownership_changes rt title store1 a1) ps), st2)" "applied_at rt title store1 ps ps (g1, a1) st2"
    using apply_all [where title = title, OF _ d subset_refl assms(2), where a = a1 and rt = rt and store = store1 and g = g1] ap s1 by auto
  have settled: "new_label (resolve_pane title store1 p1) p1 = input_label p1 \<and>
      owned_after (new_ownership (resolve_pane title store1 p1) p1) (read_ownership store1 (input_pane_id p1)) = read_ownership store1 (input_pane_id p1)"
    if at: "(k, i) \<in> set ps" "title_sync_input rt k i a1 = Some p1" for k i p1
  proof -
    obtain p where p: "title_sync_input rt k i a = Some p"
        "p1 = p\<lparr>input_label := new_label (resolve_pane title store p) p\<rparr>"
      using st1(2) at g1 by (auto simp: applied_at_def)
    obtain tid t where f: "hm_get (terminals a) tid = Some t" "manual_label t = input_label p"
        "public_pane_id k i ?s = Some (input_pane_id p)" using input_facts [OF p(1)] by metis
    have "scalars (input_pane_id p)" using ap at(1) f(3) by (auto simp: apart_def)
    moreover have "\<forall>m \<in> set ms. scalars (om_pane_id m)" using changes_named(2) [OF ap] by (auto simp: ms_def)
    ultimately have own: "read_ownership store1 (input_pane_id p) =
        owned_after (new_ownership (resolve_pane title store p) p) (read_ownership store (input_pane_id p))"
      using changes_of_pane [OF ap d subset_refl at(1) f(3), of rt title store] at(1) changes_at(2) [OF p(1)]
      by (simp add: store1_def read_persist ms_def)
    have "\<not> blank_label (input_label p)" using assms(4) f(1,2) by (metis ranI)
    moreover have "clean_title (desired_title (resolve_pane title store p))"
      using assms(2) by (simp add: resolve_pane_def clean_title_def)
    moreover have "title p1 = title p" "input_pane_id p1 = input_pane_id p" "has_agent_identity p1 = has_agent_identity p"
      unfolding p(2) by (simp_all add: assms(3))
    then have "previous_ownership (resolve_pane title store1 p1) = read_ownership store1 (input_pane_id p)"
      "desired_title (resolve_pane title store1 p1) = desired_title (resolve_pane title store p)"
      "had_agent (resolve_pane title store1 p1) = had_agent (resolve_pane title store p)"
      "had_agent (resolve_pane title store p) = has_agent_identity p" "input_pane_id p1 = input_pane_id p"
      "previous_ownership (resolve_pane title store p) = read_ownership store (input_pane_id p)"
      by (simp_all add: resolve_pane_def)
    ultimately show ?thesis
      using pane_settles [of "resolve_pane title store p" p p1 "resolve_pane title store1 p1"] p(2) own by metis
  qed
  have "st2 = (g1, a1)" using st2(2) settled by (auto simp: applied_at_def)
  moreover have "read_ownership store1 (om_pane_id m) = om_state m"
    if m: "m \<in> set (ownership_changes rt title store1 a1 ki)" "ki \<in> set ps" for m ki
  proof -
    obtain k i where ki: "ki = (k, i)" by (cases ki)
    obtain p where p: "title_sync_input rt k i a1 = Some p" using m ki by (cases "title_sync_input rt k i a1") (auto simp: changes_at)
    have "m \<in> set (new_ownership (resolve_pane title store1 p) p)" using m(1) ki changes_at(2) [OF p] by simp
    then have "new_ownership (resolve_pane title store1 p) p = [m]" "om_pane_id m = input_pane_id p"
      using one_change [of "resolve_pane title store1 p" p] by (auto simp: resolve_pane_def)
    then show ?thesis using settled [OF _ p] m(2) ki by (simp add: owned_after_def)
  qed
  then have "persist all_written (concat (map (ownership_changes rt title store1 a1) ps)) store1 = store1"
    by (intro persist_all_same) auto
  ultimately show ?thesis unfolding first using st2(1) inputs [OF s1] g1 by (simp add: sync_round_def)
qed

section \<open>The titles the readers give\<close>

lemma clean_sanitized: "n \<le> 200 \<Longrightarrow> clean_title (sanitize_title raw n)"
  unfolding clean_title_def by (auto intro: sanitize_again)

lemma clean_None [simp]: "clean_title None"
  by (simp add: clean_title_def)

lemma clean_fold: "clean_title (h s0) \<Longrightarrow> (\<And>x s. clean_title (h s) \<Longrightarrow> clean_title (h (f x s))) \<Longrightarrow> clean_title (h (fold f xs s0))"
  by (induction xs arbitrary: s0) auto

lemma reader_clean:
  "claude_title fs i = Inr t \<Longrightarrow> clean_title t"
  "codex_title fs job sid p = Inr t \<Longrightarrow> clean_title t"
  "kimi_title fs i = Inr t \<Longrightarrow> clean_title t"
  "opencode_title fs i = Inr t \<Longrightarrow> clean_title t"
proof -
  have "clean_title (fst (fold (claude_step i) rows (None, False)))" for rows
    by (rule clean_fold) (auto simp: claude_step_def clean_sanitized Let_def split: prod.splits)
  then show "claude_title fs i = Inr t \<Longrightarrow> clean_title t"
    by (auto simp: claude_title_def split: option.splits sum.splits)
  have "clean_title (fold (\<lambda>row title. if xr_id row = Some i then sanitize_title (xr_thread_name row) 200 else title) rows None)" for i rows
    by (rule clean_fold [where h = id, simplified]) (auto simp: clean_sanitized)
  then show "codex_title fs job sid p = Inr t \<Longrightarrow> clean_title t"
    by (auto simp: codex_title_def split: option.splits sum.splits)
  have "clean_title (fold kimi_prompt rows None)" for rows
    by (rule clean_fold [where h = id, simplified]) (auto simp: kimi_prompt_def clean_sanitized Option.bind_eq_Some_conv clean_title_def intro: sanitize_again)
  then show "kimi_title fs i = Inr t \<Longrightarrow> clean_title t"
    by (auto simp: kimi_title_def clean_title_def intro: sanitize_again split: option.splits sum.splits)
  show "opencode_title fs i = Inr t \<Longrightarrow> clean_title t"
    by (auto simp: opencode_title_def clean_title_def bind_eq_Some_conv intro: sanitize_again split: option.splits sum.splits)
qed

lemma title_for_pane_clean: "clean_title (title_for_pane fs job lower p)"
proof -
  have terminal: "clean_title (terminal_title_of lower p agent)" for agent
    by (auto simp: clean_title_def terminal_title_of_def bind_eq_Some_conv then_some_eq intro: sanitize_again split: if_splits)
  have "clean_title t" if "durable_title fs job agent sid p = Some (Inr t)" for agent sid t
    using that reader_clean by (auto simp: durable_title_def split: if_splits)
  then show ?thesis using terminal
    by (cases "or_else (input_agent p) (Option.bind (input_session p) as_agent)")
      (auto simp: title_for_pane_def Let_def clean_title_def split: option.split sum.split)
qed

lemma title_for_pane_label: "title_for_pane fs job lower (p\<lparr>input_label := l\<rparr>) = title_for_pane fs job lower p"
proof -
  have codex: "codex_title fs job sid (p\<lparr>input_label := l\<rparr>) = codex_title fs job sid p" for sid
    by (simp add: codex_title_def resume_session_id_def)
  have terminal: "terminal_title_of lower (p\<lparr>input_label := l\<rparr>) agent = terminal_title_of lower p agent" for agent
    unfolding terminal_title_of_def by (simp cong: if_cong)
  show ?thesis unfolding title_for_pane_def durable_title_def codex terminal by simp
qed

end
