(* ===== verification/Title_Machine.thy ===== *)
theory Title_Machine
  imports Machine Title_Settles
begin

text \<open>
  The engine, the worker and the application together: the engine polls, the worker takes one
  message after the other from its channel, the server applies a result and tells the engine. What
  else happens to the application is left open, and so are the titles the worker finds and the
  writes that succeed, which may differ from one step to the next.
\<close>

section \<open>Steps\<close>

record 'g world =
  titled_app :: "'g titled"
  engine :: title_sync_engine
  works :: "work list"
  results :: "(u64 \<times> resolved_pane list) list"
  owned_files :: ownership_store

text \<open>The server's handler of \<open>TitleSyncResolved\<close>.\<close>

definition handle_title_sync_resolved ::
    "runtime_answers \<Rightarrow> bool \<Rightarrow> u64 \<Rightarrow> resolved_pane list \<Rightarrow> 'g titled \<times> title_sync_engine \<Rightarrow>
     bool \<times> work list \<times> 'g titled \<times> title_sync_engine" where
  "handle_title_sync_resolved rt alive generation rps s =
     (let (st, e) = s;
          (ms, st1) = apply_title_sync_results rt rps st;
          (sent, e1) = complete alive (fst st1) (title_sync_inputs rt (snd st1)) generation ms e
      in (ms \<noteq> [], sent, st1, e1))"

inductive world_init :: "'g world \<Rightarrow> bool" where
  "world_init \<lparr>titled_app = (0, a), engine = start_engine True every now, works = [], results = [], owned_files = store\<rparr>"

inductive world_step :: "runtime_answers \<Rightarrow> 'g world \<Rightarrow> 'g world \<Rightarrow> bool" for rt where
  outside: "world_step rt w (w\<lparr>titled_app := st'\<rparr>)"
| polled: "poll True (fst (titled_app w)) (title_sync_inputs rt (snd (titled_app w))) now (engine w) = (sent, e') \<Longrightarrow>
    world_step rt w (w\<lparr>engine := e', works := works w @ sent\<rparr>)"
| resolved: "works w = Resolve g ps # ws \<Longrightarrow>
    world_step rt w (w\<lparr>works := ws, results := results w @ [(g, resolve_panes title (owned_files w) ps)]\<rparr>)"
| written: "works w = Persist ms # ws \<Longrightarrow>
    world_step rt w (w\<lparr>works := ws, owned_files := persist ok ms (owned_files w)\<rparr>)"
| applied: "results w = (g, rs) # es \<Longrightarrow>
    handle_title_sync_resolved rt True g rs (titled_app w, engine w) = (changed, sent, st', e') \<Longrightarrow>
    world_step rt w (w\<lparr>titled_app := st', engine := e', works := works w @ sent, results := es\<rparr>)"

section \<open>One resolution at a time\<close>

fun is_persist :: "work \<Rightarrow> bool" where
  "is_persist (Persist ms) = True"
| "is_persist _ = False"

text \<open>The generation that is being resolved, when the messages and the results are in order.\<close>

definition under_way :: "u64 \<Rightarrow> 'g world \<Rightarrow> bool" where
  "under_way g w \<longleftrightarrow>
     (\<exists>ps ws. works w = ws @ [Resolve g ps] \<and> list_all is_persist ws \<and> results w = [])
     \<or> (\<exists>rs. results w = [(g, rs)] \<and> list_all is_persist (works w))"

definition world_ok :: "'g world \<Rightarrow> bool" where
  "world_ok w \<longleftrightarrow> sender (engine w)
     \<and> (if in_flight (engine w)
        then \<exists>g. under_way g w \<and> (pending_resolution (engine w) \<or> g = observed_generation (engine w))
        else results w = [] \<and> list_all is_persist (works w) \<and> \<not> pending_resolution (engine w))"

lemma poll_cases:
  assumes "poll True g inputs now e = (sent, e')" "sender e"
  shows "sender e' \<and> (sent = [] \<and> e' = e
    \<or> in_flight e \<and> in_flight e' \<and> sent = [] \<and> pending_resolution e'
    \<or> \<not> in_flight e \<and> sent = [Resolve g inputs] \<and> in_flight e' \<and> \<not> pending_resolution e' \<and> observed_generation e' = g)"
  using assms by (auto simp: poll_def start_resolution_def Let_def split: if_splits)

lemma poll_due:
  assumes "poll True g inputs now e = (sent, e')" "sender e" "g \<noteq> observed_generation e"
  shows "in_flight e' \<and> observed_generation e' = g \<and> (if in_flight e then pending_resolution e' \<and> sent = [] else sent = [Resolve g inputs])"
  using assms by (auto simp: poll_def start_resolution_def Let_def split: if_splits)

lemma complete_cases:
  assumes "complete True current inputs g ms e = (sent, e')" "sender e"
  shows "sender e' \<and> (if pending_resolution e \<or> current \<noteq> g
    then sent = [Persist ms, Resolve current inputs] \<and> in_flight e' \<and> \<not> pending_resolution e' \<and> observed_generation e' = current
    else sent = [Persist ms] \<and> \<not> in_flight e' \<and> \<not> pending_resolution e' \<and> observed_generation e' = observed_generation e)"
  using assms by (auto simp: complete_def start_resolution_def Let_def split: if_splits)

lemma handled_cases:
  assumes "handle_title_sync_resolved rt True g rs (st, e) = (changed, sent, st', e')" "sender e"
  obtains ms where "apply_title_sync_results rt rs st = (ms, st')" "changed = (ms \<noteq> [])"
    "complete True (fst st') (title_sync_inputs rt (snd st')) g ms e = (sent, e')"
  using assms by (auto simp: handle_title_sync_resolved_def split: prod.splits)

lemma world_step_ok: "world_step rt w w' \<Longrightarrow> world_ok w \<Longrightarrow> world_ok w'"
proof (induction rule: world_step.cases)
  case (polled w now sent e')
  have ok: "world_ok w" using polled by simp
  then have s: "sender (engine w)" by (simp add: world_ok_def)
  from poll_cases [OF polled(3) s] consider "sent = []" "e' = engine w"
    | "in_flight (engine w)" "in_flight e'" "sent = []" "pending_resolution e'" "sender e'"
    | "\<not> in_flight (engine w)" "sent = [Resolve (fst (titled_app w)) (title_sync_inputs rt (snd (titled_app w)))]"
        "in_flight e'" "observed_generation e' = fst (titled_app w)" "sender e'" by blast
  then show ?case
  proof cases
    case 1
    then show ?thesis using ok polled(2) by simp
  next
    case 2
    obtain g where "under_way g w" using ok 2(1) by (auto simp: world_ok_def)
    then have "under_way g w'" using 2 polled(2) by (simp add: under_way_def)
    then show ?thesis using 2 polled(2) by (auto simp: world_ok_def)
  next
    case 3
    then show ?thesis using ok polled(2) by (simp add: world_ok_def under_way_def)
  qed
next
  case (resolved w g ps ws title)
  then have "in_flight (engine w)" by (auto simp: world_ok_def split: if_splits)
  then show ?case using resolved by (auto simp: world_ok_def under_way_def Cons_eq_append_conv)
next
  case (written w ms ws ok)
  then show ?case by (auto simp: world_ok_def under_way_def Cons_eq_append_conv split: if_splits)
next
  case (applied w g rs es changed sent st' e')
  have s: "sender (engine w)" using applied by (simp add: world_ok_def)
  obtain ms where c: "complete True (fst st') (title_sync_inputs rt (snd st')) g ms (engine w) = (sent, e')"
    using handled_cases [OF applied(4) s] by metis
  have "in_flight (engine w)" using applied by (auto simp: world_ok_def split: if_splits)
  then have "results w = [(g, rs)]" "list_all is_persist (works w)" "es = []"
    using applied by (auto simp: world_ok_def under_way_def)
  then show ?case using complete_cases [OF c s] applied(2)
    by (auto simp: world_ok_def under_way_def split: if_splits)
next
  case (outside w st')
  then have "under_way g w' = under_way g w" for g by (simp add: under_way_def)
  then show ?case using outside by (simp add: world_ok_def)
qed

interpretation titles: invariant world_init "world_step rt" world_ok
proof unfold_locales
  show "world_init w \<Longrightarrow> world_ok w" for w :: "'a world"
    by (auto simp: world_ok_def start_engine_def elim: world_init.cases)
qed (rule world_step_ok)

end
