(* ===== verification/Title_Claims.thy ===== *)
theory Title_Claims
  imports Title_Machine App_Claims
begin

text \<open>
  The properties of the title synchronisation, with witnesses at the short session of
  \<open>App_Scenario\<close>, in which one terminal runs an agent.
\<close>

section \<open>A session with an agent\<close>

definition demo_agent :: "unit app" where
  "demo_agent = (let a = snd demo_split in
     a\<lparr>terminals := hm_map_values (\<lambda>tid t. if tid = demo_tid 1
         then t\<lparr>detected_agent := Some Claude, terminal_title := Some (10035 # lit '' Fix  the bug'')\<rparr> else t) (terminals a)\<rparr>)"

definition no_answers :: runtime_answers where
  "no_answers = \<lparr>answered_cwd = (\<lambda>_. None), answered_foreground_cwd = (\<lambda>_. None), answered_child_pid = (\<lambda>_. None)\<rparr>"

definition no_files :: "unit title_files" where
  "no_files = \<lparr>claude_transcript = (\<lambda>_. None), codex_index = Inl (), kimi_index = Inl (), trusted_child = (\<lambda>_. None),
     kimi_state_title = (\<lambda>_. None), kimi_wire = (\<lambda>_. Inl ()), opencode_session_title = (\<lambda>_. None)\<rparr>"

definition demo_title :: "pane_input \<Rightarrow> text option" where
  "demo_title = title_for_pane no_files (\<lambda>_. None) id"

lemma demo_titled:
  "map_option manual_label (hm_get (terminals (snd (fst (sync_round no_answers demo_title all_written ((0, demo_agent), []))))) (demo_tid 1))
     = Some (Some (lit ''Fix the bug''))"
  by code_simp

lemma demo_agent_unlabelled: "\<forall>t \<in> ran (hm_get (terminals demo_agent)). manual_label t = None"
proof -
  have "list_all (\<lambda>(tid, t). manual_label t = None) (terminals demo_agent)" by code_simp
  then show ?thesis by (fastforce simp: ran_def hm_get_def list_all_iff dest: map_of_SomeD)
qed

lemma demo_agent_session: "app_session demo_agent = app_session (snd demo_split)"
  by (simp add: demo_agent_def Let_def)

lemma demo_split_pair: "reachable app_init (app_step demo_spawn demo_git) (fst demo_split, snd demo_split)"
  using demo_reachable(2) by simp

section \<open>Labels\<close>




text \<open>C21. The synchronisation settles: when the agents and what their files say stay the same, a second
  round changes no label, no generation and no ownership file, provided that every ownership file can
  be written in both. The panes are those of any reachable session; what runs in their terminals is
  left open, but no label consists of blanks and control characters.
\<close>

theorem titles_settle:
  assumes "reachable app_init (app_step spawn git) (al, b)" "app_session a = app_session b"
    "\<forall>t \<in> ran (hm_get (terminals a)). manual_label t \<noteq> None \<longrightarrow> sanitize_title (manual_label t) 200 \<noteq> None"
  shows "sync_round rt (title_for_pane fs job lower) (\<lambda>_. True)
      (sync_round rt (title_for_pane fs job lower) (\<lambda>_. True) ((g, a), store)) =
    sync_round rt (title_for_pane fs job lower) (\<lambda>_. True) ((g, a), store)"
proof -
  have w: "(\<lambda>_. True) = all_written" by (simp add: fun_eq_iff all_written_def)
  show ?thesis unfolding w
  proof (rule round_settles)
    show "session_ok (al, app_session a)" using app_okD(1) [OF reachable_ok [OF assms(1)]] assms(2) by simp
    show "\<forall>t \<in> ran (hm_get (terminals a)). \<not> blank_label (manual_label t)"
      using assms(3) by (auto simp: blank_label_def)
  qed (rule title_for_pane_clean title_for_pane_label)+
qed

theorem titles_settle_witness:
  "sync_round no_answers (title_for_pane no_files (\<lambda>_. None) id) (\<lambda>_. True)
      (sync_round no_answers (title_for_pane no_files (\<lambda>_. None) id) (\<lambda>_. True) ((0, demo_agent), [])) =
    sync_round no_answers (title_for_pane no_files (\<lambda>_. None) id) (\<lambda>_. True) ((0, demo_agent), [])"
proof -
  have "\<forall>t \<in> ran (hm_get (terminals demo_agent)). manual_label t \<noteq> None \<longrightarrow> sanitize_title (manual_label t) 200 \<noteq> None"
    by (simp add: demo_agent_unlabelled)
  then show ?thesis by (rule titles_settle [OF demo_split_pair demo_agent_session])
qed

text \<open>A sanitised title is words with one space between them, without control characters, and no
  longer than the limit in bytes; sanitising it again changes nothing.
\<close>

theorem sanitized_title_is_clean:
  assumes "sanitize_title raw n = Some t"
  shows "(\<exists>ws. ws \<noteq> [] \<and> t = join_words ws
      \<and> (\<forall>w \<in> set ws. w \<noteq> [] \<and> (\<forall>c \<in> set w. \<not> is_whitespace c \<and> 31 < c \<and> c \<noteq> 127)))
    \<and> str_len t \<le> n \<and> sanitize_title (Some t) n = Some t"
  using sanitize_worded [OF assms] sanitize_again [OF assms, of n] by (auto simp: worded_def word_ok_def)

theorem sanitized_title_is_clean_witness:
  "str_len (lit ''Fix the'') \<le> 8 \<and> sanitize_title (Some (lit ''Fix the'')) 8 = Some (lit ''Fix the'')"
proof -
  have "sanitize_title (Some (lit '' Fix'' @ [9, 10] @ lit ''the bug'')) 8 = Some (lit ''Fix the'')" by code_simp
  from sanitized_title_is_clean [OF this] show ?thesis by simp
qed

section \<open>Ownership files\<close>

text \<open>C31. What is remembered of a pane is remembered of no other: the name of the file determines the
  identifier, it has no slash, and after a write or a removal every other pane reads what it read
  before.
\<close>

theorem ownership_files_are_apart:
  assumes "\<forall>c \<in> set i. c < 1114112" "\<forall>c \<in> set j. c < 1114112"
  shows "(ownership_file i = ownership_file j) = (i = j) \<and> 47 \<notin> set (ownership_file i)
    \<and> read_ownership (write_ownership i s store) j = (if i = j then Some s else read_ownership store j)
    \<and> read_ownership (clear_ownership i store) j = (if i = j then None else read_ownership store j)"
proof -
  have "scalars i" "scalars j" using assms by (simp_all add: scalars_def)
  then show ?thesis using ownership_file_inj [of i j] ownership_file_no_slash [of i]
    by (auto simp: read_ownership_def write_ownership_def clear_ownership_def hm_simps)
qed

theorem ownership_files_are_apart_witness:
  "ownership_file (lit ''w1:p1'') \<noteq> ownership_file (lit ''w1:p2'')
    \<and> read_ownership (write_ownership (lit ''w1:p1'') \<lparr>own_session = None, own_title = lit ''Fix''\<rparr> []) (lit ''w1:p2'') = None"
  using ownership_files_are_apart [of "lit ''w1:p1''" "lit ''w1:p2''" "\<lparr>own_session = None, own_title = lit ''Fix''\<rparr>" "[]"]
  by (simp add: lit_def read_ownership_def)

section \<open>The engine\<close>

text \<open>C23. At most one resolution is under way, in the channel of the worker or on its way back, and the
  engine knows it; every change of an ownership file that was sent before is written before the panes are
  resolved; nothing is pending while nothing is under way; and while nothing is pending the panes that
  are resolved are those of the generation the engine saw last.
\<close>

theorem one_resolution_at_a_time:
  assumes "reachable world_init (world_step rt) w"
  shows "length (filter (\<lambda>m. \<not> is_persist m) (works w)) + length (results w) = (if in_flight (engine w) then 1 else 0)
    \<and> list_all is_persist (butlast (works w))
    \<and> (\<not> in_flight (engine w) \<longrightarrow> \<not> pending_resolution (engine w))
    \<and> (in_flight (engine w) \<and> \<not> pending_resolution (engine w) \<longrightarrow>
        (\<exists>ps. Resolve (observed_generation (engine w)) ps \<in> set (works w))
        \<or> (\<exists>rs. results w = [(observed_generation (engine w), rs)]))"
proof -
  have ok: "world_ok w" by (rule titles.reachable_inv [OF assms])
  have none: "filter (\<lambda>m. \<not> is_persist m) ws = []" "list_all is_persist (butlast ws)" if "list_all is_persist ws" for ws
    using that by (auto simp: filter_empty_conv list_all_iff dest: in_set_butlastD)
  show ?thesis
  proof (cases "in_flight (engine w)")
    case False
    then show ?thesis using ok none by (simp add: world_ok_def)
  next
    case True
    then obtain g where g: "under_way g w" "pending_resolution (engine w) \<or> g = observed_generation (engine w)"
      using ok by (auto simp: world_ok_def)
    from g(1) show ?thesis unfolding under_way_def
    proof (elim disjE exE conjE)
      fix ps ws assume "works w = ws @ [Resolve g ps]" "list_all is_persist ws" "results w = []"
      then show ?thesis using True g(2) none [of ws] by auto
    next
      fix rs assume "results w = [(g, rs)]" "list_all is_persist (works w)"
      then show ?thesis using True g(2) none [of "works w"] by auto
    qed
  qed
qed

definition demo_world :: "unit world" where
  "demo_world = \<lparr>titled_app = (0, demo_agent), engine = start_engine True 10 0, works = [], results = [], owned_files = []\<rparr>"

definition demo_polled :: "unit world" where
  "demo_polled = (let (sent, e) = poll True 0 (title_sync_inputs no_answers demo_agent) 0 (engine demo_world)
     in demo_world\<lparr>engine := e, works := sent\<rparr>)"

lemma demo_polled_reachable: "reachable world_init (world_step no_answers) demo_polled"
proof -
  obtain sent e where p: "poll True 0 (title_sync_inputs no_answers demo_agent) 0 (engine demo_world) = (sent, e)" by fastforce
  have "reachable world_init (world_step no_answers) (demo_world\<lparr>engine := e, works := works demo_world @ sent\<rparr>)"
  proof (rule reachable.step)
    show "reachable world_init (world_step no_answers) demo_world"
      unfolding demo_world_def by (rule reachable.start) (rule world_init.intros)
    show "world_step no_answers demo_world (demo_world\<lparr>engine := e, works := works demo_world @ sent\<rparr>)"
      by (rule world_step.polled [of demo_world no_answers 0]) (use p in \<open>simp add: demo_world_def\<close>)
  qed
  then show ?thesis using p by (simp add: demo_polled_def demo_world_def)
qed

theorem one_resolution_at_a_time_witness:
  "length (filter (\<lambda>m. \<not> is_persist m) (works demo_polled)) + length (results demo_polled) = (if in_flight (engine demo_polled) then 1 else 0)
    \<and> list_all is_persist (butlast (works demo_polled))"
  using one_resolution_at_a_time [OF demo_polled_reachable] by blast

text \<open>C24. No change is missed. When the generation moved since the engine looked last, the next poll sends the panes
  to be resolved, or what is under way is to be followed by another resolution. When a result was
  applied, the changes of the ownership files are sent, and either the engine rests and the
  result was for the generation the application has now, or the panes as they are now are sent after
  them.
\<close>

theorem no_change_is_missed:
  assumes "reachable world_init (world_step rt) w"
  shows "(let (g, a) = titled_app w; (sent, e') = poll True g (title_sync_inputs rt a) now (engine w)
      in g \<noteq> observed_generation (engine w) \<longrightarrow>
           in_flight e' \<and> (pending_resolution e' \<or> sent = [Resolve g (title_sync_inputs rt a)]))
    \<and> (\<forall>n rs es. results w = (n, rs) # es \<longrightarrow>
        (let (ms, g', a') = apply_title_sync_results rt rs (titled_app w);
             (changed, sent, st', e') = handle_title_sync_resolved rt True n rs (titled_app w, engine w)
         in st' = (g', a') \<and> observed_generation e' = g'
           \<and> (if in_flight e' then sent = [Persist ms, Resolve g' (title_sync_inputs rt a')] else sent = [Persist ms] \<and> n = g')))"
proof (intro conjI allI impI)
  have ok: "world_ok w" by (rule titles.reachable_inv [OF assms])
  then have s: "sender (engine w)" by (simp add: world_ok_def)
  show "let (g, a) = titled_app w; (sent, e') = poll True g (title_sync_inputs rt a) now (engine w)
      in g \<noteq> observed_generation (engine w) \<longrightarrow>
           in_flight e' \<and> (pending_resolution e' \<or> sent = [Resolve g (title_sync_inputs rt a)])"
  proof -
    obtain g a sent e' where ga: "titled_app w = (g, a)" "poll True g (title_sync_inputs rt a) now (engine w) = (sent, e')"
      by (metis surj_pair)
    then show ?thesis using poll_due [OF ga(2) s] by (auto split: if_splits)
  qed
  fix n rs es assume r: "results w = (n, rs) # es"
  obtain ms g' a' where ap: "apply_title_sync_results rt rs (titled_app w) = (ms, g', a')" by (metis prod_cases3)
  obtain sent e' where c: "complete True g' (title_sync_inputs rt a') n ms (engine w) = (sent, e')" by fastforce
  have h: "handle_title_sync_resolved rt True n rs (titled_app w, engine w) = (ms \<noteq> [], sent, (g', a'), e')"
    using ap c by (simp add: handle_title_sync_resolved_def)
  have "pending_resolution (engine w) \<or> n = observed_generation (engine w)"
    using ok r by (auto simp: world_ok_def under_way_def split: if_splits)
  then show "let (ms, g', a') = apply_title_sync_results rt rs (titled_app w);
             (changed, sent, st', e') = handle_title_sync_resolved rt True n rs (titled_app w, engine w)
         in st' = (g', a') \<and> observed_generation e' = g'
           \<and> (if in_flight e' then sent = [Persist ms, Resolve g' (title_sync_inputs rt a')] else sent = [Persist ms] \<and> n = g')"
    unfolding ap h using complete_cases [OF c s] by (auto split: if_splits)
qed

definition demo_changed :: "unit world" where
  "demo_changed = demo_polled\<lparr>titled_app := (1, demo_agent)\<rparr>"

theorem no_change_is_missed_witness:
  "let (sent, e') = poll True 1 (title_sync_inputs no_answers demo_agent) 3 (engine demo_changed)
   in in_flight e' \<and> (pending_resolution e' \<or> sent = [Resolve 1 (title_sync_inputs no_answers demo_agent)])"
proof -
  have "reachable world_init (world_step no_answers) demo_changed"
    unfolding demo_changed_def by (rule reachable.step [OF demo_polled_reachable world_step.outside])
  moreover have "1 \<noteq> observed_generation (engine demo_changed)"
    by (simp add: demo_changed_def demo_polled_def demo_world_def poll_def start_resolution_def start_engine_def Let_def)
  ultimately show ?thesis
    using no_change_is_missed [of no_answers demo_changed 3] by (simp add: demo_changed_def)
qed

end
