(* ===== verification/Manifest_Regions.thy ===== *)
theory Manifest_Regions
  imports Rust_Text
begin

text \<open>
  The regions of a screen that the rules of \<open>src/detect/manifest.rs\<close> (1254--1511) look at. The code
  computes byte offsets from the lengths of the lines and slices the screen there; a slice that
  begins or ends inside a character panics, which is the value \<open>None\<close> of a region. The last part of
  the theory says without offsets what the regions are meant to be.
\<close>

section \<open>Lines and slices\<close>

text \<open>\<open>str::lines\<close>: the pieces end with their line feed, which is dropped together with a carriage
  return in front of it.\<close>

fun split_lines :: "text \<Rightarrow> text list" where
  "split_lines [] = []"
| "split_lines (c # cs) =
     (if c = 10 then [c] # split_lines cs
      else case split_lines cs of [] \<Rightarrow> [[c]] | l # ls \<Rightarrow> (c # l) # ls)"

definition strip_suffix :: "text \<Rightarrow> text \<Rightarrow> text option" where
  "strip_suffix t s = (if ends_with t s then Some (take (length t - length s) t) else None)"

definition line_of :: "text \<Rightarrow> text" where
  "line_of piece =
     (case strip_suffix piece [10] of
        None \<Rightarrow> piece
      | Some l \<Rightarrow> (case strip_suffix l [13] of None \<Rightarrow> l | Some k \<Rightarrow> k))"

definition str_lines :: "text \<Rightarrow> text list" where
  "str_lines t = map line_of (split_lines t)"

text \<open>Slices at byte offsets.\<close>

fun split_at_byte :: "nat \<Rightarrow> text \<Rightarrow> (text \<times> text) option" where
  "split_at_byte n [] = (if n = 0 then Some ([], []) else None)"
| "split_at_byte n (c # cs) =
     (if n = 0 then Some ([], c # cs)
      else if len_utf8 c \<le> n then map_option (\<lambda>(a, b). (c # a, b)) (split_at_byte (n - len_utf8 c) cs)
      else None)"

definition slice_from :: "nat \<Rightarrow> text \<Rightarrow> text option" where
  "slice_from n t = map_option snd (split_at_byte n t)"

definition slice_to :: "nat \<Rightarrow> text \<Rightarrow> text option" where
  "slice_to n t = map_option fst (split_at_byte n t)"

definition slice :: "nat \<Rightarrow> nat \<Rightarrow> text \<Rightarrow> text option" where
  "slice a b t = (if b < a then None else Option.bind (slice_to b t) (slice_from a))"

definition line_start_offset :: "text \<Rightarrow> text list \<Rightarrow> nat \<Rightarrow> nat" where
  "line_start_offset content ls index =
     min (sum_list (map (\<lambda>l. str_len l + 1) (take (min index (length ls)) ls))) (str_len content)"

definition slice_from_line_index :: "text \<Rightarrow> text list \<Rightarrow> nat \<Rightarrow> text option" where
  "slice_from_line_index content ls index = slice_from (min (line_start_offset content ls index) (str_len content)) content"

section \<open>Lines that mean something\<close>

definition blank_line :: "text \<Rightarrow> bool" where
  "blank_line l \<longleftrightarrow> trim l = []"

definition codex_prompt_line :: "text \<Rightarrow> bool" where
  "codex_prompt_line l \<longleftrightarrow> l = [8250] \<or> starts_with l [8250, 32]"

definition codex_block_marker_line :: "text \<Rightarrow> bool" where
  "codex_block_marker_line l \<longleftrightarrow> starts_with l [8226] \<or> starts_with l [9632] \<or> starts_with l [10007] \<or> starts_with l [10003]"

definition is_horizontal_rule :: "text \<Rightarrow> bool" where
  "is_horizontal_rule l =
     (let trimmed = trim l; rule_chars = length (takeWhile (\<lambda>c. c = 9472) trimmed)
      in if trimmed = [] then False
         else if rule_chars = 0 then False
         else trim_start (drop rule_chars trimmed) = [] \<or> rule_chars \<ge> 3)"

section \<open>Regions\<close>

definition bottom_lines :: "text \<Rightarrow> nat \<Rightarrow> text option" where
  "bottom_lines content count =
     (let ls = str_lines content in slice_from_line_index content ls (length ls - count))"

text \<open>The indices of the lines that are not blank.\<close>

definition non_empty_indices :: "text list \<Rightarrow> nat list" where
  "non_empty_indices ls = filter (\<lambda>k. \<not> blank_line (ls ! k)) [0..<length ls]"

definition bottom_non_empty_lines :: "text \<Rightarrow> nat \<Rightarrow> text option" where
  "bottom_non_empty_lines content count =
     (let ls = str_lines content; picked = take count (rev (non_empty_indices ls))
      in if picked = [] then Some [] else slice_from_line_index content ls (last picked))"

definition top_non_empty_lines :: "text \<Rightarrow> nat \<Rightarrow> text option" where
  "top_non_empty_lines content count =
     (let ls = str_lines content; picked = take count (non_empty_indices ls)
      in if picked = [] then Some [] else slice_to (line_start_offset content ls (last picked + 1)) content)"

definition after_last_prompt_marker :: "text \<Rightarrow> text option" where
  "after_last_prompt_marker content =
     (let ls = str_lines content
      in case rposition codex_prompt_line ls of
           None \<Rightarrow> Some content
         | Some index \<Rightarrow> slice_from_line_index content ls (index + 1))"

definition current_codex_prompt_index :: "text list \<Rightarrow> nat option" where
  "current_codex_prompt_index ls =
     Option.bind (rposition codex_prompt_line ls)
       (\<lambda>k. if list_ex codex_block_marker_line (drop (k + 1) ls) then None else Some k)"

definition before_current_prompt_marker :: "text \<Rightarrow> text option" where
  "before_current_prompt_marker content =
     (let ls = str_lines content
      in case current_codex_prompt_index ls of
           None \<Rightarrow> Some content
         | Some index \<Rightarrow> slice_to (min (sum_list (map (\<lambda>l. str_len l + 1) (take index ls))) (str_len content)) content)"

definition whole_recent_without_current_prompt_marker :: "text \<Rightarrow> text" where
  "whole_recent_without_current_prompt_marker content =
     (if current_codex_prompt_index (str_lines content) \<noteq> None then [] else content)"

definition current_prompt_block_marker :: "text \<Rightarrow> text option" where
  "current_prompt_block_marker content =
     (let ls = str_lines content
      in Option.bind (current_codex_prompt_index ls) (\<lambda>k. find codex_block_marker_line (rev (take k ls))))"

text \<open>Two levels: a panic, and no such block.\<close>

definition after_current_prompt_block_marker :: "text \<Rightarrow> text option option" where
  "after_current_prompt_block_marker content =
     (let ls = str_lines content
      in case Option.bind (current_codex_prompt_index ls) (\<lambda>k. rposition codex_block_marker_line (take k ls)) of
           None \<Rightarrow> Some None
         | Some block_index \<Rightarrow> map_option Some (slice_from_line_index content ls block_index))"

fun border_loop :: "nat \<Rightarrow> (nat \<times> text) list \<Rightarrow> nat option" where
  "border_loop border_count [] = None"
| "border_loop border_count ((index, l) # rest) =
     (if is_horizontal_rule l
      then (if border_count + 1 = 2 then Some index else border_loop (border_count + 1) rest)
      else border_loop border_count rest)"

definition prompt_box_top_border_index :: "text list \<Rightarrow> nat option" where
  "prompt_box_top_border_index ls = border_loop 0 (rev (enumerate 0 ls))"

definition prompt_box_body :: "text \<Rightarrow> text option option" where
  "prompt_box_body content =
     (let ls = str_lines content
      in case prompt_box_top_border_index ls of
           None \<Rightarrow> Some None
         | Some border \<Rightarrow>
             let start = line_start_offset content ls (border + 1);
                 end_index = (case position is_horizontal_rule (drop (border + 1) ls) of
                   Some relative \<Rightarrow> border + 1 + relative | None \<Rightarrow> length ls);
                 stop = line_start_offset content ls end_index
             in map_option Some (slice (min start (str_len content)) (min stop (str_len content)) content))"

definition above_prompt_box :: "text \<Rightarrow> text option" where
  "above_prompt_box content =
     (let ls = str_lines content
      in case prompt_box_top_border_index ls of
           None \<Rightarrow> Some content
         | Some border \<Rightarrow> slice_to (min (line_start_offset content ls border) (str_len content)) content)"

definition after_last_horizontal_rule :: "text \<Rightarrow> text option" where
  "after_last_horizontal_rule content =
     slice_from (fst (fold (\<lambda>l (last_rule_end, offset).
         let next_offset = offset + str_len l + 1
         in (if is_horizontal_rule l then min next_offset (str_len content) else last_rule_end, next_offset))
       (str_lines content) (0, 0))) content"

definition last_non_empty_line :: "text \<Rightarrow> text" where
  "last_non_empty_line content = unwrap_or (find (\<lambda>l. \<not> blank_line l) (rev (str_lines content))) []"

section \<open>Names of regions\<close>

record detection_input =
  screen :: "text"
  input_osc_title :: "text"
  input_osc_progress :: "text"

definition in_parentheses :: "text \<Rightarrow> text \<Rightarrow> text option" where
  "in_parentheses spec name =
     Option.bind (strip_prefix spec name) (\<lambda>r. Option.bind (strip_prefix r (lit ''('')) (\<lambda>r'. strip_suffix r' (lit '')'')))"

definition region_count :: "text \<Rightarrow> text \<Rightarrow> nat option" where
  "region_count spec name = Option.bind (in_parentheses spec name) parse_usize"

definition MAX_TOP_REGION_LINE_COUNT :: nat where
  "MAX_TOP_REGION_LINE_COUNT = 65535"

definition top_region_count :: "text \<Rightarrow> nat option" where
  "top_region_count spec =
     Option.bind (in_parentheses spec (lit ''top_non_empty_lines'')) (\<lambda>count.
       if starts_with count (lit ''0'') \<or> \<not> list_all (\<lambda>c. 48 \<le> c \<and> c \<le> 57) count then None
       else opt_filter (\<lambda>n. n \<le> MAX_TOP_REGION_LINE_COUNT) (parse_usize count))"

definition counted_region :: "text \<Rightarrow> text \<Rightarrow> text option" where
  "counted_region content spec =
     (case region_count spec (lit ''bottom_lines'') of
        Some count \<Rightarrow> bottom_lines content count
      | None \<Rightarrow>
          (case region_count spec (lit ''bottom_non_empty_lines'') of
             Some count \<Rightarrow> bottom_non_empty_lines content count
           | None \<Rightarrow>
               (case top_region_count spec of
                  Some count \<Rightarrow> top_non_empty_lines content count
                | None \<Rightarrow> Some [])))"

definition region :: "detection_input \<Rightarrow> text \<Rightarrow> text option" where
  "region input spec =
     (let trimmed = trim spec; content = screen input
      in if trimmed = lit ''osc_title'' then Some (input_osc_title input)
         else if trimmed = lit ''osc_progress'' then Some (input_osc_progress input)
         else if trimmed = lit ''whole_recent'' then Some content
         else if trimmed = lit ''after_last_prompt_marker'' then after_last_prompt_marker content
         else if trimmed = lit ''before_current_prompt_marker'' then before_current_prompt_marker content
         else if trimmed = lit ''whole_recent_without_current_prompt_marker''
         then Some (whole_recent_without_current_prompt_marker content)
         else if trimmed = lit ''current_prompt_block_marker''
         then Some (unwrap_or (current_prompt_block_marker content) [])
         else if trimmed = lit ''after_current_prompt_block_marker''
         then map_option (\<lambda>r. unwrap_or r []) (after_current_prompt_block_marker content)
         else if trimmed = lit ''prompt_box_body'' then map_option (\<lambda>r. unwrap_or r []) (prompt_box_body content)
         else if trimmed = lit ''above_prompt_box'' then above_prompt_box content
         else if trimmed = lit ''last_non_empty_above_prompt_box''
         then map_option last_non_empty_line (above_prompt_box content)
         else if trimmed = lit ''after_last_horizontal_rule'' then after_last_horizontal_rule content
         else counted_region content trimmed)"

definition region_names :: "text list" where
  "region_names = map lit [''whole_recent'', ''after_last_prompt_marker'', ''before_current_prompt_marker'',
     ''whole_recent_without_current_prompt_marker'', ''current_prompt_block_marker'',
     ''after_current_prompt_block_marker'', ''prompt_box_body'', ''above_prompt_box'',
     ''last_non_empty_above_prompt_box'', ''after_last_horizontal_rule'', ''osc_title'', ''osc_progress'']"

definition validate_region_name :: "text \<Rightarrow> text + unit" where
  "validate_region_name spec =
     (let trimmed = trim spec
      in if trimmed \<in> set region_names \<or> region_count trimmed (lit ''bottom_lines'') \<noteq> None
           \<or> region_count trimmed (lit ''bottom_non_empty_lines'') \<noteq> None \<or> top_region_count trimmed \<noteq> None
         then Inr () else Inl trimmed)"

section \<open>Regions without offsets\<close>

text \<open>The pieces before and after the last one with a property.\<close>

fun split_last :: "('a \<Rightarrow> bool) \<Rightarrow> 'a list \<Rightarrow> ('a list \<times> 'a \<times> 'a list) option" where
  "split_last p [] = None"
| "split_last p (x # xs) =
     (case split_last p xs of
        Some (before, y, after) \<Rightarrow> Some (x # before, y, after)
      | None \<Rightarrow> if p x then Some ([], x, xs) else None)"

text \<open>As many pieces as it takes to have so many that are not blank, and none after the last of
  them.\<close>

fun keep_non_blank :: "nat \<Rightarrow> text list \<Rightarrow> text list" where
  "keep_non_blank n [] = []"
| "keep_non_blank n (x # xs) =
     (if n = 0 then []
      else if blank_line x then (case keep_non_blank n xs of [] \<Rightarrow> [] | ys \<Rightarrow> x # ys)
      else x # keep_non_blank (n - 1) xs)"

definition current_prompt :: "text list \<Rightarrow> (text list \<times> text \<times> text list) option" where
  "current_prompt ps =
     opt_filter (\<lambda>(_, _, after). \<not> list_ex codex_block_marker_line after) (split_last codex_prompt_line ps)"

definition prompt_box :: "text list \<Rightarrow> (text list \<times> text list) option" where
  "prompt_box ps =
     Option.bind (split_last is_horizontal_rule ps) (\<lambda>(before, _, _).
       map_option (\<lambda>(upper, _, body). (upper, body)) (split_last is_horizontal_rule before))"

definition counted_lines :: "text list \<Rightarrow> text \<Rightarrow> text list" where
  "counted_lines ls spec =
     (case region_count spec (lit ''bottom_lines'') of
        Some n \<Rightarrow> drop (length ls - n) ls
      | None \<Rightarrow>
          (case region_count spec (lit ''bottom_non_empty_lines'') of
             Some n \<Rightarrow> rev (keep_non_blank n (rev ls))
           | None \<Rightarrow> (case top_region_count spec of Some n \<Rightarrow> keep_non_blank n ls | None \<Rightarrow> [])))"

text \<open>The lines of a region of the screen, given the lines of the screen.\<close>

definition region_lines :: "text list \<Rightarrow> text \<Rightarrow> text list" where
  "region_lines ls spec =
     (let trimmed = trim spec
      in if trimmed = lit ''whole_recent'' then ls
         else if trimmed = lit ''after_last_prompt_marker''
         then (case split_last codex_prompt_line ls of None \<Rightarrow> ls | Some (_, _, after) \<Rightarrow> after)
         else if trimmed = lit ''before_current_prompt_marker''
         then (case current_prompt ls of None \<Rightarrow> ls | Some (before, _, _) \<Rightarrow> before)
         else if trimmed = lit ''whole_recent_without_current_prompt_marker''
         then (if current_prompt ls = None then ls else [])
         else if trimmed = lit ''current_prompt_block_marker''
         then (case Option.bind (current_prompt ls) (\<lambda>(before, _, _). split_last codex_block_marker_line before) of
                 None \<Rightarrow> [] | Some (_, marker, _) \<Rightarrow> [marker])
         else if trimmed = lit ''after_current_prompt_block_marker''
         then (case current_prompt ls of
                 None \<Rightarrow> []
               | Some (before, prompt, after) \<Rightarrow>
                   (case split_last codex_block_marker_line before of
                      None \<Rightarrow> [] | Some (_, marker, rest) \<Rightarrow> marker # rest @ prompt # after))
         else if trimmed = lit ''prompt_box_body'' then (case prompt_box ls of None \<Rightarrow> [] | Some (_, body) \<Rightarrow> body)
         else if trimmed = lit ''above_prompt_box'' then (case prompt_box ls of None \<Rightarrow> ls | Some (upper, _) \<Rightarrow> upper)
         else if trimmed = lit ''last_non_empty_above_prompt_box''
         then (case split_last (\<lambda>l. \<not> blank_line l) (case prompt_box ls of None \<Rightarrow> ls | Some (upper, _) \<Rightarrow> upper) of
                 None \<Rightarrow> [] | Some (_, l, _) \<Rightarrow> [l])
         else if trimmed = lit ''after_last_horizontal_rule''
         then (case split_last is_horizontal_rule ls of None \<Rightarrow> ls | Some (_, _, after) \<Rightarrow> after)
         else counted_lines ls trimmed)"

end
