(* ===== verification/Manifest_Lines.thy ===== *)
theory Manifest_Lines
  imports Manifest_Regions
begin

text \<open>
  Without carriage returns the byte offsets of the code are those of the lines, so every region of a
  screen is a run of its lines.
\<close>

section \<open>Pieces of a text\<close>

definition ended :: "text \<Rightarrow> bool" where
  "ended piece \<longleftrightarrow> (\<exists>l. piece = l @ [10] \<and> 10 \<notin> set l)"

fun pieces_ok :: "text list \<Rightarrow> bool" where
  "pieces_ok [] = True"
| "pieces_ok [p] = (ended p \<or> p \<noteq> [] \<and> 10 \<notin> set p)"
| "pieces_ok (p # q # ps) = (ended p \<and> pieces_ok (q # ps))"

lemma pieces_ok_Cons: "pieces_ok (p # ps) \<longleftrightarrow> (if ps = [] then ended p \<or> p \<noteq> [] \<and> 10 \<notin> set p else ended p \<and> pieces_ok ps)"
  by (cases ps) simp_all

lemma concat_split_lines [simp]: "concat (split_lines t) = t"
  by (induction t) (auto split: list.splits)

lemma split_lines_Nil [simp]: "split_lines t = [] \<longleftrightarrow> t = []"
  by (cases t) (auto split: list.splits)

lemma ended_Cons: "c \<noteq> 10 \<Longrightarrow> ended (c # p) \<longleftrightarrow> ended p"
  unfolding ended_def by (auto simp: Cons_eq_append_conv)

lemma split_lines_ok: "pieces_ok (split_lines t)"
proof (induction t)
  case (Cons c cs)
  have e: "ended [10]" by (auto simp: ended_def)
  show ?case
  proof (cases "split_lines cs")
    case Nil
    then show ?thesis using e by auto
  next
    case (Cons l ls)
    have ok: "pieces_ok (l # ls)" using Cons.IH Cons by simp
    show ?thesis using ok Cons e by (auto simp: pieces_ok_Cons ended_Cons split: if_splits)
  qed
qed simp

lemma split_lines_piece: "10 \<notin> set l \<Longrightarrow> split_lines (l @ 10 # r) = (l @ [10]) # split_lines r"
  by (induction l) auto

lemma split_lines_plain: "10 \<notin> set l \<Longrightarrow> l \<noteq> [] \<Longrightarrow> split_lines l = [l]"
proof (induction l)
  case (Cons c l)
  then show ?case by (cases "l = []") auto
qed simp

lemma split_concat: "pieces_ok ps \<Longrightarrow> split_lines (concat ps) = ps"
proof (induction ps)
  case (Cons p ps)
  show ?case
  proof (cases "ended p")
    case True
    then obtain l where "p = l @ [10]" "10 \<notin> set l" by (auto simp: ended_def)
    then show ?thesis using Cons by (auto simp: split_lines_piece pieces_ok_Cons split: if_splits)
  next
    case False
    then show ?thesis using Cons.prems by (auto simp: pieces_ok_Cons split_lines_plain split: if_splits)
  qed
qed simp

lemma pieces_ok_drop: "pieces_ok ps \<Longrightarrow> pieces_ok (drop k ps)"
  by (induction ps arbitrary: k) (auto simp: pieces_ok_Cons drop_Cons split: if_splits nat.split)

lemma pieces_ok_take: "pieces_ok ps \<Longrightarrow> pieces_ok (take k ps)"
  by (induction ps arbitrary: k) (auto simp: pieces_ok_Cons take_Cons split: if_splits nat.split)

section \<open>Offsets\<close>

lemma ends_with_Cons1: "ends_with t [x] \<longleftrightarrow> t \<noteq> [] \<and> last t = x"
  by (cases t rule: rev_cases) (auto simp: ends_with_iff)

lemma line_of_ended: "13 \<notin> set l \<Longrightarrow> line_of (l @ [10]) = l"
  by (cases l rule: rev_cases) (auto simp: line_of_def strip_suffix_def ends_with_Cons1)

lemma line_of_plain: "10 \<notin> set l \<Longrightarrow> line_of l = l"
  by (cases l rule: rev_cases) (auto simp: line_of_def strip_suffix_def ends_with_Cons1)

lemma len_utf8_pos [simp]: "0 < len_utf8 c" "len_utf8 c \<noteq> 0"
  by (simp_all add: len_utf8_def)

lemma byte_len_append [simp]: "str_len (a @ b) = str_len a + str_len b"
  by (simp add: str_len_def)

lemma byte_len_simps [simp]: "str_len [] = 0" "str_len (c # cs) = len_utf8 c + str_len cs"
  by (simp_all add: str_len_def)

lemma split_at_byte_boundary: "split_at_byte (str_len a) (a @ b) = Some (a, b)"
proof (induction a)
  case Nil
  then show ?case by (cases b) simp_all
qed simp

lemma slice_boundary:
  "slice_from (str_len a) (a @ b) = Some b" "slice_to (str_len a) (a @ b) = Some a"
  "slice (str_len a) (str_len (a @ b)) (a @ b @ c) = Some b"
proof -
  show one: "slice_from (str_len a) (a @ b) = Some b" "slice_to (str_len a) (a @ b) = Some a"
    by (simp_all add: slice_from_def slice_to_def split_at_byte_boundary)
  have "slice_to (str_len (a @ b)) ((a @ b) @ c) = Some (a @ b)"
    by (simp only: slice_to_def split_at_byte_boundary) simp
  then show "slice (str_len a) (str_len (a @ b)) (a @ b @ c) = Some b" using one by (simp add: slice_def)
qed

definition line_sum :: "text list \<Rightarrow> nat" where
  "line_sum ls = sum_list (map (\<lambda>l. str_len l + 1) ls)"

lemma line_sum_simps [simp]: "line_sum [] = 0" "line_sum (l # ls) = str_len l + 1 + line_sum ls"
  by (simp_all add: line_sum_def)

lemma line_sum_pieces:
  assumes "pieces_ok ps" "13 \<notin> set (concat ps)"
  shows "min (line_sum (take k (map line_of ps))) (str_len (concat ps)) = str_len (concat (take k ps))"
  using assms
proof (induction ps arbitrary: k)
  case (Cons p ps)
  show ?case
  proof (cases k)
    case (Suc j)
    show ?thesis
    proof (cases "ended p")
      case True
      then obtain l where l: "p = l @ [10]" "10 \<notin> set l" by (auto simp: ended_def)
      have "str_len p = str_len (line_of p) + 1" using l Cons.prems(2) by (simp add: line_of_ended len_utf8_def)
      moreover have "pieces_ok ps" "13 \<notin> set (concat ps)" using Cons.prems by (auto simp: pieces_ok_Cons split: if_splits)
      note Cons.IH [OF this, of j]
      ultimately show ?thesis using Suc by simp
    next
      case False
      then have "ps = []" "10 \<notin> set p" using Cons.prems by (auto simp: pieces_ok_Cons split: if_splits)
      then show ?thesis using Suc by (simp add: line_of_plain)
    qed
  qed simp
qed simp

text \<open>A screen without carriage returns, its pieces, and its slices at lines.\<close>

lemma slices:
  assumes "13 \<notin> set t"
  shows "slice_from_line_index t (str_lines t) k = Some (concat (drop k (split_lines t)))"
    "slice_to (line_start_offset t (str_lines t) k) t = Some (concat (take k (split_lines t)))"
    "line_start_offset t (str_lines t) k = str_len (concat (take k (split_lines t)))"
    "slice_to (min (line_sum (take k (str_lines t))) (str_len t)) t = Some (concat (take k (split_lines t)))"
proof -
  let ?ps = "split_lines t"
  have t: "t = concat (take k ?ps) @ concat (drop k ?ps)" by (simp flip: concat_append)
  have m: "min (line_sum (take k (str_lines t))) (str_len t) = str_len (concat (take k ?ps))"
    using line_sum_pieces [OF split_lines_ok, of t k] assms by (simp add: str_lines_def)
  have "take (min k (length (str_lines t))) (str_lines t) = take k (str_lines t)" by (simp add: min_def)
  then show off: "line_start_offset t (str_lines t) k = str_len (concat (take k ?ps))"
    using m by (simp add: line_start_offset_def line_sum_def)
  have "str_len (concat (take k ?ps)) \<le> str_len t" by (metis byte_len_append le_add1 t)
  then have "min (str_len (concat (take k ?ps))) (str_len t) = str_len (concat (take k ?ps))" by simp
  then show "slice_from_line_index t (str_lines t) k = Some (concat (drop k ?ps))"
    unfolding slice_from_line_index_def off using slice_boundary(1) [of "concat (take k ?ps)" "concat (drop k ?ps)"] t by simp
  show "slice_to (line_start_offset t (str_lines t) k) t = Some (concat (take k ?ps))"
    unfolding off using slice_boundary(2) [of "concat (take k ?ps)" "concat (drop k ?ps)"] t by simp
  then show "slice_to (min (line_sum (take k (str_lines t))) (str_len t)) t = Some (concat (take k ?ps))"
    unfolding m off .
qed

text \<open>A run of pieces, as a part of the screen.\<close>

definition run_of :: "text \<Rightarrow> text list \<Rightarrow> text \<Rightarrow> bool" where
  "run_of t ls r \<longleftrightarrow> str_lines r = ls \<and> (\<exists>a b. t = a @ r @ b)"

lemma lines_drop_take: "str_lines (concat (drop j (take k (split_lines t)))) = drop j (take k (str_lines t))"
  unfolding str_lines_def
  by (simp add: split_concat pieces_ok_drop pieces_ok_take split_lines_ok drop_map take_map)

lemma run_between: "run_of t (drop j (take k (str_lines t))) (concat (drop j (take k (split_lines t))))"
proof -
  let ?ps = "split_lines t"
  have "t = concat (take k ?ps) @ concat (drop k ?ps)" by (simp flip: concat_append)
  also have "take k ?ps = take j (take k ?ps) @ drop j (take k ?ps)" by (rule append_take_drop_id [symmetric])
  finally have "t = concat (take j (take k ?ps)) @ concat (drop j (take k ?ps)) @ concat (drop k ?ps)"
    by (metis append.assoc concat_append)
  then show ?thesis unfolding run_of_def lines_drop_take by blast
qed

lemma runs:
  "run_of t (drop k (str_lines t)) (concat (drop k (split_lines t)))"
  "run_of t (take k (str_lines t)) (concat (take k (split_lines t)))"
  "run_of t (str_lines t) t" "run_of t [] []"
  using run_between [of t k "length (split_lines t)"] run_between [of t 0 k]
  by (simp_all add: str_lines_def run_of_def) (metis append_Nil append_Nil2)+

lemma run_line:
  assumes "l \<in> set (str_lines t)" "l \<noteq> []" "13 \<notin> set t"
  shows "run_of t [l] l"
proof -
  obtain p where p: "p \<in> set (split_lines t)" "l = line_of p" using assms(1) by (auto simp: str_lines_def)
  obtain xs ys where s: "split_lines t = xs @ p # ys" using p(1) by (auto dest: split_list)
  have t: "t = concat xs @ p @ concat ys" using arg_cong [OF s, of concat] by simp
  have "pieces_ok (p # ys)" using pieces_ok_drop [OF split_lines_ok, of "length xs" t] s by simp
  then have "ended p \<or> 10 \<notin> set p" by (auto simp: pieces_ok_Cons split: if_splits)
  then obtain r where r: "p = l @ r" "10 \<notin> set l"
  proof
    assume "ended p"
    then obtain k where "p = k @ [10]" "10 \<notin> set k" by (auto simp: ended_def)
    moreover have "13 \<notin> set p" using assms(3) t by (metis Un_iff set_append)
    ultimately show thesis using that p(2) by (simp add: line_of_ended)
  qed (use that p(2) in \<open>simp add: line_of_plain\<close>)
  then have "str_lines l = [l]" using assms(2) by (simp add: str_lines_def split_lines_plain line_of_plain)
  moreover have "\<exists>a b. t = a @ l @ b" using t r(1) by (metis append.assoc)
  ultimately show ?thesis by (simp add: run_of_def)
qed

end
