(* ===== verification/Manifest_Whole_Lines.thy ===== *)
theory Manifest_Whole_Lines
  imports Manifest_Lines
begin

text \<open>
  Each region computed with offsets is the region of the lines.
\<close>

section \<open>The last of a kind\<close>

lemma split_last_None: "split_last p xs = None \<longleftrightarrow> (\<forall>x \<in> set xs. \<not> p x)"
  by (induction xs) (auto split: option.splits)

lemma split_last_SomeD:
  "split_last p xs = Some (b, y, a) \<Longrightarrow> xs = b @ y # a \<and> p y \<and> (\<forall>x \<in> set a. \<not> p x)"
  by (induction xs arbitrary: b) (auto simp: split_last_None split: option.splits if_splits)

lemma split_last_snoc:
  "split_last p (xs @ [x]) =
     (if p x then Some (xs, x, []) else map_option (\<lambda>(b, y, a). (b, y, a @ [x])) (split_last p xs))"
  by (induction xs) (auto split: option.splits)

lemma position_rev_snoc: "rposition p (xs @ [x]) = (if p x then Some (length xs) else rposition p xs)"
proof (cases "p x")
  case False
  have "position p (x # rev xs) = map_option Suc (position p (rev xs))" using False by (simp add: position_def)
  moreover have "list_ex p ys \<Longrightarrow> length (takeWhile (\<lambda>x. \<not> p x) ys) < length ys" for ys by (induction ys) auto
  from this [of "rev xs"] have "position p (rev xs) = Some k \<Longrightarrow> k < length xs" for k
    by (auto simp: position_def split: if_splits)
  ultimately show ?thesis using False by (auto simp: rposition_def option.map_comp intro: option.map_cong0)
qed (simp add: rposition_def position_def)

lemma rposition_Nil [simp]: "rposition p [] = None"
  by (simp add: rposition_def position_def)

lemma split_last_rposition:
  "split_last p xs = map_option (\<lambda>k. (take k xs, xs ! k, drop (Suc k) xs)) (rposition p xs)"
  "rposition p xs = Some k \<Longrightarrow> k < length xs"
proof -
  have "split_last p xs = map_option (\<lambda>k. (take k xs, xs ! k, drop (Suc k) xs)) (rposition p xs)
      \<and> (\<forall>k. rposition p xs = Some k \<longrightarrow> k < length xs)"
  proof (induction xs rule: rev_induct)
    case (snoc x xs)
    show ?case
    proof (cases "p x")
      case False
      then show ?thesis using snoc by (cases "rposition p xs") (auto simp: split_last_snoc position_rev_snoc nth_append)
    qed (simp add: split_last_snoc position_rev_snoc)
  qed simp
  then show "split_last p xs = map_option (\<lambda>k. (take k xs, xs ! k, drop (Suc k) xs)) (rposition p xs)"
    "rposition p xs = Some k \<Longrightarrow> k < length xs" by blast+
qed

lemma find_rev_split_last: "find p (rev xs) = map_option (\<lambda>(b, y, a). y) (split_last p xs)"
  by (induction xs rule: rev_induct) (auto simp: split_last_snoc option.map_comp comp_def split_beta intro: option.map_cong0)

section \<open>Blank lines\<close>

lemma non_empty_indices_Cons:
  "non_empty_indices (x # xs) = (if blank_line x then [] else [0]) @ map Suc (non_empty_indices xs)"
proof -
  have "[0..<length (x # xs)] = 0 # map Suc [0..<length xs]" by (simp add: map_Suc_upt upt_conv_Cons del: upt_Suc)
  then show ?thesis by (simp add: non_empty_indices_def filter_map comp_def)
qed

lemma keep_non_blank_picked:
  "keep_non_blank n xs = (let picked = take n (non_empty_indices xs) in if picked = [] then [] else take (Suc (last picked)) xs)"
proof (induction xs arbitrary: n)
  case (Cons x xs)
  show ?case
  proof (cases "n = 0 \<or> \<not> blank_line x")
    case True
    then show ?thesis
      using Cons.IH [of "n - 1"] by (cases n) (auto simp: non_empty_indices_Cons take_map last_map Let_def)
  next
    case False
    let ?picked = "take n (non_empty_indices xs)"
    have "keep_non_blank n (x # xs) = (case keep_non_blank n xs of [] \<Rightarrow> [] | ys \<Rightarrow> x # ys)" using False by simp
    moreover have "xs \<noteq> []" if "?picked \<noteq> []" using that by (auto simp: non_empty_indices_def)
    ultimately show ?thesis
      using False Cons.IH [of n] by (auto simp: non_empty_indices_Cons take_map last_map Let_def split: list.split)
  qed
qed (simp add: non_empty_indices_def)

lemma non_empty_indices_rev:
  "rev (non_empty_indices xs) = map (\<lambda>k. length xs - Suc k) (non_empty_indices (rev xs))"
proof (induction xs rule: rev_induct)
  case (snoc x xs)
  have nth: "(xs @ [x]) ! k = xs ! k" if "k < length xs" for k using that by (simp add: nth_append)
  have "non_empty_indices (xs @ [x]) = non_empty_indices xs @ (if blank_line x then [] else [length xs])"
    using nth by (auto simp: non_empty_indices_def intro!: filter_cong)
  then show ?case using snoc by (auto simp: non_empty_indices_Cons)
qed (simp add: non_empty_indices_def)

lemma picked_below: "k \<in> set (take n (non_empty_indices xs)) \<Longrightarrow> k < length xs"
  by (auto simp: non_empty_indices_def dest: in_set_takeD)

lemma bottom_picked:
  "rev (keep_non_blank n (rev xs)) =
     (let picked = take n (rev (non_empty_indices xs)) in if picked = [] then [] else drop (last picked) xs)"
proof -
  let ?later = "take n (non_empty_indices (rev xs))"
  show ?thesis
  proof (cases "?later = []")
    case True
    then show ?thesis by (simp add: keep_non_blank_picked non_empty_indices_rev take_map Let_def)
  next
    case False
    then have "last ?later < length xs" using picked_below [of "last ?later" n "rev xs"] by simp
    then have "rev (take (Suc (last ?later)) (rev xs)) = drop (length xs - Suc (last ?later)) xs"
      by (simp add: take_rev)
    then show ?thesis using False by (simp add: keep_non_blank_picked non_empty_indices_rev take_map last_map Let_def)
  qed
qed

section \<open>The regions\<close>

text \<open>A region that is computed without a panic, and is a run of these lines.\<close>

definition whole :: "text \<Rightarrow> text list \<Rightarrow> text option \<Rightarrow> bool" where
  "whole t ls r \<longleftrightarrow> (\<exists>x. r = Some x \<and> run_of t ls x)"

lemma whole_Some: "whole t ls (Some x) \<longleftrightarrow> run_of t ls x"
  by (simp add: whole_def)

lemma whole_slices:
  assumes plain: "13 \<notin> set t"
  shows "whole t (drop k (str_lines t)) (slice_from_line_index t (str_lines t) k)"
  "whole t (take k (str_lines t)) (slice_to (line_start_offset t (str_lines t) k) t)"
  "whole t (take k (str_lines t)) (slice_to (min (line_sum (take k (str_lines t))) (str_len t)) t)"
  by (simp_all add: slices(1,2,4) [OF plain] whole_Some runs)

lemma whole_bottom_lines:
  assumes plain: "13 \<notin> set t"
  shows "whole t (drop (length (str_lines t) - n) (str_lines t)) (bottom_lines t n)"
  unfolding bottom_lines_def Let_def by (rule whole_slices(1) [OF plain])

lemma whole_bottom_non_empty:
  assumes plain: "13 \<notin> set t"
  shows "whole t (rev (keep_non_blank n (rev (str_lines t)))) (bottom_non_empty_lines t n)"
  unfolding bottom_picked bottom_non_empty_lines_def Let_def
  using whole_slices(1) [OF plain] by (simp add: whole_Some runs)

lemma whole_top_non_empty:
  assumes plain: "13 \<notin> set t"
  shows "whole t (keep_non_blank n (str_lines t)) (top_non_empty_lines t n)"
  unfolding keep_non_blank_picked top_non_empty_lines_def Let_def
  using whole_slices(2) [OF plain] by (simp add: whole_Some runs)

lemma whole_after_last_prompt:
  assumes plain: "13 \<notin> set t"
  shows "whole t (case split_last codex_prompt_line (str_lines t) of None \<Rightarrow> str_lines t | Some (_, _, after) \<Rightarrow> after)
     (after_last_prompt_marker t)"
  using whole_slices(1) [OF plain] by (auto simp: after_last_prompt_marker_def split_last_rposition(1) whole_Some runs split: option.split)

lemma current_prompt_index:
  "current_prompt ls = map_option (\<lambda>k. (take k ls, ls ! k, drop (Suc k) ls)) (current_codex_prompt_index ls)"
  by (auto simp: current_prompt_def current_codex_prompt_index_def split_last_rposition(1) opt_filter_def split: option.split)

lemma whole_before_current_prompt:
  assumes plain: "13 \<notin> set t"
  shows "whole t (case current_prompt (str_lines t) of None \<Rightarrow> str_lines t | Some (before, _, _) \<Rightarrow> before)
     (before_current_prompt_marker t)"
  using whole_slices(3) [OF plain]
  by (auto simp: before_current_prompt_marker_def current_prompt_index whole_Some runs line_sum_def split: option.split)

lemma whole_without_current_prompt:
  "whole t (if current_prompt (str_lines t) = None then str_lines t else [])
     (Some (whole_recent_without_current_prompt_marker t))"
  by (simp add: whole_recent_without_current_prompt_marker_def current_prompt_index whole_Some runs)

lemma marker_not_Nil: "codex_block_marker_line l \<Longrightarrow> l \<noteq> []"
  by (auto simp: codex_block_marker_line_def starts_with_def)

lemma whole_block_marker:
  assumes plain: "13 \<notin> set t"
  shows "whole t (case Option.bind (current_prompt (str_lines t)) (\<lambda>(before, _, _). split_last codex_block_marker_line before) of
       None \<Rightarrow> [] | Some (_, marker, _) \<Rightarrow> [marker])
     (Some (unwrap_or (current_prompt_block_marker t) []))"
proof (cases "current_codex_prompt_index (str_lines t)")
  case None
  then show ?thesis by (simp add: current_prompt_index current_prompt_block_marker_def Let_def whole_Some runs)
next
  case (Some k)
  show ?thesis
  proof (cases "split_last codex_block_marker_line (take k (str_lines t))")
    case None
    then show ?thesis using Some
      by (simp add: current_prompt_index current_prompt_block_marker_def Let_def whole_Some runs find_rev_split_last)
  next
    case (Some bya)
    obtain b y a where s: "split_last codex_block_marker_line (take k (str_lines t)) = Some (b, y, a)"
      using Some by (cases bya) auto
    note d = split_last_SomeD [OF s]
    have "y \<in> set (take k (str_lines t))" using arg_cong [OF conjunct1 [OF d], of set] by simp
    then have "y \<in> set (str_lines t)" by (rule in_set_takeD)
    moreover have "y \<noteq> []" using d marker_not_Nil by blast
    ultimately have "run_of t [y] y" using run_line plain by blast
    then show ?thesis using s \<open>current_codex_prompt_index (str_lines t) = Some k\<close>
      by (simp add: current_prompt_index current_prompt_block_marker_def Let_def whole_Some find_rev_split_last)
  qed
qed

lemma whole_after_block:
  assumes plain: "13 \<notin> set t"
  shows "whole t (case current_prompt (str_lines t) of None \<Rightarrow> []
       | Some (before, prompt, after) \<Rightarrow>
           (case split_last codex_block_marker_line before of
              None \<Rightarrow> [] | Some (_, marker, rest) \<Rightarrow> marker # rest @ prompt # after))
     (map_option (\<lambda>r. unwrap_or r []) (after_current_prompt_block_marker t))"
proof (cases "current_codex_prompt_index (str_lines t)")
  case None
  then show ?thesis by (simp add: current_prompt_index after_current_prompt_block_marker_def Let_def whole_Some runs)
next
  case k: (Some k)
  then have kl: "k < length (str_lines t)"
    by (auto simp: current_codex_prompt_index_def bind_eq_Some_conv dest: split_last_rposition(2) split: if_splits)
  show ?thesis
  proof (cases "rposition codex_block_marker_line (take k (str_lines t))")
    case None
    then show ?thesis using k
      by (simp add: current_prompt_index after_current_prompt_block_marker_def Let_def whole_Some runs split_last_rposition(1))
  next
    case (Some j)
    then have j: "j < k" using split_last_rposition(2) by fastforce
    have "drop j (str_lines t) = drop j (take k (str_lines t)) @ drop k (str_lines t)"
      using j by (metis append_take_drop_id drop_append drop_drop length_take less_imp_le_nat min.absorb4 diff_is_0_eq' drop0 kl)
    moreover have "drop j (take k (str_lines t)) = take k (str_lines t) ! j # drop (Suc j) (take k (str_lines t))"
      by (rule Cons_nth_drop_Suc [symmetric]) (use j kl in simp)
    moreover have "drop k (str_lines t) = str_lines t ! k # drop (Suc k) (str_lines t)"
      by (rule Cons_nth_drop_Suc [symmetric]) (rule kl)
    ultimately have "drop j (str_lines t) = take k (str_lines t) ! j # drop (Suc j) (take k (str_lines t)) @ str_lines t ! k # drop (Suc k) (str_lines t)"
      by (simp only: append_Cons)
    then have "whole t (take k (str_lines t) ! j # drop (Suc j) (take k (str_lines t)) @ str_lines t ! k # drop (Suc k) (str_lines t))
        (slice_from_line_index t (str_lines t) j)"
      using whole_slices(1) [OF plain, of j] by (simp only:)
    then show ?thesis using k Some
      by (simp add: current_prompt_index after_current_prompt_block_marker_def Let_def split_last_rposition(1) option.map_comp comp_def option.map_ident)
  qed
qed

text \<open>The loop that looks for the second rule from below.\<close>

lemma border_loop_one: "border_loop 1 (rev (enumerate 0 ls)) = rposition is_horizontal_rule ls"
  by (induction ls rule: rev_induct) (simp_all add: enumerate_append_eq position_rev_snoc)

lemma border_index:
  "prompt_box_top_border_index ls =
     Option.bind (rposition is_horizontal_rule ls) (\<lambda>k. rposition is_horizontal_rule (take k ls))"
proof -
  have "border_loop 0 (rev (enumerate 0 ls)) =
      Option.bind (rposition is_horizontal_rule ls) (\<lambda>k. rposition is_horizontal_rule (take k ls))"
  proof (induction ls rule: rev_induct)
    case (snoc l ls)
    have "k < length ls" if "rposition is_horizontal_rule ls = Some k" for k using split_last_rposition(2) [OF that] .
    then show ?case using snoc border_loop_one [of ls]
      by (cases "rposition is_horizontal_rule ls") (auto simp: enumerate_append_eq position_rev_snoc)
  qed simp
  then show ?thesis by (simp add: prompt_box_top_border_index_def)
qed

lemma prompt_box_index:
  assumes "prompt_box_top_border_index ls = Some j"
  obtains k where "j < k" "k < length ls" "prompt_box ls = Some (take j ls, drop (Suc j) (take k ls))"
    "position is_horizontal_rule (drop (Suc j) ls) = Some (k - Suc j)"
proof -
  obtain k where k: "rposition is_horizontal_rule ls = Some k" "rposition is_horizontal_rule (take k ls) = Some j"
    using assms by (auto simp: border_index bind_eq_Some_conv)
  note b = split_last_rposition(2) [OF k(1)] split_last_rposition(2) [OF k(2)]
  have one: "split_last is_horizontal_rule ls = Some (take k ls, ls ! k, drop (Suc k) ls)"
    using k(1) by (simp add: split_last_rposition(1))
  have two: "split_last is_horizontal_rule (take k ls) = Some (take j ls, take k ls ! j, drop (Suc j) (take k ls))"
    using k(2) b by (simp add: split_last_rposition(1))
  have "\<forall>l \<in> set (drop (Suc j) (take k ls)). \<not> is_horizontal_rule l" using split_last_SomeD [OF two] by blast
  moreover have "is_horizontal_rule (ls ! k)" using split_last_SomeD [OF one] by blast
  moreover have "drop (Suc j) ls = drop (Suc j) (take k ls) @ ls ! k # drop (Suc k) ls"
  proof -
    have "drop (Suc j) ls = drop (Suc j) (take k ls @ ls ! k # drop (Suc k) ls)"
      using b(1) by (simp only: Cons_nth_drop_Suc append_take_drop_id)
    then show ?thesis using b by simp
  qed
  moreover have "length (drop (Suc j) (take k ls)) = k - Suc j" using b by simp
  ultimately have "position is_horizontal_rule (drop (Suc j) ls) = Some (k - Suc j)"
    by (simp add: position_def takeWhile_append)
  then show thesis using that [of k] b one two by (simp add: prompt_box_def)
qed

lemma prompt_box_none: "prompt_box_top_border_index ls = None \<longleftrightarrow> prompt_box ls = None"
  by (cases "rposition is_horizontal_rule ls") (auto simp: border_index prompt_box_def split_last_rposition(1))

lemma whole_prompt_box:
  assumes plain: "13 \<notin> set t"
  shows "whole t (case prompt_box (str_lines t) of None \<Rightarrow> [] | Some (_, body) \<Rightarrow> body)
      (map_option (\<lambda>r. unwrap_or r []) (prompt_box_body t))"
    "whole t (case prompt_box (str_lines t) of None \<Rightarrow> str_lines t | Some (upper, _) \<Rightarrow> upper) (above_prompt_box t)"
proof -
  let ?ls = "str_lines t" and ?ps = "split_lines t"
  have "whole t (case prompt_box ?ls of None \<Rightarrow> [] | Some (_, body) \<Rightarrow> body)
      (map_option (\<lambda>r. unwrap_or r []) (prompt_box_body t))
    \<and> whole t (case prompt_box ?ls of None \<Rightarrow> ?ls | Some (upper, _) \<Rightarrow> upper) (above_prompt_box t)"
  proof (cases "prompt_box_top_border_index ?ls")
    case None
    then show ?thesis using prompt_box_none [of ?ls]
      by (simp add: prompt_box_body_def above_prompt_box_def Let_def whole_Some runs)
  next
    case (Some j)
    obtain k where k: "j < k" "k < length ?ls" "prompt_box ?ls = Some (take j ?ls, drop (Suc j) (take k ?ls))"
      "position is_horizontal_rule (drop (Suc j) ?ls) = Some (k - Suc j)"
      by (rule prompt_box_index [OF Some])
    have cut: "take (Suc j) ?ps @ drop (Suc j) (take k ?ps) = take k ?ps"
      using append_take_drop_id [of "Suc j" "take k ?ps"] k(1) by (simp add: min_def)
    then have t: "t = concat (take (Suc j) ?ps) @ concat (drop (Suc j) (take k ?ps)) @ concat (drop k ?ps)"
      by (metis append.assoc append_take_drop_id concat_append concat_split_lines)
    have off: "line_start_offset t ?ls (Suc j) = str_len (concat (take (Suc j) ?ps))"
      "line_start_offset t ?ls k = str_len (concat (take (Suc j) ?ps) @ concat (drop (Suc j) (take k ?ps)))"
      using cut by (simp_all add: slices(3) [OF plain] flip: concat_append)
    have le: "line_start_offset t ls n \<le> str_len t" for ls n by (simp add: line_start_offset_def)
    have "slice (line_start_offset t ?ls (Suc j)) (line_start_offset t ?ls k) t = Some (concat (drop (Suc j) (take k ?ps)))"
      unfolding off using slice_boundary(3) t by metis
    then have "prompt_box_body t = Some (Some (concat (drop (Suc j) (take k ?ps))))"
      using Some k(1,4) le by (simp add: prompt_box_body_def Let_def min_def)
    moreover have "above_prompt_box t = slice_to (line_start_offset t ?ls j) t"
      using Some le by (simp add: above_prompt_box_def Let_def min_def)
    ultimately show ?thesis
      using k(3) whole_slices(2) [OF plain, of j] by (simp add: whole_Some run_between)
  qed
  then show "whole t (case prompt_box ?ls of None \<Rightarrow> [] | Some (_, body) \<Rightarrow> body)
      (map_option (\<lambda>r. unwrap_or r []) (prompt_box_body t))"
    "whole t (case prompt_box ?ls of None \<Rightarrow> ?ls | Some (upper, _) \<Rightarrow> upper) (above_prompt_box t)" by blast+
qed

text \<open>The loop that remembers where the last rule ended.\<close>

lemma rule_end_fold:
  "fold (\<lambda>l (last_rule_end, offset).
       let next_offset = offset + str_len l + 1
       in (if is_horizontal_rule l then min next_offset n else last_rule_end, next_offset)) ls (0, 0) =
     (case rposition is_horizontal_rule ls of None \<Rightarrow> 0 | Some k \<Rightarrow> min (line_sum (take (Suc k) ls)) n, line_sum ls)"
proof (induction ls rule: rev_induct)
  case (snoc l ls)
  have sum: "line_sum (ls @ [l]) = line_sum ls + str_len l + 1" by (simp add: line_sum_def)
  have "take (Suc k) (ls @ [l]) = take (Suc k) ls" if "rposition is_horizontal_rule ls = Some k" for k
    using split_last_rposition(2) [OF that] by simp
  then show ?case using snoc sum by (auto simp: position_rev_snoc Let_def split: option.split)
qed simp

lemma whole_after_last_rule:
  assumes plain: "13 \<notin> set t"
  shows "whole t (case split_last is_horizontal_rule (str_lines t) of None \<Rightarrow> str_lines t | Some (_, _, after) \<Rightarrow> after)
      (after_last_horizontal_rule t)"
proof (cases "rposition is_horizontal_rule (str_lines t)")
  case None
  have "slice_from 0 t = Some t" using slice_boundary(1) [of "[]" t] by simp
  then show ?thesis using None unfolding after_last_horizontal_rule_def rule_end_fold
    by (simp add: split_last_rposition(1) whole_Some runs)
next
  case (Some k)
  let ?ps = "split_lines t"
  have t: "t = concat (take (Suc k) ?ps) @ concat (drop (Suc k) ?ps)" by (simp flip: concat_append)
  have "min (line_sum (take (Suc k) (str_lines t))) (str_len t) = str_len (concat (take (Suc k) ?ps))"
    using line_sum_pieces [OF split_lines_ok, of t "Suc k"] plain by (simp add: str_lines_def)
  then have "after_last_horizontal_rule t = Some (concat (drop (Suc k) ?ps))"
    using Some slice_boundary(1) [of "concat (take (Suc k) ?ps)" "concat (drop (Suc k) ?ps)"] t
    unfolding after_last_horizontal_rule_def rule_end_fold by simp
  then show ?thesis using Some by (simp add: split_last_rposition(1) whole_Some runs)
qed

lemma whole_last_non_empty:
  assumes "whole t ls r" "13 \<notin> set t"
  shows "whole t (case split_last (\<lambda>l. \<not> blank_line l) ls of None \<Rightarrow> [] | Some (_, l, _) \<Rightarrow> [l])
      (map_option last_non_empty_line r)"
proof -
  obtain x a b where x: "r = Some x" "str_lines x = ls" "t = a @ x @ b" using assms(1) by (auto simp: whole_def run_of_def)
  show ?thesis
  proof (cases "split_last (\<lambda>l. \<not> blank_line l) ls")
    case None
    then show ?thesis using x by (simp add: last_non_empty_line_def find_rev_split_last whole_Some runs)
  next
    case (Some bya)
    obtain c y d where s: "split_last (\<lambda>l. \<not> blank_line l) ls = Some (c, y, d)" using Some by (cases bya) auto
    have y: "y \<in> set (str_lines x)" "\<not> blank_line y" using split_last_SomeD [OF s] x(2) by auto
    have "trim [] = []" by (simp add: trim_def trim_matches_def trim_start_matches_def trim_end_matches_def)
    then have "y \<noteq> []" using y(2) by (auto simp: blank_line_def)
    moreover have "13 \<notin> set x" using assms(2) x(3) by auto
    ultimately have "run_of x [y] y" using run_line [OF y(1)] by blast
    then have "run_of t [y] y" using x(3) unfolding run_of_def by (metis append.assoc)
    then show ?thesis using s x by (simp add: last_non_empty_line_def find_rev_split_last whole_Some)
  qed
qed

lemma whole_counted:
  assumes "13 \<notin> set t"
  shows "whole t (counted_lines (str_lines t) spec) (counted_region t spec)"
  using whole_bottom_lines [OF assms] whole_bottom_non_empty [OF assms] whole_top_non_empty [OF assms]
  by (auto simp: counted_lines_def counted_region_def whole_Some runs split: option.split)

text \<open>All regions of the screen.\<close>

lemma whole_if:
  "(c \<Longrightarrow> whole t a x) \<Longrightarrow> (\<not> c \<Longrightarrow> whole t b y) \<Longrightarrow> whole t (if c then a else b) (if c then x else y)"
  by simp

lemma region_whole:
  assumes "13 \<notin> set (screen input)" "trim spec \<noteq> lit ''osc_title''" "trim spec \<noteq> lit ''osc_progress''"
  shows "whole (screen input) (region_lines (str_lines (screen input)) spec) (region input spec)"
  unfolding region_def region_lines_def Let_def if_not_P [OF assms(2)] if_not_P [OF assms(3)]
  by (intro whole_if whole_Some [THEN iffD2, OF runs(3)] whole_after_last_prompt whole_before_current_prompt
      whole_without_current_prompt whole_block_marker whole_after_block whole_prompt_box whole_last_non_empty
      whole_after_last_rule whole_counted assms(1))

end
