(* ===== verification/Manifest_Rules.thy ===== *)
theory Manifest_Rules
  imports Manifest_Regions Screen_Publish
begin

text \<open>
  The rules of the manifests, \<open>src/detect/manifest.rs\<close>: gates, their compilation, and the evaluation
  of a loaded manifest on what the terminal shows. The crate \<open>regex\<close> is the parameter \<open>rx\<close>, which
  gives an error or a matcher, and \<open>lower\<close> is \<open>str::to_lowercase\<close>; nothing is assumed of either. An
  outer \<open>None\<close> is the panic of a region. What the update check stored is the parameter \<open>status\<close>.
\<close>

section \<open>Manifests\<close>

datatype manifest_state = MIdle | MWorking | MBlocked | MUnknown

fun agent_state_from :: "manifest_state \<Rightarrow> agent_state" where
  "agent_state_from MIdle = Idle"
| "agent_state_from MWorking = Working"
| "agent_state_from MBlocked = Blocked"
| "agent_state_from MUnknown = Unknown"

datatype manifest_gate =
  Gate (gate_all: "manifest_gate list") (gate_any: "manifest_gate list") (gate_not: "manifest_gate list")
    (gate_contains: "text list") (gate_regex: "text list") (gate_line_regex: "text list")

record manifest_rule =
  rule_id :: "text"
  rule_state :: "manifest_state option"
  priority :: int
  rule_region :: "text"
  rule_visible_idle :: bool
  rule_visible_blocker :: bool
  rule_visible_working :: bool
  rule_skip_state_update :: bool
  rule_gate :: manifest_gate

record agent_manifest =
  manifest_id :: "text"
  manifest_version :: "text option"
  min_engine_version :: "u32 option"
  manifest_aliases :: "text list"
  manifest_rules :: "manifest_rule list"

type_synonym matcher = "text \<Rightarrow> bool"

datatype compiled_gate =
  CompiledGate "compiled_gate list" "compiled_gate list" "compiled_gate list" "text list" "matcher list" "matcher list"

datatype manifest_source = Bundled | Remote "text" "text" | Override "text"

record loaded_manifest =
  lm_manifest :: agent_manifest
  lm_compiled_rules :: "compiled_gate list"
  lm_source :: manifest_source
  lm_warning :: "text option"
  lm_cached_remote_version :: "text option"
  lm_override_shadowing :: bool

section \<open>Compilation\<close>

text \<open>\<open>?\<close> and \<open>collect\<close> into a \<open>Result\<close>: the first error is the result.\<close>

definition and_then :: "'e + 'a \<Rightarrow> ('a \<Rightarrow> 'e + 'b) \<Rightarrow> 'e + 'b" where
  "and_then r f = (case r of Inl err \<Rightarrow> Inl err | Inr x \<Rightarrow> f x)"

fun collect_results :: "('e + 'a) list \<Rightarrow> 'e + 'a list" where
  "collect_results [] = Inr []"
| "collect_results (r # rs) = and_then r (\<lambda>x. and_then (collect_results rs) (\<lambda>xs. Inr (x # xs)))"

type_synonym regex_crate = "text \<Rightarrow> text + matcher"

fun compile_gate :: "regex_crate \<Rightarrow> (text \<Rightarrow> text) \<Rightarrow> manifest_gate \<Rightarrow> text + compiled_gate" where
  "compile_gate rx lower (Gate gall gany gnot needles patterns line_patterns) =
     and_then (collect_results (map (compile_gate rx lower) gall)) (\<lambda>a.
     and_then (collect_results (map (compile_gate rx lower) gany)) (\<lambda>b.
     and_then (collect_results (map (compile_gate rx lower) gnot)) (\<lambda>n.
     and_then (collect_results (map rx patterns)) (\<lambda>r.
     and_then (collect_results (map rx line_patterns)) (\<lambda>l.
       Inr (CompiledGate a b n (map lower needles) r l))))))"

text \<open>The message names the rule.\<close>

definition compile_manifest :: "regex_crate \<Rightarrow> (text \<Rightarrow> text) \<Rightarrow> agent_manifest \<Rightarrow> (text \<times> text) + compiled_gate list" where
  "compile_manifest rx lower m =
     collect_results (map (\<lambda>r. case compile_gate rx lower (rule_gate r) of
         Inl err \<Rightarrow> Inl (rule_id r, err) | Inr g \<Rightarrow> Inr g) (manifest_rules m))"

section \<open>Matching\<close>

fun contains_text :: "text \<Rightarrow> text \<Rightarrow> bool" where
  "contains_text [] needle = (needle = [])"
| "contains_text (c # cs) needle = (starts_with (c # cs) needle \<or> contains_text cs needle)"

fun compiled_gate_matches :: "compiled_gate \<Rightarrow> text \<Rightarrow> text \<Rightarrow> bool" where
  "compiled_gate_matches (CompiledGate gall gany gnot needles patterns line_patterns) txt lower_text \<longleftrightarrow>
     list_all (contains_text lower_text) needles
     \<and> list_all (\<lambda>r. r txt) patterns
     \<and> list_all (\<lambda>r. list_ex r (str_lines txt)) line_patterns
     \<and> list_all (\<lambda>g. compiled_gate_matches g txt lower_text) gall
     \<and> (gany = [] \<or> list_ex (\<lambda>g. compiled_gate_matches g txt lower_text) gany)
     \<and> \<not> list_ex (\<lambda>g. compiled_gate_matches g txt lower_text) gnot"

definition compiled_rule_matches :: "(text \<Rightarrow> text) \<Rightarrow> compiled_gate \<Rightarrow> text \<Rightarrow> bool" where
  "compiled_rule_matches lower g txt = compiled_gate_matches g txt (lower txt)"

section \<open>Evaluation\<close>

record rule_evidence =
  ev_contains :: "text list"
  ev_regex :: "text list"
  ev_line_regex :: "text list"
  all_count :: nat
  any_count :: nat
  not_count :: nat
  region_bytes :: nat
  region_preview :: "text"

record evaluated_rule =
  er_id :: "text"
  er_priority :: int
  er_region :: "text"
  er_evidence :: rule_evidence
  er_state :: agent_state
  er_matched :: bool

record matched_rule =
  mr_id :: "text"
  mr_priority :: int
  mr_region :: "text"
  mr_state :: agent_state

record detection_explain =
  ex_agent :: "text option"
  ex_state :: agent_state
  ex_source :: "manifest_source option"
  ex_matched_rule :: "matched_rule option"
  ex_screen_detection_skipped :: bool
  ex_visible_idle :: bool
  ex_visible_blocker :: bool
  ex_visible_working :: bool
  ex_skip_state_update :: bool
  ex_skipped_update_reason :: "text option"
  ex_fallback_reason :: "text option"
  ex_evaluated_rules :: "evaluated_rule list"
  ex_warning :: "text option"
  ex_manifest_version :: "text option"
  ex_cached_remote_version :: "text option"
  ex_override_shadowing :: bool
  ex_remote_status :: "(text \<times> text option) option"

definition bounded_preview :: "text \<Rightarrow> text" where
  "bounded_preview t = take 240 t @ (if length t > 240 then lit ''...'' else [])"

definition evidence_of :: "manifest_rule \<Rightarrow> text \<Rightarrow> rule_evidence" where
  "evidence_of r region_text =
     \<lparr>ev_contains = gate_contains (rule_gate r), ev_regex = gate_regex (rule_gate r), ev_line_regex = gate_line_regex (rule_gate r),
      all_count = length (gate_all (rule_gate r)), any_count = length (gate_any (rule_gate r)),
      not_count = length (gate_not (rule_gate r)), region_bytes = str_len region_text,
      region_preview = bounded_preview region_text\<rparr>"

definition state_of_rule :: "manifest_rule \<Rightarrow> agent_state" where
  "state_of_rule r = unwrap_or (map_option agent_state_from (rule_state r)) Unknown"

fun evaluate_loop ::
    "(text \<Rightarrow> text) \<Rightarrow> detection_input \<Rightarrow> (manifest_rule \<times> compiled_gate) list \<Rightarrow> manifest_rule option \<Rightarrow>
     evaluated_rule list \<Rightarrow> (manifest_rule option \<times> evaluated_rule list) option" where
  "evaluate_loop lower input [] matched evaluated = Some (matched, evaluated)"
| "evaluate_loop lower input ((r, g) # rules) matched evaluated =
     (case region input (rule_region r) of
        None \<Rightarrow> None
      | Some region_text \<Rightarrow>
          let hit = compiled_rule_matches lower g region_text;
              evaluated1 = evaluated @ [\<lparr>er_id = rule_id r, er_priority = priority r, er_region = rule_region r,
                er_evidence = evidence_of r region_text, er_state = state_of_rule r, er_matched = hit\<rparr>];
              matched1 = (if \<not> hit then matched
                else case matched of
                  Some previous \<Rightarrow> if priority previous \<ge> priority r then matched else Some r
                | None \<Rightarrow> Some r)
          in evaluate_loop lower input rules matched1 evaluated1)"

definition DEFAULT_KNOWN_AGENT_IDLE_FALLBACK :: "text" where
  "DEFAULT_KNOWN_AGENT_IDLE_FALLBACK = lit ''default_known_agent_idle_fallback''"

definition fallback_explain ::
    "(agent \<Rightarrow> (text \<times> text option) option) \<Rightarrow> agent option \<Rightarrow> (loaded_manifest \<times> evaluated_rule list) option \<Rightarrow> bool \<Rightarrow>
     detection_explain" where
  "fallback_explain status agent ctx include =
     \<lparr>ex_agent = map_option agent_label agent, ex_state = (if agent \<noteq> None then Idle else Unknown),
      ex_source = map_option (\<lambda>(l, _). lm_source l) ctx, ex_matched_rule = None,
      ex_screen_detection_skipped = False,
      ex_visible_idle = False, ex_visible_blocker = False, ex_visible_working = False, ex_skip_state_update = False,
      ex_skipped_update_reason = None, ex_fallback_reason = then_some (agent \<noteq> None) DEFAULT_KNOWN_AGENT_IDLE_FALLBACK,
      ex_evaluated_rules = (case ctx of None \<Rightarrow> [] | Some (_, evaluated) \<Rightarrow> evaluated),
      ex_warning = Option.bind ctx (\<lambda>(l, _). lm_warning l),
      ex_manifest_version = Option.bind ctx (\<lambda>(l, _). manifest_version (lm_manifest l)),
      ex_cached_remote_version = Option.bind ctx (\<lambda>(l, _). lm_cached_remote_version l),
      ex_override_shadowing = (case ctx of None \<Rightarrow> False | Some (l, _) \<Rightarrow> lm_override_shadowing l),
      ex_remote_status = (if include then Option.bind agent status else None)\<rparr>"

definition evaluate_loaded_manifest ::
    "(text \<Rightarrow> text) \<Rightarrow> (agent \<Rightarrow> (text \<times> text option) option) \<Rightarrow> agent \<Rightarrow> detection_input \<Rightarrow> loaded_manifest \<Rightarrow> bool \<Rightarrow>
     detection_explain option" where
  "evaluate_loaded_manifest lower status agent input loaded include =
     (case evaluate_loop lower input (zip (manifest_rules (lm_manifest loaded)) (lm_compiled_rules loaded)) None [] of
        None \<Rightarrow> None
      | Some (None, evaluated) \<Rightarrow> Some (fallback_explain status (Some agent) (Some (loaded, evaluated)) include)
      | Some (Some r, evaluated) \<Rightarrow>
          let st = state_of_rule r
          in Some \<lparr>ex_agent = Some (agent_label agent), ex_state = st, ex_source = Some (lm_source loaded),
               ex_matched_rule = Some \<lparr>mr_id = rule_id r, mr_priority = priority r, mr_region = rule_region r, mr_state = st\<rparr>,
               ex_screen_detection_skipped = False,
               ex_visible_idle = (rule_visible_idle r \<and> st = Idle),
               ex_visible_blocker = (rule_visible_blocker r \<and> st = Blocked),
               ex_visible_working = (rule_visible_working r \<and> st = Working),
               ex_skip_state_update = rule_skip_state_update r,
               ex_skipped_update_reason = then_some (rule_skip_state_update r) (lit ''matched_rule:'' @ rule_id r),
               ex_fallback_reason = None, ex_evaluated_rules = evaluated, ex_warning = lm_warning loaded,
               ex_manifest_version = manifest_version (lm_manifest loaded),
               ex_cached_remote_version = lm_cached_remote_version loaded,
               ex_override_shadowing = lm_override_shadowing loaded,
               ex_remote_status = (if include then status agent else None)\<rparr>)"

definition into_detection :: "detection_explain \<Rightarrow> agent_detection" where
  "into_detection x =
     \<lparr>det_state = ex_state x, det_skip_state_update = ex_skip_state_update x, det_visible_idle = ex_visible_idle x,
      det_visible_blocker = ex_visible_blocker x, det_visible_working = ex_visible_working x\<rparr>"

text \<open>The manifests in the cache are the function \<open>cache\<close>.\<close>

type_synonym manifest_cache = "agent \<Rightarrow> loaded_manifest option"

definition explain_with_input ::
    "(text \<Rightarrow> text) \<Rightarrow> (agent \<Rightarrow> (text \<times> text option) option) \<Rightarrow> manifest_cache \<Rightarrow> agent \<Rightarrow> detection_input \<Rightarrow>
     detection_explain option" where
  "explain_with_input lower status cache agent input =
     (case cache agent of
        None \<Rightarrow> Some (fallback_explain status (Some agent) None True)
      | Some loaded \<Rightarrow> evaluate_loaded_manifest lower status agent input loaded True)"

definition unknown_agent_explain :: "text \<Rightarrow> detection_explain" where
  "unknown_agent_explain label =
     \<lparr>ex_agent = Some label, ex_state = Unknown, ex_source = None, ex_matched_rule = None,
      ex_screen_detection_skipped = False,
      ex_visible_idle = False, ex_visible_blocker = False, ex_visible_working = False, ex_skip_state_update = False,
      ex_skipped_update_reason = None, ex_fallback_reason = Some (lit ''unknown_agent''), ex_evaluated_rules = [],
      ex_warning = None, ex_manifest_version = None, ex_cached_remote_version = None,
      ex_override_shadowing = False, ex_remote_status = None\<rparr>"

text \<open>\<open>explain\<close> is \<open>explain_with_input\<close> without titles.\<close>

definition explain_for_label ::
    "(text \<Rightarrow> text) \<Rightarrow> (agent \<Rightarrow> (text \<times> text option) option) \<Rightarrow> manifest_cache \<Rightarrow> text \<Rightarrow> text \<Rightarrow>
     detection_explain option" where
  "explain_for_label lower status cache label screen_content =
     (case parse_agent_label label of
        None \<Rightarrow> Some (unknown_agent_explain label)
      | Some agent \<Rightarrow>
          explain_with_input lower status cache agent
            \<lparr>screen = screen_content, input_osc_title = [], input_osc_progress = []\<rparr>)"

definition manifest_detect ::
    "(text \<Rightarrow> text) \<Rightarrow> manifest_cache \<Rightarrow> agent \<Rightarrow> text \<Rightarrow> text \<Rightarrow> text \<Rightarrow> agent_detection option" where
  "manifest_detect lower cache agent content osc_title osc_progress =
     (let input = \<lparr>screen = content, input_osc_title = osc_title, input_osc_progress = osc_progress\<rparr>
      in case cache agent of
           None \<Rightarrow> Some (into_detection (fallback_explain (\<lambda>_. None) (Some agent) None False))
         | Some loaded \<Rightarrow> map_option into_detection (evaluate_loaded_manifest lower (\<lambda>_. None) agent input loaded False))"

definition manifest_skips :: "(text \<Rightarrow> text) \<Rightarrow> manifest_cache \<Rightarrow> agent \<Rightarrow> text \<Rightarrow> bool option" where
  "manifest_skips lower cache agent content =
     (case cache agent of
        None \<Rightarrow> Some False
      | Some loaded \<Rightarrow>
          map_option ex_skip_state_update (evaluate_loaded_manifest lower (\<lambda>_. None) agent
            \<lparr>screen = content, input_osc_title = [], input_osc_progress = []\<rparr> loaded False))"

end
