(* ===== verification/Manifest_Validation.thy ===== *)
theory Manifest_Validation
  imports Manifest_Rules
begin

text \<open>
  The validation of a manifest, \<open>validate_manifest\<close> and the functions below it in
  \<open>src/detect/manifest.rs\<close>, with the counters it threads through the gates. Each message is a
  constructor; the context a message names is \<open>gate_context\<close>.
\<close>

section \<open>Limits\<close>

definition MAX_RULES_PER_MANIFEST :: nat where "MAX_RULES_PER_MANIFEST = 128"
definition MAX_GATE_DEPTH :: nat where "MAX_GATE_DEPTH = 8"
definition MAX_TOTAL_GATES :: nat where "MAX_TOTAL_GATES = 512"
definition MAX_MATCHERS_PER_GATE :: nat where "MAX_MATCHERS_PER_GATE = 32"
definition MAX_TOTAL_MATCHERS :: nat where "MAX_TOTAL_MATCHERS = 1024"
definition MAX_MATCHER_CHARS :: nat where "MAX_MATCHER_CHARS = 512"
definition TOP_NON_EMPTY_LINES_ENGINE_VERSION :: u32 where "TOP_NON_EMPTY_LINES_ENGINE_VERSION = 3"
definition MANIFEST_ENGINE_VERSION :: u32 where "MANIFEST_ENGINE_VERSION = 3"

lemmas limits = MAX_RULES_PER_MANIFEST_def MAX_GATE_DEPTH_def MAX_TOTAL_GATES_def MAX_MATCHERS_PER_GATE_def
  MAX_TOTAL_MATCHERS_def MAX_MATCHER_CHARS_def

section \<open>Gates\<close>

datatype gate_context = InRule | InAll | InAny | InNot | InNotAll | InNotAny

datatype gate_error =
    TooDeep gate_context
  | TooManyGates
  | TooManyDirectMatchers gate_context nat
  | TooManyMatchers
  | MatcherTooLong gate_context
  | NoPositiveMatcher gate_context
  | EmptyNotGate gate_context
  | NoMatcher
  | BadPattern gate_context "text" "text" "text"

record manifest_complexity =
  total_gates :: nat
  total_matchers :: nat

definition gate_matchers :: "manifest_gate \<Rightarrow> text list" where
  "gate_matchers g = gate_contains g @ gate_regex g @ gate_line_regex g"

definition gate_has_positive_matcher :: "manifest_gate \<Rightarrow> bool" where
  "gate_has_positive_matcher g \<longleftrightarrow> gate_contains g \<noteq> [] \<or> gate_regex g \<noteq> [] \<or> gate_line_regex g \<noteq> []
     \<or> gate_all g \<noteq> [] \<or> gate_any g \<noteq> []"

definition gate_has_any_matcher :: "manifest_gate \<Rightarrow> bool" where
  "gate_has_any_matcher g \<longleftrightarrow> gate_has_positive_matcher g \<or> gate_not g \<noteq> []"

definition validate_matcher_limits ::
    "manifest_gate \<Rightarrow> gate_context \<Rightarrow> manifest_complexity \<Rightarrow> gate_error + manifest_complexity" where
  "validate_matcher_limits g ctx c =
     (let n = length (gate_matchers g); c1 = c\<lparr>total_matchers := total_matchers c + n\<rparr>
      in if n > MAX_MATCHERS_PER_GATE then Inl (TooManyDirectMatchers ctx n)
         else if total_matchers c1 > MAX_TOTAL_MATCHERS then Inl TooManyMatchers
         else if list_ex (\<lambda>m. length m > MAX_MATCHER_CHARS) (gate_matchers g) then Inl (MatcherTooLong ctx)
         else Inr c1)"

fun validate_regex_patterns :: "regex_crate \<Rightarrow> text list \<Rightarrow> gate_context \<Rightarrow> text \<Rightarrow> gate_error + unit" where
  "validate_regex_patterns rx [] ctx field = Inr ()"
| "validate_regex_patterns rx (p # ps) ctx field =
     (case rx p of Inl err \<Rightarrow> Inl (BadPattern ctx field p err) | Inr _ \<Rightarrow> validate_regex_patterns rx ps ctx field)"

text \<open>What both kinds of gates check of themselves; \<open>needs\<close> is the error when the gate has too
  little to match.\<close>

definition validate_self ::
    "regex_crate \<Rightarrow> gate_context \<Rightarrow> (manifest_gate \<Rightarrow> gate_error option) \<Rightarrow> nat \<Rightarrow> manifest_gate \<Rightarrow> manifest_complexity \<Rightarrow>
     gate_error + manifest_complexity" where
  "validate_self rx ctx needs depth g c =
     (if depth > MAX_GATE_DEPTH then Inl (TooDeep ctx)
      else let c1 = c\<lparr>total_gates := total_gates c + 1\<rparr>
        in if total_gates c1 > MAX_TOTAL_GATES then Inl TooManyGates
           else and_then (validate_matcher_limits g ctx c1) (\<lambda>c2.
             case needs g of
               Some err \<Rightarrow> Inl err
             | None \<Rightarrow>
                 and_then (validate_regex_patterns rx (gate_regex g) ctx (lit ''regex'')) (\<lambda>_.
                 and_then (validate_regex_patterns rx (gate_line_regex g) ctx (lit ''line_regex'')) (\<lambda>_. Inr c2))))"

definition needs_positive :: "gate_context \<Rightarrow> manifest_gate \<Rightarrow> gate_error option" where
  "needs_positive ctx g = (if gate_has_positive_matcher g then None else Some (NoPositiveMatcher ctx))"

definition needs_any :: "manifest_gate \<Rightarrow> gate_error option" where
  "needs_any g = (if gate_has_any_matcher g then None else Some NoMatcher)"

text \<open>\<open>outer\<close> is the check a positive gate makes of a \<open>not\<close> gate before it goes into it.\<close>

fun validate_gate ::
    "regex_crate \<Rightarrow> gate_context \<Rightarrow> nat \<Rightarrow> manifest_gate \<Rightarrow> manifest_complexity \<Rightarrow> gate_error + manifest_complexity"
  and validate_not_gate ::
    "regex_crate \<Rightarrow> nat \<Rightarrow> manifest_gate \<Rightarrow> manifest_complexity \<Rightarrow> gate_error + manifest_complexity"
  and validate_gates ::
    "regex_crate \<Rightarrow> gate_context \<Rightarrow> nat \<Rightarrow> manifest_gate list \<Rightarrow> manifest_complexity \<Rightarrow> gate_error + manifest_complexity"
  and validate_not_gates ::
    "regex_crate \<Rightarrow> gate_context option \<Rightarrow> nat \<Rightarrow> manifest_gate list \<Rightarrow> manifest_complexity \<Rightarrow>
     gate_error + manifest_complexity" where
  "validate_gate rx ctx depth (Gate gall gany gnot needles patterns line_patterns) c =
     and_then (validate_self rx ctx (needs_positive ctx) depth (Gate gall gany gnot needles patterns line_patterns) c) (\<lambda>c1.
     and_then (validate_gates rx InAll (depth + 1) gall c1) (\<lambda>c2.
     and_then (validate_gates rx InAny (depth + 1) gany c2) (\<lambda>c3.
       validate_not_gates rx (Some ctx) (depth + 1) gnot c3)))"
| "validate_not_gate rx depth (Gate gall gany gnot needles patterns line_patterns) c =
     and_then (validate_self rx InNot needs_any depth (Gate gall gany gnot needles patterns line_patterns) c) (\<lambda>c1.
     and_then (validate_gates rx InNotAll (depth + 1) gall c1) (\<lambda>c2.
     and_then (validate_gates rx InNotAny (depth + 1) gany c2) (\<lambda>c3.
       validate_not_gates rx None (depth + 1) gnot c3)))"
| "validate_gates rx ctx depth [] c = Inr c"
| "validate_gates rx ctx depth (g # gs) c =
     and_then (validate_gate rx ctx depth g c) (\<lambda>c1. validate_gates rx ctx depth gs c1)"
| "validate_not_gates rx outer depth [] c = Inr c"
| "validate_not_gates rx outer depth (g # gs) c =
     (case opt_filter (\<lambda>_. \<not> gate_has_any_matcher g) outer of
        Some ctx \<Rightarrow> Inl (EmptyNotGate ctx)
      | None \<Rightarrow> and_then (validate_not_gate rx depth g c) (\<lambda>c1. validate_not_gates rx outer depth gs c1))"

section \<open>Manifests\<close>

datatype manifest_error =
    NoRules
  | TooManyRules nat
  | EmptyRuleId
  | SkipWithoutUnknown "text"
  | SkipWithEvidence "text"
  | InvalidRegion "text" "text"
  | NeedsNewerEngine "text"
  | InvalidGate "text" gate_error

definition validate_rule ::
    "regex_crate \<Rightarrow> agent_manifest \<Rightarrow> manifest_rule \<Rightarrow> manifest_complexity \<Rightarrow> manifest_error + manifest_complexity" where
  "validate_rule rx m r c =
     (if trim (rule_id r) = [] then Inl EmptyRuleId
      else if rule_skip_state_update r \<and> rule_state r \<noteq> Some MUnknown then Inl (SkipWithoutUnknown (rule_id r))
      else if rule_skip_state_update r \<and> (rule_visible_idle r \<or> rule_visible_blocker r \<or> rule_visible_working r)
      then Inl (SkipWithEvidence (rule_id r))
      else case validate_region_name (rule_region r) of
        Inl err \<Rightarrow> Inl (InvalidRegion (rule_id r) err)
      | Inr _ \<Rightarrow>
          if starts_with (trim (rule_region r)) (lit ''top_non_empty_lines('')
            \<and> is_some_and (\<lambda>v. v < TOP_NON_EMPTY_LINES_ENGINE_VERSION) (min_engine_version m)
          then Inl (NeedsNewerEngine (rule_id r))
          else (case validate_gate rx InRule 0 (rule_gate r) c of
            Inl err \<Rightarrow> Inl (InvalidGate (rule_id r) err)
          | Inr c1 \<Rightarrow> Inr c1))"

fun validate_rules ::
    "regex_crate \<Rightarrow> agent_manifest \<Rightarrow> manifest_rule list \<Rightarrow> manifest_complexity \<Rightarrow> manifest_error + manifest_complexity" where
  "validate_rules rx m [] c = Inr c"
| "validate_rules rx m (r # rs) c = and_then (validate_rule rx m r c) (\<lambda>c1. validate_rules rx m rs c1)"

definition validate_manifest :: "regex_crate \<Rightarrow> agent_manifest \<Rightarrow> manifest_error + unit" where
  "validate_manifest rx m =
     (if manifest_rules m = [] then Inl NoRules
      else if length (manifest_rules m) > MAX_RULES_PER_MANIFEST then Inl (TooManyRules (length (manifest_rules m)))
      else and_then (validate_rules rx m (manifest_rules m) \<lparr>total_gates = 0, total_matchers = 0\<rparr>) (\<lambda>_. Inr ()))"

definition manifest_matches_agent :: "agent_manifest \<Rightarrow> agent \<Rightarrow> bool" where
  "manifest_matches_agent m agent \<longleftrightarrow> manifest_id m = agent_label agent
     \<or> list_ex (\<lambda>a. a = agent_label agent) (manifest_aliases m)
     \<or> parse_agent_label (manifest_id m) = Some agent
     \<or> list_ex (\<lambda>a. parse_agent_label a = Some agent) (manifest_aliases m)"

section \<open>What a validated manifest is\<close>

fun gate_count :: "manifest_gate \<Rightarrow> nat" where
  "gate_count (Gate gall gany gnot needles patterns line_patterns) =
     1 + sum_list (map gate_count gall) + sum_list (map gate_count gany) + sum_list (map gate_count gnot)"

fun matcher_count :: "manifest_gate \<Rightarrow> nat" where
  "matcher_count (Gate gall gany gnot needles patterns line_patterns) =
     length needles + length patterns + length line_patterns
     + sum_list (map matcher_count gall) + sum_list (map matcher_count gany) + sum_list (map matcher_count gnot)"

text \<open>So many levels of gates below this one, with matchers within the limits and patterns that
  compile.\<close>

fun gate_ok :: "regex_crate \<Rightarrow> nat \<Rightarrow> manifest_gate \<Rightarrow> bool" where
  "gate_ok rx levels (Gate gall gany gnot needles patterns line_patterns) \<longleftrightarrow>
     length needles + length patterns + length line_patterns \<le> MAX_MATCHERS_PER_GATE
     \<and> (\<forall>m \<in> set needles \<union> set patterns \<union> set line_patterns. length m \<le> MAX_MATCHER_CHARS)
     \<and> (\<forall>p \<in> set patterns \<union> set line_patterns. \<exists>f. rx p = Inr f)
     \<and> (gall @ gany @ gnot = [] \<or> levels > 0)
     \<and> (\<forall>g \<in> set gall \<union> set gany \<union> set gnot. gate_ok rx (levels - 1) g)"

lemma and_then_Inr: "and_then r f = Inr y \<longleftrightarrow> (\<exists>x. r = Inr x \<and> f x = Inr y)"
  by (cases r) (simp_all add: and_then_def)

lemma patterns_ok: "validate_regex_patterns rx ps ctx field = Inr () \<Longrightarrow> p \<in> set ps \<Longrightarrow> \<exists>f. rx p = Inr f"
  by (induction rx ps ctx field rule: validate_regex_patterns.induct) (auto split: sum.splits)

lemma validate_self_Inr:
  assumes "validate_self rx ctx needs depth (Gate gall gany gnot needles patterns line_patterns) c = Inr c'"
  shows "depth \<le> MAX_GATE_DEPTH" "total_gates c' = total_gates c + 1" "total_gates c' \<le> MAX_TOTAL_GATES"
    "total_matchers c' = total_matchers c + length needles + length patterns + length line_patterns"
    "total_matchers c' \<le> MAX_TOTAL_MATCHERS"
    "length needles + length patterns + length line_patterns \<le> MAX_MATCHERS_PER_GATE"
    "\<forall>m \<in> set needles \<union> set patterns \<union> set line_patterns. length m \<le> MAX_MATCHER_CHARS"
    "\<forall>p \<in> set patterns \<union> set line_patterns. \<exists>f. rx p = Inr f"
  using assms patterns_ok
  by (auto simp: validate_self_def validate_matcher_limits_def gate_matchers_def and_then_Inr Let_def list_ex_iff
      split: if_splits option.splits) (force simp: not_less)+

text \<open>What a run of the validation over gates has established.\<close>

definition within_limits :: "manifest_complexity \<Rightarrow> bool" where
  "within_limits c \<longleftrightarrow> total_gates c \<le> MAX_TOTAL_GATES \<and> total_matchers c \<le> MAX_TOTAL_MATCHERS"

definition accounted ::
    "regex_crate \<Rightarrow> nat \<Rightarrow> manifest_gate list \<Rightarrow> manifest_complexity \<Rightarrow> manifest_complexity \<Rightarrow> bool" where
  "accounted rx depth gs c c' \<longleftrightarrow>
     total_gates c' = total_gates c + sum_list (map gate_count gs)
     \<and> total_matchers c' = total_matchers c + sum_list (map matcher_count gs)
     \<and> (within_limits c \<longrightarrow> within_limits c')
     \<and> (\<forall>g \<in> set gs. depth \<le> MAX_GATE_DEPTH \<and> gate_ok rx (MAX_GATE_DEPTH - depth) g)"

lemma accounted_Nil: "accounted rx depth [] c c"
  by (simp add: accounted_def)

lemma accounted_Cons:
  "accounted rx depth [g] c c1 \<Longrightarrow> accounted rx depth gs c1 c2 \<Longrightarrow> accounted rx depth (g # gs) c c2"
  by (auto simp: accounted_def)

lemma accounted_gate:
  assumes "validate_self rx ctx needs depth (Gate gall gany gnot needles patterns line_patterns) c = Inr c1"
    and "accounted rx (depth + 1) gall c1 c2" "accounted rx (depth + 1) gany c2 c3"
    and "accounted rx (depth + 1) gnot c3 c4"
  shows "accounted rx depth [Gate gall gany gnot needles patterns line_patterns] c c4"
proof -
  note self = validate_self_Inr [OF assms(1)]
  have "depth < MAX_GATE_DEPTH" if "gall @ gany @ gnot \<noteq> []"
  proof -
    have "hd (gall @ gany @ gnot) \<in> set gall \<union> set gany \<union> set gnot"
      using hd_in_set [OF that] by (simp only: set_append Un_assoc)
    then show ?thesis using assms(2-4) by (auto simp: accounted_def)
  qed
  moreover have "MAX_GATE_DEPTH - (depth + 1) = MAX_GATE_DEPTH - depth - 1" by simp
  ultimately show ?thesis using assms(2-4) self by (auto simp: accounted_def within_limits_def)
qed

lemma validation_accounts:
  shows "validate_gate rx ctx depth g c = Inr c' \<Longrightarrow> accounted rx depth [g] c c'"
    and "validate_not_gate rx depth g c = Inr c' \<Longrightarrow> accounted rx depth [g] c c'"
    and "validate_gates rx ctx depth gs c = Inr c' \<Longrightarrow> accounted rx depth gs c c'"
    and "validate_not_gates rx outer depth gs c = Inr c' \<Longrightarrow> accounted rx depth gs c c'"
proof (induction rx ctx depth g c and rx depth g c and rx ctx depth gs c and rx outer depth gs c
    arbitrary: c' and c' and c' and c'
    rule: validate_gate_validate_not_gate_validate_gates_validate_not_gates.induct)
  case (1 rx ctx depth gall gany gnot needles patterns line_patterns c)
  then show ?case by (auto simp: and_then_Inr intro!: accounted_gate simp del: add_Suc_right) blast
next
  case (2 rx depth gall gany gnot needles patterns line_patterns c)
  then show ?case by (auto simp: and_then_Inr intro!: accounted_gate) blast
next
  case (3 rx ctx depth c)
  then show ?case by (simp add: accounted_Nil)
next
  case (4 rx ctx depth g gs c)
  then show ?case by (auto simp: and_then_Inr intro: accounted_Cons)
next
  case (5 rx outer depth c)
  then show ?case by (simp add: accounted_Nil)
next
  case (6 rx outer depth g gs c)
  then show ?case by (auto simp: and_then_Inr intro: accounted_Cons split: option.splits)
qed

section \<open>Compilation of what was validated\<close>

lemma collect_results_Inr: "collect_results rs = Inr xs \<longleftrightarrow> rs = map Inr xs"
proof (induction rs arbitrary: xs)
  case Nil
  then show ?case by auto
next
  case (Cons r rs)
  then show ?case by (cases xs) (auto simp: and_then_Inr)
qed

lemma collect_results_length: "collect_results rs = Inr xs \<Longrightarrow> length xs = length rs"
  by (simp add: collect_results_Inr)

lemma collect_results_all: "(\<And>r. r \<in> set rs \<Longrightarrow> \<exists>x. r = Inr x) \<Longrightarrow> \<exists>xs. collect_results rs = Inr xs"
proof (induction rs)
  case (Cons r rs)
  then show ?case by (force simp: and_then_Inr)
qed simp

lemma validated_gate_compiles: "gate_ok rx levels g \<Longrightarrow> \<exists>compiled. compile_gate rx lower g = Inr compiled"
proof (induction rx levels g rule: gate_ok.induct)
  case (1 rx levels gall gany gnot needles patterns line_patterns)
  have nested: "\<exists>xs. collect_results (map (compile_gate rx lower) gs) = Inr xs"
    if "gs \<in> {gall, gany, gnot}" for gs
    using 1 that by (intro collect_results_all) auto
  have crate: "\<exists>xs. collect_results (map rx ps) = Inr xs" if "ps \<in> {patterns, line_patterns}" for ps
    using "1.prems" that by (intro collect_results_all) auto
  show ?case using nested [of gall] nested [of gany] nested [of gnot] crate [of patterns] crate [of line_patterns]
    by (auto simp: and_then_Inr)
qed

lemma validate_rule_accounts:
  "validate_rule rx m r c = Inr c' \<Longrightarrow> accounted rx 0 [rule_gate r] c c'"
  by (auto simp: validate_rule_def intro: validation_accounts(1) split: if_splits sum.splits)

lemma validate_rules_account:
  "validate_rules rx m rs c = Inr c' \<Longrightarrow> accounted rx 0 (map rule_gate rs) c c'"
  by (induction rx m rs c rule: validate_rules.induct)
    (auto simp: and_then_Inr accounted_Nil intro: accounted_Cons validate_rule_accounts)

lemma validated_rules:
  assumes "validate_manifest rx m = Inr ()"
  obtains c where "validate_rules rx m (manifest_rules m) \<lparr>total_gates = 0, total_matchers = 0\<rparr> = Inr c"
    "manifest_rules m \<noteq> []" "length (manifest_rules m) \<le> MAX_RULES_PER_MANIFEST"
  using assms by (auto simp: validate_manifest_def and_then_Inr split: if_splits)

lemma validated_bounds:
  assumes "validate_manifest rx m = Inr ()"
  shows "0 < length (manifest_rules m)" "length (manifest_rules m) \<le> MAX_RULES_PER_MANIFEST"
    "sum_list (map (\<lambda>r. gate_count (rule_gate r)) (manifest_rules m)) \<le> MAX_TOTAL_GATES"
    "sum_list (map (\<lambda>r. matcher_count (rule_gate r)) (manifest_rules m)) \<le> MAX_TOTAL_MATCHERS"
    "r \<in> set (manifest_rules m) \<Longrightarrow> gate_ok rx MAX_GATE_DEPTH (rule_gate r)"
proof -
  obtain c where c: "validate_rules rx m (manifest_rules m) \<lparr>total_gates = 0, total_matchers = 0\<rparr> = Inr c"
    "manifest_rules m \<noteq> []" "length (manifest_rules m) \<le> MAX_RULES_PER_MANIFEST"
    by (rule validated_rules [OF assms])
  have acc: "accounted rx 0 (map rule_gate (manifest_rules m)) \<lparr>total_gates = 0, total_matchers = 0\<rparr> c"
    by (rule validate_rules_account [OF c(1)])
  show "0 < length (manifest_rules m)" "length (manifest_rules m) \<le> MAX_RULES_PER_MANIFEST"
    using c(2,3) by simp_all
  show "sum_list (map (\<lambda>r. gate_count (rule_gate r)) (manifest_rules m)) \<le> MAX_TOTAL_GATES"
    "sum_list (map (\<lambda>r. matcher_count (rule_gate r)) (manifest_rules m)) \<le> MAX_TOTAL_MATCHERS"
    using acc by (simp_all add: accounted_def within_limits_def comp_def)
  show "r \<in> set (manifest_rules m) \<Longrightarrow> gate_ok rx MAX_GATE_DEPTH (rule_gate r)"
    using acc by (simp add: accounted_def)
qed

lemma validated_compiles:
  assumes "validate_manifest rx m = Inr ()"
  shows "\<exists>rules. compile_manifest rx lower m = Inr rules \<and> length rules = length (manifest_rules m)"
proof -
  have "\<exists>g. compile_gate rx lower (rule_gate r) = Inr g" if "r \<in> set (manifest_rules m)" for r
    by (rule validated_gate_compiles) (rule validated_bounds(5) [OF assms that])
  then have "\<exists>rules. compile_manifest rx lower m = Inr rules"
    unfolding compile_manifest_def by (intro collect_results_all) force
  then obtain rules where rules: "compile_manifest rx lower m = Inr rules" by blast
  then have "length rules = length (manifest_rules m)"
    unfolding compile_manifest_def by (auto dest: collect_results_length)
  with rules show ?thesis by blast
qed

text \<open>A rule that keeps the state says that it is unknown, and shows nothing.\<close>

lemma validated_rule_skips:
  "validate_rules rx m rs c = Inr c' \<Longrightarrow> r \<in> set rs \<Longrightarrow> rule_skip_state_update r \<Longrightarrow>
     rule_state r = Some MUnknown \<and> \<not> rule_visible_idle r \<and> \<not> rule_visible_blocker r \<and> \<not> rule_visible_working r"
  by (induction rx m rs c rule: validate_rules.induct)
    (auto simp: and_then_Inr validate_rule_def split: if_splits)

lemma validated_skips:
  assumes "validate_manifest rx m = Inr ()" "r \<in> set (manifest_rules m)" "rule_skip_state_update r"
  shows "rule_state r = Some MUnknown \<and> \<not> rule_visible_idle r \<and> \<not> rule_visible_blocker r \<and> \<not> rule_visible_working r"
  by (rule validated_rules [OF assms(1)]) (rule validated_rule_skips [OF _ assms(2,3)])

end
