(* ===== verification/Manifest_Versions.thy ===== *)
theory Manifest_Versions
  imports Rust_Text
begin

text \<open>
  The versions of the manifests, \<open>ManifestVersion\<close> of \<open>src/detect/manifest_update.rs\<close>: dotted numbers
  that stay the texts they are and are compared number by number, a missing number being zero. The
  order is that of the sequences of numbers, so it is a total preorder; two versions can be equal in
  it and differ as texts.
\<close>

section \<open>Parsing\<close>

datatype version_error = EmptyVersion | EmptySegment "text" | NotNumeric "text" | OversizedSegment "text"

definition parse_u64 :: "text \<Rightarrow> nat option" where
  "parse_u64 t = parse_unsigned (2 ^ 64) t"

definition is_ascii_digit :: "uchar \<Rightarrow> bool" where
  "is_ascii_digit c \<longleftrightarrow> 48 \<le> c \<and> c \<le> 57"

definition version_segments :: "text \<Rightarrow> text list" where
  "version_segments v = split_on (\<lambda>c. c = 46) v"

fun check_segments :: "text \<Rightarrow> text list \<Rightarrow> version_error + text" where
  "check_segments v [] = Inr v"
| "check_segments v (s # ss) =
     (if s = [] then Inl (EmptySegment v)
      else if \<not> list_all is_ascii_digit s then Inl (NotNumeric v)
      else case parse_u64 s of None \<Rightarrow> Inl (OversizedSegment v) | Some _ \<Rightarrow> check_segments v ss)"

definition version_parse :: "text \<Rightarrow> version_error + text" where
  "version_parse value =
     (let trimmed = trim value
      in if trimmed = [] then Inl EmptyVersion else check_segments trimmed (version_segments trimmed))"

section \<open>Comparison\<close>

datatype ordering = Smaller | Same | Bigger

definition nat_cmp :: "nat \<Rightarrow> nat \<Rightarrow> ordering" where
  "nat_cmp a b = (if a < b then Smaller else if a = b then Same else Bigger)"

definition segment_value :: "text \<Rightarrow> nat" where
  "segment_value s = unwrap_or (parse_u64 s) 0"

fun compare_segments :: "text list \<Rightarrow> text list \<Rightarrow> ordering" where
  "compare_segments (l # ls) (r # rs) =
     (case nat_cmp (segment_value l) (segment_value r) of Same \<Rightarrow> compare_segments ls rs | other \<Rightarrow> other)"
| "compare_segments (l # ls) [] = (if segment_value l = 0 then compare_segments ls [] else Bigger)"
| "compare_segments [] (r # rs) = (if segment_value r = 0 then compare_segments [] rs else Smaller)"
| "compare_segments [] [] = Same"

definition version_cmp :: "text \<Rightarrow> text \<Rightarrow> ordering" where
  "version_cmp a b = compare_segments (version_segments a) (version_segments b)"

section \<open>The order of the number sequences\<close>

text \<open>The number at a position, and the order by the first position at which two sequences differ.\<close>

definition number_at :: "text list \<Rightarrow> nat \<Rightarrow> nat" where
  "number_at ss i = (if i < length ss then segment_value (ss ! i) else 0)"

definition precedes :: "(nat \<Rightarrow> nat) \<Rightarrow> (nat \<Rightarrow> nat) \<Rightarrow> bool" where
  "precedes f g \<longleftrightarrow> (\<exists>i. f i < g i \<and> (\<forall>j<i. f j = g j))"

lemma number_at_Cons: "number_at (s # ss) i = (case i of 0 \<Rightarrow> segment_value s | Suc j \<Rightarrow> number_at ss j)"
  by (simp add: number_at_def split: nat.split)

lemma number_at_Nil [simp]: "number_at [] i = 0"
  by (simp add: number_at_def)

lemma precedes_step:
  "precedes f g \<longleftrightarrow> f 0 < g 0 \<or> f 0 = g 0 \<and> precedes (\<lambda>i. f (Suc i)) (\<lambda>i. g (Suc i))" (is "?l = ?r")
proof
  assume ?l
  then obtain i where i: "f i < g i" "\<forall>j<i. f j = g j" by (auto simp: precedes_def)
  then show ?r by (cases i) (auto simp: precedes_def)
next
  assume ?r
  then show ?l
  proof
    assume "f 0 = g 0 \<and> precedes (\<lambda>i. f (Suc i)) (\<lambda>i. g (Suc i))"
    then obtain i where "f (Suc i) < g (Suc i)" "\<forall>j<i. f (Suc j) = g (Suc j)" "f 0 = g 0"
      by (auto simp: precedes_def)
    then have "f j = g j" if "j < Suc i" for j using that by (cases j) auto
    then show ?l using \<open>f (Suc i) < g (Suc i)\<close> by (auto simp: precedes_def)
  qed (auto simp: precedes_def)
qed

lemma precedes_zero [simp]: "\<not> precedes f (\<lambda>_. 0)"
  by (simp add: precedes_def)

lemma precedes_irrefl [simp]: "\<not> precedes f f"
  by (simp add: precedes_def)

lemma precedes_trans: "precedes f g \<Longrightarrow> precedes g h \<Longrightarrow> precedes f h"
proof -
  assume "precedes f g" "precedes g h"
  then obtain i k where i: "f i < g i" "\<forall>j<i. f j = g j" and k: "g k < h k" "\<forall>j<k. g j = h j"
    by (auto simp: precedes_def)
  have "f (min i k) < h (min i k)"
    using i k by (cases "i < k"; cases "k < i") (auto simp: min_def)
  moreover have "\<forall>j<min i k. f j = h j" using i k by auto
  ultimately show ?thesis by (auto simp: precedes_def)
qed

lemma precedes_total: "f \<noteq> g \<Longrightarrow> precedes f g \<or> precedes g f"
proof -
  assume "f \<noteq> g"
  then obtain n where n: "f n \<noteq> g n" by auto
  define i where "i = (LEAST i. f i \<noteq> g i)"
  have "f i \<noteq> g i" "\<forall>j<i. f j = g j"
    unfolding i_def using LeastI [of "\<lambda>i. f i \<noteq> g i", OF n] not_less_Least by blast+
  then show ?thesis by (auto simp: precedes_def neq_iff)
qed

lemma compare_segments_spec:
  "compare_segments a b = Smaller \<longleftrightarrow> precedes (number_at a) (number_at b)"
  "compare_segments a b = Bigger \<longleftrightarrow> precedes (number_at b) (number_at a)"
proof (induction a b rule: compare_segments.induct)
  case (1 l ls r rs)
  { case 1 then show ?case using "1.IH"
      by (subst precedes_step) (auto simp: number_at_Cons nat_cmp_def split: ordering.split) }
  { case 2 then show ?case using "1.IH"
      by (subst precedes_step) (auto simp: number_at_Cons nat_cmp_def split: ordering.split) }
next
  case (2 l ls)
  { case 1 then show ?case using "2.IH"
      by (subst precedes_step) (auto simp: number_at_Cons) }
  { case 2 then show ?case using "2.IH"
      by (subst precedes_step) (auto simp: number_at_Cons) }
next
  case (3 r rs)
  { case 1 then show ?case using "3.IH"
      by (subst precedes_step) (auto simp: number_at_Cons) }
  { case 2 then show ?case using "3.IH"
      by (subst precedes_step) (auto simp: number_at_Cons) }
qed simp_all

lemma compare_segments_same: "compare_segments a b = Same \<longleftrightarrow> number_at a = number_at b"
  by (metis compare_segments_spec ordering.exhaust ordering.distinct(1,3,5) precedes_irrefl precedes_total)

end
