(* ===== verification/Manifest_Loading.thy ===== *)
theory Manifest_Loading
  imports Manifest_Validation Manifest_Versions
begin

text \<open>
  Which manifest an agent has: the one of the program, the one the update check downloaded, or the
  one the user put in its place, \<open>load_manifest_uncached\<close> and the functions below it in
  \<open>src/detect/manifest.rs\<close>. What lies outside the program is a \<open>loader\<close>: the crates \<open>toml\<close> and
  \<open>regex\<close>, \<open>str::to_lowercase\<close>, the manifests compiled into the program, the directories, and \<open>say\<close>,
  the rendering of a warning. The files are a function from paths. \<open>None\<close> is a panic, which is what a
  manifest compiled into the program causes when it is not valid.
\<close>

section \<open>Files and crates\<close>

datatype file_content = NoFile | UnreadableFile "text" | TextFile "text"

type_synonym file_tree = "text \<Rightarrow> file_content"

definition path_exists :: "file_tree \<Rightarrow> text \<Rightarrow> bool" where
  "path_exists fs path \<longleftrightarrow> fs path \<noteq> NoFile"

definition read_to_string :: "file_tree \<Rightarrow> text \<Rightarrow> text + text" where
  "read_to_string fs path =
     (case fs path of NoFile \<Rightarrow> Inl (lit ''not found'') | UnreadableFile err \<Rightarrow> Inl err | TextFile t \<Rightarrow> Inr t)"

datatype load_error =
    CannotRead "text"
  | BadToml "text"
  | BadVersion version_error
  | InvalidManifest manifest_error
  | WrongAgent "text"
  | NoVersion
  | NoEngineVersion
  | EngineTooNew u32

datatype load_warning =
    OlderThanBundled "text" "text" "text"
  | NotLoaded "text" load_error
  | NotCompiled "text" "text" "text"
  | OtherAgent "text" "text"

record loader =
  toml :: "text \<Rightarrow> text + agent_manifest"
  rx_crate :: regex_crate
  lowercase :: "text \<Rightarrow> text"
  say :: "load_warning \<Rightarrow> text"
  bundled_texts :: "(text \<times> text) list"
  config_directory :: "text"
  state_directory :: "text"

definition override_path :: "loader \<Rightarrow> agent \<Rightarrow> text option" where
  "override_path l agent =
     Some (config_directory l @ lit ''/agent-detection/'' @ agent_label agent @ lit ''.toml'')"

definition remote_manifest_path :: "loader \<Rightarrow> agent \<Rightarrow> text" where
  "remote_manifest_path l agent =
     state_directory l @ lit ''/agent-detection/remote/'' @ agent_label agent @ lit ''.toml''"

section \<open>Parsing\<close>

text \<open>The crate calls \<open>ManifestVersion::parse\<close> on the field of the version.\<close>

definition parse_manifest :: "loader \<Rightarrow> text \<Rightarrow> load_error + agent_manifest" where
  "parse_manifest l content =
     (case toml l content of
        Inl err \<Rightarrow> Inl (BadToml err)
      | Inr m \<Rightarrow>
          and_then (case manifest_version m of
              None \<Rightarrow> Inr m
            | Some v \<Rightarrow> (case version_parse v of
                Inl err \<Rightarrow> Inl (BadVersion err) | Inr w \<Rightarrow> Inr (m\<lparr>manifest_version := Some w\<rparr>))) (\<lambda>m1.
          case validate_manifest (rx_crate l) m1 of Inl err \<Rightarrow> Inl (InvalidManifest err) | Inr _ \<Rightarrow> Inr m1))"

definition parse_remote_manifest_for_agent :: "loader \<Rightarrow> agent \<Rightarrow> text \<Rightarrow> load_error + agent_manifest \<times> text" where
  "parse_remote_manifest_for_agent l agent content =
     and_then (parse_manifest l content) (\<lambda>m.
       if \<not> manifest_matches_agent m agent then Inl (WrongAgent (manifest_id m))
       else case manifest_version m of
         None \<Rightarrow> Inl NoVersion
       | Some version \<Rightarrow> (case min_engine_version m of
           None \<Rightarrow> Inl NoEngineVersion
         | Some engine \<Rightarrow>
             if engine > MANIFEST_ENGINE_VERSION then Inl (EngineTooNew engine) else Inr (m, version)))"

definition read_override_manifest :: "loader \<Rightarrow> file_tree \<Rightarrow> text \<Rightarrow> load_error + agent_manifest" where
  "read_override_manifest l fs path =
     (case read_to_string fs path of Inl err \<Rightarrow> Inl (CannotRead err) | Inr content \<Rightarrow> parse_manifest l content)"

section \<open>Loading\<close>

definition compiled_manifest ::
    "loader \<Rightarrow> agent_manifest \<Rightarrow> manifest_source \<Rightarrow> text option \<Rightarrow> text option \<Rightarrow> bool \<Rightarrow>
     (text \<times> text) + loaded_manifest" where
  "compiled_manifest l m source warning cached shadowing =
     and_then (compile_manifest (rx_crate l) (lowercase l) m) (\<lambda>rules.
       Inr \<lparr>lm_manifest = m, lm_compiled_rules = rules, lm_source = source, lm_warning = warning,
            lm_cached_remote_version = cached, lm_override_shadowing = shadowing\<rparr>)"

definition bundled_loaded_manifest ::
    "loader \<Rightarrow> agent_manifest \<Rightarrow> text option \<Rightarrow> text option \<Rightarrow> bool \<Rightarrow> loaded_manifest option" where
  "bundled_loaded_manifest l m warning cached shadowing =
     (case compiled_manifest l m Bundled warning cached shadowing of Inl _ \<Rightarrow> None | Inr loaded \<Rightarrow> Some loaded)"

definition bundled_manifest :: "loader \<Rightarrow> agent \<Rightarrow> agent_manifest option option" where
  "bundled_manifest l agent =
     (case find (\<lambda>(i, _). i = agent_label agent) (bundled_texts l) of
        None \<Rightarrow> Some None
      | Some (_, content) \<Rightarrow> (case parse_manifest l content of Inl _ \<Rightarrow> None | Inr m \<Rightarrow> Some (Some m)))"

definition read_remote_manifest ::
    "loader \<Rightarrow> file_tree \<Rightarrow> agent \<Rightarrow> agent_manifest \<Rightarrow> loaded_manifest option option" where
  "read_remote_manifest l fs agent bundled =
     (let path = remote_manifest_path l agent;
          instead = (\<lambda>warning cached. map_option Some (bundled_loaded_manifest l bundled (Some (say l warning)) cached False))
      in if \<not> path_exists fs path then Some None
         else case (case read_to_string fs path of
             Inl err \<Rightarrow> Inl (CannotRead err)
           | Inr content \<Rightarrow> and_then (parse_remote_manifest_for_agent l agent content) (\<lambda>(m, _). Inr m)) of
           Inl err \<Rightarrow> instead (NotLoaded path err) None
         | Inr m \<Rightarrow>
             let version = unwrap_or (manifest_version m) (lit ''unknown'');
                 older = Option.bind (manifest_version m) (\<lambda>r. Option.bind (manifest_version bundled) (\<lambda>b.
                   if version_cmp r b = Smaller then Some (r, b) else None))
             in (case older of
                  Some (r, b) \<Rightarrow> instead (OlderThanBundled path r b) (Some r)
                | None \<Rightarrow>
                    (case compiled_manifest l m (Remote path version) None None False of
                      Inr loaded \<Rightarrow> Some (Some loaded)
                    | Inl (rule, err) \<Rightarrow> instead (NotCompiled path rule err) None)))"

text \<open>\<open>unwrap_or_else\<close> on the manifest of the update check, with the one of the program.\<close>

definition remote_or_bundled ::
    "loader \<Rightarrow> agent_manifest \<Rightarrow> loaded_manifest option \<Rightarrow> text option \<Rightarrow> bool \<Rightarrow> loaded_manifest option" where
  "remote_or_bundled l bundled remote cached shadowing =
     (case remote of Some loaded \<Rightarrow> Some loaded | None \<Rightarrow> bundled_loaded_manifest l bundled None cached shadowing)"

definition cached_version_of :: "loaded_manifest \<Rightarrow> text option" where
  "cached_version_of loaded =
     (case lm_cached_remote_version loaded of
        Some v \<Rightarrow> Some v
      | None \<Rightarrow> (case lm_source loaded of Remote path version \<Rightarrow> Some version | _ \<Rightarrow> None))"

definition load_manifest_uncached :: "loader \<Rightarrow> file_tree \<Rightarrow> agent \<Rightarrow> loaded_manifest option option" where
  "load_manifest_uncached l fs agent =
     Option.bind (bundled_manifest l agent) (\<lambda>found. case found of None \<Rightarrow> Some None | Some bundled \<Rightarrow>
     Option.bind (read_remote_manifest l fs agent bundled) (\<lambda>remote.
      let cached = Option.bind remote cached_version_of in
      (case override_path l agent of
        None \<Rightarrow> map_option Some (remote_or_bundled l bundled
          (map_option (\<lambda>r. r\<lparr>lm_cached_remote_version := cached\<rparr>) remote) cached False)
      | Some path \<Rightarrow>
          let shadowing = (path_exists fs path \<and> cached \<noteq> None);
              remote1 = map_option (\<lambda>r. r\<lparr>lm_cached_remote_version := cached, lm_override_shadowing := shadowing\<rparr>) remote;
              other = remote_or_bundled l bundled remote1 cached shadowing;
              warned = (\<lambda>w. map_option (\<lambda>r. Some (r\<lparr>lm_warning := Some (say l w)\<rparr>)) other)
          in if \<not> path_exists fs path then map_option Some other
             else (case read_override_manifest l fs path of
               Inl err \<Rightarrow> warned (NotLoaded path err)
             | Inr m \<Rightarrow>
                 if \<not> manifest_matches_agent m agent then warned (OtherAgent path (manifest_id m))
                 else (case compiled_manifest l m (Override path) None cached shadowing of
                   Inr loaded \<Rightarrow> Some (Some loaded)
                 | Inl (rule, err) \<Rightarrow> warned (NotCompiled path rule err))))))"

section \<open>The cache\<close>

fun load_all :: "loader \<Rightarrow> file_tree \<Rightarrow> agent list \<Rightarrow> (agent \<times> loaded_manifest option) list option" where
  "load_all l fs [] = Some []"
| "load_all l fs (a # agents) =
     (case load_manifest_uncached l fs a of
        None \<Rightarrow> None
      | Some loaded \<Rightarrow> map_option (\<lambda>rest. (a, loaded) # rest) (load_all l fs agents))"

definition build_manifest_cache :: "loader \<Rightarrow> file_tree \<Rightarrow> (agent \<times> loaded_manifest option) list option" where
  "build_manifest_cache l fs = load_all l fs screen_manifest_agents"

definition load_manifest :: "(agent \<times> loaded_manifest option) list \<Rightarrow> manifest_cache" where
  "load_manifest manifests agent = Option.bind (find (\<lambda>(a, _). a = agent) manifests) snd"

record manifest_summary =
  sum_agent :: agent
  active_source :: manifest_source
  active_version :: "text option"
  sum_cached_remote_version :: "text option"
  sum_override_shadowing :: bool
  sum_warning :: "text option"

definition manifest_summary_from_loaded :: "agent \<Rightarrow> loaded_manifest \<Rightarrow> manifest_summary" where
  "manifest_summary_from_loaded agent loaded =
     \<lparr>sum_agent = agent, active_source = lm_source loaded, active_version = manifest_version (lm_manifest loaded),
      sum_cached_remote_version = lm_cached_remote_version loaded,
      sum_override_shadowing = lm_override_shadowing loaded, sum_warning = lm_warning loaded\<rparr>"

definition manifest_summaries_from_cache :: "(agent \<times> loaded_manifest option) list \<Rightarrow> manifest_summary list" where
  "manifest_summaries_from_cache manifests =
     List.map_filter (\<lambda>(agent, loaded). map_option (manifest_summary_from_loaded agent) loaded) manifests"

section \<open>Which manifest that is\<close>

text \<open>The manifest the user put there, if it can be used, and the one the update check downloaded, if
  it can be used and is not older than the one of the program.\<close>

definition usable_override :: "loader \<Rightarrow> file_tree \<Rightarrow> agent \<Rightarrow> (text \<times> agent_manifest) option" where
  "usable_override l fs agent =
     Option.bind (override_path l agent) (\<lambda>path.
       case read_override_manifest l fs path of
         Inl _ \<Rightarrow> None
       | Inr m \<Rightarrow> if manifest_matches_agent m agent then Some (path, m) else None)"

definition usable_remote :: "loader \<Rightarrow> file_tree \<Rightarrow> agent \<Rightarrow> agent_manifest \<Rightarrow> (agent_manifest \<times> text) option" where
  "usable_remote l fs agent bundled =
     (case fs (remote_manifest_path l agent) of
        TextFile content \<Rightarrow>
          (case parse_remote_manifest_for_agent l agent content of
             Inl _ \<Rightarrow> None
           | Inr (m, version) \<Rightarrow>
               if is_some_and (\<lambda>b. version_cmp version b = Smaller) (manifest_version bundled) then None
               else Some (m, version))
      | _ \<Rightarrow> None)"

definition chosen_manifest :: "loader \<Rightarrow> file_tree \<Rightarrow> agent \<Rightarrow> agent_manifest \<Rightarrow> agent_manifest \<times> manifest_source" where
  "chosen_manifest l fs agent bundled =
     (case usable_override l fs agent of
        Some (path, m) \<Rightarrow> (m, Override path)
      | None \<Rightarrow> (case usable_remote l fs agent bundled of
          Some (m, version) \<Rightarrow> (m, Remote (remote_manifest_path l agent) version)
        | None \<Rightarrow> (bundled, Bundled)))"

definition well_loaded :: "loader \<Rightarrow> loaded_manifest \<Rightarrow> bool" where
  "well_loaded l loaded \<longleftrightarrow> validate_manifest (rx_crate l) (lm_manifest loaded) = Inr ()
     \<and> compile_manifest (rx_crate l) (lowercase l) (lm_manifest loaded) = Inr (lm_compiled_rules loaded)"

lemma unit_result: "(case r of Inl err \<Rightarrow> Inl (f err) | Inr _ \<Rightarrow> Inr x) = Inr y \<longleftrightarrow> r = Inr () \<and> x = y"
  by (cases r) auto

lemma parse_manifest_valid: "parse_manifest l content = Inr m \<Longrightarrow> validate_manifest (rx_crate l) m = Inr ()"
  by (cases "toml l content") (auto simp: parse_manifest_def and_then_Inr unit_result)

lemma parse_remote_Inr:
  "parse_remote_manifest_for_agent l agent content = Inr (m, version) \<Longrightarrow>
     parse_manifest l content = Inr m \<and> manifest_matches_agent m agent \<and> manifest_version m = Some version"
  by (auto simp: parse_remote_manifest_for_agent_def and_then_Inr split: if_splits option.splits)

lemma compiled_manifest_valid:
  assumes "validate_manifest (rx_crate l) m = Inr ()"
  shows "\<exists>rules. compile_manifest (rx_crate l) (lowercase l) m = Inr rules
    \<and> compiled_manifest l m source warning cached shadowing = Inr \<lparr>lm_manifest = m, lm_compiled_rules = rules,
        lm_source = source, lm_warning = warning, lm_cached_remote_version = cached, lm_override_shadowing = shadowing\<rparr>"
  using validated_compiles [OF assms, of "lowercase l"] by (auto simp: compiled_manifest_def and_then_def)

text \<open>What is known of the manifest the update check left.\<close>

definition remote_outcome ::
    "loader \<Rightarrow> file_tree \<Rightarrow> agent \<Rightarrow> agent_manifest \<Rightarrow> loaded_manifest option \<Rightarrow> bool" where
  "remote_outcome l fs agent bundled remote \<longleftrightarrow>
     (case remote of
        None \<Rightarrow> \<not> path_exists fs (remote_manifest_path l agent) \<and> usable_remote l fs agent bundled = None
      | Some loaded \<Rightarrow> path_exists fs (remote_manifest_path l agent) \<and> well_loaded l loaded
          \<and> (case usable_remote l fs agent bundled of
               Some (m, version) \<Rightarrow> lm_manifest loaded = m \<and> lm_warning loaded = None
                 \<and> lm_source loaded = Remote (remote_manifest_path l agent) version
             | None \<Rightarrow> lm_manifest loaded = bundled \<and> lm_source loaded = Bundled \<and> lm_warning loaded \<noteq> None))"

lemma bundled_loads:
  assumes "validate_manifest (rx_crate l) bundled = Inr ()"
  shows "\<exists>loaded. bundled_loaded_manifest l bundled warning cached shadowing = Some loaded
    \<and> well_loaded l loaded \<and> lm_manifest loaded = bundled \<and> lm_source loaded = Bundled \<and> lm_warning loaded = warning"
  using compiled_manifest_valid [OF assms, of Bundled warning cached shadowing] assms
  by (auto simp: bundled_loaded_manifest_def well_loaded_def)

lemma remote_outcome_bundled:
  assumes "validate_manifest (rx_crate l) bundled = Inr ()" "path_exists fs (remote_manifest_path l agent)"
    "usable_remote l fs agent bundled = None"
  shows "\<exists>remote. map_option Some (bundled_loaded_manifest l bundled (Some warning) cached False) = Some remote
    \<and> remote_outcome l fs agent bundled remote"
  using bundled_loads [OF assms(1), of "Some warning" cached False] assms(2,3)
  by (auto simp: remote_outcome_def)

lemma read_remote_outcome:
  assumes valid: "validate_manifest (rx_crate l) bundled = Inr ()"
  shows "\<exists>remote. read_remote_manifest l fs agent bundled = Some remote \<and> remote_outcome l fs agent bundled remote"
proof (cases "fs (remote_manifest_path l agent)")
  case NoFile
  then show ?thesis
    by (simp add: read_remote_manifest_def remote_outcome_def path_exists_def usable_remote_def)
next
  case (UnreadableFile err)
  then show ?thesis
    using remote_outcome_bundled [OF valid, of fs agent]
    by (simp add: read_remote_manifest_def path_exists_def usable_remote_def read_to_string_def)
next
  case (TextFile content)
  note there = TextFile
  show ?thesis
  proof (cases "parse_remote_manifest_for_agent l agent content")
    case (Inl err)
    then show ?thesis
      using remote_outcome_bundled [OF valid, of fs agent] there
      by (simp add: read_remote_manifest_def path_exists_def usable_remote_def read_to_string_def and_then_def)
  next
    case (Inr r)
    obtain m version where r: "r = (m, version)" by (cases r)
    have m: "parse_manifest l content = Inr m" "manifest_version m = Some version"
      using parse_remote_Inr [of l agent content m version] Inr r by simp_all
    note compiled = compiled_manifest_valid [OF parse_manifest_valid [OF m(1)]]
    show ?thesis
    proof (cases "is_some_and (\<lambda>b. version_cmp version b = Smaller) (manifest_version bundled)")
      case True
      then obtain b where "manifest_version bundled = Some b" "version_cmp version b = Smaller"
        by (cases "manifest_version bundled") auto
      then show ?thesis
        using remote_outcome_bundled [OF valid, of fs agent] there Inr r m(2)
        by (simp add: read_remote_manifest_def path_exists_def usable_remote_def read_to_string_def and_then_def)
    next
      case False
      then have old: "Option.bind (manifest_version bundled)
          (\<lambda>b. if version_cmp version b = Smaller then Some (version, b) else None) = None"
        by (cases "manifest_version bundled") auto
      obtain rules where "compile_manifest (rx_crate l) (lowercase l) m = Inr rules"
        "compiled_manifest l m (Remote (remote_manifest_path l agent) version) None None False
          = Inr \<lparr>lm_manifest = m, lm_compiled_rules = rules, lm_source = Remote (remote_manifest_path l agent) version,
              lm_warning = None, lm_cached_remote_version = None, lm_override_shadowing = False\<rparr>"
        using compiled by blast
      then show ?thesis
        using there Inr r m False old parse_manifest_valid [OF m(1)]
        by (simp add: read_remote_manifest_def path_exists_def usable_remote_def read_to_string_def and_then_def
            remote_outcome_def well_loaded_def)
    qed
  qed
qed

text \<open>A file that is there and is not used, although no manifest of the user takes its place.\<close>

definition unused_file :: "loader \<Rightarrow> file_tree \<Rightarrow> agent \<Rightarrow> agent_manifest \<Rightarrow> bool" where
  "unused_file l fs agent bundled \<longleftrightarrow> usable_override l fs agent = None
     \<and> (is_some_and (path_exists fs) (override_path l agent)
        \<or> path_exists fs (remote_manifest_path l agent) \<and> usable_remote l fs agent bundled = None)"

definition load_outcome :: "loader \<Rightarrow> file_tree \<Rightarrow> agent \<Rightarrow> agent_manifest \<Rightarrow> loaded_manifest \<Rightarrow> bool" where
  "load_outcome l fs agent bundled loaded \<longleftrightarrow> well_loaded l loaded
     \<and> (lm_manifest loaded, lm_source loaded) = chosen_manifest l fs agent bundled
     \<and> (lm_warning loaded \<noteq> None \<longleftrightarrow> unused_file l fs agent bundled)"

lemma bundled_valid: "bundled_manifest l agent = Some (Some b) \<Longrightarrow> validate_manifest (rx_crate l) b = Inr ()"
  by (auto simp: bundled_manifest_def dest: parse_manifest_valid split: option.splits sum.splits)

text \<open>What stands in for a missing or unusable manifest of the user.\<close>

lemma without_override:
  assumes "validate_manifest (rx_crate l) bundled = Inr ()" "remote_outcome l fs agent bundled remote"
  shows "\<exists>loaded. remote_or_bundled l bundled
      (map_option (\<lambda>r. r\<lparr>lm_cached_remote_version := cached, lm_override_shadowing := shadowing\<rparr>) remote) cached shadowing
        = Some loaded
    \<and> well_loaded l loaded
    \<and> (lm_manifest loaded, lm_source loaded) = (case usable_remote l fs agent bundled of
          Some (m, version) \<Rightarrow> (m, Remote (remote_manifest_path l agent) version) | None \<Rightarrow> (bundled, Bundled))
    \<and> (lm_warning loaded \<noteq> None \<longleftrightarrow>
        path_exists fs (remote_manifest_path l agent) \<and> usable_remote l fs agent bundled = None)"
proof (cases remote)
  case None
  then show ?thesis using bundled_loads [OF assms(1), of None cached shadowing] assms(2)
    by (auto simp: remote_or_bundled_def remote_outcome_def)
next
  case (Some loaded)
  then show ?thesis using assms(2)
    by (auto simp: remote_or_bundled_def remote_outcome_def well_loaded_def split: option.splits)
qed

lemma load_outcome_holds:
  assumes found: "bundled_manifest l agent = Some (Some bundled)"
  shows "\<exists>loaded. load_manifest_uncached l fs agent = Some (Some loaded) \<and> load_outcome l fs agent bundled loaded"
proof -
  note valid = bundled_valid [OF found]
  obtain remote where remote: "read_remote_manifest l fs agent bundled = Some remote"
    "remote_outcome l fs agent bundled remote"
    using read_remote_outcome [OF valid] by blast
  obtain path where path: "override_path l agent = Some path" by (simp add: override_path_def)
  define cached where "cached = Option.bind remote cached_version_of"
  obtain other where other: "remote_or_bundled l bundled
      (map_option (\<lambda>r. r\<lparr>lm_cached_remote_version := cached, lm_override_shadowing := path_exists fs path \<and> cached \<noteq> None\<rparr>) remote)
      cached (path_exists fs path \<and> cached \<noteq> None)
        = Some other" "well_loaded l other"
    "(lm_manifest other, lm_source other) = (case usable_remote l fs agent bundled of
       Some (m, version) \<Rightarrow> (m, Remote (remote_manifest_path l agent) version) | None \<Rightarrow> (bundled, Bundled))"
    "lm_warning other \<noteq> None \<longleftrightarrow>
       path_exists fs (remote_manifest_path l agent) \<and> usable_remote l fs agent bundled = None"
    using without_override [OF valid remote(2), of "path_exists fs path \<and> cached \<noteq> None" cached] by blast
  note loading = load_manifest_uncached_def found remote(1) path cached_def [symmetric]
    Let_def
  note outcome = load_outcome_def chosen_manifest_def usable_override_def unused_file_def path well_loaded_def
  consider (absent) "\<not> path_exists fs path"
    | (unreadable) err where "path_exists fs path" "read_override_manifest l fs path = Inl err"
    | (foreign) m where "path_exists fs path" "read_override_manifest l fs path = Inr m" "\<not> manifest_matches_agent m agent"
    | (used) m where "path_exists fs path" "read_override_manifest l fs path = Inr m" "manifest_matches_agent m agent"
    by (cases "read_override_manifest l fs path") auto
  then show ?thesis
  proof cases
    case absent
    then have "read_override_manifest l fs path = Inl (CannotRead (lit ''not found''))"
      by (simp add: read_override_manifest_def read_to_string_def path_exists_def)
    with absent show ?thesis using other by (simp add: loading outcome)
  next
    case unreadable
    then show ?thesis using other by (simp add: loading outcome)
  next
    case foreign
    then show ?thesis using other by (simp add: loading outcome)
  next
    case used
    then have "validate_manifest (rx_crate l) m = Inr ()"
      by (auto simp: read_override_manifest_def dest: parse_manifest_valid split: sum.splits)
    then show ?thesis
      using used compiled_manifest_valid [of l m "Override path" None cached "cached \<noteq> None"] by (auto simp: loading outcome)
  qed
qed

end
