(* ===== verification/Manifest_Updates.thy ===== *)
theory Manifest_Updates
  imports Manifest_Loading
begin

text \<open>
  The update check, \<open>src/detect/manifest_update.rs\<close>: it fetches a catalogue, then the manifest of each
  agent the catalogue names, and keeps the ones that are newer than the ones it has. The crates and
  the network are parameters: \<open>toml_catalog\<close> reads the catalogue, \<open>fetch\<close> is \<open>curl\<close>, and
  \<open>write_error\<close> tells which writes fail. A file is written beside its place and renamed to it, so a
  write that fails leaves the old file.
\<close>

section \<open>The catalogue\<close>

record catalog_entry =
  entry_id :: "text"
  entry_path :: "text"

record manifest_catalog =
  schema_version :: u32
  catalog_entries :: "catalog_entry list"

datatype catalog_error =
    BadCatalog "text"
  | UnsupportedSchema u32
  | EmptyPath "text"
  | UnsafePath "text" "text"
  | DuplicateAgent "text"

record catalog_agent =
  ca_agent :: agent
  ca_path :: "text"

definition unsafe_path :: "text \<Rightarrow> bool" where
  "unsafe_path path \<longleftrightarrow> contains_text path (lit ''://'') \<or> starts_with path (lit ''/'')
     \<or> list_ex (\<lambda>part. part = lit ''..'') (split_on (\<lambda>c. c = 47) path)"

fun catalog_loop :: "catalog_entry list \<Rightarrow> text set \<Rightarrow> catalog_agent list \<Rightarrow> catalog_error + catalog_agent list" where
  "catalog_loop [] seen agents = Inr agents"
| "catalog_loop (entry # entries) seen agents =
     (case parse_agent_label (entry_id entry) of
        None \<Rightarrow> catalog_loop entries seen agents
      | Some agent \<Rightarrow>
          if trim (entry_path entry) = [] then Inl (EmptyPath (entry_id entry))
          else if unsafe_path (entry_path entry) then Inl (UnsafePath (entry_id entry) (entry_path entry))
          else if agent_label agent \<in> seen then Inl (DuplicateAgent (entry_id entry))
          else catalog_loop entries (insert (agent_label agent) seen)
                 (agents @ [\<lparr>ca_agent = agent, ca_path = entry_path entry\<rparr>]))"

definition parse_catalog ::
    "(text \<Rightarrow> text + manifest_catalog) \<Rightarrow> text \<Rightarrow> catalog_error + catalog_agent list" where
  "parse_catalog toml_catalog content =
     (case toml_catalog content of
        Inl err \<Rightarrow> Inl (BadCatalog err)
      | Inr catalog \<Rightarrow>
          if schema_version catalog \<noteq> 1 then Inl (UnsupportedSchema (schema_version catalog))
          else catalog_loop (catalog_entries catalog) {} [])"

definition base_url :: "text \<Rightarrow> text option" where
  "base_url url = map_option (\<lambda>i. take i url) (rposition (\<lambda>c. c = 47) url)"

definition join_url :: "text \<Rightarrow> text \<Rightarrow> text option" where
  "join_url base path =
     (if unsafe_path path then None else Some (trim_end_matches (\<lambda>c. c = 47) base @ lit ''/'' @ path))"

section \<open>The manifest of an agent\<close>

datatype update_error =
    FetchFailed "text"
  | Rejected load_error
  | OlderThanCached "text" "text"
  | ChangedWithoutBump "text"
  | CommitFailed "text"

record update_commit =
  commit_agent :: agent
  commit_version :: "text"

definition cached_remote_version :: "loader \<Rightarrow> file_tree \<Rightarrow> agent \<Rightarrow> text option" where
  "cached_remote_version l fs agent =
     (case read_to_string fs (remote_manifest_path l agent) of
        Inl _ \<Rightarrow> None
      | Inr content \<Rightarrow> (case parse_remote_manifest_for_agent l agent content of Inl _ \<Rightarrow> None | Inr (_, version) \<Rightarrow> Some version))"

definition commit_remote_manifest ::
    "loader \<Rightarrow> (text \<Rightarrow> text option) \<Rightarrow> file_tree \<Rightarrow> agent \<Rightarrow> text \<Rightarrow> file_tree \<times> text option" where
  "commit_remote_manifest l write_error fs agent content =
     (let path = remote_manifest_path l agent
      in case write_error path of Some err \<Rightarrow> (fs, Some err) | None \<Rightarrow> (fs(path := TextFile content), None))"

definition commit_parsed ::
    "loader \<Rightarrow> (text \<Rightarrow> text option) \<Rightarrow> file_tree \<Rightarrow> agent \<Rightarrow> text \<Rightarrow> text \<Rightarrow>
     file_tree \<times> (update_error + update_commit option)" where
  "commit_parsed l write_error fs agent content version =
     (case commit_remote_manifest l write_error fs agent content of
        (fs1, Some err) \<Rightarrow> (fs1, Inl (CommitFailed err))
      | (fs1, None) \<Rightarrow> (fs1, Inr (Some \<lparr>commit_agent = agent, commit_version = version\<rparr>)))"

definition process_agent_manifest ::
    "loader \<Rightarrow> (text \<Rightarrow> text option) \<Rightarrow> file_tree \<Rightarrow> agent \<Rightarrow> text \<Rightarrow>
     file_tree \<times> (update_error + update_commit option)" where
  "process_agent_manifest l write_error fs agent content =
     (case parse_remote_manifest_for_agent l agent content of
        Inl err \<Rightarrow> (fs, Inl (Rejected err))
      | Inr (_, version) \<Rightarrow>
          (case cached_remote_version l fs agent of
             None \<Rightarrow> commit_parsed l write_error fs agent content version
           | Some current \<Rightarrow>
               (case version_cmp version current of
                  Smaller \<Rightarrow> (fs, Inl (OlderThanCached version current))
                | Same \<Rightarrow>
                    if (case read_to_string fs (remote_manifest_path l agent) of Inl _ \<Rightarrow> [] | Inr committed \<Rightarrow> committed)
                         \<noteq> content
                    then (fs, Inl (ChangedWithoutBump version))
                    else (fs, Inr None)
                | Bigger \<Rightarrow> commit_parsed l write_error fs agent content version)))"

section \<open>The check\<close>

record agent_remote_status =
  cached_version :: "text option"
  attempted_version :: "text option"
  last_checked_unix :: "nat option"
  agent_last_result :: "text"
  last_error :: "update_error option"

datatype check_error = CannotFetch "text" | CatalogRejected catalog_error | NoBasePath "text" | UnsafeManifestPath

datatype check_result = Checked | FailedToSave "text" | CheckFailed check_error

record update_status =
  last_check_unix :: "nat option"
  last_result :: "check_result option"
  status_agents :: "text \<Rightarrow> agent_remote_status option"

definition process_entry ::
    "loader \<Rightarrow> (text \<Rightarrow> text option) \<Rightarrow> nat \<Rightarrow> catalog_agent \<Rightarrow> text + text \<Rightarrow>
     file_tree \<times> update_status \<times> update_commit list \<Rightarrow> file_tree \<times> update_status \<times> update_commit list" where
  "process_entry l write_error check_time entry fetched s =
     (case s of (fs, status, updated) \<Rightarrow>
      let agent = ca_agent entry;
          (fs1, outcome) = (case fetched of
            Inl err \<Rightarrow> (fs, Inl (FetchFailed err))
          | Inr content \<Rightarrow> process_agent_manifest l write_error fs agent content);
          entry_status = (case outcome of
            Inr (Some commit) \<Rightarrow>
              \<lparr>cached_version = Some (commit_version commit), attempted_version = Some (commit_version commit),
               last_checked_unix = Some check_time, agent_last_result = lit ''updated'', last_error = None\<rparr>
          | Inr None \<Rightarrow>
              \<lparr>cached_version = cached_remote_version l fs1 agent, attempted_version = None,
               last_checked_unix = Some check_time, agent_last_result = lit ''current'', last_error = None\<rparr>
          | Inl err \<Rightarrow>
              \<lparr>cached_version = cached_remote_version l fs1 agent, attempted_version = None,
               last_checked_unix = Some check_time, agent_last_result = lit ''failed'', last_error = Some err\<rparr>)
      in (fs1, status\<lparr>status_agents := (status_agents status)(agent_label agent \<mapsto> entry_status)\<rparr>,
          (case outcome of Inr (Some commit) \<Rightarrow> updated @ [commit] | _ \<Rightarrow> updated)))"

text \<open>The result is \<open>None\<close> when an address cannot be built, which ends the check.\<close>

fun update_loop ::
    "loader \<Rightarrow> (text \<Rightarrow> text option) \<Rightarrow> (text \<Rightarrow> text + text) \<Rightarrow> text \<Rightarrow> nat \<Rightarrow> catalog_agent list \<Rightarrow>
     file_tree \<times> update_status \<times> update_commit list \<Rightarrow> file_tree \<times> (update_status \<times> update_commit list) option" where
  "update_loop l write_error fetch base check_time [] (fs, status, updated) = (fs, Some (status, updated))"
| "update_loop l write_error fetch base check_time (entry # entries) s =
     (case join_url base (ca_path entry) of
        None \<Rightarrow> (fst s, None)
      | Some url \<Rightarrow>
          update_loop l write_error fetch base check_time entries
            (process_entry l write_error check_time entry (fetch url) s))"

definition check_and_update_from_url ::
    "loader \<Rightarrow> (text \<Rightarrow> text + manifest_catalog) \<Rightarrow> (text \<Rightarrow> text option) \<Rightarrow> (text \<Rightarrow> text + text) \<Rightarrow> text option \<Rightarrow>
     nat \<Rightarrow> update_status \<Rightarrow> file_tree \<Rightarrow> text \<Rightarrow>
     file_tree \<times> (check_error + update_commit list \<times> update_status)" where
  "check_and_update_from_url l toml_catalog write_error fetch save_error check_time loaded fs url =
     (case fetch url of
        Inl err \<Rightarrow> (fs, Inl (CannotFetch err))
      | Inr content \<Rightarrow>
     (case parse_catalog toml_catalog content of
        Inl err \<Rightarrow> (fs, Inl (CatalogRejected err))
      | Inr entries \<Rightarrow>
     (case base_url url of
        None \<Rightarrow> (fs, Inl (NoBasePath url))
      | Some base \<Rightarrow>
     (case update_loop l write_error fetch base check_time entries
             (fs, loaded\<lparr>last_check_unix := Some check_time, last_result := Some Checked\<rparr>, []) of
        (fs1, None) \<Rightarrow> (fs1, Inl UnsafeManifestPath)
      | (fs1, Some (status, updated)) \<Rightarrow>
          (fs1, Inr (updated, case save_error of
             Some err \<Rightarrow> status\<lparr>last_result := Some (FailedToSave err)\<rparr> | None \<Rightarrow> status))))))"

text \<open>What the thread does with the result: the manifests are loaded again when one was updated, and
  the event carries the commits and the status.\<close>

definition auto_update ::
    "loader \<Rightarrow> (text \<Rightarrow> text + manifest_catalog) \<Rightarrow> (text \<Rightarrow> text option) \<Rightarrow> (text \<Rightarrow> text + text) \<Rightarrow> text option \<Rightarrow>
     nat \<Rightarrow> update_status \<Rightarrow> file_tree \<Rightarrow> (agent \<times> loaded_manifest option) list \<Rightarrow> text \<Rightarrow>
     file_tree \<times> (agent \<times> loaded_manifest option) list option \<times> update_commit list \<times> update_status" where
  "auto_update l toml_catalog write_error fetch save_error check_time loaded fs manifests url =
     (case check_and_update_from_url l toml_catalog write_error fetch save_error check_time loaded fs url of
        (fs1, Inr (updated, status)) \<Rightarrow>
          (fs1, if updated \<noteq> [] then build_manifest_cache l fs1 else Some manifests, updated, status)
      | (fs1, Inl err) \<Rightarrow>
          (fs1, Some manifests, [],
           loaded\<lparr>last_check_unix := Some check_time, last_result := Some (CheckFailed err)\<rparr>))"

section \<open>The catalogue is safe\<close>

definition safe_catalog :: "catalog_agent list \<Rightarrow> bool" where
  "safe_catalog agents \<longleftrightarrow> distinct (map ca_agent agents) \<and> list_all (\<lambda>a. \<not> unsafe_path (ca_path a)) agents"

lemma catalog_loop_safe:
  assumes "catalog_loop entries seen agents = Inr result" "safe_catalog agents"
    "\<forall>a \<in> set agents. agent_label (ca_agent a) \<in> seen"
  shows "safe_catalog result"
  using assms
proof (induction entries seen agents rule: catalog_loop.induct)
  case (2 entry entries seen agents)
  then show ?case
    by (cases "parse_agent_label (entry_id entry)") (auto simp: safe_catalog_def split: if_splits)
qed simp

lemma parse_catalog_safe: "parse_catalog toml_catalog content = Inr agents \<Longrightarrow> safe_catalog agents"
  by (auto simp: parse_catalog_def safe_catalog_def [of "[]"] dest: catalog_loop_safe split: sum.splits if_splits)

section \<open>What a check changes\<close>

lemma remote_path_inject [simp]: "remote_manifest_path l a = remote_manifest_path l b \<longleftrightarrow> a = b"
  by (simp add: remote_manifest_path_def)

text \<open>No commit for an agent leaves its file; a commit replaces the content by another one, which is a
  manifest for the agent, of the version the commit names, and that is newer than the one before.\<close>

definition update_of :: "loader \<Rightarrow> file_tree \<Rightarrow> file_tree \<Rightarrow> agent \<Rightarrow> update_commit list \<Rightarrow> bool" where
  "update_of l fs fs' a commits \<longleftrightarrow>
     (case commits of
        [] \<Rightarrow> fs' (remote_manifest_path l a) = fs (remote_manifest_path l a)
      | [c] \<Rightarrow> fs' (remote_manifest_path l a) \<noteq> fs (remote_manifest_path l a)
          \<and> cached_remote_version l fs' a = Some (commit_version c)
          \<and> is_none_or (\<lambda>old. version_cmp (commit_version c) old = Bigger) (cached_remote_version l fs a)
      | _ \<Rightarrow> False)"

abbreviation commits_of :: "agent \<Rightarrow> update_commit list \<Rightarrow> update_commit list" where
  "commits_of a \<equiv> filter (\<lambda>c. commit_agent c = a)"

definition only_remote_files :: "loader \<Rightarrow> file_tree \<Rightarrow> file_tree \<Rightarrow> bool" where
  "only_remote_files l fs fs' \<longleftrightarrow> (\<forall>path. path \<notin> range (remote_manifest_path l) \<longrightarrow> fs' path = fs path)"

lemma version_cmp_refl [simp]: "version_cmp v v = Same"
  by (simp add: version_cmp_def compare_segments_same)

lemma cached_version_local:
  "fs (remote_manifest_path l a) = fs' (remote_manifest_path l a) \<Longrightarrow>
     cached_remote_version l fs a = cached_remote_version l fs' a"
  by (simp add: cached_remote_version_def read_to_string_def)

lemma cached_version_text:
  "fs (remote_manifest_path l a) = TextFile content \<Longrightarrow> cached_remote_version l fs a =
     (case parse_remote_manifest_for_agent l a content of Inl _ \<Rightarrow> None | Inr (_, version) \<Rightarrow> Some version)"
  by (simp add: cached_remote_version_def read_to_string_def)

lemma commit_parsed_effect:
  assumes "parse_remote_manifest_for_agent l a content = Inr (m, version)"
    "is_none_or (\<lambda>old. version_cmp version old = Bigger) (cached_remote_version l fs a)"
    "commit_parsed l write_error fs a content version = (fs1, outcome)"
  shows "(fs1 = fs \<and> (\<exists>err. outcome = Inl err))
    \<or> ((\<exists>file. fs1 = fs(remote_manifest_path l a := file))
       \<and> outcome = Inr (Some \<lparr>commit_agent = a, commit_version = version\<rparr>)
       \<and> update_of l fs fs1 a [\<lparr>commit_agent = a, commit_version = version\<rparr>])"
proof (cases "write_error (remote_manifest_path l a)")
  case None
  have "fs (remote_manifest_path l a) \<noteq> TextFile content"
    using assms(1,2) by (auto dest: cached_version_text)
  then show ?thesis
    using assms None by (auto simp: commit_parsed_def commit_remote_manifest_def update_of_def cached_version_text)
next
  case (Some err)
  then show ?thesis using assms by (auto simp: commit_parsed_def commit_remote_manifest_def)
qed

lemma process_agent_effect:
  assumes "process_agent_manifest l write_error fs a content = (fs1, outcome)"
  shows "(fs1 = fs \<and> (\<forall>c. outcome \<noteq> Inr (Some c)))
    \<or> ((\<exists>file. fs1 = fs(remote_manifest_path l a := file))
       \<and> (\<exists>c. outcome = Inr (Some c) \<and> commit_agent c = a \<and> update_of l fs fs1 a [c]))"
proof (cases "parse_remote_manifest_for_agent l a content")
  case (Inl err)
  then show ?thesis using assms by (auto simp: process_agent_manifest_def)
next
  case (Inr r)
  obtain m version where r: "parse_remote_manifest_for_agent l a content = Inr (m, version)" by (cases r) (simp add: Inr)
  show ?thesis
  proof (cases "is_none_or (\<lambda>old. version_cmp version old = Bigger) (cached_remote_version l fs a)")
    case True
    then have "commit_parsed l write_error fs a content version = (fs1, outcome)"
      using assms r by (cases "cached_remote_version l fs a") (simp_all add: process_agent_manifest_def)
    from commit_parsed_effect [OF r True this] show ?thesis by auto
  next
    case False
    then obtain old where "cached_remote_version l fs a = Some old" "version_cmp version old \<noteq> Bigger"
      by (cases "cached_remote_version l fs a") auto
    then show ?thesis
      using assms r by (auto simp: process_agent_manifest_def split: ordering.splits if_splits)
  qed
qed

lemma process_entry_effect:
  assumes "process_entry l write_error check_time entry fetched (fs, status, updated) = (fs1, status1, updated1)"
  shows "\<exists>new st. updated1 = updated @ new \<and> (\<exists>file. fs1 = fs(remote_manifest_path l (ca_agent entry) := file))
    \<and> (\<forall>c \<in> set new. commit_agent c = ca_agent entry) \<and> update_of l fs fs1 (ca_agent entry) new
    \<and> status1 = status\<lparr>status_agents := (status_agents status)(agent_label (ca_agent entry) \<mapsto> st)\<rparr>
    \<and> cached_version st = cached_remote_version l fs1 (ca_agent entry)"
proof -
  obtain fs2 outcome where outcome: "(case fetched of Inl err \<Rightarrow> (fs, Inl (FetchFailed err))
      | Inr content \<Rightarrow> process_agent_manifest l write_error fs (ca_agent entry) content) = (fs2, outcome)"
    by fastforce
  have same: "\<exists>file. fs = fs(remote_manifest_path l (ca_agent entry) := file)" by (metis fun_upd_triv)
  have "(fs2 = fs \<and> (\<forall>c. outcome \<noteq> Inr (Some c)))
    \<or> ((\<exists>file. fs2 = fs(remote_manifest_path l (ca_agent entry) := file))
       \<and> (\<exists>c. outcome = Inr (Some c) \<and> commit_agent c = ca_agent entry \<and> update_of l fs fs2 (ca_agent entry) [c]))"
    using outcome process_agent_effect [of l write_error fs "ca_agent entry"] by (auto split: sum.splits)
  then show ?thesis
  proof
    assume keep: "fs2 = fs \<and> (\<forall>c. outcome \<noteq> Inr (Some c))"
    then have "update_of l fs fs2 (ca_agent entry) []" by (simp add: update_of_def)
    then show ?thesis using assms keep outcome same
      by (auto simp: process_entry_def Let_def split: sum.splits option.splits)
  next
    assume commit: "(\<exists>file. fs2 = fs(remote_manifest_path l (ca_agent entry) := file))
       \<and> (\<exists>c. outcome = Inr (Some c) \<and> commit_agent c = ca_agent entry \<and> update_of l fs fs2 (ca_agent entry) [c])"
    then obtain c where c: "outcome = Inr (Some c)" "commit_agent c = ca_agent entry"
      "update_of l fs fs2 (ca_agent entry) [c]" by blast
    moreover from this have "cached_remote_version l fs2 (ca_agent entry) = Some (commit_version c)"
      by (simp add: update_of_def)
    moreover have "fs1 = fs2" "updated1 = updated @ [c]"
      "\<exists>st. status1 = status\<lparr>status_agents := (status_agents status)(agent_label (ca_agent entry) \<mapsto> st)\<rparr>
        \<and> cached_version st = Some (commit_version c)"
      using assms outcome c(1) by (auto simp: process_entry_def Let_def)
    ultimately show ?thesis using commit by auto
  qed
qed

text \<open>The whole loop, for a catalogue that names no agent twice.\<close>

definition status_accurate :: "loader \<Rightarrow> file_tree \<Rightarrow> update_status \<Rightarrow> agent \<Rightarrow> bool" where
  "status_accurate l fs status a \<longleftrightarrow>
     map_option cached_version (status_agents status (agent_label a)) = Some (cached_remote_version l fs a)"

definition loop_effect ::
    "loader \<Rightarrow> agent set \<Rightarrow> file_tree \<Rightarrow> update_status \<Rightarrow> file_tree \<Rightarrow> update_status \<Rightarrow> update_commit list \<Rightarrow> bool" where
  "loop_effect l agents fs status fs' status' new \<longleftrightarrow>
     (\<forall>a. update_of l fs fs' a (commits_of a new)) \<and> (\<forall>c \<in> set new. commit_agent c \<in> agents)
     \<and> only_remote_files l fs fs'
     \<and> (\<forall>a \<in> agents. status_accurate l fs' status' a)
     \<and> (\<forall>a. a \<notin> agents \<longrightarrow> status_agents status' (agent_label a) = status_agents status (agent_label a))"

lemma update_of_old:
  "fs (remote_manifest_path l a) = fs1 (remote_manifest_path l a) \<Longrightarrow> update_of l fs fs' a commits = update_of l fs1 fs' a commits"
  using cached_version_local [of fs l a fs1] by (simp add: update_of_def split: list.splits)

lemma update_of_new:
  "fs' (remote_manifest_path l a) = fs1 (remote_manifest_path l a) \<Longrightarrow> update_of l fs fs' a commits = update_of l fs fs1 a commits"
  using cached_version_local [of fs' l a fs1] by (simp add: update_of_def split: list.splits)

lemma loop_effect_step:
  assumes one: "fs1 = fs(remote_manifest_path l b := file)" and new1: "\<forall>c \<in> set new1. commit_agent c = b"
    and update: "update_of l fs fs1 b new1"
    and status: "status1 = status\<lparr>status_agents := (status_agents status)(agent_label b \<mapsto> st)\<rparr>"
    "cached_version st = cached_remote_version l fs1 b"
    and rest: "loop_effect l agents fs1 status1 fs' status' new2" and b: "b \<notin> agents"
  shows "loop_effect l (insert b agents) fs status fs' status' (new1 @ new2)"
proof -
  note rest = rest [unfolded loop_effect_def]
  have none: "commits_of b new2 = []" using rest b by (auto simp: filter_empty_conv)
  then have stays: "fs' (remote_manifest_path l b) = fs1 (remote_manifest_path l b)"
    using rest by (auto simp: update_of_def dest!: spec [of _ b])
  have all_new: "commits_of b new1 = new1" using new1 by simp
  have "update_of l fs fs' a (commits_of a (new1 @ new2))" for a
  proof (cases "a = b")
    case True
    then show ?thesis using update none all_new update_of_new [of fs' l b fs1 fs, OF stays] by simp
  next
    case False
    then have "commits_of a new1 = []" using new1 by (auto simp: filter_empty_conv)
    moreover have "fs (remote_manifest_path l a) = fs1 (remote_manifest_path l a)" using one False by simp
    ultimately show ?thesis using rest update_of_old [of fs l a fs1 fs'] by simp
  qed
  moreover have "only_remote_files l fs fs'" using rest one by (auto simp: only_remote_files_def)
  moreover have "status_accurate l fs' status' b"
    using rest b status cached_version_local [of fs' l b fs1, OF stays] by (simp add: status_accurate_def)
  ultimately show ?thesis
    using rest new1 status unfolding loop_effect_def by auto
qed

lemma update_loop_effect:
  assumes "safe_catalog entries"
  shows "\<exists>fs' status' new. update_loop l write_error fetch base check_time entries (fs, status, updated)
      = (fs', Some (status', updated @ new)) \<and> loop_effect l (ca_agent ` set entries) fs status fs' status' new"
  using assms
proof (induction entries arbitrary: fs status updated)
  case Nil
  then show ?case by (auto simp: loop_effect_def update_of_def only_remote_files_def)
next
  case (Cons entry entries)
  obtain url where url: "join_url base (ca_path entry) = Some url"
    using Cons.prems by (simp add: join_url_def safe_catalog_def)
  obtain fs1 status1 updated1 where
    step: "process_entry l write_error check_time entry (fetch url) (fs, status, updated) = (fs1, status1, updated1)"
    by (metis prod_cases3)
  obtain new1 st content where new1: "updated1 = updated @ new1" "fs1 = fs(remote_manifest_path l (ca_agent entry) := content)"
    "\<forall>c \<in> set new1. commit_agent c = ca_agent entry" "update_of l fs fs1 (ca_agent entry) new1"
    "status1 = status\<lparr>status_agents := (status_agents status)(agent_label (ca_agent entry) \<mapsto> st)\<rparr>"
    "cached_version st = cached_remote_version l fs1 (ca_agent entry)"
    using process_entry_effect [OF step] by blast
  have "safe_catalog entries" using Cons.prems by (simp add: safe_catalog_def)
  then obtain fs' status' new2 where
    rest: "update_loop l write_error fetch base check_time entries (fs1, status1, updated1)
      = (fs', Some (status', updated1 @ new2))" "loop_effect l (ca_agent ` set entries) fs1 status1 fs' status' new2"
    using Cons.IH by blast
  have "ca_agent entry \<notin> ca_agent ` set entries" using Cons.prems by (simp add: safe_catalog_def)
  from loop_effect_step [OF new1(2-6) rest(2) this] show ?case
    using url step rest(1) new1(1) by simp
qed

end
