(* ===== verification/Manifest_Facts.thy ===== *)
theory Manifest_Facts
  imports Manifest_Whole_Lines Manifest_Updates
begin

text \<open>
  What the evaluation of a manifest computes: the reference is the first rule among those of the
  highest priority that match, and a detection read off it. Then what a check for updates does to the
  files and the cache.
\<close>

section \<open>The reference\<close>

text \<open>The first rule that no other rule outranks.\<close>

definition outranked_by_none :: "manifest_rule list \<Rightarrow> manifest_rule \<Rightarrow> bool" where
  "outranked_by_none rs r \<longleftrightarrow> (\<forall>s \<in> set rs. priority s \<le> priority r)"

definition foremost :: "manifest_rule list \<Rightarrow> manifest_rule option" where
  "foremost rs = find (outranked_by_none rs) rs"

definition rule_applies :: "(text \<Rightarrow> text) \<Rightarrow> detection_input \<Rightarrow> manifest_rule \<times> compiled_gate \<Rightarrow> bool" where
  "rule_applies lower input = (\<lambda>(r, g). is_some_and (compiled_rule_matches lower g) (region input (rule_region r)))"

definition applicable_rules :: "(text \<Rightarrow> text) \<Rightarrow> loaded_manifest \<Rightarrow> detection_input \<Rightarrow> manifest_rule list" where
  "applicable_rules lower loaded input =
     map fst (filter (rule_applies lower input) (zip (manifest_rules (lm_manifest loaded)) (lm_compiled_rules loaded)))"

definition detection_of_rule :: "manifest_rule option \<Rightarrow> agent_detection" where
  "detection_of_rule found =
     (case found of
        None \<Rightarrow> \<lparr>det_state = Idle, det_skip_state_update = False, det_visible_idle = False,
                 det_visible_blocker = False, det_visible_working = False\<rparr>
      | Some r \<Rightarrow> \<lparr>det_state = state_of_rule r, det_skip_state_update = rule_skip_state_update r,
                 det_visible_idle = (rule_visible_idle r \<and> state_of_rule r = Idle),
                 det_visible_blocker = (rule_visible_blocker r \<and> state_of_rule r = Blocked),
                 det_visible_working = (rule_visible_working r \<and> state_of_rule r = Working)\<rparr>)"

section \<open>The loop\<close>

lemma foremost_single [simp]: "foremost [r] = Some r"
  by (simp add: foremost_def outranked_by_none_def)

lemma foremost_Nil [simp]: "foremost [] = None"
  by (simp add: foremost_def)

lemma foremost_keep:
  assumes "priority r \<le> priority p"
  shows "foremost (p # r # rs) = foremost (p # rs)"
proof -
  have "outranked_by_none (p # r # rs) = outranked_by_none (p # rs)"
    using assms by (auto simp: outranked_by_none_def fun_eq_iff)
  moreover have "\<not> outranked_by_none (p # rs) r" if "\<not> outranked_by_none (p # rs) p"
    using that assms by (force simp: outranked_by_none_def)
  ultimately show ?thesis by (simp add: foremost_def)
qed

lemma foremost_drop:
  assumes "priority p < priority r"
  shows "foremost (p # r # rs) = foremost (r # rs)"
proof -
  have "outranked_by_none (p # r # rs) = outranked_by_none (r # rs)"
    using assms by (auto simp: outranked_by_none_def fun_eq_iff)
  moreover have "\<not> outranked_by_none (r # rs) p" using assms by (auto simp: outranked_by_none_def)
  ultimately show ?thesis by (simp add: foremost_def)
qed

lemma foremost_SomeD: "foremost rs = Some r \<Longrightarrow> r \<in> set rs \<and> (\<forall>s \<in> set rs. priority s \<le> priority r)"
  by (auto simp: foremost_def outranked_by_none_def find_Some_iff)

text \<open>The rules the loop still has to choose from: the one it holds, and those that are left.\<close>

definition held :: "manifest_rule option \<Rightarrow> manifest_rule list" where
  "held matched = (case matched of None \<Rightarrow> [] | Some p \<Rightarrow> [p])"

lemma evaluate_loop_foremost:
  assumes "\<forall>(r, g) \<in> set pairs. region input (rule_region r) \<noteq> None"
  shows "\<exists>evaluated1. evaluate_loop lower input pairs matched evaluated
    = Some (foremost (held matched @ map fst (filter (rule_applies lower input) pairs)), evaluated1)
    \<and> map er_matched evaluated1 = map er_matched evaluated @ map (rule_applies lower input) pairs"
  using assms
proof (induction lower input pairs matched evaluated rule: evaluate_loop.induct)
  case (1 lower input matched evaluated)
  then show ?case by (cases matched) (simp_all add: held_def)
next
  case (2 lower input r g rules matched evaluated)
  obtain t where t: "region input (rule_region r) = Some t" using "2.prems" by auto
  have prems: "\<forall>(r, g) \<in> set rules. region input (rule_region r) \<noteq> None" using "2.prems" by auto
  have applies: "rule_applies lower input (r, g) = compiled_rule_matches lower g t" by (simp add: rule_applies_def t)
  note IH = "2.IH" [OF t refl refl refl prems]
  show ?case
  proof (cases "compiled_rule_matches lower g t")
    case hit: True
    show ?thesis
    proof (cases matched)
      case None
      then show ?thesis using IH t applies hit by (simp add: Let_def held_def)
    next
      case (Some p)
      then show ?thesis using IH t applies hit foremost_keep foremost_drop
        by (cases "priority r \<le> priority p") (simp_all add: Let_def held_def)
    qed
  next
    case False
    then show ?thesis using IH t applies by (simp add: Let_def)
  qed
qed

lemma region_total:
  "13 \<notin> set (screen input) \<Longrightarrow> region input spec \<noteq> None"
proof (cases "trim spec = lit ''osc_title'' \<or> trim spec = lit ''osc_progress''")
  case True
  then show "13 \<notin> set (screen input) \<Longrightarrow> region input spec \<noteq> None" by (auto simp: region_def)
next
  case False
  then show "13 \<notin> set (screen input) \<Longrightarrow> region input spec \<noteq> None"
    using region_whole [of input spec] by (auto simp: whole_def)
qed

definition no_carriage_return :: "detection_input \<Rightarrow> bool" where
  "no_carriage_return input \<longleftrightarrow> 13 \<notin> set (screen input)"

lemma evaluation_is_foremost:
  assumes "no_carriage_return input"
  shows "\<exists>x. evaluate_loaded_manifest lower status agent input loaded include = Some x
    \<and> into_detection x = detection_of_rule (foremost (applicable_rules lower loaded input))
    \<and> map er_matched (ex_evaluated_rules x)
        = map (rule_applies lower input) (zip (manifest_rules (lm_manifest loaded)) (lm_compiled_rules loaded))"
proof -
  define pairs where "pairs = zip (manifest_rules (lm_manifest loaded)) (lm_compiled_rules loaded)"
  have "\<forall>(r, g) \<in> set pairs. region input (rule_region r) \<noteq> None"
    using assms region_total by (auto simp: no_carriage_return_def)
  from evaluate_loop_foremost [OF this, of lower None "[]"] obtain evaluated where
    loop: "evaluate_loop lower input pairs None [] = Some (foremost (applicable_rules lower loaded input), evaluated)"
    "map er_matched evaluated = map (rule_applies lower input) pairs"
    by (auto simp: held_def applicable_rules_def pairs_def)
  show ?thesis
  proof (cases "foremost (applicable_rules lower loaded input)")
    case None
    then show ?thesis using loop
      by (simp add: evaluate_loaded_manifest_def pairs_def into_detection_def fallback_explain_def detection_of_rule_def)
  next
    case (Some r)
    then show ?thesis using loop
      by (simp add: evaluate_loaded_manifest_def pairs_def into_detection_def detection_of_rule_def Let_def)
  qed
qed

lemma manifest_detect_foremost:
  assumes "no_carriage_return \<lparr>screen = content, input_osc_title = title, input_osc_progress = progress\<rparr>"
    and "cache agent = Some loaded"
  shows "manifest_detect lower cache agent content title progress
    = Some (detection_of_rule (foremost (applicable_rules lower loaded
        \<lparr>screen = content, input_osc_title = title, input_osc_progress = progress\<rparr>)))"
  using evaluation_is_foremost [OF assms(1), of lower "\<lambda>_. None" agent loaded False] assms(2)
  by (auto simp: manifest_detect_def Let_def)

lemma manifest_skips_foremost:
  assumes "no_carriage_return \<lparr>screen = content, input_osc_title = [], input_osc_progress = []\<rparr>"
    and "cache agent = Some loaded"
  shows "manifest_skips lower cache agent content
    = Some (is_some_and rule_skip_state_update (foremost (applicable_rules lower loaded
        \<lparr>screen = content, input_osc_title = [], input_osc_progress = []\<rparr>)))"
proof -
  have skip: "ex_skip_state_update x = det_skip_state_update (into_detection x)" for x
    by (simp add: into_detection_def)
  show ?thesis
    using evaluation_is_foremost [OF assms(1), of lower "\<lambda>_. None" agent loaded False] assms(2)
    by (auto simp: manifest_skips_def skip detection_of_rule_def split: option.splits)
qed

lemma explanation_detects:
  "map_option into_detection (evaluate_loaded_manifest lower status agent input loaded include)
    = map_option into_detection (evaluate_loaded_manifest lower status' agent input loaded include')"
  by (auto simp: evaluate_loaded_manifest_def into_detection_def fallback_explain_def Let_def split: option.splits)

section \<open>The rule that decided\<close>

lemma evaluate_loop_member:
  "evaluate_loop lower input pairs matched evaluated = Some (Some r, evaluated1) \<Longrightarrow>
     r \<in> fst ` set pairs \<or> matched = Some r"
proof (induction pairs arbitrary: matched evaluated)
  case (Cons p pairs)
  obtain q g where p: "p = (q, g)" by (cases p)
  obtain t where t: "region input (rule_region q) = Some t"
    using Cons.prems p by (cases "region input (rule_region q)") auto
  define chosen where "chosen = (if \<not> compiled_rule_matches lower g t then matched
    else case matched of Some previous \<Rightarrow> if priority previous \<ge> priority q then matched else Some q | None \<Rightarrow> Some q)"
  have "\<exists>evaluated0. evaluate_loop lower input pairs chosen evaluated0 = Some (Some r, evaluated1)"
    using Cons.prems by (auto simp: p t Let_def chosen_def)
  then have "r \<in> fst ` set pairs \<or> chosen = Some r" using Cons.IH by blast
  then show ?case by (auto simp: p chosen_def split: if_splits option.splits)
qed simp

lemma evaluation_of_validated:
  assumes "well_loaded l loaded"
    and "evaluate_loaded_manifest lower status agent input loaded include = Some x" "into_detection x = d"
  shows "(det_visible_idle d \<longrightarrow> det_state d = Idle) \<and> (det_visible_blocker d \<longrightarrow> det_state d = Blocked)
    \<and> (det_visible_working d \<longrightarrow> det_state d = Working)
    \<and> (det_skip_state_update d \<longrightarrow> det_state d = Unknown \<and> \<not> det_visible_idle d \<and> \<not> det_visible_blocker d
        \<and> \<not> det_visible_working d)"
proof -
  obtain found evaluated where loop: "evaluate_loop lower input
      (zip (manifest_rules (lm_manifest loaded)) (lm_compiled_rules loaded)) None [] = Some (found, evaluated)"
    using assms(2) by (auto simp: evaluate_loaded_manifest_def split: option.splits)
  show ?thesis
  proof (cases found)
    case None
    then show ?thesis using assms(2,3) loop
      by (auto simp: evaluate_loaded_manifest_def into_detection_def fallback_explain_def)
  next
    case (Some r)
    then have "r \<in> set (manifest_rules (lm_manifest loaded))"
      using evaluate_loop_member loop by (fastforce dest: set_zip_leftD)
    then have "rule_skip_state_update r \<longrightarrow> rule_state r = Some MUnknown \<and> \<not> rule_visible_idle r
        \<and> \<not> rule_visible_blocker r \<and> \<not> rule_visible_working r"
      using validated_skips [of "rx_crate l" "lm_manifest loaded" r] assms(1) by (auto simp: well_loaded_def)
    then show ?thesis using assms(2,3) loop Some
      by (auto simp: evaluate_loaded_manifest_def into_detection_def Let_def state_of_rule_def)
  qed
qed

section \<open>An update and what it leaves\<close>

lemma check_changes:
  assumes "check_and_update_from_url l toml_catalog write_error fetch save_error check_time loaded fs url = (fs', result)"
  shows "case result of
      Inl err \<Rightarrow> fs' = fs \<and> err \<noteq> UnsafeManifestPath
    | Inr (updated, status) \<Rightarrow> \<exists>agents status0. loop_effect l agents fs status0 fs' status updated"
proof (cases "fetch url")
  case (Inr content)
  note fetched = Inr
  show ?thesis
  proof (cases "parse_catalog toml_catalog content")
    case (Inr entries)
    note parsed = Inr
    show ?thesis
    proof (cases "base_url url")
      case (Some base)
      obtain fs1 status1 new where loop: "update_loop l write_error fetch base check_time entries
          (fs, loaded\<lparr>last_check_unix := Some check_time, last_result := Some Checked\<rparr>, [])
        = (fs1, Some (status1, new))" "loop_effect l (ca_agent ` set entries) fs
          (loaded\<lparr>last_check_unix := Some check_time, last_result := Some Checked\<rparr>) fs1 status1 new"
        using update_loop_effect [OF parse_catalog_safe [OF parsed], of l write_error fetch base check_time fs
            "loaded\<lparr>last_check_unix := Some check_time, last_result := Some Checked\<rparr>" "[]"] by auto
      have "loop_effect l (ca_agent ` set entries) fs
          (loaded\<lparr>last_check_unix := Some check_time, last_result := Some Checked\<rparr>) fs1
          (status1\<lparr>last_result := r\<rparr>) new" for r
        using loop(2) by (simp add: loop_effect_def status_accurate_def)
      moreover obtain status where "result = Inr (new, status)" "status = status1 \<or> (\<exists>r. status = status1\<lparr>last_result := r\<rparr>)"
          "fs' = fs1"
        using assms fetched parsed Some loop(1)
        by (cases save_error) (auto simp: check_and_update_from_url_def)
      ultimately show ?thesis using loop(2) by auto
    next
      case None
      then show ?thesis using assms fetched parsed by (auto simp: check_and_update_from_url_def)
    qed
  next
    case (Inl err)
    then show ?thesis using assms fetched by (auto simp: check_and_update_from_url_def)
  qed
next
  case (Inl err)
  then show ?thesis using assms by (auto simp: check_and_update_from_url_def)
qed

definition not_behind :: "text option \<Rightarrow> text option \<Rightarrow> bool" where
  "not_behind now old \<longleftrightarrow> (case old of
     None \<Rightarrow> True
   | Some v \<Rightarrow> (case now of None \<Rightarrow> False | Some w \<Rightarrow> w = v \<or> version_cmp w v = Bigger))"

lemma update_of_forward:
  assumes "update_of l fs fs' a commits"
  shows "not_behind (cached_remote_version l fs' a) (cached_remote_version l fs a)"
proof (cases commits)
  case Nil
  then have "cached_remote_version l fs' a = cached_remote_version l fs a"
    using assms by (intro cached_version_local) (simp add: update_of_def)
  then show ?thesis by (simp add: not_behind_def split: option.split)
next
  case (Cons c rest)
  then have "rest = []" using assms by (cases rest) (simp_all add: update_of_def)
  then show ?thesis using assms Cons by (auto simp: update_of_def not_behind_def split: option.split)
qed

lemma no_commit_no_change: "loop_effect l agents fs status fs' status' [] \<Longrightarrow> fs' = fs"
proof
  fix path
  assume "loop_effect l agents fs status fs' status' []"
  then show "fs' path = fs path"
    by (cases "path \<in> range (remote_manifest_path l)")
      (auto simp: loop_effect_def update_of_def only_remote_files_def)
qed

text \<open>No update: the files are what they were. An update: the manifests are those of the new files.\<close>

lemma auto_update_effect:
  assumes "auto_update l toml_catalog write_error fetch save_error check_time loaded fs manifests url
    = (fs', manifests', updated, status)"
  shows "(\<forall>a. update_of l fs fs' a (commits_of a updated))" "only_remote_files l fs fs'"
    "build_manifest_cache l fs = Some manifests \<Longrightarrow> manifests' = build_manifest_cache l fs'"
    "c \<in> set updated \<Longrightarrow> status_accurate l fs' status (commit_agent c)"
proof -
  obtain fs1 result where check: "check_and_update_from_url l toml_catalog write_error fetch save_error check_time loaded fs url
      = (fs1, result)" by fastforce
  note changes = check_changes [OF check]
  have "(\<forall>a. update_of l fs fs' a (commits_of a updated)) \<and> only_remote_files l fs fs'
    \<and> (build_manifest_cache l fs = Some manifests \<longrightarrow> manifests' = build_manifest_cache l fs')
    \<and> (c \<in> set updated \<longrightarrow> status_accurate l fs' status (commit_agent c))"
  proof (cases result)
    case (Inl err)
    then show ?thesis using assms check changes by (auto simp: auto_update_def update_of_def only_remote_files_def)
  next
    case (Inr r)
    obtain agents status0 where effect: "loop_effect l agents fs status0 fs' status updated"
      using assms check changes Inr by (auto simp: auto_update_def)
    have "build_manifest_cache l fs = Some manifests \<longrightarrow> manifests' = build_manifest_cache l fs'"
      using assms check Inr effect no_commit_no_change [of l agents fs status0 fs' status]
      by (cases r; cases "updated = []") (auto simp: auto_update_def)
    then show ?thesis using effect by (auto simp: loop_effect_def)
  qed
  then show "(\<forall>a. update_of l fs fs' a (commits_of a updated))" "only_remote_files l fs fs'"
    "build_manifest_cache l fs = Some manifests \<Longrightarrow> manifests' = build_manifest_cache l fs'"
    "c \<in> set updated \<Longrightarrow> status_accurate l fs' status (commit_agent c)" by blast+
qed

lemma loaded_from_cache:
  "load_all l fs agents = Some manifests \<Longrightarrow> load_manifest manifests agent = Some loaded \<Longrightarrow>
     load_manifest_uncached l fs agent = Some (Some loaded)"
  by (induction agents arbitrary: manifests)
    (auto simp: load_manifest_def split: option.splits if_splits)

lemma bundled_when_loaded:
  "load_manifest_uncached l fs agent = Some (Some loaded) \<Longrightarrow> \<exists>b. bundled_manifest l agent = Some (Some b)"
  by (auto simp: load_manifest_uncached_def bind_eq_Some_conv split: option.splits)

lemma cached_is_well_loaded:
  assumes "build_manifest_cache l fs = Some manifests" "load_manifest manifests agent = Some loaded"
  shows "well_loaded l loaded"
proof -
  have loaded: "load_manifest_uncached l fs agent = Some (Some loaded)"
    using loaded_from_cache assms by (simp add: build_manifest_cache_def)
  then obtain b where b: "bundled_manifest l agent = Some (Some b)" using bundled_when_loaded by blast
  show ?thesis using load_outcome_holds [OF b, of fs] loaded by (auto simp: load_outcome_def)
qed

end
