(* ===== verification/Manifest_Claims.thy ===== *)
theory Manifest_Claims
  imports Manifest_Facts Detection_Machine "HOL-Library.Code_Target_Nat"
begin

text \<open>
  The properties of the screen manifests. The example of the witnesses is not the manifest of the
  program: it has two of the seven rules of \<open>src/detect/manifests/codex.toml\<close>, the first and the
  third, and there is a version of it that the update check could fetch.
\<close>

section \<open>The example\<close>

definition title_rule :: manifest_rule where
  "title_rule = \<lparr>rule_id = lit ''osc_title_blocked'', rule_state = Some MBlocked, priority = 1100,
     rule_region = lit ''osc_title'', rule_visible_idle = False, rule_visible_blocker = True, rule_visible_working = False,
     rule_skip_state_update = False, rule_gate = Gate [] [] [] [lit ''Action Required''] [] []\<rparr>"

definition transcript_rule :: manifest_rule where
  "transcript_rule = \<lparr>rule_id = lit ''transcript_viewer'', rule_state = Some MUnknown, priority = 1000,
     rule_region = lit ''after_last_prompt_marker'', rule_visible_idle = False, rule_visible_blocker = False,
     rule_visible_working = False, rule_skip_state_update = True,
     rule_gate = Gate []
       [Gate [] [] [] [lit ''esc to edit prev''] [] [], Gate [] [] [] [lit ''esc/'' @ [8592] @ lit '' to edit prev''] [] []] []
       [[8593, 47, 8595] @ lit '' to scroll'', lit ''pgup/pgdn to'', lit ''home/end to jump'', lit ''q to quit''] [] []\<rparr>"

definition codex_manifest :: agent_manifest where
  "codex_manifest = \<lparr>manifest_id = lit ''codex'', manifest_version = Some (lit ''2026.07.18.1''),
     min_engine_version = Some 2, manifest_aliases = [], manifest_rules = [title_rule, transcript_rule]\<rparr>"

definition codex_loader :: loader where
  "codex_loader = \<lparr>toml = (\<lambda>content. if content = lit ''bundled'' then Inr codex_manifest
       else if content = lit ''newer'' then Inr (codex_manifest\<lparr>manifest_version := Some (lit ''2026.08'')\<rparr>)
       else Inl (lit ''syntax'')),
     rx_crate = (\<lambda>_. Inl (lit ''no patterns'')), lowercase = to_lowercase, say = (\<lambda>_. []),
     bundled_texts = [(lit ''codex'', lit ''bundled'')], config_directory = lit ''/c'', state_directory = lit ''/s''\<rparr>"

definition transcript_screen :: "text" where
  "transcript_screen = [8593, 47, 8595] @ lit '' to scroll  pgup/pgdn to page  home/end to jump  q to quit  esc to edit prev''"

text \<open>A carriage return in front of each line feed, and three such lines before the region.\<close>

definition crlf_screen :: "text" where
  "crlf_screen = [97, 13, 10, 98, 13, 10, 8250, 32, 9472, 13, 10]"

definition plain_screen :: "text" where
  "plain_screen = [97, 10, 98, 10, 8250, 32, 9472, 10]"

definition without_files :: file_tree where
  "without_files = (\<lambda>_. NoFile)"

definition codex_cache :: manifest_cache where
  "codex_cache = (case build_manifest_cache codex_loader without_files of Some manifests \<Rightarrow> load_manifest manifests | None \<Rightarrow> \<lambda>_. None)"

section \<open>Regions\<close>

text \<open>C26. A region is made of whole lines. On a screen without carriage returns, taking a region never
  panics; what it takes is a contiguous part of the screen, and its lines are the ones the region names:
  all of them, those after, before or around the prompt, those in or above the prompt box, those after the
  last rule, or a number of them from one end.\<close>

theorem regions_are_whole_lines:
  assumes "13 \<notin> set (screen input)" "trim spec \<noteq> lit ''osc_title''" "trim spec \<noteq> lit ''osc_progress''"
  shows "\<exists>r. region input spec = Some r \<and> str_lines r = region_lines (str_lines (screen input)) spec
    \<and> (\<exists>before after. screen input = before @ r @ after)"
  using region_whole [OF assms] by (auto simp: whole_def run_of_def)

theorem regions_are_whole_lines_witness:
  "region \<lparr>screen = plain_screen, input_osc_title = [], input_osc_progress = []\<rparr> (lit '' bottom_lines(2)'')
     = Some [98, 10, 8250, 32, 9472, 10]
   \<and> region_lines (str_lines plain_screen) (lit '' bottom_lines(2)'') = [[98], [8250, 32, 9472]]"
proof -
  have "13 \<notin> set (screen \<lparr>screen = plain_screen, input_osc_title = [], input_osc_progress = []\<rparr>)"
    "trim (lit '' bottom_lines(2)'') \<noteq> lit ''osc_title''" "trim (lit '' bottom_lines(2)'') \<noteq> lit ''osc_progress''"
    by code_simp+
  from regions_are_whole_lines [OF this] obtain r where
    r: "region \<lparr>screen = plain_screen, input_osc_title = [], input_osc_progress = []\<rparr> (lit '' bottom_lines(2)'') = Some r"
    "str_lines r = region_lines (str_lines plain_screen) (lit '' bottom_lines(2)'')" by auto
  have taken: "region \<lparr>screen = plain_screen, input_osc_title = [], input_osc_progress = []\<rparr> (lit '' bottom_lines(2)'')
     = Some [98, 10, 8250, 32, 9472, 10]" by code_simp
  have "str_lines [98, 10, 8250, 32, 9472, 10] = [[98], [8250, 32, 9472]]" by code_simp
  with r taken show ?thesis by simp
qed

text \<open>Lines that end in a carriage return and a line feed.\<close>

definition crlf :: "text list \<Rightarrow> text" where
  "crlf ls = concat (map (\<lambda>l. l @ [13, 10]) ls)"

lemma crlf_Cons: "crlf (l # ls) = (l @ [13]) @ 10 # crlf ls" and crlf_append: "crlf (ls @ ks) = crlf ls @ crlf ks"
  by (simp_all add: crlf_def)

lemma line_of_crlf: "line_of (l @ [13, 10]) = l"
  by (simp add: line_of_def strip_suffix_def ends_with_iff)

lemma crlf_lines:
  assumes "\<forall>l \<in> set ls. 10 \<notin> set l"
  shows "str_lines (crlf ls @ rest) = ls @ str_lines rest"
  using assms
proof (induction ls)
  case (Cons l ls)
  have "10 \<notin> set (l @ [13])" using Cons.prems by simp
  from split_lines_piece [OF this, of "crlf ls @ rest"] have
    "split_lines (crlf (l # ls) @ rest) = ((l @ [13]) @ [10]) # split_lines (crlf ls @ rest)"
    by (simp add: crlf_Cons)
  then have "str_lines (crlf (l # ls) @ rest) = line_of ((l @ [13]) @ [10]) # str_lines (crlf ls @ rest)"
    by (simp only: str_lines_def list.map)
  then show ?case using Cons by (simp add: line_of_crlf)
qed (simp add: crlf_def)

lemma crlf_length: "str_len (crlf ls) = line_sum ls + length ls"
  by (induction ls) (simp_all add: crlf_def len_utf8_def)

lemma split_at_byte_after:
  "split_at_byte (str_len a + m) (a @ b) = map_option (\<lambda>(x, y). (a @ x, y)) (split_at_byte m b)"
proof (induction a)
  case Nil
  then show ?case by (cases "split_at_byte m b") auto
next
  case (Cons c a)
  then show ?case by (cases "split_at_byte m b") auto
qed

lemma slice_inside_char:
  assumes "0 < k" "k < len_utf8 c"
  shows "slice_from (str_len a + k) (a @ c # b) = None"
  using assms by (simp add: slice_from_def split_at_byte_after)

lemma line_sum_append: "line_sum (ls @ ks) = line_sum ls + line_sum ks"
  by (simp add: line_sum_def)

lemma rposition_middle:
  assumes "p x" "\<not> list_ex p ys"
  shows "rposition p ((xs @ [x]) @ ys) = Some (length xs)"
  using assms(2)
proof (induction ys rule: rev_induct)
  case Nil
  then show ?case using assms(1) by (simp only: append_Nil2 position_rev_snoc if_True)
next
  case (snoc y ys)
  then show ?case by (simp add: position_rev_snoc flip: append_assoc)
qed

lemma last_prompt_then_offset:
  assumes "\<forall>l \<in> set (ls @ [p @ [c]]). 10 \<notin> set l" "codex_prompt_line (p @ [c])"
    and "\<not> list_ex codex_prompt_line (str_lines rest)"
    and "1 < length ls" "length ls \<le> len_utf8 c"
  shows "after_last_prompt_marker (crlf (ls @ [p @ [c]]) @ rest) = None"
proof -
  define t where "t = crlf (ls @ [p @ [c]]) @ rest"
  have lines: "str_lines t = (ls @ [p @ [c]]) @ str_lines rest"
    unfolding t_def by (rule crlf_lines) (rule assms(1))
  have found: "rposition codex_prompt_line (str_lines t) = Some (length ls)"
    using assms(2,3) unfolding lines by (rule rposition_middle)
  define k where "k = 2 + len_utf8 c - Suc (length ls)"
  have k: "0 < k" "k < len_utf8 c" using assms(4,5) by (auto simp: k_def)
  have t: "t = (crlf ls @ p) @ c # [13, 10] @ rest" by (simp add: t_def crlf_append crlf_def)
  have sum: "line_sum (ls @ [p @ [c]]) = str_len (crlf ls @ p) + k"
    using assms(4,5) by (simp add: line_sum_def [symmetric] crlf_length line_sum_append k_def)
  have len: "str_len (crlf ls @ p) + k \<le> str_len t" using k by (simp add: t)
  have "line_start_offset t (str_lines t) (length ls + 1) = str_len (crlf ls @ p) + k"
    using len sum by (simp add: line_start_offset_def lines line_sum_def)
  then have "slice_from_line_index t (str_lines t) (length ls + 1) = None"
    using len slice_inside_char [OF k, of "crlf ls @ p" "[13, 10] @ rest"]
    by (simp add: slice_from_line_index_def t)
  then show ?thesis using found by (simp add: after_last_prompt_marker_def t_def Let_def)
qed

lemma evaluate_loop_panics:
  "(r, g) \<in> set pairs \<Longrightarrow> region input (rule_region r) = None \<Longrightarrow> evaluate_loop lower input pairs matched evaluated = None"
  by (induction pairs arbitrary: matched evaluated) (auto simp: Let_def split: option.splits)

lemma evaluation_panics:
  assumes "well_loaded l loaded" "r \<in> set (manifest_rules (lm_manifest loaded))" "region input (rule_region r) = None"
  shows "evaluate_loaded_manifest lower status agent input loaded include = None"
proof -
  have "length (lm_compiled_rules loaded) = length (manifest_rules (lm_manifest loaded))"
    using assms(1) validated_compiles [of "rx_crate l" "lm_manifest loaded" "lowercase l"] by (auto simp: well_loaded_def)
  then obtain g where "(r, g) \<in> set (zip (manifest_rules (lm_manifest loaded)) (lm_compiled_rules loaded))"
    using assms(2) by (metis in_set_impl_in_set_zip1)
  then show ?thesis using assms(3) by (simp add: evaluate_loaded_manifest_def evaluate_loop_panics)
qed

text \<open>C40. On a text with carriage returns the evaluation can panic, whatever the manifest is, when one of its
  rules looks at the region after the prompt: the offset of a line is computed with one byte for each line
  end. When the last line with a prompt is the n-th, all lines up to it end in a carriage return and a line
  feed, and its last character has more than n - 2 bytes, with n more than two, the offset falls into
  that character. Then the region panics, and so do the detection on that text, under any titles, and the
  explanation of it, which is what the command that explains the detection for a file computes.\<close>

theorem carriage_returns_panic:
  assumes "content = crlf (ls @ [p @ [c]]) @ rest" "\<forall>l \<in> set (ls @ [p @ [c]]). 10 \<notin> set l"
    and "codex_prompt_line (p @ [c])" "\<not> list_ex codex_prompt_line (str_lines rest)"
    and "1 < length ls" "length ls \<le> len_utf8 c"
    and "build_manifest_cache l fs = Some manifests" "load_manifest manifests agent = Some loaded"
    and "r \<in> set (manifest_rules (lm_manifest loaded))" "trim (rule_region r) = lit ''after_last_prompt_marker''"
  shows "region \<lparr>screen = content, input_osc_title = title, input_osc_progress = progress\<rparr> (rule_region r) = None
    \<and> manifest_detect (lowercase l) (load_manifest manifests) agent content title progress = None
    \<and> (parse_agent_label label = Some agent \<longrightarrow>
         explain_for_label (lowercase l) status (load_manifest manifests) label content = None)"
proof -
  have region: "region \<lparr>screen = content, input_osc_title = title', input_osc_progress = progress'\<rparr> (rule_region r) = None"
    for title' progress'
    using last_prompt_then_offset [OF assms(2-6)] by (simp add: region_def Let_def assms(1,10) lit_def)
  note loaded = cached_is_well_loaded [OF assms(7,8)]
  show ?thesis using region evaluation_panics [OF loaded assms(9) region] assms(8)
    by (simp add: manifest_detect_def explain_for_label_def explain_with_input_def Let_def)
qed

theorem carriage_returns_panic_witness:
  "explain_for_label (lowercase codex_loader) (\<lambda>_. None) codex_cache (lit ''codex'') crlf_screen = None"
proof -
  have parsed: "parse_agent_label (lit ''codex'') = Some Codex"
    and built: "build_manifest_cache codex_loader without_files \<noteq> None"
    and rules: "map_option (\<lambda>loaded. manifest_rules (lm_manifest loaded)) (codex_cache Codex)
      = Some (manifest_rules codex_manifest)" by code_simp+
  from built obtain manifests where manifests: "build_manifest_cache codex_loader without_files = Some manifests" by blast
  then have cache: "codex_cache = load_manifest manifests" by (simp add: codex_cache_def)
  from rules obtain loaded where loaded: "load_manifest manifests Codex = Some loaded"
    "manifest_rules (lm_manifest loaded) = manifest_rules codex_manifest" by (auto simp: cache)
  have rule: "transcript_rule \<in> set (manifest_rules (lm_manifest loaded))"
    by (simp add: loaded codex_manifest_def)
  have "crlf_screen = crlf ([[97], [98]] @ [[8250, 32] @ [9472]]) @ []"
    "\<forall>l \<in> set ([[97], [98]] @ [[8250, 32] @ [9472::nat]]). 10 \<notin> set l"
    "codex_prompt_line ([8250, 32] @ [9472])" "\<not> list_ex codex_prompt_line (str_lines [])"
    "1 < length [[97], [98::nat]]" "length [[97], [98::nat]] \<le> len_utf8 9472"
    "trim (rule_region transcript_rule) = lit ''after_last_prompt_marker''" by code_simp+
  from carriage_returns_panic [OF this(1-6) manifests loaded(1) rule this(7), where label = "lit ''codex''" and status = "\<lambda>_. None"]
  show ?thesis using parsed by (simp add: cache)
qed

section \<open>Detection\<close>

text \<open>C25. On a screen without carriage returns, as the terminal's text is, the detection is that of the foremost
  rule: of the rules that apply to what the terminal shows, the first of those with the highest priority decides the state and the evidence, and without any the agent
  counts as idle. The decision to keep the state is that of the foremost rule for the screen without titles.
  The explanation evaluates every rule, in order, and ends in the same detection.\<close>

theorem detection_is_the_foremost_rule:
  assumes "13 \<notin> set content" "cache agent = Some loaded"
  shows "manifest_detect lower cache agent content title progress
      = Some (detection_of_rule (foremost (applicable_rules lower loaded
          \<lparr>screen = content, input_osc_title = title, input_osc_progress = progress\<rparr>)))
    \<and> manifest_skips lower cache agent content
      = Some (is_some_and rule_skip_state_update (foremost (applicable_rules lower loaded
          \<lparr>screen = content, input_osc_title = [], input_osc_progress = []\<rparr>)))
    \<and> (\<exists>x. explain_with_input lower status cache agent
          \<lparr>screen = content, input_osc_title = title, input_osc_progress = progress\<rparr> = Some x
        \<and> Some (into_detection x) = manifest_detect lower cache agent content title progress
        \<and> map er_matched (ex_evaluated_rules x) = map (rule_applies lower
            \<lparr>screen = content, input_osc_title = title, input_osc_progress = progress\<rparr>)
            (zip (manifest_rules (lm_manifest loaded)) (lm_compiled_rules loaded)))"
  using manifest_detect_foremost [of content title progress cache agent loaded lower]
    manifest_skips_foremost [of content cache agent loaded lower]
    evaluation_is_foremost [of "\<lparr>screen = content, input_osc_title = title, input_osc_progress = progress\<rparr>"
      lower status agent loaded True] assms
  by (auto simp: no_carriage_return_def explain_with_input_def)

theorem detection_is_the_foremost_rule_witness:
  "\<exists>loaded. codex_cache Codex = Some loaded
     \<and> manifest_detect to_lowercase codex_cache Codex plain_screen (lit ''Action Required'') []
         = Some (detection_of_rule (foremost (applicable_rules to_lowercase loaded
             \<lparr>screen = plain_screen, input_osc_title = lit ''Action Required'', input_osc_progress = []\<rparr>)))
     \<and> manifest_detect to_lowercase codex_cache Codex plain_screen (lit ''Action Required'') []
         = Some \<lparr>det_state = Blocked, det_skip_state_update = False, det_visible_idle = False,
             det_visible_blocker = True, det_visible_working = False\<rparr>"
proof -
  have "codex_cache Codex \<noteq> None" "13 \<notin> set plain_screen" by code_simp+
  then obtain loaded where loaded: "codex_cache Codex = Some loaded" by blast
  have "manifest_detect to_lowercase codex_cache Codex plain_screen (lit ''Action Required'') []
         = Some \<lparr>det_state = Blocked, det_skip_state_update = False, det_visible_idle = False,
             det_visible_blocker = True, det_visible_working = False\<rparr>" by code_simp
  moreover note detection_is_the_foremost_rule [where cache = codex_cache and agent = Codex and loaded = loaded
      and lower = to_lowercase and title = "lit ''Action Required''" and progress = "[]",
      OF \<open>13 \<notin> set plain_screen\<close> loaded]
  ultimately show ?thesis using loaded by blast
qed

text \<open>C30. Evidence agrees with the state: whatever the files say, a detection by a manifest the program has
  loaded shows an idle, a blocking or a working screen only with the state of that name, and one that keeps
  the state is of the unknown state and shows nothing.\<close>

theorem evidence_agrees_with_state:
  assumes "build_manifest_cache l fs = Some manifests"
    and "manifest_detect (lowercase l) (load_manifest manifests) agent content title progress = Some d"
  shows "(det_visible_idle d \<longrightarrow> det_state d = Idle) \<and> (det_visible_blocker d \<longrightarrow> det_state d = Blocked)
    \<and> (det_visible_working d \<longrightarrow> det_state d = Working)
    \<and> (det_skip_state_update d \<longrightarrow> det_state d = Unknown \<and> \<not> det_visible_idle d \<and> \<not> det_visible_blocker d
        \<and> \<not> det_visible_working d)"
proof (cases "load_manifest manifests agent")
  case None
  then show ?thesis using assms(2) by (auto simp: manifest_detect_def Let_def fallback_explain_def into_detection_def)
next
  case (Some loaded)
  then obtain x where "evaluate_loaded_manifest (lowercase l) (\<lambda>_. None) agent
      \<lparr>screen = content, input_osc_title = title, input_osc_progress = progress\<rparr> loaded False = Some x" "into_detection x = d"
    using assms(2) by (auto simp: manifest_detect_def Let_def)
  then show ?thesis by (rule evaluation_of_validated [OF cached_is_well_loaded [OF assms(1) Some]])
qed

theorem evidence_agrees_with_state_witness:
  "\<exists>manifests d. build_manifest_cache codex_loader without_files = Some manifests
     \<and> manifest_detect (lowercase codex_loader) (load_manifest manifests) Codex transcript_screen [] [] = Some d
     \<and> det_skip_state_update d \<and> det_state d = Unknown"
proof -
  have computed: "map_option (\<lambda>manifests. map_option det_skip_state_update (manifest_detect (lowercase codex_loader)
      (load_manifest manifests) Codex transcript_screen [] [])) (build_manifest_cache codex_loader without_files) = Some (Some True)"
    by code_simp
  then obtain manifests d where found: "build_manifest_cache codex_loader without_files = Some manifests"
    "manifest_detect (lowercase codex_loader) (load_manifest manifests) Codex transcript_screen [] [] = Some d"
    "det_skip_state_update d" by auto
  with evidence_agrees_with_state [OF found(1,2)] show ?thesis by blast
qed

lemma kept_state_is_silent:
  assumes "skip_state_update rules g (ti_content i)"
  shows "fst (read_screen PaneTask rules i suppressed gc (Some g) changed exited d) = []"
  using assms by (simp add: read_screen_def Let_def should_skip_state_update_def split: screen_read_decision.split)

lemma read_screen_names_the_agent:
  "StateChanged a st blocker working exited' t \<in> set (fst (read_screen task rules i suppressed gc agent changed exited d)) \<Longrightarrow>
     a = agent"
  by (auto simp: read_screen_def publish_phase_def apply_agent_detection_publish_update_def Let_def
      split: screen_read_decision.splits if_splits option.splits prod.splits)

lemma probe_starts_idle:
  assumes "probe_phase task i suppressed d = (agent, changed, effects, d')"
    "StateChanged a st blocker working exited t \<in> set effects"
  shows "st = Idle \<and> \<not> blocker \<and> \<not> working \<and> \<not> exited"
  using assms by (auto simp: probe_phase_def start_agent_def Let_def split: prod.splits if_splits)

text \<open>C39. The decision to keep the state does not look at the titles, and it is taken first. Whatever the
  manifest is: when the foremost rule for the screen alone keeps the state, and with the titles a rule
  outranks it, one that sees the agent blocked for instance, then the detection is the one of that rule, but
  a tick of the pane task that reads this screen sends no event with it: all that can be sent for the agent
  is the start of its process, which is idle and shows nothing; not even its exit is sent.\<close>

theorem keeping_the_state_ignores_titles:
  assumes "13 \<notin> set (ti_content i)" "cache g = Some loaded"
    and "foremost (applicable_rules lower loaded
          \<lparr>screen = ti_content i, input_osc_title = [], input_osc_progress = []\<rparr>) = Some s" "rule_skip_state_update s"
    and "foremost (applicable_rules lower loaded
          \<lparr>screen = ti_content i, input_osc_title = ti_osc_title i, input_osc_progress = ti_osc_progress i\<rparr>) = Some r"
    and "manifest_detect lower cache g (ti_content i) (ti_osc_title i) (ti_osc_progress i)
          = Some (detect_with_osc rules g (ti_content i) (ti_osc_title i) (ti_osc_progress i))"
    and "manifest_skips lower cache g (ti_content i) = Some (skip_state_update rules g (ti_content i))"
  shows "detect_agent_with_osc rules (Some g) (ti_content i) (ti_osc_title i) (ti_osc_progress i)
      = detection_of_rule (Some r)
    \<and> (\<forall>st blocker working exited t.
         StateChanged (Some g) st blocker working exited t \<in> set (fst (detection_tick PaneTask rules i d)) \<longrightarrow>
           st = Idle \<and> \<not> blocker \<and> \<not> working \<and> \<not> exited)"
proof -
  have "detect_agent_with_osc rules (Some g) (ti_content i) (ti_osc_title i) (ti_osc_progress i) = detection_of_rule (Some r)"
    using manifest_detect_foremost [of "ti_content i" "ti_osc_title i" "ti_osc_progress i" cache g loaded lower] assms(1,2,5,6)
    by (simp add: no_carriage_return_def detect_agent_with_osc_def)
  moreover have "skip_state_update rules g (ti_content i)"
    using manifest_skips_foremost [of "ti_content i" cache g loaded lower] assms(1-4,7)
    by (simp add: no_carriage_return_def)
  note silent = kept_state_is_silent [of rules g i, OF this]
  have "st = Idle \<and> \<not> blocker \<and> \<not> working \<and> \<not> exited"
    if sent: "StateChanged (Some g) st blocker working exited t \<in> set (fst (detection_tick PaneTask rules i d))"
    for st blocker working exited t
  proof -
    obtain effects d' where tick: "detection_tick PaneTask rules i d = (effects, d')" by fastforce
    then obtain suppressed d1 agent changed started d2 where
      probed: "(if should_check_process i suppressed d1 then probe_phase PaneTask i suppressed d1
        else (current_agent (presence d1), False, [], d1)) = (agent, changed, started, d2)"
      and rest: "effects = started \<or> (\<exists>gc ex d3. effects =
        started @ fst (read_screen PaneTask rules i suppressed gc agent changed ex d3))"
      by (rule detection_tick_cases) (metis fst_conv)
    have "StateChanged (Some g) st blocker working exited t \<in> set started"
    proof (rule ccontr)
      assume late: "\<not> ?thesis"
      then obtain gc ex d3 where read: "StateChanged (Some g) st blocker working exited t
          \<in> set (fst (read_screen PaneTask rules i suppressed gc agent changed ex d3))"
        using sent rest by (auto simp: tick)
      then have "agent = Some g" using read_screen_names_the_agent by metis
      with read show False by (simp add: silent)
    qed
    then show ?thesis using probed by (cases "should_check_process i suppressed d1") (auto dest: probe_starts_idle)
  qed
  ultimately show ?thesis by blast
qed

text \<open>The tick of the witness: a pane whose agent is Codex, with its transcript on the screen.\<close>

definition transcript_tick :: tick_input where
  "transcript_tick = \<lparr>ti_now = 5000, ti_shell_pid = 0, ti_lifecycle_active = False, ti_foreground_pgid = (\<lambda>_. None),
     ti_leader_job = (\<lambda>_. None), ti_foreground_job = (\<lambda>_. None), ti_agent_hint = (\<lambda>_. None), ti_resolve = (\<lambda>_. None),
     ti_content = transcript_screen, ti_content_seq = 1, ti_osc_title = lit ''Action Required'', ti_osc_progress = []\<rparr>"

lemma transcript_tick_fields:
  "ti_content transcript_tick = transcript_screen" "ti_osc_title transcript_tick = lit ''Action Required''"
  "ti_osc_progress transcript_tick = []"
  by (simp_all add: transcript_tick_def)

definition codex_screens :: screen_rules where
  "codex_screens = \<lparr>detect_with_osc = (\<lambda>g content title progress.
       unwrap_or (manifest_detect to_lowercase codex_cache g content title progress) (detection_of_rule None)),
     skip_state_update = (\<lambda>g content. unwrap_or (manifest_skips to_lowercase codex_cache g content) False)\<rparr>"

theorem keeping_the_state_ignores_titles_witness:
  "det_visible_blocker (detect_agent_with_osc codex_screens (Some Codex) transcript_screen (lit ''Action Required'') [])
   \<and> (\<forall>working exited t. StateChanged (Some Codex) Blocked True working exited t
        \<notin> set (fst (detection_tick PaneTask codex_screens transcript_tick (new_detector PaneTask (Some Codex) 0))))"
proof -
  have computed: "codex_cache Codex \<noteq> None" "13 \<notin> set (ti_content transcript_tick)"
    "map_option (\<lambda>loaded. foremost (applicable_rules to_lowercase loaded
        \<lparr>screen = ti_content transcript_tick, input_osc_title = [], input_osc_progress = []\<rparr>)) (codex_cache Codex)
      = Some (Some transcript_rule)"
    "map_option (\<lambda>loaded. foremost (applicable_rules to_lowercase loaded
        \<lparr>screen = ti_content transcript_tick, input_osc_title = ti_osc_title transcript_tick,
         input_osc_progress = ti_osc_progress transcript_tick\<rparr>)) (codex_cache Codex) = Some (Some title_rule)"
    "rule_skip_state_update transcript_rule" "det_visible_blocker (detection_of_rule (Some title_rule))"
    "manifest_detect to_lowercase codex_cache Codex (ti_content transcript_tick) (ti_osc_title transcript_tick)
        (ti_osc_progress transcript_tick)
      = Some (detect_with_osc codex_screens Codex (ti_content transcript_tick) (ti_osc_title transcript_tick)
        (ti_osc_progress transcript_tick))"
    "manifest_skips to_lowercase codex_cache Codex (ti_content transcript_tick)
      = Some (skip_state_update codex_screens Codex (ti_content transcript_tick))"
    by code_simp+
  then obtain loaded where loaded: "codex_cache Codex = Some loaded" by blast
  from computed(3,4) have
    "foremost (applicable_rules to_lowercase loaded
        \<lparr>screen = ti_content transcript_tick, input_osc_title = [], input_osc_progress = []\<rparr>) = Some transcript_rule"
    "foremost (applicable_rules to_lowercase loaded
        \<lparr>screen = ti_content transcript_tick, input_osc_title = ti_osc_title transcript_tick,
         input_osc_progress = ti_osc_progress transcript_tick\<rparr>) = Some title_rule"
    by (simp_all add: loaded)
  note claim = keeping_the_state_ignores_titles [OF computed(2) loaded this(1) computed(5) this(2) computed(7,8),
      of "new_detector PaneTask (Some Codex) 0"]
  have "det_visible_blocker (detect_agent_with_osc codex_screens (Some Codex) (ti_content transcript_tick)
      (ti_osc_title transcript_tick) (ti_osc_progress transcript_tick))"
    using claim computed(6) by metis
  moreover have "\<forall>working exited t. StateChanged (Some Codex) Blocked True working exited t
        \<notin> set (fst (detection_tick PaneTask codex_screens transcript_tick (new_detector PaneTask (Some Codex) 0)))"
    using claim by blast
  ultimately show ?thesis by (simp add: transcript_tick_fields)
qed

section \<open>Validation\<close>

text \<open>C29. What passes the validation compiles and stays within its limits: at least one and at most 128
  rules, at most 512 gates and 1024 matchers over all of them, at most eight gates below the gate of a rule,
  at most 32 matchers in a gate and 512 characters in a matcher; every pattern is one the crate accepts.\<close>

theorem validated_manifest_is_bounded:
  assumes "parse_manifest l content = Inr m"
  shows "(\<exists>rules. compile_manifest (rx_crate l) (lowercase l) m = Inr rules \<and> length rules = length (manifest_rules m))
    \<and> manifest_rules m \<noteq> [] \<and> length (manifest_rules m) \<le> 128
    \<and> sum_list (map (\<lambda>r. gate_count (rule_gate r)) (manifest_rules m)) \<le> 512
    \<and> sum_list (map (\<lambda>r. matcher_count (rule_gate r)) (manifest_rules m)) \<le> 1024
    \<and> (\<forall>r \<in> set (manifest_rules m). gate_ok (rx_crate l) 8 (rule_gate r))"
  using validated_compiles [OF parse_manifest_valid [OF assms], of "lowercase l"]
    validated_bounds [OF parse_manifest_valid [OF assms]]
  by (auto simp: limits)

theorem validated_manifest_is_bounded_witness:
  "parse_manifest codex_loader (lit ''bundled'') = Inr codex_manifest
   \<and> gate_ok (rx_crate codex_loader) 8 (rule_gate transcript_rule)"
proof -
  have parsed: "parse_manifest codex_loader (lit ''bundled'') = Inr codex_manifest" by code_simp
  have "transcript_rule \<in> set (manifest_rules codex_manifest)" by (simp add: codex_manifest_def)
  with validated_manifest_is_bounded [OF parsed] parsed show ?thesis by blast
qed

section \<open>Where a manifest comes from\<close>

text \<open>C28. Which manifest an agent gets: the one the user put there if it can be read, is valid and names the
  agent; otherwise the one the update check left, under the same conditions and when it is not older than
  the one of the program; otherwise the one of the program. It is valid and compiled, loading it never
  panics, and there is a warning exactly when a file is there that is not used and not replaced.\<close>

theorem best_usable_manifest_is_loaded:
  assumes "bundled_manifest l agent = Some (Some bundled)"
  shows "\<exists>loaded. load_manifest_uncached l fs agent = Some (Some loaded)
    \<and> validate_manifest (rx_crate l) (lm_manifest loaded) = Inr ()
    \<and> compile_manifest (rx_crate l) (lowercase l) (lm_manifest loaded) = Inr (lm_compiled_rules loaded)
    \<and> (lm_manifest loaded, lm_source loaded) = chosen_manifest l fs agent bundled
    \<and> (lm_warning loaded \<noteq> None \<longleftrightarrow> unused_file l fs agent bundled)"
  using load_outcome_holds [OF assms, of fs] by (simp add: load_outcome_def well_loaded_def)

definition newer_files :: file_tree where
  "newer_files = without_files(remote_manifest_path codex_loader Codex := TextFile (lit ''newer''))"

theorem best_usable_manifest_is_loaded_witness:
  "\<exists>loaded. load_manifest_uncached codex_loader newer_files Codex = Some (Some loaded)
     \<and> manifest_version (lm_manifest loaded) = Some (lit ''2026.08'') \<and> lm_warning loaded = None"
proof -
  have bundled: "bundled_manifest codex_loader Codex = Some (Some codex_manifest)" by code_simp
  have "manifest_version (fst (chosen_manifest codex_loader newer_files Codex codex_manifest)) = Some (lit ''2026.08'')"
    "\<not> unused_file codex_loader newer_files Codex codex_manifest" by code_simp+
  with best_usable_manifest_is_loaded [OF bundled, of newer_files] show ?thesis by (metis fst_conv)
qed

section \<open>Updates\<close>

text \<open>C27. A check for updates only moves forward. Whatever the network answers and whichever writes fail, a
  manifest that was downloaded before is afterwards the same or one of a higher version; the file of an agent
  changes exactly when the event names the agent, which it does at most once and with the version that is now
  in the file; no other file changes; the status tells the version of every agent that was updated; and the
  manifests in use afterwards are the ones of the files as they are now.\<close>

theorem updates_only_move_forward:
  assumes "auto_update l toml_catalog write_error fetch save_error check_time loaded fs manifests url
      = (fs', manifests', updated, status)"
    and "build_manifest_cache l fs = Some manifests"
  shows "(\<forall>a. not_behind (cached_remote_version l fs' a) (cached_remote_version l fs a))
    \<and> (\<forall>a. update_of l fs fs' a (commits_of a updated))
    \<and> (\<forall>path. path \<notin> range (remote_manifest_path l) \<longrightarrow> fs' path = fs path)
    \<and> (\<forall>c \<in> set updated. status_accurate l fs' status (commit_agent c))
    \<and> manifests' = build_manifest_cache l fs'"
proof -
  note effect = auto_update_effect [OF assms(1)]
  have "\<forall>a. not_behind (cached_remote_version l fs' a) (cached_remote_version l fs a)"
    using effect(1) update_of_forward by blast
  then show ?thesis using effect(1,2,4) effect(3) [OF assms(2)] by (simp add: only_remote_files_def)
qed

definition codex_catalog :: "text \<Rightarrow> text + manifest_catalog" where
  "codex_catalog content = Inr \<lparr>schema_version = 1,
     catalog_entries = [\<lparr>entry_id = lit ''codex'', entry_path = lit ''codex.toml''\<rparr>]\<rparr>"

definition example_update ::
    "file_tree \<times> (agent \<times> loaded_manifest option) list option \<times> update_commit list \<times> update_status" where
  "example_update = auto_update codex_loader codex_catalog (\<lambda>_. None) (\<lambda>_. Inr (lit ''newer'')) None 1
     \<lparr>last_check_unix = None, last_result = None, status_agents = \<lambda>_. None\<rparr> without_files
     (case build_manifest_cache codex_loader without_files of Some manifests \<Rightarrow> manifests | None \<Rightarrow> []) (lit ''http://h/i'')"

theorem updates_only_move_forward_witness:
  "case example_update of (fs', manifests', updated, status) \<Rightarrow>
     updated = [\<lparr>commit_agent = Codex, commit_version = lit ''2026.08''\<rparr>]
     \<and> cached_remote_version codex_loader fs' Codex = Some (lit ''2026.08'')
     \<and> manifests' = build_manifest_cache codex_loader fs'"
proof -
  obtain fs' manifests' updated status where update: "example_update = (fs', manifests', updated, status)"
    by (cases example_update) auto
  have "fst (snd (snd example_update)) = [\<lparr>commit_agent = Codex, commit_version = lit ''2026.08''\<rparr>]" by code_simp
  then have updated: "updated = [\<lparr>commit_agent = Codex, commit_version = lit ''2026.08''\<rparr>]" by (simp add: update)
  have "build_manifest_cache codex_loader without_files \<noteq> None" by code_simp
  then have cache: "build_manifest_cache codex_loader without_files
      = Some (case build_manifest_cache codex_loader without_files of Some manifests \<Rightarrow> manifests | None \<Rightarrow> [])" by auto
  from updates_only_move_forward [OF update [unfolded example_update_def] cache]
  have "update_of codex_loader without_files fs' Codex (commits_of Codex updated)"
    "manifests' = build_manifest_cache codex_loader fs'" by blast+
  then show ?thesis by (simp add: update updated update_of_def)
qed

end
