(* ===== verification/Spec2Isabelle.thy ===== *)
theory Spec2Isabelle
  imports Agent_Properties Layout_Claims Detection_Claims Input_Claims App_Claims Title_Claims Manifest_Claims
begin

text \<open>
  A model of the core of vimeflow-terminal, a terminal multiplexer for coding agents.

  \<^bold>\<open>The program.\<close> The server owns a set of terminals. In each of them an agent (a command line
  program such as pi, claude or codex) may run, and the server has to say at any moment which
  agent that is and whether it works, waits or is blocked. Two witnesses report on it. The screen
  is read after every output and the foreground process is looked up (\<open>src/detect\<close>); and an
  integration installed in the agent reports life-cycle events through hooks, in any order, late,
  twice, or after the agent is gone. \<open>TerminalState\<close> (\<open>src/terminal/state.rs\<close>) arbitrates
  between the two, remembers the session of the agent so that it can be resumed
  (\<open>src/agent_resume.rs\<close>), and carries titles, labels and tokens with deadlines
  (\<open>src/terminal/metadata.rs\<close>, \<open>src/metadata_tokens.rs\<close>). What the detection sees reaches the
  terminal through a task per pane (\<open>src/pane.rs\<close>, \<open>src/pane/agent_detection.rs\<close>) that polls the
  foreground process and the screen, waits until an observation is stable, and sends events. The
  terminals of a tab are placed by a binary tree of splits (\<open>src/layout.rs\<close>). Tabs are grouped in
  workspaces (\<open>src/workspace.rs\<close>, \<open>src/workspace/tab.rs\<close>), the workspaces of a session are kept by
  the application (\<open>src/app/state.rs\<close>, \<open>src/app/actions.rs\<close>), and clients act on workspaces, tabs
  and panes by their public identifiers (\<open>src/app/ids.rs\<close>) through the requests of the API
  (\<open>src/app/api/workspaces.rs\<close>, \<open>src/app/api/tabs.rs\<close>, \<open>src/app/api/panes.rs\<close>). Keys go to the
  terminal that has the focus, except that a key that is held down stays with the terminal that
  got its press (\<open>src/app/input/lease.rs\<close>). The label of a pane follows the title of its agent, unless
  somebody gave it one (\<open>src/title_sync\<close>, \<open>src/app/title_sync.rs\<close>). What a screen says about an
  agent is decided by the rules of a manifest, of which the program has one for each agent and which
  the user and a check for updates can replace (\<open>src/detect/manifest.rs\<close>,
  \<open>src/detect/manifest_update.rs\<close>).

  \<^bold>\<open>The theories\<close>, in the order of their imports:
    \<^item> \<open>Prelude\<close>: options, hash maps as association lists with one entry per key, instants and
      durations in nanoseconds, the saturating operations on \<open>u16\<close>; the collections \<open>opt_simps\<close> and
      \<open>hm_simps\<close>. \<open>Rust_Text\<close>: strings as lists of Unicode scalar values, with the operations of
      \<open>str\<close> the program uses.
    \<^item> \<open>Detect\<close>: \<open>src/detect/mod.rs\<close>, the names of the agents, the classes of the integrations and
      the search for the agent of a foreground job.
    \<^item> \<open>Agent_Resume\<close>: \<open>src/agent_resume.rs\<close>, session references, snapshots, resume plans.
    \<^item> \<open>Sequence_Gate\<close>: the contract of a gate that takes the numbered reports of a source in order,
      as the locales \<open>sequence_gate\<close> and \<open>bounded_gate\<close>. It is interpreted on the three gates of the
      program: \<open>accept_sequence\<close> (in \<open>Metadata_Tokens\<close>), \<open>accept_hook_report\<close> and
      \<open>accept_metadata_report\<close> (in \<open>Terminal_Reports\<close>).
    \<^item> \<open>Metadata_Tokens\<close>: \<open>src/metadata_tokens.rs\<close>.
    \<^item> \<open>Terminal_State\<close>: the record \<open>terminal_state\<close>, whose fields are those of \<open>TerminalState\<close>, and
      its queries, up to \<open>arbitrated_state\<close> and \<open>recompute_effective_state\<close>. \<open>Terminal_Hooks\<close>: the
      routing and suppression of hook reports. \<open>Terminal_Ops\<close>: hook reports, session reports,
      clears, releases and observations of the process. \<open>Terminal_Metadata\<close>: reports, visibility and
      expiry of metadata. \<open>Terminal_Lifecycle\<close>: names, managed launches, titles.
    \<^item> \<open>Terminal_Frame\<close>: which fields decide what a terminal shows, and which operations leave them
      alone. \<open>Terminal_Machine\<close>: operations as events, and the accuracy of their reports.
      \<open>Terminal_Invariant\<close> and \<open>Terminal_Reachable\<close>: the invariant and the terminals a program can
      reach; the latter interprets the locale \<open>invariant\<close> of \<open>Machine\<close>. \<open>Terminal_Order\<close>: which
      reports a run accepts, and when the recorded numbers and the stale sessions start afresh.
    \<^item> \<open>Terminal_Scenario\<close>: a concrete session of the agent pi. \<open>Terminal_Exit\<close>, \<open>Terminal_Reports\<close>,
      \<open>Terminal_Timers\<close>, \<open>Agent_Properties\<close>: the properties.
    \<^item> \<open>Float32\<close>: IEEE 754 binary32 values and the operations the layout uses on its ratios.
      \<open>Layout\<close>: \<open>src/layout.rs\<close>. \<open>Layout_Properties\<close>: its invariant, a second interpretation of
      \<open>invariant\<close>. \<open>Layout_Claims\<close>: its properties.
    \<^item> \<open>Screen_Publish\<close>: \<open>src/pane/agent_detection.rs\<close>, which observations of the screen are
      published. \<open>Process_Probe\<close>: the functions of \<open>src/pane.rs\<close> on the foreground process and on
      the presence of an agent. \<open>Detection_Task\<close>: one tick of the detection loop, of which
      \<open>src/pane.rs\<close> has two copies, as \<open>detection_tick\<close>; its local variables are the record
      \<open>detector\<close>, what the operating system and the screen answer is the record \<open>tick_input\<close>, and
      the events it sends are values of \<open>detector_effect\<close>. \<open>Detection_Machine\<close>: the phases of a
      tick, the runs of a task and their invariant, a third interpretation of \<open>invariant\<close>.
      \<open>Detection_Claims\<close>: the properties, also of the task composed with the terminal.
    \<^item> \<open>Input_Lease\<close>: \<open>src/app/input/lease.rs\<close> and the handler of key events in
      \<open>src/app/runtime.rs\<close>. \<open>Input_Claims\<close>: its properties.
    \<^item> \<open>Public_Ids\<close>: the numbers and texts of public identifiers, and the allocation of workspace and
      terminal identifiers. \<open>Tabs\<close> and \<open>Workspaces\<close>: \<open>src/workspace/tab.rs\<close>, \<open>src/workspace.rs\<close> and
      \<open>src/workspace/aggregate.rs\<close>; a \<open>Tab\<close> and a \<open>Workspace\<close> are the records \<open>tab\<close> and
      \<open>workspace\<close>, and the three global counters are the record \<open>allocators\<close>. \<open>Tab_Invariant\<close>,
      \<open>Workspace_Invariant\<close>, \<open>Workspace_Ops\<close>, \<open>Workspace_Moves\<close>: when a tab and a workspace are well
      formed, and what each operation does to their panes and terminals.
    \<^item> \<open>Sessions\<close>: \<open>src/app/ids.rs\<close> and the request that moves a pane. \<open>Session_Ids\<close>: what an
      identifier parses to. \<open>Session_Invariant\<close>, \<open>Session_Moves\<close>, \<open>Session_Transfer\<close>,
      \<open>Session_Pane_Move\<close>: the invariant of the workspaces of a session, and the move step by step.
    \<^item> \<open>Session_Actions\<close>: what \<open>src/app/actions.rs\<close> does when a workspace is shown, moved or closed
      and when a process ends. \<open>Session_Requests\<close>: the requests of the API; the fields of \<open>AppState\<close>
      they change are the records \<open>session\<close> and \<open>app\<close>. \<open>App_Invariant\<close>, \<open>App_Closing\<close>,
      \<open>App_Requests\<close>, \<open>App_Starts\<close>: each request keeps the invariant. \<open>App_Machine\<close>: the requests as
      the step relation \<open>app_step\<close>, a fourth interpretation of \<open>invariant\<close>. \<open>App_Assertions\<close>: what
      the tests of the program assert of a state. \<open>App_Answers\<close>: a created tab, workspace or pane is
      there to be described. \<open>App_Responses\<close>: the descriptions in \<open>src/app/creation.rs\<close> and each
      handler with its answer (\<open>answer_*\<close>), where a missing part that the code unwraps is a panic; the
      operations of \<open>Session_Requests\<close> are the handlers without their answers. \<open>App_Aliases\<close>: what
      moving and closing a pane does to the aliases. \<open>App_Scenario\<close>, \<open>App_Claims\<close>: the properties and a
      short session for their witnesses.
    \<^item> \<open>Title_Policy\<close>: \<open>src/title_sync/policy.rs\<close>, \<open>src/title_sync/readers.rs\<close> and
      \<open>src/title_sync/orchestration.rs\<close>, the title of an agent and the decision over a label.
      \<open>Title_Sync\<close>: what the worker and the engine of \<open>src/title_sync/engine.rs\<close> do, and how
      \<open>src/app/title_sync.rs\<close> and \<open>src/app/pane_label.rs\<close> apply a result. \<open>Title_Facts\<close>,
      \<open>Title_Files\<close>: titles are words, and each pane has a file of its own. \<open>Title_Panes\<close>,
      \<open>Title_Round\<close>, \<open>Title_Settles\<close>: one label, the result for one pane, and a round over all of
      them. \<open>Title_Machine\<close>: engine, worker and application as the step relation \<open>world_step\<close>, a
      fifth interpretation of \<open>invariant\<close>. \<open>Title_Claims\<close>: the properties.
    \<^item> \<open>Manifest_Regions\<close>: the parts of a screen the rules look at, as slices at byte offsets and, for
      reference, as lists of lines. \<open>Manifest_Rules\<close>: gates and rules, their compilation, and the
      evaluation of a manifest as \<open>detect_with_osc\<close>, \<open>should_skip_state_update\<close> and the explanation
      use it. \<open>Manifest_Lines\<close>, \<open>Manifest_Whole_Lines\<close>: slices at the starts of lines, and that every
      region is one. \<open>Manifest_Validation\<close>: the validation, and what it establishes.
      \<open>Manifest_Versions\<close>: versions and their order. \<open>Manifest_Loading\<close>: which manifest an agent has,
      and the cache. \<open>Manifest_Updates\<close>: the check for updates. \<open>Manifest_Facts\<close>: the rule that
      decides, and what an update leaves. \<open>Manifest_Claims\<close>: the properties, with two of the seven rules
      of Codex as the example of their witnesses.

  \<^bold>\<open>How the code is modelled.\<close> A method with \<open>&mut self\<close> takes the state and returns it
  updated, with the method's own result in front. \<open>Instant::now()\<close> is an argument (\<open>clk\<close>, where a
  method also has a parameter \<open>now\<close>), so nothing assumes that a clock only advances unless a
  statement says so. A \<open>HashMap\<close> is a list of entries with distinct keys (\<open>hm_wf\<close>); where the code
  iterates over one, the model takes the order of the list, and properties hold for every such
  order. Integers keep their width: ranges of the layout add with wrap-around, as a release build
  does. Long methods are split where the code has a block of its own, and each part names the
  lines it stands for.

  \<^bold>\<open>Parameters and hypotheses.\<close> \<open>Rect::new\<close> belongs to ratatui and is the parameter \<open>rn\<close> of the
  layout; the tiling property relies on \<open>rect_ctor_keeps\<close>, its documented behaviour on rectangles
  that end within the 16-bit coordinates. Looking up the file name behind a path on disk is the
  parameter \<open>resolve\<close> of the detection. \<open>Path::is_absolute\<close> follows the rule of Unix. Lower case is
  modelled for the letters the program compares with. What a manifest says about a screen is for the
  detection task the record of functions \<open>screen_rules\<close>, of which nothing is assumed; for the
  manifests themselves the crates \<open>toml\<close> and \<open>regex\<close>, lower case, the texts compiled into the program,
  the directories and the rendering of a warning are the record \<open>loader\<close>, files are the function
  \<open>fs\<close>, \<open>curl\<close> is \<open>fetch\<close>, and which writes fail \<open>write_error\<close>, again without assumptions; that the
  manifest compiled into the program is valid, which a test of the repository checks, is a
  hypothesis only of the property on loading. The application around the
  lease table is the record \<open>key_ops\<close>: handling a key may change everything, the table included,
  forwarding a key only what is outside the table; key codes and modifiers are type variables.
  Starting a process is the parameter \<open>spawn\<close>, which fails or gives a runtime, and what git knows
  of a directory is the record \<open>git_answers\<close>; nothing is assumed of either. The time at which a
  terminal is created, the directory a process starts in and the setting that asks before a group
  of worktrees is closed are arguments. The steps of the application carry two guards: no counter
  is about to wrap round (\<open>room\<close>, \<open>all_room\<close>), and the clock shows a time between 1978 and 2112
  (\<open>clock_in_range\<close>), in which terminal identifiers, a time followed by a counter without a
  separator, cannot collide. What the files and the database of the agents hold is the record
  \<open>title_files\<close>, the foreground job of a shell the function \<open>job\<close>, and \<open>str::to_lowercase\<close> the
  function \<open>lower\<close>; nothing is assumed of them, and which ownership files can be written is the
  predicate \<open>ok\<close>, which only the settling of titles takes to be always true. An outer \<open>None\<close> is a panic.

  \<^bold>\<open>What the lemmas show.\<close> On every reachable terminal the stored state is the arbitrated one, every
  report is accurate, and the books of suppressed and stale reports are in order; an exited agent
  is not shown again before its process is seen, unless an unofficial integration held it with a
  report newer than the observed exit; reports of a replaced session are ignored until the next
  session report or observation; the numbers of accepted hook reports increase, except after one that
  starts its session afresh; the gates are monotone and bounded; timers remove what is due and wake in time; a session reference
  survives a snapshot, and its plan runs the agent it names. On every reachable layout the panes
  tile the area, the navigation finds a pane that is level with the focused one and closest to it in
  the direction, stated on the edges of the rectangles, and each operation on the tree changes what it says and nothing else. Whoever
  follows the events of a detection task knows what it knows; an exit is reported before the agent
  is forgotten and ends the agent of the terminal; single failed probes and idle screens change
  nothing, and lasting ones are believed within a fixed number of observations. A held key that
  generates no text stays with its terminal, a consumed one reaches nothing, and no key stays pressed when its source goes.
  On every reachable state of the application the assertions of its tests hold, except the one about
  aliases, which every pane breaks that moved to another workspace and is then closed; the recorded terminals are exactly the attached ones and none
  is lost; a moved pane arrives with its terminal and answers to its old identifier; a refused move
  or split changes nothing; identifiers parse back; and no request panics, its answer
  included, but one, the move of a pane to a workspace whose number is too large; a block of
  workspaces is moved in one piece before the one that is named, the others keep their order. A label
  somebody gave is kept if it has a visible character, the titles settle when the agents do and the
  ownership files can be written, at most one resolution is under way, and the engine rests only when the last
  result was for the present generation. The regions of a screen without carriage returns are whole
  lines, the detection is that of the first matching rule of the highest priority, its evidence agrees
  with its state, a validated manifest compiles and is bounded, the best usable manifest is loaded,
  and an update never goes back. With carriage returns the region after the prompt
  can panic, whatever the manifest is, and a rule that keeps the state holds back what a rule for the
  title with a higher priority sees.

  \<^bold>\<open>Termination and bounds.\<close> No fuel is used: every recursion of the model is structural or has a
  measure. The bounds of the program (32 sources of tokens, 512 bytes of a session identifier, 4096
  of a path, 128 rules, 512 gates and 1024 matchers of a manifest) are its own constants.

  \<^bold>\<open>Not modelled.\<close> Processes, sockets, PTYs, drawing, the network, and the way files are written;
  poisoned locks and the overflow of an \<open>Instant\<close>. Of the manifests: the rule files that are compiled
  into the program, and the JSON of an explanation. Of the application: the text of the responses beyond
  the descriptions, in these the label and the tokens of a workspace and the directories of a pane, and
  the events; the animation, which the code clears whenever a pane is to be moved, even when it then
  refuses; plugins, copy mode, notifications, worktrees, the requests that only read, the swap and the resize of panes and the metadata reports of the API, waits, subscriptions and
  the event hub, and the display names. The encodings of keys and of the wire protocol, selections,
  the configuration, the snapshots of a session and the state of git stand at the edge of the
  program: they translate between its state and bytes, files or other programs. A layout starts with one
  pane; \<open>TileLayout::from_saved\<close>, which takes over the ratios of a file
  unchecked, is not a start. An event of the detection is followed into the terminal, with the look at
  the launch under way, but not into what \<open>update_terminal_state\<close> then tells the application. A check
  for updates asks each address once or gets the same answer again. The pane counter is
  only shown not to repeat an identifier while fewer than \<open>2 ^ 32 - 1\<close> panes were allocated.
\<close>

end
